(* ===== verification/Prelude.thy ===== *)
theory Prelude
  imports Main "HOL-Library.Char_ord" "HOL-Library.List_Lexorder" "HOL-Library.Product_Lexorder"
    "HOL-Library.Monad_Syntax" "HOL-Library.Word" "HOL-Library.Multiset"
begin

section \<open>Shared vocabulary of the development\<close>

text \<open>
  What every component uses: Go errors as values, results as sums, the keyed tables behind
  the SQLite stores, sorting by a key, and the locale of an invariant-preserving machine.

  \<^item> A Go \<open>error\<close> built with \<open>errors.New\<close> or \<open>fmt.Errorf\<close> is a \<open>go_error\<close>: the format
    string of the source and its arguments, with the wrapped error where the format has a
    \<open>%w\<close>. \<open>errors.Is\<close> walks the chain of wrapped errors.
  \<^item> A function that returns \<open>error\<close> alone gives a \<open>go_error option\<close> (\<open>None\<close> is \<open>nil\<close>);
    a function that returns a value and an error gives a sum, \<open>Inl\<close> the error.
  \<^item> Go strings are byte sequences: \<open>string\<close>, compared bytewise by the lexicographic order
    of \<open>List_Lexorder\<close> over \<open>Char_ord\<close>.
\<close>

named_theorems validate_simps \<open>unfolding of the validation functions\<close>
named_theorems table_simps \<open>facts about keyed tables\<close>

subsection \<open>Errors\<close>

datatype fmt_arg = ArgS string | ArgD int

datatype go_error =
    Errorf string "fmt_arg list"
  | Wrapf string "fmt_arg list" go_error

abbreviation New :: "string \<Rightarrow> go_error" where
  "New msg \<equiv> Errorf msg []"

abbreviation Wrap :: "string \<Rightarrow> go_error \<Rightarrow> go_error" where
  "Wrap msg e \<equiv> Wrapf msg [] e"

type_synonym 'a result = "go_error + 'a"

fun errors_Is :: "go_error \<Rightarrow> go_error \<Rightarrow> bool" where
  "errors_Is (Errorf m as) t = (Errorf m as = t)"
| "errors_Is (Wrapf m as e) t = (Wrapf m as e = t \<or> errors_Is e t)"

text \<open>A chain of \<open>switch\<close> cases that each return an error: the first failing guard wins.\<close>

fun first_error :: "(bool \<times> go_error) list \<Rightarrow> go_error option" where
  "first_error [] = None"
| "first_error ((failed, e) # rest) = (if failed then Some e else first_error rest)"

lemma first_error_None_iff [simp]:
  "first_error cs = None \<longleftrightarrow> list_all (\<lambda>c. \<not> fst c) cs"
  by (induction cs rule: first_error.induct) auto

lemma first_error_SomeD: "first_error cs = Some e \<Longrightarrow> (True, e) \<in> set cs"
  by (induction cs) (auto split: if_splits)

text \<open>A loop that stops at the first error.\<close>

fun first_failure :: "('a \<Rightarrow> go_error option) \<Rightarrow> 'a list \<Rightarrow> go_error option" where
  "first_failure f [] = None"
| "first_failure f (x # xs) = (case f x of Some e \<Rightarrow> Some e | None \<Rightarrow> first_failure f xs)"

lemma first_failure_None_iff [simp]:
  "first_failure f xs = None \<longleftrightarrow> (\<forall>x \<in> set xs. f x = None)"
  by (induction xs) (auto split: option.splits)

subsection \<open>Loops over a slice that reject duplicate keys\<close>

text \<open>
  The pattern \<open>seen := map[...]; for x { if err := check(x) \<dots>; if seen[key(x)] \<dots> }\<close> occurs in
  several validators: each element is checked, then its key must be new.
\<close>

fun check_distinct ::
  "('a \<Rightarrow> go_error option) \<Rightarrow> ('a \<Rightarrow> 'k) \<Rightarrow> go_error \<Rightarrow> 'k list \<Rightarrow> 'a list \<Rightarrow> go_error option" where
  "check_distinct chk key dup seen [] = None"
| "check_distinct chk key dup seen (x # xs) =
     (case chk x of
        Some e \<Rightarrow> Some e
      | None \<Rightarrow> if key x \<in> set seen then Some dup
                else check_distinct chk key dup (key x # seen) xs)"

lemma check_distinct_None_iff:
  "check_distinct chk key dup seen xs = None \<longleftrightarrow>
     (\<forall>x \<in> set xs. chk x = None) \<and> distinct (map key xs) \<and> set (map key xs) \<inter> set seen = {}"
proof (induction xs arbitrary: seen)
  case Nil
  then show ?case by simp
next
  case (Cons x xs)
  then show ?case by (cases "chk x") auto
qed

lemma check_distinct_Nil_None_iff [simp]:
  "check_distinct chk key dup [] xs = None \<longleftrightarrow>
     (\<forall>x \<in> set xs. chk x = None) \<and> distinct (map key xs)"
  by (simp add: check_distinct_None_iff)

subsection \<open>Keyed tables\<close>

text \<open>
  A SQL table with a primary key is the list of its rows. A statement addressed by the key
  finds, replaces or removes the rows with that key; \<open>distinct (map key rows)\<close> is the
  primary-key constraint.
\<close>

definition tbl_lookup :: "('r \<Rightarrow> 'k) \<Rightarrow> 'k \<Rightarrow> 'r list \<Rightarrow> 'r option" where
  "tbl_lookup key k rows = find (\<lambda>r. key r = k) rows"

definition tbl_update :: "('r \<Rightarrow> bool) \<Rightarrow> ('r \<Rightarrow> 'r) \<Rightarrow> 'r list \<Rightarrow> 'r list" where
  "tbl_update sel f rows = map (\<lambda>r. if sel r then f r else r) rows"

definition tbl_affected :: "('r \<Rightarrow> bool) \<Rightarrow> 'r list \<Rightarrow> nat" where
  "tbl_affected sel rows = length (filter sel rows)"

definition tbl_upsert :: "('r \<Rightarrow> 'k) \<Rightarrow> 'r \<Rightarrow> ('r \<Rightarrow> 'r) \<Rightarrow> 'r list \<Rightarrow> 'r list" where
  "tbl_upsert key r merge rows =
     (if key r \<in> set (map key rows) then tbl_update (\<lambda>q. key q = key r) merge rows
      else rows @ [r])"

definition tbl_keyed :: "('r \<Rightarrow> 'k) \<Rightarrow> 'r list \<Rightarrow> bool" where
  "tbl_keyed key rows \<longleftrightarrow> distinct (map key rows)"

lemma tbl_lookup_Nil [simp]: "tbl_lookup key k [] = None"
  by (simp add: tbl_lookup_def)

lemma tbl_lookup_Cons [simp]:
  "tbl_lookup key k (r # rows) = (if key r = k then Some r else tbl_lookup key k rows)"
  by (simp add: tbl_lookup_def)

lemma tbl_lookup_append:
  "tbl_lookup key k (xs @ ys) =
     (case tbl_lookup key k xs of None \<Rightarrow> tbl_lookup key k ys | Some r \<Rightarrow> Some r)"
  by (induction xs) auto

lemma tbl_lookup_None_iff [simp]:
  "tbl_lookup key k rows = None \<longleftrightarrow> k \<notin> key ` set rows"
  by (induction rows) auto

lemma tbl_lookup_fresh [simp]: "k \<notin> key ` set rows \<Longrightarrow> tbl_lookup key k rows = None"
  by simp

lemma tbl_lookup_SomeD:
  "tbl_lookup key k rows = Some r \<Longrightarrow> r \<in> set rows \<and> key r = k"
  by (induction rows) (auto split: if_splits)

lemma tbl_lookup_eq_Some_iff:
  "tbl_keyed key rows \<Longrightarrow> tbl_lookup key k rows = Some r \<longleftrightarrow> r \<in> set rows \<and> key r = k"
  unfolding tbl_keyed_def by (induction rows) (auto simp: image_iff)

lemma tbl_lookup_update:
  assumes "\<And>r. key (f r) = key r"
  shows "tbl_lookup key k (tbl_update (\<lambda>r. key r = k' \<and> sel r) f rows) =
    map_option (\<lambda>r. if k = k' \<and> sel r then f r else r) (tbl_lookup key k rows)"
  using assms by (induction rows) (auto simp: tbl_update_def)

lemma map_key_tbl_update [simp]:
  assumes "\<And>r. key (f r) = key r"
  shows "map key (tbl_update sel f rows) = map key rows"
  using assms by (simp add: tbl_update_def comp_def if_distrib)

lemma tbl_keyed_update [intro]:
  "(\<And>r. key (f r) = key r) \<Longrightarrow> tbl_keyed key rows \<Longrightarrow> tbl_keyed key (tbl_update sel f rows)"
  by (simp add: tbl_keyed_def)

lemma tbl_keyed_snoc [simp]:
  "tbl_keyed key (rows @ [r]) \<longleftrightarrow> tbl_keyed key rows \<and> key r \<notin> key ` set rows"
  by (auto simp: tbl_keyed_def)

lemma tbl_keyed_Nil [simp]: "tbl_keyed key []"
  by (simp add: tbl_keyed_def)

lemma tbl_keyed_filter [intro]: "tbl_keyed key rows \<Longrightarrow> tbl_keyed key (filter P rows)"
  by (simp add: tbl_keyed_def distinct_map_filter)

lemma map_key_tbl_upsert:
  assumes "\<And>q. key q = key r \<Longrightarrow> key (merge q) = key r"
  shows "map key (tbl_upsert key r merge rows) =
    (if key r \<in> set (map key rows) then map key rows else map key rows @ [key r])"
  using assms by (auto simp: tbl_upsert_def tbl_update_def)

lemma tbl_keyed_upsert:
  assumes "\<And>q. key q = key r \<Longrightarrow> key (merge q) = key r" and "tbl_keyed key rows"
  shows "tbl_keyed key (tbl_upsert key r merge rows)"
proof -
  have "map key (tbl_upsert key r merge rows) =
      (if key r \<in> set (map key rows) then map key rows else map key rows @ [key r])"
    by (rule map_key_tbl_upsert) (rule assms(1))
  with assms(2) show ?thesis by (auto simp: tbl_keyed_def)
qed

lemma tbl_lookup_upsert:
  assumes "\<And>q. key q = key r \<Longrightarrow> key (merge q) = key r"
  shows "tbl_lookup key k (tbl_upsert key r merge rows) =
    (if k = key r then Some (case tbl_lookup key k rows of None \<Rightarrow> r | Some q \<Rightarrow> merge q)
     else tbl_lookup key k rows)"
proof (cases "key r \<in> key ` set rows")
  case True
  have "tbl_lookup key k (tbl_update (\<lambda>q. key q = key r) merge rows) =
      map_option (\<lambda>q. if k = key r then merge q else q) (tbl_lookup key k rows)"
    using assms by (induction rows) (auto simp: tbl_update_def)
  with True show ?thesis
    by (cases "tbl_lookup key k rows") (auto simp: tbl_upsert_def option.map_ident)
next
  case False
  then have "tbl_lookup key (key r) rows = None" by simp
  with False show ?thesis
    by (cases "tbl_lookup key k rows")
      (auto simp: tbl_upsert_def tbl_lookup_append simp del: tbl_lookup_None_iff)
qed

lemma tbl_affected_keyed:
  assumes "tbl_keyed key rows"
  shows "tbl_affected (\<lambda>r. key r = k \<and> sel r) rows =
    (case tbl_lookup key k rows of None \<Rightarrow> 0 | Some r \<Rightarrow> if sel r then 1 else 0)"
proof -
  have none: "filter (\<lambda>r. key r = k \<and> sel r) rs = []" if "k \<notin> key ` set rs" for rs
    using that by (auto simp: filter_empty_conv)
  show ?thesis
    using assms unfolding tbl_keyed_def tbl_affected_def
    by (induction rows) (auto simp: none split: option.splits dest!: tbl_lookup_SomeD)
qed

lemmas tbl_facts [table_simps] =
  tbl_lookup_append tbl_lookup_upsert tbl_keyed_upsert tbl_affected_keyed

subsection \<open>Sorting by a key\<close>

text \<open>
  \<open>sort.Slice\<close> with a comparison of keys is \<open>sort_key\<close>. Go's sort is not stable, so the
  order of elements with equal keys is not specified; the callers sort lists with distinct
  keys, for which the result depends on the set of elements only.
\<close>

lemma sort_key_unique:
  assumes "distinct (map f xs)" and "distinct (map f ys)" and "set xs = set ys"
  shows "sort_key f xs = sort_key f ys"
proof -
  have inj: "inj_on f (set xs)" using assms(1) by (simp add: distinct_map)
  have "map f (sort_key f xs) = map f (sort_key f ys)"
  proof (rule sorted_distinct_set_unique)
    show "distinct (map f (sort_key f xs))" "distinct (map f (sort_key f ys))"
      using assms by (simp_all add: distinct_map)
  qed (simp_all add: assms(3))
  then show ?thesis
    using inj assms(3) by (simp add: inj_on_map_eq_map)
qed

lemma sort_key_id_if_sorted: "sorted (map f xs) \<Longrightarrow> sort_key f xs = xs"
  by (simp add: sort_key_id_if_sorted)

lemma map_insort_key: "map f (insort_key f x xs) = insort (f x) (map f xs)"
  by (induction xs) auto

lemma map_sort_key: "map f (sort_key f xs) = sort (map f xs)"
  by (induction xs) (simp_all add: map_insort_key)

text \<open>
  Sorting with a comparison: \<open>sort.Slice\<close> with a \<open>less\<close> that is not the order of one key, and
  SQL's \<open>ORDER BY\<close> with mixed directions.
\<close>

fun insort_by :: "('a \<Rightarrow> 'a \<Rightarrow> bool) \<Rightarrow> 'a \<Rightarrow> 'a list \<Rightarrow> 'a list" where
  "insort_by le x [] = [x]"
| "insort_by le x (y # ys) = (if le x y then x # y # ys else y # insort_by le x ys)"

definition sort_by :: "('a \<Rightarrow> 'a \<Rightarrow> bool) \<Rightarrow> 'a list \<Rightarrow> 'a list" where
  "sort_by le xs = foldr (insort_by le) xs []"

lemma mset_insort_by [simp]: "mset (insort_by le x ys) = add_mset x (mset ys)"
  by (induction ys) auto

lemma mset_sort_by [simp]: "mset (sort_by le xs) = mset xs"
  by (induction xs) (simp_all add: sort_by_def)

lemma set_sort_by [simp]: "set (sort_by le xs) = set xs"
  by (metis mset_sort_by set_mset_mset)

definition total_order_on :: "'a set \<Rightarrow> ('a \<Rightarrow> 'a \<Rightarrow> bool) \<Rightarrow> bool" where
  "total_order_on A le \<longleftrightarrow> (\<forall>x \<in> A. \<forall>y \<in> A. le x y \<or> le y x)
     \<and> (\<forall>x \<in> A. \<forall>y \<in> A. \<forall>z \<in> A. le x y \<longrightarrow> le y z \<longrightarrow> le x z)"

lemma set_insort_by [simp]: "set (insort_by le x ys) = insert x (set ys)"
  by (metis mset_insort_by set_mset_add_mset_insert set_mset_mset)

lemma sorted_insort_by:
  assumes "total_order_on A le" and "x \<in> A"
  shows "set ys \<subseteq> A \<Longrightarrow> sorted_wrt le ys \<Longrightarrow> sorted_wrt le (insort_by le x ys)"
proof (induction ys)
  case (Cons y ys)
  show ?case
  proof (cases "le x y")
    case True
    have "le x z" if "z \<in> set ys" for z
    proof -
      have "le y z" "y \<in> A" "z \<in> A" using Cons.prems that by auto
      with True assms show ?thesis unfolding total_order_on_def by blast
    qed
    with True Cons.prems(2) show ?thesis by simp
  next
    case False
    then have "le y x" using Cons.prems(1) assms unfolding total_order_on_def by auto
    with False Cons show ?thesis by simp
  qed
qed simp

lemma sorted_sort_by: "total_order_on (set xs) le \<Longrightarrow> sorted_wrt le (sort_by le xs)"
proof -
  have "set ys \<subseteq> A \<Longrightarrow> sorted_wrt le (foldr (insort_by le) ys [])" if "total_order_on A le" for A ys
    using that
  proof (induction ys)
    case (Cons y ys)
    have "set (foldr (insort_by le) ys []) = set ys" using set_sort_by [of le ys] by (simp add: sort_by_def)
    with Cons show ?case by (simp add: sorted_insort_by)
  qed simp
  then show "total_order_on (set xs) le \<Longrightarrow> sorted_wrt le (sort_by le xs)" by (auto simp: sort_by_def)
qed

subsection \<open>Machines with an invariant\<close>

text \<open>
  A component with state takes commands one after another. Where every command keeps the
  invariant, every run does, and a quantity that no command lowers never falls.
\<close>

locale machine =
  fixes step :: "'s \<Rightarrow> 'c \<Rightarrow> 's"
    and inv :: "'s \<Rightarrow> bool"
  assumes step_inv: "inv s \<Longrightarrow> inv (step s c)"
begin

definition run :: "'s \<Rightarrow> 'c list \<Rightarrow> 's" where
  "run s cs = foldl step s cs"

lemma run_Nil [simp]: "run s [] = s"
  by (simp add: run_def)

lemma run_Cons [simp]: "run s (c # cs) = run (step s c) cs"
  by (simp add: run_def)

lemma run_append: "run s (cs @ ds) = run (run s cs) ds"
  by (simp add: run_def)

lemma run_inv: "inv s \<Longrightarrow> inv (run s cs)"
  by (induction cs arbitrary: s) (auto intro: step_inv)

lemma run_stable:
  assumes "\<And>s c. inv s \<Longrightarrow> P s \<Longrightarrow> P (step s c)" and "inv s" and "P s"
  shows "P (run s cs)"
  using assms(2,3) by (induction cs arbitrary: s) (auto intro: step_inv assms(1))

lemma run_mono:
  fixes m :: "'s \<Rightarrow> 'o :: order"
  assumes "\<And>s c. inv s \<Longrightarrow> m s \<le> m (step s c)" and "inv s"
  shows "m s \<le> m (run s cs)"
  using assms(2)
  by (induction cs arbitrary: s) (auto intro: step_inv order_trans assms(1))

end

subsection \<open>Registries\<close>

text \<open>
  A registry takes named entries one at a time, refuses a name it already has, finds an
  entry by its name and lists the names in order. The laws below are what the callers of the
  scheduler's and the notifier's registries rely on: an entry, once registered, is what every
  later lookup of its name returns.
\<close>

locale named_registry =
  fixes register :: "'r \<Rightarrow> 'v \<Rightarrow> 'r result"
    and get :: "'r \<Rightarrow> 'k :: linorder \<Rightarrow> 'v result"
    and ids :: "'r \<Rightarrow> 'k list"
    and key :: "'v \<Rightarrow> 'k"
    and inv :: "'r \<Rightarrow> bool"
  assumes register_inv: "inv r \<Longrightarrow> register r v = Inr r' \<Longrightarrow> inv r'"
    and get_new: "inv r \<Longrightarrow> register r v = Inr r' \<Longrightarrow> get r' (key v) = Inr v"
    and get_other: "inv r \<Longrightarrow> register r v = Inr r' \<Longrightarrow> k \<noteq> key v \<Longrightarrow> get r' k = get r k"
    and register_taken: "inv r \<Longrightarrow> get r (key v) = Inr u \<Longrightarrow> \<exists>e. register r v = Inl e"
    and ids_iff: "inv r \<Longrightarrow> k \<in> set (ids r) \<longleftrightarrow> (\<exists>v. get r k = Inr v)"
    and ids_sorted: "inv r \<Longrightarrow> sorted_wrt (<) (ids r)"
begin

definition attempt :: "'r \<Rightarrow> 'v \<Rightarrow> 'r" where
  "attempt r v = (case register r v of Inl _ \<Rightarrow> r | Inr r' \<Rightarrow> r')"

lemma attempt_inv: "inv r \<Longrightarrow> inv (attempt r v)"
  by (auto simp: attempt_def register_inv split: sum.splits)

lemma attempt_get:
  assumes "inv r" and "get r k = Inr v"
  shows "get (attempt r u) k = Inr v"
proof (cases "register r u")
  case (Inr r')
  with assms have "k \<noteq> key u" using register_taken [of r u v] by auto
  with assms Inr show ?thesis by (simp add: attempt_def get_other)
qed (simp add: attempt_def assms)

lemma get_stable:
  assumes "inv r" and "get r k = Inr v"
  shows "get (foldl attempt r vs) k = Inr v"
  using assms
  by (induction vs arbitrary: r) (simp_all add: attempt_inv attempt_get)

lemma ids_stable:
  assumes "inv r"
  shows "set (ids r) \<subseteq> set (ids (foldl attempt r vs))"
proof
  fix k
  assume "k \<in> set (ids r)"
  then obtain v where "get r k = Inr v" using assms ids_iff by blast
  then have "get (foldl attempt r vs) k = Inr v" using assms by (simp add: get_stable)
  moreover have "inv (foldl attempt r vs)"
    using assms by (induction vs arbitrary: r) (simp_all add: attempt_inv)
  ultimately show "k \<in> set (ids (foldl attempt r vs))" using ids_iff by blast
qed

end

end
