(* ===== verification/GoText.thy ===== *)
theory GoText
  imports Prelude
begin

section \<open>Go strings: UTF-8 runes, white space, control characters, identifiers\<close>

text \<open>
  A Go string is a byte sequence; ranging over it, \<open>strings.TrimSpace\<close> and the \<open>unicode\<close>
  predicates see its UTF-8 runes. \<open>runes\<close> decodes as Go does: an invalid byte is the
  replacement rune U+FFFD of width one. \<open>TrimSpace\<close>, \<open>IsSpace\<close> and \<open>IsControl\<close> are the
  library functions the sources call; \<open>sanitize\<close> is what \<open>encoding/json\<close> makes of a string,
  every invalid byte replaced by the encoding of U+FFFD.
\<close>

type_synonym rune = "nat \<times> string"

abbreviation byte :: "char \<Rightarrow> nat" where
  "byte c \<equiv> of_char c"

definition cont :: "nat \<Rightarrow> nat \<Rightarrow> char \<Rightarrow> bool" where
  "cont lo hi c \<longleftrightarrow> lo \<le> byte c \<and> byte c \<le> hi"

text \<open>The range the second byte of a sequence must lie in, and the length of the sequence.\<close>

definition lead :: "nat \<Rightarrow> (nat \<times> nat \<times> nat) option" where
  "lead b =
     (if 194 \<le> b \<and> b \<le> 223 then Some (2, 128, 191)
      else if b = 224 then Some (3, 160, 191)
      else if b = 237 then Some (3, 128, 159)
      else if 225 \<le> b \<and> b \<le> 239 then Some (3, 128, 191)
      else if b = 240 then Some (4, 144, 191)
      else if 241 \<le> b \<and> b \<le> 243 then Some (4, 128, 191)
      else if b = 244 then Some (4, 128, 143)
      else None)"

text \<open>\<open>utf8.DecodeRune\<close>: the code point at the front and the number of bytes it takes.\<close>

definition decode_rune :: "string \<Rightarrow> nat \<times> nat" where
  "decode_rune s =
     (case s of
        [] \<Rightarrow> (65533, 0)
      | c0 # rest \<Rightarrow>
          (if byte c0 < 128 then (byte c0, 1)
           else (case lead (byte c0) of
               None \<Rightarrow> (65533, 1)
             | Some (n, lo, hi) \<Rightarrow>
                 (if n = 2 then
                    (case rest of
                       c1 # _ \<Rightarrow> if cont lo hi c1
                                 then ((byte c0 mod 32) * 64 + byte c1 mod 64, 2) else (65533, 1)
                     | _ \<Rightarrow> (65533, 1))
                  else if n = 3 then
                    (case rest of
                       c1 # c2 # _ \<Rightarrow> if cont lo hi c1 \<and> cont 128 191 c2
                                 then ((byte c0 mod 16) * 4096 + (byte c1 mod 64) * 64 + byte c2 mod 64, 3)
                                 else (65533, 1)
                     | _ \<Rightarrow> (65533, 1))
                  else
                    (case rest of
                       c1 # c2 # c3 # _ \<Rightarrow> if cont lo hi c1 \<and> cont 128 191 c2 \<and> cont 128 191 c3
                                 then ((byte c0 mod 8) * 262144 + (byte c1 mod 64) * 4096
                                        + (byte c2 mod 64) * 64 + byte c3 mod 64, 4)
                                 else (65533, 1)
                     | _ \<Rightarrow> (65533, 1))))))"

lemma decode_rune_width_pos: "s \<noteq> [] \<Longrightarrow> 0 < snd (decode_rune s)"
  by (auto simp: decode_rune_def split: list.splits option.splits)

function runes :: "string \<Rightarrow> rune list" where
  "runes s = (if s = [] then []
     else (fst (decode_rune s), take (snd (decode_rune s)) s) # runes (drop (snd (decode_rune s)) s))"
  by pat_completeness auto
termination
  by (relation "measure length") (use decode_rune_width_pos in \<open>auto simp: length_greater_0_conv\<close>)

declare runes.simps [simp del]

definition IsSpace :: "nat \<Rightarrow> bool" where
  "IsSpace r \<longleftrightarrow> (9 \<le> r \<and> r \<le> 13) \<or> r = 32 \<or> r = 133 \<or> r = 160 \<or> r = 5760
     \<or> (8192 \<le> r \<and> r \<le> 8202) \<or> r = 8232 \<or> r = 8233 \<or> r = 8239 \<or> r = 8287 \<or> r = 12288"

definition IsControl :: "nat \<Rightarrow> bool" where
  "IsControl r \<longleftrightarrow> r < 32 \<or> (127 \<le> r \<and> r < 160)"

definition trim_runes :: "rune list \<Rightarrow> rune list" where
  "trim_runes rs =
     rev (dropWhile (\<lambda>r. IsSpace (fst r)) (rev (dropWhile (\<lambda>r. IsSpace (fst r)) rs)))"

definition TrimSpace :: "string \<Rightarrow> string" where
  "TrimSpace s = concat (map snd (trim_runes (runes s)))"

abbreviation blank :: "string \<Rightarrow> bool" where
  "blank s \<equiv> TrimSpace s = []"

definition replacement_bytes :: string where
  "replacement_bytes = map char_of [239, 191, 189 :: nat]"

definition sanitize :: "string \<Rightarrow> string" where
  "sanitize s = concat (map (\<lambda>r. if fst r = 65533 then replacement_bytes else snd r) (runes s))"

definition ascii :: "string \<Rightarrow> bool" where
  "ascii s \<longleftrightarrow> (\<forall>c \<in> set s. byte c < 128)"

subsection \<open>Decoding loses nothing, and is the identity on ASCII\<close>

lemma runes_Nil [simp]: "runes [] = []"
  by (simp add: runes.simps)

lemma concat_runes: "concat (map snd (runes s)) = s"
proof (induction s rule: runes.induct)
  case (1 s)
  then show ?case by (cases "s = []") (simp_all add: runes.simps [of s])
qed

lemma runes_ascii_Cons [simp]:
  "byte c < 128 \<Longrightarrow> runes (c # s) = (byte c, [c]) # runes s"
  by (subst runes.simps) (simp add: decode_rune_def)

lemma runes_ascii: "ascii s \<Longrightarrow> runes s = map (\<lambda>c. (byte c, [c])) s"
  by (induction s) (auto simp: ascii_def)

lemma ascii_simps [simp]:
  "ascii []" "ascii (c # s) \<longleftrightarrow> byte c < 128 \<and> ascii s" "ascii (s @ t) \<longleftrightarrow> ascii s \<and> ascii t"
  by (auto simp: ascii_def)

lemma sanitize_ascii [simp]: "ascii s \<Longrightarrow> sanitize s = s"
  by (induction s) (auto simp: sanitize_def)

lemma sanitize_Nil [simp]: "sanitize [] = []"
  by (simp add: sanitize_def)

subsection \<open>Trimming\<close>

lemma runes_bytes_nonempty: "r \<in> set (runes s) \<Longrightarrow> snd r \<noteq> []"
proof (induction s rule: runes.induct)
  case (1 s)
  then show ?case
    using decode_rune_width_pos [of s] by (cases "s = []") (auto simp: runes.simps [of s])
qed

lemma trim_runes_subset: "set (trim_runes rs) \<subseteq> set rs"
  by (auto simp: trim_runes_def dest!: set_dropWhileD)

lemma trim_runes_Nil_iff: "trim_runes rs = [] \<longleftrightarrow> (\<forall>r \<in> set rs. IsSpace (fst r))"
proof (cases "dropWhile (\<lambda>r. IsSpace (fst r)) rs")
  case Nil
  then show ?thesis
    by (simp add: trim_runes_def del: dropWhile_eq_Nil_conv)
      (simp add: dropWhile_eq_Nil_conv)
next
  case (Cons r rs')
  then have "\<not> IsSpace (fst r)" by (simp add: dropWhile_eq_Cons_conv)
  moreover have "r \<in> set rs"
    using Cons set_dropWhileD [of r "\<lambda>r. IsSpace (fst r)" rs] by simp
  ultimately show ?thesis using Cons by (auto simp: trim_runes_def)
qed

lemma blank_iff: "blank s \<longleftrightarrow> (\<forall>r \<in> set (runes s). IsSpace (fst r))"
proof -
  have "blank s \<longleftrightarrow> (\<forall>r \<in> set (trim_runes (runes s)). snd r = [])"
    by (simp add: TrimSpace_def)
  also have "\<dots> \<longleftrightarrow> trim_runes (runes s) = []"
  proof (cases "trim_runes (runes s)")
    case (Cons r rs)
    then have "r \<in> set (runes s)" using trim_runes_subset [of "runes s"] by auto
    then have "snd r \<noteq> []" by (rule runes_bytes_nonempty)
    with Cons show ?thesis by simp
  qed simp
  finally show ?thesis by (simp add: trim_runes_Nil_iff)
qed

lemma blank_Nil [simp]: "blank []"
  by (simp add: blank_iff)

lemma not_blank_nonempty: "\<not> blank s \<Longrightarrow> s \<noteq> []"
  by auto

lemma not_blank_ascii_hd:
  assumes "ascii s" and "s \<noteq> []" and "\<not> IsSpace (byte (hd s))"
  shows "\<not> blank s"
  using assms by (cases s) (auto simp: blank_iff runes_ascii)

text \<open>Sanitizing keeps the code points, so it is idempotent and keeps blankness.\<close>

lemma decode_rune_prefix:
  assumes "decode_rune s = (r, n)" and "r \<noteq> 65533"
  shows "n \<le> length s \<and> decode_rune (take n s @ t) = (r, n)"
proof (cases s)
  case Nil
  with assms show ?thesis by (simp add: decode_rune_def)
next
  case (Cons c0 s1)
  show ?thesis
  proof (cases "byte c0 < 128")
    case True
    with assms Cons show ?thesis by (auto simp: decode_rune_def)
  next
    case False
    with assms Cons obtain k lo hi where l: "lead (byte c0) = Some (k, lo, hi)"
      by (auto simp: decode_rune_def split: option.splits)
    then have "k = 2 \<or> k = 3 \<or> k = 4" by (auto simp: lead_def split: if_splits)
    with assms Cons False l show ?thesis
      by (auto simp: decode_rune_def split: list.splits if_splits)
  qed
qed

lemma runes_append_rune:
  assumes "p \<noteq> []" and "decode_rune (p @ t) = (r, length p)"
  shows "runes (p @ t) = (r, p) # runes t"
  using assms by (simp add: runes.simps [of "p @ t"])

lemma runes_sanitize:
  "runes (sanitize s) = map (\<lambda>r. if fst r = 65533 then (65533, replacement_bytes) else r) (runes s)"
proof (induction s rule: runes.induct)
  case (1 s)
  show ?case
  proof (cases "s = []")
    case False
    obtain r n where d: "decode_rune s = (r, n)" by (cases "decode_rune s")
    have n: "0 < n" using decode_rune_width_pos [OF False] d by simp
    have rs: "runes s = (r, take n s) # runes (drop n s)" using False d by (simp add: runes.simps [of s])
    have IH: "runes (sanitize (drop n s)) = map (\<lambda>r. if fst r = 65533 then (65533, replacement_bytes) else r) (runes (drop n s))"
      using 1 [OF False] d by simp
    show ?thesis
    proof (cases "r = 65533")
      case True
      have "decode_rune (replacement_bytes @ sanitize (drop n s)) = (65533, length replacement_bytes)"
        by (simp add: decode_rune_def replacement_bytes_def lead_def cont_def)
      then have "runes (replacement_bytes @ sanitize (drop n s)) = (65533, replacement_bytes) # runes (sanitize (drop n s))"
        by (intro runes_append_rune) (simp_all add: replacement_bytes_def)
      with True IH show ?thesis by (simp add: sanitize_def rs)
    next
      case False
      note p = decode_rune_prefix [OF d False, of "sanitize (drop n s)"]
      then have "runes (take n s @ sanitize (drop n s)) = (r, take n s) # runes (sanitize (drop n s))"
        using n \<open>s \<noteq> []\<close> by (intro runes_append_rune) auto
      with False IH show ?thesis by (simp add: sanitize_def rs)
    qed
  qed simp
qed

lemma sanitize_idem [simp]: "sanitize (sanitize s) = sanitize s"
  by (simp add: sanitize_def [of "sanitize s"] runes_sanitize) (simp add: sanitize_def comp_def if_distrib cong: if_cong)

lemma blank_sanitize [simp]: "blank (sanitize s) = blank s"
proof -
  have "map fst (runes (sanitize s)) = map fst (runes s)" by (simp add: runes_sanitize comp_def)
  then have "fst ` set (runes (sanitize s)) = fst ` set (runes s)" by (metis set_map)
  then show ?thesis unfolding blank_iff by (metis (no_types, lifting) image_iff)
qed

subsection \<open>Identifiers\<close>

definition ident_char :: "char \<Rightarrow> bool" where
  "ident_char c \<longleftrightarrow>
     (97 \<le> byte c \<and> byte c \<le> 122) \<or> (65 \<le> byte c \<and> byte c \<le> 90) \<or> (48 \<le> byte c \<and> byte c \<le> 57)
     \<or> c \<in> set ''._-''"

lemma ident_char_ascii: "ident_char c \<Longrightarrow> byte c < 128"
  by (auto simp: ident_char_def)

lemma ident_chars_ascii: "list_all ident_char s \<Longrightarrow> ascii s"
  by (auto simp: ascii_def list_all_iff ident_char_ascii)

lemma ident_char_not_space: "ident_char c \<Longrightarrow> \<not> IsSpace (byte c)"
  by (auto simp: ident_char_def IsSpace_def)

lemma ident_char_not_nul: "ident_char c \<Longrightarrow> byte c \<noteq> 0"
  by (auto simp: ident_char_def)

lemma ident_not_blank: "s \<noteq> [] \<Longrightarrow> list_all ident_char s \<Longrightarrow> \<not> blank s"
  by (rule not_blank_ascii_hd) (auto intro: ident_chars_ascii simp: neq_Nil_conv ident_char_not_space)

text \<open>
  Ranging over the runes of a string and testing each against ASCII classes is the same as
  testing the bytes: a rune from a non-ASCII byte is never in an ASCII class.
\<close>

definition all_runes :: "(nat \<Rightarrow> bool) \<Rightarrow> string \<Rightarrow> bool" where
  "all_runes P s \<longleftrightarrow> list_all (\<lambda>r. P (fst r)) (runes s)"

lemma all_runes_Nil [simp]: "all_runes P []"
  by (simp add: all_runes_def)

lemma all_runes_ascii_Cons [simp]:
  "byte c < 128 \<Longrightarrow> all_runes P (c # s) \<longleftrightarrow> P (byte c) \<and> all_runes P s"
  by (simp add: all_runes_def)

lemma lead_SomeD:
  assumes "lead b = Some (n, lo, hi)"
  shows "n = 2 \<Longrightarrow> 194 \<le> b \<and> b \<le> 223"
    and "n = 3 \<Longrightarrow> 224 \<le> b \<and> b \<le> 239 \<and> (b = 224 \<longrightarrow> lo = 160)"
    and "n \<noteq> 2 \<Longrightarrow> n \<noteq> 3 \<Longrightarrow> 240 \<le> b \<and> b \<le> 244 \<and> (b = 240 \<longrightarrow> lo = 144)"
    and "hi \<le> 191"
  using assms by (auto simp: lead_def split: if_splits)

lemma mod_shift_nat:
  fixes a b m :: nat
  assumes "a * m \<le> b" and "b < a * m + m"
  shows "b mod m = b - a * m"
proof -
  from assms have "b - a * m < m" by linarith
  moreover from assms have "b = (b - a * m) + a * m" by linarith
  ultimately show ?thesis by (metis mod_less mod_mult_self1 mult.commute)
qed

lemma two_byte_rune: "194 \<le> b \<Longrightarrow> b \<le> 223 \<Longrightarrow> 128 \<le> (b mod 32) * 64 + (x :: nat)"
  using mod_shift_nat [of 6 32 b] by simp

lemma three_byte_rune:
  fixes b x y :: nat
  assumes "224 \<le> b" and "b \<le> 239" and "b = 224 \<longrightarrow> 160 \<le> x" and "x \<le> 191"
  shows "128 \<le> (b mod 16) * 4096 + (x mod 64) * 64 + y"
proof (cases "b = 224")
  case True
  with assms have "32 \<le> x mod 64" using mod_shift_nat [of 2 64 x] by simp
  then show ?thesis by simp
next
  case False
  with assms have "1 \<le> b mod 16" using mod_shift_nat [of 14 16 b] by simp
  then have "4096 \<le> (b mod 16) * 4096" by simp
  then show ?thesis by linarith
qed

lemma four_byte_rune:
  fixes b x y z :: nat
  assumes "240 \<le> b" and "b \<le> 244" and "b = 240 \<longrightarrow> 144 \<le> x" and "x \<le> 191"
  shows "128 \<le> (b mod 8) * 262144 + (x mod 64) * 4096 + y + z"
proof (cases "b = 240")
  case True
  with assms have "1 \<le> x mod 64" using mod_shift_nat [of 2 64 x] by simp
  then have "4096 \<le> (x mod 64) * 4096" by simp
  then show ?thesis by linarith
next
  case False
  with assms have "1 \<le> b mod 8" using mod_shift_nat [of 30 8 b] by simp
  then have "262144 \<le> (b mod 8) * 262144" by simp
  then show ?thesis by linarith
qed

lemma decode_rune_non_ascii:
  assumes "128 \<le> byte c"
  shows "128 \<le> fst (decode_rune (c # s))"
proof (cases "lead (byte c)")
  case None
  with assms show ?thesis by (simp add: decode_rune_def)
next
  case (Some l)
  obtain n lo hi where l: "l = (n, lo, hi)" by (cases l)
  note facts = lead_SomeD [OF Some [unfolded l]]
  consider "n = 2" | "n = 3" | "n \<noteq> 2" "n \<noteq> 3" by blast
  then show ?thesis
  proof cases
    case 1
    with assms Some l facts(1) show ?thesis
      by (cases s) (simp_all add: decode_rune_def two_byte_rune)
  next
    case 2
    with assms Some l facts(2,4) show ?thesis
      by (auto simp: decode_rune_def cont_def intro!: three_byte_rune split: list.splits)
  next
    case 3
    with assms Some l facts(3,4) show ?thesis
      by (auto simp: decode_rune_def cont_def intro!: four_byte_rune split: list.splits)
  qed
qed

lemma all_runes_ascii_class:
  assumes "\<And>r. P r \<Longrightarrow> r < 128"
  shows "all_runes P s \<longleftrightarrow> list_all (\<lambda>c. P (byte c)) s"
proof (induction s)
  case (Cons c s)
  show ?case
  proof (cases "byte c < 128")
    case True
    with Cons show ?thesis by simp
  next
    case False
    then have "\<not> P (byte c)" and "\<not> P (fst (decode_rune (c # s)))"
      using assms decode_rune_non_ascii [of c s] by (meson leD leI)+
    then show ?thesis by (simp add: all_runes_def runes.simps [of "c # s"])
  qed
qed simp

text \<open>
  Two keys joined with a NUL byte determine both parts when the first has no NUL: the
  composite keys of the report and scan validators.
\<close>

definition nul :: char where
  "nul = CHR 0x00"

lemma nul_key_inject:
  assumes "nul \<notin> set a" and "nul \<notin> set c" and "a @ nul # b = c @ nul # d"
  shows "a = c \<and> b = d"
  using assms by (induction a arbitrary: c) (auto simp: Cons_eq_append_conv)

lemma ident_no_nul: "list_all ident_char s \<Longrightarrow> nul \<notin> set s"
  by (auto simp: list_all_iff nul_def ident_char_def)

end
