(* ===== verification/GoTime.thy ===== *)
theory GoTime
  imports GoText
begin

section \<open>Go time values and their text\<close>

text \<open>
  A \<open>time.Time\<close> is an instant and a zone offset: \<open>t_ns\<close> counts nanoseconds from
  0001-01-01T00:00:00Z (so the zero \<open>Time\<close> is the instant 0) and \<open>t_off\<close> is the offset of
  its location from UTC in seconds. \<open>Before\<close>, \<open>After\<close> and \<open>Equal\<close> compare instants; \<open>UTC\<close>
  changes the location only. A \<open>time.Duration\<close> is an \<open>int\<close> count of nanoseconds.

  The stores keep instants as text and compare that text in SQL. \<open>timeText\<close> is the
  controller's fixed-width layout, \<open>FormatRFC3339Nano\<close> is Go's \<open>time.RFC3339Nano\<close>, and
  \<open>ParseRFC3339Nano\<close> is \<open>time.Parse\<close> with that layout. The main results: \<open>timeText\<close>
  orders exactly as the instants do (years 0 to 9999), and parsing it gives the instant back.
\<close>

record gotime =
  t_ns :: int
  t_off :: int

type_synonym duration = int

definition zero_time :: gotime where
  "zero_time = \<lparr>t_ns = 0, t_off = 0\<rparr>"

definition IsZero :: "gotime \<Rightarrow> bool" where
  "IsZero t \<longleftrightarrow> t_ns t = 0"

definition UTC :: "gotime \<Rightarrow> gotime" where
  "UTC t = t\<lparr>t_off := 0\<rparr>"

definition Before :: "gotime \<Rightarrow> gotime \<Rightarrow> bool" where
  "Before t u \<longleftrightarrow> t_ns t < t_ns u"

definition After :: "gotime \<Rightarrow> gotime \<Rightarrow> bool" where
  "After t u \<longleftrightarrow> t_ns t > t_ns u"

definition Add :: "gotime \<Rightarrow> duration \<Rightarrow> gotime" where
  "Add t d = t\<lparr>t_ns := t_ns t + d\<rparr>"

text \<open>\<open>Sub\<close> saturates at the limits of a 64-bit duration.\<close>

definition Sub :: "gotime \<Rightarrow> gotime \<Rightarrow> duration" where
  "Sub t u = max (- (2 ^ 63)) (min (2 ^ 63 - 1) (t_ns t - t_ns u))"

definition Nanosecond :: duration where "Nanosecond = 1"
definition Second :: duration where "Second = 1000000000"
definition Minute :: duration where "Minute = 60 * Second"
definition Hour :: duration where "Hour = 60 * Minute"

lemmas duration_defs = Nanosecond_def Second_def Minute_def Hour_def

lemma UTC_simps [simp]:
  "t_ns (UTC t) = t_ns t" "t_off (UTC t) = 0" "UTC (UTC t) = UTC t" "IsZero (UTC t) = IsZero t"
  by (simp_all add: UTC_def IsZero_def)

lemma Add_simps [simp]: "t_ns (Add t d) = t_ns t + d" "t_off (Add t d) = t_off t"
  by (simp_all add: Add_def)

lemma compare_UTC [simp]:
  "Before (UTC t) u = Before t u" "Before t (UTC u) = Before t u"
  "After (UTC t) u = After t u" "After t (UTC u) = After t u"
  by (simp_all add: Before_def After_def)

subsection \<open>The proleptic Gregorian calendar\<close>

definition leap :: "int \<Rightarrow> bool" where
  "leap y \<longleftrightarrow> 4 dvd y \<and> (\<not> 100 dvd y \<or> 400 dvd y)"

definition year_days :: "int \<Rightarrow> int" where
  "year_days y = (if leap y then 366 else 365)"

text \<open>Days from 0001-01-01 to the first of January of a year.\<close>

definition jan1 :: "int \<Rightarrow> int" where
  "jan1 y = 365 * (y - 1) + (y - 1) div 4 - (y - 1) div 100 + (y - 1) div 400"

text \<open>Cycles of 400, 100, 4 and 1 years, the last century and year of a cycle being longer.\<close>

definition year_of :: "int \<Rightarrow> int" where
  "year_of d =
     (let n400 = d div 146097; r400 = d mod 146097;
          n100 = min 3 (r400 div 36524); r100 = r400 - 36524 * n100;
          n4 = r100 div 1461; r4 = r100 mod 1461;
          n1 = min 3 (r4 div 365)
      in 400 * n400 + 100 * n100 + 4 * n4 + n1 + 1)"

definition yday_of :: "int \<Rightarrow> int" where
  "yday_of d = d - jan1 (year_of d)"

definition month_start :: "bool \<Rightarrow> nat \<Rightarrow> int" where
  "month_start lp m =
     [0, 0, 31, 59, 90, 120, 151, 181, 212, 243, 273, 304, 334, 365] ! m
     + (if lp \<and> 3 \<le> m then 1 else 0)"

definition month_of :: "bool \<Rightarrow> int \<Rightarrow> nat" where
  "month_of lp yd =
     (if yd < month_start lp 2 then 1
      else if yd < month_start lp 3 then 2
      else if yd < month_start lp 4 then 3
      else if yd < month_start lp 5 then 4
      else if yd < month_start lp 6 then 5
      else if yd < month_start lp 7 then 6
      else if yd < month_start lp 8 then 7
      else if yd < month_start lp 9 then 8
      else if yd < month_start lp 10 then 9
      else if yd < month_start lp 11 then 10
      else if yd < month_start lp 12 then 11
      else 12)"

definition month_days :: "int \<Rightarrow> nat \<Rightarrow> int" where
  "month_days y m = month_start (leap y) (m + 1) - month_start (leap y) m"

record civil =
  c_year :: int
  c_month :: nat
  c_day :: int
  c_hour :: int
  c_min :: int
  c_sec :: int
  c_nano :: int

definition day_ns :: int where "day_ns = 86400000000000"

definition civil_of :: "int \<Rightarrow> civil" where
  "civil_of n =
     (let d = n div day_ns; r = n mod day_ns; y = year_of d; m = month_of (leap y) (yday_of d)
      in \<lparr>c_year = y, c_month = m, c_day = yday_of d - month_start (leap y) m + 1,
          c_hour = r div 3600000000000, c_min = r div 60000000000 mod 60,
          c_sec = r div 1000000000 mod 60, c_nano = r mod 1000000000\<rparr>)"

subsection \<open>Decimal text\<close>

definition digit :: "int \<Rightarrow> char" where
  "digit n = char_of (nat (48 + n))"

fun digits_w :: "nat \<Rightarrow> int \<Rightarrow> string" where
  "digits_w 0 n = []"
| "digits_w (Suc w) n = digits_w w (n div 10) @ [digit (n mod 10)]"

function dec_text :: "int \<Rightarrow> string" where
  "dec_text n = (if n < 10 then [digit n] else dec_text (n div 10) @ [digit (n mod 10)])"
  by pat_completeness auto
termination
  by (relation "measure nat") auto

declare dec_text.simps [simp del]

text \<open>Go's \<open>appendInt\<close>: decimal, zero-padded to a width, a minus sign first.\<close>

definition append_int :: "int \<Rightarrow> nat \<Rightarrow> string" where
  "append_int x w =
     (if x < 0 then ''-'' else []) @
     (let d = dec_text \<bar>x\<bar> in replicate (w - length d) (digit 0) @ d)"

definition FormatInt :: "int \<Rightarrow> string" where
  "FormatInt x = append_int x 0"

subsection \<open>Formatting\<close>

definition date_time_text :: "civil \<Rightarrow> string" where
  "date_time_text c =
     append_int (c_year c) 4 @ ''-'' @ digits_w 2 (int (c_month c)) @ ''-'' @ digits_w 2 (c_day c) @
     ''T'' @ digits_w 2 (c_hour c) @ '':'' @ digits_w 2 (c_min c) @ '':'' @ digits_w 2 (c_sec c)"

definition timeText :: "gotime \<Rightarrow> string" where
  "timeText value =
     (let c = civil_of (t_ns (UTC value))
      in date_time_text c @ ''.'' @ digits_w 9 (c_nano c) @ ''Z'')"

definition trim_zeros :: "string \<Rightarrow> string" where
  "trim_zeros s = rev (dropWhile (\<lambda>c. c = digit 0) (rev s))"

definition zone_text :: "int \<Rightarrow> string" where
  "zone_text offset =
     (if offset = 0 then ''Z''
      else let m = \<bar>offset\<bar> div 60
           in (if offset < 0 then ''-'' else ''+'') @ digits_w 2 (m div 60) @ '':'' @ digits_w 2 (m mod 60))"

definition FormatRFC3339Nano :: "gotime \<Rightarrow> string" where
  "FormatRFC3339Nano t =
     (let c = civil_of (t_ns t + t_off t * Second);
          frac = trim_zeros (digits_w 9 (c_nano c))
      in date_time_text c @ (if frac = [] then [] else ''.'' @ frac) @ zone_text (t_off t))"

subsection \<open>Parsing\<close>

definition is_digit :: "char \<Rightarrow> bool" where
  "is_digit c \<longleftrightarrow> 48 \<le> byte c \<and> byte c \<le> 57"

definition digit_val :: "char \<Rightarrow> int" where
  "digit_val c = int (byte c) - 48"

fun take_digits :: "nat \<Rightarrow> int \<Rightarrow> string \<Rightarrow> (int \<times> string) option" where
  "take_digits 0 acc s = Some (acc, s)"
| "take_digits (Suc w) acc [] = None"
| "take_digits (Suc w) acc (c # s) =
     (if is_digit c then take_digits w (acc * 10 + digit_val c) s else None)"

definition expect :: "char \<Rightarrow> string \<Rightarrow> string option" where
  "expect c s = (case s of d # r \<Rightarrow> if d = c then Some r else None | [] \<Rightarrow> None)"

text \<open>The hour of the layout may have one digit; a fraction may start with a comma.\<close>

definition parse_hour :: "string \<Rightarrow> (int \<times> string) option" where
  "parse_hour s =
     (case take_digits 2 0 s of Some r \<Rightarrow> Some r | None \<Rightarrow> take_digits 1 0 s)"

definition parse_fraction :: "string \<Rightarrow> int \<times> string" where
  "parse_fraction s =
     (case s of
        c # d # r \<Rightarrow>
          if (c = CHR ''.'' \<or> c = CHR '','') \<and> is_digit d then
            let ds = takeWhile is_digit (d # r); first9 = take 9 (ds @ replicate 9 (digit 0))
            in (fst (the (take_digits 9 0 first9)), dropWhile is_digit (d # r))
          else (0, s)
      | _ \<Rightarrow> (0, s))"

definition parse_zone :: "string \<Rightarrow> int option" where
  "parse_zone s =
     (if s = ''Z'' then Some 0
      else (case s of
          sign # r \<Rightarrow>
            if sign = CHR ''+'' \<or> sign = CHR ''-'' then
              do {
                (h, r1) \<leftarrow> take_digits 2 0 r;
                r2 \<leftarrow> expect (CHR '':'') r1;
                (m, r3) \<leftarrow> take_digits 2 0 r2;
                if r3 = [] \<and> h \<le> 24 \<and> m \<le> 60
                then Some ((if sign = CHR ''-'' then -1 else 1) * (h * 60 + m) * 60)
                else None
              }
            else None
        | [] \<Rightarrow> None))"

definition ParseRFC3339Nano :: "string \<Rightarrow> gotime option" where
  "ParseRFC3339Nano s =
     do {
       (y, s) \<leftarrow> take_digits 4 0 s; s \<leftarrow> expect (CHR ''-'') s;
       (m, s) \<leftarrow> take_digits 2 0 s; s \<leftarrow> expect (CHR ''-'') s;
       (d, s) \<leftarrow> take_digits 2 0 s; s \<leftarrow> expect (CHR ''T'') s;
       (h, s) \<leftarrow> parse_hour s; s \<leftarrow> expect (CHR '':'') s;
       (mi, s) \<leftarrow> take_digits 2 0 s; s \<leftarrow> expect (CHR '':'') s;
       (sec, s) \<leftarrow> take_digits 2 0 s;
       let (nano, s) = parse_fraction s;
       z \<leftarrow> parse_zone s;
       if 1 \<le> m \<and> m \<le> 12 \<and> 1 \<le> d \<and> d \<le> month_days y (nat m) \<and> h < 24 \<and> mi < 60 \<and> sec < 60
       then Some \<lparr>t_ns = (jan1 y + month_start (leap y) (nat m) + d - 1) * day_ns
                    + (h * 3600 + mi * 60 + sec) * Second + nano - z * Second,
                  t_off = z\<rparr>
       else None
     }"

text \<open>
  \<open>encoding/json\<close> marshals a time whose year, in its own zone, is within 0 and 9999 and
  whose zone offset is less than 24 hours; \<open>sql_year\<close> is the same range for the UTC text of
  the stores.
\<close>

definition json_time :: "gotime \<Rightarrow> bool" where
  "json_time t \<longleftrightarrow>
     0 \<le> year_of ((t_ns t + t_off t * Second) div day_ns) \<and>
     year_of ((t_ns t + t_off t * Second) div day_ns) \<le> 9999 \<and> \<bar>t_off t\<bar> < 86400"

definition sql_year :: "gotime \<Rightarrow> bool" where
  "sql_year t \<longleftrightarrow> 0 \<le> year_of (t_ns t div day_ns) \<and> year_of (t_ns t div day_ns) \<le> 9999"

subsection \<open>The calendar is exact\<close>

lemma div_pred:
  fixes y k :: int
  assumes "0 < k"
  shows "y div k = (y - 1) div k + (if k dvd y then 1 else 0)"
proof (cases "k dvd y")
  case True
  then obtain q where q: "y = k * q" by auto
  have "(k * q - 1) div k = q - 1"
    using assms by (intro int_div_pos_eq [of _ _ _ "k - 1"]) (auto simp: algebra_simps)
  with q assms True show ?thesis by simp
next
  case False
  then have r: "y mod k \<noteq> 0" by (simp add: dvd_eq_mod_eq_0)
  moreover have "0 \<le> y mod k" using assms by simp
  ultimately have lo: "1 \<le> y mod k" by linarith
  have hi: "y mod k < k" using assms by simp
  have "(y - 1) div k = y div k"
  proof (rule int_div_pos_eq [of _ _ _ "y mod k - 1"])
    show "y - 1 = k * (y div k) + (y mod k - 1)"
      using mult_div_mod_eq [of k y] by linarith
  qed (use lo hi in linarith)+
  with False show ?thesis by simp
qed

lemma leap_balance:
  fixes A B C A' B' C' y :: int
  assumes "A' = A + (if p then 1 else 0)" "B' = B + (if q then 1 else 0)"
    "C' = C + (if r then 1 else 0)" and "r \<Longrightarrow> q" "q \<Longrightarrow> p"
  shows "365 * y + A' - B' + C' = 365 * (y - 1) + A - B + C + (if p \<and> (\<not> q \<or> r) then 366 else 365)"
  using assms by (cases p; cases q; cases r) simp_all

lemma jan1_succ: "jan1 (y + 1) = jan1 y + year_days y"
proof -
  have "365 * y + y div 4 - y div 100 + y div 400 =
    365 * (y - 1) + (y - 1) div 4 - (y - 1) div 100 + (y - 1) div 400
      + (if 4 dvd y \<and> (\<not> 100 dvd y \<or> 400 dvd y) then 366 else 365)"
  proof (rule leap_balance)
    show "400 dvd y \<Longrightarrow> 100 dvd y" by (rule dvd_trans [of _ 400]) simp_all
    show "100 dvd y \<Longrightarrow> 4 dvd y" by (rule dvd_trans [of _ 100]) simp_all
  qed (rule div_pred, simp)+
  then show ?thesis
    unfolding jan1_def year_days_def leap_def add_diff_cancel_right' .
qed

lemma jan1_mono: "x \<le> y \<Longrightarrow> jan1 x \<le> jan1 y"
proof (induction y rule: int_ge_induct)
  case (step i)
  then show ?case by (simp add: jan1_succ year_days_def)
qed simp

lemma jan1_cycles:
  assumes "0 \<le> a" "a \<le> 3" "0 \<le> b" "b \<le> 24" "0 \<le> c" "c \<le> 3"
  shows "jan1 (400 * n + 100 * a + 4 * b + c + 1) = 146097 * n + 36524 * a + 1461 * b + 365 * c"
proof -
  let ?y = "400 * n + 100 * a + 4 * b + c"
  have "?y div 4 = 100 * n + 25 * a + b"
    using assms by (intro int_div_pos_eq [of _ _ _ c]) auto
  moreover have "?y div 100 = 4 * n + a"
    using assms by (intro int_div_pos_eq [of _ _ _ "4 * b + c"]) auto
  moreover have "?y div 400 = n"
    using assms by (intro int_div_pos_eq [of _ _ _ "100 * a + 4 * b + c"]) auto
  ultimately show ?thesis by (simp add: jan1_def)
qed

lemma century_split:
  fixes r :: int
  assumes "0 \<le> r" and "r < 146097" and "a = min 3 (r div 36524)"
  shows "0 \<le> a" "a \<le> 3" "0 \<le> r - 36524 * a" "r - 36524 * a \<le> 36524"
    "r - 36524 * a = 36524 \<Longrightarrow> a = 3"
proof -
  have r: "r = 36524 * (r div 36524) + r mod 36524" by simp
  have m: "0 \<le> r mod 36524" "r mod 36524 < 36524" by simp_all
  have d: "0 \<le> r div 36524" using assms by (simp add: pos_imp_zdiv_nonneg_iff)
  show "0 \<le> a" "a \<le> 3" using d assms(3) by simp_all
  show "0 \<le> r - 36524 * a" "r - 36524 * a \<le> 36524" "r - 36524 * a = 36524 \<Longrightarrow> a = 3"
    using r m assms by (auto simp: min_def split: if_splits)
qed

lemma year_split:
  fixes r :: int
  assumes "0 \<le> r" and "r < 1461" and "c = min 3 (r div 365)"
  shows "0 \<le> c" "c \<le> 3" "0 \<le> r - 365 * c" "r - 365 * c \<le> 365"
    "r - 365 * c = 365 \<Longrightarrow> c = 3 \<and> r = 1460"
proof -
  have r: "r = 365 * (r div 365) + r mod 365" by simp
  have m: "0 \<le> r mod 365" "r mod 365 < 365" by simp_all
  have d: "0 \<le> r div 365" using assms by (simp add: pos_imp_zdiv_nonneg_iff)
  show "0 \<le> c" "c \<le> 3" using d assms(3) by simp_all
  show "0 \<le> r - 365 * c" "r - 365 * c \<le> 365" "r - 365 * c = 365 \<Longrightarrow> c = 3 \<and> r = 1460"
    using r m assms by (auto simp: min_def split: if_splits)
qed

lemma yday_bounds: "0 \<le> yday_of d" "yday_of d < year_days (year_of d)"
proof -
  define n r where "n = d div 146097" and "r = d mod 146097"
  define a where "a = min 3 (r div 36524)"
  define b r4 where "b = (r - 36524 * a) div 1461" and "r4 = (r - 36524 * a) mod 1461"
  define c where "c = min 3 (r4 div 365)"
  have r: "0 \<le> r" "r < 146097" by (simp_all add: r_def)
  note ca = century_split [OF r a_def]
  have r4: "0 \<le> r4" "r4 < 1461" by (simp_all add: r4_def)
  note cc = year_split [OF r4 c_def]
  have split4: "r - 36524 * a = 1461 * b + r4" by (simp add: b_def r4_def)
  with ca r4 have b: "0 \<le> b" "b \<le> 24" by linarith+
  have y: "year_of d = 400 * n + 100 * a + 4 * b + c + 1"
    by (simp add: year_of_def Let_def n_def r_def a_def b_def c_def r4_def)
  have d: "d = 146097 * n + r" by (simp add: n_def r_def)
  have j: "jan1 (year_of d) = 146097 * n + 36524 * a + 1461 * b + 365 * c"
    unfolding y using ca cc b by (intro jan1_cycles) auto
  have yd: "yday_of d = r4 - 365 * c"
    using d j split4 by (simp add: yday_of_def)
  then show "0 \<le> yday_of d" using cc by simp
  show "yday_of d < year_days (year_of d)"
  proof (cases "yday_of d = 365")
    case True
    with yd cc have c3: "c = 3" and r4': "r4 = 1460" by simp_all
    have "leap (year_of d)"
    proof (cases "b = 24")
      case True
      with split4 r4' ca have "a = 3" by simp
      with True c3 y have "year_of d = 400 * (n + 1)" by simp
      then show ?thesis by (auto simp: leap_def)
    next
      case False
      with y c3 have y': "year_of d = 100 * (4 * n + a) + 4 * (b + 1)" by simp
      have "\<not> 100 dvd 4 * (b + 1)"
      proof
        assume "100 dvd 4 * (b + 1)"
        then have "100 \<le> 4 * (b + 1)" using b by (intro zdvd_imp_le) auto
        with False b show False by simp
      qed
      then have "\<not> 100 dvd year_of d" unfolding y' by (simp add: dvd_add_right_iff)
      moreover have "4 dvd year_of d" unfolding y' by (simp add: dvd_add)
      ultimately show ?thesis by (simp add: leap_def)
    qed
    with True show ?thesis by (simp add: year_days_def)
  next
    case False
    with yd cc show ?thesis by (auto simp: year_days_def)
  qed
qed

lemma year_of_mono: "d \<le> e \<Longrightarrow> year_of d \<le> year_of e"
proof (rule ccontr)
  assume "d \<le> e" and "\<not> year_of d \<le> year_of e"
  then have "jan1 (year_of e + 1) \<le> jan1 (year_of d)" by (intro jan1_mono) simp
  with \<open>d \<le> e\<close> yday_bounds [of d] yday_bounds [of e] show False
    by (simp add: jan1_succ yday_of_def)
qed

lemma month_start_vals:
  "month_start lp (Suc 0) = 0" "month_start lp (Suc (Suc 0)) = 31" "month_start lp 2 = 31"
  "month_start False 3 = 59" "month_start False 4 = 90" "month_start False 5 = 120"
  "month_start False 6 = 151" "month_start False 7 = 181" "month_start False 8 = 212"
  "month_start False 9 = 243" "month_start False 10 = 273" "month_start False 11 = 304"
  "month_start False 12 = 334" "month_start False 13 = 365"
  "month_start True 3 = 60" "month_start True 4 = 91" "month_start True 5 = 121"
  "month_start True 6 = 152" "month_start True 7 = 182" "month_start True 8 = 213"
  "month_start True 9 = 244" "month_start True 10 = 274" "month_start True 11 = 305"
  "month_start True 12 = 335" "month_start True 13 = 366"
  by (simp_all add: month_start_def)

lemma month_of_bounds:
  assumes "0 \<le> yd" and "yd < (if lp then 366 else 365)"
  shows "1 \<le> month_of lp yd" "month_of lp yd \<le> 12"
    and "month_start lp (month_of lp yd) \<le> yd" "yd < month_start lp (month_of lp yd + 1)"
proof -
  show "1 \<le> month_of lp yd" "month_of lp yd \<le> 12" by (simp_all add: month_of_def)
  show "month_start lp (month_of lp yd) \<le> yd"
    using assms by (cases lp) (simp_all add: month_of_def month_start_vals)
  show "yd < month_start lp (month_of lp yd + 1)"
    using assms by (cases lp) (simp_all add: month_of_def month_start_vals)
qed

subsection \<open>Fixed-width decimals compare as numbers\<close>

lemma of_char_digit [simp]: "0 \<le> n \<Longrightarrow> n < 10 \<Longrightarrow> byte (digit n) = nat (48 + n)"
  by (simp add: digit_def)

lemma digit_less_iff [simp]:
  "0 \<le> m \<Longrightarrow> m < 10 \<Longrightarrow> 0 \<le> n \<Longrightarrow> n < 10 \<Longrightarrow> digit m < digit n \<longleftrightarrow> m < n"
  by (simp add: less_char_def)

lemma digit_eq_iff [simp]:
  "0 \<le> m \<Longrightarrow> m < 10 \<Longrightarrow> 0 \<le> n \<Longrightarrow> n < 10 \<Longrightarrow> digit m = digit n \<longleftrightarrow> m = n"
  using digit_less_iff [of m n] digit_less_iff [of n m] by (metis linorder_less_linear order_less_irrefl)

lemma string_less_append:
  "length a = length c \<Longrightarrow> a @ b < c @ d \<longleftrightarrow> a < c \<or> (a = c \<and> b < (d :: string))"
  by (induction a c rule: list_induct2) auto

lemma length_digits_w [simp]: "length (digits_w w n) = w"
  by (induction w arbitrary: n) auto

lemma div10_bound:
  fixes n :: int
  assumes "0 \<le> n" and "n < 10 * p"
  shows "0 \<le> n div 10" "n div 10 < p"
  using assms by linarith+

lemma digits_w_eq_iff:
  "0 \<le> m \<Longrightarrow> m < 10 ^ w \<Longrightarrow> 0 \<le> n \<Longrightarrow> n < 10 ^ w \<Longrightarrow> digits_w w m = digits_w w n \<longleftrightarrow> m = n"
proof (induction w arbitrary: m n)
  case (Suc w)
  then have "digits_w w (m div 10) = digits_w w (n div 10) \<longleftrightarrow> m div 10 = n div 10"
    by (intro Suc.IH) (simp_all add: div10_bound)
  moreover have "m div 10 = n div 10 \<and> m mod 10 = n mod 10 \<longleftrightarrow> m = n"
    by (metis mult_div_mod_eq)
  ultimately show ?case by simp
qed auto

lemma lex_split:
  fixes a b k :: int
  assumes "0 < k"
  shows "a < b \<longleftrightarrow> a div k < b div k \<or> (a div k = b div k \<and> a mod k < b mod k)"
proof (cases "a div k = b div k")
  case True
  have "a = k * (b div k) + a mod k" using mult_div_mod_eq [of k a] True by simp
  moreover have "b = k * (b div k) + b mod k" by simp
  ultimately show ?thesis using True by linarith
next
  case False
  then show ?thesis
    using zdiv_mono1 [of a b k] zdiv_mono1 [of b a k] assms by linarith
qed

lemma digits_w_less_iff:
  "0 \<le> m \<Longrightarrow> m < 10 ^ w \<Longrightarrow> 0 \<le> n \<Longrightarrow> n < 10 ^ w \<Longrightarrow> digits_w w m < digits_w w n \<longleftrightarrow> m < n"
proof (induction w arbitrary: m n)
  case (Suc w)
  then have IH: "digits_w w (m div 10) < digits_w w (n div 10) \<longleftrightarrow> m div 10 < n div 10"
    and eq: "digits_w w (m div 10) = digits_w w (n div 10) \<longleftrightarrow> m div 10 = n div 10"
    using Suc.IH [of "m div 10" "n div 10"] digits_w_eq_iff [of "m div 10" w "n div 10"]
    by (simp_all add: div10_bound)
  show ?case
    by (subst lex_split [of 10]) (simp_all add: string_less_append IH eq)
qed auto

lemma digits_w_field:
  assumes "0 \<le> m" "m < 10 ^ w" "0 \<le> n" "n < 10 ^ w"
  shows "digits_w w m @ x < digits_w w n @ y \<longleftrightarrow> m < n \<or> (m = n \<and> x < y)"
  using assms by (simp add: string_less_append digits_w_less_iff digits_w_eq_iff)

lemma digits_w_0: "digits_w w 0 = replicate w (digit 0)"
  by (induction w) (simp_all add: replicate_append_same)

lemma dec_text_pad:
  "0 \<le> n \<Longrightarrow> n < 10 ^ w \<Longrightarrow> 0 < w \<Longrightarrow>
     replicate (w - length (dec_text n)) (digit 0) @ dec_text n = digits_w w n"
proof (induction w arbitrary: n)
  case (Suc w)
  show ?case
  proof (cases "n < 10")
    case True
    with Suc.prems show ?thesis
      by (simp add: dec_text.simps [of n] digits_w_0)
  next
    case False
    with Suc.prems have "0 < w" by (cases w) auto
    moreover have "0 \<le> n div 10" "n div 10 < 10 ^ w" using Suc.prems div10_bound [of n "10 ^ w"] by auto
    ultimately have IH: "replicate (w - length (dec_text (n div 10))) (digit 0) @ dec_text (n div 10)
        = digits_w w (n div 10)"
      by (intro Suc.IH)
    from False show ?thesis
      by (simp add: dec_text.simps [of n] flip: IH)
  qed
qed simp

lemma append_int_year: "0 \<le> y \<Longrightarrow> y \<le> 9999 \<Longrightarrow> append_int y 4 = digits_w 4 y"
  using dec_text_pad [of y 4] by (simp add: append_int_def Let_def)

subsection \<open>The text of an instant orders as the instant\<close>

lemma civil_of_fields:
  "0 \<le> c_hour (civil_of n)" "c_hour (civil_of n) < 24"
  "0 \<le> c_min (civil_of n)" "c_min (civil_of n) < 60"
  "0 \<le> c_sec (civil_of n)" "c_sec (civil_of n) < 60"
  "0 \<le> c_nano (civil_of n)" "c_nano (civil_of n) < 1000000000"
proof -
  define r where "r = n mod day_ns"
  have r: "0 \<le> r" "r < day_ns" by (simp_all add: r_def day_ns_def)
  have h: "c_hour (civil_of n) = r div 3600000000000" by (simp add: civil_of_def Let_def r_def)
  show "0 \<le> c_hour (civil_of n)" "c_hour (civil_of n) < 24"
    using r unfolding h day_ns_def by linarith+
qed (simp_all add: civil_of_def Let_def)

lemma civil_of_date:
  fixes n
  defines "y \<equiv> year_of (n div day_ns)" and "m \<equiv> c_month (civil_of n)"
  shows "c_year (civil_of n) = y" "1 \<le> m" "m \<le> 12" "1 \<le> c_day (civil_of n)"
    "c_day (civil_of n) \<le> month_days y m"
    "jan1 y + month_start (leap y) m + c_day (civil_of n) - 1 = n div day_ns"
proof -
  define yd where "yd = yday_of (n div day_ns)"
  have b: "0 \<le> yd" "yd < (if leap y then 366 else 365)"
    using yday_bounds [of "n div day_ns"] by (simp_all add: yd_def y_def year_days_def)
  have m: "m = month_of (leap y) yd"
    by (simp add: m_def civil_of_def Let_def y_def yd_def)
  have d: "c_day (civil_of n) = yd - month_start (leap y) m + 1"
    by (simp add: civil_of_def Let_def m y_def yd_def)
  note mb = month_of_bounds [OF b, folded m]
  show "c_year (civil_of n) = y" by (simp add: civil_of_def Let_def y_def)
  show "1 \<le> m" "m \<le> 12" "1 \<le> c_day (civil_of n)" "c_day (civil_of n) \<le> month_days y m"
    using mb by (simp_all add: d month_days_def)
  show "jan1 y + month_start (leap y) m + c_day (civil_of n) - 1 = n div day_ns"
    by (simp add: d yd_def yday_of_def y_def)
qed

lemma month_days_le: "1 \<le> m \<Longrightarrow> m \<le> 12 \<Longrightarrow> month_days y m \<le> 31"
  by (auto simp: month_days_def month_start_def le_Suc_eq numeral_eq_Suc)


lemma month_start_mono:
  assumes "a \<le> b" and "1 \<le> a" and "b \<le> 13"
  shows "month_start lp a \<le> month_start lp b"
  using assms
proof (induction b rule: dec_induct)
  case (step b)
  then have "month_start lp b \<le> month_start lp (Suc b)"
    by (auto simp: month_start_def le_Suc_eq numeral_eq_Suc)
  with step show ?case by simp
qed simp

lemma date_lex:
  assumes "n div day_ns < k div day_ns"
  shows "c_year (civil_of n) < c_year (civil_of k) \<or>
    (c_year (civil_of n) = c_year (civil_of k) \<and>
      (c_month (civil_of n) < c_month (civil_of k) \<or>
       (c_month (civil_of n) = c_month (civil_of k) \<and> c_day (civil_of n) < c_day (civil_of k))))"
proof (cases "c_year (civil_of n) = c_year (civil_of k)")
  case False
  then show ?thesis
    using year_of_mono [of "n div day_ns" "k div day_ns"] assms by (simp add: civil_of_date(1))
next
  case True
  note dn = civil_of_date [of n] and dk = civil_of_date [of k]
  have same: "year_of (n div day_ns) = year_of (k div day_ns)" using True dn(1) dk(1) by simp
  show ?thesis
  proof (cases "c_month (civil_of k) < c_month (civil_of n)")
    case True
    then have "month_start (leap (year_of (k div day_ns))) (c_month (civil_of k) + 1)
        \<le> month_start (leap (year_of (k div day_ns))) (c_month (civil_of n))"
      using dn(3) by (intro month_start_mono) auto
    with dn(4,6) dk(5,6) assms same show ?thesis by (simp add: month_days_def)
  next
    case False
    with \<open>c_year (civil_of n) = c_year (civil_of k)\<close> show ?thesis
      using dn(6) dk(6) assms same by (cases "c_month (civil_of n) = c_month (civil_of k)") auto
  qed
qed

lemma clock_lex:
  assumes "n mod day_ns < k mod day_ns"
  shows "c_hour (civil_of n) < c_hour (civil_of k) \<or>
    (c_hour (civil_of n) = c_hour (civil_of k) \<and>
      (c_min (civil_of n) < c_min (civil_of k) \<or>
       (c_min (civil_of n) = c_min (civil_of k) \<and>
         (c_sec (civil_of n) < c_sec (civil_of k) \<or>
          (c_sec (civil_of n) = c_sec (civil_of k) \<and> c_nano (civil_of n) < c_nano (civil_of k))))))"
proof -
  define S where "S x = (x mod day_ns) div 1000000000" for x
  have "S x div 60 = (x mod day_ns) div 60000000000" for x
    by (simp add: S_def zdiv_zmult2_eq [symmetric])
  moreover have "S x div 60 div 60 = (x mod day_ns) div 3600000000000" for x
    by (simp add: S_def zdiv_zmult2_eq [symmetric])
  ultimately have f: "c_hour (civil_of x) = S x div 60 div 60" "c_min (civil_of x) = S x div 60 mod 60"
    "c_sec (civil_of x) = S x mod 60" "c_nano (civil_of x) = (x mod day_ns) mod 1000000000" for x
    by (simp_all add: civil_of_def Let_def S_def)
  from assms show ?thesis
    using lex_split [of 1000000000 "n mod day_ns" "k mod day_ns"]
      lex_split [of 60 "S n" "S k"] lex_split [of 60 "S n div 60" "S k div 60"]
    unfolding f S_def [symmetric] by (metis zero_less_numeral)
qed

lemma clock_recompose:
  "(c_hour (civil_of n) * 3600 + c_min (civil_of n) * 60 + c_sec (civil_of n)) * Second
     + c_nano (civil_of n) = n mod day_ns"
proof -
  define r where "r = n mod day_ns"
  have m: "r div 60000000000 = r div 1000000000 div 60"
    and h: "r div 3600000000000 = r div 1000000000 div 60 div 60"
    by (simp_all add: zdiv_zmult2_eq [symmetric])
  define S q where "S = r div 1000000000" and "q = S div 60"
  define a b s where "a = q div 60" and "b = q mod 60" and "s = S mod 60"
  have "S = q * 60 + s" and "q = a * 60 + b" by (simp_all add: q_def a_def b_def s_def)
  then have "a * 3600 + b * 60 + s = S" by linarith
  then have "(a * 3600 + b * 60 + s) * 1000000000 + r mod 1000000000 = r"
    unfolding S_def by (metis div_mult_mod_eq)
  moreover have "c_hour (civil_of n) = a" "c_min (civil_of n) = b" "c_sec (civil_of n) = s"
    "c_nano (civil_of n) = r mod 1000000000"
    unfolding civil_of_def Let_def r_def [symmetric] m h
    by (simp_all only: civil.simps a_def b_def s_def q_def S_def)
  ultimately show ?thesis unfolding Second_def r_def by (simp only:)
qed

lemma timeText_strict_mono:
  assumes "0 \<le> year_of (t_ns t div day_ns)" and "year_of (t_ns u div day_ns) \<le> 9999"
    and "t_ns t < t_ns u"
  shows "timeText t < timeText u"
proof -
  have le: "t_ns t div day_ns \<le> t_ns u div day_ns"
    using assms(3) by (intro zdiv_mono1) (auto simp: day_ns_def)
  then have yl: "year_of (t_ns t div day_ns) \<le> year_of (t_ns u div day_ns)" by (rule year_of_mono)
  define a b where "a = civil_of (t_ns t)" and "b = civil_of (t_ns u)"
  have ya: "0 \<le> c_year a" "c_year a \<le> 9999" and yb: "0 \<le> c_year b" "c_year b \<le> 9999"
    using assms(1,2) yl by (simp_all add: a_def b_def civil_of_date(1))
  have day: "0 \<le> c_day c" "c_day c < 100" "c_month c < 100" if "c = a \<or> c = b" for c
    using that civil_of_date(2-5) [of "t_ns t"] civil_of_date(2-5) [of "t_ns u"]
      month_days_le [of "c_month a"] month_days_le [of "c_month b"]
    by (auto simp: a_def b_def intro: order_trans) (smt (verit))+
  have clock: "0 \<le> c_hour c" "c_hour c < 100" "0 \<le> c_min c" "c_min c < 100" "0 \<le> c_sec c" "c_sec c < 100"
     "0 \<le> c_nano c" "c_nano c < 1000000000" if "c = a \<or> c = b" for c
    using that civil_of_fields [of "t_ns t"] civil_of_fields [of "t_ns u"]
    by (auto simp: a_def b_def)
  have lex: "t_ns t div day_ns < t_ns u div day_ns \<or>
      (t_ns t div day_ns = t_ns u div day_ns \<and> t_ns t mod day_ns < t_ns u mod day_ns)"
    using assms(3) lex_split [of day_ns "t_ns t" "t_ns u"] by (simp add: day_ns_def)
  have same: "c_year a = c_year b \<and> c_month a = c_month b \<and> c_day a = c_day b"
    if "t_ns t div day_ns = t_ns u div day_ns"
    using that by (simp add: a_def b_def civil_of_def Let_def)
  show ?thesis
    unfolding timeText_def date_time_text_def Let_def UTC_simps a_def [symmetric] b_def [symmetric]
    using date_lex [of "t_ns t" "t_ns u"] clock_lex [of "t_ns t" "t_ns u"] lex same ya yb day clock
    by (auto simp: append_int_year digits_w_field a_def [symmetric] b_def [symmetric])
qed

lemma timeText_order:
  assumes "sql_year t" and "sql_year u"
  shows "timeText t < timeText u \<longleftrightarrow> Before t u"
proof (cases "t_ns t" "t_ns u" rule: linorder_cases)
  case less
  then show ?thesis using assms timeText_strict_mono [of t u] by (simp add: Before_def sql_year_def)
next
  case equal
  then show ?thesis by (simp add: timeText_def Before_def)
next
  case greater
  then have "timeText u < timeText t" using assms timeText_strict_mono [of u t] by (simp add: sql_year_def)
  then have "\<not> timeText t < timeText u" by (rule less_not_sym)
  with greater show ?thesis by (simp add: Before_def)
qed

subsection \<open>Parsing gives the instant back\<close>

lemma is_digit_digit [simp]: "0 \<le> n \<Longrightarrow> n < 10 \<Longrightarrow> is_digit (digit n)"
  by (simp add: is_digit_def nat_le_iff le_nat_iff)

lemma digit_val_digit [simp]: "0 \<le> n \<Longrightarrow> n < 10 \<Longrightarrow> digit_val (digit n) = n"
  by (simp add: digit_val_def)

lemma take_digits_snoc:
  "take_digits w acc s = Some (v, c # r) \<Longrightarrow> is_digit c \<Longrightarrow>
     take_digits (Suc w) acc s = Some (v * 10 + digit_val c, r)"
proof (induction w arbitrary: acc s)
  case (Suc w)
  then show ?case by (cases s) (auto split: if_splits)
qed simp

lemma take_digits_digits_w:
  "0 \<le> n \<Longrightarrow> n < 10 ^ w \<Longrightarrow> take_digits w acc (digits_w w n @ r) = Some (acc * 10 ^ w + n, r)"
proof (induction w arbitrary: n r)
  case (Suc w)
  then have "take_digits w acc (digits_w w (n div 10) @ digit (n mod 10) # r)
      = Some (acc * 10 ^ w + n div 10, digit (n mod 10) # r)"
    by (intro Suc.IH) (simp_all add: div10_bound)
  then have "take_digits (Suc w) acc (digits_w w (n div 10) @ digit (n mod 10) # r)
      = Some ((acc * 10 ^ w + n div 10) * 10 + n mod 10, r)"
    by (subst take_digits_snoc) auto
  then show ?case by (simp add: algebra_simps)
qed simp

lemma digits_w_all_digits: "0 \<le> n \<Longrightarrow> c \<in> set (digits_w w n) \<Longrightarrow> is_digit c"
proof (induction w arbitrary: n)
  case (Suc w)
  have "0 \<le> n div 10" using Suc.prems by simp
  with Suc show ?case by auto
qed simp

lemma parse_fraction_nano:
  assumes "0 \<le> n" and "n < 1000000000"
  shows "parse_fraction (CHR ''.'' # digits_w 9 n @ ''Z'') = (n, ''Z'')"
proof -
  have digits: "\<forall>c \<in> set (digits_w 9 n). is_digit c" using assms digits_w_all_digits by blast
  then have t: "takeWhile is_digit (digits_w 9 n @ ''Z'') = digits_w 9 n"
    and d: "dropWhile is_digit (digits_w 9 n @ ''Z'') = ''Z''"
    by (simp_all add: is_digit_def takeWhile_append dropWhile_append)
  obtain c r where cr: "digits_w 9 n = c # r"
    by (cases "digits_w 9 n") (metis length_digits_w list.size(3) zero_neq_numeral, blast)
  then have c: "is_digit c" using digits by simp
  have t': "takeWhile is_digit (r @ ''Z'') = r" and d': "dropWhile is_digit (r @ ''Z'') = ''Z''"
    using t d c unfolding cr by simp_all
  have v: "take_digits 9 0 (c # r) = Some (n, [])"
    using take_digits_digits_w [of n 9 0 "[]"] assms unfolding cr by simp
  have len: "length r = 8" using length_digits_w [of 9 n] unfolding cr by simp
  show ?thesis
    unfolding cr by (simp add: parse_fraction_def Let_def c t' d' v len)
qed

lemma ParseRFC3339Nano_layout:
  assumes "0 \<le> year_of (n div day_ns)" and "year_of (n div day_ns) \<le> 9999"
    and "parse_fraction rest = (c_nano (civil_of n), zone)" and "parse_zone zone = Some z"
  shows "ParseRFC3339Nano (date_time_text (civil_of n) @ rest) = Some \<lparr>t_ns = n - z * Second, t_off = z\<rparr>"
proof -
  define c where "c = civil_of n"
  note date = civil_of_date [of n, folded c_def] and clock = civil_of_fields [of n, folded c_def]
  have day: "c_day c < 100"
    using date(2-5) month_days_le [of "c_month c" "year_of (n div day_ns)"] by linarith
  have clk: "(c_hour c * 3600 + c_min c * 60 + c_sec c) * Second + c_nano c = n mod day_ns"
    using clock_recompose [of n] by (simp add: c_def)
  have ns: "(jan1 (c_year c) + month_start (leap (c_year c)) (c_month c) + c_day c - 1) * day_ns
      + (c_hour c * 3600 + c_min c * 60 + c_sec c) * Second + c_nano c = n"
    using date(1,6) clk div_mult_mod_eq [of n day_ns] by (simp add: add.assoc)
  have year: "c_year c < 10000" "0 \<le> c_year c" using assms(1,2) date(1) by simp_all
  have fields: "int (c_month c) < 100" "0 \<le> c_day c" "c_hour c < 100" "c_min c < 100" "c_sec c < 100"
    using date clock by linarith+
  have layout: "date_time_text c @ rest = digits_w 4 (c_year c) @ ''-'' @ digits_w 2 (int (c_month c)) @ ''-'' @
      digits_w 2 (c_day c) @ ''T'' @ digits_w 2 (c_hour c) @ '':'' @ digits_w 2 (c_min c) @ '':'' @
      digits_w 2 (c_sec c) @ rest"
    using year by (simp add: date_time_text_def append_int_year)
  have frac: "parse_fraction rest = (c_nano c, zone)" using assms(3) by (simp add: c_def)
  show ?thesis
    unfolding ParseRFC3339Nano_def c_def [symmetric] layout
    using year fields day clock date ns assms(4)
    by (simp add: take_digits_digits_w parse_hour_def expect_def frac
        del: digits_w.simps take_digits.simps)
qed

lemma ParseRFC3339Nano_timeText:
  assumes "sql_year t"
  shows "ParseRFC3339Nano (timeText t) = Some (UTC t)"
proof -
  have "ParseRFC3339Nano (date_time_text (civil_of (t_ns t)) @ ''.'' @ digits_w 9 (c_nano (civil_of (t_ns t))) @ ''Z'')
      = Some \<lparr>t_ns = t_ns t - 0 * Second, t_off = 0\<rparr>"
    using assms civil_of_fields [of "t_ns t"]
    by (intro ParseRFC3339Nano_layout [where zone = "''Z''"])
      (simp_all add: sql_year_def parse_fraction_nano, simp add: parse_zone_def)
  then show ?thesis by (simp add: timeText_def Let_def UTC_def)
qed

text \<open>Trailing zeros of the fraction are dropped when written and supplied when read.\<close>

lemma trim_zeros_pad: "\<exists>k. s = trim_zeros s @ replicate k (digit 0) \<and> length s = length (trim_zeros s) + k"
proof -
  let ?z = "takeWhile (\<lambda>c. c = digit 0) (rev s)"
  have "?z = replicate (length ?z) (digit 0)"
    by (rule replicate_length_same [symmetric]) (auto dest: set_takeWhileD)
  moreover have "s = trim_zeros s @ rev ?z"
    unfolding trim_zeros_def by (simp flip: rev_append)
  ultimately have eq: "s = trim_zeros s @ replicate (length ?z) (digit 0)" by (metis rev_replicate)
  moreover from arg_cong [OF eq, of length] have "length s = length (trim_zeros s) + length ?z" by simp
  ultimately show ?thesis by blast
qed

lemma parse_fraction_trimmed:
  assumes "0 \<le> n" and "n < 1000000000"
    and "zone \<noteq> [] \<Longrightarrow> \<not> is_digit (hd zone) \<and> hd zone \<notin> set ''.,''"
  shows "parse_fraction ((if trim_zeros (digits_w 9 n) = [] then [] else ''.'' @ trim_zeros (digits_w 9 n)) @ zone)
    = (n, zone)"
proof -
  define f where "f = trim_zeros (digits_w 9 n)"
  obtain k where pad: "digits_w 9 n = f @ replicate k (digit 0)" and len: "length f + k = 9"
    using trim_zeros_pad [of "digits_w 9 n"] unfolding f_def length_digits_w by metis
  have val: "take_digits 9 0 (digits_w 9 n) = Some (n, [])"
    using take_digits_digits_w [of n 9 0 "[]"] assms by simp
  show ?thesis
  proof (cases "f = []")
    case True
    with pad len have "digits_w 9 n = digits_w 9 0" by (simp add: digits_w_0 del: digits_w.simps)
    with val have "n = 0" using take_digits_digits_w [of 0 9 0 "[]"] by simp
    with True assms(3) show ?thesis
      unfolding f_def [symmetric] by (auto simp: parse_fraction_def split: list.splits)
  next
    case False
    then obtain c r where cr: "f = c # r" by (cases f) auto
    have dig: "\<forall>x \<in> set f. is_digit x"
      using digits_w_all_digits [OF assms(1), of _ 9] unfolding pad by auto
    have t: "takeWhile is_digit (r @ zone) = r" and d: "dropWhile is_digit (r @ zone) = zone"
      using dig assms(3) unfolding cr
      by (cases zone; simp add: takeWhile_append dropWhile_append)+
    have first: "take 9 (f @ replicate 9 (digit 0)) = digits_w 9 n"
      using len unfolding pad by (simp add: take_append)
    have "parse_fraction (''.'' @ f @ zone) = (fst (the (take_digits 9 0 (digits_w 9 n))), zone)"
      using dig first unfolding cr
      by (simp add: parse_fraction_def Let_def t d del: digits_w.simps take_digits.simps)
    with False val show ?thesis unfolding f_def [symmetric] by simp
  qed
qed

lemma parse_zone_text:
  assumes "60 dvd z" and "\<bar>z\<bar> < 86400"
  shows "parse_zone (zone_text z) = Some z"
proof (cases "z = 0")
  case False
  define m where "m = \<bar>z\<bar> div 60"
  have z: "\<bar>z\<bar> = m * 60" using assms(1) by (simp add: m_def)
  have m: "0 \<le> m div 60" "m div 60 < 24" "0 \<le> m mod 60" "m mod 60 < 60"
    using assms(2) z by auto
  have zone: "zone_text z = (if z < 0 then CHR ''-'' else CHR ''+'') # digits_w 2 (m div 60) @ '':'' @ digits_w 2 (m mod 60) @ []"
    using False by (simp add: zone_text_def Let_def m_def del: digits_w.simps)
  define a b where "a = m div 60" and "b = m mod 60"
  have "(a * 60 + b) * 60 = \<bar>z\<bar>" using z by (simp add: a_def b_def)
  moreover have "take_digits 2 0 (digits_w 2 a @ '':'' @ digits_w 2 b @ []) = Some (a, '':'' @ digits_w 2 b @ [])"
    and "take_digits 2 0 (digits_w 2 b @ []) = Some (b, [])"
    using m take_digits_digits_w [of a 2 0] take_digits_digits_w [of b 2 0 "[]"]
    by (simp_all add: a_def b_def del: digits_w.simps take_digits.simps)
  ultimately show ?thesis
    using m unfolding zone a_def [symmetric] b_def [symmetric]
    by (simp add: parse_zone_def expect_def del: digits_w.simps take_digits.simps)
      (simp add: abs_if split: if_splits)
qed (simp add: zone_text_def parse_zone_def)

lemma zone_text_hd: "zone_text z \<noteq> [] \<Longrightarrow> \<not> is_digit (hd (zone_text z)) \<and> hd (zone_text z) \<notin> set ''.,''"
  by (auto simp: zone_text_def Let_def is_digit_def)

lemma ParseRFC3339Nano_Format:
  assumes "json_time t" and "60 dvd t_off t"
  shows "ParseRFC3339Nano (FormatRFC3339Nano t) = Some t"
proof -
  let ?n = "t_ns t + t_off t * Second"
  have "ParseRFC3339Nano (date_time_text (civil_of ?n)
        @ ((if trim_zeros (digits_w 9 (c_nano (civil_of ?n))) = [] then []
            else ''.'' @ trim_zeros (digits_w 9 (c_nano (civil_of ?n)))) @ zone_text (t_off t)))
      = Some \<lparr>t_ns = ?n - t_off t * Second, t_off = t_off t\<rparr>"
    using assms civil_of_fields [of ?n]
    by (intro ParseRFC3339Nano_layout [where zone = "zone_text (t_off t)"] parse_fraction_trimmed
        parse_zone_text zone_text_hd) (simp_all add: json_time_def)
  then show ?thesis by (simp add: FormatRFC3339Nano_def Let_def)
qed

lemma json_time_UTC: "json_time (UTC t) \<longleftrightarrow> sql_year t"
  by (simp add: json_time_def sql_year_def)

subsection \<open>Stored timestamps of the controller (internal/controller/store.go)\<close>

definition parse_failure :: "string \<Rightarrow> go_error" where
  "parse_failure value = Errorf ''parsing time %q'' [ArgS value]"

definition parseTime :: "string \<Rightarrow> gotime result" where
  "parseTime value =
     (case ParseRFC3339Nano value of
        None \<Rightarrow> Inl (Wrap ''parse stored timestamp: %w'' (parse_failure value))
      | Some parsed \<Rightarrow> Inr parsed)"

text \<open>
  C34: the text the controller stores for a time sorts, as text, exactly as the instants do,
  for all years from 0 to 9999; the SQL comparisons of the stores rely on it.
\<close>

theorem timeText_orders_instants:
  assumes "sql_year t" and "sql_year u"
  shows "timeText t < timeText u \<longleftrightarrow> Before t u"
  by (rule timeText_order [OF assms])

theorem timeText_orders_instants_witness:
  "timeText \<lparr>t_ns = 63900000000000000000, t_off = 0\<rparr> < timeText \<lparr>t_ns = 63900000000000000001, t_off = 3600\<rparr>"
proof -
  have "sql_year \<lparr>t_ns = 63900000000000000000, t_off = 0\<rparr>" "sql_year \<lparr>t_ns = 63900000000000000001, t_off = 3600\<rparr>"
    by (simp_all add: sql_year_def year_of_def Let_def day_ns_def)
  from timeText_orders_instants [OF this] show ?thesis by (simp add: Before_def)
qed

text \<open>
  C35: reading a stored timestamp back gives the same instant, in UTC.
\<close>

theorem parseTime_timeText:
  assumes "sql_year t"
  shows "parseTime (timeText t) = Inr (UTC t)"
  by (simp add: parseTime_def ParseRFC3339Nano_timeText [OF assms])

theorem parseTime_timeText_witness:
  "parseTime (timeText \<lparr>t_ns = 63900000000000000001, t_off = 3600\<rparr>) = Inr \<lparr>t_ns = 63900000000000000001, t_off = 0\<rparr>"
proof -
  have "sql_year \<lparr>t_ns = 63900000000000000001, t_off = 3600\<rparr>"
    by (simp add: sql_year_def year_of_def Let_def day_ns_def)
  from parseTime_timeText [OF this] show ?thesis by (simp add: UTC_def)
qed

end
