(* ===== verification/GoJson.thy ===== *)
theory GoJson
  imports GoTime
begin

section \<open>JSON documents as encoding/json writes and reads them\<close>

text \<open>
  A JSON text is represented by its value tree: \<open>json.Marshal\<close> of the sources' structs is a
  function into \<open>json\<close> (object members in field order, \<open>omitempty\<close> members left out), and
  \<open>json.Unmarshal\<close> a partial function out of it. White space and the escapes inside string
  literals are not represented. Writing a Go string replaces its invalid UTF-8 bytes
  (\<open>jstr\<close>) and so does reading a string literal; numbers keep their literal.

  Decoding follows the library: the members of an object are taken in order and assigned to
  the field whose name they match under case folding, unknown members are skipped, \<open>null\<close>
  leaves a field as it is (a pointer becomes \<open>nil\<close>), and a member of the wrong type makes
  the whole decoding fail.
\<close>

datatype json =
    JNull
  | JBool bool
  | JNum string
  | JStr string
  | JArr "json list"
  | JObj "(string \<times> json) list"

definition jstr :: "string \<Rightarrow> json" where
  "jstr s = JStr (sanitize s)"

definition jint :: "int \<Rightarrow> json" where
  "jint n = JNum (FormatInt n)"

definition jtime :: "gotime \<Rightarrow> json" where
  "jtime t = JStr (FormatRFC3339Nano t)"

text \<open>A member with \<open>omitempty\<close>.\<close>

definition omit :: "bool \<Rightarrow> string \<Rightarrow> json \<Rightarrow> (string \<times> json) list" where
  "omit isempty k v = (if isempty then [] else [(k, v)])"

text \<open>Member names match fields under simple case folding.\<close>

definition fold_rune :: "nat \<Rightarrow> nat" where
  "fold_rune r = (if 65 \<le> r \<and> r \<le> 90 then r + 32
     else if r = 383 then 115 else if r = 8490 then 107 else r)"

definition key_is :: "string \<Rightarrow> string \<Rightarrow> bool" where
  "key_is k name \<longleftrightarrow> map (\<lambda>r. fold_rune (fst r)) (runes k) = map (\<lambda>r. fold_rune (fst r)) (runes name)"

lemma key_is_refl [simp]: "key_is k k"
  by (simp add: key_is_def)

definition dec_string :: "json \<Rightarrow> string \<Rightarrow> string option" where
  "dec_string j cur = (case j of JNull \<Rightarrow> Some cur | JStr s \<Rightarrow> Some (sanitize s) | _ \<Rightarrow> None)"

definition dec_bool :: "json \<Rightarrow> bool \<Rightarrow> bool option" where
  "dec_bool j cur = (case j of JNull \<Rightarrow> Some cur | JBool b \<Rightarrow> Some b | _ \<Rightarrow> None)"

definition dec_time :: "json \<Rightarrow> gotime \<Rightarrow> gotime option" where
  "dec_time j cur = (case j of JNull \<Rightarrow> Some cur | JStr s \<Rightarrow> ParseRFC3339Nano s | _ \<Rightarrow> None)"

definition dec_ptr :: "'a \<Rightarrow> (json \<Rightarrow> 'a \<Rightarrow> 'a option) \<Rightarrow> json \<Rightarrow> 'a option \<Rightarrow> 'a option option" where
  "dec_ptr zero dec j cur =
     (case j of JNull \<Rightarrow> Some None
      | _ \<Rightarrow> map_option Some (dec j (case cur of None \<Rightarrow> zero | Some x \<Rightarrow> x)))"

text \<open>An array is decoded over the elements the slice already has.\<close>

fun dec_list :: "'a \<Rightarrow> (json \<Rightarrow> 'a \<Rightarrow> 'a option) \<Rightarrow> json list \<Rightarrow> 'a list \<Rightarrow> 'a list option" where
  "dec_list zero dec [] cur = Some []"
| "dec_list zero dec (j # js) cur =
     (case dec j (case cur of [] \<Rightarrow> zero | x # _ \<Rightarrow> x) of
        None \<Rightarrow> None | Some y \<Rightarrow> map_option ((#) y) (dec_list zero dec js (drop 1 cur)))"

definition dec_slice :: "'a \<Rightarrow> (json \<Rightarrow> 'a \<Rightarrow> 'a option) \<Rightarrow> json \<Rightarrow> 'a list \<Rightarrow> 'a list option" where
  "dec_slice zero dec j cur =
     (case j of JNull \<Rightarrow> Some [] | JArr js \<Rightarrow> dec_list zero dec js cur | _ \<Rightarrow> None)"

text \<open>Integers: the literal must be an integer and fit the field's type.\<close>

fun parse_digits :: "int \<Rightarrow> string \<Rightarrow> int option" where
  "parse_digits acc [] = Some acc"
| "parse_digits acc (c # s) = (if is_digit c then parse_digits (acc * 10 + digit_val c) s else None)"

definition parse_int :: "string \<Rightarrow> int option" where
  "parse_int s =
     (case s of [] \<Rightarrow> None
      | c # r \<Rightarrow> if c = CHR ''-'' then (if r = [] then None else map_option uminus (parse_digits 0 r))
                 else parse_digits 0 s)"

definition dec_int :: "int \<Rightarrow> int \<Rightarrow> json \<Rightarrow> int \<Rightarrow> int option" where
  "dec_int lo hi j cur =
     (case j of JNull \<Rightarrow> Some cur
      | JNum s \<Rightarrow> (case parse_int s of Some n \<Rightarrow> if lo \<le> n \<and> n \<le> hi then Some n else None | None \<Rightarrow> None)
      | _ \<Rightarrow> None)"

abbreviation dec_int64 :: "json \<Rightarrow> int \<Rightarrow> int option" where
  "dec_int64 \<equiv> dec_int (- (2 ^ 63)) (2 ^ 63 - 1)"

definition dec_uint64 :: "json \<Rightarrow> 64 word \<Rightarrow> 64 word option" where
  "dec_uint64 j cur = map_option word_of_int (dec_int 0 (2 ^ 64 - 1) j (uint cur))"

fun dec_members :: "(string \<Rightarrow> json \<Rightarrow> 'a \<Rightarrow> 'a option) \<Rightarrow> (string \<times> json) list \<Rightarrow> 'a \<Rightarrow> 'a option" where
  "dec_members f [] x = Some x"
| "dec_members f ((k, v) # ms) x = (case f k v x of None \<Rightarrow> None | Some y \<Rightarrow> dec_members f ms y)"

definition dec_object :: "(string \<Rightarrow> json \<Rightarrow> 'a \<Rightarrow> 'a option) \<Rightarrow> json \<Rightarrow> 'a \<Rightarrow> 'a option" where
  "dec_object f j x =
     (case j of JNull \<Rightarrow> Some x | JObj ms \<Rightarrow> dec_members f ms x | _ \<Rightarrow> None)"

lemma dec_members_append:
  "dec_members f (ms @ ns) x = (case dec_members f ms x of None \<Rightarrow> None | Some y \<Rightarrow> dec_members f ns y)"
  by (induction f ms x rule: dec_members.induct) (auto split: option.splits)

lemma dec_members_omit:
  "dec_members f (omit e k v @ ns) x =
     (if e then dec_members f ns x else case f k v x of None \<Rightarrow> None | Some y \<Rightarrow> dec_members f ns y)"
  by (simp add: omit_def)

lemma dec_list_map:
  "(\<And>x. x \<in> set xs \<Longrightarrow> dec (enc x) zero = Some (g x)) \<Longrightarrow>
     dec_list zero dec (map enc xs) [] = Some (map g xs)"
  by (induction xs) auto

lemma parse_digits_snoc:
  "parse_digits acc (s @ [c]) =
     (case parse_digits acc s of Some v \<Rightarrow> if is_digit c then Some (v * 10 + digit_val c) else None | None \<Rightarrow> None)"
  by (induction s arbitrary: acc) auto

lemma dec_text_nonempty: "dec_text n \<noteq> []"
  by (subst dec_text.simps) simp

lemma parse_digits_dec_text: "0 \<le> n \<Longrightarrow> parse_digits 0 (dec_text n) = Some n"
proof (induction n rule: dec_text.induct)
  case (1 n)
  show ?case
  proof (cases "n < 10")
    case True
    with 1 show ?thesis by (simp add: dec_text.simps [of n])
  next
    case False
    with 1 have "parse_digits 0 (dec_text (n div 10)) = Some (n div 10)" by simp
    with False show ?thesis by (simp add: dec_text.simps [of n] parse_digits_snoc)
  qed
qed

lemma dec_text_hd_digit: "0 \<le> n \<Longrightarrow> is_digit (hd (dec_text n))"
  using parse_digits_dec_text [of n] dec_text_nonempty [of n]
  by (cases "dec_text n") (auto split: if_splits)

lemma parse_int_FormatInt: "parse_int (FormatInt n) = Some n"
proof -
  obtain c r where cr: "dec_text \<bar>n\<bar> = c # r" by (meson dec_text_nonempty neq_Nil_conv)
  have "is_digit c" using dec_text_hd_digit [of "\<bar>n\<bar>"] cr by simp
  then have "c \<noteq> CHR ''-''" by (auto simp: is_digit_def)
  moreover have "parse_digits 0 (c # r) = Some \<bar>n\<bar>" using parse_digits_dec_text [of "\<bar>n\<bar>"] cr by simp
  ultimately show ?thesis
    by (auto simp: parse_int_def FormatInt_def append_int_def Let_def cr)
qed

lemma dec_int_jint [simp]: "lo \<le> n \<Longrightarrow> n \<le> hi \<Longrightarrow> dec_int lo hi (jint n) cur = Some n"
  by (simp add: dec_int_def jint_def parse_int_FormatInt)

lemma dec_uint64_jint [simp]: "dec_uint64 (jint (uint w)) cur = Some w"
  using uint_lt2p [of w] by (simp add: dec_uint64_def uint_ge_0)

lemma dec_string_jstr [simp]: "dec_string (jstr s) cur = Some (sanitize s)"
  by (simp add: dec_string_def jstr_def)

lemma dec_bool_JBool [simp]: "dec_bool (JBool b) cur = Some b"
  by (simp add: dec_bool_def)

text \<open>The time a JSON document keeps: the instant to the minute of its zone offset.\<close>

definition json_exact_time :: "gotime \<Rightarrow> bool" where
  "json_exact_time t \<longleftrightarrow> json_time t \<and> 60 dvd t_off t"

lemma dec_time_jtime [simp]: "json_exact_time t \<Longrightarrow> dec_time (jtime t) cur = Some t"
  by (simp add: dec_time_def jtime_def json_exact_time_def ParseRFC3339Nano_Format)

lemma json_exact_time_UTC [simp]: "json_exact_time (UTC t) \<longleftrightarrow> sql_year t"
  by (simp add: json_exact_time_def json_time_UTC)

lemma dec_ptr_Some: "j \<noteq> JNull \<Longrightarrow> dec_ptr zero dec j None = map_option Some (dec j zero)"
  by (simp add: dec_ptr_def split: json.splits)

lemma key_is_ascii:
  assumes "ascii k" and "ascii n"
  shows "key_is k n \<longleftrightarrow> map (\<lambda>c. fold_rune (byte c)) k = map (\<lambda>c. fold_rune (byte c)) n"
  using assms by (simp add: key_is_def runes_ascii comp_def)

subsection \<open>String maps\<close>

text \<open>
  A Go \<open>map[string]string\<close> is the list of its entries in key order, which is also the order
  \<open>encoding/json\<close> writes them in.
\<close>

type_synonym labels = "(string \<times> string) list"

definition labels_put :: "string \<Rightarrow> string \<Rightarrow> labels \<Rightarrow> labels" where
  "labels_put k v m = insort_key fst (k, v) (filter (\<lambda>e. fst e \<noteq> k) m)"

definition labels_json :: "labels \<Rightarrow> json" where
  "labels_json m = JObj (map (\<lambda>(k, v). (sanitize k, jstr v)) m)"

definition dec_labels :: "json \<Rightarrow> labels \<Rightarrow> labels option" where
  "dec_labels j cur =
     (case j of JNull \<Rightarrow> Some []
      | JObj ms \<Rightarrow> dec_members (\<lambda>k v m. map_option (\<lambda>s. labels_put (sanitize k) s m) (dec_string v [])) ms cur
      | _ \<Rightarrow> None)"

lemma labels_put_last:
  assumes "\<forall>e \<in> set m. fst e < k"
  shows "labels_put k v m = m @ [(k, v)]"
proof -
  have "filter (\<lambda>e. fst e \<noteq> k) m = m" using assms by (auto simp: filter_id_conv)
  moreover have "insort_key fst (k, v) m = m @ [(k, v)]"
    using assms by (induction m) auto
  ultimately show ?thesis by (simp add: labels_put_def)
qed

lemma dec_labels_json:
  assumes "sorted_wrt (<) (map fst m)" and "\<forall>(k, v) \<in> set m. sanitize k = k \<and> sanitize v = v"
  shows "dec_labels (labels_json m) [] = Some m"
proof -
  let ?f = "\<lambda>k v m. map_option (\<lambda>s. labels_put (sanitize k) s m) (dec_string v [])"
  have "dec_members ?f (map (\<lambda>(k, v). (sanitize k, jstr v)) m) acc = Some (acc @ m)"
    if "sorted_wrt (<) (map fst (acc @ m))" for acc
    using that assms(2)
  proof (induction m arbitrary: acc)
    case (Cons e m)
    obtain k v where e: "e = (k, v)" by (cases e)
    have below: "\<forall>x \<in> set acc. fst x < k"
      using Cons.prems(1) by (auto simp: e sorted_wrt_append)
    have "dec_members ?f (map (\<lambda>(k, v). (sanitize k, jstr v)) m) (acc @ [(k, v)]) = Some ((acc @ [(k, v)]) @ m)"
      using Cons.prems by (intro Cons.IH) (auto simp: e)
    with Cons.prems(2) below show ?case by (simp add: e labels_put_last)
  qed simp
  from this [of "[]"] assms(1) show ?thesis by (simp add: dec_labels_def labels_json_def)
qed

text \<open>A JSON document held as raw bytes: absent, not JSON, or the value it encodes.\<close>

datatype raw_message = RawEmpty | RawInvalid string | RawJSON json

subsection \<open>Structs\<close>

text \<open>
  A struct type is the table of its fields, each with its JSON name, the access to the field
  and the decoder of its type. For documents whose member names are spelled as the field
  tags, case folding plays no role and members are found by name (\<open>dec_struct_plain\<close>); the
  remaining lemmas take one member at a time, an \<open>omitempty\<close> member included.
\<close>

definition fld ::
  "('s \<Rightarrow> 'x) \<Rightarrow> ('x \<Rightarrow> 's \<Rightarrow> 's) \<Rightarrow> (json \<Rightarrow> 'x \<Rightarrow> 'x option) \<Rightarrow> json \<Rightarrow> 's \<Rightarrow> 's option" where
  "fld get put dec v s = map_option (\<lambda>x. put x s) (dec v (get s))"

type_synonym 's fields = "(string \<times> (json \<Rightarrow> 's \<Rightarrow> 's option)) list"

definition dec_struct :: "'s fields \<Rightarrow> json \<Rightarrow> 's \<Rightarrow> 's option" where
  "dec_struct flds = dec_object (\<lambda>k v s.
     case find (\<lambda>f. key_is k (fst f)) flds of None \<Rightarrow> Some s | Some f \<Rightarrow> snd f v s)"

definition plain_name :: "string \<Rightarrow> bool" where
  "plain_name n \<longleftrightarrow> list_all (\<lambda>c. c \<in> set ''abcdefghijklmnopqrstuvwxyz_0123456789'') n"

definition by_name :: "'s fields \<Rightarrow> string \<Rightarrow> json \<Rightarrow> 's \<Rightarrow> 's option" where
  "by_name flds k v s = (case map_of flds k of None \<Rightarrow> Some s | Some f \<Rightarrow> f v s)"

lemma key_is_plain:
  assumes "plain_name k" and "plain_name n"
  shows "key_is k n \<longleftrightarrow> k = n"
proof -
  have plain: "ascii s \<and> map (\<lambda>c. fold_rune (byte c)) s = map byte s" if "plain_name s" for s
    using that unfolding plain_name_def
    by (induction s) (auto simp: fold_rune_def)
  have "key_is k n \<longleftrightarrow> map (of_char :: char \<Rightarrow> nat) k = map of_char n"
    using assms [THEN plain] by (simp only: key_is_ascii)
  also have "\<dots> \<longleftrightarrow> k = n" by (rule inj_map_eq_map) (simp add: inj_def)
  finally show ?thesis .
qed

lemma find_plain:
  assumes "list_all plain_name (map fst flds)" and "plain_name k"
  shows "(case find (\<lambda>f. key_is k (fst f)) flds of None \<Rightarrow> Some s | Some f \<Rightarrow> snd f v s) = by_name flds k v s"
  using assms by (induction flds) (auto simp: by_name_def key_is_plain)

lemma dec_struct_plain:
  assumes "list_all plain_name (map fst flds)" and "list_all plain_name (map fst ms)"
  shows "dec_struct flds (JObj ms) s = dec_members (by_name flds) ms s"
  using assms(2)
  by (induction ms arbitrary: s) (auto simp: dec_struct_def dec_object_def find_plain [OF assms(1)] split: option.splits)

lemma dec_struct_members:
  assumes "list_all plain_name (map fst flds)" and "list_all plain_name (map fst ms)"
    and "dec_members (by_name flds) ms z = Some x"
  shows "dec_struct flds (JObj ms) z = Some x"
  using assms by (simp add: dec_struct_plain)

lemma dec_member:
  assumes "map_of flds k = Some (fld get put dec)" and "dec v (get s) = Some x"
  shows "dec_members (by_name flds) ((k, v) # ms) s = dec_members (by_name flds) ms (put x s)"
  using assms by (simp add: by_name_def fld_def)

lemma dec_member_omit:
  assumes "map_of flds k = Some (fld get put dec)" and "\<not> e \<Longrightarrow> dec v (get s) = Some x"
    and "e \<Longrightarrow> put x s = s"
  shows "dec_members (by_name flds) (omit e k v @ ms) s = dec_members (by_name flds) ms (put x s)"
  using assms by (simp add: by_name_def fld_def omit_def)

lemma dec_member_string:
  assumes "map_of flds k = Some (fld get put dec_string)" and "sanitize x = x" and "put [] s = s"
  shows "dec_members (by_name flds) (omit (x = []) k (jstr x) @ ms) s = dec_members (by_name flds) ms (put x s)"
  using assms by (simp add: by_name_def fld_def omit_def)

lemma dec_member_ptr:
  assumes "map_of flds k = Some (fld get put (dec_ptr zero dec))" and "get s = None" and "put None s = s"
    and "\<And>x. p = Some x \<Longrightarrow> enc x \<noteq> JNull \<and> dec (enc x) zero = Some x"
  shows "dec_members (by_name flds) (omit (p = None) k (enc (the p)) @ ms) s = dec_members (by_name flds) ms (put p s)"
  using assms by (cases p) (simp_all add: by_name_def fld_def omit_def dec_ptr_Some)

lemma plain_omit: "plain_name k \<Longrightarrow> list_all plain_name (map fst (omit e k v))"
  by (simp add: omit_def)

subsection \<open>What decoding guarantees\<close>

text \<open>
  Decoded strings are valid UTF-8 and decoded maps have their keys in order. The lemma
  \<open>dec_struct_keeps\<close> carries such a fact from the fields of a struct to the struct.
\<close>

lemma dec_string_clean: "dec_string j cur = Some s \<Longrightarrow> sanitize cur = cur \<Longrightarrow> sanitize s = s"
  by (auto simp: dec_string_def split: json.splits)

definition labels_clean :: "labels \<Rightarrow> bool" where
  "labels_clean m \<longleftrightarrow> sorted_wrt (<) (map fst m) \<and> (\<forall>(k, v) \<in> set m. sanitize k = k \<and> sanitize v = v)"

lemma labels_clean_put:
  assumes "labels_clean m" and "sanitize k = k" and "sanitize v = v"
  shows "labels_clean (labels_put k v m)"
proof -
  let ?m = "filter (\<lambda>e. fst e \<noteq> k) m"
  have s: "sorted (map fst m)" "distinct (map fst m)" using assms(1) by (simp_all add: labels_clean_def strict_sorted_iff)
  have "map fst (labels_put k v m) = insort k (map fst ?m)" by (simp add: labels_put_def map_insort_key)
  moreover have "sorted (map fst ?m)" "distinct (map fst ?m)"
    using s by (simp_all add: sorted_filter distinct_map_filter)
  ultimately have "sorted_wrt (<) (map fst (labels_put k v m))"
    by (auto simp: strict_sorted_iff sorted_insort distinct_insort)
  moreover have "set (labels_put k v m) \<subseteq> insert (k, v) (set m)"
    by (auto simp: labels_put_def set_insort_key)
  ultimately show ?thesis using assms unfolding labels_clean_def by blast
qed

lemma dec_members_keeps:
  assumes "\<And>k v x y. (k, v) \<in> set ms \<Longrightarrow> P x \<Longrightarrow> f k v x = Some y \<Longrightarrow> P y"
    and "P x" and "dec_members f ms x = Some y"
  shows "P y"
  using assms by (induction f ms x rule: dec_members.induct) (auto split: option.splits)

lemma dec_labels_clean:
  assumes "dec_labels j cur = Some m" and "labels_clean cur"
  shows "labels_clean m"
proof (cases j)
  case (JObj ms)
  have "dec_members (\<lambda>k v m. map_option (\<lambda>s. labels_put (sanitize k) s m) (dec_string v [])) ms cur = Some m"
    using assms(1) JObj by (simp add: dec_labels_def)
  then show ?thesis
    by (rule dec_members_keeps [rotated 2, where P = labels_clean])
      (auto intro!: labels_clean_put assms(2) dest!: dec_string_clean)
qed (use assms in \<open>auto simp: dec_labels_def labels_clean_def\<close>)

lemma dec_struct_keeps:
  assumes "list_all (\<lambda>(k, f). \<forall>v x y. P x \<longrightarrow> f v x = Some y \<longrightarrow> P y) flds"
    and "P x" and "dec_struct flds j x = Some y"
  shows "P y"
proof (cases j)
  case (JObj ms)
  have field: "P y" if "P x" and "(case find (\<lambda>f. key_is k (fst f)) flds of None \<Rightarrow> Some x | Some f \<Rightarrow> snd f v x) = Some y"
    for k v x y
  proof (cases "find (\<lambda>f. key_is k (fst f)) flds")
    case (Some f)
    then have "f \<in> set flds" by (auto simp: find_Some_iff)
    with assms(1) that Some show ?thesis by (cases f) (auto simp: list_all_iff)
  qed (use that in simp)
  have "dec_members (\<lambda>k v s. case find (\<lambda>f. key_is k (fst f)) flds of None \<Rightarrow> Some s | Some f \<Rightarrow> snd f v s) ms x = Some y"
    using assms(3) JObj by (simp add: dec_struct_def dec_object_def)
  then show ?thesis
    by (rule dec_members_keeps [rotated 2, where P = P]) (rule field, assumption+, rule assms(2))
qed (use assms in \<open>auto simp: dec_struct_def dec_object_def\<close>)

lemma dec_slice_keeps:
  assumes "\<And>j x y. P x \<Longrightarrow> dec j x = Some y \<Longrightarrow> P y" and "P zero"
    and "dec_slice zero dec j cur = Some ys" and "list_all P cur"
  shows "list_all P ys"
proof -
  have "list_all P zs" if "dec_list zero dec js cur = Some zs" and "list_all P cur" for js cur zs
    using that
  proof (induction js arbitrary: cur zs)
    case (Cons j js)
    let ?x = "case cur of [] \<Rightarrow> zero | x # _ \<Rightarrow> x"
    obtain y rest where y: "dec j ?x = Some y" and rest: "dec_list zero dec js (drop 1 cur) = Some rest" "zs = y # rest"
      using Cons.prems(1) by (auto split: option.splits)
    have "P ?x" using Cons.prems(2) assms(2) by (cases cur) auto
    then have "P y" using assms(1) y by blast
    moreover have "list_all P (drop 1 cur)" using Cons.prems(2) by (cases cur) auto
    ultimately show ?case using Cons.IH [OF rest(1)] rest(2) by simp
  qed simp
  then show ?thesis using assms(3,4) by (auto simp: dec_slice_def split: json.splits)
qed

lemma dec_ptr_keeps:
  assumes "\<And>j x y. P x \<Longrightarrow> dec j x = Some y \<Longrightarrow> P y" and "P zero"
    and "dec_ptr zero dec j cur = Some p" and "pred_option P cur"
  shows "pred_option P p"
  using assms(3,4) assms(1) [of zero j] assms(1) [of "the cur" j] assms(2)
  by (auto simp: dec_ptr_def split: json.splits option.splits)

end
