(* ===== verification/Model.thy ===== *)
theory Model
  imports GoJson
begin

section \<open>Events and findings (internal/model/contracts.go)\<close>

text \<open>
  The contracts every component exchanges: events, findings, the payloads of finding
  events, their validation, their JSON form and the random identifiers. String-typed
  enumerations (\<open>Severity\<close>, \<open>FindingState\<close>) stay strings with a \<open>Valid\<close> test, as in the
  source, where any string can arrive from a decoded document. A Go map is a list of entries
  in key order, a pointer an option, \<open>uint64\<close> a \<open>64 word\<close>; the JSON field tags are the
  member names of the encoders below.
\<close>

definition EventSchema :: string where "EventSchema = ''io.oh-my-safety/event''"
definition EventSchemaVersion :: int where "EventSchemaVersion = 1"
definition FindingSchema :: string where "FindingSchema = ''io.oh-my-safety/finding''"
definition FindingSchemaVersion :: int where "FindingSchemaVersion = 1"

type_synonym Severity = string

definition SeverityInfo :: Severity where "SeverityInfo = ''info''"
definition SeverityWarn :: Severity where "SeverityWarn = ''warn''"
definition SeverityCritical :: Severity where "SeverityCritical = ''critical''"

definition Severity_Valid :: "Severity \<Rightarrow> bool" where
  "Severity_Valid s \<longleftrightarrow> s \<in> set [SeverityInfo, SeverityWarn, SeverityCritical]"

type_synonym FindingState = string

definition FindingOpen :: FindingState where "FindingOpen = ''open''"
definition FindingAcknowledged :: FindingState where "FindingAcknowledged = ''acknowledged''"
definition FindingSuppressed :: FindingState where "FindingSuppressed = ''suppressed''"
definition FindingResolved :: FindingState where "FindingResolved = ''resolved''"

lemmas state_defs = FindingOpen_def FindingAcknowledged_def FindingSuppressed_def FindingResolved_def

definition FindingState_Valid :: "FindingState \<Rightarrow> bool" where
  "FindingState_Valid s \<longleftrightarrow>
     s \<in> set [FindingOpen, FindingAcknowledged, FindingSuppressed, FindingResolved]"

definition EventFindingObserved :: string where "EventFindingObserved = ''finding.observed''"
definition EventFindingAcknowledged :: string where "EventFindingAcknowledged = ''finding.acknowledged''"
definition EventFindingSuppressed :: string where "EventFindingSuppressed = ''finding.suppressed''"
definition EventFindingUnsuppressed :: string where "EventFindingUnsuppressed = ''finding.unsuppressed''"
definition EventFindingResolved :: string where "EventFindingResolved = ''finding.resolved''"

lemmas event_type_defs = EventFindingObserved_def EventFindingAcknowledged_def
  EventFindingSuppressed_def EventFindingUnsuppressed_def EventFindingResolved_def

record Subject =
  sub_Type :: string
  sub_ID :: string
  sub_Name :: string

record Event =
  ev_Schema :: string
  ev_SchemaVersion :: int
  ev_ID :: string
  ev_Type :: string
  ev_OccurredAt :: gotime
  ev_RecordedAt :: gotime
  ev_Source :: string
  ev_Platform :: string
  ev_Subject :: "Subject option"
  ev_FindingID :: string
  ev_CorrelationID :: string
  ev_Labels :: labels
  ev_Payload :: raw_message

record Evidence =
  evd_Type :: string
  evd_Ref :: string
  evd_Summary :: string

record Remediation =
  rem_Summary :: string
  rem_Guide :: string
  rem_Reversible :: bool

record FindingAction =
  fa_At :: gotime
  fa_Actor :: string
  fa_Note :: string

record Finding =
  fi_Schema :: string
  fi_SchemaVersion :: int
  fi_ID :: string
  fi_DetectorID :: string
  fi_Category :: string
  fi_Title :: string
  fi_Summary :: string
  fi_Severity :: Severity
  fi_State :: FindingState
  fi_FirstSeen :: gotime
  fi_LastSeen :: gotime
  fi_UpdatedAt :: gotime
  fi_Occurrences :: "64 word"
  fi_Evidence :: "Evidence list"
  fi_Remediation :: "Remediation option"
  fi_Labels :: labels
  fi_SuppressedUntil :: "gotime option"
  fi_Acknowledgement :: "FindingAction option"
  fi_Resolution :: "FindingAction option"
  fi_LastEventID :: string
  fi_LastEventSequence :: int

record FindingObservation =
  ob_DetectorID :: string
  ob_Category :: string
  ob_Title :: string
  ob_Summary :: string
  ob_Severity :: Severity
  ob_Evidence :: "Evidence list"
  ob_Remediation :: "Remediation option"
  ob_Labels :: labels

record FindingTransition =
  tr_Actor :: string
  tr_Note :: string
  tr_Until :: "gotime option"

subsection \<open>Zero values\<close>

definition zero_Subject :: Subject where
  "zero_Subject = \<lparr>sub_Type = [], sub_ID = [], sub_Name = []\<rparr>"

definition zero_Event :: Event where
  "zero_Event = \<lparr>ev_Schema = [], ev_SchemaVersion = 0, ev_ID = [], ev_Type = [],
     ev_OccurredAt = zero_time, ev_RecordedAt = zero_time, ev_Source = [], ev_Platform = [],
     ev_Subject = None, ev_FindingID = [], ev_CorrelationID = [], ev_Labels = [],
     ev_Payload = RawEmpty\<rparr>"

definition zero_Evidence :: Evidence where
  "zero_Evidence = \<lparr>evd_Type = [], evd_Ref = [], evd_Summary = []\<rparr>"

definition zero_Remediation :: Remediation where
  "zero_Remediation = \<lparr>rem_Summary = [], rem_Guide = [], rem_Reversible = False\<rparr>"

definition zero_FindingAction :: FindingAction where
  "zero_FindingAction = \<lparr>fa_At = zero_time, fa_Actor = [], fa_Note = []\<rparr>"

definition zero_Finding :: Finding where
  "zero_Finding = \<lparr>fi_Schema = [], fi_SchemaVersion = 0, fi_ID = [], fi_DetectorID = [],
     fi_Category = [], fi_Title = [], fi_Summary = [], fi_Severity = [], fi_State = [],
     fi_FirstSeen = zero_time, fi_LastSeen = zero_time, fi_UpdatedAt = zero_time,
     fi_Occurrences = 0, fi_Evidence = [], fi_Remediation = None, fi_Labels = [],
     fi_SuppressedUntil = None, fi_Acknowledgement = None, fi_Resolution = None,
     fi_LastEventID = [], fi_LastEventSequence = 0\<rparr>"

definition zero_FindingObservation :: FindingObservation where
  "zero_FindingObservation = \<lparr>ob_DetectorID = [], ob_Category = [], ob_Title = [],
     ob_Summary = [], ob_Severity = [], ob_Evidence = [], ob_Remediation = None, ob_Labels = []\<rparr>"

definition zero_FindingTransition :: FindingTransition where
  "zero_FindingTransition = \<lparr>tr_Actor = [], tr_Note = [], tr_Until = None\<rparr>"

subsection \<open>Validation\<close>

definition Event_Validate :: "Event \<Rightarrow> go_error option" where
  "Event_Validate e = first_error
    [(ev_Schema e \<noteq> EventSchema, Errorf ''unsupported event schema %q'' [ArgS (ev_Schema e)]),
     (ev_SchemaVersion e \<noteq> EventSchemaVersion,
        Errorf ''unsupported event schema version %d'' [ArgD (ev_SchemaVersion e)]),
     (blank (ev_ID e), New ''event id is required''),
     (blank (ev_Type e), New ''event type is required''),
     (IsZero (ev_OccurredAt e), New ''event occurred_at is required''),
     (IsZero (ev_RecordedAt e), New ''event recorded_at is required''),
     (blank (ev_Source e), New ''event source is required''),
     (case ev_Payload e of RawInvalid _ \<Rightarrow> True | _ \<Rightarrow> False, New ''event payload is not valid JSON'')]"

definition IsFindingLifecycle :: "Event \<Rightarrow> bool" where
  "IsFindingLifecycle e \<longleftrightarrow> ev_Type e \<in> set [EventFindingObserved, EventFindingAcknowledged,
     EventFindingSuppressed, EventFindingUnsuppressed, EventFindingResolved]"

definition Finding_Validate :: "Finding \<Rightarrow> go_error option" where
  "Finding_Validate f = first_error
    [(fi_Schema f \<noteq> FindingSchema, Errorf ''unsupported finding schema %q'' [ArgS (fi_Schema f)]),
     (fi_SchemaVersion f \<noteq> FindingSchemaVersion,
        Errorf ''unsupported finding schema version %d'' [ArgD (fi_SchemaVersion f)]),
     (blank (fi_ID f), New ''finding id is required''),
     (blank (fi_DetectorID f), New ''finding detector_id is required''),
     (blank (fi_Title f), New ''finding title is required''),
     (\<not> Severity_Valid (fi_Severity f), Errorf ''invalid finding severity %q'' [ArgS (fi_Severity f)]),
     (\<not> FindingState_Valid (fi_State f), Errorf ''invalid finding state %q'' [ArgS (fi_State f)]),
     (IsZero (fi_FirstSeen f) \<or> IsZero (fi_LastSeen f) \<or> IsZero (fi_UpdatedAt f),
        New ''finding timestamps are required''),
     (fi_Occurrences f = 0, New ''finding occurrences must be positive''),
     (blank (fi_LastEventID f), New ''finding last_event_id is required''),
     (fi_LastEventSequence f \<le> 0, New ''finding last_event_sequence must be positive'')]"

definition Observation_Validate :: "FindingObservation \<Rightarrow> go_error option" where
  "Observation_Validate obs = first_error
    [(blank (ob_DetectorID obs), New ''observation detector_id is required''),
     (blank (ob_Title obs), New ''observation title is required''),
     (blank (ob_Summary obs), New ''observation summary is required''),
     (\<not> Severity_Valid (ob_Severity obs),
        Errorf ''invalid observation severity %q'' [ArgS (ob_Severity obs)])]"

subsection \<open>JSON encoding\<close>

definition Subject_json :: "Subject \<Rightarrow> json" where
  "Subject_json s = JObj ([(''type'', jstr (sub_Type s)), (''id'', jstr (sub_ID s))]
     @ omit (sub_Name s = []) ''name'' (jstr (sub_Name s)))"

definition Evidence_json :: "Evidence \<Rightarrow> json" where
  "Evidence_json e = JObj ([(''type'', jstr (evd_Type e))]
     @ omit (evd_Ref e = []) ''ref'' (jstr (evd_Ref e)) @ [(''summary'', jstr (evd_Summary e))])"

definition Remediation_json :: "Remediation \<Rightarrow> json" where
  "Remediation_json r = JObj ([(''summary'', jstr (rem_Summary r))]
     @ omit (rem_Guide r = []) ''guide'' (jstr (rem_Guide r))
     @ [(''reversible'', JBool (rem_Reversible r))])"

definition FindingAction_json :: "FindingAction \<Rightarrow> json" where
  "FindingAction_json a = JObj ([(''at'', jtime (fa_At a)), (''actor'', jstr (fa_Actor a))]
     @ omit (fa_Note a = []) ''note'' (jstr (fa_Note a)))"

text \<open>
  \<open>json.Marshal\<close> fails on a time outside the range RFC 3339 can express and on a raw
  message that is not JSON; then the encoder gives \<open>None\<close>.
\<close>

definition Event_members :: "Event \<Rightarrow> (string \<times> json) list" where
  "Event_members e =
     [(''schema'', jstr (ev_Schema e)), (''schema_version'', jint (ev_SchemaVersion e)),
      (''id'', jstr (ev_ID e)), (''type'', jstr (ev_Type e)),
      (''occurred_at'', jtime (ev_OccurredAt e)), (''recorded_at'', jtime (ev_RecordedAt e)),
      (''source'', jstr (ev_Source e))]
     @ omit (ev_Platform e = []) ''platform'' (jstr (ev_Platform e))
     @ omit (ev_Subject e = None) ''subject'' (Subject_json (the (ev_Subject e)))
     @ omit (ev_FindingID e = []) ''finding_id'' (jstr (ev_FindingID e))
     @ omit (ev_CorrelationID e = []) ''correlation_id'' (jstr (ev_CorrelationID e))
     @ omit (ev_Labels e = []) ''labels'' (labels_json (ev_Labels e))
     @ (case ev_Payload e of RawJSON j \<Rightarrow> [(''payload'', j)] | _ \<Rightarrow> [])"

definition Event_json :: "Event \<Rightarrow> json option" where
  "Event_json e =
     (if json_time (ev_OccurredAt e) \<and> json_time (ev_RecordedAt e)
         \<and> (case ev_Payload e of RawInvalid _ \<Rightarrow> False | _ \<Rightarrow> True)
      then Some (JObj (Event_members e)) else None)"

definition action_time_ok :: "FindingAction option \<Rightarrow> bool" where
  "action_time_ok a \<longleftrightarrow> (case a of None \<Rightarrow> True | Some x \<Rightarrow> json_time (fa_At x))"

definition Finding_members :: "Finding \<Rightarrow> (string \<times> json) list" where
  "Finding_members f =
     [(''schema'', jstr (fi_Schema f)), (''schema_version'', jint (fi_SchemaVersion f)),
      (''id'', jstr (fi_ID f)), (''detector_id'', jstr (fi_DetectorID f)),
      (''category'', jstr (fi_Category f)), (''title'', jstr (fi_Title f)),
      (''summary'', jstr (fi_Summary f)), (''severity'', jstr (fi_Severity f)),
      (''state'', jstr (fi_State f)), (''first_seen'', jtime (fi_FirstSeen f)),
      (''last_seen'', jtime (fi_LastSeen f)), (''updated_at'', jtime (fi_UpdatedAt f)),
      (''occurrences'', jint (uint (fi_Occurrences f)))]
     @ omit (fi_Evidence f = []) ''evidence'' (JArr (map Evidence_json (fi_Evidence f)))
     @ omit (fi_Remediation f = None) ''remediation'' (Remediation_json (the (fi_Remediation f)))
     @ omit (fi_Labels f = []) ''labels'' (labels_json (fi_Labels f))
     @ omit (fi_SuppressedUntil f = None) ''suppressed_until'' (jtime (the (fi_SuppressedUntil f)))
     @ omit (fi_Acknowledgement f = None) ''acknowledgement'' (FindingAction_json (the (fi_Acknowledgement f)))
     @ omit (fi_Resolution f = None) ''resolution'' (FindingAction_json (the (fi_Resolution f)))
     @ [(''last_event_id'', jstr (fi_LastEventID f)),
        (''last_event_sequence'', jint (fi_LastEventSequence f))]"

definition Finding_json :: "Finding \<Rightarrow> json option" where
  "Finding_json f =
     (if json_time (fi_FirstSeen f) \<and> json_time (fi_LastSeen f) \<and> json_time (fi_UpdatedAt f)
         \<and> (case fi_SuppressedUntil f of None \<Rightarrow> True | Some t \<Rightarrow> json_time t)
         \<and> action_time_ok (fi_Acknowledgement f) \<and> action_time_ok (fi_Resolution f)
      then Some (JObj (Finding_members f)) else None)"

definition Observation_json :: "FindingObservation \<Rightarrow> json" where
  "Observation_json obs = JObj (
     [(''detector_id'', jstr (ob_DetectorID obs)), (''category'', jstr (ob_Category obs)),
      (''title'', jstr (ob_Title obs)), (''summary'', jstr (ob_Summary obs)),
      (''severity'', jstr (ob_Severity obs))]
     @ omit (ob_Evidence obs = []) ''evidence'' (JArr (map Evidence_json (ob_Evidence obs)))
     @ omit (ob_Remediation obs = None) ''remediation'' (Remediation_json (the (ob_Remediation obs)))
     @ omit (ob_Labels obs = []) ''labels'' (labels_json (ob_Labels obs)))"

definition Transition_json :: "FindingTransition \<Rightarrow> json option" where
  "Transition_json t =
     (if (case tr_Until t of None \<Rightarrow> True | Some u \<Rightarrow> json_time u)
      then Some (JObj ([(''actor'', jstr (tr_Actor t))]
        @ omit (tr_Note t = []) ''note'' (jstr (tr_Note t))
        @ omit (tr_Until t = None) ''until'' (jtime (the (tr_Until t)))))
      else None)"

subsection \<open>JSON decoding\<close>

definition Subject_fields :: "Subject fields" where
  "Subject_fields =
    [(''type'', fld sub_Type (\<lambda>x s. s\<lparr>sub_Type := x\<rparr>) dec_string),
     (''id'', fld sub_ID (\<lambda>x s. s\<lparr>sub_ID := x\<rparr>) dec_string),
     (''name'', fld sub_Name (\<lambda>x s. s\<lparr>sub_Name := x\<rparr>) dec_string)]"

definition dec_Subject :: "json \<Rightarrow> Subject \<Rightarrow> Subject option" where
  "dec_Subject = dec_struct Subject_fields"

definition Evidence_fields :: "Evidence fields" where
  "Evidence_fields =
    [(''type'', fld evd_Type (\<lambda>x s. s\<lparr>evd_Type := x\<rparr>) dec_string),
     (''ref'', fld evd_Ref (\<lambda>x s. s\<lparr>evd_Ref := x\<rparr>) dec_string),
     (''summary'', fld evd_Summary (\<lambda>x s. s\<lparr>evd_Summary := x\<rparr>) dec_string)]"

definition dec_Evidence :: "json \<Rightarrow> Evidence \<Rightarrow> Evidence option" where
  "dec_Evidence = dec_struct Evidence_fields"

definition Remediation_fields :: "Remediation fields" where
  "Remediation_fields =
    [(''summary'', fld rem_Summary (\<lambda>x s. s\<lparr>rem_Summary := x\<rparr>) dec_string),
     (''guide'', fld rem_Guide (\<lambda>x s. s\<lparr>rem_Guide := x\<rparr>) dec_string),
     (''reversible'', fld rem_Reversible (\<lambda>x s. s\<lparr>rem_Reversible := x\<rparr>) dec_bool)]"

definition dec_Remediation :: "json \<Rightarrow> Remediation \<Rightarrow> Remediation option" where
  "dec_Remediation = dec_struct Remediation_fields"

definition FindingAction_fields :: "FindingAction fields" where
  "FindingAction_fields =
    [(''at'', fld fa_At (\<lambda>x s. s\<lparr>fa_At := x\<rparr>) dec_time),
     (''actor'', fld fa_Actor (\<lambda>x s. s\<lparr>fa_Actor := x\<rparr>) dec_string),
     (''note'', fld fa_Note (\<lambda>x s. s\<lparr>fa_Note := x\<rparr>) dec_string)]"

definition dec_FindingAction :: "json \<Rightarrow> FindingAction \<Rightarrow> FindingAction option" where
  "dec_FindingAction = dec_struct FindingAction_fields"

definition Event_fields :: "Event fields" where
  "Event_fields =
    [(''schema'', fld ev_Schema (\<lambda>x s. s\<lparr>ev_Schema := x\<rparr>) dec_string),
     (''schema_version'', fld ev_SchemaVersion (\<lambda>x s. s\<lparr>ev_SchemaVersion := x\<rparr>) dec_int64),
     (''id'', fld ev_ID (\<lambda>x s. s\<lparr>ev_ID := x\<rparr>) dec_string),
     (''type'', fld ev_Type (\<lambda>x s. s\<lparr>ev_Type := x\<rparr>) dec_string),
     (''occurred_at'', fld ev_OccurredAt (\<lambda>x s. s\<lparr>ev_OccurredAt := x\<rparr>) dec_time),
     (''recorded_at'', fld ev_RecordedAt (\<lambda>x s. s\<lparr>ev_RecordedAt := x\<rparr>) dec_time),
     (''source'', fld ev_Source (\<lambda>x s. s\<lparr>ev_Source := x\<rparr>) dec_string),
     (''platform'', fld ev_Platform (\<lambda>x s. s\<lparr>ev_Platform := x\<rparr>) dec_string),
     (''subject'', fld ev_Subject (\<lambda>x s. s\<lparr>ev_Subject := x\<rparr>) (dec_ptr zero_Subject dec_Subject)),
     (''finding_id'', fld ev_FindingID (\<lambda>x s. s\<lparr>ev_FindingID := x\<rparr>) dec_string),
     (''correlation_id'', fld ev_CorrelationID (\<lambda>x s. s\<lparr>ev_CorrelationID := x\<rparr>) dec_string),
     (''labels'', fld ev_Labels (\<lambda>x s. s\<lparr>ev_Labels := x\<rparr>) dec_labels),
     (''payload'', fld ev_Payload (\<lambda>x s. s\<lparr>ev_Payload := x\<rparr>) (\<lambda>v _. Some (RawJSON v)))]"

definition dec_Event :: "json \<Rightarrow> Event \<Rightarrow> Event option" where
  "dec_Event = dec_struct Event_fields"

definition Finding_fields :: "Finding fields" where
  "Finding_fields =
    [(''schema'', fld fi_Schema (\<lambda>x s. s\<lparr>fi_Schema := x\<rparr>) dec_string),
     (''schema_version'', fld fi_SchemaVersion (\<lambda>x s. s\<lparr>fi_SchemaVersion := x\<rparr>) dec_int64),
     (''id'', fld fi_ID (\<lambda>x s. s\<lparr>fi_ID := x\<rparr>) dec_string),
     (''detector_id'', fld fi_DetectorID (\<lambda>x s. s\<lparr>fi_DetectorID := x\<rparr>) dec_string),
     (''category'', fld fi_Category (\<lambda>x s. s\<lparr>fi_Category := x\<rparr>) dec_string),
     (''title'', fld fi_Title (\<lambda>x s. s\<lparr>fi_Title := x\<rparr>) dec_string),
     (''summary'', fld fi_Summary (\<lambda>x s. s\<lparr>fi_Summary := x\<rparr>) dec_string),
     (''severity'', fld fi_Severity (\<lambda>x s. s\<lparr>fi_Severity := x\<rparr>) dec_string),
     (''state'', fld fi_State (\<lambda>x s. s\<lparr>fi_State := x\<rparr>) dec_string),
     (''first_seen'', fld fi_FirstSeen (\<lambda>x s. s\<lparr>fi_FirstSeen := x\<rparr>) dec_time),
     (''last_seen'', fld fi_LastSeen (\<lambda>x s. s\<lparr>fi_LastSeen := x\<rparr>) dec_time),
     (''updated_at'', fld fi_UpdatedAt (\<lambda>x s. s\<lparr>fi_UpdatedAt := x\<rparr>) dec_time),
     (''occurrences'', fld fi_Occurrences (\<lambda>x s. s\<lparr>fi_Occurrences := x\<rparr>) dec_uint64),
     (''evidence'', fld fi_Evidence (\<lambda>x s. s\<lparr>fi_Evidence := x\<rparr>) (dec_slice zero_Evidence dec_Evidence)),
     (''remediation'', fld fi_Remediation (\<lambda>x s. s\<lparr>fi_Remediation := x\<rparr>) (dec_ptr zero_Remediation dec_Remediation)),
     (''labels'', fld fi_Labels (\<lambda>x s. s\<lparr>fi_Labels := x\<rparr>) dec_labels),
     (''suppressed_until'', fld fi_SuppressedUntil (\<lambda>x s. s\<lparr>fi_SuppressedUntil := x\<rparr>) (dec_ptr zero_time dec_time)),
     (''acknowledgement'', fld fi_Acknowledgement (\<lambda>x s. s\<lparr>fi_Acknowledgement := x\<rparr>) (dec_ptr zero_FindingAction dec_FindingAction)),
     (''resolution'', fld fi_Resolution (\<lambda>x s. s\<lparr>fi_Resolution := x\<rparr>) (dec_ptr zero_FindingAction dec_FindingAction)),
     (''last_event_id'', fld fi_LastEventID (\<lambda>x s. s\<lparr>fi_LastEventID := x\<rparr>) dec_string),
     (''last_event_sequence'', fld fi_LastEventSequence (\<lambda>x s. s\<lparr>fi_LastEventSequence := x\<rparr>) dec_int64)]"

definition dec_Finding :: "json \<Rightarrow> Finding \<Rightarrow> Finding option" where
  "dec_Finding = dec_struct Finding_fields"

definition FindingObservation_fields :: "FindingObservation fields" where
  "FindingObservation_fields =
    [(''detector_id'', fld ob_DetectorID (\<lambda>x s. s\<lparr>ob_DetectorID := x\<rparr>) dec_string),
     (''category'', fld ob_Category (\<lambda>x s. s\<lparr>ob_Category := x\<rparr>) dec_string),
     (''title'', fld ob_Title (\<lambda>x s. s\<lparr>ob_Title := x\<rparr>) dec_string),
     (''summary'', fld ob_Summary (\<lambda>x s. s\<lparr>ob_Summary := x\<rparr>) dec_string),
     (''severity'', fld ob_Severity (\<lambda>x s. s\<lparr>ob_Severity := x\<rparr>) dec_string),
     (''evidence'', fld ob_Evidence (\<lambda>x s. s\<lparr>ob_Evidence := x\<rparr>) (dec_slice zero_Evidence dec_Evidence)),
     (''remediation'', fld ob_Remediation (\<lambda>x s. s\<lparr>ob_Remediation := x\<rparr>) (dec_ptr zero_Remediation dec_Remediation)),
     (''labels'', fld ob_Labels (\<lambda>x s. s\<lparr>ob_Labels := x\<rparr>) dec_labels)]"

definition dec_Observation :: "json \<Rightarrow> FindingObservation \<Rightarrow> FindingObservation option" where
  "dec_Observation = dec_struct FindingObservation_fields"

definition FindingTransition_fields :: "FindingTransition fields" where
  "FindingTransition_fields =
    [(''actor'', fld tr_Actor (\<lambda>x s. s\<lparr>tr_Actor := x\<rparr>) dec_string),
     (''note'', fld tr_Note (\<lambda>x s. s\<lparr>tr_Note := x\<rparr>) dec_string),
     (''until'', fld tr_Until (\<lambda>x s. s\<lparr>tr_Until := x\<rparr>) (dec_ptr zero_time dec_time))]"

definition dec_Transition :: "json \<Rightarrow> FindingTransition \<Rightarrow> FindingTransition option" where
  "dec_Transition = dec_struct FindingTransition_fields"

subsection \<open>Identifiers and new events\<close>

text \<open>The 16 bytes of \<open>rand.Read\<close> are an argument, and so is the outcome of marshalling the payload.\<close>

definition hex_digit :: "nat \<Rightarrow> char" where
  "hex_digit n = (''0123456789abcdef'' ! n)"

definition hex_encode :: "8 word list \<Rightarrow> string" where
  "hex_encode bs = concat (map (\<lambda>b. [hex_digit (unat b div 16), hex_digit (unat b mod 16)]) bs)"

definition NewID :: "8 word list result \<Rightarrow> string result" where
  "NewID rand =
     (case rand of
        Inl e \<Rightarrow> Inl (Wrap ''generate id: %w'' e)
      | Inr bytes \<Rightarrow>
          (let v6 = bytes[6 := or (and (bytes ! 6) 0x0f) 0x40];
               v8 = v6[8 := or (and (v6 ! 8) 0x3f) 0x80];
               encoded = hex_encode v8
           in Inr (take 8 encoded @ ''-'' @ take 4 (drop 8 encoded) @ ''-'' @ take 4 (drop 12 encoded)
                @ ''-'' @ take 4 (drop 16 encoded) @ ''-'' @ take 12 (drop 20 encoded))))"

definition NewEvent ::
  "8 word list result \<Rightarrow> string \<Rightarrow> string \<Rightarrow> gotime \<Rightarrow> gotime \<Rightarrow> json result option \<Rightarrow> Event result" where
  "NewEvent rand eventType source occurredAt recordedAt payload =
     (case NewID rand of
        Inl e \<Rightarrow> Inl e
      | Inr new_id \<Rightarrow>
          (case (case payload of None \<Rightarrow> Inr RawEmpty
                 | Some (Inl e) \<Rightarrow> Inl (Wrap ''marshal event payload: %w'' e)
                 | Some (Inr j) \<Rightarrow> Inr (RawJSON j)) of
             Inl e \<Rightarrow> Inl e
           | Inr raw \<Rightarrow>
               (let event = zero_Event\<lparr>ev_Schema := EventSchema, ev_SchemaVersion := EventSchemaVersion,
                      ev_ID := new_id, ev_Type := eventType, ev_OccurredAt := UTC occurredAt,
                      ev_RecordedAt := UTC recordedAt, ev_Source := source, ev_Payload := raw\<rparr>
                in (case Event_Validate event of Some e \<Rightarrow> Inl e | None \<Rightarrow> Inr event))))"

subsection \<open>What validation guarantees\<close>

lemma Event_Validate_None_iff [validate_simps]:
  "Event_Validate e = None \<longleftrightarrow>
     ev_Schema e = EventSchema \<and> ev_SchemaVersion e = EventSchemaVersion \<and> \<not> blank (ev_ID e)
     \<and> \<not> blank (ev_Type e) \<and> \<not> IsZero (ev_OccurredAt e) \<and> \<not> IsZero (ev_RecordedAt e)
     \<and> \<not> blank (ev_Source e) \<and> (\<forall>s. ev_Payload e \<noteq> RawInvalid s)"
  by (auto simp: Event_Validate_def split: raw_message.splits)

lemma Finding_Validate_None_iff [validate_simps]:
  "Finding_Validate f = None \<longleftrightarrow>
     fi_Schema f = FindingSchema \<and> fi_SchemaVersion f = FindingSchemaVersion \<and> \<not> blank (fi_ID f)
     \<and> \<not> blank (fi_DetectorID f) \<and> \<not> blank (fi_Title f) \<and> Severity_Valid (fi_Severity f)
     \<and> FindingState_Valid (fi_State f) \<and> \<not> IsZero (fi_FirstSeen f) \<and> \<not> IsZero (fi_LastSeen f)
     \<and> \<not> IsZero (fi_UpdatedAt f) \<and> fi_Occurrences f \<noteq> 0 \<and> \<not> blank (fi_LastEventID f)
     \<and> 0 < fi_LastEventSequence f"
  by (auto simp: Finding_Validate_def)

lemma Observation_Validate_None_iff [validate_simps]:
  "Observation_Validate obs = None \<longleftrightarrow>
     \<not> blank (ob_DetectorID obs) \<and> \<not> blank (ob_Title obs) \<and> \<not> blank (ob_Summary obs)
     \<and> Severity_Valid (ob_Severity obs)"
  by (auto simp: Observation_Validate_def)

subsection \<open>JSON round trips\<close>

abbreviation clean :: "string \<Rightarrow> bool" where
  "clean s \<equiv> sanitize s = s"

definition Subject_clean :: "Subject \<Rightarrow> bool" where
  "Subject_clean s \<longleftrightarrow> clean (sub_Type s) \<and> clean (sub_ID s) \<and> clean (sub_Name s)"

definition Evidence_clean :: "Evidence \<Rightarrow> bool" where
  "Evidence_clean s \<longleftrightarrow> clean (evd_Type s) \<and> clean (evd_Ref s) \<and> clean (evd_Summary s)"

definition Remediation_clean :: "Remediation \<Rightarrow> bool" where
  "Remediation_clean s \<longleftrightarrow> clean (rem_Summary s) \<and> clean (rem_Guide s)"

definition FindingAction_clean :: "FindingAction \<Rightarrow> bool" where
  "FindingAction_clean a \<longleftrightarrow> json_exact_time (fa_At a) \<and> clean (fa_Actor a) \<and> clean (fa_Note a)"

definition Event_clean :: "Event \<Rightarrow> bool" where
  "Event_clean e \<longleftrightarrow> list_all clean [ev_Schema e, ev_ID e, ev_Type e, ev_Source e, ev_Platform e,
      ev_FindingID e, ev_CorrelationID e] \<and> - (2 ^ 63) \<le> ev_SchemaVersion e \<and> ev_SchemaVersion e < 2 ^ 63
     \<and> json_exact_time (ev_OccurredAt e) \<and> json_exact_time (ev_RecordedAt e)
     \<and> pred_option Subject_clean (ev_Subject e) \<and> labels_clean (ev_Labels e)
     \<and> (\<forall>s. ev_Payload e \<noteq> RawInvalid s)"

definition Finding_clean :: "Finding \<Rightarrow> bool" where
  "Finding_clean f \<longleftrightarrow> list_all clean [fi_Schema f, fi_ID f, fi_DetectorID f, fi_Category f, fi_Title f,
      fi_Summary f, fi_Severity f, fi_State f, fi_LastEventID f]
     \<and> - (2 ^ 63) \<le> fi_SchemaVersion f \<and> fi_SchemaVersion f < 2 ^ 63
     \<and> - (2 ^ 63) \<le> fi_LastEventSequence f \<and> fi_LastEventSequence f < 2 ^ 63
     \<and> list_all json_exact_time [fi_FirstSeen f, fi_LastSeen f, fi_UpdatedAt f]
     \<and> list_all Evidence_clean (fi_Evidence f) \<and> pred_option Remediation_clean (fi_Remediation f)
     \<and> labels_clean (fi_Labels f) \<and> pred_option json_exact_time (fi_SuppressedUntil f)
     \<and> pred_option FindingAction_clean (fi_Acknowledgement f)
     \<and> pred_option FindingAction_clean (fi_Resolution f)"



lemma plain_tables:
  "list_all plain_name (map fst Subject_fields)" "list_all plain_name (map fst Evidence_fields)"
  "list_all plain_name (map fst Remediation_fields)" "list_all plain_name (map fst FindingAction_fields)"
  "list_all plain_name (map fst Event_fields)" "list_all plain_name (map fst Finding_fields)"
  "list_all plain_name (map fst FindingObservation_fields)" "list_all plain_name (map fst FindingTransition_fields)"
  by (simp_all add: Subject_fields_def Evidence_fields_def Remediation_fields_def FindingAction_fields_def
      Event_fields_def Finding_fields_def FindingObservation_fields_def FindingTransition_fields_def plain_name_def)

lemmas dec_segments = dec_member dec_member_string dec_member_string [where ms = "[]", simplified append_Nil2]

lemma Subject_roundtrip:
  "Subject_clean s \<Longrightarrow> dec_Subject (Subject_json s) zero_Subject = Some s"
  unfolding dec_Subject_def Subject_json_def
  by (rule dec_struct_members [OF plain_tables(1)])
    (simp_all add: plain_name_def omit_def Subject_clean_def dec_member Subject_fields_def zero_Subject_def
      del: dec_members.simps(2))

lemma Evidence_roundtrip:
  "Evidence_clean s \<Longrightarrow> dec_Evidence (Evidence_json s) zero_Evidence = Some s"
  unfolding dec_Evidence_def Evidence_json_def
  by (rule dec_struct_members [OF plain_tables(2)])
    (simp_all add: plain_name_def omit_def Evidence_clean_def dec_member Evidence_fields_def zero_Evidence_def
      del: dec_members.simps(2))

lemma Remediation_roundtrip:
  "Remediation_clean s \<Longrightarrow> dec_Remediation (Remediation_json s) zero_Remediation = Some s"
  unfolding dec_Remediation_def Remediation_json_def
  by (rule dec_struct_members [OF plain_tables(3)])
    (simp_all add: plain_name_def omit_def Remediation_clean_def dec_member Remediation_fields_def zero_Remediation_def
      del: dec_members.simps(2))

lemma FindingAction_roundtrip:
  "FindingAction_clean s \<Longrightarrow> dec_FindingAction (FindingAction_json s) zero_FindingAction = Some s"
  unfolding dec_FindingAction_def FindingAction_json_def
  by (rule dec_struct_members [OF plain_tables(4)])
    (simp_all add: plain_name_def omit_def FindingAction_clean_def dec_member FindingAction_fields_def zero_FindingAction_def
      del: dec_members.simps(2))

lemma json_notnull:
  "FindingAction_json a \<noteq> JNull" "Remediation_json r \<noteq> JNull" "Subject_json s \<noteq> JNull" "jtime t \<noteq> JNull"
  by (simp_all add: FindingAction_json_def Remediation_json_def Subject_json_def jtime_def)

lemma dec_Event_members:
  assumes "Event_clean e"
  shows "dec_members (by_name Event_fields) (Event_members e) zero_Event = Some e"
proof -
  have lab: "dec_labels (labels_json (ev_Labels e)) [] = Some (ev_Labels e)"
    using assms by (simp add: Event_clean_def labels_clean_def dec_labels_json)
  have sub: "Subject_json x \<noteq> JNull \<and> dec_Subject (Subject_json x) zero_Subject = Some x" if "ev_Subject e = Some x" for x
    using assms that by (simp add: Event_clean_def Subject_roundtrip json_notnull)
  have pay: "dec_members (by_name Event_fields) (case ev_Payload e of RawJSON j \<Rightarrow> [(''payload'', j)] | _ \<Rightarrow> []) s = Some (s\<lparr>ev_Payload := ev_Payload e\<rparr>)" if "ev_Payload s = RawEmpty" for s
    using assms that
    by (cases "ev_Payload e") (auto simp: Event_clean_def by_name_def Event_fields_def fld_def)
  note segs = dec_segments dec_member_ptr [where p = "ev_Subject e" and enc = Subject_json]
     dec_member_omit [where e = "ev_Labels e = []" and x = "ev_Labels e"]
  show ?thesis using assms
    by (simp add: Event_clean_def Event_members_def segs lab sub pay [unfolded Event_fields_def, simplified] Event_fields_def zero_Event_def del: dec_members.simps(2))
qed

lemma plain_members: "list_all plain_name (map fst (Event_members e))" "list_all plain_name (map fst (Finding_members f))"
  by (simp_all add: Event_members_def Finding_members_def plain_omit plain_name_def split: raw_message.splits)

lemma Event_json_roundtrip:
  assumes "Event_clean e"
  shows "\<exists>j. Event_json e = Some j \<and> dec_Event j zero_Event = Some e"
  using assms dec_struct_members [OF plain_tables(5) plain_members(1) dec_Event_members]
  by (cases "ev_Payload e") (simp_all add: Event_json_def dec_Event_def Event_clean_def json_exact_time_def)

lemma dec_Evidence_list:
  "list_all Evidence_clean es \<Longrightarrow> dec_slice zero_Evidence dec_Evidence (JArr (map Evidence_json es)) [] = Some es"
  using dec_list_map [of es dec_Evidence Evidence_json zero_Evidence id]
  by (simp add: dec_slice_def list_all_iff Evidence_roundtrip)

lemma dec_Finding_members:
  assumes "Finding_clean f"
  shows "dec_members (by_name Finding_fields) (Finding_members f) zero_Finding = Some f"
proof -
  have lab: "dec_labels (labels_json (fi_Labels f)) [] = Some (fi_Labels f)"
    using assms by (simp add: Finding_clean_def labels_clean_def dec_labels_json)
  have ptrs: "fi_Remediation f = Some r \<Longrightarrow> Remediation_json r \<noteq> JNull \<and> dec_Remediation (Remediation_json r) zero_Remediation = Some r"
    "fi_SuppressedUntil f = Some t \<Longrightarrow> jtime t \<noteq> JNull \<and> dec_time (jtime t) zero_time = Some t"
    "fi_Acknowledgement f = Some a \<Longrightarrow> FindingAction_json a \<noteq> JNull \<and> dec_FindingAction (FindingAction_json a) zero_FindingAction = Some a"
    "fi_Resolution f = Some a \<Longrightarrow> FindingAction_json a \<noteq> JNull \<and> dec_FindingAction (FindingAction_json a) zero_FindingAction = Some a"
    for r t a
    using assms by (simp_all add: Finding_clean_def json_notnull Remediation_roundtrip FindingAction_roundtrip)
  note segs = dec_segments dec_member_ptr [where p = "fi_Remediation f" and enc = Remediation_json]
     dec_member_ptr [where p = "fi_SuppressedUntil f" and enc = jtime]
     dec_member_ptr [where p = "fi_Acknowledgement f" and enc = FindingAction_json]
     dec_member_ptr [where p = "fi_Resolution f" and enc = FindingAction_json]
     dec_member_omit [where e = "fi_Labels f = []" and x = "fi_Labels f"]
     dec_member_omit [where e = "fi_Evidence f = []" and x = "fi_Evidence f"]
  show ?thesis using assms
    by (simp add: Finding_clean_def Finding_members_def segs lab ptrs dec_Evidence_list Finding_fields_def
       zero_Finding_def del: dec_members.simps(2))
qed

lemma Finding_json_roundtrip:
  assumes "Finding_clean f"
  shows "\<exists>j. Finding_json f = Some j \<and> dec_Finding j zero_Finding = Some f"
  using assms dec_struct_members [OF plain_tables(6) plain_members(2) dec_Finding_members [OF assms]]
  by (auto simp: Finding_json_def dec_Finding_def Finding_clean_def json_exact_time_def action_time_ok_def
     FindingAction_clean_def split: option.splits)

subsection \<open>Decoded payloads are clean\<close>

definition Observation_clean :: "FindingObservation \<Rightarrow> bool" where
  "Observation_clean obs \<longleftrightarrow> list_all clean [ob_DetectorID obs, ob_Category obs, ob_Title obs,
      ob_Summary obs, ob_Severity obs]
     \<and> list_all Evidence_clean (ob_Evidence obs) \<and> pred_option Remediation_clean (ob_Remediation obs)
     \<and> labels_clean (ob_Labels obs)"

definition Transition_clean :: "FindingTransition \<Rightarrow> bool" where
  "Transition_clean tr \<longleftrightarrow> clean (tr_Actor tr) \<and> clean (tr_Note tr)"

lemma zero_clean [simp]: "Evidence_clean zero_Evidence" "Remediation_clean zero_Remediation"
  by (simp_all add: Evidence_clean_def zero_Evidence_def Remediation_clean_def zero_Remediation_def)

lemma dec_Evidence_clean: "dec_Evidence j e = Some e' \<Longrightarrow> Evidence_clean e \<Longrightarrow> Evidence_clean e'"
  unfolding dec_Evidence_def
  by (erule dec_struct_keeps [rotated 2])
    (auto simp: Evidence_fields_def fld_def Evidence_clean_def dest: dec_string_clean)

lemma dec_Remediation_clean: "dec_Remediation j e = Some e' \<Longrightarrow> Remediation_clean e \<Longrightarrow> Remediation_clean e'"
  unfolding dec_Remediation_def
  by (erule dec_struct_keeps [rotated 2])
    (auto simp: Remediation_fields_def fld_def Remediation_clean_def dest: dec_string_clean)

lemma dec_Observation_clean:
  assumes "dec_Observation j zero_FindingObservation = Some obs"
  shows "Observation_clean obs"
proof (rule dec_struct_keeps [where P = Observation_clean])
  show "dec_struct FindingObservation_fields j zero_FindingObservation = Some obs"
    using assms by (simp add: dec_Observation_def)
  show "Observation_clean zero_FindingObservation"
    by (simp add: Observation_clean_def zero_FindingObservation_def labels_clean_def)
  have ev: "list_all Evidence_clean ys"
    if "dec_slice zero_Evidence dec_Evidence v xs = Some ys" and "list_all Evidence_clean xs" for v xs ys
    using that by (rule dec_slice_keeps [rotated 2])
      (auto intro: dec_Evidence_clean)
  have re: "pred_option Remediation_clean q"
    if "dec_ptr zero_Remediation dec_Remediation v p = Some q" and "pred_option Remediation_clean p" for v p q
    using that by (rule dec_ptr_keeps [rotated 2])
      (auto intro: dec_Remediation_clean)
  show "list_all (\<lambda>(k, f). \<forall>v x y. Observation_clean x \<longrightarrow> f v x = Some y \<longrightarrow> Observation_clean y) FindingObservation_fields"
    unfolding FindingObservation_fields_def fld_def Observation_clean_def
    by (auto dest: dec_string_clean ev re dec_labels_clean)
qed

lemma dec_Transition_clean:
  assumes "dec_Transition j zero_FindingTransition = Some tr"
  shows "Transition_clean tr"
proof (rule dec_struct_keeps [where P = Transition_clean])
  show "dec_struct FindingTransition_fields j zero_FindingTransition = Some tr"
    using assms by (simp add: dec_Transition_def)
qed (auto simp: FindingTransition_fields_def fld_def Transition_clean_def zero_FindingTransition_def dest: dec_string_clean)

lemma valid_severity_clean: "Severity_Valid s \<Longrightarrow> clean s"
  by (auto simp: Severity_Valid_def SeverityInfo_def SeverityWarn_def SeverityCritical_def)

lemma valid_state_clean: "FindingState_Valid s \<Longrightarrow> clean s"
  by (auto simp: FindingState_Valid_def state_defs)

subsection \<open>Identifiers\<close>

lemma version_nibble: "unat (or (and b 0x0f) (0x40 :: 8 word)) div 16 = 4"
proof -
  have "unat (or (and b 0x0f) (0x40 :: 8 word)) div 16 = drop_bit 4 (or (and (unat b) 15) (64 :: nat))"
    by (simp add: unsigned_or_eq unsigned_and_eq drop_bit_eq_div)
  also have "\<dots> = 4" by (simp add: drop_bit_or drop_bit_and)
  finally show ?thesis .
qed

lemma variant_nibble: "unat (or (and b 0x3f) (0x80 :: 8 word)) div 16 \<in> {8, 9, 10, 11}"
proof -
  define y where "y = drop_bit 4 (unat b) mod 4"
  have "unat (or (and b 0x3f) (0x80 :: 8 word)) div 16 = drop_bit 4 (or (and (unat b) 63) (128 :: nat))"
    by (simp add: unsigned_or_eq unsigned_and_eq drop_bit_eq_div)
  also have "\<dots> = or (and (drop_bit 4 (unat b)) 3) 8" by (simp add: drop_bit_or drop_bit_and)
  also have "and (drop_bit 4 (unat b)) 3 = y"
    using take_bit_eq_mask [of 2 "drop_bit 4 (unat b)"] by (simp add: y_def take_bit_eq_mod mask_eq_exp_minus_1)
  finally have eq: "unat (or (and b 0x3f) (0x80 :: 8 word)) div 16 = or y 8" .
  have "y < 4" by (simp add: y_def)
  then consider "y = 0" | "y = 1" | "y = 2" | "y = 3" by linarith
  then show ?thesis unfolding eq by cases simp_all
qed

lemma hex_digit_in: "n < 16 \<Longrightarrow> hex_digit n \<in> set ''0123456789abcdef''"
  unfolding hex_digit_def by (rule nth_mem) simp

definition is_uuid4 :: "string \<Rightarrow> bool" where
  "is_uuid4 s \<longleftrightarrow> length s = 36
     \<and> (\<forall>i < 36. s ! i \<in> (if i \<in> {8, 13, 18, 23} then {CHR ''-''} else set ''0123456789abcdef''))
     \<and> s ! 14 = CHR ''4'' \<and> s ! 19 \<in> set ''89ab''"

lemma byte_nibbles: "unat (b :: 8 word) div 16 < 16" "unat b mod 16 < 16"
  using unsigned_less [of b, where 'a = nat] by simp_all

lemma all_less_36: "(\<forall>i < 36. P (i::nat)) \<longleftrightarrow> list_all P [0,1,2,3,4,5,6,7,8,9,10,11,12,13,14,15,16,17,18,19,20,21,22,23,24,25,26,27,28,29,30,31,32,33,34,35]"
proof -
  have "[0..<36] = [0,1,2,3,4,5,6,7,8,9,10,11,12,13,14,15,16,17,18,19,20,21,22,23,24,25,26,27,28,29,30,31,32,33,34,35]"
    by (simp add: upt_rec)
  then show ?thesis by (metis (no_types, lifting) atLeastLessThan_iff list_all_iff set_upt zero_le)
qed

lemma NewID_uuid4:
  assumes "length bytes = 16"
  shows "\<exists>new_id. NewID (Inr bytes) = Inr new_id \<and> is_uuid4 new_id"
proof -
  obtain b0 b1 b2 b3 b4 b5 b6 b7 b8 b9 b10 b11 b12 b13 b14 b15 where
    b: "bytes = [b0, b1, b2, b3, b4, b5, b6, b7, b8, b9, b10, b11, b12, b13, b14, b15]"
    using assms by (auto simp: numeral_eq_Suc length_Suc_conv)
  have v: "hex_digit (unat (or (and b6 0x0f) (0x40 :: 8 word)) div 16) = CHR ''4''"
    unfolding version_nibble by (simp add: hex_digit_def)
  have w: "hex_digit (unat (or (and b8 0x3f) (0x80 :: 8 word)) div 16) \<in> set ''89ab''"
    using variant_nibble [of b8] by (auto simp: hex_digit_def)
  show ?thesis
    using v w hex_digit_in byte_nibbles
    unfolding b NewID_def is_uuid4_def all_less_36
    by (simp add: Let_def hex_encode_def del: set_simps) simp
qed

subsection \<open>Properties\<close>

definition sample_finding :: Finding where
  "sample_finding = \<lparr>fi_Schema = FindingSchema, fi_SchemaVersion = 1, fi_ID = ''ufw'', fi_DetectorID = ''check.ufw'',
     fi_Category = ''security-check'', fi_Title = ''Firewall'', fi_Summary = ''off'', fi_Severity = SeverityWarn,
     fi_State = FindingResolved, fi_FirstSeen = \<lparr>t_ns = 63900000000000000000, t_off = 0\<rparr>,
     fi_LastSeen = \<lparr>t_ns = 63900000000500000000, t_off = 0\<rparr>, fi_UpdatedAt = \<lparr>t_ns = 63900000000500000000, t_off = 0\<rparr>,
     fi_Occurrences = 3, fi_Evidence = [\<lparr>evd_Type = ''line'', evd_Ref = [], evd_Summary = ''x''\<rparr>],
     fi_Remediation = None, fi_Labels = [(''a'', ''1''), (''b'', ''2'')], fi_SuppressedUntil = None,
     fi_Acknowledgement = None,
     fi_Resolution = Some \<lparr>fa_At = \<lparr>t_ns = 63900000000500000000, t_off = 0\<rparr>, fa_Actor = ''agent'', fa_Note = []\<rparr>,
     fi_LastEventID = ''e1'', fi_LastEventSequence = 4\<rparr>"

lemma sample_finding_clean: "Finding_clean sample_finding"
  by (simp add: Finding_clean_def sample_finding_def FindingSchema_def SeverityWarn_def FindingResolved_def
      json_exact_time_def json_time_def year_of_def Let_def day_ns_def Second_def Evidence_clean_def
      labels_clean_def FindingAction_clean_def)

text \<open>
  a finding whose strings are valid UTF-8 and whose times have a year and an offset RFC
  3339 can express is marshalled, and unmarshalling the document gives the finding back,
  pointers, slices, maps and omitted empty fields included.
\<close>

theorem finding_document_roundtrip:
  assumes "Finding_clean f"
  shows "\<exists>document. Finding_json f = Some document \<and> dec_Finding document zero_Finding = Some f"
  by (rule Finding_json_roundtrip [OF assms])

theorem finding_document_roundtrip_witness:
  "\<exists>document. Finding_json sample_finding = Some document \<and> dec_Finding document zero_Finding = Some sample_finding"
  by (rule finding_document_roundtrip [OF sample_finding_clean])

text \<open>
  An event whose strings are valid UTF-8 and whose times RFC 3339 can express survives
  the journal's envelope encoding unchanged.
\<close>

theorem event_envelope_roundtrip:
  assumes "Event_clean e"
  shows "\<exists>envelope. Event_json e = Some envelope \<and> dec_Event envelope zero_Event = Some e"
  by (rule Event_json_roundtrip [OF assms])

definition sample_event :: Event where
  "sample_event = zero_Event\<lparr>ev_Schema := EventSchema, ev_SchemaVersion := 1, ev_ID := ''e1'',
     ev_Type := EventFindingResolved, ev_OccurredAt := \<lparr>t_ns = 63900000000000000000, t_off = 0\<rparr>,
     ev_RecordedAt := \<lparr>t_ns = 63900000000000000000, t_off = -3600\<rparr>, ev_Source := ''agent'',
     ev_Subject := Some \<lparr>sub_Type = ''host'', sub_ID = ''h'', sub_Name = []\<rparr>,
     ev_FindingID := ''ufw'', ev_Payload := RawJSON (JObj [(''actor'', JStr ''agent'')])\<rparr>"

lemma sample_event_clean: "Event_clean sample_event"
  by (simp add: Event_clean_def sample_event_def zero_Event_def EventSchema_def EventFindingResolved_def
      json_exact_time_def json_time_def year_of_def Let_def day_ns_def Second_def labels_clean_def
      Subject_clean_def)

theorem event_envelope_roundtrip_witness:
  "\<exists>envelope. Event_json sample_event = Some envelope \<and> dec_Event envelope zero_Event = Some sample_event"
  by (rule event_envelope_roundtrip [OF sample_event_clean])

text \<open>
  An identifier made from 16 random bytes has the form of a version 4 UUID: 36
  characters, hyphens in the right places, lower-case hexadecimal digits elsewhere, version
  nibble 4 and variant nibble 8, 9, a or b.
\<close>

theorem NewID_is_uuid4:
  assumes "length bytes = 16"
  shows "\<exists>new_id. NewID (Inr bytes) = Inr new_id \<and> is_uuid4 new_id"
  by (rule NewID_uuid4 [OF assms])

theorem NewID_is_uuid4_witness:
  "\<exists>new_id. NewID (Inr [0, 1, 2, 3, 4, 5, 255, 7, 8, 9, 10, 11, 12, 13, 14, 15]) = Inr new_id \<and> is_uuid4 new_id"
  by (rule NewID_is_uuid4) simp

end
