(* ===== verification/Scheduler.thy ===== *)
theory Scheduler
  imports Model
begin

section \<open>The scheduler (internal/scheduler/scheduler.go)\<close>

text \<open>
  Schedules, task specifications, the task registry, the executor and the planner that
  decides which tasks are due. Durations are \<open>int64\<close> counts of nanoseconds, held as \<open>int\<close>;
  the jitter of \<open>Next\<close> is computed on 64-bit words as in the source, and a zero modulus (a
  jitter of -1) is the integer-division panic, \<open>None\<close>. The mutexes serialise the operations,
  so each method is one step on the state.
\<close>

definition ErrDuplicateTask :: go_error where
  "ErrDuplicateTask = New ''scheduler task already registered''"

definition ErrTaskNotFound :: go_error where
  "ErrTaskNotFound = New ''scheduler task not found''"

record Schedule =
  sch_Every :: duration
  sch_Jitter :: duration
  sch_Timeout :: duration
  sch_RunOnStart :: bool

definition Schedule_Validate :: "Schedule \<Rightarrow> go_error option" where
  "Schedule_Validate schedule = first_error
    [(sch_Every schedule \<le> 0, New ''schedule interval must be positive''),
     (sch_Jitter schedule < 0, New ''schedule jitter cannot be negative''),
     (sch_Jitter schedule \<ge> sch_Every schedule, New ''schedule jitter must be less than interval''),
     (sch_Timeout schedule < 0, New ''schedule timeout cannot be negative'')]"

text \<open>\<open>hash/fnv\<close> \<open>New64a\<close>: FNV-1a on 64-bit words.\<close>

definition fnv64a :: "string \<Rightarrow> 64 word" where
  "fnv64a s = foldl (\<lambda>h c. (xor h (of_nat (byte c))) * 1099511628211) 14695981039346656037 s"

definition UnixNano :: "gotime \<Rightarrow> int" where
  "UnixNano t = sint (word_of_int (t_ns t - 62135596800000000000) :: 64 word)"

definition Schedule_Next :: "Schedule \<Rightarrow> gotime \<Rightarrow> string \<Rightarrow> gotime option" where
  "Schedule_Next schedule after stableKey =
     (let nxt = Add after (sch_Every schedule) in
      if sch_Jitter schedule = 0 then Some nxt
      else let sum = fnv64a (stableKey @ [nul] @ FormatInt (UnixNano after));
               modulus = (word_of_int (sch_Jitter schedule + 1) :: 64 word)
           in if modulus = 0 then None
              else Some (Add nxt (sint (sum mod modulus))))"

record TaskSpec =
  sp_ID :: string
  sp_Kind :: string
  sp_Schedule :: Schedule
  sp_Labels :: labels

definition TaskSpec_Validate :: "TaskSpec \<Rightarrow> go_error option" where
  "TaskSpec_Validate spec =
     (if sp_ID spec = [] then Some (New ''task id is required'')
      else if sp_Kind spec = [] then Some (New ''task kind is required'')
      else Schedule_Validate (sp_Schedule spec))"

text \<open>
  A handler is what running it with a context does: given the timeout the executor puts on
  the context, the error it returns and whether the context's deadline had passed by then.
\<close>

type_synonym Handler = "duration option \<Rightarrow> go_error option \<times> bool"

record Task =
  tk_Spec :: TaskSpec
  tk_Handler :: "Handler option"

definition Task_Validate :: "Task \<Rightarrow> go_error option" where
  "Task_Validate task =
     (case TaskSpec_Validate (tk_Spec task) of
        Some err \<Rightarrow> Some err
      | None \<Rightarrow> if tk_Handler task = None then Some (New ''task handler is required'') else None)"

subsection \<open>The registry\<close>

text \<open>The map \<open>tasks\<close> is the list of its values, whose IDs are distinct.\<close>

record Registry =
  rg_tasks :: "Task list"

definition task_id :: "Task \<Rightarrow> string" where
  "task_id task = sp_ID (tk_Spec task)"

definition NewRegistry :: Registry where
  "NewRegistry = \<lparr>rg_tasks = []\<rparr>"

definition Register :: "Registry \<Rightarrow> Task \<Rightarrow> Registry result" where
  "Register registry task =
     (case Task_Validate task of
        Some err \<Rightarrow> Inl err
      | None \<Rightarrow>
          (case tbl_lookup task_id (task_id task) (rg_tasks registry) of
             Some _ \<Rightarrow> Inl (Wrapf ''%w: %s'' [ArgS (task_id task)] ErrDuplicateTask)
           | None \<Rightarrow> Inr (registry\<lparr>rg_tasks := rg_tasks registry @ [task]\<rparr>)))"

definition Get :: "Registry \<Rightarrow> string \<Rightarrow> Task result" where
  "Get registry ident =
     (case tbl_lookup task_id ident (rg_tasks registry) of
        None \<Rightarrow> Inl (Wrapf ''%w: %s'' [ArgS ident] ErrTaskNotFound)
      | Some task \<Rightarrow> Inr task)"

definition Specs :: "Registry \<Rightarrow> TaskSpec list" where
  "Specs registry = sort_key sp_ID (map tk_Spec (rg_tasks registry))"

definition Registry_inv :: "Registry \<Rightarrow> bool" where
  "Registry_inv registry \<longleftrightarrow> tbl_keyed task_id (rg_tasks registry)
     \<and> list_all (\<lambda>t. Task_Validate t = None) (rg_tasks registry)"

subsection \<open>The executor\<close>

text \<open>The two readings of the clock are arguments; the error text is kept as the error.\<close>

record Execution =
  ex_TaskID :: string
  ex_StartedAt :: gotime
  ex_FinishedAt :: gotime
  ex_Duration :: duration
  ex_TimedOut :: bool
  ex_Error :: "go_error option"

definition DeadlineExceeded :: go_error where
  "DeadlineExceeded = New ''context deadline exceeded''"

definition Execute :: "gotime \<Rightarrow> gotime \<Rightarrow> Task \<Rightarrow> Execution" where
  "Execute now1 now2 task =
     (let started = UTC now1; finished = UTC now2;
          execution = \<lparr>ex_TaskID = task_id task, ex_StartedAt = started, ex_FinishedAt = finished,
            ex_Duration = Sub finished started, ex_TimedOut = False, ex_Error = None\<rparr>
      in (case Task_Validate task of
            Some err \<Rightarrow> execution\<lparr>ex_Error := Some err\<rparr>
          | None \<Rightarrow>
              (let timeout = sch_Timeout (sp_Schedule (tk_Spec task));
                   (err, deadline) = the (tk_Handler task) (if timeout > 0 then Some timeout else None)
               in execution\<lparr>ex_TimedOut := deadline,
                    ex_Error := (case err of Some e \<Rightarrow> Some e
                                 | None \<Rightarrow> if deadline then Some DeadlineExceeded else None)\<rparr>)))"

subsection \<open>The planner\<close>

record Planner =
  pl_next :: "string \<Rightarrow> gotime option"

definition NewPlanner :: Planner where
  "NewPlanner = \<lparr>pl_next = (\<lambda>_. None)\<rparr>"

text \<open>
  \<open>Add\<close> and \<open>Due\<close> give \<open>None\<close> where \<open>Next\<close> panics.
\<close>

definition Planner_Add :: "Planner \<Rightarrow> TaskSpec \<Rightarrow> gotime \<Rightarrow> Planner result option" where
  "Planner_Add planner spec registeredAt =
     (case TaskSpec_Validate spec of
        Some err \<Rightarrow> Some (Inl err)
      | None \<Rightarrow>
          (case pl_next planner (sp_ID spec) of
             Some _ \<Rightarrow> Some (Inl (Wrapf ''%w: %s'' [ArgS (sp_ID spec)] ErrDuplicateTask))
           | None \<Rightarrow>
               map_option (\<lambda>t. Inr (planner\<lparr>pl_next := (pl_next planner)(sp_ID spec \<mapsto> t)\<rparr>))
                 (if sch_RunOnStart (sp_Schedule spec) then Some (UTC registeredAt)
                  else Schedule_Next (sp_Schedule spec) (UTC registeredAt) (sp_ID spec))))"

fun Due_loop :: "Planner \<Rightarrow> TaskSpec list \<Rightarrow> gotime \<Rightarrow> TaskSpec list \<Rightarrow> (TaskSpec list \<times> Planner) option" where
  "Due_loop planner [] now due = Some (due, planner)"
| "Due_loop planner (spec # specs) now due =
     (case pl_next planner (sp_ID spec) of
        None \<Rightarrow> Due_loop planner specs now due
      | Some nxt \<Rightarrow>
          if After nxt now then Due_loop planner specs now due
          else (case Schedule_Next (sp_Schedule spec) (UTC now) (sp_ID spec) of
              None \<Rightarrow> None
            | Some t \<Rightarrow> Due_loop (planner\<lparr>pl_next := (pl_next planner)(sp_ID spec \<mapsto> t)\<rparr>) specs now (due @ [spec])))"

definition Due :: "Planner \<Rightarrow> TaskSpec list \<Rightarrow> gotime \<Rightarrow> (TaskSpec list \<times> Planner) option" where
  "Due planner specs now =
     map_option (\<lambda>(due, planner'). (sort_key sp_ID due, planner')) (Due_loop planner specs now [])"

definition Planner_Next :: "Planner \<Rightarrow> string \<Rightarrow> gotime option" where
  "Planner_Next planner ident = pl_next planner ident"

subsection \<open>Schedules stay within their interval and jitter\<close>

lemma Schedule_Validate_None_iff [validate_simps]:
  "Schedule_Validate sc = None \<longleftrightarrow>
     0 < sch_Every sc \<and> 0 \<le> sch_Jitter sc \<and> sch_Jitter sc < sch_Every sc \<and> 0 \<le> sch_Timeout sc"
  by (auto simp: Schedule_Validate_def)

lemma TaskSpec_Validate_None_iff [validate_simps]:
  "TaskSpec_Validate spec = None \<longleftrightarrow>
     sp_ID spec \<noteq> [] \<and> sp_Kind spec \<noteq> [] \<and> Schedule_Validate (sp_Schedule spec) = None"
  by (simp add: TaskSpec_Validate_def)

lemma Task_Validate_None_iff [validate_simps]:
  "Task_Validate task = None \<longleftrightarrow> TaskSpec_Validate (tk_Spec task) = None \<and> tk_Handler task \<noteq> None"
  by (auto simp: Task_Validate_def split: option.splits)

text \<open>A duration that fits \<open>int64\<close>.\<close>

abbreviation int64_ok :: "int \<Rightarrow> bool" where
  "int64_ok d \<equiv> d < 2 ^ 63"

lemma jitter_offset:
  fixes h :: "64 word"
  assumes "0 < j" and "j < 2 ^ 63"
  shows "word_of_int (j + 1) \<noteq> (0 :: 64 word)"
    and "0 \<le> sint (h mod word_of_int (j + 1))" and "sint (h mod word_of_int (j + 1)) \<le> j"
proof -
  let ?m = "word_of_int (j + 1) :: 64 word"
  have m: "uint ?m = j + 1" using assms unfolding uint_word_of_int by (intro mod_pos_pos_trivial) simp_all
  then show nz: "?m \<noteq> 0" using assms by auto
  have u: "uint (h mod ?m) = uint h mod (j + 1)" using m by (simp add: uint_mod)
  then have bounds: "0 \<le> uint (h mod ?m)" "uint (h mod ?m) \<le> j"
    using assms pos_mod_bound [of "j + 1" "uint h"] by simp_all
  then have "sint (h mod ?m) = uint (h mod ?m)"
    using assms unfolding sint_uint by (intro signed_take_bit_int_eq_self) (simp_all add: order_trans [of _ 0])
  with bounds show "0 \<le> sint (h mod ?m)" "sint (h mod ?m) \<le> j" by simp_all
qed

lemma Schedule_Next_bounds:
  assumes "Schedule_Validate sc = None" and "int64_ok (sch_Every sc)"
  obtains t where "Schedule_Next sc after key = Some t"
    and "t_ns after + sch_Every sc \<le> t_ns t" and "t_ns t \<le> t_ns after + sch_Every sc + sch_Jitter sc"
proof (cases "sch_Jitter sc = 0")
  case True
  then show ?thesis using that by (simp add: Schedule_Next_def Let_def)
next
  case False
  then have j: "0 < sch_Jitter sc" "sch_Jitter sc < 2 ^ 63"
    using assms by (simp_all add: validate_simps)
  show ?thesis
    using that j(1) jitter_offset [OF j] unfolding Schedule_Next_def Let_def by auto
qed

subsection \<open>The registry keeps what it accepted\<close>

lemma Register_Inr:
  "Register r t = Inr r' \<longleftrightarrow> Task_Validate t = None \<and> task_id t \<notin> task_id ` set (rg_tasks r)
     \<and> r' = r\<lparr>rg_tasks := rg_tasks r @ [t]\<rparr>"
  by (auto simp: Register_def split: option.splits)

lemma Get_Inr: "Get r k = Inr t \<longleftrightarrow> tbl_lookup task_id k (rg_tasks r) = Some t"
  by (cases "tbl_lookup task_id k (rg_tasks r)") (simp_all add: Get_def del: tbl_lookup_None_iff)

interpretation tasks: named_registry Register Get "\<lambda>r. map sp_ID (Specs r)" task_id Registry_inv
proof unfold_locales
  fix r r' :: Registry and t u :: Task and k :: string
  assume inv: "Registry_inv r"
  show "Registry_inv r'" if "Register r t = Inr r'"
    using inv that by (auto simp: Register_Inr Registry_inv_def)
  show "Get r' (task_id t) = Inr t" if "Register r t = Inr r'"
    using that by (auto simp: Get_Inr Register_Inr tbl_lookup_append)
  show "Get r' k = Get r k" if "Register r t = Inr r'" and "k \<noteq> task_id t"
    using that by (auto simp: Get_def Register_Inr tbl_lookup_append split: option.splits)
  show "\<exists>e. Register r t = Inl e" if "Get r (task_id t) = Inr u"
    using that by (auto simp: Get_Inr Register_def split: option.splits)
  have ids: "map sp_ID (Specs r) = sort (map task_id (rg_tasks r))"
    by (simp add: Specs_def map_sort_key comp_def task_id_def [abs_def])
  show "k \<in> set (map sp_ID (Specs r)) \<longleftrightarrow> (\<exists>v. Get r k = Inr v)"
    unfolding ids Get_Inr by (metis not_None_eq set_map set_sort tbl_lookup_None_iff)
  show "sorted_wrt (<) (map sp_ID (Specs r))"
    using inv unfolding ids by (simp add: strict_sorted_iff Registry_inv_def tbl_keyed_def)
qed

subsection \<open>The planner\<close>

definition is_due :: "Planner \<Rightarrow> gotime \<Rightarrow> TaskSpec \<Rightarrow> bool" where
  "is_due planner now spec \<longleftrightarrow>
     (case pl_next planner (sp_ID spec) of None \<Rightarrow> False | Some nxt \<Rightarrow> \<not> After nxt now)"

definition spec_ok :: "TaskSpec \<Rightarrow> bool" where
  "spec_ok spec \<longleftrightarrow> TaskSpec_Validate spec = None \<and> int64_ok (sch_Every (sp_Schedule spec))"

definition replanned :: "TaskSpec \<Rightarrow> gotime \<Rightarrow> gotime option \<Rightarrow> bool" where
  "replanned spec now nxt \<longleftrightarrow> (\<exists>t. nxt = Some t
     \<and> t_ns now + sch_Every (sp_Schedule spec) \<le> t_ns t
     \<and> t_ns t \<le> t_ns now + sch_Every (sp_Schedule spec) + sch_Jitter (sp_Schedule spec))"

lemma spec_ok_Next:
  assumes "spec_ok spec"
  obtains t where "Schedule_Next (sp_Schedule spec) now key = Some t" and "replanned spec now (Some t)"
  using assms Schedule_Next_bounds [of "sp_Schedule spec" now key]
  by (auto simp: spec_ok_def TaskSpec_Validate_None_iff replanned_def)

lemma replanned_UTC [simp]: "replanned spec (UTC now) = replanned spec now"
  by (simp add: replanned_def fun_eq_iff)

lemma Due_loop_spec:
  assumes "list_all spec_ok specs" and "distinct (map sp_ID specs)"
  shows "\<exists>p'. Due_loop p specs now due = Some (due @ filter (is_due p now) specs, p')
    \<and> (\<forall>spec \<in> set specs. is_due p now spec \<longrightarrow> replanned spec now (pl_next p' (sp_ID spec)))
    \<and> (\<forall>k. k \<notin> sp_ID ` set (filter (is_due p now) specs) \<longrightarrow> pl_next p' k = pl_next p k)"
  using assms
proof (induction specs arbitrary: p due)
  case (Cons spec specs)
  show ?case
  proof (cases "is_due p now spec")
    case True
    obtain t where t: "Schedule_Next (sp_Schedule spec) (UTC now) (sp_ID spec) = Some t"
      and re: "replanned spec now (Some t)"
      using Cons.prems(1) spec_ok_Next [of spec "UTC now" "sp_ID spec"] by auto
    define q where "q = p\<lparr>pl_next := (pl_next p)(sp_ID spec \<mapsto> t)\<rparr>"
    have same: "is_due q now s = is_due p now s" if "s \<in> set specs" for s
    proof -
      have "sp_ID s \<noteq> sp_ID spec" using that Cons.prems(2) by (metis distinct.simps(2) image_eqI list.map(2) set_map)
      then show ?thesis by (simp add: is_due_def q_def)
    qed
    then have filt: "filter (is_due q now) specs = filter (is_due p now) specs" by (simp cong: filter_cong)
    from Cons.IH [of q "due @ [spec]"] Cons.prems obtain p' where
      IH: "Due_loop q specs now (due @ [spec]) = Some ((due @ [spec]) @ filter (is_due p now) specs, p')"
        "\<forall>s \<in> set specs. is_due p now s \<longrightarrow> replanned s now (pl_next p' (sp_ID s))"
        "\<forall>k. k \<notin> sp_ID ` set (filter (is_due p now) specs) \<longrightarrow> pl_next p' k = pl_next q k"
      using filt same by auto
    have "pl_next p' (sp_ID spec) = Some t"
      using IH(3) Cons.prems(2) by (auto simp: q_def image_iff)
    moreover have "Due_loop p (spec # specs) now due = Due_loop q specs now (due @ [spec])"
      using True t by (auto simp: is_due_def q_def split: option.splits)
    ultimately show ?thesis using True IH re by (auto simp: q_def)
  next
    case False
    then have "Due_loop p (spec # specs) now due = Due_loop p specs now due"
      by (auto simp: is_due_def split: option.splits)
    with False Cons.IH [of p due] Cons.prems show ?thesis by auto
  qed
qed simp

lemma Due_spec:
  assumes "list_all spec_ok specs" and "distinct (map sp_ID specs)"
  obtains p' where "Due p specs now = Some (sort_key sp_ID (filter (is_due p now) specs), p')"
    and "\<And>spec. spec \<in> set specs \<Longrightarrow> is_due p now spec \<Longrightarrow> replanned spec now (pl_next p' (sp_ID spec))"
    and "\<And>k. k \<notin> sp_ID ` set (filter (is_due p now) specs) \<Longrightarrow> pl_next p' k = pl_next p k"
  using Due_loop_spec [OF assms, of p now "[]"] that unfolding Due_def by fastforce

text \<open>
  Over a sequence of \<open>Due\<close> calls, the specifications returned by each.
\<close>

fun due_run :: "Planner \<Rightarrow> TaskSpec list \<Rightarrow> gotime list \<Rightarrow> TaskSpec list list option" where
  "due_run planner specs [] = Some []"
| "due_run planner specs (now # nows) =
     (case Due planner specs now of
        None \<Rightarrow> None
      | Some (due, planner') \<Rightarrow> map_option ((#) due) (due_run planner' specs nows))"

lemma due_run_total:
  assumes "list_all spec_ok specs" and "distinct (map sp_ID specs)"
  shows "\<exists>dues. due_run p specs nows = Some dues"
proof (induction nows arbitrary: p)
  case (Cons now nows)
  obtain p' where "Due p specs now = Some (sort_key sp_ID (filter (is_due p now) specs), p')"
    using Due_spec [OF assms] by metis
  with Cons.IH [of p'] show ?case by auto
qed simp

lemma due_run_not_before:
  assumes "list_all spec_ok specs" and "distinct (map sp_ID specs)" and "spec \<in> set specs"
    and "pl_next p (sp_ID spec) = Some t" and "\<forall>now \<in> set nows. t_ns now < t_ns t"
    and "due_run p specs nows = Some dues"
  shows "\<forall>due \<in> set dues. spec \<notin> set due"
  using assms(4-6)
proof (induction nows arbitrary: p dues)
  case (Cons now nows)
  obtain p' where p': "Due p specs now = Some (sort_key sp_ID (filter (is_due p now) specs), p')"
    and keep: "\<And>k. k \<notin> sp_ID ` set (filter (is_due p now) specs) \<Longrightarrow> pl_next p' k = pl_next p k"
    using Due_spec [OF assms(1,2)] by metis
  from Cons.prems(3) p' obtain rest where
    rest: "due_run p' specs nows = Some rest" "dues = sort_key sp_ID (filter (is_due p now) specs) # rest"
    by auto
  have notdue: "\<not> is_due p now s" if "sp_ID s = sp_ID spec" for s
    using that Cons.prems(1,2) by (simp add: is_due_def After_def)
  then have "sp_ID spec \<notin> sp_ID ` set (filter (is_due p now) specs)" by auto
  then have "pl_next p' (sp_ID spec) = Some t" using keep Cons.prems(1) by simp
  then have "\<forall>due \<in> set rest. spec \<notin> set due" using Cons.IH [OF _ _ rest(1)] Cons.prems(2) by simp
  with notdue show ?case unfolding rest(2) by simp
qed simp

subsection \<open>Properties\<close>

definition register_all :: "Registry \<Rightarrow> Task list \<Rightarrow> Registry" where
  "register_all r ts = foldl (\<lambda>r t. case Register r t of Inl _ \<Rightarrow> r | Inr r' \<Rightarrow> r') r ts"

lemma register_all_attempts: "register_all r ts = foldl tasks.attempt r ts"
  by (simp add: register_all_def tasks.attempt_def [abs_def])

definition sample_schedule :: Schedule where
  "sample_schedule = \<lparr>sch_Every = Hour, sch_Jitter = Minute, sch_Timeout = 0, sch_RunOnStart = True\<rparr>"

definition sample_spec :: TaskSpec where
  "sample_spec = \<lparr>sp_ID = ''scan'', sp_Kind = ''check'', sp_Schedule = sample_schedule, sp_Labels = []\<rparr>"

definition sample_task :: Task where
  "sample_task = \<lparr>tk_Spec = sample_spec, tk_Handler = Some (\<lambda>_. (None, False))\<rparr>"

definition sample_time :: gotime where
  "sample_time = \<lparr>t_ns = 63900000000 * Second, t_off = 0\<rparr>"

lemma sample_schedule_valid: "Schedule_Validate sample_schedule = None" "int64_ok (sch_Every sample_schedule)"
  by (simp_all add: sample_schedule_def validate_simps duration_defs)

lemma sample_spec_ok: "spec_ok sample_spec"
  using sample_schedule_valid by (simp add: spec_ok_def sample_spec_def TaskSpec_Validate_None_iff)

lemma sample_spec_simps [simp]:
  "sp_ID sample_spec = ''scan''" "sch_Every (sp_Schedule sample_spec) = Hour"
  by (simp_all add: sample_spec_def sample_schedule_def)

abbreviation sample_planner :: Planner where
  "sample_planner \<equiv> \<lparr>pl_next = [''scan'' \<mapsto> sample_time]\<rparr>"

lemma sample_due: "is_due sample_planner sample_time sample_spec"
  by (simp add: is_due_def After_def)

text \<open>
  C36: for a valid schedule, \<open>Next\<close> always gives a time, and that time is no earlier than one
  interval after the given time and no later than the interval plus the jitter, whatever the
  key hashes to.
\<close>

theorem Next_within_window:
  assumes "Schedule_Validate sc = None" and "sch_Every sc < 2 ^ 63"
  shows "\<exists>t. Schedule_Next sc after key = Some t
    \<and> t_ns after + sch_Every sc \<le> t_ns t
    \<and> t_ns t \<le> t_ns after + sch_Every sc + sch_Jitter sc"
  using Schedule_Next_bounds [OF assms] by metis

theorem Next_within_window_witness:
  "\<exists>t. Schedule_Next sample_schedule sample_time ''scan'' = Some t
    \<and> t_ns sample_time + Hour \<le> t_ns t \<and> t_ns t \<le> t_ns sample_time + Hour + Minute"
  using Next_within_window [OF sample_schedule_valid, of sample_time "''scan''"]
  by (simp add: sample_schedule_def)

text \<open>
  C20: \<open>Due\<close> on valid specifications with distinct IDs always returns; it returns exactly the
  specifications whose planned time is not after \<open>now\<close>, ordered by ID, plans each of them
  anew between one interval and interval plus jitter after \<open>now\<close>, and changes the plan of no
  other task.
\<close>

theorem Due_returns_due_tasks:
  assumes "list_all spec_ok specs" and "distinct (map sp_ID specs)"
  shows "\<exists>planner'. Due planner specs now = Some (sort_key sp_ID (filter (is_due planner now) specs), planner')
    \<and> (\<forall>spec \<in> set specs. is_due planner now spec \<longrightarrow> replanned spec now (Planner_Next planner' (sp_ID spec)))
    \<and> (\<forall>k. k \<notin> sp_ID ` set (filter (is_due planner now) specs) \<longrightarrow>
           Planner_Next planner' k = Planner_Next planner k)"
  using Due_spec [OF assms, of planner now] unfolding Planner_Next_def by metis

theorem Due_returns_due_tasks_witness:
  "\<exists>planner'. Due sample_planner [sample_spec] sample_time = Some ([sample_spec], planner')
    \<and> replanned sample_spec sample_time (Planner_Next planner' ''scan'')"
  using Due_returns_due_tasks [of "[sample_spec]" "sample_planner" sample_time]
  by (auto simp: sample_spec_ok sample_due)

text \<open>
  C32: a task that \<open>Due\<close> returned at time \<open>now\<close> is returned by no later call of \<open>Due\<close> with a
  time less than one interval after \<open>now\<close>, whatever the number and order of those calls.
\<close>

theorem Due_respects_interval:
  assumes "list_all spec_ok specs" and "distinct (map sp_ID specs)"
    and "Due planner specs now = Some (due, planner')" and "spec \<in> set due"
    and "\<forall>later \<in> set nows. t_ns later < t_ns now + sch_Every (sp_Schedule spec)"
  shows "\<exists>dues. due_run planner' specs nows = Some dues \<and> (\<forall>d \<in> set dues. spec \<notin> set d)"
proof -
  obtain q where "Due planner specs now = Some (sort_key sp_ID (filter (is_due planner now) specs), q)"
    and "\<And>s. s \<in> set specs \<Longrightarrow> is_due planner now s \<Longrightarrow> replanned s now (pl_next q (sp_ID s))"
    using Due_spec [OF assms(1,2)] by metis
  with assms(3,4) have spec: "spec \<in> set specs" and "replanned spec now (pl_next planner' (sp_ID spec))"
    by auto
  then obtain t where t: "pl_next planner' (sp_ID spec) = Some t"
    and "t_ns now + sch_Every (sp_Schedule spec) \<le> t_ns t"
    by (auto simp: replanned_def)
  with assms(5) have "\<forall>later \<in> set nows. t_ns later < t_ns t" by auto
  then show ?thesis
    using due_run_total [OF assms(1,2)] due_run_not_before [OF assms(1,2) spec t] by blast
qed

theorem Due_respects_interval_witness:
  "\<exists>planner' dues. Due sample_planner [sample_spec] sample_time = Some ([sample_spec], planner')
    \<and> due_run planner' [sample_spec] [sample_time, Add sample_time Minute] = Some dues
    \<and> (\<forall>d \<in> set dues. sample_spec \<notin> set d)"
proof -
  obtain planner' where "Due sample_planner [sample_spec] sample_time
      = Some ([sample_spec], planner')"
    using Due_spec [of "[sample_spec]" "sample_planner" sample_time]
    by (auto simp: sample_spec_ok sample_due)
  then show ?thesis
    using Due_respects_interval [of "[sample_spec]" "sample_planner" sample_time
        "[sample_spec]" planner' sample_spec "[sample_time, Add sample_time Minute]"]
    by (simp add: sample_spec_ok duration_defs)
qed

text \<open>
  a task that was registered is what \<open>Get\<close> returns for its ID after any further
  registrations, successful or refused, and \<open>Specs\<close> lists its ID, in strictly increasing order.
\<close>

theorem registered_task_stays:
  assumes "Registry_inv r" and "Register r task = Inr r'"
  shows "Get (register_all r' ts) (sp_ID (tk_Spec task)) = Inr task
    \<and> sp_ID (tk_Spec task) \<in> set (map sp_ID (Specs (register_all r' ts)))
    \<and> sorted_wrt (<) (map sp_ID (Specs (register_all r' ts)))"
proof -
  have inv: "Registry_inv r'" using assms tasks.register_inv by blast
  have get: "Get r' (task_id task) = Inr task" using assms tasks.get_new by blast
  have inv': "Registry_inv (foldl tasks.attempt r' ts)"
    using inv by (induction ts arbitrary: r') (simp_all add: tasks.attempt_inv)
  show ?thesis
    using tasks.get_stable [OF inv get, of ts] tasks.ids_iff [OF inv'] tasks.ids_sorted [OF inv']
    unfolding register_all_attempts task_id_def by blast
qed

theorem registered_task_stays_witness:
  "Get (register_all \<lparr>rg_tasks = [sample_task]\<rparr> [sample_task]) ''scan'' = Inr sample_task"
proof -
  have "Register NewRegistry sample_task = Inr \<lparr>rg_tasks = [sample_task]\<rparr>"
    using sample_spec_ok by (simp add: Register_Inr Task_Validate_None_iff sample_task_def spec_ok_def NewRegistry_def)
  moreover have "Registry_inv NewRegistry" by (simp add: Registry_inv_def NewRegistry_def)
  ultimately show ?thesis
    using registered_task_stays [of NewRegistry sample_task] by (simp add: sample_task_def sample_spec_def)
qed

end
