(* ===== verification/Profile.thy ===== *)
theory Profile
  imports Model
begin

section \<open>Profiles (internal/profile/profile.go)\<close>

text \<open>
  The four axes of a profile, the presets, \<open>Resolve\<close> with its patches and the capabilities a
  profile grants. The axis types are strings with a \<open>valid\<close> test, as in the source; the axes
  of a patch are options.
\<close>

definition Profile_Schema :: string where "Profile_Schema = ''io.oh-my-safety/profile''"
definition Profile_SchemaVersion :: int where "Profile_SchemaVersion = 1"

definition WorkloadWorkstation :: string where "WorkloadWorkstation = ''workstation''"
definition WorkloadDeveloper :: string where "WorkloadDeveloper = ''developer''"
definition WorkloadServer :: string where "WorkloadServer = ''server''"

definition Workload_valid :: "string \<Rightarrow> bool" where
  "Workload_valid value \<longleftrightarrow> value \<in> set [WorkloadWorkstation, WorkloadDeveloper, WorkloadServer]"

definition ProtectionBalanced :: string where "ProtectionBalanced = ''balanced''"
definition ProtectionStrict :: string where "ProtectionStrict = ''strict''"

definition Protection_valid :: "string \<Rightarrow> bool" where
  "Protection_valid value \<longleftrightarrow> value \<in> set [ProtectionBalanced, ProtectionStrict]"

definition ManagementStandalone :: string where "ManagementStandalone = ''standalone''"
definition ManagementManaged :: string where "ManagementManaged = ''managed''"

definition Management_valid :: "string \<Rightarrow> bool" where
  "Management_valid value \<longleftrightarrow> value \<in> set [ManagementStandalone, ManagementManaged]"

definition ConnectivityConnected :: string where "ConnectivityConnected = ''connected''"
definition ConnectivityOffline :: string where "ConnectivityOffline = ''offline''"
definition ConnectivityAirGapped :: string where "ConnectivityAirGapped = ''airgapped''"

definition Connectivity_valid :: "string \<Rightarrow> bool" where
  "Connectivity_valid value \<longleftrightarrow>
     value \<in> set [ConnectivityConnected, ConnectivityOffline, ConnectivityAirGapped]"

lemmas axis_defs =
  WorkloadWorkstation_def WorkloadDeveloper_def WorkloadServer_def Workload_valid_def
  ProtectionBalanced_def ProtectionStrict_def Protection_valid_def
  ManagementStandalone_def ManagementManaged_def Management_valid_def
  ConnectivityConnected_def ConnectivityOffline_def ConnectivityAirGapped_def Connectivity_valid_def

record Axes =
  ax_Workload :: string
  ax_Protection :: string
  ax_Management :: string
  ax_Connectivity :: string

definition Axes_Validate :: "Axes \<Rightarrow> go_error option" where
  "Axes_Validate axes = first_error
    [(\<not> Workload_valid (ax_Workload axes), Errorf ''invalid workload axis %q'' [ArgS (ax_Workload axes)]),
     (\<not> Protection_valid (ax_Protection axes), Errorf ''invalid protection axis %q'' [ArgS (ax_Protection axes)]),
     (\<not> Management_valid (ax_Management axes), Errorf ''invalid management axis %q'' [ArgS (ax_Management axes)]),
     (\<not> Connectivity_valid (ax_Connectivity axes),
        Errorf ''invalid connectivity axis %q'' [ArgS (ax_Connectivity axes)])]"

record Profile =
  pr_Schema :: string
  pr_SchemaVersion :: int
  pr_Preset :: string
  pr_Axes :: Axes

definition Profile_Validate :: "Profile \<Rightarrow> go_error option" where
  "Profile_Validate profile =
     (if pr_Schema profile \<noteq> Profile_Schema
      then Some (Errorf ''unsupported profile schema %q'' [ArgS (pr_Schema profile)])
      else if pr_SchemaVersion profile \<noteq> Profile_SchemaVersion
      then Some (Errorf ''unsupported profile schema version %d'' [ArgD (pr_SchemaVersion profile)])
      else if pr_Preset profile = [] then Some (New ''profile preset is required'')
      else Axes_Validate (pr_Axes profile))"

record Patch =
  pa_Workload :: "string option"
  pa_Protection :: "string option"
  pa_Management :: "string option"
  pa_Connectivity :: "string option"

record Capabilities =
  cap_AllowNetworkEnrichment :: bool
  cap_AllowExternalNotifications :: bool
  cap_AllowAutomaticRemediation :: bool
  cap_RequireSignedOfflineBundles :: bool
  cap_CentrallyManaged :: bool

definition axes :: "string \<Rightarrow> string \<Rightarrow> string \<Rightarrow> string \<Rightarrow> Axes" where
  "axes w p m c = \<lparr>ax_Workload = w, ax_Protection = p, ax_Management = m, ax_Connectivity = c\<rparr>"

definition presets :: "(string \<times> Axes) list" where
  "presets =
    [(''personal-balanced'', axes WorkloadWorkstation ProtectionBalanced ManagementStandalone ConnectivityConnected),
     (''personal-strict'', axes WorkloadWorkstation ProtectionStrict ManagementStandalone ConnectivityConnected),
     (''developer'', axes WorkloadDeveloper ProtectionStrict ManagementStandalone ConnectivityConnected),
     (''managed-workstation'', axes WorkloadWorkstation ProtectionStrict ManagementManaged ConnectivityConnected),
     (''managed-server'', axes WorkloadServer ProtectionStrict ManagementManaged ConnectivityConnected),
     (''airgapped-high-assurance'', axes WorkloadWorkstation ProtectionStrict ManagementStandalone ConnectivityAirGapped)]"

definition apply_patch :: "Axes \<Rightarrow> Patch \<Rightarrow> Axes" where
  "apply_patch a patch =
     \<lparr>ax_Workload = (case pa_Workload patch of None \<Rightarrow> ax_Workload a | Some v \<Rightarrow> v),
      ax_Protection = (case pa_Protection patch of None \<Rightarrow> ax_Protection a | Some v \<Rightarrow> v),
      ax_Management = (case pa_Management patch of None \<Rightarrow> ax_Management a | Some v \<Rightarrow> v),
      ax_Connectivity = (case pa_Connectivity patch of None \<Rightarrow> ax_Connectivity a | Some v \<Rightarrow> v)\<rparr>"

definition Resolve :: "string \<Rightarrow> Patch list \<Rightarrow> Profile result" where
  "Resolve preset patches =
     (case map_of presets preset of
        None \<Rightarrow> Inl (Errorf ''unknown profile preset %q'' [ArgS preset])
      | Some a \<Rightarrow>
          (let resolved = \<lparr>pr_Schema = Profile_Schema, pr_SchemaVersion = Profile_SchemaVersion,
                 pr_Preset = preset, pr_Axes = foldl apply_patch a patches\<rparr>
           in (case Profile_Validate resolved of Some err \<Rightarrow> Inl err | None \<Rightarrow> Inr resolved)))"

definition Profile_Capabilities :: "Profile \<Rightarrow> Capabilities" where
  "Profile_Capabilities profile =
     (let connected = (ax_Connectivity (pr_Axes profile) = ConnectivityConnected)
      in \<lparr>cap_AllowNetworkEnrichment = connected,
          cap_AllowExternalNotifications = connected,
          cap_AllowAutomaticRemediation = False,
          cap_RequireSignedOfflineBundles = (ax_Connectivity (pr_Axes profile) = ConnectivityAirGapped),
          cap_CentrallyManaged = (ax_Management (pr_Axes profile) = ManagementManaged)\<rparr>)"

definition Presets :: "string list" where
  "Presets = [''personal-balanced'', ''personal-strict'', ''developer'', ''managed-workstation'',
     ''managed-server'', ''airgapped-high-assurance'']"

subsection \<open>Validation and resolution\<close>

lemma Profile_Validate_None_iff [validate_simps]:
  "Profile_Validate p = None \<longleftrightarrow> pr_Schema p = Profile_Schema \<and> pr_SchemaVersion p = Profile_SchemaVersion
     \<and> pr_Preset p \<noteq> [] \<and> Workload_valid (ax_Workload (pr_Axes p)) \<and> Protection_valid (ax_Protection (pr_Axes p))
     \<and> Management_valid (ax_Management (pr_Axes p)) \<and> Connectivity_valid (ax_Connectivity (pr_Axes p))"
  by (simp add: Profile_Validate_def Axes_Validate_def)

lemma presets_domain: "set (map fst presets) = set Presets"
  by (simp add: presets_def Presets_def)

text \<open>
  The value of one axis after a list of patches: the last patch that sets it wins.
\<close>

definition last_set :: "(Patch \<Rightarrow> string option) \<Rightarrow> Patch list \<Rightarrow> string \<Rightarrow> string" where
  "last_set sel patches v = (case List.map_filter sel patches of [] \<Rightarrow> v | vs \<Rightarrow> last vs)"

lemma last_set_Cons:
  "last_set sel (p # ps) v = last_set sel ps (case sel p of None \<Rightarrow> v | Some w \<Rightarrow> w)"
  by (auto simp: last_set_def map_filter_simps split: option.splits list.splits)

lemma foldl_apply_patch:
  "foldl apply_patch a ps =
     \<lparr>ax_Workload = last_set pa_Workload ps (ax_Workload a),
      ax_Protection = last_set pa_Protection ps (ax_Protection a),
      ax_Management = last_set pa_Management ps (ax_Management a),
      ax_Connectivity = last_set pa_Connectivity ps (ax_Connectivity a)\<rparr>"
proof (induction ps arbitrary: a)
  case Nil
  then show ?case by (simp add: last_set_def map_filter_simps)
next
  case (Cons p ps)
  then show ?case by (simp add: last_set_Cons apply_patch_def)
qed

lemma Resolve_Inr:
  "Resolve preset patches = Inr p \<longleftrightarrow>
     (\<exists>a. map_of presets preset = Some a
        \<and> p = \<lparr>pr_Schema = Profile_Schema, pr_SchemaVersion = Profile_SchemaVersion, pr_Preset = preset,
               pr_Axes = foldl apply_patch a patches\<rparr>
        \<and> Profile_Validate p = None)"
  by (auto simp: Resolve_def Let_def split: option.splits)

subsection \<open>Properties\<close>

text \<open>
  \<open>Resolve\<close> succeeds exactly for a known preset whose axes, after the patches, are all
  valid; the profile it returns validates, and each axis has the value of the last patch that
  sets it, or of the preset.
\<close>

theorem Resolve_characterised:
  "Resolve preset patches = Inr p \<longleftrightarrow>
     (\<exists>a. (preset, a) \<in> set presets
        \<and> p = \<lparr>pr_Schema = Profile_Schema, pr_SchemaVersion = Profile_SchemaVersion, pr_Preset = preset,
               pr_Axes = axes (last_set pa_Workload patches (ax_Workload a))
                 (last_set pa_Protection patches (ax_Protection a))
                 (last_set pa_Management patches (ax_Management a))
                 (last_set pa_Connectivity patches (ax_Connectivity a))\<rparr>
        \<and> Profile_Validate p = None)"
proof -
  have "distinct (map fst presets)" by (simp add: presets_def)
  then have "map_of presets preset = Some a \<longleftrightarrow> (preset, a) \<in> set presets" for a by simp
  then show ?thesis by (simp only: Resolve_Inr foldl_apply_patch axes_def)
qed

text \<open>
  no resolved profile, whatever its preset and patches, allows automatic remediation, and
  one that is not connected allows neither network enrichment nor external notifications.
\<close>

theorem profiles_grant_no_remediation:
  assumes "Resolve preset patches = Inr p"
  shows "\<not> cap_AllowAutomaticRemediation (Profile_Capabilities p)
    \<and> (ax_Connectivity (pr_Axes p) \<in> {ConnectivityOffline, ConnectivityAirGapped} \<longleftrightarrow>
         \<not> cap_AllowNetworkEnrichment (Profile_Capabilities p))
    \<and> cap_AllowExternalNotifications (Profile_Capabilities p) = cap_AllowNetworkEnrichment (Profile_Capabilities p)
    \<and> (cap_RequireSignedOfflineBundles (Profile_Capabilities p) \<longrightarrow>
         \<not> cap_AllowNetworkEnrichment (Profile_Capabilities p))"
proof -
  have "Connectivity_valid (ax_Connectivity (pr_Axes p))"
    using assms unfolding Resolve_Inr Profile_Validate_None_iff by blast
  then show ?thesis by (auto simp: Profile_Capabilities_def Let_def axis_defs)
qed

theorem profiles_grant_no_remediation_witness:
  "\<not> cap_AllowNetworkEnrichment (Profile_Capabilities
      \<lparr>pr_Schema = Profile_Schema, pr_SchemaVersion = Profile_SchemaVersion, pr_Preset = ''developer'',
       pr_Axes = axes WorkloadDeveloper ProtectionStrict ManagementStandalone ConnectivityOffline\<rparr>)"
proof -
  have "Resolve ''developer'' [\<lparr>pa_Workload = None, pa_Protection = None, pa_Management = None,
      pa_Connectivity = Some ConnectivityOffline\<rparr>] = Inr
      \<lparr>pr_Schema = Profile_Schema, pr_SchemaVersion = Profile_SchemaVersion, pr_Preset = ''developer'',
       pr_Axes = axes WorkloadDeveloper ProtectionStrict ManagementStandalone ConnectivityOffline\<rparr>"
    by (simp add: Resolve_Inr presets_def apply_patch_def axes_def Profile_Validate_None_iff axis_defs)
  from profiles_grant_no_remediation [OF this] show ?thesis by (simp add: axes_def)
qed

text \<open>
  Every name that \<open>Presets\<close> lists resolves without patches, to a profile that validates.
\<close>

theorem Presets_resolve:
  "list_all (\<lambda>preset. \<exists>p. Resolve preset [] = Inr p \<and> pr_Preset p = preset) Presets"
  by (simp add: Presets_def Resolve_Inr presets_def axes_def Profile_Validate_None_iff axis_defs)

end
