(* ===== verification/GoNet.thy ===== *)
theory GoNet
  imports GoJson
begin

section \<open>Standard library text functions: splitting, paths, IP addresses, JSON text\<close>

text \<open>
  What the sources use of \<open>strings\<close>, \<open>path\<close>, \<open>net\<close> and of the text that \<open>json.Marshal\<close>
  produces: \<open>strings.Split\<close> with a one-byte separator, \<open>strings.Contains\<close>, \<open>path.Clean\<close>,
  whether \<open>net.ParseIP\<close> accepts a string, and the bytes of a JSON document.
\<close>

subsection \<open>strings\<close>

fun split_on :: "char \<Rightarrow> string \<Rightarrow> string list" where
  "split_on sep [] = [[]]"
| "split_on sep (c # s) =
     (if c = sep then [] # split_on sep s
      else case split_on sep s of [] \<Rightarrow> [[c]] | p # ps \<Rightarrow> (c # p) # ps)"

fun join_with :: "string \<Rightarrow> string list \<Rightarrow> string" where
  "join_with sep [] = []"
| "join_with sep [p] = p"
| "join_with sep (p # q # ps) = p @ sep @ join_with sep (q # ps)"

definition has_prefix :: "string \<Rightarrow> string \<Rightarrow> bool" where
  "has_prefix s p \<longleftrightarrow> take (length p) s = p"

fun contains :: "string \<Rightarrow> string \<Rightarrow> bool" where
  "contains s sub = (has_prefix s sub \<or> (case s of [] \<Rightarrow> False | _ # r \<Rightarrow> contains r sub))"

declare contains.simps [simp del]

lemma split_on_nonempty [simp]: "split_on sep s \<noteq> []"
  by (cases s) (auto split: list.splits)

lemma join_split: "join_with [sep] (split_on sep s) = s"
proof (induction s)
  case (Cons c s)
  obtain p ps where p: "split_on sep s = p # ps" by (cases "split_on sep s") auto
  with Cons show ?case by (cases ps) auto
qed simp

lemma split_on_no_sep: "sep \<notin> set s \<Longrightarrow> split_on sep s = [s]"
  by (induction s) auto

lemma split_on_append: "sep \<notin> set p \<Longrightarrow> split_on sep (p @ sep # s) = p # split_on sep s"
  by (induction p) auto

lemma split_join:
  "ps \<noteq> [] \<Longrightarrow> list_all (\<lambda>p. sep \<notin> set p) ps \<Longrightarrow> split_on sep (join_with [sep] ps) = ps"
proof (induction ps)
  case (Cons p ps)
  then show ?case by (cases ps) (auto simp: split_on_append split_on_no_sep)
qed simp

subsection \<open>path.Clean\<close>

fun clean_parts :: "bool \<Rightarrow> string list \<Rightarrow> string list \<Rightarrow> string list" where
  "clean_parts rooted out [] = rev out"
| "clean_parts rooted out (p # ps) =
     (if p = [] \<or> p = ''.'' then clean_parts rooted out ps
      else if p = ''..'' then
        (case out of
           [] \<Rightarrow> clean_parts rooted (if rooted then [] else [p]) ps
         | q # qs \<Rightarrow> if q = ''..'' then clean_parts rooted (p # out) ps else clean_parts rooted qs ps)
      else clean_parts rooted (p # out) ps)"

definition path_Clean :: "string \<Rightarrow> string" where
  "path_Clean s =
     (let rooted = has_prefix s ''/'';
          body = join_with ''/'' (clean_parts rooted [] (split_on (CHR ''/'') s))
      in if rooted then ''/'' @ body else if body = [] then ''.'' else body)"

subsection \<open>net.ParseIP\<close>

definition ipv4_octet :: "string \<Rightarrow> bool" where
  "ipv4_octet p \<longleftrightarrow> p \<noteq> [] \<and> length p \<le> 3 \<and> list_all is_digit p
     \<and> (length p = 1 \<or> hd p \<noteq> CHR ''0'')
     \<and> foldl (\<lambda>n c. n * 10 + digit_val c) 0 p \<le> 255"

definition valid_ipv4 :: "string \<Rightarrow> bool" where
  "valid_ipv4 s \<longleftrightarrow> length (split_on (CHR ''.'') s) = 4 \<and> list_all ipv4_octet (split_on (CHR ''.'') s)"

definition is_hex :: "char \<Rightarrow> bool" where
  "is_hex c \<longleftrightarrow> is_digit c \<or> (97 \<le> byte c \<and> byte c \<le> 102) \<or> (65 \<le> byte c \<and> byte c \<le> 70)"

text \<open>
  The loop over the 16-bit fields: \<open>n\<close> fields are still free, \<open>ell\<close> is set once a double
  colon was seen. An accepted string uses all fields, or fewer with a double colon.
\<close>

fun ipv6_fields :: "nat \<Rightarrow> bool \<Rightarrow> string \<Rightarrow> bool" where
  "ipv6_fields 0 ell s = False"
| "ipv6_fields (Suc n) ell s =
     (let hex = takeWhile is_hex s; rest = dropWhile is_hex s in
      if hex = [] \<or> length hex > 4 then False
      else case rest of
          [] \<Rightarrow> (if n = 0 then \<not> ell else ell)
        | c # r \<Rightarrow>
            if c = CHR ''.'' then
              (if \<not> ell \<and> n \<noteq> 1 then False
               else if n = 0 then False
               else valid_ipv4 s \<and> (if n = 1 then \<not> ell else ell))
            else if c \<noteq> CHR '':'' \<or> r = [] then False
            else if hd r = CHR '':'' then
              (if ell then False
               else if tl r = [] then n \<noteq> 0
               else ipv6_fields n True (tl r))
            else ipv6_fields n ell r)"

definition valid_ipv6 :: "string \<Rightarrow> bool" where
  "valid_ipv6 s \<longleftrightarrow>
     (if has_prefix s ''::'' then drop 2 s = [] \<or> ipv6_fields 8 True (drop 2 s)
      else ipv6_fields 8 False s)"

definition ParseIP_ok :: "string \<Rightarrow> bool" where
  "ParseIP_ok s \<longleftrightarrow>
     (case find (\<lambda>c. c = CHR ''.'' \<or> c = CHR '':'' \<or> c = CHR ''%'') s of
        None \<Rightarrow> False
      | Some c \<Rightarrow> if c = CHR ''.'' then valid_ipv4 s
                 else if c = CHR '':'' then CHR ''%'' \<notin> set s \<and> valid_ipv6 s
                 else False)"

subsection \<open>The text of a JSON document\<close>

definition nibble :: "nat \<Rightarrow> char" where
  "nibble n = (''0123456789abcdef'' ! n)"

text \<open>Escapes of \<open>encoding/json\<close> with HTML escaping on.\<close>

definition escape_rune :: "rune \<Rightarrow> string" where
  "escape_rune r =
     (let c = fst r in
      if c = 34 then [char_of (92::nat), CHR 0x22]
      else if c = 92 then [char_of (92::nat), char_of (92::nat)]
      else if c = 8 then [char_of (92::nat), CHR ''b'']
      else if c = 12 then [char_of (92::nat), CHR ''f'']
      else if c = 10 then [char_of (92::nat), CHR ''n'']
      else if c = 13 then [char_of (92::nat), CHR ''r'']
      else if c = 9 then [char_of (92::nat), CHR ''t'']
      else if c < 32 \<or> c = 60 \<or> c = 62 \<or> c = 38
      then char_of (92::nat) # ''u00'' @ [nibble (c div 16), nibble (c mod 16)]
      else if c = 8232 \<or> c = 8233 then char_of (92::nat) # ''u202'' @ [nibble (c mod 16)]
      else snd r)"

definition quote_text :: "string \<Rightarrow> string" where
  "quote_text s = [CHR 0x22] @ concat (map escape_rune (runes s)) @ [CHR 0x22]"

fun json_text :: "json \<Rightarrow> string" where
  "json_text JNull = ''null''"
| "json_text (JBool b) = (if b then ''true'' else ''false'')"
| "json_text (JNum s) = s"
| "json_text (JStr s) = quote_text s"
| "json_text (JArr js) = ''['' @ join_with '','' (map json_text js) @ '']''"
| "json_text (JObj ms) = ''{'' @ join_with '','' (map (\<lambda>(k, v). quote_text k @ '':'' @ json_text v) ms) @ ''}''"

end
