(* ===== verification/Bridge_Scan.thy ===== *)
theory Bridge_Scan
  imports Model GoNet
begin

section \<open>Scan snapshots (internal/bridge/scan.go)\<close>

text \<open>
  The line format the shell scanner writes, parsed and validated into a \<open>ScanSnapshot\<close>, and the
  digest of a snapshot, independent of the order of its result rows. The reader's content is
  the argument of \<open>ParseScan\<close> (a nil reader and a failing read are its other cases); a Go map
  is the list of its entries. SHA-256 is a parameter of \<open>SnapshotDigest\<close>, a function from
  byte strings to bytes.
\<close>

definition ScanSchemaVersion :: int where "ScanSchemaVersion = 1"
definition MaxScanInputBytes :: nat where "MaxScanInputBytes = 4194304"
definition MaxScanLineBytes :: nat where "MaxScanLineBytes = 65536"
definition MaxScanResults :: nat where "MaxScanResults = 4096"

definition ScanScopeFull :: string where "ScanScopeFull = ''full''"
definition ScanScopePartial :: string where "ScanScopePartial = ''partial''"
definition ScanScopeComposite :: string where "ScanScopeComposite = ''composite''"

record ScanMetadata =
  sm_Timestamp :: gotime
  sm_UpdatedAt :: gotime
  sm_Version :: string
  sm_Platform :: string
  sm_Source :: string
  sm_Scope :: string
  sm_Exit :: int
  sm_FDA :: bool
  sm_PublicIP :: string

definition CheckStatusOK :: string where "CheckStatusOK = ''ok''"
definition CheckStatusWarn :: string where "CheckStatusWarn = ''warn''"
definition CheckStatusCritical :: string where "CheckStatusCritical = ''critical''"
definition CheckStatusSkip :: string where "CheckStatusSkip = ''skip''"
definition CheckStatusError :: string where "CheckStatusError = ''error''"

lemmas status_defs = CheckStatusOK_def CheckStatusWarn_def CheckStatusCritical_def
  CheckStatusSkip_def CheckStatusError_def

record CheckResult =
  cr_Category :: string
  cr_Name :: string
  cr_Status :: string
  cr_Severity :: Severity
  cr_Summary :: string
  cr_Remediation :: string
  cr_Guide :: string

record ScanSnapshot =
  ss_SchemaVersion :: int
  ss_Metadata :: ScanMetadata
  ss_Results :: "CheckResult list"

subsection \<open>Lexical classes\<close>

definition ident_rune :: "nat \<Rightarrow> bool" where
  "ident_rune r \<longleftrightarrow> (97 \<le> r \<and> r \<le> 122) \<or> (65 \<le> r \<and> r \<le> 90) \<or> (48 \<le> r \<and> r \<le> 57)
     \<or> r = 46 \<or> r = 95 \<or> r = 45"

definition validIdentifier :: "string \<Rightarrow> bool" where
  "validIdentifier value \<longleftrightarrow>
     value \<noteq> [] \<and> length value \<le> 128 \<and> value \<noteq> ''.'' \<and> value \<noteq> ''..'' \<and> all_runes ident_rune value"

definition validToken :: "string \<Rightarrow> nat \<Rightarrow> bool" where
  "validToken value maximum \<longleftrightarrow>
     value \<noteq> [] \<and> length value \<le> maximum \<and> value = TrimSpace value \<and> all_runes (\<lambda>r. \<not> IsControl r) value"

definition validGuide :: "string \<Rightarrow> bool" where
  "validGuide value \<longleftrightarrow>
     \<not> (length value > 1024 \<or> contains value [char_of (92::nat)] \<or> has_prefix value ''/''
        \<or> path_Clean value \<noteq> value \<or> value = ''.'' \<or> value = ''..'' \<or> has_prefix value ''../'')
     \<and> validToken value 1024"

definition validateLineCharacters :: "string \<Rightarrow> bool" where
  "validateLineCharacters line \<longleftrightarrow>
     all_runes (\<lambda>r. r = 9 \<or> \<not> (r = 13 \<or> r = 0 \<or> IsControl r)) line"

definition knownMetadataKey :: "string \<Rightarrow> bool" where
  "knownMetadataKey key \<longleftrightarrow> key \<in> set [''timestamp'', ''updated_at'', ''version'', ''platform'', ''source'',
     ''scope'', ''exit'', ''fda'', ''public_ip'']"

subsection \<open>Validation\<close>

definition CheckResult_Validate :: "CheckResult \<Rightarrow> go_error option" where
  "CheckResult_Validate result = first_error
    [(\<not> validIdentifier (cr_Category result), New ''category is invalid''),
     (\<not> validIdentifier (cr_Name result), New ''check name is invalid''),
     (\<not> validToken (cr_Summary result) MaxScanLineBytes, New ''summary is empty or invalid''),
     (cr_Remediation result \<noteq> [] \<and> \<not> validToken (cr_Remediation result) MaxScanLineBytes,
        New ''remediation is invalid''),
     (cr_Guide result \<noteq> [] \<and> \<not> validGuide (cr_Guide result), New ''guide path is invalid''),
     (cr_Status result \<in> set [CheckStatusOK, CheckStatusSkip] \<and> cr_Severity result \<noteq> SeverityInfo,
        New ''ok and skip results must have info severity''),
     (cr_Status result = CheckStatusWarn
        \<and> cr_Severity result \<noteq> SeverityInfo \<and> cr_Severity result \<noteq> SeverityWarn,
        New ''warn results must have info or warn severity''),
     (cr_Status result \<in> set [CheckStatusCritical, CheckStatusError] \<and> cr_Severity result \<noteq> SeverityCritical,
        New ''critical and error results must have critical severity''),
     (cr_Status result \<notin> set [CheckStatusOK, CheckStatusSkip, CheckStatusWarn, CheckStatusCritical, CheckStatusError],
        New ''status is invalid'')]"

fun expected_exit :: "int \<Rightarrow> CheckResult list \<Rightarrow> int" where
  "expected_exit expected [] = expected"
| "expected_exit expected (result # results) =
     expected_exit
       (if cr_Status result = CheckStatusWarn then (if expected < 1 then 1 else expected)
        else if cr_Status result = CheckStatusCritical then (if expected < 2 then 2 else expected)
        else if cr_Status result = CheckStatusError then 3
        else expected) results"

definition validateExit :: "ScanSnapshot \<Rightarrow> go_error option" where
  "validateExit snapshot =
     (let expected = expected_exit 0 (ss_Results snapshot)
      in if sm_Exit (ss_Metadata snapshot) \<noteq> expected
         then Some (Errorf ''scan exit %d is inconsistent with result statuses; expected %d''
                [ArgD (sm_Exit (ss_Metadata snapshot)), ArgD expected])
         else None)"

definition result_key :: "CheckResult \<Rightarrow> string" where
  "result_key result = cr_Category result @ nul # cr_Name result"

definition metadata_checks :: "ScanSnapshot \<Rightarrow> go_error option" where
  "metadata_checks snapshot =
     (let metadata = ss_Metadata snapshot in first_error
    [(IsZero (sm_Timestamp metadata), New ''scan timestamp is required''),
     (IsZero (sm_UpdatedAt metadata), New ''scan updated_at is required''),
     (Before (sm_UpdatedAt metadata) (sm_Timestamp metadata), New ''scan updated_at cannot precede timestamp''),
     (\<not> validToken (sm_Version metadata) 64, New ''scan version is invalid''),
     (\<not> validIdentifier (sm_Platform metadata), New ''scan platform is invalid''),
     (\<not> validIdentifier (sm_Source metadata), New ''scan source is invalid''),
     (sm_Scope metadata \<noteq> ScanScopeFull \<and> sm_Scope metadata \<noteq> ScanScopePartial
        \<and> sm_Scope metadata \<noteq> ScanScopeComposite, New ''scan scope is invalid''),
     (sm_Exit metadata < 0 \<or> sm_Exit metadata > 3, New ''scan exit must be from 0 through 3''),
     (sm_PublicIP metadata \<noteq> [] \<and> \<not> ParseIP_ok (sm_PublicIP metadata), New ''scan public_ip is invalid''),
     (ss_Results snapshot = [], New ''scan must contain at least one result row''),
     (length (ss_Results snapshot) > MaxScanResults,
        Errorf ''scan contains more than %d results'' [ArgD (int MaxScanResults)])])"

definition invalid_result :: "CheckResult \<Rightarrow> go_error option" where
  "invalid_result result =
     map_option (Wrap ''invalid check result: %w'') (CheckResult_Validate result)"

definition Snapshot_Validate :: "ScanSnapshot \<Rightarrow> go_error option" where
  "Snapshot_Validate snapshot =
     (if ss_SchemaVersion snapshot \<noteq> ScanSchemaVersion
      then Some (Errorf ''unsupported scan schema version %d'' [ArgD (ss_SchemaVersion snapshot)])
      else (case metadata_checks snapshot of
          Some err \<Rightarrow> Some err
        | None \<Rightarrow>
            (case check_distinct invalid_result result_key
                    (New ''scan contains a duplicate check result'') [] (ss_Results snapshot) of
               Some err \<Rightarrow> Some err
             | None \<Rightarrow> validateExit snapshot)))"

subsection \<open>Parsing\<close>

definition parseResult :: "string list \<Rightarrow> CheckResult result" where
  "parseResult cols =
     (if length cols \<noteq> 8 then Inl (New ''result row must contain exactly eight fields'')
      else let result = \<lparr>cr_Category = cols ! 1, cr_Name = cols ! 2, cr_Status = cols ! 3,
             cr_Severity = cols ! 4, cr_Summary = cols ! 5, cr_Remediation = cols ! 6,
             cr_Guide = cols ! 7\<rparr>
           in (case CheckResult_Validate result of Some err \<Rightarrow> Inl err | None \<Rightarrow> Inr result))"

type_synonym meta_values = "(string \<times> string) list"

text \<open>Indexing a Go map with an absent key gives the empty string.\<close>

definition meta_at :: "meta_values \<Rightarrow> string \<Rightarrow> string" where
  "meta_at values key = (case map_of values key of None \<Rightarrow> [] | Some v \<Rightarrow> v)"

definition required_metadata :: "string list" where
  "required_metadata = [''timestamp'', ''version'', ''platform'', ''source'', ''exit'', ''fda'']"

definition parse_times :: "meta_values \<Rightarrow> (gotime \<times> gotime) result" where
  "parse_times values =
     (case ParseRFC3339Nano (meta_at values ''timestamp'') of
        None \<Rightarrow> Inl (New ''scan timestamp must be RFC3339'')
      | Some timestamp \<Rightarrow>
          (case (case map_of values ''updated_at'' of
                   None \<Rightarrow> Some timestamp
                 | Some raw \<Rightarrow> if raw = [] then None else ParseRFC3339Nano raw) of
             None \<Rightarrow> Inl (New ''scan updated_at must be RFC3339'')
           | Some updatedAt \<Rightarrow>
               if Before (UTC updatedAt) (UTC timestamp)
               then Inl (New ''scan updated_at cannot precede timestamp'')
               else Inr (UTC timestamp, UTC updatedAt)))"

definition parseMetadata :: "meta_values \<Rightarrow> ScanMetadata result" where
  "parseMetadata values =
     (case find (\<lambda>key. map_of values key = None) required_metadata of
        Some key \<Rightarrow> Inl (Errorf ''required scan metadata %q is missing'' [ArgS key])
      | None \<Rightarrow>
     (case parse_times values of
        Inl err \<Rightarrow> Inl err
      | Inr (timestamp, updatedAt) \<Rightarrow>
          (let scope = (case map_of values ''scope'' of None \<Rightarrow> ScanScopeFull | Some raw \<Rightarrow> raw);
               rawExit = meta_at values ''exit'';
               fda = meta_at values ''fda'';
               publicIP = meta_at values ''public_ip''
           in (case first_error
                [(\<not> validToken (meta_at values ''version'') 64, New ''scan version is invalid''),
                 (\<not> validIdentifier (meta_at values ''platform''), New ''scan platform is invalid''),
                 (\<not> validIdentifier (meta_at values ''source''), New ''scan source is invalid''),
                 (scope \<notin> set [ScanScopeFull, ScanScopePartial, ScanScopeComposite], New ''scan scope is invalid''),
                 (rawExit \<notin> set [''0'', ''1'', ''2'', ''3''],
                    New ''scan exit must be an integer from 0 through 3''),
                 (fda \<noteq> ''true'' \<and> fda \<noteq> ''false'', New ''scan fda must be true or false''),
                 (publicIP \<noteq> [] \<and> \<not> ParseIP_ok publicIP, New ''scan public_ip is invalid'')] of
               Some err \<Rightarrow> Inl err
             | None \<Rightarrow>
                 Inr \<lparr>sm_Timestamp = timestamp, sm_UpdatedAt = updatedAt,
                   sm_Version = meta_at values ''version'', sm_Platform = meta_at values ''platform'',
                   sm_Source = meta_at values ''source'', sm_Scope = scope,
                   sm_Exit = digit_val (hd rawExit), sm_FDA = (fda = ''true''), sm_PublicIP = publicIP\<rparr>))))"

text \<open>
  \<open>bufio.Scanner\<close> splitting into lines with a buffer of \<open>MaxScanLineBytes\<close>: the final line may
  lack its newline, one trailing carriage return is dropped, and a line that fills the buffer
  before its newline ends the scan with an error, after the lines before it were handled.
\<close>

definition raw_lines :: "string \<Rightarrow> string list" where
  "raw_lines input =
     (let parts = split_on (CHR 0x0A) input in if last parts = [] then butlast parts else parts)"

definition drop_cr :: "string \<Rightarrow> string" where
  "drop_cr l = (if l \<noteq> [] \<and> last l = CHR 0x0D then butlast l else l)"

record scan_state =
  sc_line :: nat
  sc_schema :: bool
  sc_results_begun :: bool
  sc_metadata :: meta_values
  sc_results :: "CheckResult list"

definition scan_init :: scan_state where
  "scan_init = \<lparr>sc_line = 0, sc_schema = False, sc_results_begun = False, sc_metadata = [], sc_results = []\<rparr>"

abbreviation at_line :: "string \<Rightarrow> scan_state \<Rightarrow> go_error" where
  "at_line msg st \<equiv> Errorf msg [ArgD (int (sc_line st))]"

definition scan_meta :: "scan_state \<Rightarrow> string list \<Rightarrow> scan_state result" where
  "scan_meta st cols =
     (if sc_results_begun st then Inl (at_line ''metadata row after results at line %d'' st)
      else if length cols \<noteq> 3 \<or> cols ! 1 = [] then Inl (at_line ''malformed metadata row at line %d'' st)
      else if \<not> knownMetadataKey (cols ! 1) then Inl (at_line ''unknown metadata key at line %d'' st)
      else if map_of (sc_metadata st) (cols ! 1) \<noteq> None
      then Inl (at_line ''duplicate metadata key at line %d'' st)
      else Inr (st\<lparr>sc_metadata := (cols ! 1, cols ! 2) # sc_metadata st\<rparr>))"

definition scan_result :: "scan_state \<Rightarrow> string list \<Rightarrow> scan_state result" where
  "scan_result st cols =
     (case parseResult cols of
        Inl err \<Rightarrow> Inl (Wrapf ''invalid result row at line %d: %w'' [ArgD (int (sc_line st))] err)
      | Inr result \<Rightarrow>
          if result_key result \<in> set (map result_key (sc_results st))
          then Inl (at_line ''duplicate check result at line %d'' st)
          else if length (sc_results st) + 1 > MaxScanResults
          then Inl (Errorf ''scan contains more than %d results'' [ArgD (int MaxScanResults)])
          else Inr (st\<lparr>sc_results_begun := True, sc_results := sc_results st @ [result]\<rparr>))"

definition scan_line :: "scan_state \<Rightarrow> string \<Rightarrow> scan_state result" where
  "scan_line st0 line =
     (let st = st0\<lparr>sc_line := sc_line st0 + 1\<rparr> in
      if line = [] then Inr st
      else if \<not> validateLineCharacters line
      then Inl (at_line ''scan line %d contains unsupported control characters'' st)
      else let cols = split_on (CHR 0x09) line in
        if \<not> sc_schema st then
          (if length cols \<noteq> 2 \<or> cols ! 0 \<noteq> ''schema'' \<or> cols ! 1 \<noteq> ''1''
           then Inl (New ''scan must begin with schema version 1'')
           else Inr (st\<lparr>sc_schema := True\<rparr>))
        else if cols ! 0 = ''schema'' then Inl (at_line ''duplicate schema row at line %d'' st)
        else if cols ! 0 = ''meta'' then scan_meta st cols
        else if cols ! 0 = ''result'' then scan_result st cols
        else if cols ! 0 = ''detail'' then Inr (st\<lparr>sc_results_begun := True\<rparr>)
        else Inl (at_line ''unknown scan row type at line %d'' st))"

fun scan_lines :: "scan_state \<Rightarrow> string list \<Rightarrow> scan_state result" where
  "scan_lines st [] = Inr st"
| "scan_lines st (raw # raws) =
     (if length raw \<ge> MaxScanLineBytes
      then Inl (Errorf ''scan line exceeds %d bytes'' [ArgD (int MaxScanLineBytes)])
      else (case scan_line st (drop_cr raw) of
          Inl err \<Rightarrow> Inl err
        | Inr st' \<Rightarrow> scan_lines st' raws))"

definition ParseScan :: "string result option \<Rightarrow> ScanSnapshot result" where
  "ParseScan reader =
     (case reader of
        None \<Rightarrow> Inl (New ''scan input is required'')
      | Some (Inl _) \<Rightarrow> Inl (New ''read scan input'')
      | Some (Inr input) \<Rightarrow>
          if length input > MaxScanInputBytes
          then Inl (Errorf ''scan input exceeds %d bytes'' [ArgD (int MaxScanInputBytes)])
          else (case scan_lines scan_init (raw_lines input) of
              Inl err \<Rightarrow> Inl err
            | Inr st \<Rightarrow>
                if \<not> sc_schema st then Inl (New ''scan schema row is required'')
                else if sc_results st = [] then Inl (New ''scan must contain at least one result row'')
                else (case parseMetadata (sc_metadata st) of
                    Inl err \<Rightarrow> Inl err
                  | Inr metadata \<Rightarrow>
                      (let snapshot = \<lparr>ss_SchemaVersion = ScanSchemaVersion, ss_Metadata = metadata,
                             ss_Results = sc_results st\<rparr>
                       in (case Snapshot_Validate snapshot of Some err \<Rightarrow> Inl err | None \<Rightarrow> Inr snapshot)))))"

subsection \<open>Sorting and the digest\<close>

definition resultLess :: "CheckResult \<Rightarrow> CheckResult \<Rightarrow> bool" where
  "resultLess left right =
     (if cr_Category left \<noteq> cr_Category right then cr_Category left < cr_Category right
      else cr_Name left < cr_Name right)"

text \<open>The in-place insertion sort: shift larger elements right, then store \<open>current\<close>.\<close>

fun shift_right :: "CheckResult \<Rightarrow> CheckResult list \<Rightarrow> nat \<Rightarrow> CheckResult list \<times> nat" where
  "shift_right current results 0 = (results, 0)"
| "shift_right current results (Suc position) =
     (if resultLess current (results ! position)
      then shift_right current (results[Suc position := results ! position]) position
      else (results, Suc position))"

fun sort_from :: "nat \<Rightarrow> nat \<Rightarrow> CheckResult list \<Rightarrow> CheckResult list" where
  "sort_from 0 index results = results"
| "sort_from (Suc n) index results =
     (let current = results ! index;
          (shifted, position) = shift_right current results index
      in sort_from n (Suc index) (shifted[position := current]))"

definition sortResults :: "CheckResult list \<Rightarrow> CheckResult list" where
  "sortResults results = sort_from (length results - 1) 1 results"

definition Metadata_json :: "ScanMetadata \<Rightarrow> json" where
  "Metadata_json m = JObj (
     [(''timestamp'', jtime (sm_Timestamp m)), (''updated_at'', jtime (sm_UpdatedAt m)),
      (''version'', jstr (sm_Version m)), (''platform'', jstr (sm_Platform m)),
      (''source'', jstr (sm_Source m)), (''scope'', jstr (sm_Scope m)), (''exit'', jint (sm_Exit m)),
      (''fda'', JBool (sm_FDA m))]
     @ omit (sm_PublicIP m = []) ''public_ip'' (jstr (sm_PublicIP m)))"

definition CheckResult_json :: "CheckResult \<Rightarrow> json" where
  "CheckResult_json r = JObj (
     [(''category'', jstr (cr_Category r)), (''name'', jstr (cr_Name r)), (''status'', jstr (cr_Status r)),
      (''severity'', jstr (cr_Severity r)), (''summary'', jstr (cr_Summary r))]
     @ omit (cr_Remediation r = []) ''remediation'' (jstr (cr_Remediation r))
     @ omit (cr_Guide r = []) ''guide'' (jstr (cr_Guide r)))"

definition Snapshot_json :: "ScanSnapshot \<Rightarrow> json option" where
  "Snapshot_json s =
     (if json_time (sm_Timestamp (ss_Metadata s)) \<and> json_time (sm_UpdatedAt (ss_Metadata s))
      then Some (JObj [(''schema_version'', jint (ss_SchemaVersion s)),
        (''metadata'', Metadata_json (ss_Metadata s)),
        (''results'', JArr (map CheckResult_json (ss_Results s)))])
      else None)"

definition canonical_snapshot :: "ScanSnapshot \<Rightarrow> ScanSnapshot" where
  "canonical_snapshot snapshot =
     snapshot\<lparr>ss_Metadata := (ss_Metadata snapshot)\<lparr>
         sm_Timestamp := UTC (sm_Timestamp (ss_Metadata snapshot)),
         sm_UpdatedAt := UTC (sm_UpdatedAt (ss_Metadata snapshot))\<rparr>,
       ss_Results := sortResults (ss_Results snapshot)\<rparr>"

definition SnapshotDigest :: "(string \<Rightarrow> 8 word list) \<Rightarrow> ScanSnapshot \<Rightarrow> string result" where
  "SnapshotDigest sha256 snapshot =
     (case Snapshot_Validate snapshot of
        Some err \<Rightarrow> Inl err
      | None \<Rightarrow>
          (case Snapshot_json (canonical_snapshot snapshot) of
             None \<Rightarrow> Inl (New ''encode canonical scan snapshot'')
           | Some encoded \<Rightarrow> Inr (hex_encode (sha256 (json_text encoded)))))"

end
