(* ===== verification/Bridge_Scan_Props.thy ===== *)
theory Bridge_Scan_Props
  imports Bridge_Scan
begin

section \<open>Facts about scan snapshots\<close>

text \<open>
  The in-place insertion sort computes the order by category and name, the exit code that a
  snapshot must carry is the worst status of its rows, and the digest does not depend on the
  order of the rows or on the zones of the times.
\<close>

subsection \<open>Sorting\<close>

definition row_key :: "CheckResult \<Rightarrow> string \<times> string" where
  "row_key r = (cr_Category r, cr_Name r)"

lemma resultLess_key: "resultLess a b \<longleftrightarrow> row_key a < row_key b"
  by (auto simp: resultLess_def row_key_def less_prod_def)

abbreviation (input) not_less :: "CheckResult \<Rightarrow> CheckResult \<Rightarrow> bool" where
  "not_less \<equiv> \<lambda>a b. \<not> resultLess a b"

lemma not_less_total: "total_order_on A not_less"
  by (auto simp: total_order_on_def resultLess_key not_less)

lemma shift_right_spec:
  "(case shift_right current (pre @ x # suf) (length pre) of (rows, position) \<Rightarrow> rows[position := current])
     = rev (insort_by not_less current (rev pre)) @ suf"
proof (induction pre arbitrary: x suf rule: rev_induct)
  case Nil
  then show ?case by simp
next
  case (snoc r qs)
  have upd: "(qs @ r # x # suf)[Suc (length qs) := r] = qs @ r # r # suf"
    by (metis append.assoc append_Cons append_Nil length_append_singleton list_update_length)
  show ?case
  proof (cases "resultLess current r")
    case True
    with snoc.IH [of r "r # suf"] show ?thesis by (simp add: nth_append upd)
  next
    case False
    have "(qs @ r # x # suf)[Suc (length qs) := current] = qs @ r # current # suf"
      by (metis append.assoc append_Cons append_Nil length_append_singleton list_update_length)
    with False show ?thesis by (simp add: nth_append)
  qed
qed

lemma sort_from_spec:
  "sort_from (length suf) (length pre) (pre @ suf) =
     fold (\<lambda>current rows. rev (insort_by not_less current (rev rows))) suf pre"
proof (induction suf arbitrary: pre)
  case (Cons x suf)
  let ?pre = "rev (insort_by not_less x (rev pre))"
  have len: "length ?pre = Suc (length pre)"
    by (metis length_append_singleton length_rev mset_insort_by mset_rev size_add_mset size_mset)
  show ?case
    using shift_right_spec [of x pre x suf] Cons.IH [of ?pre] len
    by (auto simp: nth_append split: prod.splits)
qed simp

lemma fold_insort:
  assumes "sorted_wrt not_less (rev pre)"
  shows "mset (fold (\<lambda>c rows. rev (insort_by not_less c (rev rows))) suf pre) = mset pre + mset suf
    \<and> sorted_wrt not_less (rev (fold (\<lambda>c rows. rev (insort_by not_less c (rev rows))) suf pre))"
  using assms
proof (induction suf arbitrary: pre)
  case (Cons x suf)
  have "sorted_wrt not_less (insort_by not_less x (rev pre))"
    by (rule sorted_insort_by [OF not_less_total [of UNIV]]) (use Cons.prems in auto)
  with Cons.IH [of "rev (insort_by not_less x (rev pre))"] show ?case by simp
qed simp

lemma sortResults_fold: "sortResults rows = fold (\<lambda>c rs. rev (insort_by not_less c (rev rs))) rows []"
proof (cases rows)
  case (Cons r rs)
  with sort_from_spec [of rs "[r]"] show ?thesis by (simp add: sortResults_def)
qed (simp add: sortResults_def)

lemma mset_sortResults [simp]: "mset (sortResults rows) = mset rows"
  using fold_insort [of "[]" rows] by (simp add: sortResults_fold)

lemma set_sortResults [simp]: "set (sortResults rows) = set rows"
  by (metis mset_sortResults set_mset_mset)

lemma length_sortResults [simp]: "length (sortResults rows) = length rows"
  by (metis mset_sortResults size_mset)

lemma sorted_sortResults: "sorted (map row_key (sortResults rows))"
proof -
  have "sorted_wrt not_less (rev (sortResults rows))"
    using fold_insort [of "[]" rows] by (simp add: sortResults_fold)
  then show ?thesis
    by (simp add: sorted_wrt_rev sorted_map resultLess_key not_less)
qed

lemma filter_insort_by:
  "filter (\<lambda>r. k = row_key r) (insort_by not_less c rows) =
     (if k = row_key c then c # filter (\<lambda>r. k = row_key r) rows else filter (\<lambda>r. k = row_key r) rows)"
  by (induction rows) (auto simp: resultLess_key)

lemma filter_fold_insort:
  "filter (\<lambda>r. k = row_key r) (fold (\<lambda>c rs. rev (insort_by not_less c (rev rs))) suf pre) =
     filter (\<lambda>r. k = row_key r) (pre @ suf)"
  by (induction suf arbitrary: pre) (simp_all add: filter_insort_by rev_filter [symmetric])

lemma sortResults_sort_key: "sortResults rows = sort_key row_key rows"
proof (rule properties_for_sort_key [symmetric])
  show "filter (\<lambda>x. row_key k = row_key x) (sortResults rows) = filter (\<lambda>x. row_key k = row_key x) rows"
    if "k \<in> set (sortResults rows)" for k
    using filter_fold_insort [of "row_key k" rows "[]"] by (simp add: sortResults_fold)
qed (simp_all add: sorted_sortResults)

lemma sortResults_unique:
  assumes "mset rows = mset rows'" and "distinct (map row_key rows)"
  shows "sortResults rows = sortResults rows'"
proof -
  have "distinct (map row_key rows')" "set rows = set rows'"
    using assms by (metis mset_eq_imp_distinct_iff mset_map) (metis assms(1) set_mset_mset)
  with assms(2) show ?thesis unfolding sortResults_sort_key by (intro sort_key_unique)
qed

subsection \<open>Identifiers and row keys\<close>

lemma validIdentifier_chars:
  "validIdentifier s \<longleftrightarrow> s \<noteq> [] \<and> length s \<le> 128 \<and> s \<noteq> ''.'' \<and> s \<noteq> ''..'' \<and> list_all ident_char s"
proof -
  have cls: "ident_rune (byte c) \<longleftrightarrow> ident_char c" for c
  proof -
    have "byte c = 46 \<longleftrightarrow> c = CHR ''.''" "byte c = 95 \<longleftrightarrow> c = CHR ''_''" "byte c = 45 \<longleftrightarrow> c = CHR ''-''"
      using of_char_eq_iff [of c "CHR ''.''", where 'a = nat] of_char_eq_iff [of c "CHR ''_''", where 'a = nat]
        of_char_eq_iff [of c "CHR ''-''", where 'a = nat] by simp_all
    then show ?thesis by (simp add: ident_rune_def ident_char_def)
  qed
  have "all_runes ident_rune s \<longleftrightarrow> list_all (\<lambda>c. ident_rune (byte c)) s"
    by (rule all_runes_ascii_class) (auto simp: ident_rune_def)
  then show ?thesis by (simp add: validIdentifier_def cls)
qed

lemma validIdentifier_no_nul: "validIdentifier s \<Longrightarrow> nul \<notin> set s"
  by (simp add: validIdentifier_chars ident_no_nul)

lemma result_key_row_key: "result_key = (\<lambda>(c, n). c @ nul # n) \<circ> row_key"
  by (simp add: fun_eq_iff result_key_def row_key_def)

lemma distinct_row_key: "distinct (map result_key rows) \<Longrightarrow> distinct (map row_key rows)"
  unfolding result_key_row_key distinct_map by (blast dest: inj_on_imageI2)

text \<open>For rows with valid identifiers the composite key says no more and no less than the pair.\<close>

lemma distinct_result_key:
  assumes "list_all (\<lambda>r. validIdentifier (cr_Category r)) rows"
  shows "distinct (map result_key rows) \<longleftrightarrow> distinct (map row_key rows)"
proof
  assume "distinct (map row_key rows)"
  moreover have "inj_on (\<lambda>(c, n). c @ nul # n) (row_key ` set rows)"
    using assms by (fastforce simp: inj_on_def row_key_def list_all_iff
        dest: nul_key_inject [rotated 2] validIdentifier_no_nul)
  ultimately show "distinct (map result_key rows)"
    unfolding result_key_row_key by (simp add: distinct_map comp_inj_on)
qed (rule distinct_row_key)

subsection \<open>Validation\<close>

definition exit_rank :: "string \<Rightarrow> int" where
  "exit_rank status =
     (if status = CheckStatusWarn then 1 else if status = CheckStatusCritical then 2
      else if status = CheckStatusError then 3 else 0)"

lemma exit_rank_range: "0 \<le> exit_rank st \<and> exit_rank st \<le> 3"
  by (simp add: exit_rank_def)

lemma expected_exit_max:
  "0 \<le> e \<Longrightarrow> e \<le> 3 \<Longrightarrow>
     expected_exit e rows = Max (insert e ((\<lambda>r. exit_rank (cr_Status r)) ` set rows))"
proof (induction rows arbitrary: e)
  case (Cons r rows)
  let ?e = "max e (exit_rank (cr_Status r))"
  have "expected_exit e (r # rows) = expected_exit ?e rows"
    using Cons.prems by (cases "e = 1") (auto simp: exit_rank_def status_defs max_def)
  also have "\<dots> = Max (insert ?e ((\<lambda>r. exit_rank (cr_Status r)) ` set rows))"
    using Cons.prems exit_rank_range [of "cr_Status r"] by (intro Cons.IH) (simp_all add: max_def)
  also have "\<dots> = Max (insert e ((\<lambda>r. exit_rank (cr_Status r)) ` set (r # rows)))"
    by (cases "rows = []") (simp_all add: max.assoc insert_commute)
  finally show ?case .
qed simp

lemma Snapshot_Validate_None_iff:
  "Snapshot_Validate s = None \<longleftrightarrow>
     ss_SchemaVersion s = ScanSchemaVersion \<and> metadata_checks s = None
     \<and> (\<forall>r \<in> set (ss_Results s). CheckResult_Validate r = None)
     \<and> distinct (map result_key (ss_Results s)) \<and> validateExit s = None"
proof -
  have "check_distinct invalid_result result_key e [] rows = None \<longleftrightarrow>
      (\<forall>r \<in> set rows. CheckResult_Validate r = None) \<and> distinct (map result_key rows)" for e rows
    by (simp add: invalid_result_def)
  note cd = this [of "New ''scan contains a duplicate check result''" "ss_Results s"]
  show ?thesis
    unfolding Snapshot_Validate_def
    using cd
    by (cases "check_distinct invalid_result result_key (New ''scan contains a duplicate check result'') [] (ss_Results s)")
      (auto simp del: first_error_None_iff check_distinct_Nil_None_iff split: option.split)
qed

lemma validateExit_None_iff:
  "validateExit s = None \<longleftrightarrow>
     sm_Exit (ss_Metadata s) = Max (insert 0 ((\<lambda>r. exit_rank (cr_Status r)) ` set (ss_Results s)))"
  by (simp add: validateExit_def Let_def expected_exit_max)

text \<open>The snapshot with its rows in another order and its times in other zones.\<close>

definition same_scan :: "ScanSnapshot \<Rightarrow> ScanSnapshot \<Rightarrow> bool" where
  "same_scan s s' \<longleftrightarrow> (\<exists>t u rows. s' = s\<lparr>ss_Metadata := (ss_Metadata s)\<lparr>sm_Timestamp := t, sm_UpdatedAt := u\<rparr>,
        ss_Results := rows\<rparr>
     \<and> UTC t = UTC (sm_Timestamp (ss_Metadata s)) \<and> UTC u = UTC (sm_UpdatedAt (ss_Metadata s))
     \<and> mset rows = mset (ss_Results s))"

lemma same_scan_valid:
  assumes "same_scan s s'" and "Snapshot_Validate s = None"
  shows "Snapshot_Validate s' = None"
proof -
  obtain t u rows where s': "s' = s\<lparr>ss_Metadata := (ss_Metadata s)\<lparr>sm_Timestamp := t, sm_UpdatedAt := u\<rparr>, ss_Results := rows\<rparr>"
    and t: "UTC t = UTC (sm_Timestamp (ss_Metadata s))" and u: "UTC u = UTC (sm_UpdatedAt (ss_Metadata s))"
    and rows: "mset rows = mset (ss_Results s)"
    using assms(1) by (auto simp: same_scan_def)
  have sets: "set rows = set (ss_Results s)" and len: "length rows = length (ss_Results s)"
    using rows by (metis set_mset_mset) (metis rows size_mset)
  have ns: "t_ns t = t_ns (sm_Timestamp (ss_Metadata s))" "t_ns u = t_ns (sm_UpdatedAt (ss_Metadata s))"
    using arg_cong [OF t, of t_ns] arg_cong [OF u, of t_ns] by (simp_all add: UTC_def)
  have dist: "distinct (map result_key rows) = distinct (map result_key (ss_Results s))"
    using rows by (metis mset_eq_imp_distinct_iff mset_map)
  have empty_iff: "rows = [] \<longleftrightarrow> ss_Results s = []" using len by (metis length_0_conv)
  have "metadata_checks s' = metadata_checks s"
    unfolding metadata_checks_def s' Let_def
    by (simp add: IsZero_def Before_def ns len empty_iff del: first_error.simps)
  then show ?thesis
    using assms(2) unfolding Snapshot_Validate_None_iff validateExit_None_iff
    by (simp add: s' sets dist)
qed

lemma same_scan_canonical:
  assumes "same_scan s s'" and "Snapshot_Validate s = None"
  shows "canonical_snapshot s' = canonical_snapshot s"
proof -
  obtain t u rows where s': "s' = s\<lparr>ss_Metadata := (ss_Metadata s)\<lparr>sm_Timestamp := t, sm_UpdatedAt := u\<rparr>, ss_Results := rows\<rparr>"
    and "UTC t = UTC (sm_Timestamp (ss_Metadata s))" "UTC u = UTC (sm_UpdatedAt (ss_Metadata s))"
    and rows: "mset rows = mset (ss_Results s)"
    using assms(1) by (auto simp: same_scan_def)
  moreover have "sortResults (ss_Results s) = sortResults rows"
    using assms(2) rows by (intro sortResults_unique) (simp_all add: Snapshot_Validate_None_iff distinct_row_key)
  ultimately show ?thesis by (simp add: canonical_snapshot_def)
qed

subsection \<open>Properties\<close>

definition sample_row :: CheckResult where
  "sample_row = \<lparr>cr_Category = ''network'', cr_Name = ''ufw'', cr_Status = CheckStatusWarn,
     cr_Severity = SeverityWarn, cr_Summary = ''off'', cr_Remediation = [], cr_Guide = []\<rparr>"

definition sample_scan :: ScanSnapshot where
  "sample_scan = \<lparr>ss_SchemaVersion = 1, ss_Metadata = \<lparr>sm_Timestamp = \<lparr>t_ns = 63900000000000000000, t_off = 3600\<rparr>,
       sm_UpdatedAt = \<lparr>t_ns = 63900000000000000000, t_off = 0\<rparr>, sm_Version = ''1.0'', sm_Platform = ''linux'',
       sm_Source = ''agent'', sm_Scope = ScanScopeFull, sm_Exit = 1, sm_FDA = False, sm_PublicIP = []\<rparr>,
     ss_Results = [sample_row, sample_row\<lparr>cr_Name := ''ssh'', cr_Status := CheckStatusOK, cr_Severity := SeverityInfo\<rparr>]\<rparr>"

text \<open>
  The hand-written insertion sort of check results, shifting array cells in place, is the
  stable sort by category and then name, for every slice, empty and one-element ones included.
\<close>

theorem sortResults_is_stable_sort: "sortResults rows = sort_key row_key rows"
  by (rule sortResults_sort_key)

text \<open>
  the exit code of a valid snapshot is the worst rank among its rows (warn 1, critical 2,
  error 3, ok and skip 0), and no two rows agree in category and name.
\<close>

theorem valid_scan_exit:
  assumes "Snapshot_Validate snapshot = None"
  shows "sm_Exit (ss_Metadata snapshot) = Max ((\<lambda>r. exit_rank (cr_Status r)) ` set (ss_Results snapshot))
    \<and> distinct (map row_key (ss_Results snapshot))"
proof -
  let ?ranks = "(\<lambda>r. exit_rank (cr_Status r)) ` set (ss_Results snapshot)"
  have "ss_Results snapshot \<noteq> []" using assms by (simp add: Snapshot_Validate_None_iff metadata_checks_def Let_def del: first_error.simps)
  then have "Max (insert 0 ?ranks) = max 0 (Max ?ranks)" by simp
  moreover have "0 \<le> Max ?ranks"
    using \<open>ss_Results snapshot \<noteq> []\<close> exit_rank_range by (simp add: Max_ge_iff) (metis last_in_set)
  ultimately show ?thesis
    using assms by (simp add: Snapshot_Validate_None_iff validateExit_None_iff distinct_row_key)
qed

text \<open>
  C29: the digest that identifies a scan does not depend on the order of its result rows nor
  on the zones its times are given in, whatever the hash function.
\<close>

theorem SnapshotDigest_canonical:
  assumes "Snapshot_Validate snapshot = None" and "same_scan snapshot snapshot'"
  shows "SnapshotDigest sha256 snapshot' = SnapshotDigest sha256 snapshot"
  using same_scan_valid [OF assms(2,1)] same_scan_canonical [OF assms(2,1)] assms(1)
  by (simp add: SnapshotDigest_def)

lemma sample_tokens:
  "validToken ''1.0'' 64" "validToken ''off'' MaxScanLineBytes"
  by (simp_all add: validToken_def TrimSpace_def trim_runes_def MaxScanLineBytes_def IsSpace_def IsControl_def)

lemma sample_row_valid: "CheckResult_Validate sample_row = None"
  "CheckResult_Validate (sample_row\<lparr>cr_Name := ''ssh'', cr_Status := CheckStatusOK, cr_Severity := SeverityInfo\<rparr>) = None"
  unfolding CheckResult_Validate_def first_error_None_iff sample_row_def
  by (simp_all add: sample_tokens validIdentifier_chars ident_char_def status_defs SeverityInfo_def SeverityWarn_def)

lemma sample_metadata_valid: "metadata_checks sample_scan = None"
  unfolding metadata_checks_def first_error_None_iff sample_scan_def Let_def
  by (simp add: sample_tokens validIdentifier_chars ident_char_def ScanScopeFull_def IsZero_def Before_def MaxScanResults_def)

lemma sample_scan_valid: "Snapshot_Validate sample_scan = None"
  unfolding Snapshot_Validate_None_iff validateExit_None_iff
  using sample_metadata_valid sample_row_valid
  by (simp add: sample_scan_def ScanSchemaVersion_def result_key_def sample_row_def exit_rank_def status_defs nul_def)

theorem valid_scan_exit_witness:
  "sm_Exit (ss_Metadata sample_scan) = Max ((\<lambda>r. exit_rank (cr_Status r)) ` set (ss_Results sample_scan))"
  using valid_scan_exit [OF sample_scan_valid] by simp

theorem SnapshotDigest_canonical_witness:
  "SnapshotDigest (\<lambda>text. [word_of_nat (length text)]) (sample_scan\<lparr>ss_Results := rev (ss_Results sample_scan)\<rparr>)
    = SnapshotDigest (\<lambda>text. [word_of_nat (length text)]) sample_scan"
proof (rule SnapshotDigest_canonical [OF sample_scan_valid])
  show "same_scan sample_scan (sample_scan\<lparr>ss_Results := rev (ss_Results sample_scan)\<rparr>)"
    unfolding same_scan_def
    by (rule exI [of _ "sm_Timestamp (ss_Metadata sample_scan)"], rule exI [of _ "sm_UpdatedAt (ss_Metadata sample_scan)"])
      auto
qed

end
