(* ===== verification/Journal.thy ===== *)
theory Journal
  imports Model
begin

section \<open>The journal (internal/journal/journal.go, sqlite.go)\<close>

text \<open>
  The append-only event log and the table of current findings that \<open>Append\<close> projects from
  finding events. The tables are lists of rows with the columns of the schema;
  \<open>st_autoinc\<close> is SQLite's AUTOINCREMENT counter and \<open>st_user_version\<close> the \<open>user_version\<close>
  pragma. An operation that runs in a transaction gives its result and the store after it: on
  an error the deferred rollback leaves the store as it was. Failures of the database engine
  itself are not represented.

  \<open>project\<close> is the part of \<open>projectFinding\<close> that computes the new finding;
  \<open>projectFinding\<close> adds reading the current document, validation and the upsert.
\<close>

definition ErrEventIDConflict :: go_error where
  "ErrEventIDConflict = New ''journal event id already exists with different content''"
definition ErrFindingNotFound :: go_error where
  "ErrFindingNotFound = New ''finding not found''"
definition ErrInvalidTransition :: go_error where
  "ErrInvalidTransition = New ''invalid finding lifecycle transition''"

record Record =
  rc_Sequence :: int
  rc_Event :: Event

record event_row =
  er_sequence :: int
  er_event_id :: string
  er_schema_name :: string
  er_schema_version :: int
  er_event_type :: string
  er_occurred_at :: string
  er_recorded_at :: string
  er_source :: string
  er_platform :: string
  er_finding_id :: string
  er_correlation_id :: string
  er_envelope :: json

record finding_row =
  fr_finding_id :: string
  fr_state :: string
  fr_severity :: string
  fr_updated_at :: string
  fr_last_event_sequence :: int
  fr_document :: json

record Store =
  st_user_version :: int
  st_migrations :: "(int \<times> string) list"
  st_events :: "event_row list"
  st_autoinc :: int
  st_findings :: "finding_row list"

definition databaseSchemaVersion :: int where
  "databaseSchemaVersion = 1"

text \<open>A database file without tables, and the migration that \<open>Open\<close> runs at a given time.\<close>

definition new_database :: Store where
  "new_database = \<lparr>st_user_version = 0, st_migrations = [], st_events = [], st_autoinc = 0, st_findings = []\<rparr>"

definition migrate :: "gotime \<Rightarrow> Store \<Rightarrow> Store result" where
  "migrate now s =
     (if st_user_version s > databaseSchemaVersion
      then Inl (Errorf ''journal schema version %d is newer than supported version %d''
             [ArgD (st_user_version s), ArgD databaseSchemaVersion])
      else Inr (s\<lparr>st_migrations := (if databaseSchemaVersion \<in> set (map fst (st_migrations s)) then st_migrations s
                    else st_migrations s @ [(databaseSchemaVersion, FormatRFC3339Nano (UTC now))]),
                  st_user_version := databaseSchemaVersion\<rparr>))"

subsection \<open>Payloads and transitions\<close>

definition json_error :: go_error where
  "json_error = New ''json: cannot unmarshal''"

definition marshal_error :: go_error where
  "marshal_error = New ''json: error calling MarshalJSON''"

definition decodePayload :: "(json \<Rightarrow> 'a \<Rightarrow> 'a option) \<Rightarrow> 'a \<Rightarrow> Event \<Rightarrow> 'a result" where
  "decodePayload dec zero event =
     (case ev_Payload event of
        RawEmpty \<Rightarrow> Inl (Errorf ''%s event payload is required'' [ArgS (ev_Type event)])
      | RawInvalid _ \<Rightarrow> Inl (Wrapf ''decode %s payload: %w'' [ArgS (ev_Type event)] json_error)
      | RawJSON j \<Rightarrow> (case dec j zero of
            None \<Rightarrow> Inl (Wrapf ''decode %s payload: %w'' [ArgS (ev_Type event)] json_error)
          | Some x \<Rightarrow> Inr x))"

definition readTransition :: "Event \<Rightarrow> FindingTransition result" where
  "readTransition event =
     (case decodePayload dec_Transition zero_FindingTransition event of
        Inl err \<Rightarrow> Inl err
      | Inr transition \<Rightarrow>
          if blank (tr_Actor transition) then Inl (New ''finding transition actor is required'')
          else Inr transition)"

definition actionFrom :: "Event \<Rightarrow> FindingTransition \<Rightarrow> FindingAction option" where
  "actionFrom event transition =
     Some \<lparr>fa_At = UTC (ev_RecordedAt event), fa_Actor = tr_Actor transition, fa_Note = tr_Note transition\<rparr>"

definition utcTimePointer :: "gotime option \<Rightarrow> gotime option" where
  "utcTimePointer value = map_option UTC value"

definition transitionError :: "FindingState \<Rightarrow> FindingState \<Rightarrow> go_error" where
  "transitionError from to = Wrapf ''%w: %s to %s'' [ArgS from, ArgS to] ErrInvalidTransition"

definition advanceFinding :: "Finding \<Rightarrow> Record \<Rightarrow> Finding" where
  "advanceFinding finding record =
     finding\<lparr>fi_UpdatedAt := (if After (ev_RecordedAt (rc_Event record)) (fi_UpdatedAt finding)
                               then UTC (ev_RecordedAt (rc_Event record)) else fi_UpdatedAt finding),
             fi_LastEventID := ev_ID (rc_Event record),
             fi_LastEventSequence := rc_Sequence record\<rparr>"

text \<open>The assignments of \<open>applyObservation\<close> to a finding already known, in their order.\<close>

definition observe_fields :: "FindingObservation \<Rightarrow> Finding \<Rightarrow> Finding" where
  "observe_fields observation f =
     f\<lparr>fi_DetectorID := ob_DetectorID observation, fi_Category := ob_Category observation,
       fi_Title := ob_Title observation, fi_Summary := ob_Summary observation,
       fi_Severity := ob_Severity observation, fi_Evidence := ob_Evidence observation,
       fi_Remediation := ob_Remediation observation, fi_Labels := ob_Labels observation,
       fi_Occurrences := fi_Occurrences f + 1\<rparr>"

definition observe_times :: "Event \<Rightarrow> Finding \<Rightarrow> Finding" where
  "observe_times event f =
     (let f' = (if Before (ev_OccurredAt event) (fi_FirstSeen f)
                then f\<lparr>fi_FirstSeen := UTC (ev_OccurredAt event)\<rparr> else f)
      in if After (ev_OccurredAt event) (fi_LastSeen f')
         then f'\<lparr>fi_LastSeen := UTC (ev_OccurredAt event)\<rparr> else f')"

definition observe_reopen :: "Finding \<Rightarrow> Finding" where
  "observe_reopen f =
     (if fi_State f = FindingResolved
      then f\<lparr>fi_State := FindingOpen, fi_Acknowledgement := None, fi_Resolution := None\<rparr> else f)"

definition observe_expire :: "Event \<Rightarrow> Finding \<Rightarrow> Finding" where
  "observe_expire event f =
     (if fi_State f = FindingSuppressed
         \<and> (case fi_SuppressedUntil f of None \<Rightarrow> False | Some u \<Rightarrow> \<not> After u (ev_RecordedAt event))
      then f\<lparr>fi_State := FindingOpen, fi_SuppressedUntil := None\<rparr> else f)"

definition applyObservation :: "Finding option \<Rightarrow> Record \<Rightarrow> FindingObservation \<Rightarrow> Finding" where
  "applyObservation current record observation =
     (let event = rc_Event record in
      case current of
        None \<Rightarrow>
          zero_Finding\<lparr>fi_Schema := FindingSchema, fi_SchemaVersion := FindingSchemaVersion,
            fi_ID := ev_FindingID event, fi_DetectorID := ob_DetectorID observation,
            fi_Category := ob_Category observation, fi_Title := ob_Title observation,
            fi_Summary := ob_Summary observation, fi_Severity := ob_Severity observation,
            fi_State := FindingOpen, fi_FirstSeen := UTC (ev_OccurredAt event),
            fi_LastSeen := UTC (ev_OccurredAt event), fi_UpdatedAt := UTC (ev_RecordedAt event),
            fi_Occurrences := 1, fi_Evidence := ob_Evidence observation,
            fi_Remediation := ob_Remediation observation, fi_Labels := ob_Labels observation,
            fi_LastEventID := ev_ID event, fi_LastEventSequence := rc_Sequence record\<rparr>
      | Some f \<Rightarrow>
          advanceFinding
            (observe_expire event (observe_reopen (observe_times event (observe_fields observation f)))) record)"

text \<open>The switch of \<open>projectFinding\<close>.\<close>

definition project :: "Finding option \<Rightarrow> Record \<Rightarrow> Finding result" where
  "project current record =
     (let event = rc_Event record in
      if ev_Type event = EventFindingObserved then
        (case decodePayload dec_Observation zero_FindingObservation event of
           Inl err \<Rightarrow> Inl err
         | Inr observation \<Rightarrow>
             (case Observation_Validate observation of
                Some err \<Rightarrow> Inl (Wrap ''validate finding observation: %w'' err)
              | None \<Rightarrow> Inr (applyObservation current record observation)))
      else if ev_Type event = EventFindingAcknowledged then
        (case current of
           None \<Rightarrow> Inl ErrFindingNotFound
         | Some f \<Rightarrow>
             if fi_State f \<noteq> FindingOpen then Inl (transitionError (fi_State f) FindingAcknowledged)
             else (case readTransition event of
                 Inl err \<Rightarrow> Inl err
               | Inr transition \<Rightarrow>
                   Inr (advanceFinding (f\<lparr>fi_State := FindingAcknowledged,
                     fi_Acknowledgement := actionFrom event transition, fi_Resolution := None,
                     fi_SuppressedUntil := None\<rparr>) record)))
      else if ev_Type event = EventFindingSuppressed then
        (case current of
           None \<Rightarrow> Inl ErrFindingNotFound
         | Some f \<Rightarrow>
             if fi_State f = FindingResolved then Inl (transitionError (fi_State f) FindingSuppressed)
             else (case readTransition event of
                 Inl err \<Rightarrow> Inl err
               | Inr transition \<Rightarrow>
                   if (case tr_Until transition of None \<Rightarrow> False | Some u \<Rightarrow> \<not> After u (ev_RecordedAt event))
                   then Inl (New ''suppression until must be after recorded_at'')
                   else Inr (advanceFinding (f\<lparr>fi_State := FindingSuppressed,
                     fi_SuppressedUntil := utcTimePointer (tr_Until transition), fi_Resolution := None\<rparr>) record)))
      else if ev_Type event = EventFindingUnsuppressed then
        (case current of
           None \<Rightarrow> Inl ErrFindingNotFound
         | Some f \<Rightarrow>
             if fi_State f \<noteq> FindingSuppressed then Inl (transitionError (fi_State f) FindingOpen)
             else (case readTransition event of
                 Inl err \<Rightarrow> Inl err
               | Inr _ \<Rightarrow> Inr (advanceFinding (f\<lparr>fi_State := FindingOpen, fi_SuppressedUntil := None\<rparr>) record)))
      else if ev_Type event = EventFindingResolved then
        (case current of
           None \<Rightarrow> Inl ErrFindingNotFound
         | Some f \<Rightarrow>
             if fi_State f = FindingResolved then Inl (transitionError (fi_State f) FindingResolved)
             else (case readTransition event of
                 Inl err \<Rightarrow> Inl err
               | Inr transition \<Rightarrow>
                   Inr (advanceFinding (f\<lparr>fi_State := FindingResolved,
                     fi_Resolution := actionFrom event transition, fi_SuppressedUntil := None\<rparr>) record)))
      else Inl (Errorf ''unsupported finding lifecycle event %q'' [ArgS (ev_Type event)]))"

subsection \<open>The tables\<close>

definition currentFindingTx :: "finding_row list \<Rightarrow> string \<Rightarrow> Finding option result" where
  "currentFindingTx rows ident =
     (case tbl_lookup fr_finding_id ident rows of
        None \<Rightarrow> Inr None
      | Some row \<Rightarrow>
          (case dec_Finding (fr_document row) zero_Finding of
             None \<Rightarrow> Inl (Wrap ''decode current finding: %w'' json_error)
           | Some f \<Rightarrow> Inr (Some f)))"

definition finding_row_of :: "Finding \<Rightarrow> json \<Rightarrow> finding_row" where
  "finding_row_of f document =
     \<lparr>fr_finding_id = fi_ID f, fr_state = fi_State f, fr_severity = fi_Severity f,
      fr_updated_at = FormatRFC3339Nano (UTC (fi_UpdatedAt f)),
      fr_last_event_sequence = fi_LastEventSequence f, fr_document = document\<rparr>"

definition projectFinding :: "finding_row list \<Rightarrow> Record \<Rightarrow> (Finding \<times> finding_row list) result" where
  "projectFinding rows record =
     (case currentFindingTx rows (ev_FindingID (rc_Event record)) of
        Inl err \<Rightarrow> Inl err
      | Inr current \<Rightarrow>
          (case project current record of
             Inl err \<Rightarrow> Inl err
           | Inr f \<Rightarrow>
               (case Finding_Validate f of
                  Some err \<Rightarrow> Inl (Wrap ''validate materialized finding: %w'' err)
                | None \<Rightarrow>
                    (case Finding_json f of
                       None \<Rightarrow> Inl (Wrap ''marshal materialized finding: %w'' marshal_error)
                     | Some document \<Rightarrow>
                         Inr (f, tbl_upsert fr_finding_id (finding_row_of f document)
                                  (\<lambda>_. finding_row_of f document) rows)))))"

definition event_row_of :: "int \<Rightarrow> Event \<Rightarrow> json \<Rightarrow> event_row" where
  "event_row_of sequence event envelope =
     \<lparr>er_sequence = sequence, er_event_id = ev_ID event, er_schema_name = ev_Schema event,
      er_schema_version = ev_SchemaVersion event, er_event_type = ev_Type event,
      er_occurred_at = FormatRFC3339Nano (UTC (ev_OccurredAt event)),
      er_recorded_at = FormatRFC3339Nano (UTC (ev_RecordedAt event)),
      er_source = ev_Source event, er_platform = ev_Platform event, er_finding_id = ev_FindingID event,
      er_correlation_id = ev_CorrelationID event, er_envelope = envelope\<rparr>"

text \<open>The counter of an AUTOINCREMENT column ends at the largest 64-bit integer.\<close>

definition appendEvent :: "Store \<Rightarrow> Event \<Rightarrow> (Record \<times> bool \<times> Store) result" where
  "appendEvent s event =
     (case Event_json event of
        None \<Rightarrow> Inl (Wrap ''marshal event: %w'' marshal_error)
      | Some envelope \<Rightarrow>
          (case tbl_lookup er_event_id (ev_ID event) (st_events s) of
             Some row \<Rightarrow>
               if er_envelope row \<noteq> envelope
               then Inl (Wrapf ''%w: %s'' [ArgS (ev_ID event)] ErrEventIDConflict)
               else Inr (\<lparr>rc_Sequence = er_sequence row, rc_Event = event\<rparr>, False, s)
           | None \<Rightarrow>
               if st_autoinc s \<ge> 2 ^ 63 - 1
               then Inl (Wrap ''append event: %w'' (New ''database or disk is full''))
               else let sequence = st_autoinc s + 1
                    in Inr (\<lparr>rc_Sequence = sequence, rc_Event = event\<rparr>, True,
                         s\<lparr>st_events := st_events s @ [event_row_of sequence event envelope],
                           st_autoinc := sequence\<rparr>)))"

definition Append :: "Store \<Rightarrow> Event \<Rightarrow> Record result \<times> Store" where
  "Append s event =
     (case Event_Validate event of
        Some err \<Rightarrow> (Inl (Wrap ''validate event: %w'' err), s)
      | None \<Rightarrow>
          if IsFindingLifecycle event \<and> blank (ev_FindingID event)
          then (Inl (New ''finding lifecycle event requires finding_id''), s)
          else (case appendEvent s event of
              Inl err \<Rightarrow> (Inl err, s)
            | Inr (record, inserted, s') \<Rightarrow>
                if inserted \<and> IsFindingLifecycle event
                then (case projectFinding (st_findings s') record of
                    Inl err \<Rightarrow> (Inl err, s)
                  | Inr (_, rows) \<Rightarrow> (Inr record, s'\<lparr>st_findings := rows\<rparr>))
                else (Inr record, s')))"

fun decode_rows :: "string \<Rightarrow> event_row list \<Rightarrow> Record list result" where
  "decode_rows msg [] = Inr []"
| "decode_rows msg (row # rows) =
     (case dec_Event (er_envelope row) zero_Event of
        None \<Rightarrow> Inl (Wrapf msg [ArgD (er_sequence row)] json_error)
      | Some event \<Rightarrow>
          (case decode_rows msg rows of
             Inl err \<Rightarrow> Inl err
           | Inr records \<Rightarrow> Inr (\<lparr>rc_Sequence = er_sequence row, rc_Event = event\<rparr> # records)))"

definition Read :: "Store \<Rightarrow> int \<Rightarrow> int \<Rightarrow> Record list result" where
  "Read s afterSequence limit =
     (if afterSequence < 0 then Inl (New ''after sequence cannot be negative'')
      else let limit1 = (if limit \<le> 0 then 100 else limit);
               limit2 = (if limit1 > 1000 then 1000 else limit1)
           in decode_rows ''decode event at sequence %d: %w''
                (take (nat limit2)
                  (sort_key er_sequence (filter (\<lambda>row. er_sequence row > afterSequence) (st_events s)))))"

definition CurrentFinding :: "Store \<Rightarrow> string \<Rightarrow> Finding result" where
  "CurrentFinding s ident =
     (case tbl_lookup fr_finding_id ident (st_findings s) of
        None \<Rightarrow> Inl ErrFindingNotFound
      | Some row \<Rightarrow>
          (case dec_Finding (fr_document row) zero_Finding of
             None \<Rightarrow> Inl (Wrap ''decode current finding: %w'' json_error)
           | Some f \<Rightarrow> Inr f))"

fun decode_findings :: "finding_row list \<Rightarrow> Finding list result" where
  "decode_findings [] = Inr []"
| "decode_findings (row # rows) =
     (case dec_Finding (fr_document row) zero_Finding of
        None \<Rightarrow> Inl (Wrap ''decode current finding: %w'' json_error)
      | Some f \<Rightarrow>
          (case decode_findings rows of Inl err \<Rightarrow> Inl err | Inr fs \<Rightarrow> Inr (f # fs)))"

definition list_order :: "finding_row \<Rightarrow> finding_row \<Rightarrow> bool" where
  "list_order a b \<longleftrightarrow> fr_updated_at a > fr_updated_at b
     \<or> (fr_updated_at a = fr_updated_at b \<and> fr_finding_id a \<le> fr_finding_id b)"

definition ListFindings :: "Store \<Rightarrow> FindingState list \<Rightarrow> Finding list result" where
  "ListFindings s states =
     (case find (\<lambda>state. \<not> FindingState_Valid state) states of
        Some state \<Rightarrow> Inl (Errorf ''invalid finding state filter %q'' [ArgS state])
      | None \<Rightarrow>
          (case decode_findings (sort_by list_order (st_findings s)) of
             Inl err \<Rightarrow> Inl err
           | Inr fs \<Rightarrow> Inr (if states = [] then fs else filter (\<lambda>f. fi_State f \<in> set states) fs)))"

text \<open>SQLite's \<open>LIKE 'finding.%'\<close> ignores the case of ASCII letters.\<close>

definition ascii_lower :: "char \<Rightarrow> nat" where
  "ascii_lower c = (if 65 \<le> byte c \<and> byte c \<le> 90 then byte c + 32 else byte c)"

definition like_finding :: "string \<Rightarrow> bool" where
  "like_finding s \<longleftrightarrow> map ascii_lower (take 8 s) = map byte ''finding.''"

fun replay :: "finding_row list \<Rightarrow> Record list \<Rightarrow> finding_row list result" where
  "replay rows [] = Inr rows"
| "replay rows (record # records) =
     (case projectFinding rows record of
        Inl err \<Rightarrow> Inl (Wrapf ''replay finding event at sequence %d: %w'' [ArgD (rc_Sequence record)] err)
      | Inr (_, rows') \<Rightarrow> replay rows' records)"

definition RebuildFindings :: "Store \<Rightarrow> go_error option \<times> Store" where
  "RebuildFindings s =
     (case decode_rows ''decode finding event at sequence %d: %w''
             (sort_key er_sequence (filter (\<lambda>row. like_finding (er_event_type row)) (st_events s))) of
        Inl err \<Rightarrow> (Some err, s)
      | Inr records \<Rightarrow>
          (case replay [] records of
             Inl err \<Rightarrow> (Some err, s)
           | Inr rows \<Rightarrow> (None, s\<lparr>st_findings := rows\<rparr>)))"

subsection \<open>Ordering findings\<close>

definition severityRank :: "Severity \<Rightarrow> int" where
  "severityRank severity = (if severity = SeverityCritical then 2 else if severity = SeverityWarn then 1 else 0)"

definition finding_less :: "Finding \<Rightarrow> Finding \<Rightarrow> bool" where
  "finding_less a b =
     (if fi_Severity a \<noteq> fi_Severity b then severityRank (fi_Severity a) > severityRank (fi_Severity b)
      else if t_ns (fi_UpdatedAt a) \<noteq> t_ns (fi_UpdatedAt b) then After (fi_UpdatedAt a) (fi_UpdatedAt b)
      else fi_ID a < fi_ID b)"

definition SortFindings :: "Finding list \<Rightarrow> Finding list" where
  "SortFindings findings = sort_by (\<lambda>a b. \<not> finding_less b a) findings"

end
