(* ===== verification/Journal_Facts.thy ===== *)
theory Journal_Facts
  imports Journal
begin

section \<open>The journal: its log, the lifecycle of a finding, stored documents\<close>

text \<open>
  The outcomes of \<open>Append\<close> as one case rule; the structural invariant of the store, kept by
  every operation (an interpretation of \<open>machine\<close>); the lifecycle of a finding as an
  inductive relation that every projected event obeys; and the invariant of the stored
  documents, which are exactly the encodings of valid findings.
\<close>

subsection \<open>The three outcomes of Append\<close>

abbreviation appended :: "Store \<Rightarrow> Event \<Rightarrow> json \<Rightarrow> finding_row list \<Rightarrow> Store" where
  "appended s event envelope rows \<equiv>
     s\<lparr>st_events := st_events s @ [event_row_of (st_autoinc s + 1) event envelope],
       st_autoinc := st_autoinc s + 1, st_findings := rows\<rparr>"

abbreviation next_record :: "Store \<Rightarrow> Event \<Rightarrow> Record" where
  "next_record s event \<equiv> \<lparr>rc_Sequence = st_autoinc s + 1, rc_Event = event\<rparr>"

lemma Append_cases:
  obtains (refused) e where "Append s event = (Inl e, s)"
  | (duplicate) envelope row where "Event_json event = Some envelope"
      and "tbl_lookup er_event_id (ev_ID event) (st_events s) = Some row" and "er_envelope row = envelope"
      and "Append s event = (Inr \<lparr>rc_Sequence = er_sequence row, rc_Event = event\<rparr>, s)"
  | (inserted) envelope rows where "Event_Validate event = None" and "Event_json event = Some envelope"
      and "ev_ID event \<notin> er_event_id ` set (st_events s)" and "st_autoinc s < 2 ^ 63 - 1"
      and "if IsFindingLifecycle event
           then \<not> blank (ev_FindingID event) \<and> (\<exists>f. projectFinding (st_findings s) (next_record s event) = Inr (f, rows))
           else rows = st_findings s"
      and "Append s event = (Inr (next_record s event), appended s event envelope rows)"
proof (cases "Event_Validate event \<noteq> None \<or> IsFindingLifecycle event \<and> blank (ev_FindingID event)")
  case True
  then have "\<exists>e. Append s event = (Inl e, s)" by (cases "Event_Validate event") (auto simp: Append_def)
  then show ?thesis using refused by blast
next
  case ok: False
  then have app: "Append s event = (case appendEvent s event of Inl err \<Rightarrow> (Inl err, s)
    | Inr (record, inserted, s') \<Rightarrow> if inserted \<and> IsFindingLifecycle event
        then (case projectFinding (st_findings s') record of Inl err \<Rightarrow> (Inl err, s)
          | Inr (_, rows) \<Rightarrow> (Inr record, s'\<lparr>st_findings := rows\<rparr>))
        else (Inr record, s'))"
    by (auto simp: Append_def)
  show ?thesis
  proof (cases "appendEvent s event")
    case (Inl e)
    with app show ?thesis using refused by simp
  next
    case (Inr t)
    obtain r ins s' where t: "t = (r, ins, s')" by (cases t)
    from Inr t obtain envelope where envelope: "Event_json event = Some envelope"
      by (auto simp: appendEvent_def split: option.splits)
    show ?thesis
    proof (cases "tbl_lookup er_event_id (ev_ID event) (st_events s)")
      case (Some row)
      with Inr t envelope app show ?thesis
        using duplicate by (auto simp: appendEvent_def split: if_splits)
    next
      case None
      then have fresh: "ev_ID event \<notin> er_event_id ` set (st_events s)" by simp
      with Inr t envelope have full: "st_autoinc s < 2 ^ 63 - 1"
        and rec: "r = next_record s event" "ins = True"
        and s': "s' = appended s event envelope (st_findings s)"
        by (auto simp: appendEvent_def Let_def split: if_splits)
      show ?thesis
      proof (cases "IsFindingLifecycle event")
        case False
        with Inr t ok app envelope fresh full rec s' show ?thesis
          using inserted [of envelope "st_findings s"] by simp
      next
        case True
        show ?thesis
        proof (cases "projectFinding (st_findings s) (next_record s event)")
          case (Inl e)
          with True \<open>appendEvent s event = Inr t\<close> t app rec s' show ?thesis using refused by simp
        next
          case (Inr u)
          obtain f rows where "u = (f, rows)" by (cases u)
          with True Inr \<open>appendEvent s event = Inr t\<close> t ok app envelope fresh full rec s' show ?thesis
            using inserted [of envelope rows] by auto
        qed
      qed
    qed
  qed
qed

subsection \<open>The log is append-only and its sequence numbers increase\<close>

definition Store_inv :: "Store \<Rightarrow> bool" where
  "Store_inv s \<longleftrightarrow> st_autoinc s = int (length (st_events s))
     \<and> map er_sequence (st_events s) = map int [1..<Suc (length (st_events s))]
     \<and> tbl_keyed er_event_id (st_events s)
     \<and> tbl_keyed fr_finding_id (st_findings s)"

lemma projectFinding_Inr:
  "projectFinding rows record = Inr (f, rows') \<longleftrightarrow>
     (\<exists>current document. currentFindingTx rows (ev_FindingID (rc_Event record)) = Inr current
        \<and> project current record = Inr f \<and> Finding_Validate f = None \<and> Finding_json f = Some document
        \<and> rows' = tbl_upsert fr_finding_id (finding_row_of f document) (\<lambda>_. finding_row_of f document) rows)"
  by (auto simp: projectFinding_def split: sum.splits option.splits)

lemma projectFinding_keyed:
  "projectFinding rows record = Inr (f, rows') \<Longrightarrow> tbl_keyed fr_finding_id rows \<Longrightarrow> tbl_keyed fr_finding_id rows'"
  by (auto simp: projectFinding_Inr intro: tbl_keyed_upsert)

lemma replay_keyed:
  "replay rows records = Inr rows' \<Longrightarrow> tbl_keyed fr_finding_id rows \<Longrightarrow> tbl_keyed fr_finding_id rows'"
proof (induction records arbitrary: rows)
  case (Cons r records)
  then obtain f mid where "projectFinding rows r = Inr (f, mid)" and "replay mid records = Inr rows'"
    by (auto split: sum.splits)
  with Cons show ?case by (blast intro: projectFinding_keyed)
qed simp

datatype journal_command = Append_event Event | Rebuild

definition journal_step :: "Store \<Rightarrow> journal_command \<Rightarrow> Store" where
  "journal_step s c = (case c of Append_event e \<Rightarrow> snd (Append s e) | Rebuild \<Rightarrow> snd (RebuildFindings s))"

lemma RebuildFindings_store:
  obtains "snd (RebuildFindings s) = s"
  | rows records where "replay [] records = Inr rows" and "snd (RebuildFindings s) = s\<lparr>st_findings := rows\<rparr>"
proof -
  have "snd (RebuildFindings s) = s \<or> (\<exists>records rows. replay [] records = Inr rows
      \<and> snd (RebuildFindings s) = s\<lparr>st_findings := rows\<rparr>)"
    by (auto simp: RebuildFindings_def split: sum.splits)
  with that show ?thesis by blast
qed

lemma Append_inv:
  assumes "Store_inv s"
  shows "Store_inv (snd (Append s event))"
proof (cases rule: Append_cases [of s event])
  case (inserted envelope rows)
  have "tbl_keyed fr_finding_id rows"
    using inserted(5) assms by (auto simp: Store_inv_def dest: projectFinding_keyed split: if_splits)
  with inserted(3,6) assms show ?thesis
    by (auto simp: Store_inv_def event_row_of_def)
qed (use assms in auto)

interpretation journal: machine journal_step Store_inv
proof
  fix s c
  assume inv: "Store_inv s"
  show "Store_inv (journal_step s c)"
  proof (cases c)
    case Rebuild
    show ?thesis
    proof (cases rule: RebuildFindings_store [of s])
      case (2 rows records)
      then have "tbl_keyed fr_finding_id rows" by (auto intro: replay_keyed)
      with 2 inv Rebuild show ?thesis by (simp add: journal_step_def Store_inv_def)
    qed (use inv Rebuild in \<open>simp add: journal_step_def\<close>)
  qed (simp add: journal_step_def Append_inv inv)
qed

lemma journal_step_events:
  "\<exists>new. st_events (journal_step s c) = st_events s @ new"
proof (cases c)
  case (Append_event event)
  then show ?thesis by (cases rule: Append_cases [of s event]) (auto simp: journal_step_def)
next
  case Rebuild
  then show ?thesis by (cases rule: RebuildFindings_store [of s]) (auto simp: journal_step_def)
qed

definition journal_run :: "Store \<Rightarrow> journal_command list \<Rightarrow> Store" where
  "journal_run s cs = foldl journal_step s cs"

lemma journal_run_is_run: "journal_run = journal.run"
  by (simp add: fun_eq_iff journal_run_def journal.run_def)

lemma journal_run_events: "\<exists>new. st_events (journal_run s cs) = st_events s @ new"
proof (induction cs arbitrary: s)
  case (Cons c cs)
  obtain new1 where "st_events (journal_step s c) = st_events s @ new1" using journal_step_events by blast
  moreover obtain new2 where "st_events (journal_run (journal_step s c) cs) = st_events (journal_step s c) @ new2"
    using Cons.IH by blast
  ultimately show ?case by (simp add: journal_run_def)
qed (simp add: journal_run_def)

lemma Append_again:
  assumes "Append s event = (Inr record, s')"
  shows "Append s' event = (Inr record, s')"
proof (cases rule: Append_cases [of s event])
  case (inserted envelope rows)
  from inserted(5) have guard: "\<not> (IsFindingLifecycle event \<and> blank (ev_FindingID event))" by (auto split: if_splits)
  have "tbl_lookup er_event_id (ev_ID event) (st_events s @ [event_row_of (st_autoinc s + 1) event envelope])
      = Some (event_row_of (st_autoinc s + 1) event envelope)"
    using inserted(3) by (simp add: tbl_lookup_append event_row_of_def)
  then have "appendEvent s' event = Inr (next_record s event, False, s')"
    using inserted(2,6) assms by (simp add: appendEvent_def event_row_of_def)
  with inserted(1,6) guard assms show ?thesis by (auto simp: Append_def)
qed (use assms in auto)

subsection \<open>The lifecycle of a finding\<close>

inductive lifecycle :: "FindingState option \<Rightarrow> string \<Rightarrow> FindingState \<Rightarrow> bool" where
  first_seen: "lifecycle None EventFindingObserved FindingOpen"
| seen_again: "st \<noteq> FindingResolved \<Longrightarrow> lifecycle (Some st) EventFindingObserved st"
| reopened: "lifecycle (Some FindingResolved) EventFindingObserved FindingOpen"
| expired: "lifecycle (Some FindingSuppressed) EventFindingObserved FindingOpen"
| acknowledged: "lifecycle (Some FindingOpen) EventFindingAcknowledged FindingAcknowledged"
| suppressed: "st \<noteq> FindingResolved \<Longrightarrow> lifecycle (Some st) EventFindingSuppressed FindingSuppressed"
| unsuppressed: "lifecycle (Some FindingSuppressed) EventFindingUnsuppressed FindingOpen"
| resolved: "st \<noteq> FindingResolved \<Longrightarrow> lifecycle (Some st) EventFindingResolved FindingResolved"

inductive_simps lifecycle_None [simp]: "lifecycle None ty st"
inductive_simps lifecycle_Some: "lifecycle (Some st0) ty st"

lemma event_types_distinct [simp]:
  "EventFindingAcknowledged \<noteq> EventFindingObserved" "EventFindingSuppressed \<noteq> EventFindingObserved"
  "EventFindingUnsuppressed \<noteq> EventFindingObserved" "EventFindingResolved \<noteq> EventFindingObserved"
  "EventFindingSuppressed \<noteq> EventFindingAcknowledged" "EventFindingUnsuppressed \<noteq> EventFindingAcknowledged"
  "EventFindingResolved \<noteq> EventFindingAcknowledged" "EventFindingUnsuppressed \<noteq> EventFindingSuppressed"
  "EventFindingResolved \<noteq> EventFindingSuppressed" "EventFindingResolved \<noteq> EventFindingUnsuppressed"
  by (simp_all add: event_type_defs)

lemmas event_types_distinct' [simp] = event_types_distinct [symmetric]

lemma states_distinct [simp]:
  "FindingOpen \<noteq> FindingAcknowledged" "FindingOpen \<noteq> FindingSuppressed" "FindingOpen \<noteq> FindingResolved"
  "FindingAcknowledged \<noteq> FindingSuppressed" "FindingAcknowledged \<noteq> FindingResolved" "FindingSuppressed \<noteq> FindingResolved"
  by (simp_all add: state_defs)

lemmas states_distinct' [simp] = states_distinct [symmetric]

lemma advanceFinding_simps [simp]:
  "fi_State (advanceFinding f r) = fi_State f" "fi_ID (advanceFinding f r) = fi_ID f"
  by (simp_all add: advanceFinding_def)

lemma observe_simps [simp]:
  "fi_State (observe_fields obs f) = fi_State f" "fi_ID (observe_fields obs f) = fi_ID f"
  "fi_State (observe_times e f) = fi_State f" "fi_ID (observe_times e f) = fi_ID f"
  "fi_ID (observe_reopen f) = fi_ID f" "fi_ID (observe_expire e f) = fi_ID f"
  by (simp_all add: observe_fields_def observe_times_def observe_reopen_def observe_expire_def Let_def)

lemma observe_state:
  "fi_State (observe_reopen f) = (if fi_State f = FindingResolved then FindingOpen else fi_State f)"
  "fi_State (observe_expire e f) \<in> {fi_State f, FindingOpen}"
  "fi_State f \<noteq> FindingSuppressed \<Longrightarrow> fi_State (observe_expire e f) = fi_State f"
  by (simp_all add: observe_reopen_def observe_expire_def)

lemma applyObservation_lifecycle:
  "lifecycle (map_option fi_State current) EventFindingObserved (fi_State (applyObservation current r obs))"
proof (cases current)
  case (Some f)
  define g where "g = observe_reopen (observe_times (rc_Event r) (observe_fields obs f))"
  have "fi_State (applyObservation current r obs) = fi_State (observe_expire (rc_Event r) g)"
    by (simp add: Some applyObservation_def g_def Let_def)
  moreover have "fi_State g = (if fi_State f = FindingResolved then FindingOpen else fi_State f)"
    by (simp add: g_def observe_state(1))
  moreover have "fi_State (observe_expire (rc_Event r) g) = (if fi_State g = FindingSuppressed
      then fi_State (observe_expire (rc_Event r) g) else fi_State g)"
    using observe_state(3) [of g] by simp
  ultimately show ?thesis
    using observe_state(2) [of "rc_Event r" g] Some lifecycle.reopened lifecycle.expired
      lifecycle.seen_again [of "fi_State f"]
    by (simp split: if_splits) metis+
qed (simp add: applyObservation_def Let_def)

text \<open>The successful branches of \<open>project\<close>.\<close>

lemma project_cases:
  assumes "project current r = Inr f"
  obtains (observed) obs where "ev_Type (rc_Event r) = EventFindingObserved"
      and "decodePayload dec_Observation zero_FindingObservation (rc_Event r) = Inr obs"
      and "Observation_Validate obs = None" and "f = applyObservation current r obs"
  | (acknowledge) g tr where "ev_Type (rc_Event r) = EventFindingAcknowledged" and "current = Some g"
      and "fi_State g = FindingOpen" and "readTransition (rc_Event r) = Inr tr"
      and "f = advanceFinding (g\<lparr>fi_State := FindingAcknowledged, fi_Acknowledgement := actionFrom (rc_Event r) tr,
             fi_Resolution := None, fi_SuppressedUntil := None\<rparr>) r"
  | (suppress) g tr where "ev_Type (rc_Event r) = EventFindingSuppressed" and "current = Some g"
      and "fi_State g \<noteq> FindingResolved" and "readTransition (rc_Event r) = Inr tr"
      and "\<And>u. tr_Until tr = Some u \<Longrightarrow> After u (ev_RecordedAt (rc_Event r))"
      and "f = advanceFinding (g\<lparr>fi_State := FindingSuppressed, fi_SuppressedUntil := utcTimePointer (tr_Until tr),
             fi_Resolution := None\<rparr>) r"
  | (unsuppress) g where "ev_Type (rc_Event r) = EventFindingUnsuppressed" and "current = Some g"
      and "fi_State g = FindingSuppressed"
      and "f = advanceFinding (g\<lparr>fi_State := FindingOpen, fi_SuppressedUntil := None\<rparr>) r"
  | (resolve) g tr where "ev_Type (rc_Event r) = EventFindingResolved" and "current = Some g"
      and "fi_State g \<noteq> FindingResolved" and "readTransition (rc_Event r) = Inr tr"
      and "f = advanceFinding (g\<lparr>fi_State := FindingResolved, fi_Resolution := actionFrom (rc_Event r) tr,
             fi_SuppressedUntil := None\<rparr>) r"
proof -
  consider "ev_Type (rc_Event r) = EventFindingObserved" | "ev_Type (rc_Event r) = EventFindingAcknowledged"
    | "ev_Type (rc_Event r) = EventFindingSuppressed" | "ev_Type (rc_Event r) = EventFindingUnsuppressed"
    | "ev_Type (rc_Event r) = EventFindingResolved"
    using assms by (auto simp: project_def Let_def split: if_splits)
  then show ?thesis
  proof cases
    case 1
    then have "\<exists>obs. decodePayload dec_Observation zero_FindingObservation (rc_Event r) = Inr obs
        \<and> Observation_Validate obs = None \<and> f = applyObservation current r obs"
      using assms by (auto simp: project_def Let_def split: sum.splits option.splits)
    with 1 show ?thesis using observed by blast
  next
    case 2
    then have "\<exists>g tr. current = Some g \<and> fi_State g = FindingOpen \<and> readTransition (rc_Event r) = Inr tr
        \<and> f = advanceFinding (g\<lparr>fi_State := FindingAcknowledged, fi_Acknowledgement := actionFrom (rc_Event r) tr,
             fi_Resolution := None, fi_SuppressedUntil := None\<rparr>) r"
      using assms by (auto simp: project_def Let_def split: sum.splits option.splits if_splits)
    with 2 show ?thesis using acknowledge by blast
  next
    case 3
    then have "\<exists>g tr. current = Some g \<and> fi_State g \<noteq> FindingResolved \<and> readTransition (rc_Event r) = Inr tr
        \<and> (\<forall>u. tr_Until tr = Some u \<longrightarrow> After u (ev_RecordedAt (rc_Event r)))
        \<and> f = advanceFinding (g\<lparr>fi_State := FindingSuppressed, fi_SuppressedUntil := utcTimePointer (tr_Until tr),
             fi_Resolution := None\<rparr>) r"
      using assms by (auto simp: project_def Let_def split: sum.splits option.splits if_splits)
    with 3 show ?thesis using suppress by blast
  next
    case 4
    then have "\<exists>g. current = Some g \<and> fi_State g = FindingSuppressed
        \<and> f = advanceFinding (g\<lparr>fi_State := FindingOpen, fi_SuppressedUntil := None\<rparr>) r"
      using assms by (auto simp: project_def Let_def split: sum.splits option.splits if_splits)
    with 4 show ?thesis using unsuppress by blast
  next
    case 5
    then have "\<exists>g tr. current = Some g \<and> fi_State g \<noteq> FindingResolved \<and> readTransition (rc_Event r) = Inr tr
        \<and> f = advanceFinding (g\<lparr>fi_State := FindingResolved, fi_Resolution := actionFrom (rc_Event r) tr,
             fi_SuppressedUntil := None\<rparr>) r"
      using assms by (auto simp: project_def Let_def split: sum.splits option.splits if_splits)
    with 5 show ?thesis using resolve by blast
  qed
qed

lemma project_lifecycle:
  assumes "project current r = Inr f"
  shows "lifecycle (map_option fi_State current) (ev_Type (rc_Event r)) (fi_State f)"
  using assms
  by (cases rule: project_cases) (auto intro: lifecycle.intros applyObservation_lifecycle simp del: lifecycle_None)

lemma project_illegal:
  assumes "IsFindingLifecycle (rc_Event r)" and "\<And>st. \<not> lifecycle (Some (fi_State f)) (ev_Type (rc_Event r)) st"
  shows "\<exists>e. project (Some f) r = Inl e \<and> errors_Is e ErrInvalidTransition"
proof -
  have wraps: "errors_Is (transitionError st st') ErrInvalidTransition" for st st'
    by (simp add: transitionError_def ErrInvalidTransition_def)
  let ?ty = "ev_Type (rc_Event r)"
  have no: "?ty \<noteq> EventFindingObserved"
    using assms(2) lifecycle.seen_again lifecycle.reopened by metis
  have ack: "?ty = EventFindingAcknowledged \<Longrightarrow> fi_State f \<noteq> FindingOpen"
    using assms(2) lifecycle.acknowledged by metis
  have sup: "?ty = EventFindingSuppressed \<Longrightarrow> fi_State f = FindingResolved"
    using assms(2) lifecycle.suppressed by metis
  have uns: "?ty = EventFindingUnsuppressed \<Longrightarrow> fi_State f \<noteq> FindingSuppressed"
    using assms(2) lifecycle.unsuppressed by metis
  have res: "?ty = EventFindingResolved \<Longrightarrow> fi_State f = FindingResolved"
    using assms(2) lifecycle.resolved by metis
  consider "?ty = EventFindingAcknowledged" | "?ty = EventFindingSuppressed"
    | "?ty = EventFindingUnsuppressed" | "?ty = EventFindingResolved"
    using no assms(1) by (auto simp: IsFindingLifecycle_def)
  then show ?thesis
    by cases (simp_all add: project_def Let_def wraps ack sup uns res)
qed

lemma project_unknown:
  assumes "IsFindingLifecycle (rc_Event r)" and "ev_Type (rc_Event r) \<noteq> EventFindingObserved"
  shows "project None r = Inl ErrFindingNotFound"
  using assms by (auto simp: project_def Let_def IsFindingLifecycle_def)

lemma project_ID:
  assumes "project current r = Inr f" and "\<And>g. current = Some g \<Longrightarrow> fi_ID g = ev_FindingID (rc_Event r)"
  shows "fi_ID f = ev_FindingID (rc_Event r)"
  using assms(1)
proof (cases rule: project_cases)
  case (observed obs)
  with assms(2) show ?thesis by (cases current) (auto simp: applyObservation_def Let_def)
qed (use assms(2) in auto)

subsection \<open>Stored findings\<close>

text \<open>Everything \<open>Finding_clean\<close> asks but the range of the years, with all times in UTC.\<close>

definition Finding_text :: "Finding \<Rightarrow> bool" where
  "Finding_text f \<longleftrightarrow> list_all clean [fi_Schema f, fi_ID f, fi_DetectorID f, fi_Category f, fi_Title f,
      fi_Summary f, fi_Severity f, fi_State f, fi_LastEventID f]
     \<and> fi_SchemaVersion f = FindingSchemaVersion
     \<and> 0 \<le> fi_LastEventSequence f \<and> fi_LastEventSequence f < 2 ^ 63
     \<and> list_all (\<lambda>t. t_off t = 0) [fi_FirstSeen f, fi_LastSeen f, fi_UpdatedAt f]
     \<and> list_all Evidence_clean (fi_Evidence f) \<and> pred_option Remediation_clean (fi_Remediation f)
     \<and> labels_clean (fi_Labels f) \<and> pred_option (\<lambda>t. t_off t = 0) (fi_SuppressedUntil f)
     \<and> list_all (pred_option (\<lambda>a. t_off (fa_At a) = 0 \<and> clean (fa_Actor a) \<and> clean (fa_Note a)))
         [fi_Acknowledgement f, fi_Resolution f]"

lemma Finding_text_clean:
  assumes "Finding_text f" and "Finding_json f = Some document"
  shows "Finding_clean f"
  using assms
  by (auto simp: Finding_text_def Finding_clean_def Finding_json_def json_exact_time_def FindingSchemaVersion_def
      FindingAction_clean_def action_time_ok_def split: if_splits option.splits)

lemma advanceFinding_text:
  assumes "Finding_text f" and "clean (ev_ID (rc_Event r))" and "0 \<le> rc_Sequence r" "rc_Sequence r < 2 ^ 63"
  shows "Finding_text (advanceFinding f r)"
  using assms by (simp add: Finding_text_def advanceFinding_def)

lemma applyObservation_text:
  assumes "pred_option Finding_text current" and "Event_clean (rc_Event r)" and "Observation_clean obs"
    and "0 \<le> rc_Sequence r" and "rc_Sequence r < 2 ^ 63"
  shows "Finding_text (applyObservation current r obs)"
proof (cases current)
  case None
  with assms show ?thesis
    by (simp add: applyObservation_def Let_def Finding_text_def Observation_clean_def Event_clean_def
        zero_Finding_def FindingSchema_def FindingOpen_def)
next
  case (Some f)
  have id: "clean (ev_ID (rc_Event r))" using assms(2) by (simp add: Event_clean_def)
  have "Finding_text (observe_fields obs f)"
    using Some assms(1,3) by (simp add: observe_fields_def Finding_text_def Observation_clean_def)
  then have "Finding_text (observe_times (rc_Event r) (observe_fields obs f))"
    by (simp add: observe_times_def Let_def Finding_text_def)
  then have "Finding_text (observe_reopen (observe_times (rc_Event r) (observe_fields obs f)))"
    by (simp add: observe_reopen_def Finding_text_def FindingOpen_def)
  then have "Finding_text (observe_expire (rc_Event r) (observe_reopen (observe_times (rc_Event r) (observe_fields obs f))))"
    by (simp add: observe_expire_def Finding_text_def FindingOpen_def)
  from advanceFinding_text [OF this id assms(4,5)] Some show ?thesis
    by (simp add: applyObservation_def Let_def)
qed

lemma readTransition_clean: "readTransition e = Inr tr \<Longrightarrow> Transition_clean tr"
  by (auto simp: readTransition_def decodePayload_def dec_Transition_clean
      split: sum.splits if_splits raw_message.splits option.splits)

lemma project_text:
  assumes "project current r = Inr f" and "pred_option Finding_text current" and "Event_clean (rc_Event r)"
    and "0 \<le> rc_Sequence r" and "rc_Sequence r < 2 ^ 63"
  shows "Finding_text f"
proof -
  have id: "clean (ev_ID (rc_Event r))" using assms(3) by (simp add: Event_clean_def)
  have states: "clean FindingOpen" "clean FindingAcknowledged" "clean FindingSuppressed" "clean FindingResolved"
    by (simp_all add: state_defs)
  note advance = advanceFinding_text [OF _ id assms(4,5)]
  show ?thesis
    using assms(1)
  proof (cases rule: project_cases)
    case (observed obs)
    then have "Observation_clean obs"
      by (auto simp: decodePayload_def dec_Observation_clean split: raw_message.splits option.splits)
    from applyObservation_text [OF assms(2,3) this assms(4,5)] observed show ?thesis by simp
  next
    case (acknowledge g tr)
    have "Finding_text (g\<lparr>fi_State := FindingAcknowledged, fi_Acknowledgement := actionFrom (rc_Event r) tr,
             fi_Resolution := None, fi_SuppressedUntil := None\<rparr>)"
      using acknowledge assms(2) readTransition_clean [of "rc_Event r" tr] states
      by (simp add: Finding_text_def actionFrom_def Transition_clean_def)
    from advance [OF this] acknowledge show ?thesis by simp
  next
    case (suppress g tr)
    have "Finding_text (g\<lparr>fi_State := FindingSuppressed, fi_SuppressedUntil := utcTimePointer (tr_Until tr),
             fi_Resolution := None\<rparr>)"
      using suppress assms(2) states by (simp add: Finding_text_def utcTimePointer_def option.pred_map comp_def option.pred_True)
    from advance [OF this] suppress show ?thesis by simp
  next
    case (unsuppress g)
    have "Finding_text (g\<lparr>fi_State := FindingOpen, fi_SuppressedUntil := None\<rparr>)"
      using unsuppress assms(2) states by (simp add: Finding_text_def)
    from advance [OF this] unsuppress show ?thesis by simp
  next
    case (resolve g tr)
    have "Finding_text (g\<lparr>fi_State := FindingResolved, fi_Resolution := actionFrom (rc_Event r) tr,
             fi_SuppressedUntil := None\<rparr>)"
      using resolve assms(2) readTransition_clean [of "rc_Event r" tr] states
      by (simp add: Finding_text_def actionFrom_def Transition_clean_def)
    from advance [OF this] resolve show ?thesis by simp
  qed
qed

end
