(* ===== verification/Journal_Refinement.thy ===== *)
theory Journal_Refinement
  imports Journal_Facts
begin

section \<open>The journal refines a log of events with a map of findings\<close>

text \<open>
  The abstract journal is a list of records and a map from identifiers to findings;
  \<open>spec_append\<close> is what \<open>Append\<close> promises in these terms, without SQL rows or JSON documents.
  For events whose strings are valid UTF-8 and whose times RFC 3339 can express
  (\<open>Event_clean\<close>), \<open>Append\<close> on the tables refines it, errors included. Replaying the log
  therefore gives the table of current findings again.
\<close>

subsection \<open>Rows that encode events and findings\<close>

definition row_ok :: "finding_row \<Rightarrow> bool" where
  "row_ok row \<longleftrightarrow> (\<exists>f. Finding_text f \<and> Finding_Validate f = None
     \<and> Finding_json f = Some (fr_document row) \<and> row = finding_row_of f (fr_document row))"

definition event_row_ok :: "event_row \<Rightarrow> bool" where
  "event_row_ok row \<longleftrightarrow> (\<exists>e. Event_clean e \<and> Event_json e = Some (er_envelope row)
     \<and> row = event_row_of (er_sequence row) e (er_envelope row))"

definition findings_of :: "finding_row list \<Rightarrow> string \<Rightarrow> Finding option" where
  "findings_of rows k =
     (case tbl_lookup fr_finding_id k rows of
        None \<Rightarrow> None | Some row \<Rightarrow> dec_Finding (fr_document row) zero_Finding)"

definition record_of :: "event_row \<Rightarrow> Record" where
  "record_of row = \<lparr>rc_Sequence = er_sequence row, rc_Event = the (dec_Event (er_envelope row) zero_Event)\<rparr>"

lemma Event_json_dec: "Event_clean e \<Longrightarrow> Event_json e = Some j \<Longrightarrow> dec_Event j zero_Event = Some e"
  using Event_json_roundtrip [of e] by auto

lemma Event_json_inj:
  "Event_clean e \<Longrightarrow> Event_clean e' \<Longrightarrow> Event_json e = Some j \<Longrightarrow> Event_json e' = Some j \<longleftrightarrow> e' = e"
  using Event_json_dec [of e] Event_json_dec [of e'] by auto

lemma Event_json_Some: "Event_clean e \<Longrightarrow> \<exists>j. Event_json e = Some j"
  using Event_json_roundtrip [of e] by auto

lemma row_ok_dec:
  assumes "row_ok row"
  obtains f where "dec_Finding (fr_document row) zero_Finding = Some f" and "Finding_text f"
    and "Finding_Validate f = None" and "fi_ID f = fr_finding_id row" and "Finding_clean f"
    and "row = finding_row_of f (fr_document row)"
proof -
  obtain f where f: "Finding_text f" "Finding_Validate f = None" "Finding_json f = Some (fr_document row)"
    "row = finding_row_of f (fr_document row)"
    using assms by (auto simp: row_ok_def)
  then have clean: "Finding_clean f" by (blast intro: Finding_text_clean)
  with f(3) have "dec_Finding (fr_document row) zero_Finding = Some f"
    using Finding_json_roundtrip [of f] by auto
  moreover from arg_cong [OF f(4), of fr_finding_id] have "fi_ID f = fr_finding_id row"
    by (simp add: finding_row_of_def)
  ultimately show ?thesis using that f clean by blast
qed

lemma event_row_ok_dec:
  assumes "event_row_ok row"
  obtains e where "record_of row = \<lparr>rc_Sequence = er_sequence row, rc_Event = e\<rparr>" and "Event_clean e"
    and "dec_Event (er_envelope row) zero_Event = Some e" and "Event_json e = Some (er_envelope row)"
    and "er_event_id row = ev_ID e" and "er_event_type row = ev_Type e"
proof -
  obtain e where e: "Event_clean e" "Event_json e = Some (er_envelope row)"
    "row = event_row_of (er_sequence row) e (er_envelope row)"
    using assms by (auto simp: event_row_ok_def)
  then have dec: "dec_Event (er_envelope row) zero_Event = Some e" by (simp add: Event_json_dec)
  from arg_cong [OF e(3), of er_event_id] arg_cong [OF e(3), of er_event_type]
  have "er_event_id row = ev_ID e" "er_event_type row = ev_Type e" by (simp_all add: event_row_of_def)
  with e dec that show ?thesis by (simp add: record_of_def)
qed

lemma currentFindingTx_ok:
  assumes "list_all row_ok rows"
  shows "currentFindingTx rows k = Inr (findings_of rows k)"
proof (cases "tbl_lookup fr_finding_id k rows")
  case (Some row)
  then have "row_ok row" using assms by (auto simp: list_all_iff dest: tbl_lookup_SomeD)
  with Some show ?thesis by (auto simp: currentFindingTx_def findings_of_def elim: row_ok_dec)
qed (simp add: currentFindingTx_def findings_of_def del: tbl_lookup_None_iff)

lemma findings_of_ok:
  assumes "list_all row_ok rows" and "findings_of rows k = Some f"
  shows "Finding_text f" and "Finding_Validate f = None" and "fi_ID f = k"
proof -
  obtain row where row: "tbl_lookup fr_finding_id k rows = Some row"
    and f: "dec_Finding (fr_document row) zero_Finding = Some f"
    using assms(2) by (auto simp: findings_of_def split: option.splits)
  then have "row_ok row" "fr_finding_id row = k" using assms(1) by (auto simp: list_all_iff dest: tbl_lookup_SomeD)
  with f show "Finding_text f" "Finding_Validate f = None" "fi_ID f = k" by (auto elim: row_ok_dec)
qed

lemma findings_of_pred: "list_all row_ok rows \<Longrightarrow> pred_option Finding_text (findings_of rows k)"
  by (cases "findings_of rows k") (auto dest: findings_of_ok)

subsection \<open>One projection\<close>

definition spec_project :: "(string \<Rightarrow> Finding option) \<Rightarrow> Record \<Rightarrow> (string \<Rightarrow> Finding option) result" where
  "spec_project m r =
     (case project (m (ev_FindingID (rc_Event r))) r of
        Inl err \<Rightarrow> Inl err
      | Inr f \<Rightarrow>
          (case Finding_Validate f of
             Some err \<Rightarrow> Inl (Wrap ''validate materialized finding: %w'' err)
           | None \<Rightarrow>
               if Finding_json f = None then Inl (Wrap ''marshal materialized finding: %w'' marshal_error)
               else Inr (m(ev_FindingID (rc_Event r) \<mapsto> f))))"

lemma findings_of_upsert:
  assumes "Finding_clean f" and "Finding_json f = Some document"
  shows "findings_of (tbl_upsert fr_finding_id (finding_row_of f document) (\<lambda>_. finding_row_of f document) rows)
    = (findings_of rows)(fi_ID f \<mapsto> f)"
proof -
  have dec: "dec_Finding document zero_Finding = Some f"
    using assms Finding_json_roundtrip [of f] by auto
  have "tbl_lookup fr_finding_id k (tbl_upsert fr_finding_id (finding_row_of f document) (\<lambda>_. finding_row_of f document) rows)
    = (if k = fi_ID f then Some (finding_row_of f document) else tbl_lookup fr_finding_id k rows)" for k
    by (subst tbl_lookup_upsert) (auto simp: finding_row_of_def split: option.splits)
  with dec show ?thesis by (auto simp: findings_of_def finding_row_of_def)
qed

lemma upsert_rows_ok:
  assumes "list_all row_ok rows" and "Finding_text f" and "Finding_Validate f = None" and "Finding_json f = Some document"
  shows "list_all row_ok (tbl_upsert fr_finding_id (finding_row_of f document) (\<lambda>_. finding_row_of f document) rows)"
proof -
  have "row_ok (finding_row_of f document)" using assms by (auto simp: row_ok_def finding_row_of_def)
  with assms(1) show ?thesis by (auto simp: tbl_upsert_def tbl_update_def list_all_iff)
qed

definition record_ok :: "Record \<Rightarrow> bool" where
  "record_ok r \<longleftrightarrow> Event_clean (rc_Event r) \<and> 0 \<le> rc_Sequence r \<and> rc_Sequence r < 2 ^ 63"

lemma projectFinding_refines:
  assumes "list_all row_ok rows" and "record_ok r"
  shows "map_sum id (\<lambda>(_, rows'). findings_of rows') (projectFinding rows r) = spec_project (findings_of rows) r"
    and "projectFinding rows r = Inr (f, rows') \<Longrightarrow> list_all row_ok rows'"
proof -
  let ?k = "ev_FindingID (rc_Event r)"
  have ok: "Finding_text g \<and> fi_ID g = ?k" if "project (findings_of rows ?k) r = Inr g" for g
  proof
    show "Finding_text g"
      using project_text [OF that] assms findings_of_pred [OF assms(1)] by (simp add: record_ok_def)
    show "fi_ID g = ?k" using project_ID [OF that] findings_of_ok(3) [OF assms(1)] by blast
  qed
  show "projectFinding rows r = Inr (f, rows') \<Longrightarrow> list_all row_ok rows'"
    using ok assms(1) by (auto simp: projectFinding_Inr currentFindingTx_ok intro: upsert_rows_ok)
  show "map_sum id (\<lambda>(_, rows'). findings_of rows') (projectFinding rows r) = spec_project (findings_of rows) r"
  proof (cases "project (findings_of rows ?k) r")
    case (Inl e)
    then show ?thesis using assms(1) by (simp add: projectFinding_def spec_project_def currentFindingTx_ok)
  next
    case (Inr g)
    show ?thesis
    proof (cases "Finding_Validate g = None \<and> Finding_json g \<noteq> None")
      case True
      then obtain document where document: "Finding_json g = Some document" by blast
      have "findings_of (tbl_upsert fr_finding_id (finding_row_of g document) (\<lambda>_. finding_row_of g document) rows)
          = (findings_of rows)(?k \<mapsto> g)"
        using findings_of_upsert [OF Finding_text_clean document] ok [OF Inr] document by simp
      with True Inr document assms(1) show ?thesis
        by (simp add: projectFinding_def spec_project_def currentFindingTx_ok)
    next
      case False
      with Inr assms(1) show ?thesis
        by (auto simp: projectFinding_def spec_project_def currentFindingTx_ok split: option.splits)
    qed
  qed
qed

subsection \<open>Append\<close>

record spec_journal =
  sj_log :: "Record list"
  sj_findings :: "string \<Rightarrow> Finding option"

definition record_id :: "Record \<Rightarrow> string" where
  "record_id r = ev_ID (rc_Event r)"

definition spec_append :: "spec_journal \<Rightarrow> Event \<Rightarrow> Record result \<times> spec_journal" where
  "spec_append j event =
     (case Event_Validate event of
        Some err \<Rightarrow> (Inl (Wrap ''validate event: %w'' err), j)
      | None \<Rightarrow>
          if IsFindingLifecycle event \<and> blank (ev_FindingID event)
          then (Inl (New ''finding lifecycle event requires finding_id''), j)
          else (case tbl_lookup record_id (ev_ID event) (sj_log j) of
              Some r \<Rightarrow>
                if rc_Event r = event then (Inr r, j)
                else (Inl (Wrapf ''%w: %s'' [ArgS (ev_ID event)] ErrEventIDConflict), j)
            | None \<Rightarrow>
                (let r = \<lparr>rc_Sequence = int (length (sj_log j)) + 1, rc_Event = event\<rparr>;
                     j' = j\<lparr>sj_log := sj_log j @ [r]\<rparr>
                 in if IsFindingLifecycle event
                    then (case spec_project (sj_findings j) r of
                        Inl err \<Rightarrow> (Inl err, j)
                      | Inr m \<Rightarrow> (Inr r, j'\<lparr>sj_findings := m\<rparr>))
                    else (Inr r, j'))))"

definition abs_journal :: "Store \<Rightarrow> spec_journal" where
  "abs_journal s = \<lparr>sj_log = map record_of (st_events s), sj_findings = findings_of (st_findings s)\<rparr>"

definition journal_ok :: "Store \<Rightarrow> bool" where
  "journal_ok s \<longleftrightarrow> Store_inv s \<and> list_all event_row_ok (st_events s) \<and> list_all row_ok (st_findings s)"

lemma tbl_lookup_map:
  assumes "\<And>x. x \<in> set xs \<Longrightarrow> key (g x) = key' x"
  shows "tbl_lookup key k (map g xs) = map_option g (tbl_lookup key' k xs)"
  using assms by (induction xs) auto

lemma record_of_row:
  assumes "Event_clean e" and "Event_json e = Some j"
  shows "record_of (event_row_of n e j) = \<lparr>rc_Sequence = n, rc_Event = e\<rparr>" and "event_row_ok (event_row_of n e j)"
  using assms by (auto simp: record_of_def event_row_of_def Event_json_dec event_row_ok_def)

lemma record_of_id: "event_row_ok row \<Longrightarrow> record_id (record_of row) = er_event_id row"
  by (erule event_row_ok_dec) (simp add: record_id_def)

lemma lookup_abs:
  assumes "list_all event_row_ok rows"
  shows "tbl_lookup record_id k (map record_of rows) = map_option record_of (tbl_lookup er_event_id k rows)"
  using assms by (intro tbl_lookup_map) (simp add: list_all_iff record_of_id)

lemma Append_spec:
  assumes "journal_ok s" and "Event_clean event" and "st_autoinc s < 2 ^ 63 - 1"
  shows "fst (Append s event) = fst (spec_append (abs_journal s) event)"
    and "abs_journal (snd (Append s event)) = snd (spec_append (abs_journal s) event)"
    and "journal_ok (snd (Append s event))"
proof -
  have inv: "Store_inv s" "list_all event_row_ok (st_events s)" "list_all row_ok (st_findings s)"
    using assms(1) by (simp_all add: journal_ok_def)
  obtain envelope where envelope: "Event_json event = Some envelope" using assms(2) Event_json_Some by blast
  note lookup = lookup_abs [OF inv(2), of "ev_ID event"]
  have len: "st_autoinc s = int (length (st_events s))" using inv(1) by (simp add: Store_inv_def)
  have r_ok: "record_ok (next_record s event)" using assms(2,3) len by (simp add: record_ok_def)
  note refines = projectFinding_refines [OF inv(3) r_ok]
  have "fst (Append s event) = fst (spec_append (abs_journal s) event)
    \<and> abs_journal (snd (Append s event)) = snd (spec_append (abs_journal s) event)
    \<and> journal_ok (snd (Append s event))"
  proof (cases "Event_Validate event = None \<and> \<not> (IsFindingLifecycle event \<and> blank (ev_FindingID event))")
    case False
    with assms(1) show ?thesis by (auto simp: Append_def spec_append_def split: option.splits)
  next
    case valid: True
    show ?thesis
    proof (cases "tbl_lookup er_event_id (ev_ID event) (st_events s)")
      case (Some row)
      then have "event_row_ok row" using inv(2) by (auto simp: list_all_iff dest: tbl_lookup_SomeD)
      then obtain e where e: "record_of row = \<lparr>rc_Sequence = er_sequence row, rc_Event = e\<rparr>"
        "Event_clean e" "Event_json e = Some (er_envelope row)" by (rule event_row_ok_dec)
      have same: "er_envelope row = envelope \<longleftrightarrow> e = event"
        using Event_json_inj [OF e(2) assms(2) e(3)] envelope by auto
      show ?thesis
        using Some e(1) same valid envelope assms(1) lookup
        by (auto simp: Append_def spec_append_def appendEvent_def abs_journal_def)
    next
      case None
      then have fresh: "tbl_lookup record_id (ev_ID event) (map record_of (st_events s)) = None"
        using lookup by (simp del: tbl_lookup_None_iff)
      have app: "appendEvent s event = Inr (next_record s event, True, appended s event envelope (st_findings s))"
        using None envelope assms(3) by (simp add: appendEvent_def Let_def del: tbl_lookup_None_iff)
      have log: "map record_of (st_events s @ [event_row_of (st_autoinc s + 1) event envelope])
          = map record_of (st_events s) @ [next_record s event]"
        using record_of_row(1) [OF assms(2) envelope] by simp
      have inv': "Store_inv (snd (Append s event))" using Append_inv inv(1) .
      show ?thesis
      proof (cases "IsFindingLifecycle event")
        case False
        with valid app fresh log len inv' inv record_of_row(2) [OF assms(2) envelope] show ?thesis
          by (simp add: Append_def spec_append_def abs_journal_def Let_def journal_ok_def del: tbl_lookup_None_iff)
      next
        case True
        show ?thesis
        proof (cases "projectFinding (st_findings s) (next_record s event)")
          case (Inl e)
          with refines(1) have "spec_project (findings_of (st_findings s)) (next_record s event) = Inl e" by simp
          with True Inl valid app fresh len assms(1) show ?thesis
            by (simp add: Append_def spec_append_def abs_journal_def Let_def del: tbl_lookup_None_iff)
        next
          case (Inr fr)
          obtain f rows where fr: "fr = (f, rows)" by (cases fr)
          with refines(1) Inr have "spec_project (findings_of (st_findings s)) (next_record s event) = Inr (findings_of rows)"
            by simp
          with True Inr fr valid app fresh len log inv' inv refines(2) [of f rows] record_of_row(2) [OF assms(2) envelope]
          show ?thesis
            by (simp add: Append_def spec_append_def abs_journal_def Let_def journal_ok_def del: tbl_lookup_None_iff)
        qed
      qed
    qed
  qed
  then show "fst (Append s event) = fst (spec_append (abs_journal s) event)"
    and "abs_journal (snd (Append s event)) = snd (spec_append (abs_journal s) event)"
    and "journal_ok (snd (Append s event))" by simp_all
qed

subsection \<open>Replaying the log\<close>

lemma decode_rows_ok:
  "list_all event_row_ok rows \<Longrightarrow> decode_rows msg rows = Inr (map record_of rows)"
proof (induction rows)
  case (Cons row rows)
  then have "event_row_ok row" by simp
  then obtain e where "record_of row = \<lparr>rc_Sequence = er_sequence row, rc_Event = e\<rparr>"
    "dec_Event (er_envelope row) zero_Event = Some e" by (rule event_row_ok_dec)
  with Cons show ?case by simp
qed simp

lemma events_sorted: "Store_inv s \<Longrightarrow> sorted (map er_sequence (filter P (st_events s)))"
proof -
  assume "Store_inv s"
  then have "map er_sequence (st_events s) = map int [1..<Suc (length (st_events s))]" by (simp add: Store_inv_def)
  moreover have "sorted (map int [1..<Suc (length (st_events s))])"
    by (simp add: sorted_map del: upt_Suc)
  ultimately show ?thesis by (metis sorted_filter)
qed

definition finding_rows :: "Store \<Rightarrow> event_row list" where
  "finding_rows s = filter (\<lambda>row. like_finding (er_event_type row)) (st_events s)"

lemma RebuildFindings_ok:
  assumes "journal_ok s"
  shows "RebuildFindings s = (case replay [] (map record_of (finding_rows s)) of
    Inl err \<Rightarrow> (Some err, s) | Inr rows \<Rightarrow> (None, s\<lparr>st_findings := rows\<rparr>))"
proof -
  have "list_all event_row_ok (finding_rows s)"
    using assms by (auto simp: journal_ok_def finding_rows_def list_all_iff)
  moreover have "sort_key er_sequence (finding_rows s) = finding_rows s"
    using assms events_sorted unfolding finding_rows_def journal_ok_def by (blast intro: sort_key_id_if_sorted)
  ultimately show ?thesis
    unfolding RebuildFindings_def finding_rows_def [symmetric] by (simp add: decode_rows_ok)
qed

lemma replay_append:
  "replay rows (rs @ [r]) = (case replay rows rs of
     Inl err \<Rightarrow> Inl err
   | Inr rows' \<Rightarrow> (case projectFinding rows' r of
        Inl err \<Rightarrow> Inl (Wrapf ''replay finding event at sequence %d: %w'' [ArgD (rc_Sequence r)] err)
      | Inr (_, rows'') \<Rightarrow> Inr rows''))"
  by (induction rs arbitrary: rows) (auto split: sum.splits)

text \<open>The current findings are what replaying the finding events of the log gives.\<close>

definition replayed :: "Store \<Rightarrow> bool" where
  "replayed s \<longleftrightarrow> replay [] (map record_of (finding_rows s)) = Inr (st_findings s)"

lemma like_lifecycle: "IsFindingLifecycle e \<Longrightarrow> like_finding (ev_Type e)"
  by (auto simp: IsFindingLifecycle_def like_finding_def event_type_defs ascii_lower_def)

text \<open>Events that do not start a \<open>finding.\<close> type of their own.\<close>

definition plain_event :: "Event \<Rightarrow> bool" where
  "plain_event e \<longleftrightarrow> Event_clean e \<and> (like_finding (ev_Type e) \<longrightarrow> IsFindingLifecycle e)"

lemma Append_replayed:
  assumes "journal_ok s" and "replayed s" and "plain_event event"
  shows "replayed (snd (Append s event))"
proof (cases rule: Append_cases [of s event])
  case (inserted envelope rows)
  have rec: "record_of (event_row_of (st_autoinc s + 1) event envelope) = next_record s event"
    using record_of_row(1) inserted(2) assms(3) by (simp add: plain_event_def)
  have type: "er_event_type (event_row_of (st_autoinc s + 1) event envelope) = ev_Type event"
    by (simp add: event_row_of_def)
  show ?thesis
  proof (cases "IsFindingLifecycle event")
    case True
    with inserted(5) obtain f where "projectFinding (st_findings s) (next_record s event) = Inr (f, rows)" by auto
    with True inserted(6) assms(2) rec type show ?thesis
      by (simp add: replayed_def finding_rows_def replay_append like_lifecycle)
  next
    case False
    with assms(3) have "\<not> like_finding (ev_Type event)" by (simp add: plain_event_def)
    with False inserted(5,6) assms(2) type show ?thesis by (simp add: replayed_def finding_rows_def)
  qed
qed (use assms(2) in auto)

text \<open>Runs of appends from an opened database.\<close>

definition append_all :: "Store \<Rightarrow> Event list \<Rightarrow> Store" where
  "append_all s events = foldl (\<lambda>s e. snd (Append s e)) s events"

definition opened :: "gotime \<Rightarrow> Store" where
  "opened now = (case migrate now new_database of Inr s \<Rightarrow> s | Inl _ \<Rightarrow> new_database)"

lemma opened_tables: "st_events (opened now) = []" "st_autoinc (opened now) = 0" "st_findings (opened now) = []"
  by (simp_all add: opened_def migrate_def new_database_def databaseSchemaVersion_def)

lemma opened_ok: "journal_ok (opened now)" "replayed (opened now)"
  by (simp_all add: journal_ok_def Store_inv_def replayed_def finding_rows_def opened_tables)

lemma Append_count: "length (st_events (snd (Append s e))) \<le> Suc (length (st_events s))"
  by (cases rule: Append_cases [of s e]) auto

lemma append_all_ok:
  assumes "journal_ok s" and "replayed s" and "list_all plain_event events"
    and "int (length (st_events s) + length events) < 2 ^ 63"
  shows "journal_ok (append_all s events) \<and> replayed (append_all s events)"
  using assms
proof (induction events arbitrary: s)
  case (Cons e events)
  have clean: "Event_clean e" using Cons.prems(3) by (simp add: plain_event_def)
  have room: "st_autoinc s < 2 ^ 63 - 1" using Cons.prems(1,4) by (simp add: journal_ok_def Store_inv_def)
  have "journal_ok (snd (Append s e))" by (rule Append_spec(3) [OF Cons.prems(1) clean room])
  moreover have "replayed (snd (Append s e))" using Append_replayed Cons.prems(1-3) by simp
  ultimately have "journal_ok (append_all (snd (Append s e)) events) \<and> replayed (append_all (snd (Append s e)) events)"
    using Cons.prems(3,4) Append_count [of s e] by (intro Cons.IH) auto
  then show ?case by (simp add: append_all_def)
qed (simp add: append_all_def)

lemma RebuildFindings_replayed:
  "journal_ok s \<Longrightarrow> replayed s \<Longrightarrow> RebuildFindings s = (None, s)"
  by (simp add: RebuildFindings_ok replayed_def)

subsection \<open>Reading the log\<close>

lemma Read_ok:
  assumes "journal_ok s" and "0 \<le> after"
  shows "Read s after limit = Inr (take (nat (min 1000 (if limit \<le> 0 then 100 else limit)))
    (filter (\<lambda>r. rc_Sequence r > after) (map record_of (st_events s))))"
proof -
  let ?rows = "filter (\<lambda>row. er_sequence row > after) (st_events s)"
  let ?n = "nat (min 1000 (if limit \<le> 0 then 100 else limit))"
  have inv: "Store_inv s" "list_all event_row_ok (st_events s)" using assms(1) by (simp_all add: journal_ok_def)
  have "sort_key er_sequence ?rows = ?rows" using events_sorted [OF inv(1)] by (rule sort_key_id_if_sorted)
  moreover have "list_all event_row_ok (take ?n ?rows)"
    using inv(2) by (auto simp: list_all_iff dest: in_set_takeD)
  moreover have "filter (\<lambda>r. rc_Sequence r > after) (map record_of (st_events s)) = map record_of ?rows"
    by (simp add: filter_map comp_def record_of_def)
  moreover have "nat (if (if limit \<le> 0 then 100 else limit) > 1000 then 1000 else if limit \<le> 0 then 100 else limit) = ?n"
    by auto
  ultimately show ?thesis
    using assms(2) by (simp only: Read_def Let_def decode_rows_ok take_map) simp
qed

subsection \<open>Sorted findings\<close>

lemma finding_less_valid:
  assumes "Severity_Valid (fi_Severity a)" and "Severity_Valid (fi_Severity b)"
  shows "\<not> finding_less b a \<longleftrightarrow>
    (- severityRank (fi_Severity a), - t_ns (fi_UpdatedAt a), fi_ID a)
      \<le> (- severityRank (fi_Severity b), - t_ns (fi_UpdatedAt b), fi_ID b)"
proof -
  have "fi_Severity a = fi_Severity b \<longleftrightarrow> severityRank (fi_Severity a) = severityRank (fi_Severity b)"
    using assms by (auto simp: Severity_Valid_def severityRank_def SeverityInfo_def SeverityWarn_def SeverityCritical_def)
  then show ?thesis by (auto simp: finding_less_def After_def less_eq_prod_def)
qed

lemma SortFindings_sorted:
  assumes "list_all (\<lambda>f. Severity_Valid (fi_Severity f)) fs"
  shows "sorted_wrt (\<lambda>a b. \<not> finding_less b a) (SortFindings fs)" and "mset (SortFindings fs) = mset fs"
proof -
  define K where "K f = (- severityRank (fi_Severity f), - t_ns (fi_UpdatedAt f), fi_ID f)" for f :: Finding
  have eq: "\<not> finding_less b a \<longleftrightarrow> K a \<le> K b" if "a \<in> set fs" and "b \<in> set fs" for a b
    using that assms unfolding K_def by (intro finding_less_valid) (simp_all add: list_all_iff)
  have "total_order_on (set fs) (\<lambda>a b. \<not> finding_less b a)"
    unfolding total_order_on_def
  proof (intro conjI ballI impI)
    fix x y assume "x \<in> set fs" "y \<in> set fs"
    then show "\<not> finding_less y x \<or> \<not> finding_less x y" using eq linear [of "K x" "K y"] by simp
  next
    fix x y z assume "x \<in> set fs" "y \<in> set fs" "z \<in> set fs" "\<not> finding_less y x" "\<not> finding_less z y"
    then show "\<not> finding_less z x" using eq order_trans [of "K x" "K y" "K z"] by simp
  qed
  then show "sorted_wrt (\<lambda>a b. \<not> finding_less b a) (SortFindings fs)"
    unfolding SortFindings_def by (rule sorted_sort_by)
qed (simp add: SortFindings_def)

subsection \<open>Properties\<close>

text \<open>A sample journal: a finding is observed and resolved.\<close>

definition sample_clock :: gotime where
  "sample_clock = \<lparr>t_ns = 63900000001000000000, t_off = 0\<rparr>"

definition sample_observed :: Event where
  "sample_observed = sample_event\<lparr>ev_ID := ''e0'', ev_Type := EventFindingObserved,
     ev_Payload := RawJSON (JObj [(''detector_id'', JStr ''check.ufw''), (''title'', JStr ''Firewall''),
       (''summary'', JStr ''off''), (''severity'', JStr ''warn'')])\<rparr>"

lemma sample_plain: "plain_event sample_event" "plain_event sample_observed"
  using sample_event_clean
  by (simp_all add: plain_event_def Event_clean_def sample_observed_def IsFindingLifecycle_def
      sample_event_def zero_Event_def event_type_defs)

lemma sample_room: "int (length (st_events (opened t)) + length [a, b]) < 2 ^ 63"
  by (simp add: opened_tables)

text \<open>
  C1: \<open>Append\<close> on the SQL tables refines the abstract journal: for a store whose rows encode
  clean events and findings, it returns what the specification returns, error or record, and
  the store after it abstracts to the specification's state after it.
\<close>

theorem Append_refines_spec:
  assumes "journal_ok s" and "Event_clean event" and "st_autoinc s < 2 ^ 63 - 1"
  shows "fst (Append s event) = fst (spec_append (abs_journal s) event)
    \<and> abs_journal (snd (Append s event)) = snd (spec_append (abs_journal s) event)
    \<and> journal_ok (snd (Append s event))"
  using Append_spec [OF assms] by blast

theorem Append_refines_spec_witness:
  "fst (Append (opened sample_clock) sample_observed) = fst (spec_append (abs_journal (opened sample_clock)) sample_observed)"
  using Append_refines_spec [of "opened sample_clock" sample_observed] opened_ok(1) sample_plain(2)
  by (simp add: plain_event_def opened_tables)

text \<open>
  C19: \<open>RebuildFindings\<close> after any sequence of appends changes nothing: replaying the log from
  the start yields exactly the table of current findings the appends left behind. The events
  must be plain: representable in JSON, and of a lifecycle type when their type matches
  \<open>finding.%\<close>.
\<close>

theorem rebuild_changes_nothing:
  assumes "list_all plain_event events" and "length events < 2 ^ 63"
  shows "RebuildFindings (append_all (opened now) events) = (None, append_all (opened now) events)"
proof -
  have "int (length (st_events (opened now)) + length events) < 2 ^ 63"
    using assms(2) by (simp add: opened_tables)
  then have "journal_ok (append_all (opened now) events) \<and> replayed (append_all (opened now) events)"
    using append_all_ok [OF opened_ok(1,2) assms(1)] by blast
  then show ?thesis by (simp add: RebuildFindings_replayed)
qed

theorem rebuild_changes_nothing_witness:
  "RebuildFindings (append_all (opened sample_clock) [sample_observed, sample_event])
    = (None, append_all (opened sample_clock) [sample_observed, sample_event])"
  by (rule rebuild_changes_nothing) (simp_all add: sample_plain)





text \<open>
  C24: whatever commands run, events already in the log stay there unchanged, in their place,
  and the sequence numbers of the log are 1, 2, 3, \<dots> without a gap.
\<close>

theorem journal_append_only:
  assumes "Store_inv s"
  shows "(\<exists>new. st_events (journal_run s cs) = st_events s @ new)
    \<and> map er_sequence (st_events (journal_run s cs)) = map int [1..<Suc (length (st_events (journal_run s cs)))]"
proof -
  have "Store_inv (journal_run s cs)" unfolding journal_run_is_run using assms by (rule journal.run_inv)
  then show ?thesis using journal_run_events unfolding Store_inv_def by blast
qed

theorem journal_append_only_witness:
  "\<exists>new. st_events (journal_run (opened sample_clock) [Append_event sample_observed, Rebuild]) = st_events (opened sample_clock) @ new"
  using journal_append_only [of "opened sample_clock"] opened_ok(1) unfolding journal_ok_def by blast

text \<open>
  C37: appending an event again returns the record of the first time and changes nothing; a
  different event under the same ID is refused with the conflict error and changes nothing.
\<close>

theorem Append_idempotent:
  assumes "Append s event = (Inr r, s')"
  shows "Append s' event = (Inr r, s')
    \<and> (\<forall>other. Event_Validate other = None \<longrightarrow> ev_ID other = ev_ID event
        \<longrightarrow> \<not> (IsFindingLifecycle other \<and> blank (ev_FindingID other))
        \<longrightarrow> Event_json other \<noteq> None \<longrightarrow> Event_json other \<noteq> Event_json event
        \<longrightarrow> Append s' other = (Inl (Wrapf ''%w: %s'' [ArgS (ev_ID event)] ErrEventIDConflict), s'))"
proof -
  obtain row where "tbl_lookup er_event_id (ev_ID event) (st_events s') = Some row"
    and "Event_json event = Some (er_envelope row)"
  proof (cases rule: Append_cases [of s event])
    case (duplicate envelope row)
    with that assms show ?thesis by auto
  next
    case (inserted envelope rows)
    with that [of "event_row_of (st_autoinc s + 1) event envelope"] assms show ?thesis
      by (auto simp: tbl_lookup_append event_row_of_def)
  qed (use assms in auto)
  then show ?thesis
    using Append_again [OF assms] by (auto simp: Append_def appendEvent_def split: option.splits)
qed

theorem Append_idempotent_witness:
  "\<exists>r s'. Append (opened sample_clock) (sample_event\<lparr>ev_Type := ''note''\<rparr>) = (Inr r, s')
     \<and> Append s' (sample_event\<lparr>ev_Type := ''note''\<rparr>) = (Inr r, s')"
proof -
  let ?e = "sample_event\<lparr>ev_Type := ''note''\<rparr>"
  have "Event_Validate ?e = None" "\<not> IsFindingLifecycle ?e"
    by (simp_all add: Event_Validate_None_iff sample_event_def zero_Event_def EventSchemaVersion_def IsZero_def
      ident_not_blank ident_char_def IsFindingLifecycle_def event_type_defs)
  moreover have "\<exists>j. Event_json ?e = Some j"
    using sample_event_clean by (intro Event_json_Some) (simp add: Event_clean_def)
  ultimately have "\<exists>r s'. Append (opened sample_clock) ?e = (Inr r, s')"
    by (auto simp: Append_def appendEvent_def opened_tables)
  then show ?thesis using Append_idempotent by blast
qed

end
