(* ===== verification/Journal_Props.thy ===== *)
theory Journal_Props
  imports Journal_Refinement
begin

section \<open>Properties of the journal's findings and of its readers\<close>

text \<open>
  What a caller of the journal can rely on: the finding lifecycle is respected and violations
  are refused, current findings always validate, \<open>Read\<close> pages through the whole log, and the
  two orders in which findings are listed.
\<close>

lemma CurrentFinding_ok:
  assumes "journal_ok s"
  shows "CurrentFinding s k = (case findings_of (st_findings s) k of None \<Rightarrow> Inl ErrFindingNotFound | Some f \<Rightarrow> Inr f)"
proof (cases "tbl_lookup fr_finding_id k (st_findings s)")
  case (Some row)
  then have "row_ok row" using assms by (auto simp: journal_ok_def list_all_iff dest: tbl_lookup_SomeD)
  then obtain f where "dec_Finding (fr_document row) zero_Finding = Some f" by (rule row_ok_dec)
  with Some show ?thesis by (simp add: CurrentFinding_def findings_of_def)
qed (simp add: CurrentFinding_def findings_of_def del: tbl_lookup_None_iff)

lemma Append_changes:
  assumes "journal_ok s" and "Event_clean event" and "st_autoinc s < 2 ^ 63 - 1"
    and "Append s event = (Inr r, s')" and "s' \<noteq> s"
  shows "if IsFindingLifecycle event
    then \<exists>f. project (findings_of (st_findings s) (ev_FindingID event)) (next_record s event) = Inr f
          \<and> findings_of (st_findings s') = (findings_of (st_findings s))(ev_FindingID event \<mapsto> f)
    else st_findings s' = st_findings s"
proof (cases rule: Append_cases [of s event])
  case (inserted envelope rows)
  show ?thesis
  proof (cases "IsFindingLifecycle event")
    case True
    with inserted(5) obtain f where f: "projectFinding (st_findings s) (next_record s event) = Inr (f, rows)" by auto
    have inv: "Store_inv s" "list_all row_ok (st_findings s)" using assms(1) by (simp_all add: journal_ok_def)
    then have "record_ok (next_record s event)" using assms(2,3) by (simp add: record_ok_def Store_inv_def)
    from projectFinding_refines(1) [OF inv(2) this] f
    have "spec_project (findings_of (st_findings s)) (next_record s event) = Inr (findings_of rows)" by simp
    with True inserted(6) assms(4) show ?thesis
      by (auto simp: spec_project_def split: sum.splits option.splits if_splits)
  next
    case False
    with inserted(5,6) assms(4) show ?thesis by auto
  qed
qed (use assms in auto)

text \<open>
  C23: every append that changes the store moves at most one finding, the one the event names,
  and moves it along the finding lifecycle; every other current finding stays what it was.
\<close>

theorem Append_follows_lifecycle:
  assumes "journal_ok s" and "Event_clean event" and "st_autoinc s < 2 ^ 63 - 1"
    and "Append s event = (Inr r, s')" and "s' \<noteq> s" and "IsFindingLifecycle event"
  shows "(\<exists>f. CurrentFinding s' (ev_FindingID event) = Inr f
      \<and> lifecycle (case CurrentFinding s (ev_FindingID event) of Inl _ \<Rightarrow> None | Inr g \<Rightarrow> Some (fi_State g))
          (ev_Type event) (fi_State f))
    \<and> (\<forall>k. k \<noteq> ev_FindingID event \<longrightarrow> CurrentFinding s' k = CurrentFinding s k)"
proof -
  have ok: "journal_ok s'" using Append_spec(3) [OF assms(1-3)] assms(4) by simp
  from Append_changes [OF assms(1-5)] assms(6) obtain f where
    f: "project (findings_of (st_findings s) (ev_FindingID event)) (next_record s event) = Inr f"
      "findings_of (st_findings s') = (findings_of (st_findings s))(ev_FindingID event \<mapsto> f)" by auto
  from project_lifecycle [OF f(1)] f(2) show ?thesis
    by (auto simp: CurrentFinding_ok [OF ok] CurrentFinding_ok [OF assms(1)] split: option.splits)
qed

lemma sample_observed_valid: "Event_Validate sample_observed = None"
  by (simp add: Event_Validate_None_iff sample_observed_def sample_event_def zero_Event_def EventSchemaVersion_def
      IsZero_def ident_not_blank ident_char_def event_type_defs)

lemma sample_append: "\<exists>r s'. Append (opened now) sample_observed = (Inr r, s') \<and> s' \<noteq> opened now"
proof -
  have clean: "Event_clean sample_observed" using sample_plain(2) by (simp add: plain_event_def)
  obtain envelope where envelope: "Event_json sample_observed = Some envelope" using Event_json_Some [OF clean] by blast
  let ?r = "next_record (opened now) sample_observed"
  have life: "IsFindingLifecycle sample_observed" "\<not> blank (ev_FindingID sample_observed)"
    by (simp_all add: IsFindingLifecycle_def sample_observed_def sample_event_def zero_Event_def
        ident_not_blank ident_char_def)
  have "\<exists>obs. decodePayload dec_Observation zero_FindingObservation sample_observed = Inr obs
      \<and> Observation_Validate obs = None"
    by (simp add: decodePayload_def sample_observed_def dec_Observation_def dec_struct_plain plain_tables
        plain_name_def by_name_def FindingObservation_fields_def fld_def dec_string_def
        zero_FindingObservation_def Observation_Validate_None_iff ident_not_blank not_blank_ascii_hd IsSpace_def
        ident_char_def Severity_Valid_def SeverityWarn_def)
  then obtain obs where obs: "decodePayload dec_Observation zero_FindingObservation sample_observed = Inr obs"
    "Observation_Validate obs = None" by blast
  let ?f = "applyObservation None ?r obs"
  have p: "project None ?r = Inr ?f" using obs by (simp add: project_def Let_def sample_observed_def)
  have v: "Finding_Validate ?f = None"
    using obs(2) by (simp add: Finding_Validate_None_iff applyObservation_def Let_def Observation_Validate_None_iff
        opened_tables sample_observed_def sample_event_def zero_Event_def zero_Finding_def IsZero_def
        FindingState_Valid_def ident_not_blank ident_char_def)
  have "\<exists>d. Finding_json ?f = Some d"
    by (simp add: Finding_json_def applyObservation_def Let_def zero_Finding_def action_time_ok_def
        json_time_UTC sample_observed_def sample_event_def zero_Event_def sql_year_def year_of_def day_ns_def)
  then obtain d where d: "Finding_json ?f = Some d" by blast
  have "projectFinding [] ?r = Inr (?f, [finding_row_of ?f d])"
    using p v d by (simp add: projectFinding_Inr currentFindingTx_def tbl_upsert_def)
  then show ?thesis
    using sample_observed_valid life envelope
    by (auto simp: Append_def appendEvent_def opened_tables Let_def dest: arg_cong [where f = st_autoinc])
qed

theorem Append_follows_lifecycle_witness:
  "\<exists>s' f. CurrentFinding s' ''ufw'' = Inr f \<and> lifecycle None EventFindingObserved (fi_State f)"
proof -
  obtain r s' where "Append (opened sample_clock) sample_observed = (Inr r, s')" "s' \<noteq> opened sample_clock"
    using sample_append by blast
  moreover have "IsFindingLifecycle sample_observed"
    by (simp add: IsFindingLifecycle_def sample_observed_def)
  ultimately have "\<exists>f. CurrentFinding s' (ev_FindingID sample_observed) = Inr f
      \<and> lifecycle (case CurrentFinding (opened sample_clock) (ev_FindingID sample_observed) of Inl _ \<Rightarrow> None | Inr g \<Rightarrow> Some (fi_State g))
          (ev_Type sample_observed) (fi_State f)"
    using Append_follows_lifecycle [of "opened sample_clock" sample_observed r s'] opened_ok(1) sample_plain(2)
    by (simp add: plain_event_def opened_tables)
  then show ?thesis
    by (auto simp: CurrentFinding_def opened_tables sample_observed_def sample_event_def zero_Event_def)
qed

text \<open>
  C22: a valid new lifecycle event that the lifecycle does not allow in the current state of its
  finding is refused with the invalid-transition error, and one other than an observation for
  an unknown finding with the not-found error; in both cases the store stays as it was.
\<close>

theorem illegal_transition_refused:
  assumes "journal_ok s" and "Event_clean event" and "st_autoinc s < 2 ^ 63 - 1"
    and "Event_Validate event = None" and "IsFindingLifecycle event" and "\<not> blank (ev_FindingID event)"
    and "ev_ID event \<notin> er_event_id ` set (st_events s)"
  shows "(\<forall>f. CurrentFinding s (ev_FindingID event) = Inr f \<longrightarrow> (\<nexists>st. lifecycle (Some (fi_State f)) (ev_Type event) st)
        \<longrightarrow> (\<exists>e. Append s event = (Inl e, s) \<and> errors_Is e ErrInvalidTransition))
    \<and> (CurrentFinding s (ev_FindingID event) = Inl ErrFindingNotFound \<longrightarrow> ev_Type event \<noteq> EventFindingObserved
        \<longrightarrow> Append s event = (Inl ErrFindingNotFound, s))"
proof -
  obtain envelope where "Event_json event = Some envelope" using assms(2) Event_json_Some by blast
  with assms(3-7) have app: "Append s event = (case projectFinding (st_findings s) (next_record s event) of
      Inl err \<Rightarrow> (Inl err, s) | Inr (_, rows) \<Rightarrow> (Inr (next_record s event), appended s event envelope rows))"
    by (simp add: Append_def appendEvent_def Let_def split: sum.splits prod.splits)
  have cur: "currentFindingTx (st_findings s) k = Inr (findings_of (st_findings s) k)" for k
    using assms(1) by (simp add: journal_ok_def currentFindingTx_ok)
  have step: "project (findings_of (st_findings s) (ev_FindingID event)) (next_record s event) = Inl e
      \<Longrightarrow> Append s event = (Inl e, s)" for e
    by (simp add: app projectFinding_def cur)
  show ?thesis
    using step project_illegal [of "next_record s event"] project_unknown [of "next_record s event"] assms(5)
    by (auto simp: CurrentFinding_ok [OF assms(1)] split: option.splits) blast+
qed

theorem illegal_transition_refused_witness:
  "Append (opened sample_clock) sample_event = (Inl ErrFindingNotFound, opened sample_clock)"
proof -
  have "Event_Validate sample_event = None" "IsFindingLifecycle sample_event" "\<not> blank (ev_FindingID sample_event)"
    by (simp_all add: Event_Validate_None_iff sample_event_def zero_Event_def EventSchemaVersion_def
      IsZero_def ident_not_blank ident_char_def event_type_defs IsFindingLifecycle_def)
  then show ?thesis
    using illegal_transition_refused [of "opened sample_clock" sample_event] opened_ok(1) sample_event_clean
    by (simp add: opened_tables CurrentFinding_def) (simp add: sample_event_def)
qed

text \<open>
  C33: after any appends of plain events to an opened journal, every current finding validates
  and carries the identifier it is stored under.
\<close>

theorem current_findings_valid:
  assumes "list_all plain_event events" and "length events < 2 ^ 63"
    and "CurrentFinding (append_all (opened now) events) k = Inr f"
  shows "Finding_Validate f = None \<and> fi_ID f = k"
proof -
  have ok: "journal_ok (append_all (opened now) events)"
    using append_all_ok [OF opened_ok(1,2) assms(1)] assms(2) by (simp add: opened_tables)
  then have rows: "list_all row_ok (st_findings (append_all (opened now) events))" by (simp add: journal_ok_def)
  have "findings_of (st_findings (append_all (opened now) events)) k = Some f"
    using assms(3) by (simp add: CurrentFinding_ok [OF ok] split: option.splits)
  then show ?thesis using findings_of_ok [OF rows] by blast
qed

theorem current_findings_valid_witness:
  "\<exists>f. CurrentFinding (append_all (opened sample_clock) [sample_observed]) ''ufw'' = Inr f \<and> Finding_Validate f = None"
proof -
  obtain r s' where app: "Append (opened sample_clock) sample_observed = (Inr r, s')" "s' \<noteq> opened sample_clock"
    using sample_append by blast
  have "Event_clean sample_observed" using sample_plain(2) by (simp add: plain_event_def)
  moreover have "ev_FindingID sample_observed = ''ufw''"
    by (simp add: sample_observed_def sample_event_def)
  moreover have "IsFindingLifecycle sample_observed" by (simp add: IsFindingLifecycle_def sample_observed_def)
  ultimately obtain f where "findings_of (st_findings s') ''ufw'' = Some f"
    using Append_changes [of "opened sample_clock" sample_observed r s'] opened_ok(1) app by (auto simp: opened_tables)
  moreover have "journal_ok s'"
    using Append_spec(3) [of "opened sample_clock" sample_observed] opened_ok(1) app \<open>Event_clean sample_observed\<close>
    by (simp add: opened_tables)
  ultimately have "CurrentFinding (append_all (opened sample_clock) [sample_observed]) ''ufw'' = Inr f"
    using app by (simp add: append_all_def CurrentFinding_ok)
  then show ?thesis using current_findings_valid [of "[sample_observed]"] sample_plain(2) by auto
qed

subsection \<open>Reading in pages\<close>

text \<open>
  The loop a caller runs: read after the last sequence seen, stop at an empty page. \<open>fuel\<close>
  bounds the number of pages.
\<close>

fun read_pages :: "nat \<Rightarrow> Store \<Rightarrow> int \<Rightarrow> int \<Rightarrow> Record list result" where
  "read_pages 0 s after limit = Inl (New ''out of fuel'')"
| "read_pages (Suc fuel) s after limit =
     (case Read s after limit of
        Inl err \<Rightarrow> Inl err
      | Inr [] \<Rightarrow> Inr []
      | Inr page \<Rightarrow>
          (case read_pages fuel s (rc_Sequence (last page)) limit of
             Inl err \<Rightarrow> Inl err
           | Inr records \<Rightarrow> Inr (page @ records)))"

lemma filter_after:
  assumes "map rc_Sequence rs = map int [1..<Suc (length rs)]"
  shows "filter (\<lambda>r. rc_Sequence r > int n) rs = drop n rs"
proof -
  have len: "rc_Sequence (rs ! i) = int (Suc i)" if "i < length rs" for i
    using that arg_cong [OF assms, of "\<lambda>xs. xs ! i"] by (simp add: nth_upt del: upt_Suc)
  have take: "filter (\<lambda>r. rc_Sequence r > int n) (take n rs) = []"
    by (auto simp: filter_empty_conv in_set_conv_nth len)
  have drop: "filter (\<lambda>r. rc_Sequence r > int n) (drop n rs) = drop n rs"
    by (auto simp: filter_id_conv in_set_conv_nth len)
  have "filter (\<lambda>r. rc_Sequence r > int n) rs
      = filter (\<lambda>r. rc_Sequence r > int n) (take n rs) @ filter (\<lambda>r. rc_Sequence r > int n) (drop n rs)"
    by (metis append_take_drop_id filter_append)
  then show ?thesis unfolding take drop by simp
qed

lemma journal_ok_sequences:
  assumes "journal_ok s"
  shows "map rc_Sequence (map record_of (st_events s)) = map int [1..<Suc (length (map record_of (st_events s)))]"
  using assms by (simp add: journal_ok_def Store_inv_def comp_def record_of_def)

lemma Read_drop:
  assumes "journal_ok s"
  shows "Read s (int n) limit = Inr (take (nat (min 1000 (if limit \<le> 0 then 100 else limit)))
    (drop n (map record_of (st_events s))))"
  using Read_ok [OF assms, of "int n" limit] filter_after [OF journal_ok_sequences [OF assms]] by simp

text \<open>
  reading page after page, each after the last sequence of the one before, ends after at
  most as many pages as there are records plus one, and returns every record of the log after
  the starting point, once and in order; this holds for every limit, zero and negative ones
  included.
\<close>

theorem pages_cover_the_log:
  assumes "journal_ok s" and "length (st_events s) - n < fuel"
  shows "read_pages fuel s (int n) limit = Inr (drop n (map record_of (st_events s)))"
  using assms(2)
proof (induction fuel arbitrary: n)
  case (Suc fuel)
  define rs where "rs = map record_of (st_events s)"
  define k where "k = nat (min 1000 (if limit \<le> 0 then 100 else limit))"
  have k: "0 < k" by (auto simp: k_def)
  have page: "Read s (int n) limit = Inr (take k (drop n rs))"
    using Read_drop [OF assms(1)] by (simp add: rs_def k_def)
  show ?case
  proof (cases "n < length rs")
    case False
    with page show ?thesis by (simp flip: rs_def)
  next
    case True
    define m where "m = min k (length rs - n)"
    have m: "0 < m" "n + m \<le> length rs" "take k (drop n rs) \<noteq> []" using True k by (auto simp: m_def)
    have "last (take k (drop n rs)) = rs ! (n + m - 1)"
      using m True by (simp add: last_conv_nth m_def min.commute)
    moreover have "rc_Sequence (rs ! (n + m - 1)) = int (n + m)"
      using m(1,2) arg_cong [OF journal_ok_sequences [OF assms(1), folded rs_def], of "\<lambda>xs. xs ! (n + m - 1)"]
      by (simp add: nth_upt del: upt_Suc)
    ultimately have last: "rc_Sequence (last (take k (drop n rs))) = int (n + m)" by simp
    have "read_pages (Suc fuel) s (int n) limit
        = (case read_pages fuel s (int (n + m)) limit of Inl err \<Rightarrow> Inl err | Inr r \<Rightarrow> Inr (take k (drop n rs) @ r))"
    proof -
      obtain x xs where tk: "take k (drop n rs) = x # xs" using m(3) by (cases "take k (drop n rs)") auto
      with page last show ?thesis by (cases "read_pages fuel s (int (n + m)) limit") (simp_all add: tk)
    qed
    also have "read_pages fuel s (int (n + m)) limit = Inr (drop (n + m) rs)"
      unfolding rs_def using Suc.prems m(1) True by (intro Suc.IH) (simp add: rs_def)
    also have "(case Inr (drop (n + m) rs) of Inl err \<Rightarrow> Inl err | Inr r \<Rightarrow> Inr (take k (drop n rs) @ r))
        = (Inr (drop n rs) :: Record list result)"
    proof -
      have "take k (drop n rs) = take m (drop n rs)" by (simp add: m_def min_def)
      then show ?thesis by simp (metis append_take_drop_id drop_drop add.commute)
    qed
    finally show ?thesis by (simp add: rs_def)
  qed
qed simp

theorem pages_cover_the_log_witness: "read_pages 1 (opened sample_clock) 0 50 = Inr []"
  using pages_cover_the_log [of "opened sample_clock" 0 1 50] opened_ok(1) by (simp add: opened_tables)

subsection \<open>Orders\<close>

text \<open>
  \<open>SortFindings\<close> permutes its argument; for findings with valid severities the result has
  no two neighbours, indeed no two elements, in the wrong order: critical before warn before
  info, then the most recently updated first, then by ID.
\<close>

theorem SortFindings_correct:
  assumes "list_all (\<lambda>f. Severity_Valid (fi_Severity f)) fs"
  shows "mset (SortFindings fs) = mset fs \<and> sorted_wrt (\<lambda>a b. \<not> finding_less b a) (SortFindings fs)"
  using SortFindings_sorted [OF assms] by blast

theorem SortFindings_correct_witness:
  "mset (SortFindings [sample_finding, sample_finding\<lparr>fi_Severity := SeverityCritical\<rparr>])
    = {# sample_finding, sample_finding\<lparr>fi_Severity := SeverityCritical\<rparr> #}"
  using SortFindings_correct [of "[sample_finding, sample_finding\<lparr>fi_Severity := SeverityCritical\<rparr>]"]
  by (simp add: sample_finding_def Severity_Valid_def add_mset_commute)

lemma decode_findings_ok:
  "list_all row_ok rows \<Longrightarrow> decode_findings rows = Inr (map (\<lambda>row. the (dec_Finding (fr_document row) zero_Finding)) rows)"
proof (induction rows)
  case (Cons row rows)
  then have "row_ok row" by simp
  then obtain f where "dec_Finding (fr_document row) zero_Finding = Some f" by (rule row_ok_dec)
  with Cons show ?case by simp
qed simp

definition on_the_second :: Finding where
  "on_the_second = sample_finding\<lparr>fi_UpdatedAt := \<lparr>t_ns = 63900000001000000000, t_off = 0\<rparr>\<rparr>"

definition half_second_later :: Finding where
  "half_second_later = sample_finding\<lparr>fi_ID := ''late'', fi_UpdatedAt := \<lparr>t_ns = 63900000001500000000, t_off = 0\<rparr>\<rparr>"

lemma sample_finding_facts:
  "Finding_text sample_finding" "Finding_Validate sample_finding = None"
proof -
  show "Finding_text sample_finding"
    using sample_finding_clean unfolding Finding_clean_def Finding_text_def
    by (simp add: sample_finding_def FindingSchemaVersion_def FindingAction_clean_def)
  show "Finding_Validate sample_finding = None"
    by (simp add: sample_finding_def Finding_Validate_None_iff
        Severity_Valid_def FindingState_Valid_def IsZero_def not_blank_ascii_hd IsSpace_def FindingSchemaVersion_def)
qed

lemma two_findings_facts:
  "Finding_text on_the_second" "Finding_Validate on_the_second = None"
  "Finding_text half_second_later" "Finding_Validate half_second_later = None"
  using sample_finding_facts
  by (simp_all add: on_the_second_def half_second_later_def Finding_text_def Finding_Validate_None_iff
      IsZero_def not_blank_ascii_hd IsSpace_def)

lemma two_findings_json: "\<exists>d. Finding_json on_the_second = Some d" "\<exists>d. Finding_json half_second_later = Some d"
proof -
  have "json_exact_time \<lparr>t_ns = 63900000001000000000, t_off = 0\<rparr>" "json_exact_time \<lparr>t_ns = 63900000001500000000, t_off = 0\<rparr>"
    by (simp_all add: json_exact_time_def json_time_def year_of_def Let_def day_ns_def Second_def)
  then have "Finding_clean on_the_second" "Finding_clean half_second_later"
    using sample_finding_clean by (simp_all add: Finding_clean_def on_the_second_def half_second_later_def)
  then show "\<exists>d. Finding_json on_the_second = Some d" "\<exists>d. Finding_json half_second_later = Some d"
    using Finding_json_roundtrip by blast+
qed

lemma two_times:
  "FormatRFC3339Nano \<lparr>t_ns = 63900000001000000000, t_off = 0\<rparr> = ''2025-11-29T08:00:01Z''"
  "FormatRFC3339Nano \<lparr>t_ns = 63900000001500000000, t_off = 0\<rparr> = ''2025-11-29T08:00:01.5Z''"
  by code_simp+

lemma two_updates:
  "FormatRFC3339Nano (UTC (fi_UpdatedAt on_the_second)) = ''2025-11-29T08:00:01Z''"
  "FormatRFC3339Nano (UTC (fi_UpdatedAt half_second_later)) = ''2025-11-29T08:00:01.5Z''"
  using two_times by (simp_all add: on_the_second_def half_second_later_def UTC_def)

text \<open>
  \<open>ListFindings\<close> orders by the text of the update time, whose trailing zeros are dropped, so
  it is not chronological: a finding updated half a second later is listed after one updated
  on the full second, although the most recent should come first.
\<close>

theorem ListFindings_not_chronological:
  "\<exists>s. list_all row_ok (st_findings s) \<and> ListFindings s [] = Inr [on_the_second, half_second_later]
    \<and> Before (fi_UpdatedAt on_the_second) (fi_UpdatedAt half_second_later)"
proof -
  obtain d1 d2 where d: "Finding_json on_the_second = Some d1" "Finding_json half_second_later = Some d2"
    using two_findings_json by blast
  let ?a = "finding_row_of on_the_second d1" and ?b = "finding_row_of half_second_later d2"
  let ?s = "new_database\<lparr>st_findings := [?b, ?a]\<rparr>"
  have rows: "row_ok ?a" "row_ok ?b"
    using d two_findings_facts by (auto simp: row_ok_def finding_row_of_def)
  have dec: "dec_Finding d1 zero_Finding = Some on_the_second" "dec_Finding d2 zero_Finding = Some half_second_later"
    using d Finding_json_roundtrip [OF Finding_text_clean [OF two_findings_facts(1) d(1)]]
      Finding_json_roundtrip [OF Finding_text_clean [OF two_findings_facts(3) d(2)]] by simp_all
  have "\<not> list_order ?b ?a"
    by (simp add: list_order_def finding_row_of_def two_updates)
  then have "sort_by list_order [?b, ?a] = [?a, ?b]" by (simp add: sort_by_def)
  then have "ListFindings ?s [] = Inr [on_the_second, half_second_later]"
    using decode_findings_ok [of "[?a, ?b]"] rows dec by (simp add: ListFindings_def finding_row_of_def)
  moreover have "Before (fi_UpdatedAt on_the_second) (fi_UpdatedAt half_second_later)"
    by (simp add: Before_def on_the_second_def half_second_later_def)
  ultimately show ?thesis using rows by (intro exI [of _ ?s]) simp
qed

end
