(* ===== verification/Bridge_Ingest.thy ===== *)
theory Bridge_Ingest
  imports Bridge_Scan_Props Journal_Props
begin

section \<open>Scan ingestion and queries (internal/bridge/ingest.go, query.go)\<close>

text \<open>
  A validated snapshot becomes journal events: one \<open>check.result\<close> event per row, an observed or
  resolved finding event where the row says so, and a \<open>scan.completed\<close> event that marks the
  whole scan as done. The store is the interface \<open>IngestStore\<close>, a record of its operations on
  a state of its own; SHA-256 is a parameter, a function from bytes to bytes. The search for an
  event reads page after page until one is empty, which a store need not ever return, so
  \<open>None\<close> is the result of a call that does not return.
\<close>

definition IngestSchema :: string where "IngestSchema = ''io.oh-my-safety/scan-ingest''"
definition IngestSchemaVersion :: int where "IngestSchemaVersion = 1"
definition CheckResultSchema :: string where "CheckResultSchema = ''io.oh-my-safety/check-result''"
definition ScanCompletedSchema :: string where "ScanCompletedSchema = ''io.oh-my-safety/scan-completed''"
definition PayloadSchemaVersion :: int where "PayloadSchemaVersion = 1"

record 's IngestStore =
  is_Append :: "'s \<Rightarrow> Event \<Rightarrow> Record result \<times> 's"
  is_Read :: "'s \<Rightarrow> int \<Rightarrow> int \<Rightarrow> Record list result"
  is_CurrentFinding :: "'s \<Rightarrow> string \<Rightarrow> Finding result"
  is_ListFindings :: "'s \<Rightarrow> FindingState list \<Rightarrow> Finding list result"

record IngestEnvelope =
  ie_Schema :: string
  ie_SchemaVersion :: int
  ie_SnapshotID :: string
  ie_CorrelationID :: string
  ie_Results :: nat
  ie_AlreadyIngested :: bool

record CheckResultPayload =
  crp_Schema :: string
  crp_SchemaVersion :: int
  crp_Category :: string
  crp_Name :: string
  crp_Status :: string
  crp_Severity :: Severity
  crp_Summary :: string
  crp_Remediation :: string
  crp_Guide :: string
  crp_Scope :: string

record ScanCounts =
  sn_OK :: int
  sn_Warn :: int
  sn_Critical :: int
  sn_Skipped :: int
  sn_Error :: int

record ScanCompletedPayload =
  scp_Schema :: string
  scp_SchemaVersion :: int
  scp_Metadata :: ScanMetadata
  scp_Counts :: ScanCounts

subsection \<open>Payloads\<close>

definition CheckResultPayload_json :: "CheckResultPayload \<Rightarrow> json option" where
  "CheckResultPayload_json p = Some (JObj (
     [(''schema'', jstr (crp_Schema p)), (''schema_version'', jint (crp_SchemaVersion p)),
      (''category'', jstr (crp_Category p)), (''name'', jstr (crp_Name p)),
      (''status'', jstr (crp_Status p)), (''severity'', jstr (crp_Severity p)),
      (''summary'', jstr (crp_Summary p))]
     @ omit (crp_Remediation p = []) ''remediation'' (jstr (crp_Remediation p))
     @ omit (crp_Guide p = []) ''guide'' (jstr (crp_Guide p))
     @ [(''scope'', jstr (crp_Scope p))]))"

definition ScanCounts_json :: "ScanCounts \<Rightarrow> json" where
  "ScanCounts_json c = JObj [(''ok'', jint (sn_OK c)), (''warn'', jint (sn_Warn c)),
     (''critical'', jint (sn_Critical c)), (''skipped'', jint (sn_Skipped c)), (''error'', jint (sn_Error c))]"

definition ScanCompletedPayload_json :: "ScanCompletedPayload \<Rightarrow> json option" where
  "ScanCompletedPayload_json p =
     (if json_time (sm_Timestamp (scp_Metadata p)) \<and> json_time (sm_UpdatedAt (scp_Metadata p))
      then Some (JObj [(''schema'', jstr (scp_Schema p)), (''schema_version'', jint (scp_SchemaVersion p)),
        (''metadata'', Metadata_json (scp_Metadata p)), (''counts'', ScanCounts_json (scp_Counts p))])
      else None)"

definition count_result :: "ScanCounts \<Rightarrow> CheckResult \<Rightarrow> ScanCounts" where
  "count_result counts result =
     (if cr_Status result = CheckStatusOK then counts\<lparr>sn_OK := sn_OK counts + 1\<rparr>
      else if cr_Status result = CheckStatusWarn then counts\<lparr>sn_Warn := sn_Warn counts + 1\<rparr>
      else if cr_Status result = CheckStatusCritical then counts\<lparr>sn_Critical := sn_Critical counts + 1\<rparr>
      else if cr_Status result = CheckStatusSkip then counts\<lparr>sn_Skipped := sn_Skipped counts + 1\<rparr>
      else if cr_Status result = CheckStatusError then counts\<lparr>sn_Error := sn_Error counts + 1\<rparr>
      else counts)"

definition scanCounts :: "CheckResult list \<Rightarrow> ScanCounts" where
  "scanCounts results =
     foldl count_result \<lparr>sn_OK = 0, sn_Warn = 0, sn_Critical = 0, sn_Skipped = 0, sn_Error = 0\<rparr> results"

subsection \<open>Events\<close>

definition hashed_text :: "string \<Rightarrow> string list \<Rightarrow> string" where
  "hashed_text digest parts =
     ''oh-my-safety:bridge:v1'' @ nul # digest @ concat (map (\<lambda>part. nul # part) parts)"

definition deterministicEventID :: "(string \<Rightarrow> 8 word list) \<Rightarrow> string \<Rightarrow> string list \<Rightarrow> string" where
  "deterministicEventID sha256 digest parts = ''bridge:v1:'' @ hex_encode (sha256 (hashed_text digest parts))"

definition checkFindingID :: "CheckResult \<Rightarrow> string" where
  "checkFindingID result = ''check:'' @ cr_Category result @ ''/'' @ cr_Name result"

definition bridgeEvent ::
  "ScanSnapshot \<Rightarrow> string \<Rightarrow> string \<Rightarrow> string \<Rightarrow> string \<Rightarrow> Subject option \<Rightarrow> labels \<Rightarrow> json option \<Rightarrow> Event result" where
  "bridgeEvent snapshot ident eventType correlationID findingID subject event_labels payload =
     (case payload of
        None \<Rightarrow> Inl (New ''encode bridge event payload'')
      | Some encoded \<Rightarrow>
          (let timestamp = UTC (sm_UpdatedAt (ss_Metadata snapshot));
               event = \<lparr>ev_Schema = EventSchema, ev_SchemaVersion = EventSchemaVersion, ev_ID = ident,
                 ev_Type = eventType, ev_OccurredAt = timestamp, ev_RecordedAt = timestamp,
                 ev_Source = sm_Source (ss_Metadata snapshot), ev_Platform = sm_Platform (ss_Metadata snapshot),
                 ev_Subject = subject, ev_FindingID = findingID, ev_CorrelationID = correlationID,
                 ev_Labels = event_labels, ev_Payload = RawJSON encoded\<rparr>
           in (case Event_Validate event of
                 Some err \<Rightarrow> Inl (Wrap ''validate bridge event: %w'' err)
               | None \<Rightarrow> Inr event)))"

definition check_subject :: "CheckResult \<Rightarrow> Subject option" where
  "check_subject result = Some \<lparr>sub_Type = ''check'', sub_ID = cr_Category result @ ''/'' @ cr_Name result,
     sub_Name = cr_Name result\<rparr>"

definition checkResultEvent ::
  "(string \<Rightarrow> 8 word list) \<Rightarrow> ScanSnapshot \<Rightarrow> CheckResult \<Rightarrow> string \<Rightarrow> string \<Rightarrow> Event result" where
  "checkResultEvent sha256 snapshot result digest correlationID =
     (let payload = \<lparr>crp_Schema = CheckResultSchema, crp_SchemaVersion = PayloadSchemaVersion,
            crp_Category = cr_Category result, crp_Name = cr_Name result, crp_Status = cr_Status result,
            crp_Severity = cr_Severity result, crp_Summary = cr_Summary result,
            crp_Remediation = cr_Remediation result, crp_Guide = cr_Guide result,
            crp_Scope = sm_Scope (ss_Metadata snapshot)\<rparr>
      in bridgeEvent snapshot
           (deterministicEventID sha256 digest [''check.result'', cr_Category result, cr_Name result])
           ''check.result'' correlationID [] (check_subject result)
           [(''category'', cr_Category result), (''scope'', sm_Scope (ss_Metadata snapshot)),
            (''status'', cr_Status result)]
           (CheckResultPayload_json payload))"

definition observation_of :: "ScanSnapshot \<Rightarrow> CheckResult \<Rightarrow> FindingObservation" where
  "observation_of snapshot result =
     \<lparr>ob_DetectorID = cr_Name result, ob_Category = cr_Category result,
      ob_Title = cr_Name result @ '' check reported '' @ cr_Status result,
      ob_Summary = cr_Summary result, ob_Severity = cr_Severity result, ob_Evidence = [],
      ob_Remediation =
        (if cr_Remediation result \<noteq> [] \<or> cr_Guide result \<noteq> []
         then Some \<lparr>rem_Summary = (if cr_Remediation result = [] then ''Review the check guide.'' else cr_Remediation result),
                rem_Guide = cr_Guide result, rem_Reversible = False\<rparr>
         else None),
      ob_Labels = [(''scope'', sm_Scope (ss_Metadata snapshot)), (''source'', sm_Source (ss_Metadata snapshot)),
        (''status'', cr_Status result)]\<rparr>"

definition findingObservedEvent ::
  "(string \<Rightarrow> 8 word list) \<Rightarrow> ScanSnapshot \<Rightarrow> CheckResult \<Rightarrow> string \<Rightarrow> string \<Rightarrow> Event result" where
  "findingObservedEvent sha256 snapshot result digest correlationID =
     bridgeEvent snapshot
       (deterministicEventID sha256 digest [EventFindingObserved, cr_Category result, cr_Name result])
       EventFindingObserved correlationID (checkFindingID result) (check_subject result)
       [(''category'', cr_Category result), (''scope'', sm_Scope (ss_Metadata snapshot))]
       (Some (Observation_json (observation_of snapshot result)))"

definition findingResolvedEvent ::
  "(string \<Rightarrow> 8 word list) \<Rightarrow> ScanSnapshot \<Rightarrow> CheckResult \<Rightarrow> string \<Rightarrow> string \<Rightarrow> Event result" where
  "findingResolvedEvent sha256 snapshot result digest correlationID =
     bridgeEvent snapshot
       (deterministicEventID sha256 digest [EventFindingResolved, cr_Category result, cr_Name result])
       EventFindingResolved correlationID (checkFindingID result) (check_subject result)
       [(''category'', cr_Category result), (''scope'', sm_Scope (ss_Metadata snapshot))]
       (Transition_json \<lparr>tr_Actor = ''bridge:last-scan-v1'', tr_Note = ''check returned ok'', tr_Until = None\<rparr>)"

definition scanCompletedEvent ::
  "(string \<Rightarrow> 8 word list) \<Rightarrow> ScanSnapshot \<Rightarrow> string \<Rightarrow> string \<Rightarrow> Event result" where
  "scanCompletedEvent sha256 snapshot digest correlationID =
     bridgeEvent snapshot (deterministicEventID sha256 digest [''scan.completed'']) ''scan.completed''
       correlationID []
       (Some \<lparr>sub_Type = ''host'', sub_ID = ''local'', sub_Name = sm_Platform (ss_Metadata snapshot)\<rparr>)
       [(''scope'', sm_Scope (ss_Metadata snapshot))]
       (ScanCompletedPayload_json \<lparr>scp_Schema = ScanCompletedSchema, scp_SchemaVersion = PayloadSchemaVersion,
          scp_Metadata = ss_Metadata snapshot, scp_Counts = scanCounts (ss_Results snapshot)\<rparr>)"

subsection \<open>Ingestion\<close>

partial_function (option) eventByID ::
  "'s IngestStore \<Rightarrow> 's \<Rightarrow> string \<Rightarrow> int \<Rightarrow> Record option result option" where
  "eventByID store s ident after =
     (case is_Read store s after 1000 of
        Inl err \<Rightarrow> Some (Inl (Wrap ''search journal: %w'' err))
      | Inr records \<Rightarrow>
          if records = [] then Some (Inr None)
          else (case find (\<lambda>record. ev_ID (rc_Event record) = ident) records of
              Some record \<Rightarrow> Some (Inr (Some record))
            | None \<Rightarrow> eventByID store s ident (rc_Sequence (last records))))"

text \<open>An append whose result is only checked for an error.\<close>

definition append_wrapped ::
  "'s IngestStore \<Rightarrow> string \<Rightarrow> 's \<Rightarrow> Event result \<Rightarrow> go_error option \<times> 's" where
  "append_wrapped store msg s event =
     (case event of
        Inl err \<Rightarrow> (Some err, s)
      | Inr e \<Rightarrow>
          (case is_Append store s e of
             (Inl err, s') \<Rightarrow> (Some (Wrap msg err), s')
           | (Inr _, s') \<Rightarrow> (None, s')))"

definition ingest_ok_row ::
  "(string \<Rightarrow> 8 word list) \<Rightarrow> 's IngestStore \<Rightarrow> ScanSnapshot \<Rightarrow> string \<Rightarrow> string \<Rightarrow> 's \<Rightarrow> CheckResult \<Rightarrow> go_error option \<times> 's" where
  "ingest_ok_row sha256 store snapshot digest correlationID s result =
     (case is_CurrentFinding store s (checkFindingID result) of
        Inl err \<Rightarrow> if errors_Is err ErrFindingNotFound then (None, s)
                  else (Some (Wrap ''read finding before resolution: %w'' err), s)
      | Inr current \<Rightarrow>
          if fi_State current = FindingResolved then (None, s)
          else append_wrapped store ''append resolved finding: %w'' s
                 (findingResolvedEvent sha256 snapshot result digest correlationID))"

definition ingest_row ::
  "(string \<Rightarrow> 8 word list) \<Rightarrow> 's IngestStore \<Rightarrow> ScanSnapshot \<Rightarrow> string \<Rightarrow> string \<Rightarrow> 's \<Rightarrow> CheckResult \<Rightarrow> go_error option \<times> 's" where
  "ingest_row sha256 store snapshot digest correlationID s result =
     (case append_wrapped store ''append check result: %w'' s
             (checkResultEvent sha256 snapshot result digest correlationID) of
        (Some err, s') \<Rightarrow> (Some err, s')
      | (None, s') \<Rightarrow>
          if cr_Status result \<in> set [CheckStatusWarn, CheckStatusCritical, CheckStatusError]
          then append_wrapped store ''append observed finding: %w'' s'
                 (findingObservedEvent sha256 snapshot result digest correlationID)
          else if cr_Status result = CheckStatusOK
          then ingest_ok_row sha256 store snapshot digest correlationID s' result
          else (None, s'))"

fun ingest_rows ::
  "(string \<Rightarrow> 8 word list) \<Rightarrow> 's IngestStore \<Rightarrow> ScanSnapshot \<Rightarrow> string \<Rightarrow> string \<Rightarrow> 's \<Rightarrow> CheckResult list \<Rightarrow> go_error option \<times> 's" where
  "ingest_rows sha256 store snapshot digest correlationID s [] = (None, s)"
| "ingest_rows sha256 store snapshot digest correlationID s (result # results) =
     (case ingest_row sha256 store snapshot digest correlationID s result of
        (Some err, s') \<Rightarrow> (Some err, s')
      | (None, s') \<Rightarrow> ingest_rows sha256 store snapshot digest correlationID s' results)"

definition envelope_of :: "ScanSnapshot \<Rightarrow> string \<Rightarrow> IngestEnvelope" where
  "envelope_of snapshot digest =
     \<lparr>ie_Schema = IngestSchema, ie_SchemaVersion = IngestSchemaVersion, ie_SnapshotID = ''sha256:'' @ digest,
      ie_CorrelationID = ''scan:'' @ digest, ie_Results = length (ss_Results snapshot),
      ie_AlreadyIngested = False\<rparr>"

definition same_event :: "Event \<Rightarrow> Event \<Rightarrow> bool" where
  "same_event stored expected \<longleftrightarrow>
     (case (Event_json stored, Event_json expected) of (Some a, Some b) \<Rightarrow> a = b | _ \<Rightarrow> False)"

definition ingest_new ::
  "(string \<Rightarrow> 8 word list) \<Rightarrow> 's IngestStore \<Rightarrow> ScanSnapshot \<Rightarrow> string \<Rightarrow> Event \<Rightarrow> 's \<Rightarrow> IngestEnvelope result \<times> 's" where
  "ingest_new sha256 store snapshot digest completed s =
     (case ingest_rows sha256 store snapshot digest (''scan:'' @ digest) s (sortResults (ss_Results snapshot)) of
        (Some err, s') \<Rightarrow> (Inl err, s')
      | (None, s') \<Rightarrow>
          (case append_wrapped store ''append completed scan: %w'' s' (Inr completed) of
             (Some err, s'') \<Rightarrow> (Inl err, s'')
           | (None, s'') \<Rightarrow> (Inr (envelope_of snapshot digest), s'')))"

definition IngestScan ::
  "(string \<Rightarrow> 8 word list) \<Rightarrow> 's IngestStore option \<Rightarrow> 's \<Rightarrow> ScanSnapshot \<Rightarrow> (IngestEnvelope result \<times> 's) option" where
  "IngestScan sha256 store_arg s snapshot =
     (case store_arg of
        None \<Rightarrow> Some (Inl (New ''ingest store is required''), s)
      | Some store \<Rightarrow>
     (case Snapshot_Validate snapshot of
        Some err \<Rightarrow> Some (Inl err, s)
      | None \<Rightarrow>
     (case SnapshotDigest sha256 snapshot of
        Inl err \<Rightarrow> Some (Inl err, s)
      | Inr digest \<Rightarrow>
     (case scanCompletedEvent sha256 snapshot digest (''scan:'' @ digest) of
        Inl err \<Rightarrow> Some (Inl err, s)
      | Inr completed \<Rightarrow>
     (case eventByID store s (ev_ID completed) 0 of
        None \<Rightarrow> None
      | Some (Inl err) \<Rightarrow> Some (Inl err, s)
      | Some (Inr (Some existing)) \<Rightarrow>
          if \<not> same_event (rc_Event existing) completed
          then Some (Inl (Wrapf ''%w: %s'' [ArgS (ev_ID completed)] ErrEventIDConflict), s)
          else Some (Inr ((envelope_of snapshot digest)\<lparr>ie_AlreadyIngested := True\<rparr>), s)
      | Some (Inr None) \<Rightarrow> Some (ingest_new sha256 store snapshot digest completed s))))))"

subsection \<open>Queries\<close>

definition HistorySchema :: string where "HistorySchema = ''io.oh-my-safety/history''"
definition HistorySchemaVersion :: int where "HistorySchemaVersion = 1"
definition FindingsSchema :: string where "FindingsSchema = ''io.oh-my-safety/findings''"
definition FindingsSchemaVersion :: int where "FindingsSchemaVersion = 1"
definition DefaultQueryLimit :: int where "DefaultQueryLimit = 100"
definition MaxQueryLimit :: int where "MaxQueryLimit = 1000"

record HistoryEnvelope =
  he_Schema :: string
  he_SchemaVersion :: int
  he_Limit :: int
  he_Count :: nat
  he_Events :: "Record list"

record FindingsEnvelope =
  fe_Schema :: string
  fe_SchemaVersion :: int
  fe_Limit :: int
  fe_Count :: nat
  fe_Findings :: "Finding list"

definition ValidateQueryLimit :: "int \<Rightarrow> go_error option" where
  "ValidateQueryLimit limit =
     (if limit < 1 \<or> limit > MaxQueryLimit
      then Some (Errorf ''limit must be between 1 and %d'' [ArgD MaxQueryLimit]) else None)"

definition History :: "'s IngestStore option \<Rightarrow> 's \<Rightarrow> int \<Rightarrow> HistoryEnvelope result" where
  "History reader s limit =
     (case reader of
        None \<Rightarrow> Inl (New ''history reader is required'')
      | Some store \<Rightarrow>
          (case ValidateQueryLimit limit of
             Some err \<Rightarrow> Inl err
           | None \<Rightarrow>
               (case is_Read store s 0 limit of
                  Inl err \<Rightarrow> Inl (Wrap ''read history: %w'' err)
                | Inr records \<Rightarrow>
                    Inr \<lparr>he_Schema = HistorySchema, he_SchemaVersion = HistorySchemaVersion, he_Limit = limit,
                      he_Count = length records, he_Events = records\<rparr>)))"

definition Findings :: "'s IngestStore option \<Rightarrow> 's \<Rightarrow> int \<Rightarrow> FindingsEnvelope result" where
  "Findings reader s limit =
     (case reader of
        None \<Rightarrow> Inl (New ''finding reader is required'')
      | Some store \<Rightarrow>
          (case ValidateQueryLimit limit of
             Some err \<Rightarrow> Inl err
           | None \<Rightarrow>
               (case is_ListFindings store s [] of
                  Inl err \<Rightarrow> Inl (Wrap ''read findings: %w'' err)
                | Inr listed \<Rightarrow>
                    (let findings = take (nat limit) (SortFindings listed)
                     in Inr \<lparr>fe_Schema = FindingsSchema, fe_SchemaVersion = FindingsSchemaVersion, fe_Limit = limit,
                       fe_Count = length findings, fe_Findings = findings\<rparr>))))"

end
