(* ===== verification/Bridge_Ingest_Props.thy ===== *)
theory Bridge_Ingest_Props
  imports Bridge_Ingest
begin

section \<open>Facts about scan ingestion\<close>

text \<open>
  The events of a valid snapshot are representable in JSON (\<open>bridgeEvent_clean\<close>). The contract a
  store must keep for ingestion is the locale \<open>ingest_contract\<close>; in it, the search for an
  event returns, ingestion only extends the log, and a repeated ingestion is recognised. The
  journal is an instance.
\<close>

subsection \<open>The events of a snapshot are clean\<close>

lemma clean_ident: "list_all ident_char s \<Longrightarrow> clean s"
  by (simp add: ident_chars_ascii sanitize_ascii)

lemma clean_ascii: "ascii s \<Longrightarrow> clean s"
  by (simp add: sanitize_ascii)

lemma ascii_hex: "ascii (hex_encode bs)"
proof -
  have "byte c < 128" if "c \<in> set ''0123456789abcdef''" for c
    using that by auto
  then have "byte (hex_digit n) < 128" if "n < 16" for n using hex_digit_in [OF that] by blast
  then show ?thesis by (auto simp: hex_encode_def ascii_def list_all_iff byte_nibbles)
qed

lemma ascii_ident: "validIdentifier s \<Longrightarrow> ascii s"
  by (simp add: validIdentifier_chars ident_chars_ascii)

lemma ascii_event_id: "ascii (deterministicEventID sha256 digest parts)"
  by (simp add: deterministicEventID_def ascii_hex)

lemma valid_row:
  assumes "Snapshot_Validate snapshot = None" and "result \<in> set (ss_Results snapshot)"
  shows "validIdentifier (cr_Category result)" and "validIdentifier (cr_Name result)"
    and "cr_Status result \<in> set [CheckStatusOK, CheckStatusSkip, CheckStatusWarn, CheckStatusCritical, CheckStatusError]"
    and "Severity_Valid (cr_Severity result)" and "cr_Summary result \<noteq> []"
    and "cr_Summary result = TrimSpace (cr_Summary result)"
proof -
  have "CheckResult_Validate result = None" using assms by (simp add: Snapshot_Validate_None_iff)
  then show "validIdentifier (cr_Category result)" "validIdentifier (cr_Name result)"
    "cr_Status result \<in> set [CheckStatusOK, CheckStatusSkip, CheckStatusWarn, CheckStatusCritical, CheckStatusError]"
    "cr_Summary result \<noteq> []" "cr_Summary result = TrimSpace (cr_Summary result)"
    unfolding CheckResult_Validate_def first_error_None_iff by (simp_all add: validToken_def)
  then show "Severity_Valid (cr_Severity result)"
    using \<open>CheckResult_Validate result = None\<close>
    unfolding CheckResult_Validate_def first_error_None_iff by (auto simp: Severity_Valid_def)
qed

lemma valid_metadata:
  assumes "Snapshot_Validate snapshot = None"
  shows "ascii (sm_Platform (ss_Metadata snapshot))" and "ascii (sm_Source (ss_Metadata snapshot))"
    and "ascii (sm_Scope (ss_Metadata snapshot))" and "\<not> blank (sm_Source (ss_Metadata snapshot))"
    and "\<not> IsZero (sm_UpdatedAt (ss_Metadata snapshot))"
proof -
  have "metadata_checks snapshot = None" using assms by (simp add: Snapshot_Validate_None_iff)
  then have ok: "validIdentifier (sm_Platform (ss_Metadata snapshot))" "validIdentifier (sm_Source (ss_Metadata snapshot))"
    "sm_Scope (ss_Metadata snapshot) \<in> {ScanScopeFull, ScanScopePartial, ScanScopeComposite}"
    "\<not> IsZero (sm_UpdatedAt (ss_Metadata snapshot))"
    unfolding metadata_checks_def first_error_None_iff Let_def by auto
  then show "ascii (sm_Platform (ss_Metadata snapshot))" "ascii (sm_Source (ss_Metadata snapshot))"
    "\<not> blank (sm_Source (ss_Metadata snapshot))" "\<not> IsZero (sm_UpdatedAt (ss_Metadata snapshot))"
    by (simp_all add: ascii_ident validIdentifier_chars ident_not_blank)
  show "ascii (sm_Scope (ss_Metadata snapshot))"
    using ok(3) by (auto simp: ScanScopeFull_def ScanScopePartial_def ScanScopeComposite_def ascii_def)
qed

lemma digest_time:
  assumes "SnapshotDigest sha256 snapshot = Inr digest"
  shows "Snapshot_Validate snapshot = None" and "sql_year (sm_UpdatedAt (ss_Metadata snapshot))" and "ascii digest"
  using assms ascii_hex
  by (auto simp: SnapshotDigest_def Snapshot_json_def canonical_snapshot_def json_time_UTC split: option.splits if_splits)

lemma bridgeEvent_Inr:
  "bridgeEvent snapshot ident ty corr fid subj labs payload = Inr event \<longleftrightarrow>
     Event_Validate event = None \<and> (\<exists>encoded. payload = Some encoded \<and> event =
       \<lparr>ev_Schema = EventSchema, ev_SchemaVersion = EventSchemaVersion, ev_ID = ident,
        ev_Type = ty, ev_OccurredAt = UTC (sm_UpdatedAt (ss_Metadata snapshot)),
        ev_RecordedAt = UTC (sm_UpdatedAt (ss_Metadata snapshot)),
        ev_Source = sm_Source (ss_Metadata snapshot), ev_Platform = sm_Platform (ss_Metadata snapshot),
        ev_Subject = subj, ev_FindingID = fid, ev_CorrelationID = corr,
        ev_Labels = labs, ev_Payload = RawJSON encoded\<rparr>)"
  by (auto simp: bridgeEvent_def Let_def split: option.splits)

lemma bridgeEvent_clean:
  assumes "bridgeEvent snapshot ident ty (''scan:'' @ digest) fid subj labs payload = Inr event"
    and "SnapshotDigest sha256 snapshot = Inr digest"
    and "ascii ident" and "ascii ty" and "ascii fid" and "pred_option Subject_clean subj" and "labels_clean labs"
  shows "Event_clean event"
proof -
  note d = digest_time [OF assms(2)]
  obtain encoded where "event =
       \<lparr>ev_Schema = EventSchema, ev_SchemaVersion = EventSchemaVersion, ev_ID = ident,
        ev_Type = ty, ev_OccurredAt = UTC (sm_UpdatedAt (ss_Metadata snapshot)),
        ev_RecordedAt = UTC (sm_UpdatedAt (ss_Metadata snapshot)),
        ev_Source = sm_Source (ss_Metadata snapshot), ev_Platform = sm_Platform (ss_Metadata snapshot),
        ev_Subject = subj, ev_FindingID = fid, ev_CorrelationID = ''scan:'' @ digest,
        ev_Labels = labs, ev_Payload = RawJSON encoded\<rparr>"
    using assms(1) unfolding bridgeEvent_Inr by blast
  then show ?thesis
    using assms(3-) by (simp add: Event_clean_def valid_metadata [OF d(1)] d(2,3) EventSchemaVersion_def EventSchema_def)
qed

lemma scan_labels_clean:
  "ascii c \<Longrightarrow> ascii sc \<Longrightarrow> ascii st \<Longrightarrow> labels_clean [(''category'', c), (''scope'', sc), (''status'', st)]"
  "ascii c \<Longrightarrow> ascii sc \<Longrightarrow> labels_clean [(''category'', c), (''scope'', sc)]"
  "ascii sc \<Longrightarrow> labels_clean [(''scope'', sc)]"
  "ascii c \<Longrightarrow> ascii sc \<Longrightarrow> ascii st \<Longrightarrow> labels_clean [(''scope'', sc), (''source'', c), (''status'', st)]"
  by (simp_all add: labels_clean_def)

lemma status_ascii: "cr_Status result \<in> set [CheckStatusOK, CheckStatusSkip, CheckStatusWarn, CheckStatusCritical, CheckStatusError]
    \<Longrightarrow> ascii (cr_Status result)"
  by (auto simp: status_defs ascii_def)

lemma scan_events:
  assumes "SnapshotDigest sha256 snapshot = Inr digest" and "result \<in> set (ss_Results snapshot)"
  shows "checkResultEvent sha256 snapshot result digest (''scan:'' @ digest) = Inr e \<Longrightarrow> Event_clean e"
    and "findingObservedEvent sha256 snapshot result digest (''scan:'' @ digest) = Inr e \<Longrightarrow> Event_clean e"
    and "findingResolvedEvent sha256 snapshot result digest (''scan:'' @ digest) = Inr e \<Longrightarrow> Event_clean e"
proof -
  note row = valid_row [OF digest_time(1) [OF assms(1)] assms(2)]
  note m = valid_metadata [OF digest_time(1) [OF assms(1)]]
  have facts: "ascii (checkFindingID result)" "pred_option Subject_clean (check_subject result)"
    using row by (simp_all add: checkFindingID_def check_subject_def Subject_clean_def ascii_ident)
  note simps = ascii_event_id facts scan_labels_clean ascii_ident row(1,2) m(1-3) status_ascii [OF row(3)] event_type_defs
  show "checkResultEvent sha256 snapshot result digest (''scan:'' @ digest) = Inr e \<Longrightarrow> Event_clean e"
    unfolding checkResultEvent_def Let_def by (erule bridgeEvent_clean [OF _ assms(1)]) (simp_all add: simps)
  show "findingObservedEvent sha256 snapshot result digest (''scan:'' @ digest) = Inr e \<Longrightarrow> Event_clean e"
    unfolding findingObservedEvent_def by (erule bridgeEvent_clean [OF _ assms(1)]) (simp_all add: simps)
  show "findingResolvedEvent sha256 snapshot result digest (''scan:'' @ digest) = Inr e \<Longrightarrow> Event_clean e"
    unfolding findingResolvedEvent_def by (erule bridgeEvent_clean [OF _ assms(1)]) (simp_all add: simps)
qed

lemma completed_event:
  assumes "SnapshotDigest sha256 snapshot = Inr digest"
    and "scanCompletedEvent sha256 snapshot digest (''scan:'' @ digest) = Inr e"
  shows "Event_clean e"
  using assms(2) valid_metadata [OF digest_time(1) [OF assms(1)]] unfolding scanCompletedEvent_def
  by (elim bridgeEvent_clean [OF _ assms(1)]) (simp_all add: ascii_event_id scan_labels_clean Subject_clean_def)

subsection \<open>The contract of an ingest store\<close>

text \<open>
  What ingestion relies on: the store's log holds records numbered from 1 with distinct event
  IDs, a successful append of a clean event puts the event in the log, nothing leaves the log,
  and a page is the next 1000 records.
\<close>

lemma find_append: "find P (xs @ ys) = (case find P xs of None \<Rightarrow> find P ys | Some x \<Rightarrow> Some x)"
  by (induction xs) auto

abbreviation event_id :: "Record \<Rightarrow> string" where
  "event_id r \<equiv> ev_ID (rc_Event r)"

locale ingest_contract =
  fixes store :: "'s IngestStore" and inv :: "'s \<Rightarrow> bool" and log :: "'s \<Rightarrow> Record list"
  assumes append_inv: "inv s \<Longrightarrow> Event_clean e \<Longrightarrow> inv (snd (is_Append store s e))"
    and append_grows: "inv s \<Longrightarrow> Event_clean e \<Longrightarrow> \<exists>new. log (snd (is_Append store s e)) = log s @ new"
    and append_stored: "inv s \<Longrightarrow> Event_clean e \<Longrightarrow> is_Append store s e = (Inr r, s') \<Longrightarrow>
        \<exists>q \<in> set (log s'). rc_Event q = e"
    and log_numbered: "inv s \<Longrightarrow> map rc_Sequence (log s) = map int [1..<Suc (length (log s))]"
    and log_distinct: "inv s \<Longrightarrow> distinct (map event_id (log s))"
    and log_clean: "inv s \<Longrightarrow> r \<in> set (log s) \<Longrightarrow> Event_clean (rc_Event r)"
    and read_page: "inv s \<Longrightarrow> is_Read store s (int n) 1000 = Inr (take 1000 (drop n (log s)))"
begin

lemma log_nth: "inv s \<Longrightarrow> i < length (log s) \<Longrightarrow> rc_Sequence (log s ! i) = int (Suc i)"
  using arg_cong [OF log_numbered [of s], of "\<lambda>xs. xs ! i"] by (simp add: nth_upt del: upt_Suc)

lemma eventByID_log:
  assumes "inv s" and "n \<le> length (log s)"
  shows "eventByID store s ident (int n) = Some (Inr (find (\<lambda>r. event_id r = ident) (drop n (log s))))"
  using assms(2)
proof (induction "length (log s) - n" arbitrary: n rule: less_induct)
  case less
  let ?P = "\<lambda>r. event_id r = ident"
  let ?page = "take 1000 (drop n (log s))"
  show ?case
  proof (cases "n = length (log s)")
    case True
    then show ?thesis by (simp add: eventByID.simps [of store s] read_page [OF assms(1)])
  next
    case False
    with less.prems have more: "n < length (log s)" by simp
    have split: "drop n (log s) = ?page @ drop 1000 (drop n (log s))" by (simp only: append_take_drop_id)
    have find: "find ?P (drop n (log s)) =
        (case find ?P ?page of None \<Rightarrow> find ?P (drop 1000 (drop n (log s))) | Some r \<Rightarrow> Some r)"
      by (subst split) (simp only: find_append)
    show ?thesis
    proof (cases "find ?P ?page")
      case (Some r)
      with more find show ?thesis by (simp add: eventByID.simps [of store s ident "int n"] read_page [OF assms(1)])
    next
      case None
      let ?m = "min (length (log s)) (n + 1000)"
      have "last ?page = log s ! (?m - 1)"
        using more by (simp add: last_conv_nth nth_append min_def)
      moreover have "rc_Sequence (log s ! (?m - 1)) = int ?m"
        using more log_nth [OF assms(1), of "?m - 1"] by linarith
      ultimately have last: "rc_Sequence (last ?page) = int ?m" by simp
      have "eventByID store s ident (int n) = eventByID store s ident (int ?m)"
        using more None last by (simp add: eventByID.simps [of store s ident "int n"] read_page [OF assms(1)])
      also have "\<dots> = Some (Inr (find ?P (drop ?m (log s))))"
        using more by (intro less.hyps) auto
      also have "drop ?m (log s) = drop 1000 (drop n (log s))"
        by (cases "length (log s) \<le> n + 1000") (simp_all add: min_def add.commute)
      finally show ?thesis using None find by simp
    qed
  qed
qed

lemma append_wrapped_log:
  assumes "inv s" and "\<And>e. event = Inr e \<Longrightarrow> Event_clean e"
  shows "inv (snd (append_wrapped store msg s event))"
    and "\<exists>new. log (snd (append_wrapped store msg s event)) = log s @ new"
  using append_inv [OF assms(1)] append_grows [OF assms(1)] assms
  by (auto simp: append_wrapped_def split: sum.splits prod.splits) (metis snd_conv)+

lemma ingest_row_log:
  assumes "inv s" and "SnapshotDigest sha256 snapshot = Inr digest" and "result \<in> set (ss_Results snapshot)"
  shows "inv (snd (ingest_row sha256 store snapshot digest (''scan:'' @ digest) s result))
    \<and> (\<exists>new. log (snd (ingest_row sha256 store snapshot digest (''scan:'' @ digest) s result)) = log s @ new)"
proof -
  let ?c = "''scan:'' @ digest"
  note events = scan_events [OF assms(2,3)]
  obtain err s1 where first: "append_wrapped store ''append check result: %w'' s (checkResultEvent sha256 snapshot result digest ?c) = (err, s1)"
    by (cases "append_wrapped store ''append check result: %w'' s (checkResultEvent sha256 snapshot result digest ?c)")
  note a1 = append_wrapped_log [OF assms(1) events(1), of "checkResultEvent sha256 snapshot result digest ?c" "''append check result: %w''"]
  from a1 first have s1: "inv s1" "\<exists>new. log s1 = log s @ new" by auto
  note observed = append_wrapped_log [OF s1(1) events(2), of "findingObservedEvent sha256 snapshot result digest ?c" "''append observed finding: %w''"]
  note resolved = append_wrapped_log [OF s1(1) events(3), of "findingResolvedEvent sha256 snapshot result digest ?c" "''append resolved finding: %w''"]
  show ?thesis
  proof (cases err)
    case None
    with first s1 observed resolved show ?thesis
      by (auto simp: ingest_row_def ingest_ok_row_def split: sum.splits) 
  next
    case (Some e)
    with first s1 show ?thesis by (simp add: ingest_row_def)
  qed
qed

lemma ingest_rows_log:
  assumes "inv s" and "SnapshotDigest sha256 snapshot = Inr digest" and "set results \<subseteq> set (ss_Results snapshot)"
  shows "inv (snd (ingest_rows sha256 store snapshot digest (''scan:'' @ digest) s results))
    \<and> (\<exists>new. log (snd (ingest_rows sha256 store snapshot digest (''scan:'' @ digest) s results)) = log s @ new)"
  using assms(1,3)
proof (induction results arbitrary: s)
  case (Cons r results)
  obtain err s1 where row: "ingest_row sha256 store snapshot digest (''scan:'' @ digest) s r = (err, s1)"
    by (cases "ingest_row sha256 store snapshot digest (''scan:'' @ digest) s r")
  have "inv s1 \<and> (\<exists>new. log s1 = log s @ new)"
    using ingest_row_log [OF Cons.prems(1) assms(2), of r] Cons.prems(2) row by simp
  moreover from this have "inv (snd (ingest_rows sha256 store snapshot digest (''scan:'' @ digest) s1 results))
    \<and> (\<exists>new. log (snd (ingest_rows sha256 store snapshot digest (''scan:'' @ digest) s1 results)) = log s1 @ new)"
    using Cons.prems(2) by (intro Cons.IH) auto
  ultimately show ?case using row by (cases err) auto
qed simp

lemma eventByID_start:
  "inv s \<Longrightarrow> eventByID store s ident 0 = Some (Inr (find (\<lambda>r. event_id r = ident) (log s)))"
  using eventByID_log [of s 0] by simp

lemma ingest_new_log:
  assumes "inv s" and "SnapshotDigest sha256 snapshot = Inr digest"
    and "scanCompletedEvent sha256 snapshot digest (''scan:'' @ digest) = Inr completed"
  shows "inv (snd (ingest_new sha256 store snapshot digest completed s))"
    and "\<exists>new. log (snd (ingest_new sha256 store snapshot digest completed s)) = log s @ new"
    and "fst (ingest_new sha256 store snapshot digest completed s) = Inr env \<Longrightarrow>
       env = envelope_of snapshot digest
       \<and> (\<exists>q \<in> set (log (snd (ingest_new sha256 store snapshot digest completed s))). rc_Event q = completed)"
proof -
  let ?c = "''scan:'' @ digest"
  obtain err s1 where rows: "ingest_rows sha256 store snapshot digest ?c s (sortResults (ss_Results snapshot)) = (err, s1)"
    by (cases "ingest_rows sha256 store snapshot digest ?c s (sortResults (ss_Results snapshot))")
  have s1: "inv s1" "\<exists>new. log s1 = log s @ new"
    using ingest_rows_log [OF assms(1,2), of "sortResults (ss_Results snapshot)"] rows by auto
  have clean: "Event_clean completed" using completed_event [OF assms(2,3)] .
  obtain err2 s2 where last: "append_wrapped store ''append completed scan: %w'' s1 (Inr completed) = (err2, s2)"
    by (cases "append_wrapped store ''append completed scan: %w'' s1 (Inr completed)")
  have s2: "inv s2" "\<exists>new. log s2 = log s1 @ new"
    using append_wrapped_log [OF s1(1), of "Inr completed" "''append completed scan: %w''"] clean last by auto
  have stored: "err2 = None \<Longrightarrow> \<exists>q \<in> set (log s2). rc_Event q = completed"
    using last append_stored [OF s1(1) clean] by (auto simp: append_wrapped_def split: prod.splits sum.splits)
  have new: "ingest_new sha256 store snapshot digest completed s =
      (case err of Some e \<Rightarrow> (Inl e, s1) | None \<Rightarrow>
        (case err2 of Some e \<Rightarrow> (Inl e, s2) | None \<Rightarrow> (Inr (envelope_of snapshot digest), s2)))"
    using rows last by (auto simp: ingest_new_def split: option.splits)
  show "inv (snd (ingest_new sha256 store snapshot digest completed s))"
    "\<exists>new. log (snd (ingest_new sha256 store snapshot digest completed s)) = log s @ new"
    using s1 s2 by (auto simp: new split: option.splits)
  show "env = envelope_of snapshot digest
       \<and> (\<exists>q \<in> set (log (snd (ingest_new sha256 store snapshot digest completed s))). rc_Event q = completed)"
    if "fst (ingest_new sha256 store snapshot digest completed s) = Inr env"
    using that stored by (auto simp: new split: option.splits)
qed

lemma IngestScan_returns:
  assumes "inv s"
  shows "\<exists>r s'. IngestScan sha256 (Some store) s snapshot = Some (r, s') \<and> inv s' \<and> (\<exists>new. log s' = log s @ new)"
proof (cases "\<exists>digest completed. Snapshot_Validate snapshot = None \<and> SnapshotDigest sha256 snapshot = Inr digest
    \<and> scanCompletedEvent sha256 snapshot digest (''scan:'' @ digest) = Inr completed")
  case True
  then obtain digest completed where d: "Snapshot_Validate snapshot = None" "SnapshotDigest sha256 snapshot = Inr digest"
    "scanCompletedEvent sha256 snapshot digest (''scan:'' @ digest) = Inr completed" by blast
  show ?thesis
  proof (cases "find (\<lambda>r. event_id r = ev_ID completed) (log s)")
    case None
    obtain r s' where "ingest_new sha256 store snapshot digest completed s = (r, s')" by (cases "ingest_new sha256 store snapshot digest completed s")
    with ingest_new_log [OF assms d(2,3)] None d show ?thesis
      by (simp add: IngestScan_def eventByID_start [OF assms])
  qed (use assms d in \<open>simp add: IngestScan_def eventByID_start\<close>)
next
  case False
  then show ?thesis using assms by (auto simp: IngestScan_def split: option.splits sum.splits)
qed

lemma IngestScan_again:
  assumes "inv s" and "IngestScan sha256 (Some store) s snapshot = Some (Inr env, s')"
  shows "IngestScan sha256 (Some store) s' snapshot = Some (Inr (env\<lparr>ie_AlreadyIngested := True\<rparr>), s')"
proof -
  obtain digest completed where d: "Snapshot_Validate snapshot = None" "SnapshotDigest sha256 snapshot = Inr digest"
    "scanCompletedEvent sha256 snapshot digest (''scan:'' @ digest) = Inr completed"
    using assms(2) by (auto simp: IngestScan_def split: option.splits sum.splits)
  show ?thesis
  proof (cases "find (\<lambda>r. event_id r = ev_ID completed) (log s)")
    case (Some existing)
    with assms d have "same_event (rc_Event existing) completed" "s' = s"
      "env = (envelope_of snapshot digest)\<lparr>ie_AlreadyIngested := True\<rparr>"
      by (auto simp: IngestScan_def eventByID_start [OF assms(1)] split: if_splits)
    with Some assms d show ?thesis
      by (simp add: IngestScan_def eventByID_start [OF assms(1)])
  next
    case None
    with assms d have new: "ingest_new sha256 store snapshot digest completed s = (Inr env, s')"
      by (simp add: IngestScan_def eventByID_start [OF assms(1)])
    note facts = ingest_new_log [OF assms(1) d(2,3), unfolded new fst_conv snd_conv]
    from facts(3) obtain q where q: "q \<in> set (log s')" "rc_Event q = completed" and env: "env = envelope_of snapshot digest" by auto
    have "find (\<lambda>r. event_id r = ev_ID completed) (log s') \<noteq> None"
      using q by (auto simp: find_None_iff)
    then obtain q' where q': "find (\<lambda>r. event_id r = ev_ID completed) (log s') = Some q'" by blast
    then have "q' \<in> set (log s')" "event_id q' = event_id q" using q(2) by (auto simp: find_Some_iff)
    then have "q' = q" using log_distinct [OF facts(1)] q(1) by (auto simp: distinct_map dest: inj_onD)
    moreover obtain j where "Event_json completed = Some j"
      using Event_json_Some completed_event [OF d(2,3)] by blast
    ultimately show ?thesis
      using d q' q(2) env by (simp add: IngestScan_def eventByID_start [OF facts(1)] same_event_def)
  qed
qed

end

subsection \<open>The journal keeps the contract\<close>

definition journal_store :: "Store IngestStore" where
  "journal_store = \<lparr>is_Append = Append, is_Read = Read, is_CurrentFinding = CurrentFinding,
     is_ListFindings = ListFindings\<rparr>"

lemma journal_store_simps [simp]:
  "is_Append journal_store = Append" "is_Read journal_store = Read"
  "is_CurrentFinding journal_store = CurrentFinding" "is_ListFindings journal_store = ListFindings"
  by (simp_all add: journal_store_def)

definition journal_log :: "Store \<Rightarrow> Record list" where
  "journal_log s = map record_of (st_events s)"

lemma journal_ok_Append:
  assumes "journal_ok s" and "Event_clean e"
  shows "journal_ok (snd (Append s e))"
proof (cases rule: Append_cases [of s e])
  case (inserted envelope rows)
  with Append_spec(3) [OF assms] show ?thesis by simp
qed (use assms(1) in simp_all)

lemma journal_log_ids:
  assumes "journal_ok s"
  shows "map event_id (journal_log s) = map er_event_id (st_events s)"
proof -
  have "event_id (record_of row) = er_event_id row" if "row \<in> set (st_events s)" for row
    using that assms record_of_id [of row] by (simp add: journal_ok_def list_all_iff record_id_def)
  then show ?thesis by (simp add: journal_log_def)
qed

interpretation ingest: ingest_contract journal_store journal_ok journal_log
proof
  fix s e r s'
  assume ok: "journal_ok s" and clean: "Event_clean e"
  show "journal_ok (snd (is_Append journal_store s e))" using journal_ok_Append [OF ok clean] by simp
  show "\<exists>new. journal_log (snd (is_Append journal_store s e)) = journal_log s @ new"
    by (cases rule: Append_cases [of s e]) (auto simp: journal_log_def)
  assume app: "is_Append journal_store s e = (Inr r, s')"
  show "\<exists>q \<in> set (journal_log s'). rc_Event q = e"
  proof (cases rule: Append_cases [of s e])
    case (duplicate envelope row)
    then have row: "row \<in> set (st_events s)" by (auto dest: tbl_lookup_SomeD)
    with ok have "event_row_ok row" by (simp add: journal_ok_def list_all_iff)
    then obtain e' where "record_of row = \<lparr>rc_Sequence = er_sequence row, rc_Event = e'\<rparr>" "Event_clean e'"
      "Event_json e' = Some (er_envelope row)" by (rule event_row_ok_dec)
    moreover from this(3) duplicate(1,3) have "e' = e" using Event_json_inj [OF clean \<open>Event_clean e'\<close>] by simp
    ultimately have "rc_Event (record_of row) = e" by simp
    with row duplicate app show ?thesis by (auto simp: journal_log_def)
  next
    case (inserted envelope rows)
    with app record_of_row(1) [OF clean inserted(2)] show ?thesis by (auto simp: journal_log_def)
  qed (use app in simp)
next
  fix s r
  assume ok: "journal_ok s"
  show "map rc_Sequence (journal_log s) = map int [1..<Suc (length (journal_log s))]"
    using journal_ok_sequences [OF ok] by (simp add: journal_log_def)
  show "distinct (map event_id (journal_log s))"
    using ok by (simp add: journal_log_ids journal_ok_def Store_inv_def tbl_keyed_def)
  show "Event_clean (rc_Event r)" if "r \<in> set (journal_log s)"
    using that ok by (auto simp: journal_log_def journal_ok_def list_all_iff elim!: event_row_ok_dec)
  show "is_Read journal_store s (int n) 1000 = Inr (take 1000 (drop n (journal_log s)))" for n
    using Read_drop [OF ok, of n 1000] by (simp add: journal_log_def)
qed

end
