(* ===== verification/Bridge_Outcome.thy ===== *)
theory Bridge_Outcome
  imports Bridge_Ingest_Props
begin

section \<open>What ingesting a scan does to the findings\<close>

text \<open>
  A scan with fresh event IDs is ingested without error, and afterwards the current findings
  are what its rows say. First one append at a time, then one row, then the scan.
\<close>

subsection \<open>Appends that succeed\<close>

definition encodes :: "Finding \<Rightarrow> bool" where
  "encodes f \<longleftrightarrow> Finding_json f \<noteq> None"

lemma encodes_iff:
  "encodes f \<longleftrightarrow> json_time (fi_FirstSeen f) \<and> json_time (fi_LastSeen f) \<and> json_time (fi_UpdatedAt f)
     \<and> pred_option json_time (fi_SuppressedUntil f) \<and> action_time_ok (fi_Acknowledgement f) \<and> action_time_ok (fi_Resolution f)"
  by (auto simp: encodes_def Finding_json_def split: option.splits)

abbreviation ids :: "Store \<Rightarrow> string set" where
  "ids s \<equiv> er_event_id ` set (st_events s)"

abbreviation findings :: "Store \<Rightarrow> string \<Rightarrow> Finding option" where
  "findings s \<equiv> findings_of (st_findings s)"

lemma Append_plain:
  assumes "journal_ok s" and "Event_clean e" and "Event_Validate e = None" and "\<not> IsFindingLifecycle e"
    and "ev_ID e \<notin> ids s" and "st_autoinc s < 2 ^ 63 - 1"
  shows "\<exists>s'. Append s e = (Inr (next_record s e), s') \<and> journal_ok s' \<and> st_autoinc s' = st_autoinc s + 1
    \<and> st_findings s' = st_findings s \<and> ids s' = insert (ev_ID e) (ids s)"
proof -
  obtain envelope where "Event_json e = Some envelope" using assms(2) Event_json_Some by blast
  with assms have app: "Append s e = (Inr (next_record s e), appended s e envelope (st_findings s))"
    by (simp add: Append_def appendEvent_def Let_def)
  with Append_spec(3) [OF assms(1,2,6)] show ?thesis by (simp add: event_row_of_def)
qed

lemma Append_projects:
  assumes "journal_ok s" and "Event_clean e" and "Event_Validate e = None" and "IsFindingLifecycle e"
    and "\<not> blank (ev_FindingID e)" and "ev_ID e \<notin> ids s" and "st_autoinc s < 2 ^ 63 - 1"
    and "project (findings s (ev_FindingID e)) (next_record s e) = Inr f"
    and "Finding_Validate f = None" and "encodes f"
  shows "\<exists>s'. Append s e = (Inr (next_record s e), s') \<and> journal_ok s' \<and> st_autoinc s' = st_autoinc s + 1
    \<and> findings s' = (findings s)(ev_FindingID e \<mapsto> f) \<and> ids s' = insert (ev_ID e) (ids s)"
proof -
  obtain envelope where envelope: "Event_json e = Some envelope" using assms(2) Event_json_Some by blast
  have inv: "Store_inv s" "list_all row_ok (st_findings s)" using assms(1) by (simp_all add: journal_ok_def)
  then have "record_ok (next_record s e)" using assms(2,7) by (simp add: record_ok_def Store_inv_def)
  from projectFinding_refines(1) [OF inv(2) this] assms(8-10)
  obtain g rows where "projectFinding (st_findings s) (next_record s e) = Inr (g, rows)"
    "findings_of rows = (findings s)(ev_FindingID e \<mapsto> f)"
    by (cases "projectFinding (st_findings s) (next_record s e)") (auto simp: spec_project_def encodes_def)
  with assms(3-7) envelope have app: "Append s e = (Inr (next_record s e), appended s e envelope rows)"
    and "findings_of rows = (findings s)(ev_FindingID e \<mapsto> f)"
    by (simp_all add: Append_def appendEvent_def Let_def)
  with Append_spec(3) [OF assms(1,2,7)] show ?thesis by (simp add: event_row_of_def)
qed

lemma findings_clean:
  assumes "journal_ok s" and "findings s k = Some g"
  shows "Finding_Validate g = None" and "encodes g" and "Finding_clean g"
proof -
  have rows: "list_all row_ok (st_findings s)" using assms(1) by (simp add: journal_ok_def)
  show "Finding_Validate g = None" by (rule findings_of_ok(2) [OF rows assms(2)])
  obtain row where row: "tbl_lookup fr_finding_id k (st_findings s) = Some row"
    and g: "dec_Finding (fr_document row) zero_Finding = Some g"
    using assms(2) by (auto simp: findings_of_def split: option.splits)
  then have "row_ok row" using rows by (auto simp: list_all_iff dest: tbl_lookup_SomeD)
  with g show clean: "Finding_clean g" by (auto elim: row_ok_dec)
  then show "encodes g" using Finding_json_roundtrip by (force simp: encodes_def)
qed

text \<open>The events that an ingestion appends: valid, and at a time SQL text can hold.\<close>

definition timely :: "Event \<Rightarrow> bool" where
  "timely e \<longleftrightarrow> Event_Validate e = None \<and> sql_year (ev_OccurredAt e) \<and> sql_year (ev_RecordedAt e)"

lemma timely_times:
  assumes "timely e"
  shows "json_time (UTC (ev_OccurredAt e))" "json_time (UTC (ev_RecordedAt e))"
    "\<not> IsZero (UTC (ev_OccurredAt e))" "\<not> IsZero (UTC (ev_RecordedAt e))" "\<not> blank (ev_ID e)"
  using assms by (simp_all add: timely_def json_time_UTC Event_Validate_None_iff IsZero_def)

lemma advance_ok:
  assumes "Finding_Validate g = None" and "encodes g" and "timely (rc_Event r)" and "0 < rc_Sequence r"
  shows "Finding_Validate (advanceFinding g r) = None \<and> encodes (advanceFinding g r)"
  using assms timely_times [OF assms(3)]
  by (simp add: Finding_Validate_None_iff encodes_iff advanceFinding_def IsZero_def)

lemma observe_ok:
  assumes "Finding_Validate g = None" and "encodes g" and "timely e"
    and "Observation_Validate obs = None" and "fi_Occurrences g + 1 \<noteq> 0"
  shows "Finding_Validate (observe_expire e (observe_reopen (observe_times e (observe_fields obs g)))) = None
    \<and> encodes (observe_expire e (observe_reopen (observe_times e (observe_fields obs g))))"
proof -
  note times = timely_times [OF assms(3)]
  have a: "Finding_Validate (observe_fields obs g) = None \<and> encodes (observe_fields obs g)"
    using assms by (simp add: Finding_Validate_None_iff encodes_iff observe_fields_def Observation_Validate_None_iff)
  have b: "Finding_Validate (observe_times e h) = None \<and> encodes (observe_times e h)"
    if "Finding_Validate h = None \<and> encodes h" for h
    using that times by (simp add: Finding_Validate_None_iff encodes_iff observe_times_def Let_def)
  have c: "Finding_Validate (observe_reopen h) = None \<and> encodes (observe_reopen h)"
    if "Finding_Validate h = None \<and> encodes h" for h
    using that by (auto simp: Finding_Validate_None_iff encodes_iff observe_reopen_def action_time_ok_def FindingState_Valid_def)
  have d: "Finding_Validate (observe_expire e h) = None \<and> encodes (observe_expire e h)"
    if "Finding_Validate h = None \<and> encodes h" for h
    using that by (simp add: Finding_Validate_None_iff encodes_iff observe_expire_def FindingState_Valid_def)
  show ?thesis by (rule d [OF c [OF b [OF a]]])
qed

lemma applyObservation_ok:
  assumes "journal_ok s" and "timely (rc_Event r)" and "0 < rc_Sequence r" and "Observation_Validate obs = None"
    and "\<not> blank (ev_FindingID (rc_Event r))"
    and "\<And>g. findings s k = Some g \<Longrightarrow> fi_Occurrences g + 1 \<noteq> 0"
  shows "Finding_Validate (applyObservation (findings s k) r obs) = None
    \<and> encodes (applyObservation (findings s k) r obs)"
proof (cases "findings s k")
  case None
  with assms timely_times [OF assms(2)] show ?thesis
    by (simp add: applyObservation_def Let_def Finding_Validate_None_iff encodes_iff zero_Finding_def
        action_time_ok_def FindingState_Valid_def Observation_Validate_None_iff)
next
  case (Some g)
  note ok = observe_ok [OF findings_clean(1,2) [OF assms(1) Some] assms(2,4) assms(6) [OF Some]]
  from advance_ok [OF conjunct1 [OF ok] conjunct2 [OF ok] assms(2,3)] Some show ?thesis
    by (simp add: applyObservation_def Let_def)
qed

subsection \<open>The payloads of a row's events\<close>

lemma dec_Remediation_json:
  "dec_Remediation (Remediation_json r) zero_Remediation =
     Some (r\<lparr>rem_Summary := sanitize (rem_Summary r), rem_Guide := sanitize (rem_Guide r)\<rparr>)"
  unfolding dec_Remediation_def Remediation_json_def
  by (rule dec_struct_members [OF plain_tables(3)])
    (simp_all add: plain_name_def omit_def dec_member Remediation_fields_def zero_Remediation_def by_name_def fld_def)

lemma blank_idem: "s = TrimSpace s \<Longrightarrow> blank s \<longleftrightarrow> s = []"
  by auto

lemma blank_append: "blank (c # s) \<Longrightarrow> ascii (c # s) \<Longrightarrow> IsSpace (byte c)"
  by (auto simp: blank_iff)

lemma ident_title: "validIdentifier s \<Longrightarrow> \<not> blank (s @ t)"
  by (cases s) (auto simp: validIdentifier_chars blank_iff ident_char_not_space ident_char_ascii)

lemma dec_observation_of:
  assumes "Snapshot_Validate snapshot = None" and "result \<in> set (ss_Results snapshot)"
  shows "\<exists>obs. dec_Observation (Observation_json (observation_of snapshot result)) zero_FindingObservation = Some obs
    \<and> Observation_Validate obs = None \<and> ob_Severity obs = cr_Severity result"
proof -
  note row = valid_row [OF assms]
  have labels: "dec_labels (labels_json [(''scope'', sm_Scope (ss_Metadata snapshot)),
        (''source'', sm_Source (ss_Metadata snapshot)), (''status'', cr_Status result)]) []
      = Some [(''scope'', sm_Scope (ss_Metadata snapshot)), (''source'', sm_Source (ss_Metadata snapshot)), (''status'', cr_Status result)]"
    using scan_labels_clean(4) [of "sm_Source (ss_Metadata snapshot)"] valid_metadata [OF assms(1)] status_ascii [OF row(3)]
    by (intro dec_labels_json) (simp_all add: labels_clean_def)
  have rem: "dec_ptr zero_Remediation dec_Remediation (Remediation_json r) None
      = Some (Some (r\<lparr>rem_Summary := sanitize (rem_Summary r), rem_Guide := sanitize (rem_Guide r)\<rparr>))" for r
    by (simp add: dec_ptr_Some json_notnull dec_Remediation_json)
  have clean: "clean (cr_Name result)" "clean (cr_Category result)" "clean (cr_Name result @ '' check reported '' @ cr_Status result)"
    "clean (cr_Severity result)"
    using row(1-4) status_ascii [OF row(3)] by (simp_all add: ascii_ident valid_severity_clean)
  have ok: "\<not> blank (cr_Name result)" "\<not> blank (cr_Name result @ '' check reported '' @ cr_Status result)"
    "\<not> blank (sanitize (cr_Summary result))"
    using row ident_title [OF row(2), of "[]"] ident_title [OF row(2)] by (simp_all add: blank_idem)
  show ?thesis
    using row(4) ok clean labels
    by (cases "cr_Remediation result = [] \<and> cr_Guide result = []")
      (auto simp: dec_Observation_def Observation_json_def observation_of_def dec_struct_plain plain_tables plain_name_def
        by_name_def FindingObservation_fields_def fld_def omit_def rem zero_FindingObservation_def Observation_Validate_None_iff)
qed

lemma bridgeEvent_timely:
  assumes "SnapshotDigest sha256 snapshot = Inr digest"
    and "bridgeEvent snapshot ident ty corr fid subj labs payload = Inr e"
  shows "timely e"
  using assms(2) digest_time [OF assms(1)] by (auto simp: bridgeEvent_Inr timely_def sql_year_def UTC_def)

lemma bridgeEvent_ok:
  assumes "SnapshotDigest sha256 snapshot = Inr digest" and "\<not> blank ident" and "\<not> blank ty"
  shows "\<exists>e. bridgeEvent snapshot ident ty corr fid subj labs (Some j) = Inr e \<and> timely e
    \<and> ev_ID e = ident \<and> ev_Type e = ty \<and> ev_FindingID e = fid \<and> ev_Payload e = RawJSON j"
proof -
  note d = digest_time [OF assms(1)]
  have "\<exists>e. bridgeEvent snapshot ident ty corr fid subj labs (Some j) = Inr e"
    using assms(2,3) valid_metadata(4,5) [OF d(1)]
    unfolding bridgeEvent_Inr by (simp add: Event_Validate_None_iff IsZero_def)
  then obtain e where e: "bridgeEvent snapshot ident ty corr fid subj labs (Some j) = Inr e" by blast
  with bridgeEvent_timely [OF assms(1) e] show ?thesis by (auto simp: bridgeEvent_Inr)
qed

lemma event_id_not_blank: "\<not> blank (deterministicEventID sha256 digest parts)"
  by (rule not_blank_ascii_hd) (simp_all add: ascii_event_id, simp_all add: deterministicEventID_def IsSpace_def)

subsection \<open>One row\<close>

definition row_ids :: "(string \<Rightarrow> 8 word list) \<Rightarrow> string \<Rightarrow> CheckResult \<Rightarrow> string list" where
  "row_ids sha256 digest result =
     map (\<lambda>ty. deterministicEventID sha256 digest [ty, cr_Category result, cr_Name result])
       [''check.result'', EventFindingObserved, EventFindingResolved]"

lemma row_ids_nth:
  "hd (row_ids sha256 digest result) = deterministicEventID sha256 digest [''check.result'', cr_Category result, cr_Name result]"
  "row_ids sha256 digest result ! 1 = deterministicEventID sha256 digest [EventFindingObserved, cr_Category result, cr_Name result]"
  "row_ids sha256 digest result ! 2 = deterministicEventID sha256 digest [EventFindingResolved, cr_Category result, cr_Name result]"
  by (simp_all add: row_ids_def)

text \<open>What a row says of its finding: \<open>before\<close> and \<open>after\<close> the scan.\<close>

definition row_outcome :: "CheckResult \<Rightarrow> Finding option \<Rightarrow> Finding option \<Rightarrow> bool" where
  "row_outcome result before after \<longleftrightarrow>
     (if cr_Status result = CheckStatusSkip then after = before
      else if cr_Status result = CheckStatusOK then
        (case after of None \<Rightarrow> before = None | Some f \<Rightarrow> fi_State f = FindingResolved)
      else (case after of None \<Rightarrow> False
            | Some f \<Rightarrow> fi_State f \<noteq> FindingResolved \<and> fi_Severity f = cr_Severity result))"

lemma check_appended:
  assumes "journal_ok s" and "SnapshotDigest sha256 snapshot = Inr digest" and "result \<in> set (ss_Results snapshot)"
    and "hd (row_ids sha256 digest result) \<notin> ids s" and "st_autoinc s < 2 ^ 63 - 1"
  shows "\<exists>s'. append_wrapped journal_store msg s (checkResultEvent sha256 snapshot result digest (''scan:'' @ digest)) = (None, s')
    \<and> journal_ok s' \<and> st_autoinc s' = st_autoinc s + 1 \<and> st_findings s' = st_findings s
    \<and> ids s' = insert (hd (row_ids sha256 digest result)) (ids s)"
proof -
  have ty: "\<not> blank ''check.result''" by (simp add: ident_not_blank ident_char_def)
  have "\<exists>e. checkResultEvent sha256 snapshot result digest (''scan:'' @ digest) = Inr e \<and> timely e
      \<and> ev_ID e = hd (row_ids sha256 digest result) \<and> ev_Type e = ''check.result''"
    unfolding checkResultEvent_def Let_def row_ids_nth CheckResultPayload_json_def
    by (rule ex_forward [OF bridgeEvent_ok [OF assms(2) event_id_not_blank ty]], elim conjE, intro conjI, assumption+)
  then obtain e where e: "checkResultEvent sha256 snapshot result digest (''scan:'' @ digest) = Inr e" "timely e"
    "ev_ID e = hd (row_ids sha256 digest result)" "ev_Type e = ''check.result''" by blast
  have "Event_clean e" using scan_events(1) [OF assms(2,3) e(1)] .
  moreover have "\<not> IsFindingLifecycle e" using e(4) by (simp add: IsFindingLifecycle_def event_type_defs)
  ultimately have "\<exists>s'. Append s e = (Inr (next_record s e), s') \<and> journal_ok s' \<and> st_autoinc s' = st_autoinc s + 1
    \<and> st_findings s' = st_findings s \<and> ids s' = insert (ev_ID e) (ids s)"
    using e assms(1,4,5) by (intro Append_plain) (simp_all add: timely_def)
  with e show ?thesis by (auto simp: append_wrapped_def)
qed

lemma observed_appended:
  assumes "journal_ok s" and "SnapshotDigest sha256 snapshot = Inr digest" and "result \<in> set (ss_Results snapshot)"
    and "row_ids sha256 digest result ! 1 \<notin> ids s" and "st_autoinc s < 2 ^ 63 - 1"
    and "\<And>g. findings s (checkFindingID result) = Some g \<Longrightarrow> fi_Occurrences g + 1 \<noteq> 0"
  shows "\<exists>s' f. append_wrapped journal_store msg s (findingObservedEvent sha256 snapshot result digest (''scan:'' @ digest)) = (None, s')
    \<and> journal_ok s' \<and> st_autoinc s' = st_autoinc s + 1 \<and> findings s' = (findings s)(checkFindingID result \<mapsto> f)
    \<and> fi_State f \<noteq> FindingResolved \<and> fi_Severity f = cr_Severity result
    \<and> ids s' = insert (row_ids sha256 digest result ! 1) (ids s)"
proof -
  note valid = digest_time(1) [OF assms(2)]
  have ty: "\<not> blank EventFindingObserved" by (simp add: ident_not_blank ident_char_def event_type_defs)
  have "\<exists>e. findingObservedEvent sha256 snapshot result digest (''scan:'' @ digest) = Inr e \<and> timely e
      \<and> ev_ID e = row_ids sha256 digest result ! 1 \<and> ev_Type e = EventFindingObserved
      \<and> ev_FindingID e = checkFindingID result
      \<and> ev_Payload e = RawJSON (Observation_json (observation_of snapshot result))"
    unfolding findingObservedEvent_def row_ids_nth
    by (rule ex_forward [OF bridgeEvent_ok [OF assms(2) event_id_not_blank ty]], elim conjE, intro conjI, assumption+)
  then obtain e where e: "findingObservedEvent sha256 snapshot result digest (''scan:'' @ digest) = Inr e" "timely e"
    "ev_ID e = row_ids sha256 digest result ! 1" "ev_Type e = EventFindingObserved" "ev_FindingID e = checkFindingID result"
    "ev_Payload e = RawJSON (Observation_json (observation_of snapshot result))" by blast
  obtain obs where obs: "dec_Observation (Observation_json (observation_of snapshot result)) zero_FindingObservation = Some obs"
    "Observation_Validate obs = None" "ob_Severity obs = cr_Severity result"
    using dec_observation_of [OF valid assms(3)] by blast
  let ?r = "next_record s e"
  let ?f = "applyObservation (findings s (checkFindingID result)) ?r obs"
  have p: "project (findings s (checkFindingID result)) ?r = Inr ?f"
    using e obs by (simp add: project_def Let_def decodePayload_def)
  have clean: "Event_clean e" using scan_events(2) [OF assms(2,3) e(1)] .
  have fid: "\<not> blank (checkFindingID result)"
    using valid_row(1,2) [OF valid assms(3)]
    by (intro not_blank_ascii_hd) (simp_all add: checkFindingID_def ascii_ident IsSpace_def)
  have pos: "0 < rc_Sequence ?r" using assms(1) by (simp add: journal_ok_def Store_inv_def)
  have ok: "Finding_Validate ?f = None \<and> encodes ?f"
    using e(2,5) obs(2) fid pos assms(6) by (intro applyObservation_ok [OF assms(1)]) simp_all
  have "lifecycle (map_option fi_State (findings s (checkFindingID result))) EventFindingObserved (fi_State ?f)"
    using project_lifecycle [OF p] e(4) by simp
  then have state: "fi_State ?f \<noteq> FindingResolved"
    by (cases "findings s (checkFindingID result)") (auto simp: lifecycle_Some)
  have sev: "fi_Severity ?f = cr_Severity result"
    using obs(3) by (simp add: applyObservation_def Let_def advanceFinding_def observe_expire_def observe_reopen_def
        observe_times_def observe_fields_def split: option.split)
  have "\<exists>s'. Append s e = (Inr ?r, s') \<and> journal_ok s' \<and> st_autoinc s' = st_autoinc s + 1
    \<and> findings s' = (findings s)(checkFindingID result \<mapsto> ?f) \<and> ids s' = insert (ev_ID e) (ids s)"
    using Append_projects [OF assms(1) clean, of ?f] e p ok fid assms(4,5) by (simp add: timely_def IsFindingLifecycle_def)
  with e state sev show ?thesis by (auto simp: append_wrapped_def)
qed

lemma resolved_appended:
  assumes "journal_ok s" and "SnapshotDigest sha256 snapshot = Inr digest" and "result \<in> set (ss_Results snapshot)"
    and "row_ids sha256 digest result ! 2 \<notin> ids s" and "st_autoinc s < 2 ^ 63 - 1"
    and "findings s (checkFindingID result) = Some g" and "fi_State g \<noteq> FindingResolved"
  shows "\<exists>s' f. append_wrapped journal_store msg s (findingResolvedEvent sha256 snapshot result digest (''scan:'' @ digest)) = (None, s')
    \<and> journal_ok s' \<and> st_autoinc s' = st_autoinc s + 1 \<and> findings s' = (findings s)(checkFindingID result \<mapsto> f)
    \<and> fi_State f = FindingResolved \<and> ids s' = insert (row_ids sha256 digest result ! 2) (ids s)"
proof -
  note valid = digest_time(1) [OF assms(2)]
  have ty: "\<not> blank EventFindingResolved" by (simp add: ident_not_blank ident_char_def event_type_defs)
  let ?tr = "\<lparr>tr_Actor = ''bridge:last-scan-v1'', tr_Note = ''check returned ok'', tr_Until = None\<rparr>"
  let ?j = "JObj [(''actor'', jstr ''bridge:last-scan-v1''), (''note'', jstr ''check returned ok'')]"
  have tj: "Transition_json ?tr = Some ?j" by (simp add: Transition_json_def omit_def)
  have "\<exists>e. findingResolvedEvent sha256 snapshot result digest (''scan:'' @ digest) = Inr e \<and> timely e
      \<and> ev_ID e = row_ids sha256 digest result ! 2 \<and> ev_Type e = EventFindingResolved
      \<and> ev_FindingID e = checkFindingID result \<and> ev_Payload e = RawJSON ?j"
    unfolding findingResolvedEvent_def row_ids_nth tj
    by (rule ex_forward [OF bridgeEvent_ok [OF assms(2) event_id_not_blank ty]], elim conjE, intro conjI, assumption+)
  then obtain e where e: "findingResolvedEvent sha256 snapshot result digest (''scan:'' @ digest) = Inr e" "timely e"
    "ev_ID e = row_ids sha256 digest result ! 2" "ev_Type e = EventFindingResolved" "ev_FindingID e = checkFindingID result"
    "ev_Payload e = RawJSON ?j" by blast
  have dec: "dec_Transition ?j zero_FindingTransition = Some ?tr"
    by (simp add: dec_Transition_def dec_struct_plain plain_tables plain_name_def by_name_def FindingTransition_fields_def
        fld_def zero_FindingTransition_def)
  have actor: "\<not> blank ''bridge:last-scan-v1''" by (rule not_blank_ascii_hd) (simp_all add: IsSpace_def)
  let ?r = "next_record s e"
  have rt: "readTransition e = Inr ?tr" using e(6) dec actor by (simp add: readTransition_def decodePayload_def)
  let ?g = "g\<lparr>fi_State := FindingResolved, fi_Resolution := actionFrom e ?tr, fi_SuppressedUntil := None\<rparr>"
  let ?f = "advanceFinding ?g ?r"
  have p: "project (findings s (checkFindingID result)) ?r = Inr ?f"
    using e(4) rt assms(6,7) by (simp add: project_def Let_def)
  have clean: "Event_clean e" using scan_events(3) [OF assms(2,3) e(1)] .
  have fid: "\<not> blank (checkFindingID result)"
    using valid_row(1,2) [OF valid assms(3)]
    by (intro not_blank_ascii_hd) (simp_all add: checkFindingID_def ascii_ident IsSpace_def)
  have pos: "0 < rc_Sequence ?r" using assms(1) by (simp add: journal_ok_def Store_inv_def)
  have "Finding_Validate ?g = None" "encodes ?g"
    using findings_clean(1,2) [OF assms(1,6)] timely_times [OF e(2)]
    by (simp_all add: Finding_Validate_None_iff encodes_iff FindingState_Valid_def action_time_ok_def actionFrom_def)
  with advance_ok [of ?g ?r] e(2) pos have ok: "Finding_Validate ?f = None \<and> encodes ?f" by simp
  have "\<exists>s'. Append s e = (Inr ?r, s') \<and> journal_ok s' \<and> st_autoinc s' = st_autoinc s + 1
    \<and> findings s' = (findings s)(checkFindingID result \<mapsto> ?f) \<and> ids s' = insert (ev_ID e) (ids s)"
    using Append_projects [OF assms(1) clean, of ?f] e p ok fid assms(4,5) by (simp add: timely_def IsFindingLifecycle_def)
  then obtain s' where "Append s e = (Inr ?r, s')" "journal_ok s'" "st_autoinc s' = st_autoinc s + 1"
    "findings s' = (findings s)(checkFindingID result \<mapsto> ?f)" "ids s' = insert (ev_ID e) (ids s)" by blast
  with e show ?thesis by (intro exI [of _ s'] exI [of _ ?f]) (simp add: append_wrapped_def)
qed

lemma CurrentFinding_findings:
  "journal_ok s \<Longrightarrow> CurrentFinding s k = (case findings s k of None \<Rightarrow> Inl ErrFindingNotFound | Some f \<Rightarrow> Inr f)"
  by (rule CurrentFinding_ok)

lemma ingest_row_outcome:
  assumes "journal_ok s" and "SnapshotDigest sha256 snapshot = Inr digest" and "result \<in> set (ss_Results snapshot)"
    and "set (row_ids sha256 digest result) \<inter> ids s = {}" and "distinct (row_ids sha256 digest result)"
    and "st_autoinc s + 2 < 2 ^ 63"
    and "\<And>g. findings s (checkFindingID result) = Some g \<Longrightarrow> fi_Occurrences g + 1 \<noteq> 0"
  shows "\<exists>s'. ingest_row sha256 journal_store snapshot digest (''scan:'' @ digest) s result = (None, s')
    \<and> journal_ok s' \<and> st_autoinc s' \<le> st_autoinc s + 2 \<and> ids s' \<subseteq> ids s \<union> set (row_ids sha256 digest result)
    \<and> (\<forall>k. k \<noteq> checkFindingID result \<longrightarrow> findings s' k = findings s k)
    \<and> row_outcome result (findings s (checkFindingID result)) (findings s' (checkFindingID result))"
proof -
  let ?c = "''scan:'' @ digest"
  let ?k = "checkFindingID result"
  have three: "row_ids sha256 digest result = [hd (row_ids sha256 digest result), row_ids sha256 digest result ! 1, row_ids sha256 digest result ! 2]"
    by (simp add: row_ids_def)
  then have fresh: "hd (row_ids sha256 digest result) \<notin> ids s" "row_ids sha256 digest result ! 1 \<notin> ids s"
    "row_ids sha256 digest result ! 2 \<notin> ids s" and mem: "hd (row_ids sha256 digest result) \<in> set (row_ids sha256 digest result)"
    "row_ids sha256 digest result ! 1 \<in> set (row_ids sha256 digest result)" "row_ids sha256 digest result ! 2 \<in> set (row_ids sha256 digest result)"
    using assms(4) by (metis disjoint_iff list.set_intros)+
  have ne: "row_ids sha256 digest result ! 1 \<noteq> hd (row_ids sha256 digest result)"
    "row_ids sha256 digest result ! 2 \<noteq> hd (row_ids sha256 digest result)"
    using assms(5) by (auto simp: row_ids_def)
  obtain s1 where s1: "append_wrapped journal_store ''append check result: %w'' s (checkResultEvent sha256 snapshot result digest ?c) = (None, s1)"
    "journal_ok s1" "st_autoinc s1 = st_autoinc s + 1" "st_findings s1 = st_findings s"
    "ids s1 = insert (hd (row_ids sha256 digest result)) (ids s)"
    using check_appended [OF assms(1-3) fresh(1), of "''append check result: %w''"] assms(6) by auto
  have room: "st_autoinc s1 < 2 ^ 63 - 1" using s1(3) assms(6) by simp
  have status: "cr_Status result \<in> set [CheckStatusOK, CheckStatusSkip, CheckStatusWarn, CheckStatusCritical, CheckStatusError]"
    using valid_row(3) [OF digest_time(1) [OF assms(2)] assms(3)] .
  then consider (bad) "cr_Status result \<in> set [CheckStatusWarn, CheckStatusCritical, CheckStatusError]"
    | (ok) "cr_Status result = CheckStatusOK" | (skip) "cr_Status result = CheckStatusSkip" by auto
  then show ?thesis
  proof cases
    case bad
    have "row_ids sha256 digest result ! 1 \<notin> ids s1" using s1(5) fresh(2) ne(1) by simp
    from observed_appended [OF s1(2) assms(2,3) this room, of "''append observed finding: %w''"] assms(7) s1(4)
    obtain s2 f where "append_wrapped journal_store ''append observed finding: %w'' s1 (findingObservedEvent sha256 snapshot result digest ?c) = (None, s2)"
      "journal_ok s2" "st_autoinc s2 = st_autoinc s1 + 1" "findings s2 = (findings s1)(?k \<mapsto> f)"
      "fi_State f \<noteq> FindingResolved" "fi_Severity f = cr_Severity result"
      "ids s2 = insert (row_ids sha256 digest result ! 1) (ids s1)" by auto
    moreover have "cr_Status result \<noteq> CheckStatusOK" "cr_Status result \<noteq> CheckStatusSkip"
      using bad by (auto simp: status_defs)
    ultimately show ?thesis
      using bad s1 mem by (intro exI [of _ s2]) (simp add: ingest_row_def row_outcome_def)
  next
    case ok
    then have no: "cr_Status result \<notin> set [CheckStatusWarn, CheckStatusCritical, CheckStatusError]"
      "cr_Status result \<noteq> CheckStatusSkip" by (auto simp: status_defs)
    show ?thesis
    proof (cases "findings s ?k = None \<or> (\<exists>g. findings s ?k = Some g \<and> fi_State g = FindingResolved)")
      case True
      then have "ingest_ok_row sha256 journal_store snapshot digest ?c s1 result = (None, s1)"
        using s1(4) by (auto simp: ingest_ok_row_def CurrentFinding_findings [OF s1(2)] ErrFindingNotFound_def)
      with True ok no s1 mem show ?thesis
        by (intro exI [of _ s1]) (auto simp: ingest_row_def row_outcome_def)
    next
      case False
      then obtain g where g: "findings s1 ?k = Some g" "fi_State g \<noteq> FindingResolved" using s1(4) by auto
      have "row_ids sha256 digest result ! 2 \<notin> ids s1" using s1(5) fresh(3) ne(2) by simp
      from resolved_appended [OF s1(2) assms(2,3) this room g, of "''append resolved finding: %w''"]
      obtain s2 f where "append_wrapped journal_store ''append resolved finding: %w'' s1 (findingResolvedEvent sha256 snapshot result digest ?c) = (None, s2)"
        "journal_ok s2" "st_autoinc s2 = st_autoinc s1 + 1" "findings s2 = (findings s1)(?k \<mapsto> f)"
        "fi_State f = FindingResolved" "ids s2 = insert (row_ids sha256 digest result ! 2) (ids s1)" by auto
      with g ok no s1 mem show ?thesis
        by (intro exI [of _ s2]) (simp add: ingest_row_def ingest_ok_row_def CurrentFinding_findings row_outcome_def)
    qed
  next
    case skip
    then have "cr_Status result \<notin> set [CheckStatusWarn, CheckStatusCritical, CheckStatusError]"
      "cr_Status result \<noteq> CheckStatusOK" by (auto simp: status_defs)
    with skip s1 mem show ?thesis
      by (intro exI [of _ s1]) (auto simp: ingest_row_def row_outcome_def)
  qed
qed

subsection \<open>The whole scan\<close>

lemma ingest_rows_outcome:
  assumes "SnapshotDigest sha256 snapshot = Inr digest"
  shows "journal_ok s \<Longrightarrow> set rows \<subseteq> set (ss_Results snapshot) \<Longrightarrow> distinct (map checkFindingID rows)
    \<Longrightarrow> distinct (concat (map (row_ids sha256 digest) rows))
    \<Longrightarrow> set (concat (map (row_ids sha256 digest) rows)) \<inter> ids s = {}
    \<Longrightarrow> st_autoinc s + 2 * int (length rows) < 2 ^ 63
    \<Longrightarrow> \<forall>r \<in> set rows. \<forall>g. findings s (checkFindingID r) = Some g \<longrightarrow> fi_Occurrences g + 1 \<noteq> 0
    \<Longrightarrow> \<exists>s'. ingest_rows sha256 journal_store snapshot digest (''scan:'' @ digest) s rows = (None, s')
      \<and> journal_ok s' \<and> st_autoinc s' \<le> st_autoinc s + 2 * int (length rows)
      \<and> ids s' \<subseteq> ids s \<union> set (concat (map (row_ids sha256 digest) rows))
      \<and> (\<forall>k. k \<notin> checkFindingID ` set rows \<longrightarrow> findings s' k = findings s k)
      \<and> (\<forall>r \<in> set rows. row_outcome r (findings s (checkFindingID r)) (findings s' (checkFindingID r)))"
proof (induction rows arbitrary: s)
  case (Cons r rows)
  have row: "r \<in> set (ss_Results snapshot)" "set (row_ids sha256 digest r) \<inter> ids s = {}"
    "distinct (row_ids sha256 digest r)" "st_autoinc s + 2 < 2 ^ 63"
    using Cons.prems(2,4-6) by auto
  obtain s1 where s1: "ingest_row sha256 journal_store snapshot digest (''scan:'' @ digest) s r = (None, s1)"
    "journal_ok s1" "st_autoinc s1 \<le> st_autoinc s + 2" "ids s1 \<subseteq> ids s \<union> set (row_ids sha256 digest r)"
    "\<forall>k. k \<noteq> checkFindingID r \<longrightarrow> findings s1 k = findings s k"
    "row_outcome r (findings s (checkFindingID r)) (findings s1 (checkFindingID r))"
    using ingest_row_outcome [OF Cons.prems(1) assms row] Cons.prems(7) by auto
  have other: "checkFindingID q \<noteq> checkFindingID r" if "q \<in> set rows" for q
    using Cons.prems(3) that by (metis distinct.simps(2) image_eqI list.simps(9) set_map)
  have disj: "set (concat (map (row_ids sha256 digest) rows)) \<inter> ids s1 = {}"
    using s1(4) Cons.prems(4,5) unfolding list.map concat.simps set_append distinct_append by blast
  have counters: "\<forall>q \<in> set rows. \<forall>g. findings s1 (checkFindingID q) = Some g \<longrightarrow> fi_Occurrences g + 1 \<noteq> 0"
    using s1(5) other Cons.prems(7) by (metis list.set_intros(2))
  have rest: "set rows \<subseteq> set (ss_Results snapshot)" "distinct (map checkFindingID rows)"
    "distinct (concat (map (row_ids sha256 digest) rows))" using Cons.prems(2-4) by simp_all
  have room: "st_autoinc s1 + 2 * int (length rows) < 2 ^ 63" using s1(3) Cons.prems(6) by simp
  from Cons.IH [OF s1(2) rest disj room counters] obtain s2 where s2:
    "ingest_rows sha256 journal_store snapshot digest (''scan:'' @ digest) s1 rows = (None, s2)"
    "journal_ok s2" "st_autoinc s2 \<le> st_autoinc s1 + 2 * int (length rows)"
    "ids s2 \<subseteq> ids s1 \<union> set (concat (map (row_ids sha256 digest) rows))"
    "\<forall>k. k \<notin> checkFindingID ` set rows \<longrightarrow> findings s2 k = findings s1 k"
    "\<forall>q \<in> set rows. row_outcome q (findings s1 (checkFindingID q)) (findings s2 (checkFindingID q))"
    by blast
  have own: "checkFindingID r \<notin> checkFindingID ` set rows" by (auto dest: other)
  show ?case
  proof (intro exI [of _ s2] conjI)
    show "ingest_rows sha256 journal_store snapshot digest (''scan:'' @ digest) s (r # rows) = (None, s2)"
      using s1(1) s2(1) by simp
    show "st_autoinc s2 \<le> st_autoinc s + 2 * int (length (r # rows))" using s1(3) s2(3) by simp
    show "ids s2 \<subseteq> ids s \<union> set (concat (map (row_ids sha256 digest) (r # rows)))"
      using s1(4) s2(4) unfolding list.map concat.simps set_append by blast
    show "\<forall>k. k \<notin> checkFindingID ` set (r # rows) \<longrightarrow> findings s2 k = findings s k" using s1(5) s2(5) by simp
    show "\<forall>q \<in> set (r # rows). row_outcome q (findings s (checkFindingID q)) (findings s2 (checkFindingID q))"
    proof
      fix q
      assume q: "q \<in> set (r # rows)"
      show "row_outcome q (findings s (checkFindingID q)) (findings s2 (checkFindingID q))"
      proof (cases "q = r")
        case True
        with s1(6) s2(5) own show ?thesis by simp
      next
        case False
        with q s2(6) s1(5) other show ?thesis by (metis set_ConsD)
      qed
    qed
  qed (rule s2(2))
qed simp

definition scan_event_ids :: "(string \<Rightarrow> 8 word list) \<Rightarrow> ScanSnapshot \<Rightarrow> string \<Rightarrow> string list" where
  "scan_event_ids sha256 snapshot digest =
     deterministicEventID sha256 digest [''scan.completed'']
       # concat (map (row_ids sha256 digest) (sortResults (ss_Results snapshot)))"

definition finding_at :: "Store \<Rightarrow> string \<Rightarrow> Finding option" where
  "finding_at s k = (case CurrentFinding s k of Inl _ \<Rightarrow> None | Inr f \<Rightarrow> Some f)"

lemma finding_at_findings: "journal_ok s \<Longrightarrow> finding_at s = findings s"
  by (auto simp: finding_at_def CurrentFinding_findings fun_eq_iff split: option.split)

lemma slash_inject:
  "CHR ''/'' \<notin> set a \<Longrightarrow> CHR ''/'' \<notin> set c \<Longrightarrow> a @ CHR ''/'' # b = c @ CHR ''/'' # d \<Longrightarrow> a = c \<and> b = d"
  by (induction a arbitrary: c) (auto simp: Cons_eq_append_conv)

lemma checkFindingID_inject:
  assumes "validIdentifier (cr_Category r)" and "validIdentifier (cr_Category q)" and "checkFindingID r = checkFindingID q"
  shows "row_key r = row_key q"
proof -
  have "CHR ''/'' \<notin> set x" if "validIdentifier x" for x
    using that by (auto simp: validIdentifier_chars list_all_iff ident_char_def)
  with assms slash_inject [of "cr_Category r" "cr_Category q" "cr_Name r" "cr_Name q"] show ?thesis
    by (simp add: checkFindingID_def row_key_def)
qed

lemma distinct_finding_ids:
  assumes "Snapshot_Validate snapshot = None"
  shows "distinct (map checkFindingID (sortResults (ss_Results snapshot)))"
proof -
  have "inj_on row_key (set (ss_Results snapshot))" "distinct (ss_Results snapshot)"
    using assms distinct_row_key by (auto simp: Snapshot_Validate_None_iff distinct_map)
  moreover have "inj_on checkFindingID (set (ss_Results snapshot))"
  proof (rule inj_onI)
    fix r q
    assume "r \<in> set (ss_Results snapshot)" "q \<in> set (ss_Results snapshot)" "checkFindingID r = checkFindingID q"
    then show "r = q"
      using checkFindingID_inject [of r q] valid_row(1) [OF assms] calculation(1) by (simp add: inj_on_def)
  qed
  moreover have "distinct (sortResults (ss_Results snapshot))"
    using calculation(2) by (metis mset_eq_imp_distinct_iff mset_sortResults)
  ultimately show ?thesis by (simp add: distinct_map)
qed

lemma completed_ok:
  assumes "SnapshotDigest sha256 snapshot = Inr digest"
    and "json_time (sm_Timestamp (ss_Metadata snapshot))" and "json_time (sm_UpdatedAt (ss_Metadata snapshot))"
  shows "\<exists>e. scanCompletedEvent sha256 snapshot digest (''scan:'' @ digest) = Inr e \<and> timely e
    \<and> ev_ID e = deterministicEventID sha256 digest [''scan.completed''] \<and> ev_Type e = ''scan.completed''"
proof -
  have ty: "\<not> blank ''scan.completed''" by (simp add: ident_not_blank ident_char_def)
  obtain j where j: "ScanCompletedPayload_json \<lparr>scp_Schema = ScanCompletedSchema, scp_SchemaVersion = PayloadSchemaVersion,
          scp_Metadata = ss_Metadata snapshot, scp_Counts = scanCounts (ss_Results snapshot)\<rparr> = Some j"
    using assms(2,3) by (simp add: ScanCompletedPayload_json_def)
  show ?thesis
    unfolding scanCompletedEvent_def j
    by (rule ex_forward [OF bridgeEvent_ok [OF assms(1) event_id_not_blank ty]], elim conjE, intro conjI, assumption+)
qed

lemma IngestScan_outcome:
  assumes "journal_ok s" and "SnapshotDigest sha256 snapshot = Inr digest"
    and "json_time (sm_Timestamp (ss_Metadata snapshot))" and "json_time (sm_UpdatedAt (ss_Metadata snapshot))"
    and "distinct (scan_event_ids sha256 snapshot digest)"
    and "set (scan_event_ids sha256 snapshot digest) \<inter> ids s = {}"
    and "st_autoinc s + 2 * int (length (ss_Results snapshot)) + 1 < 2 ^ 63"
    and "\<forall>r \<in> set (ss_Results snapshot). \<forall>g. finding_at s (checkFindingID r) = Some g \<longrightarrow> fi_Occurrences g + 1 \<noteq> 0"
  shows "\<exists>s'. IngestScan sha256 (Some journal_store) s snapshot = Some (Inr (envelope_of snapshot digest), s')
    \<and> (\<forall>r \<in> set (ss_Results snapshot). row_outcome r (finding_at s (checkFindingID r)) (finding_at s' (checkFindingID r)))
    \<and> (\<forall>k. k \<notin> checkFindingID ` set (ss_Results snapshot) \<longrightarrow> finding_at s' k = finding_at s k)"
proof -
  let ?c = "''scan:'' @ digest"
  let ?rows = "sortResults (ss_Results snapshot)"
  note valid = digest_time(1) [OF assms(2)]
  obtain e where e: "scanCompletedEvent sha256 snapshot digest ?c = Inr e" "timely e"
    "ev_ID e = deterministicEventID sha256 digest [''scan.completed'']" "ev_Type e = ''scan.completed''"
    using completed_ok [OF assms(2-4)] by blast
  have "ev_ID e \<notin> set (map event_id (journal_log s))"
    using assms(6) e(3) by (simp add: journal_log_ids [OF assms(1)] scan_event_ids_def)
  then have new: "eventByID journal_store s (ev_ID e) 0 = Some (Inr None)"
    unfolding ingest.eventByID_start [OF assms(1)] by (force simp: find_None_iff)
  have rows: "distinct (concat (map (row_ids sha256 digest) ?rows))" "set (concat (map (row_ids sha256 digest) ?rows)) \<inter> ids s = {}"
    using assms(5,6) by (auto simp: scan_event_ids_def)
  obtain s1 where s1: "ingest_rows sha256 journal_store snapshot digest ?c s ?rows = (None, s1)"
    "journal_ok s1" "st_autoinc s1 \<le> st_autoinc s + 2 * int (length ?rows)"
    "ids s1 \<subseteq> ids s \<union> set (concat (map (row_ids sha256 digest) ?rows))"
    "\<forall>k. k \<notin> checkFindingID ` set ?rows \<longrightarrow> findings s1 k = findings s k"
    "\<forall>r \<in> set ?rows. row_outcome r (findings s (checkFindingID r)) (findings s1 (checkFindingID r))"
    using ingest_rows_outcome [OF assms(2,1) _ distinct_finding_ids [OF valid] rows] assms(7,8)
    by (auto simp: finding_at_findings [OF assms(1)])
  have clean: "Event_clean e" using completed_event [OF assms(2) e(1)] .
  have life: "\<not> IsFindingLifecycle e" using e(4) by (simp add: IsFindingLifecycle_def event_type_defs)
  have fresh: "ev_ID e \<notin> ids s1" using s1(4) assms(5,6) e(3) by (auto simp: scan_event_ids_def)
  have room: "st_autoinc s1 < 2 ^ 63 - 1" using s1(3) assms(7) by simp
  obtain s2 where s2: "Append s1 e = (Inr (next_record s1 e), s2)" "journal_ok s2" "st_findings s2 = st_findings s1"
    using Append_plain [OF s1(2) clean _ life fresh room] e(2) by (auto simp: timely_def)
  have "IngestScan sha256 (Some journal_store) s snapshot = Some (Inr (envelope_of snapshot digest), s2)"
    using valid assms(2) e(1) new s1(1) s2(1) by (simp add: IngestScan_def ingest_new_def append_wrapped_def)
  moreover have "findings s2 = findings s1" using s2(3) by simp
  ultimately show ?thesis
    using s1(5,6) by (intro exI [of _ s2]) (simp add: finding_at_findings assms(1) s2(2))
qed

subsection \<open>Event IDs of a hash without collisions\<close>

lemma nul_parts_inject:
  "list_all (\<lambda>p. nul \<notin> set p) ps \<Longrightarrow> list_all (\<lambda>p. nul \<notin> set p) qs
    \<Longrightarrow> concat (map ((#) nul) ps) = concat (map ((#) nul) qs) \<Longrightarrow> ps = qs"
proof (induction ps arbitrary: qs)
  case Nil
  then show ?case by (cases qs) auto
next
  case (Cons p ps)
  then obtain q qs' where qs: "qs = q # qs'" by (cases qs) auto
  have eq: "p @ concat (map ((#) nul) ps) = q @ concat (map ((#) nul) qs')" using Cons.prems(3) qs by simp
  have free: "nul \<notin> set p" "nul \<notin> set q" using Cons.prems(1,2) qs by auto
  have "p = q \<and> concat (map ((#) nul) ps) = concat (map ((#) nul) qs')"
  proof (cases ps)
    case Nil
    then have "p = q @ concat (map ((#) nul) qs')" using eq by simp
    with free show ?thesis using Nil by (cases qs') auto
  next
    case (Cons a as)
    then obtain b bs where "qs' = b # bs" using eq free by (cases qs') auto
    with Cons eq free nul_key_inject [of p q] show ?thesis by auto
  qed
  with Cons qs show ?case by simp
qed

definition event_parts :: "CheckResult list \<Rightarrow> string list list" where
  "event_parts rows = [''scan.completed''] #
     concat (map (\<lambda>r. map (\<lambda>ty. [ty, cr_Category r, cr_Name r])
       [''check.result'', EventFindingObserved, EventFindingResolved]) rows)"

lemma scan_event_ids_parts:
  "scan_event_ids sha256 snapshot digest =
     map (deterministicEventID sha256 digest) (event_parts (sortResults (ss_Results snapshot)))"
proof -
  have "row_ids sha256 digest = (\<lambda>r. map (deterministicEventID sha256 digest)
      (map (\<lambda>ty. [ty, cr_Category r, cr_Name r]) [''check.result'', EventFindingObserved, EventFindingResolved]))"
    by (simp add: fun_eq_iff row_ids_def)
  then show ?thesis by (simp add: scan_event_ids_def event_parts_def map_concat comp_def)
qed

lemma distinct_event_parts: "distinct (map row_key rows) \<Longrightarrow> distinct (event_parts rows)"
  by (induction rows) (auto simp: event_parts_def row_key_def event_type_defs image_iff)

lemma inj_hex_encode: "inj hex_encode"
proof -
  have digits: "hex_digit m = hex_digit n \<longleftrightarrow> m = n" if "m < 16" "n < 16" for m n
    unfolding hex_digit_def using that by (intro nth_eq_iff_index_eq) simp_all
  have byte: "b = c" if "hex_digit (unat b div 16) = hex_digit (unat c div 16)"
    "hex_digit (unat b mod 16) = hex_digit (unat c mod 16)" for b c :: "8 word"
    using that byte_nibbles [of b] byte_nibbles [of c]
    by (metis digits div_mult_mod_eq unsigned_word_eqI)
  have "bs = cs" if "hex_encode bs = hex_encode cs" for bs cs
    using that
  proof (induction bs arbitrary: cs)
    case Nil
    then show ?case by (cases cs) (auto simp: hex_encode_def)
  next
    case (Cons b bs)
    then show ?case by (cases cs) (auto simp: hex_encode_def dest: byte)
  qed
  then show ?thesis by (rule injI)
qed

lemma distinct_scan_event_ids:
  assumes "inj sha256" and "Snapshot_Validate snapshot = None"
  shows "distinct (scan_event_ids sha256 snapshot digest)"
proof -
  let ?parts = "event_parts (sortResults (ss_Results snapshot))"
  have "list_all (list_all (\<lambda>p. nul \<notin> set p)) ?parts"
    using valid_row(1,2) [OF assms(2), THEN validIdentifier_no_nul]
    by (auto simp: event_parts_def list_all_iff event_type_defs nul_def)
  then have free: "list_all (\<lambda>p. nul \<notin> set p) ps" if "ps \<in> set ?parts" for ps
    using that by (simp add: list_all_iff)
  have "inj_on (deterministicEventID sha256 digest) (set ?parts)"
  proof (rule inj_onI)
    fix ps qs
    assume mem: "ps \<in> set ?parts" "qs \<in> set ?parts"
    assume "deterministicEventID sha256 digest ps = deterministicEventID sha256 digest qs"
    then have "hex_encode (sha256 (hashed_text digest ps)) = hex_encode (sha256 (hashed_text digest qs))"
      by (simp add: deterministicEventID_def)
    then have "hashed_text digest ps = hashed_text digest qs" using inj_hex_encode assms(1) by (simp add: inj_eq)
    then have "concat (map ((#) nul) ps) = concat (map ((#) nul) qs)" by (simp add: hashed_text_def)
    with free mem show "ps = qs" by (blast intro: nul_parts_inject)
  qed
  moreover have "distinct (map row_key (sortResults (ss_Results snapshot)))"
    using assms(2) distinct_row_key
    by (metis Snapshot_Validate_None_iff mset_eq_imp_distinct_iff mset_map mset_sortResults)
  ultimately show ?thesis unfolding scan_event_ids_parts by (simp add: distinct_map distinct_event_parts)
qed

subsection \<open>Properties\<close>

text \<open>
  C40: ingesting a scan into the journal always returns, whatever the snapshot and the hash
  function, and only adds records at the end of the log.
\<close>

theorem ingest_returns:
  assumes "journal_ok s"
  shows "\<exists>r s'. IngestScan sha256 (Some journal_store) s snapshot = Some (r, s') \<and> journal_ok s'
    \<and> (\<exists>new. journal_log s' = journal_log s @ new)"
  by (rule ingest.IngestScan_returns [OF assms])

text \<open>
  C39: a scan ingested once is recognised: ingesting it again changes nothing and returns the
  same envelope marked as already ingested.
\<close>

theorem ingest_again_recognised:
  assumes "journal_ok s" and "IngestScan sha256 (Some journal_store) s snapshot = Some (Inr envelope, s')"
  shows "IngestScan sha256 (Some journal_store) s' snapshot = Some (Inr (envelope\<lparr>ie_AlreadyIngested := True\<rparr>), s')"
  by (rule ingest.IngestScan_again [OF assms])

text \<open>
  C3: a valid scan none of whose event IDs collide or are in the log is ingested without
  error, and afterwards each row's finding is as the row says: present, unresolved and of the
  row's severity for warn, critical and error; absent or resolved for ok; as it was for skip.
  Findings no row names stay as they were.
\<close>

theorem ingest_scan_outcome:
  assumes "journal_ok s" and "SnapshotDigest sha256 snapshot = Inr digest"
    and "json_time (sm_Timestamp (ss_Metadata snapshot))" and "json_time (sm_UpdatedAt (ss_Metadata snapshot))"
    and "distinct (scan_event_ids sha256 snapshot digest)"
    and "set (scan_event_ids sha256 snapshot digest) \<inter> er_event_id ` set (st_events s) = {}"
    and "st_autoinc s + 2 * int (length (ss_Results snapshot)) + 1 < 2 ^ 63"
    and "\<forall>r \<in> set (ss_Results snapshot). \<forall>g. finding_at s (checkFindingID r) = Some g \<longrightarrow> fi_Occurrences g + 1 \<noteq> 0"
  shows "\<exists>s'. IngestScan sha256 (Some journal_store) s snapshot = Some (Inr (envelope_of snapshot digest), s')
    \<and> (\<forall>r \<in> set (ss_Results snapshot). row_outcome r (finding_at s (checkFindingID r)) (finding_at s' (checkFindingID r)))
    \<and> (\<forall>k. k \<notin> checkFindingID ` set (ss_Results snapshot) \<longrightarrow> finding_at s' k = finding_at s k)"
  by (rule IngestScan_outcome [OF assms])

definition sample_sha :: "string \<Rightarrow> 8 word list" where
  "sample_sha text = map (\<lambda>c. word_of_nat (byte c)) text"

lemma inj_sample_sha: "inj sample_sha"
proof (rule injI)
  fix s t
  assume eq: "sample_sha s = sample_sha t"
  have "inj (\<lambda>c. word_of_nat (byte c) :: 8 word)"
  proof (rule injI)
    fix c d :: char
    assume "word_of_nat (byte c) = (word_of_nat (byte d) :: 8 word)"
    then have "byte c mod 256 = byte d mod 256" by (simp add: word_of_nat_eq_iff take_bit_eq_mod)
    then show "c = d" by (simp add: of_char_mod_256)
  qed
  with eq show "s = t" unfolding sample_sha_def by (simp add: inj_map_eq_map)
qed

lemma sample_scan_digest: "\<exists>digest. SnapshotDigest sample_sha sample_scan = Inr digest"
  using sample_scan_valid
  by (simp add: SnapshotDigest_def Snapshot_json_def canonical_snapshot_def json_time_UTC sql_year_def
      sample_scan_def year_of_def day_ns_def split: option.split) 

theorem ingest_scan_outcome_witness:
  "\<exists>digest s' f. IngestScan sample_sha (Some journal_store) (opened sample_clock) sample_scan
      = Some (Inr (envelope_of sample_scan digest), s')
    \<and> finding_at s' ''check:network/ufw'' = Some f \<and> fi_State f \<noteq> FindingResolved \<and> fi_Severity f = SeverityWarn"
proof -
  obtain digest where d: "SnapshotDigest sample_sha sample_scan = Inr digest" using sample_scan_digest by blast
  have "json_time (sm_Timestamp (ss_Metadata sample_scan))" "json_time (sm_UpdatedAt (ss_Metadata sample_scan))"
    by (simp_all add: sample_scan_def json_time_def year_of_def day_ns_def Second_def)
  then obtain s' where s': "IngestScan sample_sha (Some journal_store) (opened sample_clock) sample_scan
      = Some (Inr (envelope_of sample_scan digest), s')"
    "row_outcome sample_row (finding_at (opened sample_clock) (checkFindingID sample_row)) (finding_at s' (checkFindingID sample_row))"
    using ingest_scan_outcome [OF opened_ok(1) d _ _ distinct_scan_event_ids [OF inj_sample_sha sample_scan_valid], of sample_clock]
    by (auto simp: opened_tables finding_at_def CurrentFinding_def sample_scan_def)
  moreover have "checkFindingID sample_row = ''check:network/ufw''" by (simp add: checkFindingID_def sample_row_def)
  ultimately show ?thesis
    by (auto simp: row_outcome_def sample_row_def status_defs split: option.splits)
qed

theorem ingest_returns_witness:
  "\<exists>r s'. IngestScan (\<lambda>_. []) (Some journal_store) (opened sample_clock) sample_scan = Some (r, s')"
  using ingest_returns [OF opened_ok(1)] by blast

theorem ingest_again_recognised_witness:
  "\<exists>envelope s'. IngestScan sample_sha (Some journal_store) s' sample_scan
     = Some (Inr (envelope\<lparr>ie_AlreadyIngested := True\<rparr>), s')"
proof -
  obtain digest where d: "SnapshotDigest sample_sha sample_scan = Inr digest" using sample_scan_digest by blast
  have times: "json_time (sm_Timestamp (ss_Metadata sample_scan))" "json_time (sm_UpdatedAt (ss_Metadata sample_scan))"
    by (simp_all add: sample_scan_def json_time_def year_of_def day_ns_def Second_def)
  obtain s' where "IngestScan sample_sha (Some journal_store) (opened sample_clock) sample_scan
      = Some (Inr (envelope_of sample_scan digest), s')"
    using IngestScan_outcome [OF opened_ok(1) d times distinct_scan_event_ids [OF inj_sample_sha sample_scan_valid], of sample_clock]
    by (auto simp: opened_tables finding_at_def CurrentFinding_def sample_scan_def)
  then show ?thesis using ingest_again_recognised [OF opened_ok(1)] by blast
qed

end
