(* ===== verification/GoBase64.thy ===== *)
theory GoBase64
  imports GoNet
begin

section \<open>Base64 without padding (encoding/base64)\<close>

text \<open>
  \<open>RawStdEncoding\<close> and \<open>RawURLEncoding\<close>: six bits a character, no padding. Decoding skips line
  breaks, ignores the unused low bits of the last character and fails on any other character
  and on a single left-over character. Encoding followed by decoding is the identity.
\<close>

definition std_alphabet :: string where
  "std_alphabet = ''ABCDEFGHIJKLMNOPQRSTUVWXYZabcdefghijklmnopqrstuvwxyz0123456789+/''"

definition url_alphabet :: string where
  "url_alphabet = ''ABCDEFGHIJKLMNOPQRSTUVWXYZabcdefghijklmnopqrstuvwxyz0123456789-_''"

text \<open>The bytes as groups of six bits.\<close>

fun sextets :: "8 word list \<Rightarrow> nat list" where
  "sextets [] = []"
| "sextets [a] = [unat a div 4, (unat a mod 4) * 16]"
| "sextets [a, b] = [unat a div 4, (unat a mod 4) * 16 + unat b div 16, (unat b mod 16) * 4]"
| "sextets (a # b # c # rest) =
     unat a div 4 # ((unat a mod 4) * 16 + unat b div 16) # ((unat b mod 16) * 4 + unat c div 64)
       # unat c mod 64 # sextets rest"

fun unsextets :: "nat list \<Rightarrow> 8 word list option" where
  "unsextets [] = Some []"
| "unsextets [p] = None"
| "unsextets [p, q] = Some [word_of_nat (p * 4 + q div 16)]"
| "unsextets [p, q, r] = Some [word_of_nat (p * 4 + q div 16), word_of_nat ((q mod 16) * 16 + r div 4)]"
| "unsextets (p # q # r # s # rest) =
     (case unsextets rest of
        None \<Rightarrow> None
      | Some bs \<Rightarrow> Some (word_of_nat (p * 4 + q div 16) # word_of_nat ((q mod 16) * 16 + r div 4)
                    # word_of_nat ((r mod 4) * 64 + s) # bs))"

definition base64_encode :: "string \<Rightarrow> 8 word list \<Rightarrow> string" where
  "base64_encode alphabet bytes = map (\<lambda>n. alphabet ! n) (sextets bytes)"

fun index_of :: "char \<Rightarrow> string \<Rightarrow> nat option" where
  "index_of c [] = None"
| "index_of c (d # ds) = (if c = d then Some 0 else map_option Suc (index_of c ds))"

fun all_indices :: "string \<Rightarrow> string \<Rightarrow> nat list option" where
  "all_indices alphabet [] = Some []"
| "all_indices alphabet (c # s) =
     (case index_of c alphabet of
        None \<Rightarrow> None
      | Some n \<Rightarrow> map_option ((#) n) (all_indices alphabet s))"

definition base64_decode :: "string \<Rightarrow> string \<Rightarrow> 8 word list option" where
  "base64_decode alphabet s =
     (case all_indices alphabet (filter (\<lambda>c. c \<noteq> CHR 0x0A \<and> c \<noteq> CHR 0x0D) s) of
        None \<Rightarrow> None | Some ns \<Rightarrow> unsextets ns)"

lemma byte_bound: "unat (a :: 8 word) < 256"
  using unsigned_less [of a, where 'a = nat] by simp

lemma sextet_parts: "x < 16 \<Longrightarrow> (n::nat) mod 4 * 16 + x < 64" "y < 4 \<Longrightarrow> (n::nat) mod 16 * 4 + y < 64" "(n::nat) mod 4 * 16 < 64"
    "(n::nat) mod 16 * 4 < 64"
  using mod_less_divisor [of 4 n] mod_less_divisor [of 16 n] by linarith+

lemma sextets_bound: "list_all (\<lambda>n. n < 64) (sextets bytes)"
proof (induction bytes rule: sextets.induct)
  case (2 a)
  then show ?case using byte_bound [of a] by simp
next
  case (3 a b)
  have "unat b div 16 < 16" using byte_bound [of b] by simp
  then show ?case using byte_bound [of a] by (simp add: sextet_parts)
next
  case (4 a b c rest)
  have "unat b div 16 < 16" "unat c div 64 < 4" using byte_bound [of b] byte_bound [of c] by simp_all
  with 4 show ?case using byte_bound [of a] by (simp add: sextet_parts)
qed simp

lemma word_of_unat_eq: "n = unat (a :: 8 word) \<Longrightarrow> word_of_nat n = a"
  by simp

lemma unsextets_sextets: "unsextets (sextets bytes) = Some bytes"
proof (induction bytes rule: sextets.induct)
  case (2 a)
  then show ?case by (auto intro: word_of_unat_eq)
next
  case (3 a b)
  have "unat b div 16 < 16" using byte_bound [of b] by simp
  then show ?case by (auto intro!: word_of_unat_eq)
next
  case (4 a b c rest)
  have "unat b div 16 < 16" "unat c div 64 < 4" using byte_bound [of b] byte_bound [of c] by simp_all
  with 4 show ?case by (auto intro!: word_of_unat_eq)
qed simp

lemma index_of_nth: "distinct alphabet \<Longrightarrow> n < length alphabet \<Longrightarrow> index_of (alphabet ! n) alphabet = Some n"
  by (induction alphabet arbitrary: n) (auto simp: less_Suc_eq_0_disj)

lemma all_indices_map:
  assumes "distinct alphabet" and "length alphabet = 64"
  shows "list_all (\<lambda>n. n < 64) ns \<Longrightarrow> all_indices alphabet (map (\<lambda>n. alphabet ! n) ns) = Some ns"
  by (induction ns) (simp_all add: index_of_nth assms)

lemma base64_roundtrip:
  assumes "distinct alphabet" and "length alphabet = 64" and "CHR 0x0A \<notin> set alphabet" and "CHR 0x0D \<notin> set alphabet"
  shows "base64_decode alphabet (base64_encode alphabet bytes) = Some bytes"
proof -
  have "alphabet ! n \<noteq> CHR 0x0A \<and> alphabet ! n \<noteq> CHR 0x0D" if "n \<in> set (sextets bytes)" for n
    using that sextets_bound [of bytes] assms(2-4) by (metis list_all_iff nth_mem)
  then have "filter (\<lambda>c. c \<noteq> CHR 0x0A \<and> c \<noteq> CHR 0x0D) (base64_encode alphabet bytes) = base64_encode alphabet bytes"
    by (auto simp: base64_encode_def filter_id_conv)
  then show ?thesis
    using all_indices_map [OF assms(1,2) sextets_bound] by (simp add: base64_decode_def base64_encode_def unsextets_sextets)
qed

lemma std_alphabet: "distinct std_alphabet" "length std_alphabet = 64" "CHR 0x0A \<notin> set std_alphabet" "CHR 0x0D \<notin> set std_alphabet"
  by (simp_all add: std_alphabet_def)

lemma std_roundtrip [simp]: "base64_decode std_alphabet (base64_encode std_alphabet bytes) = Some bytes"
  by (rule base64_roundtrip [OF std_alphabet])

end
