(* ===== verification/Controller_Types.thy ===== *)
theory Controller_Types
  imports Profile GoBase64
begin

section \<open>Controller contracts (internal/controller/types.go)\<close>

text \<open>
  Roles, devices, policy documents, redacted reports and their validation; the JSON form of
  what is stored, signed or received. \<open>uint32\<close> and \<open>uint64\<close> fields are words, so that
  comparisons and decrements are those of the source.
\<close>

definition PolicySchema :: string where "PolicySchema = ''io.oh-my-safety/organization-policy''"
definition PolicySchemaVersion :: int where "PolicySchemaVersion = 1"
definition ReportSchema :: string where "ReportSchema = ''io.oh-my-safety/redacted-report''"
definition ReportSchemaVersion :: int where "ReportSchemaVersion = 1"
definition SignedPolicySchema :: string where "SignedPolicySchema = ''io.oh-my-safety/signed-policy''"
definition SignedPolicyVersion :: int where "SignedPolicyVersion = 1"
definition AdminConfigSchema :: string where "AdminConfigSchema = ''io.oh-my-safety/controller-admins''"
definition AdminConfigVersion :: int where "AdminConfigVersion = 1"
definition maxPolicyChecks :: nat where "maxPolicyChecks = 512"
definition maxReportFindings :: nat where "maxReportFindings = 2000"
definition maxIdentifierLength :: nat where "maxIdentifierLength = 128"
definition maxInventoryValueSize :: nat where "maxInventoryValueSize = 256"

definition ErrNotFound :: go_error where "ErrNotFound = New ''controller record not found''"
definition ErrConflict :: go_error where "ErrConflict = New ''controller record conflict''"
definition ErrUnauthenticated :: go_error where "ErrUnauthenticated = New ''authentication failed''"
definition ErrInvalidInput :: go_error where "ErrInvalidInput = New ''invalid controller input''"

lemmas controller_errors = ErrNotFound_def ErrConflict_def ErrUnauthenticated_def ErrInvalidInput_def

subsection \<open>Roles\<close>

type_synonym Role = string

definition RoleAdmin :: Role where "RoleAdmin = ''admin''"
definition RoleOperator :: Role where "RoleOperator = ''operator''"
definition RoleViewer :: Role where "RoleViewer = ''viewer''"

lemmas role_defs = RoleAdmin_def RoleOperator_def RoleViewer_def

definition Role_Valid :: "Role \<Rightarrow> bool" where
  "Role_Valid role \<longleftrightarrow> role \<in> set [RoleAdmin, RoleOperator, RoleViewer]"

text \<open>Indexing the map \<open>rank\<close> with an unknown role gives zero.\<close>

definition role_rank :: "Role \<Rightarrow> int" where
  "role_rank role = (case map_of [(RoleViewer, 1), (RoleOperator, 2), (RoleAdmin, 3)] role of None \<Rightarrow> 0 | Some n \<Rightarrow> n)"

definition Allows :: "Role \<Rightarrow> Role \<Rightarrow> bool" where
  "Allows role required \<longleftrightarrow> Role_Valid role \<and> Role_Valid required \<and> role_rank role \<ge> role_rank required"

record Principal =
  prin_ID :: string
  prin_Role :: Role
  prin_tokenHash :: "8 word list"

subsection \<open>Text fields\<close>

definition validIdentifier :: "string \<Rightarrow> bool" where
  "validIdentifier value \<longleftrightarrow> value \<noteq> [] \<and> length value \<le> maxIdentifierLength
     \<and> all_runes (\<lambda>r. (97 \<le> r \<and> r \<le> 122) \<or> (65 \<le> r \<and> r \<le> 90) \<or> (48 \<le> r \<and> r \<le> 57)
         \<or> r = 46 \<or> r = 95 \<or> r = 45) value"

definition validGroup :: "string \<Rightarrow> bool" where
  "validGroup value = validIdentifier value"

definition validLabel :: "string \<Rightarrow> nat \<Rightarrow> bool" where
  "validLabel raw maximum \<longleftrightarrow>
     (let value = TrimSpace raw
      in \<not> (value = [] \<or> length value > maximum) \<and> all_runes (\<lambda>r. \<not> IsControl r) value)"

subsection \<open>Devices\<close>

record DeviceMetadata =
  dm_Name :: string
  dm_Platform :: string
  dm_OSVersion :: string
  dm_AgentVersion :: string

abbreviation invalid :: "string \<Rightarrow> go_error" where
  "invalid msg \<equiv> Wrap msg ErrInvalidInput"

definition DeviceMetadata_Validate :: "DeviceMetadata \<Rightarrow> go_error option" where
  "DeviceMetadata_Validate metadata = first_error
    [(\<not> validLabel (dm_Name metadata) maxInventoryValueSize, invalid ''%w: invalid device name''),
     (\<not> validLabel (dm_Platform metadata) 64, invalid ''%w: invalid platform''),
     (\<not> validLabel (dm_OSVersion metadata) maxInventoryValueSize, invalid ''%w: invalid OS version''),
     (\<not> validLabel (dm_AgentVersion metadata) maxInventoryValueSize, invalid ''%w: invalid agent version'')]"

record Device =
  dev_ID :: string
  dev_Name :: string
  dev_Platform :: string
  dev_OSVersion :: string
  dev_AgentVersion :: string
  dev_Group :: string
  dev_EnrolledAt :: gotime
  dev_LastSeenAt :: "gotime option"
  dev_CredentialRotatedAt :: gotime
  dev_RevokedAt :: "gotime option"

record EnrollmentGrant =
  eg_DeviceID :: string
  eg_DeviceCredential :: string

subsection \<open>Policies\<close>

type_synonym RemediationMode = string

definition RemediationObserve :: RemediationMode where "RemediationObserve = ''observe''"
definition RemediationPrompt :: RemediationMode where "RemediationPrompt = ''prompt''"
definition RemediationSafeAuto :: RemediationMode where "RemediationSafeAuto = ''safe-automatic''"

lemmas remediation_defs = RemediationObserve_def RemediationPrompt_def RemediationSafeAuto_def

definition RemediationMode_Valid :: "RemediationMode \<Rightarrow> bool" where
  "RemediationMode_Valid mode \<longleftrightarrow> mode \<in> set [RemediationObserve, RemediationPrompt, RemediationSafeAuto]"

record PolicyCheck =
  pc_ID :: string
  pc_Enabled :: bool

record CadencePolicy =
  cp_ScanIntervalSeconds :: "32 word"
  cp_JitterSeconds :: "32 word"

record ReportingPolicy =
  rp_Enabled :: bool
  rp_SyncIntervalSeconds :: "32 word"

record PolicyDocument =
  pd_Schema :: string
  pd_SchemaVersion :: int
  pd_ID :: string
  pd_Revision :: "64 word"
  pd_Checks :: "PolicyCheck list"
  pd_Profile :: string
  pd_Cadence :: CadencePolicy
  pd_Reporting :: ReportingPolicy
  pd_Remediation :: RemediationMode

definition policy_checks :: "PolicyDocument \<Rightarrow> go_error option" where
  "policy_checks document = first_error
    [(pd_Schema document \<noteq> PolicySchema, invalid ''%w: unsupported policy schema''),
     (pd_SchemaVersion document \<noteq> PolicySchemaVersion, invalid ''%w: unsupported policy schema version''),
     (\<not> validIdentifier (pd_ID document), invalid ''%w: invalid policy id''),
     (pd_Revision document = 0, invalid ''%w: policy revision must be positive''),
     (pd_Checks document = [] \<or> length (pd_Checks document) > maxPolicyChecks,
        invalid ''%w: invalid policy check count''),
     (cp_ScanIntervalSeconds (pd_Cadence document) < 60
        \<or> cp_ScanIntervalSeconds (pd_Cadence document) > 31 * 24 * 60 * 60, invalid ''%w: invalid scan interval''),
     (cp_JitterSeconds (pd_Cadence document) \<ge> cp_ScanIntervalSeconds (pd_Cadence document),
        invalid ''%w: invalid cadence jitter''),
     (rp_Enabled (pd_Reporting document)
        \<and> (rp_SyncIntervalSeconds (pd_Reporting document) < 60
           \<or> rp_SyncIntervalSeconds (pd_Reporting document) > 31 * 24 * 60 * 60),
        invalid ''%w: invalid reporting interval''),
     (\<not> rp_Enabled (pd_Reporting document) \<and> rp_SyncIntervalSeconds (pd_Reporting document) \<noteq> 0,
        invalid ''%w: disabled reporting must have a zero interval''),
     (\<not> RemediationMode_Valid (pd_Remediation document), invalid ''%w: invalid remediation mode'')]"

definition check_id_error :: "PolicyCheck \<Rightarrow> go_error option" where
  "check_id_error check =
     (if \<not> validIdentifier (pc_ID check) then Some (invalid ''%w: invalid check id'') else None)"

definition PolicyDocument_Validate :: "PolicyDocument \<Rightarrow> go_error option" where
  "PolicyDocument_Validate document =
     (case policy_checks document of
        Some err \<Rightarrow> Some err
      | None \<Rightarrow>
          (case Resolve (pd_Profile document) [] of
             Inl _ \<Rightarrow> Some (invalid ''%w: invalid profile'')
           | Inr _ \<Rightarrow> check_distinct check_id_error pc_ID (invalid ''%w: duplicate check id'') [] (pd_Checks document)))"

record SignedPolicy =
  sp_Schema :: string
  sp_SchemaVersion :: int
  sp_Document :: PolicyDocument
  sp_Algorithm :: string
  sp_SigningPublicKey :: string
  sp_Signature :: string

subsection \<open>Redacted reports\<close>

record RedactedFinding =
  rf_DetectorID :: string
  rf_Category :: string
  rf_Severity :: Severity
  rf_State :: FindingState
  rf_FirstSeen :: gotime
  rf_LastSeen :: gotime
  rf_Occurrences :: "64 word"

definition RedactedFinding_validate :: "gotime \<Rightarrow> RedactedFinding \<Rightarrow> go_error option" where
  "RedactedFinding_validate reportedAt finding = first_error
    [(\<not> validIdentifier (rf_DetectorID finding), invalid ''%w: invalid detector id''),
     (\<not> validIdentifier (rf_Category finding), invalid ''%w: invalid category''),
     (\<not> Severity_Valid (rf_Severity finding), invalid ''%w: invalid severity''),
     (\<not> FindingState_Valid (rf_State finding), invalid ''%w: invalid finding state''),
     (IsZero (rf_FirstSeen finding) \<or> IsZero (rf_LastSeen finding), invalid ''%w: finding timestamps are required''),
     (Before (rf_LastSeen finding) (rf_FirstSeen finding), invalid ''%w: last_seen precedes first_seen''),
     (After (rf_LastSeen finding) (Add reportedAt (5 * Minute)), invalid ''%w: last_seen is after reported_at''),
     (rf_Occurrences finding = 0, invalid ''%w: occurrences must be positive'')]"

record ReportSync =
  rs_Schema :: string
  rs_SchemaVersion :: int
  rs_ReportedAt :: gotime
  rs_Findings :: "RedactedFinding list"

definition redacted_key :: "RedactedFinding \<Rightarrow> string" where
  "redacted_key finding = rf_DetectorID finding @ nul # rf_Category finding"

definition report_checks :: "gotime \<Rightarrow> ReportSync \<Rightarrow> go_error option" where
  "report_checks now report = first_error
    [(rs_Schema report \<noteq> ReportSchema, invalid ''%w: unsupported report schema''),
     (rs_SchemaVersion report \<noteq> ReportSchemaVersion, invalid ''%w: unsupported report schema version''),
     (IsZero (rs_ReportedAt report), invalid ''%w: reported_at is required''),
     (After (rs_ReportedAt report) (Add now (5 * Minute)), invalid ''%w: reported_at is in the future''),
     (length (rs_Findings report) > maxReportFindings, invalid ''%w: too many findings'')]"

definition ReportSync_Validate :: "gotime \<Rightarrow> ReportSync \<Rightarrow> go_error option" where
  "ReportSync_Validate now report =
     (case report_checks now report of
        Some err \<Rightarrow> Some err
      | None \<Rightarrow> check_distinct (RedactedFinding_validate (rs_ReportedAt report)) redacted_key
                  (invalid ''%w: duplicate redacted finding'') [] (rs_Findings report))"

record StoredFinding =
  stf_DeviceID :: string
  stf_ReportedAt :: gotime
  stf_Finding :: RedactedFinding

record AuditEntry =
  ae_Sequence :: int
  ae_ActorID :: string
  ae_Action :: string
  ae_TargetType :: string
  ae_TargetID :: string
  ae_CreatedAt :: gotime

subsection \<open>JSON\<close>

text \<open>
  A decoder with \<open>DisallowUnknownFields\<close> refuses members no field matches, at every depth;
  \<open>strict\<close> says which kind of decoder is at work.
\<close>

definition dec_record :: "bool \<Rightarrow> 's fields \<Rightarrow> json \<Rightarrow> 's \<Rightarrow> 's option" where
  "dec_record strict flds = dec_object (\<lambda>k v s.
     case find (\<lambda>f. key_is k (fst f)) flds of
       None \<Rightarrow> if strict then None else Some s
     | Some f \<Rightarrow> snd f v s)"

definition dec_uint32 :: "json \<Rightarrow> 32 word \<Rightarrow> 32 word option" where
  "dec_uint32 j cur = map_option word_of_int (dec_int 0 (2 ^ 32 - 1) j (uint cur))"

definition DeviceMetadata_fields :: "DeviceMetadata fields" where
  "DeviceMetadata_fields =
    [(''name'', fld dm_Name (\<lambda>x s. s\<lparr>dm_Name := x\<rparr>) dec_string),
     (''platform'', fld dm_Platform (\<lambda>x s. s\<lparr>dm_Platform := x\<rparr>) dec_string),
     (''os_version'', fld dm_OSVersion (\<lambda>x s. s\<lparr>dm_OSVersion := x\<rparr>) dec_string),
     (''agent_version'', fld dm_AgentVersion (\<lambda>x s. s\<lparr>dm_AgentVersion := x\<rparr>) dec_string)]"

definition zero_DeviceMetadata :: DeviceMetadata where
  "zero_DeviceMetadata = \<lparr>dm_Name = [], dm_Platform = [], dm_OSVersion = [], dm_AgentVersion = []\<rparr>"

definition PolicyCheck_fields :: "PolicyCheck fields" where
  "PolicyCheck_fields =
    [(''id'', fld pc_ID (\<lambda>x s. s\<lparr>pc_ID := x\<rparr>) dec_string),
     (''enabled'', fld pc_Enabled (\<lambda>x s. s\<lparr>pc_Enabled := x\<rparr>) dec_bool)]"

definition zero_PolicyCheck :: PolicyCheck where
  "zero_PolicyCheck = \<lparr>pc_ID = [], pc_Enabled = False\<rparr>"

definition CadencePolicy_fields :: "CadencePolicy fields" where
  "CadencePolicy_fields =
    [(''scan_interval_seconds'', fld cp_ScanIntervalSeconds (\<lambda>x s. s\<lparr>cp_ScanIntervalSeconds := x\<rparr>) dec_uint32),
     (''jitter_seconds'', fld cp_JitterSeconds (\<lambda>x s. s\<lparr>cp_JitterSeconds := x\<rparr>) dec_uint32)]"

definition ReportingPolicy_fields :: "ReportingPolicy fields" where
  "ReportingPolicy_fields =
    [(''enabled'', fld rp_Enabled (\<lambda>x s. s\<lparr>rp_Enabled := x\<rparr>) dec_bool),
     (''sync_interval_seconds'', fld rp_SyncIntervalSeconds (\<lambda>x s. s\<lparr>rp_SyncIntervalSeconds := x\<rparr>) dec_uint32)]"

definition PolicyDocument_fields :: "bool \<Rightarrow> PolicyDocument fields" where
  "PolicyDocument_fields strict =
    [(''schema'', fld pd_Schema (\<lambda>x s. s\<lparr>pd_Schema := x\<rparr>) dec_string),
     (''schema_version'', fld pd_SchemaVersion (\<lambda>x s. s\<lparr>pd_SchemaVersion := x\<rparr>) dec_int64),
     (''id'', fld pd_ID (\<lambda>x s. s\<lparr>pd_ID := x\<rparr>) dec_string),
     (''revision'', fld pd_Revision (\<lambda>x s. s\<lparr>pd_Revision := x\<rparr>) dec_uint64),
     (''checks'', fld pd_Checks (\<lambda>x s. s\<lparr>pd_Checks := x\<rparr>) (dec_slice zero_PolicyCheck (dec_record strict PolicyCheck_fields))),
     (''profile'', fld pd_Profile (\<lambda>x s. s\<lparr>pd_Profile := x\<rparr>) dec_string),
     (''cadence'', fld pd_Cadence (\<lambda>x s. s\<lparr>pd_Cadence := x\<rparr>) (dec_record strict CadencePolicy_fields)),
     (''reporting'', fld pd_Reporting (\<lambda>x s. s\<lparr>pd_Reporting := x\<rparr>) (dec_record strict ReportingPolicy_fields)),
     (''remediation'', fld pd_Remediation (\<lambda>x s. s\<lparr>pd_Remediation := x\<rparr>) dec_string)]"

definition zero_PolicyDocument :: PolicyDocument where
  "zero_PolicyDocument = \<lparr>pd_Schema = [], pd_SchemaVersion = 0, pd_ID = [], pd_Revision = 0, pd_Checks = [],
     pd_Profile = [], pd_Cadence = \<lparr>cp_ScanIntervalSeconds = 0, cp_JitterSeconds = 0\<rparr>,
     pd_Reporting = \<lparr>rp_Enabled = False, rp_SyncIntervalSeconds = 0\<rparr>, pd_Remediation = []\<rparr>"

definition dec_PolicyDocument :: "bool \<Rightarrow> json \<Rightarrow> PolicyDocument \<Rightarrow> PolicyDocument option" where
  "dec_PolicyDocument strict = dec_record strict (PolicyDocument_fields strict)"

definition PolicyCheck_json :: "PolicyCheck \<Rightarrow> json" where
  "PolicyCheck_json c = JObj [(''id'', jstr (pc_ID c)), (''enabled'', JBool (pc_Enabled c))]"

definition CadencePolicy_json :: "CadencePolicy \<Rightarrow> json" where
  "CadencePolicy_json c = JObj [(''scan_interval_seconds'', jint (uint (cp_ScanIntervalSeconds c))),
     (''jitter_seconds'', jint (uint (cp_JitterSeconds c)))]"

definition ReportingPolicy_json :: "ReportingPolicy \<Rightarrow> json" where
  "ReportingPolicy_json r = JObj [(''enabled'', JBool (rp_Enabled r)),
     (''sync_interval_seconds'', jint (uint (rp_SyncIntervalSeconds r)))]"

definition PolicyDocument_json :: "PolicyDocument \<Rightarrow> json" where
  "PolicyDocument_json d = JObj
     [(''schema'', jstr (pd_Schema d)), (''schema_version'', jint (pd_SchemaVersion d)), (''id'', jstr (pd_ID d)),
      (''revision'', jint (uint (pd_Revision d))), (''checks'', JArr (map PolicyCheck_json (pd_Checks d))),
      (''profile'', jstr (pd_Profile d)), (''cadence'', CadencePolicy_json (pd_Cadence d)),
      (''reporting'', ReportingPolicy_json (pd_Reporting d)), (''remediation'', jstr (pd_Remediation d))]"

definition RedactedFinding_fields :: "RedactedFinding fields" where
  "RedactedFinding_fields =
    [(''detector_id'', fld rf_DetectorID (\<lambda>x s. s\<lparr>rf_DetectorID := x\<rparr>) dec_string),
     (''category'', fld rf_Category (\<lambda>x s. s\<lparr>rf_Category := x\<rparr>) dec_string),
     (''severity'', fld rf_Severity (\<lambda>x s. s\<lparr>rf_Severity := x\<rparr>) dec_string),
     (''state'', fld rf_State (\<lambda>x s. s\<lparr>rf_State := x\<rparr>) dec_string),
     (''first_seen'', fld rf_FirstSeen (\<lambda>x s. s\<lparr>rf_FirstSeen := x\<rparr>) dec_time),
     (''last_seen'', fld rf_LastSeen (\<lambda>x s. s\<lparr>rf_LastSeen := x\<rparr>) dec_time),
     (''occurrences'', fld rf_Occurrences (\<lambda>x s. s\<lparr>rf_Occurrences := x\<rparr>) dec_uint64)]"

definition zero_RedactedFinding :: RedactedFinding where
  "zero_RedactedFinding = \<lparr>rf_DetectorID = [], rf_Category = [], rf_Severity = [], rf_State = [],
     rf_FirstSeen = zero_time, rf_LastSeen = zero_time, rf_Occurrences = 0\<rparr>"

definition ReportSync_fields :: "bool \<Rightarrow> ReportSync fields" where
  "ReportSync_fields strict =
    [(''schema'', fld rs_Schema (\<lambda>x s. s\<lparr>rs_Schema := x\<rparr>) dec_string),
     (''schema_version'', fld rs_SchemaVersion (\<lambda>x s. s\<lparr>rs_SchemaVersion := x\<rparr>) dec_int64),
     (''reported_at'', fld rs_ReportedAt (\<lambda>x s. s\<lparr>rs_ReportedAt := x\<rparr>) dec_time),
     (''findings'', fld rs_Findings (\<lambda>x s. s\<lparr>rs_Findings := x\<rparr>)
        (dec_slice zero_RedactedFinding (dec_record strict RedactedFinding_fields)))]"

definition zero_ReportSync :: ReportSync where
  "zero_ReportSync = \<lparr>rs_Schema = [], rs_SchemaVersion = 0, rs_ReportedAt = zero_time, rs_Findings = []\<rparr>"

definition RedactedFinding_members :: "RedactedFinding \<Rightarrow> (string \<times> json) list" where
  "RedactedFinding_members f =
     [(''detector_id'', jstr (rf_DetectorID f)), (''category'', jstr (rf_Category f)),
      (''severity'', jstr (rf_Severity f)), (''state'', jstr (rf_State f)), (''first_seen'', jtime (rf_FirstSeen f)),
      (''last_seen'', jtime (rf_LastSeen f)), (''occurrences'', jint (uint (rf_Occurrences f)))]"

definition Device_json :: "Device \<Rightarrow> json option" where
  "Device_json d =
     (if json_time (dev_EnrolledAt d) \<and> pred_option json_time (dev_LastSeenAt d)
         \<and> json_time (dev_CredentialRotatedAt d) \<and> pred_option json_time (dev_RevokedAt d)
      then Some (JObj (
        [(''id'', jstr (dev_ID d)), (''name'', jstr (dev_Name d)), (''platform'', jstr (dev_Platform d)),
         (''os_version'', jstr (dev_OSVersion d)), (''agent_version'', jstr (dev_AgentVersion d)),
         (''group'', jstr (dev_Group d)), (''enrolled_at'', jtime (dev_EnrolledAt d))]
        @ omit (dev_LastSeenAt d = None) ''last_seen_at'' (jtime (the (dev_LastSeenAt d)))
        @ [(''credential_rotated_at'', jtime (dev_CredentialRotatedAt d))]
        @ omit (dev_RevokedAt d = None) ''revoked_at'' (jtime (the (dev_RevokedAt d)))))
      else None)"

definition EnrollmentGrant_json :: "EnrollmentGrant \<Rightarrow> json" where
  "EnrollmentGrant_json g = JObj [(''device_id'', jstr (eg_DeviceID g)), (''device_credential'', jstr (eg_DeviceCredential g))]"

definition SignedPolicy_json :: "SignedPolicy \<Rightarrow> json" where
  "SignedPolicy_json p = JObj
     [(''schema'', jstr (sp_Schema p)), (''schema_version'', jint (sp_SchemaVersion p)),
      (''document'', PolicyDocument_json (sp_Document p)), (''algorithm'', jstr (sp_Algorithm p)),
      (''signing_public_key'', jstr (sp_SigningPublicKey p)), (''signature'', jstr (sp_Signature p))]"

definition StoredFinding_json :: "StoredFinding \<Rightarrow> json option" where
  "StoredFinding_json f =
     (if json_time (stf_ReportedAt f) \<and> json_time (rf_FirstSeen (stf_Finding f)) \<and> json_time (rf_LastSeen (stf_Finding f))
      then Some (JObj ([(''device_id'', jstr (stf_DeviceID f)), (''reported_at'', jtime (stf_ReportedAt f))]
        @ RedactedFinding_members (stf_Finding f)))
      else None)"

definition AuditEntry_json :: "AuditEntry \<Rightarrow> json option" where
  "AuditEntry_json e =
     (if json_time (ae_CreatedAt e)
      then Some (JObj [(''sequence'', jint (ae_Sequence e)), (''actor_id'', jstr (ae_ActorID e)),
        (''action'', jstr (ae_Action e)), (''target_type'', jstr (ae_TargetType e)),
        (''target_id'', jstr (ae_TargetID e)), (''created_at'', jtime (ae_CreatedAt e))])
      else None)"

end
