(* ===== verification/Controller_Auth.thy ===== *)
theory Controller_Auth
  imports Controller_Types
begin

section \<open>Administrators and policy signatures (internal/controller/auth.go, signing.go, bootstrap.go)\<close>

text \<open>
  The principals of the admin configuration and their bearer tokens, strict decoding of JSON
  files, the policy signer and the verification of a signed policy. SHA-256 and Ed25519 are
  parameters. A JSON text is the stream of values a decoder finds in it, \<open>None\<close> where it stops
  being JSON. What the file system answers (\<open>Lstat\<close>, \<open>Open\<close>, \<open>Stat\<close>, the content) is an
  argument; overwriting secrets in memory is not represented.
\<close>

definition maxAdminConfigBytes :: int where "maxAdminConfigBytes = 65536"
definition maxBearerTokenBytes :: nat where "maxBearerTokenBytes = 4096"

record PrincipalSpec =
  ps_ID :: string
  ps_Role :: Role
  ps_TokenSHA256 :: string

record principalConfig =
  cfg_Schema :: string
  cfg_SchemaVersion :: int
  cfg_Principals :: "PrincipalSpec list"

type_synonym PrincipalSet = "Principal list"

definition HashToken :: "(string \<Rightarrow> 8 word list) \<Rightarrow> string \<Rightarrow> string" where
  "HashToken sha256 token = hex_encode (sha256 token)"

subsection \<open>Principals\<close>

definition hex_value :: "char \<Rightarrow> nat option" where
  "hex_value c =
     (if 48 \<le> byte c \<and> byte c \<le> 57 then Some (byte c - 48)
      else if 97 \<le> byte c \<and> byte c \<le> 102 then Some (byte c - 87)
      else if 65 \<le> byte c \<and> byte c \<le> 70 then Some (byte c - 55)
      else None)"

fun hex_DecodeString :: "string \<Rightarrow> 8 word list option" where
  "hex_DecodeString [] = Some []"
| "hex_DecodeString [c] = None"
| "hex_DecodeString (c # d # s) =
     (case (hex_value c, hex_value d) of
        (Some m, Some n) \<Rightarrow> map_option ((#) (word_of_nat (16 * m + n))) (hex_DecodeString s)
      | _ \<Rightarrow> None)"

fun add_principals :: "Principal list \<Rightarrow> PrincipalSpec list \<Rightarrow> Principal list result" where
  "add_principals principals [] = Inr principals"
| "add_principals principals (specification # specifications) =
     (if \<not> validIdentifier (ps_ID specification)
      then Inl (New ''principal config contains an invalid id'')
      else if \<not> Role_Valid (ps_Role specification)
      then Inl (New ''principal config contains an invalid role'')
      else if ps_ID specification \<in> set (map prin_ID principals)
      then Inl (New ''principal config contains a duplicate id'')
      else (case hex_DecodeString (ps_TokenSHA256 specification) of
          None \<Rightarrow> Inl (New ''principal config contains an invalid token hash'')
        | Some decoded \<Rightarrow>
            if length decoded \<noteq> 32 then Inl (New ''principal config contains an invalid token hash'')
            else if decoded \<in> set (map prin_tokenHash principals)
            then Inl (New ''principal config contains a duplicate token hash'')
            else add_principals (principals @ [\<lparr>prin_ID = ps_ID specification, prin_Role = ps_Role specification,
                   prin_tokenHash = decoded\<rparr>]) specifications))"

definition NewPrincipalSet :: "PrincipalSpec list \<Rightarrow> PrincipalSet result" where
  "NewPrincipalSet specifications =
     (if specifications = [] \<or> length specifications > 1000
      then Inl (New ''principal config must contain between 1 and 1000 principals'')
      else (case add_principals [] specifications of
          Inl err \<Rightarrow> Inl err
        | Inr principals \<Rightarrow>
            if list_ex (\<lambda>p. prin_Role p = RoleAdmin) principals then Inr principals
            else Inl (New ''principal config must contain at least one admin'')))"

text \<open>The loop never stops early: the last match is selected.\<close>

fun select_principal :: "8 word list \<Rightarrow> bool \<Rightarrow> Principal option \<Rightarrow> Principal list \<Rightarrow> Principal option" where
  "select_principal candidateHash validFormat selected [] = selected"
| "select_principal candidateHash validFormat selected (p # ps) =
     select_principal candidateHash validFormat
       (if candidateHash = prin_tokenHash p \<and> validFormat then Some p else selected) ps"

definition bearer_candidate :: "string \<Rightarrow> string \<times> bool" where
  "bearer_candidate header =
     (if length header \<le> 7 + maxBearerTokenBytes \<and> has_prefix header ''Bearer '' \<and> length header > 7
      then (drop 7 header, \<not> list_ex (\<lambda>c. c \<in> {CHR '' '', CHR 0x09, CHR 0x0D, CHR 0x0A}) (drop 7 header))
      else ([], False))"

definition AuthenticateBearer :: "(string \<Rightarrow> 8 word list) \<Rightarrow> PrincipalSet \<Rightarrow> string \<Rightarrow> Principal option" where
  "AuthenticateBearer sha256 principals header =
     (let (candidate, validFormat) = bearer_candidate header
      in select_principal (sha256 candidate) validFormat None principals)"

subsection \<open>Strict JSON files\<close>

type_synonym json_stream = "json option list"

definition json_syntax :: go_error where "json_syntax = New ''invalid character in JSON''"
definition io_EOF :: go_error where "io_EOF = New ''EOF''"

definition decodeStrictReader :: "(json \<Rightarrow> 'a \<Rightarrow> 'a option) \<Rightarrow> 'a \<Rightarrow> json_stream \<Rightarrow> 'a result" where
  "decodeStrictReader dec zero stream =
     (case stream of
        [] \<Rightarrow> Inl io_EOF
      | None # _ \<Rightarrow> Inl json_syntax
      | Some j # rest \<Rightarrow>
          (case dec j zero of
             None \<Rightarrow> Inl (New ''json: cannot unmarshal'')
           | Some x \<Rightarrow>
               (case rest of
                  [] \<Rightarrow> Inr x
                | Some _ # _ \<Rightarrow> Inl (New ''multiple JSON values are not allowed'')
                | None # _ \<Rightarrow> Inl json_syntax)))"

text \<open>What the system calls on a file return.\<close>

record file_info =
  fin_regular :: bool
  fin_perm :: nat
  fin_size :: int
  fin_inode :: nat

record file_calls =
  fc_lstat :: "file_info result"
  fc_open :: "go_error option"
  fc_stat :: "file_info result"
  fc_content :: json_stream

definition private_file :: "file_info \<Rightarrow> bool" where
  "private_file info \<longleftrightarrow> fin_regular info \<and> fin_perm info = 384"

definition PrincipalSpec_fields :: "PrincipalSpec fields" where
  "PrincipalSpec_fields =
    [(''id'', fld ps_ID (\<lambda>x s. s\<lparr>ps_ID := x\<rparr>) dec_string),
     (''role'', fld ps_Role (\<lambda>x s. s\<lparr>ps_Role := x\<rparr>) dec_string),
     (''token_sha256'', fld ps_TokenSHA256 (\<lambda>x s. s\<lparr>ps_TokenSHA256 := x\<rparr>) dec_string)]"

definition principalConfig_fields :: "principalConfig fields" where
  "principalConfig_fields =
    [(''schema'', fld cfg_Schema (\<lambda>x s. s\<lparr>cfg_Schema := x\<rparr>) dec_string),
     (''schema_version'', fld cfg_SchemaVersion (\<lambda>x s. s\<lparr>cfg_SchemaVersion := x\<rparr>) dec_int64),
     (''principals'', fld cfg_Principals (\<lambda>x s. s\<lparr>cfg_Principals := x\<rparr>)
        (dec_slice \<lparr>ps_ID = [], ps_Role = [], ps_TokenSHA256 = []\<rparr> (dec_record True PrincipalSpec_fields)))]"

definition zero_principalConfig :: principalConfig where
  "zero_principalConfig = \<lparr>cfg_Schema = [], cfg_SchemaVersion = 0, cfg_Principals = []\<rparr>"

definition LoadPrincipalSet :: "string \<Rightarrow> file_calls \<Rightarrow> PrincipalSet result" where
  "LoadPrincipalSet path calls =
     (if blank path then Inl (New ''admin config path is required'')
      else (case fc_lstat calls of
          Inl err \<Rightarrow> Inl (Wrap ''inspect admin config: %w'' err)
        | Inr info \<Rightarrow>
      if \<not> private_file info then Inl (New ''admin config must be a regular mode-600 file'')
      else (case fc_open calls of
          Some err \<Rightarrow> Inl (Wrap ''open admin config: %w'' err)
        | None \<Rightarrow>
      (case fc_stat calls of
          Inl err \<Rightarrow> Inl (Wrap ''inspect opened admin config: %w'' err)
        | Inr openedInfo \<Rightarrow>
      if \<not> private_file openedInfo \<or> fin_inode info \<noteq> fin_inode openedInfo
      then Inl (New ''admin config changed while opening it'')
      else (case decodeStrictReader (dec_record True principalConfig_fields) zero_principalConfig (fc_content calls) of
          Inl err \<Rightarrow> Inl (Wrap ''decode admin config: %w'' err)
        | Inr config \<Rightarrow>
            if fin_size openedInfo > maxAdminConfigBytes then Inl (New ''admin config exceeds size limit'')
            else if cfg_Schema config \<noteq> AdminConfigSchema \<or> cfg_SchemaVersion config \<noteq> AdminConfigVersion
            then Inl (New ''unsupported admin config schema'')
            else NewPrincipalSet (cfg_Principals config))))))"

subsection \<open>Signing\<close>

definition signingKeySchema :: string where "signingKeySchema = ''io.oh-my-safety/controller-signing-key''"
definition signingKeySchemaVersion :: int where "signingKeySchemaVersion = 1"
definition maxSigningKeyFileBytes :: int where "maxSigningKeyFileBytes = 8192"

record signingKeyFile =
  skf_Schema :: string
  skf_SchemaVersion :: int
  skf_PrivateKey :: string

record Signer =
  sg_privateKey :: "8 word list"
  sg_publicKey :: "8 word list"

record ed25519 =
  ed_Sign :: "8 word list \<Rightarrow> string \<Rightarrow> 8 word list"
  ed_Verify :: "8 word list \<Rightarrow> string \<Rightarrow> 8 word list \<Rightarrow> bool"

definition signingKeyFile_fields :: "signingKeyFile fields" where
  "signingKeyFile_fields =
    [(''schema'', fld skf_Schema (\<lambda>x s. s\<lparr>skf_Schema := x\<rparr>) dec_string),
     (''schema_version'', fld skf_SchemaVersion (\<lambda>x s. s\<lparr>skf_SchemaVersion := x\<rparr>) dec_int64),
     (''private_key'', fld skf_PrivateKey (\<lambda>x s. s\<lparr>skf_PrivateKey := x\<rparr>) dec_string)]"

definition signingKeyFile_json :: "signingKeyFile \<Rightarrow> json" where
  "signingKeyFile_json d = JObj [(''schema'', jstr (skf_Schema d)), (''schema_version'', jint (skf_SchemaVersion d)),
     (''private_key'', jstr (skf_PrivateKey d))]"

definition loadSigner :: "file_info \<Rightarrow> file_calls \<Rightarrow> Signer result" where
  "loadSigner initialInfo calls =
     (if \<not> private_file initialInfo then Inl (New ''signing key must be a regular mode-600 file'')
      else (case fc_open calls of
          Some err \<Rightarrow> Inl (Wrap ''open signing key: %w'' err)
        | None \<Rightarrow>
      (case fc_stat calls of
          Inl err \<Rightarrow> Inl (Wrap ''inspect opened signing key: %w'' err)
        | Inr openedInfo \<Rightarrow>
      if \<not> private_file openedInfo \<or> fin_inode initialInfo \<noteq> fin_inode openedInfo
      then Inl (New ''signing key changed while opening it'')
      else if fin_size openedInfo > maxSigningKeyFileBytes then Inl (New ''signing key file exceeds size limit'')
      else (case decodeStrictReader (dec_record True signingKeyFile_fields)
              \<lparr>skf_Schema = [], skf_SchemaVersion = 0, skf_PrivateKey = []\<rparr> (fc_content calls) of
          Inl err \<Rightarrow> Inl (Wrap ''decode signing key: %w'' err)
        | Inr document \<Rightarrow>
            if skf_Schema document \<noteq> signingKeySchema \<or> skf_SchemaVersion document \<noteq> signingKeySchemaVersion
            then Inl (New ''unsupported signing key schema'')
            else (case base64_decode std_alphabet (skf_PrivateKey document) of
                None \<Rightarrow> Inl (New ''signing key contains invalid private key material'')
              | Some decoded \<Rightarrow>
                  if length decoded \<noteq> 64 then Inl (New ''signing key contains invalid private key material'')
                  else Inr \<lparr>sg_privateKey = decoded, sg_publicKey = drop 32 decoded\<rparr>)))))"

text \<open>The file that a new signer writes.\<close>

definition new_key_file :: "8 word list \<Rightarrow> json" where
  "new_key_file privateKey = signingKeyFile_json \<lparr>skf_Schema = signingKeySchema,
     skf_SchemaVersion = signingKeySchemaVersion, skf_PrivateKey = base64_encode std_alphabet privateKey\<rparr>"

definition Sign :: "ed25519 \<Rightarrow> Signer option \<Rightarrow> PolicyDocument \<Rightarrow> SignedPolicy result" where
  "Sign ed signer_arg document =
     (case signer_arg of
        None \<Rightarrow> Inl (New ''signer is not initialized'')
      | Some signer \<Rightarrow>
          if length (sg_privateKey signer) \<noteq> 64 then Inl (New ''signer is not initialized'')
          else (case PolicyDocument_Validate document of
              Some err \<Rightarrow> Inl err
            | None \<Rightarrow>
                Inr \<lparr>sp_Schema = SignedPolicySchema, sp_SchemaVersion = SignedPolicyVersion, sp_Document = document,
                  sp_Algorithm = ''Ed25519'',
                  sp_SigningPublicKey = base64_encode std_alphabet (sg_publicKey signer),
                  sp_Signature = base64_encode std_alphabet
                    (ed_Sign ed (sg_privateKey signer) (json_text (PolicyDocument_json document)))\<rparr>))"

definition VerifySignedPolicy :: "ed25519 \<Rightarrow> SignedPolicy \<Rightarrow> go_error option" where
  "VerifySignedPolicy ed policy =
     (if sp_Schema policy \<noteq> SignedPolicySchema \<or> sp_SchemaVersion policy \<noteq> SignedPolicyVersion
         \<or> sp_Algorithm policy \<noteq> ''Ed25519''
      then Some (New ''unsupported signed policy envelope'')
      else (case PolicyDocument_Validate (sp_Document policy) of
          Some err \<Rightarrow> Some err
        | None \<Rightarrow>
      (case base64_decode std_alphabet (sp_SigningPublicKey policy) of
          None \<Rightarrow> Some (New ''invalid policy signing public key'')
        | Some publicKey \<Rightarrow>
      if length publicKey \<noteq> 32 then Some (New ''invalid policy signing public key'')
      else (case base64_decode std_alphabet (sp_Signature policy) of
          None \<Rightarrow> Some (New ''invalid policy signature'')
        | Some signature \<Rightarrow>
            if length signature \<noteq> 64 then Some (New ''invalid policy signature'')
            else if \<not> ed_Verify ed publicKey (json_text (PolicyDocument_json (sp_Document policy))) signature
            then Some (New ''policy signature verification failed'')
            else None))))"

subsection \<open>Bootstrap\<close>

definition bootstrapTokenBytes :: nat where "bootstrapTokenBytes = 32"

text \<open>
  The part of \<open>InitializeAdminConfig\<close> that is not file handling: the checks, the random bytes,
  the returned token and the configuration that is written.
\<close>

definition PublicKeyEncoded :: "Signer option \<Rightarrow> string result" where
  "PublicKeyEncoded signer_arg =
     (case signer_arg of
        None \<Rightarrow> Inl (New ''signer is not initialized'')
      | Some signer \<Rightarrow>
          if sg_publicKey signer = [] then Inl (New ''signer is not initialized'')
          else Inr (base64_encode std_alphabet (sg_publicKey signer)))"

definition bootstrap_config ::
  "(string \<Rightarrow> 8 word list) \<Rightarrow> 8 word list result \<Rightarrow> string \<Rightarrow> string \<Rightarrow> (string \<times> principalConfig) result" where
  "bootstrap_config sha256 rand path administratorID =
     (if blank path then Inl (New ''admin config path is required'')
      else if \<not> validIdentifier administratorID then Inl (New ''administrator id is invalid'')
      else (case rand of
          Inl err \<Rightarrow> Inl (Wrap ''generate administrator token: %w'' err)
        | Inr bytes \<Rightarrow>
            (let token = hex_encode bytes
             in Inr (token, \<lparr>cfg_Schema = AdminConfigSchema, cfg_SchemaVersion = AdminConfigVersion,
                  cfg_Principals = [\<lparr>ps_ID = administratorID, ps_Role = RoleAdmin,
                    ps_TokenSHA256 = HashToken sha256 token\<rparr>]\<rparr>))))"

end
