(* ===== verification/Controller_Store.thy ===== *)
theory Controller_Store
  imports Controller_Auth
begin

section \<open>The controller's database (internal/controller/store.go)\<close>

text \<open>
  One record field per table of the schema, each a list of rows with the columns of the
  \<open>CREATE TABLE\<close>; primary keys, the foreign keys of assignments and findings and the
  AUTOINCREMENT counter of the audit log are what the statements below check. A token hash is
  32 bytes by its Go type. An operation gives its result and the database after it; on an
  error the deferred rollback leaves the database as it was. Random bytes are arguments, the
  outcome of \<open>rand.Read\<close>; failures of the database engine are not represented.
\<close>

definition controllerSchemaVersion :: int where "controllerSchemaVersion = 1"

record token_row =
  tk_token_hash :: "8 word list"
  tk_group_name :: string
  tk_expires_at :: string
  tk_created_at :: string
  tk_created_by :: string
  tk_used_at :: "string option"
  tk_used_by_device_id :: "string option"

record device_row =
  dv_id :: string
  dv_credential_hash :: "8 word list"
  dv_name :: string
  dv_platform :: string
  dv_os_version :: string
  dv_agent_version :: string
  dv_group_name :: string
  dv_enrolled_at :: string
  dv_last_seen_at :: "string option"
  dv_credential_rotated_at :: string
  dv_revoked_at :: "string option"

record policy_row =
  po_id :: string
  po_revision :: int
  po_document :: json
  po_created_at :: string
  po_updated_at :: string
  po_created_by :: string
  po_updated_by :: string

record assignment_row =
  ga_group_name :: string
  ga_policy_id :: string
  ga_updated_at :: string
  ga_updated_by :: string

record finding_row =
  cf_device_id :: string
  cf_detector_id :: string
  cf_category :: string
  cf_severity :: string
  cf_state :: string
  cf_first_seen :: string
  cf_last_seen :: string
  cf_occurrences :: int
  cf_reported_at :: string

record audit_row =
  au_sequence :: int
  au_actor_id :: string
  au_action :: string
  au_target_type :: string
  au_target_id :: string
  au_created_at :: string

record Store =
  db_user_version :: int
  db_migrations :: "(int \<times> string) list"
  db_tokens :: "token_row list"
  db_devices :: "device_row list"
  db_policies :: "policy_row list"
  db_assignments :: "assignment_row list"
  db_findings :: "finding_row list"
  db_audit :: "audit_row list"
  db_audit_seq :: int

definition new_database :: Store where
  "new_database = \<lparr>db_user_version = 0, db_migrations = [], db_tokens = [], db_devices = [], db_policies = [],
     db_assignments = [], db_findings = [], db_audit = [], db_audit_seq = 0\<rparr>"

definition migrate :: "gotime \<Rightarrow> Store \<Rightarrow> Store result" where
  "migrate now s =
     (if db_user_version s > controllerSchemaVersion
      then Inl (Errorf ''controller schema version %d is newer than supported version %d''
             [ArgD (db_user_version s), ArgD controllerSchemaVersion])
      else if db_user_version s < 1
      then Inr (s\<lparr>db_migrations := db_migrations s @ [(1, FormatRFC3339Nano (UTC now))], db_user_version := 1\<rparr>)
      else Inr s)"

subsection \<open>Helpers\<close>

definition constraint_error :: go_error where "constraint_error = New ''UNIQUE constraint failed''"
definition foreign_key_error :: go_error where "foreign_key_error = New ''FOREIGN KEY constraint failed''"
definition database_full :: go_error where "database_full = New ''database or disk is full''"

text \<open>\<open>database/sql\<close> refuses a \<open>uint64\<close> that is no \<open>int64\<close>.\<close>

definition sql_uint64 :: "64 word \<Rightarrow> int option" where
  "sql_uint64 w = (if uint w < 2 ^ 63 then Some (uint w) else None)"

definition high_bit_error :: go_error where
  "high_bit_error = New ''uint64 values with high bit set are not supported''"

definition requireAffected :: "nat \<Rightarrow> go_error option" where
  "requireAffected affected = (if affected \<noteq> 1 then Some ErrNotFound else None)"

definition boundedLimit :: "int \<Rightarrow> int \<Rightarrow> int \<Rightarrow> int" where
  "boundedLimit limit fallback maximum = (if limit \<le> 0 then fallback else if limit > maximum then maximum else limit)"

definition newCredential :: "(string \<Rightarrow> 8 word list) \<Rightarrow> 8 word list result \<Rightarrow> (string \<times> 8 word list) result" where
  "newCredential sha256 rand =
     (case rand of
        Inl err \<Rightarrow> Inl (Wrap ''generate credential: %w'' err)
      | Inr bytes \<Rightarrow> (let token = base64_encode url_alphabet bytes in Inr (token, sha256 token)))"

definition newRandomIdentifier :: "8 word list result \<Rightarrow> string result" where
  "newRandomIdentifier rand =
     (case rand of
        Inl err \<Rightarrow> Inl (Wrap ''generate identifier: %w'' err)
      | Inr bytes \<Rightarrow> Inr (base64_encode url_alphabet bytes))"

definition decodeStoredPolicy :: "json \<Rightarrow> PolicyDocument result" where
  "decodeStoredPolicy encoded =
     (case dec_PolicyDocument False encoded zero_PolicyDocument of
        None \<Rightarrow> Inl (Wrap ''decode stored policy: %w'' (New ''json: cannot unmarshal''))
      | Some document \<Rightarrow>
          (case PolicyDocument_Validate document of
             Some err \<Rightarrow> Inl (Wrap ''validate stored policy: %w'' err)
           | None \<Rightarrow> Inr document))"

definition appendAudit :: "string \<Rightarrow> string \<Rightarrow> string \<Rightarrow> string \<Rightarrow> gotime \<Rightarrow> Store \<Rightarrow> Store result" where
  "appendAudit actorID action targetType targetID now s =
     (if db_audit_seq s \<ge> 2 ^ 63 - 1 then Inl (Wrap ''append admin audit: %w'' database_full)
      else Inr (s\<lparr>db_audit := db_audit s @ [\<lparr>au_sequence = db_audit_seq s + 1, au_actor_id = actorID,
                    au_action = action, au_target_type = targetType, au_target_id = targetID,
                    au_created_at = timeText (UTC now)\<rparr>],
                  db_audit_seq := db_audit_seq s + 1\<rparr>))"

text \<open>The end of a transaction that writes an audit entry: append it and commit, or roll back.\<close>

definition audited ::
  "Store \<Rightarrow> string \<Rightarrow> string \<Rightarrow> string \<Rightarrow> string \<Rightarrow> gotime \<Rightarrow> Store \<Rightarrow> go_error option \<times> Store" where
  "audited prev actorID action targetType targetID now changed =
     (case appendAudit actorID action targetType targetID now changed of
        Inl err \<Rightarrow> (Some err, prev)
      | Inr s' \<Rightarrow> (None, s'))"

subsection \<open>Enrollment\<close>

definition CreateEnrollmentToken ::
  "(string \<Rightarrow> 8 word list) \<Rightarrow> 8 word list result \<Rightarrow> Store \<Rightarrow> string \<Rightarrow> string \<Rightarrow> duration \<Rightarrow> gotime
     \<Rightarrow> (string \<times> gotime) result \<times> Store" where
  "CreateEnrollmentToken sha256 rand s actorID grp ttl now0 =
     (if \<not> validIdentifier actorID \<or> \<not> validGroup grp then (Inl ErrInvalidInput, s)
      else if ttl < Minute \<or> ttl > 7 * 24 * Hour
      then (Inl (invalid ''%w: enrollment TTL must be between one minute and seven days''), s)
      else (case newCredential sha256 rand of
          Inl err \<Rightarrow> (Inl err, s)
        | Inr (token, tokenHash) \<Rightarrow>
            (let now = UTC now0; expiresAt = Add now ttl in
             if tokenHash \<in> set (map tk_token_hash (db_tokens s))
             then (Inl (Wrap ''store enrollment token: %w'' constraint_error), s)
             else (case audited s actorID ''enrollment_token.create'' ''group'' grp now
                     (s\<lparr>db_tokens := db_tokens s @ [\<lparr>tk_token_hash = tokenHash, tk_group_name = grp,
                        tk_expires_at = timeText expiresAt, tk_created_at = timeText now, tk_created_by = actorID,
                        tk_used_at = None, tk_used_by_device_id = None\<rparr>]\<rparr>) of
                  (Some err, s') \<Rightarrow> (Inl err, s')
                | (None, s') \<Rightarrow> (Inr (token, expiresAt), s')))))"

text \<open>The \<open>WHERE\<close> clause that consumes an enrollment token.\<close>

definition usable_token :: "8 word list \<Rightarrow> gotime \<Rightarrow> token_row \<Rightarrow> bool" where
  "usable_token tokenHash now row \<longleftrightarrow>
     tk_token_hash row = tokenHash \<and> tk_used_at row = None \<and> tk_expires_at row > timeText now"

definition enroll_device ::
  "Store \<Rightarrow> string \<Rightarrow> 8 word list \<Rightarrow> 8 word list \<Rightarrow> DeviceMetadata \<Rightarrow> gotime \<Rightarrow> string result \<times> Store" where
  "enroll_device s deviceID credentialHash tokenHash metadata now =
     (case find (usable_token tokenHash now) (db_tokens s) of
        None \<Rightarrow> (Inl ErrUnauthenticated, s)
      | Some row \<Rightarrow>
          if deviceID \<in> set (map dv_id (db_devices s))
          then (Inl (Wrap ''store enrolled device: %w'' constraint_error), s)
          else (Inr (tk_group_name row),
            s\<lparr>db_tokens := tbl_update (usable_token tokenHash now)
                 (\<lambda>r. r\<lparr>tk_used_at := Some (timeText now), tk_used_by_device_id := Some deviceID\<rparr>) (db_tokens s),
              db_devices := db_devices s @ [\<lparr>dv_id = deviceID, dv_credential_hash = credentialHash,
                 dv_name = dm_Name metadata, dv_platform = dm_Platform metadata, dv_os_version = dm_OSVersion metadata,
                 dv_agent_version = dm_AgentVersion metadata, dv_group_name = tk_group_name row,
                 dv_enrolled_at = timeText now, dv_last_seen_at = None, dv_credential_rotated_at = timeText now,
                 dv_revoked_at = None\<rparr>]\<rparr>))"

definition Enroll ::
  "(string \<Rightarrow> 8 word list) \<Rightarrow> 8 word list result \<Rightarrow> 8 word list result \<Rightarrow> Store \<Rightarrow> string \<Rightarrow> DeviceMetadata \<Rightarrow> gotime
     \<Rightarrow> (EnrollmentGrant \<times> Device) result \<times> Store" where
  "Enroll sha256 rand_id rand_credential s token metadata now0 =
     (case DeviceMetadata_Validate metadata of
        Some err \<Rightarrow> (Inl err, s)
      | None \<Rightarrow>
     if token = [] \<or> length token > maxBearerTokenBytes then (Inl ErrUnauthenticated, s)
     else (case newRandomIdentifier rand_id of
        Inl err \<Rightarrow> (Inl err, s)
      | Inr deviceID \<Rightarrow>
     (case newCredential sha256 rand_credential of
        Inl err \<Rightarrow> (Inl err, s)
      | Inr (credential, credentialHash) \<Rightarrow>
     (let now = UTC now0 in
      case enroll_device s deviceID credentialHash (sha256 token) metadata now of
        (Inl err, s') \<Rightarrow> (Inl err, s')
      | (Inr grp, s') \<Rightarrow>
          (Inr (\<lparr>eg_DeviceID = deviceID, eg_DeviceCredential = credential\<rparr>,
             \<lparr>dev_ID = deviceID, dev_Name = dm_Name metadata, dev_Platform = dm_Platform metadata,
              dev_OSVersion = dm_OSVersion metadata, dev_AgentVersion = dm_AgentVersion metadata, dev_Group = grp,
              dev_EnrolledAt = now, dev_LastSeenAt = None, dev_CredentialRotatedAt = now, dev_RevokedAt = None\<rparr>), s')))))"

subsection \<open>Devices\<close>

text \<open>A nullable time column.\<close>

definition parse_null :: "string option \<Rightarrow> gotime option result" where
  "parse_null v =
     (case v of None \<Rightarrow> Inr None | Some t \<Rightarrow> (case parseTime t of Inl err \<Rightarrow> Inl err | Inr p \<Rightarrow> Inr (Some p)))"

definition row_device :: "device_row \<Rightarrow> Device result" where
  "row_device row =
     (case parseTime (dv_enrolled_at row) of
        Inl err \<Rightarrow> Inl err
      | Inr enrolledAt \<Rightarrow>
     (case parseTime (dv_credential_rotated_at row) of
        Inl err \<Rightarrow> Inl err
      | Inr rotatedAt \<Rightarrow>
     (case parse_null (dv_last_seen_at row) of
        Inl err \<Rightarrow> Inl err
      | Inr lastSeen \<Rightarrow>
          Inr \<lparr>dev_ID = dv_id row, dev_Name = dv_name row, dev_Platform = dv_platform row,
            dev_OSVersion = dv_os_version row, dev_AgentVersion = dv_agent_version row, dev_Group = dv_group_name row,
            dev_EnrolledAt = enrolledAt, dev_LastSeenAt = lastSeen, dev_CredentialRotatedAt = rotatedAt,
            dev_RevokedAt = None\<rparr>)))"

text \<open>An unknown device is compared against 32 zero bytes.\<close>

definition AuthenticateDevice :: "(string \<Rightarrow> 8 word list) \<Rightarrow> Store \<Rightarrow> string \<Rightarrow> string \<Rightarrow> Device result" where
  "AuthenticateDevice sha256 s deviceID credential0 =
     (let credential = (if length credential0 > maxBearerTokenBytes then [] else credential0);
          candidateHash = sha256 credential;
          row = tbl_lookup dv_id deviceID (db_devices s);
          storedHash = (case row of None \<Rightarrow> replicate 32 0 | Some r \<Rightarrow> dv_credential_hash r);
          found = (row \<noteq> None);
          active = (case row of None \<Rightarrow> True | Some r \<Rightarrow> dv_revoked_at r = None)
      in if \<not> (candidateHash = storedHash \<and> found \<and> active) then Inl ErrUnauthenticated
         else row_device (the row))"

definition live_device :: "string \<Rightarrow> device_row \<Rightarrow> bool" where
  "live_device deviceID row \<longleftrightarrow> dv_id row = deviceID \<and> dv_revoked_at row = None"

definition update_devices ::
  "Store \<Rightarrow> (device_row \<Rightarrow> bool) \<Rightarrow> (device_row \<Rightarrow> device_row) \<Rightarrow> go_error option \<times> Store" where
  "update_devices s sel f =
     (case requireAffected (tbl_affected sel (db_devices s)) of
        Some err \<Rightarrow> (Some err, s\<lparr>db_devices := tbl_update sel f (db_devices s)\<rparr>)
      | None \<Rightarrow> (None, s\<lparr>db_devices := tbl_update sel f (db_devices s)\<rparr>))"

text \<open>\<open>Heartbeat\<close> and \<open>RotateDeviceCredential\<close> are single statements, without a transaction to roll back.\<close>

definition Heartbeat :: "Store \<Rightarrow> string \<Rightarrow> DeviceMetadata \<Rightarrow> gotime \<Rightarrow> go_error option \<times> Store" where
  "Heartbeat s deviceID metadata now =
     (case DeviceMetadata_Validate metadata of
        Some err \<Rightarrow> (Some err, s)
      | None \<Rightarrow> update_devices s (live_device deviceID)
          (\<lambda>r. r\<lparr>dv_name := dm_Name metadata, dv_platform := dm_Platform metadata, dv_os_version := dm_OSVersion metadata,
             dv_agent_version := dm_AgentVersion metadata, dv_last_seen_at := Some (timeText (UTC now))\<rparr>))"

definition RotateDeviceCredential ::
  "(string \<Rightarrow> 8 word list) \<Rightarrow> 8 word list result \<Rightarrow> Store \<Rightarrow> string \<Rightarrow> gotime \<Rightarrow> string result \<times> Store" where
  "RotateDeviceCredential sha256 rand s deviceID now =
     (case newCredential sha256 rand of
        Inl err \<Rightarrow> (Inl err, s)
      | Inr (credential, credentialHash) \<Rightarrow>
          (case update_devices s (live_device deviceID)
                  (\<lambda>r. r\<lparr>dv_credential_hash := credentialHash, dv_credential_rotated_at := timeText (UTC now)\<rparr>) of
             (Some err, s') \<Rightarrow> (Inl err, s')
           | (None, s') \<Rightarrow> (Inr credential, s')))"

definition RevokeDevice :: "Store \<Rightarrow> string \<Rightarrow> string \<Rightarrow> gotime \<Rightarrow> go_error option \<times> Store" where
  "RevokeDevice s actorID deviceID now =
     (if \<not> validIdentifier actorID \<or> \<not> validIdentifier deviceID then (Some ErrInvalidInput, s)
      else (case update_devices s (live_device deviceID) (\<lambda>r. r\<lparr>dv_revoked_at := Some (timeText (UTC now))\<rparr>) of
          (Some err, _) \<Rightarrow> (Some err, s)
        | (None, s') \<Rightarrow> audited s actorID ''device.revoke'' ''device'' deviceID now s'))"

definition AssignDeviceGroup :: "Store \<Rightarrow> string \<Rightarrow> string \<Rightarrow> string \<Rightarrow> gotime \<Rightarrow> go_error option \<times> Store" where
  "AssignDeviceGroup s actorID deviceID grp now =
     (if \<not> validIdentifier actorID \<or> \<not> validIdentifier deviceID \<or> \<not> validGroup grp then (Some ErrInvalidInput, s)
      else (case update_devices s (\<lambda>r. dv_id r = deviceID) (\<lambda>r. r\<lparr>dv_group_name := grp\<rparr>) of
          (Some err, _) \<Rightarrow> (Some err, s)
        | (None, s') \<Rightarrow> audited s actorID ''device.group.assign'' ''device'' deviceID now s'))"

fun map_result :: "('a \<Rightarrow> 'b result) \<Rightarrow> 'a list \<Rightarrow> 'b list result" where
  "map_result f [] = Inr []"
| "map_result f (x # xs) =
     (case f x of
        Inl err \<Rightarrow> Inl err
      | Inr y \<Rightarrow> (case map_result f xs of Inl err \<Rightarrow> Inl err | Inr ys \<Rightarrow> Inr (y # ys)))"

definition list_device :: "device_row \<Rightarrow> Device result" where
  "list_device row =
     (case row_device row of
        Inl err \<Rightarrow> Inl err
      | Inr device \<Rightarrow>
          (case parse_null (dv_revoked_at row) of
             Inl err \<Rightarrow> Inl err
           | Inr revoked \<Rightarrow> Inr (device\<lparr>dev_RevokedAt := revoked\<rparr>)))"

definition device_order :: "device_row \<Rightarrow> device_row \<Rightarrow> bool" where
  "device_order a b \<longleftrightarrow> dv_enrolled_at a > dv_enrolled_at b \<or> (dv_enrolled_at a = dv_enrolled_at b \<and> dv_id a \<le> dv_id b)"

definition ListDevices :: "Store \<Rightarrow> int \<Rightarrow> Device list result" where
  "ListDevices s limit =
     map_result list_device (take (nat (boundedLimit limit 100 1000)) (sort_by device_order (db_devices s)))"

subsection \<open>Policies\<close>

definition CreatePolicy :: "Store \<Rightarrow> string \<Rightarrow> PolicyDocument \<Rightarrow> gotime \<Rightarrow> go_error option \<times> Store" where
  "CreatePolicy s actorID document now =
     (if \<not> validIdentifier actorID then (Some ErrInvalidInput, s)
      else (case PolicyDocument_Validate document of
          Some err \<Rightarrow> (Some err, s)
        | None \<Rightarrow>
            if pd_Revision document \<noteq> 1 then (Some (invalid ''%w: a new policy revision must be 1''), s)
            else if pd_ID document \<in> set (map po_id (db_policies s)) then (Some ErrConflict, s)
            else audited s actorID ''policy.create'' ''policy'' (pd_ID document) now
              (s\<lparr>db_policies := db_policies s @ [\<lparr>po_id = pd_ID document, po_revision = uint (pd_Revision document),
                 po_document = PolicyDocument_json document, po_created_at = timeText (UTC now),
                 po_updated_at = timeText (UTC now), po_created_by = actorID, po_updated_by = actorID\<rparr>]\<rparr>)))"

definition UpdatePolicy :: "Store \<Rightarrow> string \<Rightarrow> PolicyDocument \<Rightarrow> gotime \<Rightarrow> go_error option \<times> Store" where
  "UpdatePolicy s actorID document now =
     (if \<not> validIdentifier actorID then (Some ErrInvalidInput, s)
      else (case PolicyDocument_Validate document of
          Some err \<Rightarrow> (Some err, s)
        | None \<Rightarrow>
      (case (sql_uint64 (pd_Revision document), sql_uint64 (pd_Revision document - 1)) of
          (Some revision, Some expected) \<Rightarrow>
            (let sel = (\<lambda>r. po_id r = pd_ID document \<and> po_revision r = expected) in
             if requireAffected (tbl_affected sel (db_policies s)) \<noteq> None then (Some ErrConflict, s)
             else audited s actorID ''policy.update'' ''policy'' (pd_ID document) now
               (s\<lparr>db_policies := tbl_update sel (\<lambda>r. r\<lparr>po_revision := revision, po_document := PolicyDocument_json document,
                  po_updated_at := timeText (UTC now), po_updated_by := actorID\<rparr>) (db_policies s)\<rparr>))
        | _ \<Rightarrow> (Some (Wrap ''update policy: %w'' high_bit_error), s))))"

definition DeletePolicy :: "Store \<Rightarrow> string \<Rightarrow> string \<Rightarrow> gotime \<Rightarrow> go_error option \<times> Store" where
  "DeletePolicy s actorID policyID now =
     (if \<not> validIdentifier actorID \<or> \<not> validIdentifier policyID then (Some ErrInvalidInput, s)
      else if policyID \<in> set (map po_id (db_policies s)) \<and> policyID \<in> set (map ga_policy_id (db_assignments s))
      then (Some ErrConflict, s)
      else (case requireAffected (tbl_affected (\<lambda>r. po_id r = policyID) (db_policies s)) of
          Some err \<Rightarrow> (Some err, s)
        | None \<Rightarrow> audited s actorID ''policy.delete'' ''policy'' policyID now
            (s\<lparr>db_policies := filter (\<lambda>r. po_id r \<noteq> policyID) (db_policies s)\<rparr>)))"

definition GetPolicy :: "Store \<Rightarrow> string \<Rightarrow> PolicyDocument result" where
  "GetPolicy s policyID =
     (if \<not> validIdentifier policyID then Inl ErrInvalidInput
      else (case tbl_lookup po_id policyID (db_policies s) of
          None \<Rightarrow> Inl ErrNotFound
        | Some row \<Rightarrow> decodeStoredPolicy (po_document row)))"

definition ListPolicies :: "Store \<Rightarrow> int \<Rightarrow> PolicyDocument list result" where
  "ListPolicies s limit =
     map_result (\<lambda>row. decodeStoredPolicy (po_document row))
       (take (nat (boundedLimit limit 100 1000)) (sort_key po_id (db_policies s)))"

definition AssignGroupPolicy :: "Store \<Rightarrow> string \<Rightarrow> string \<Rightarrow> string \<Rightarrow> gotime \<Rightarrow> go_error option \<times> Store" where
  "AssignGroupPolicy s actorID grp policyID now =
     (if \<not> validIdentifier actorID \<or> \<not> validGroup grp \<or> \<not> validIdentifier policyID then (Some ErrInvalidInput, s)
      else if policyID \<notin> set (map po_id (db_policies s)) then (Some ErrNotFound, s)
      else audited s actorID ''group.policy.assign'' ''group'' grp now
        (s\<lparr>db_assignments := tbl_upsert ga_group_name
            \<lparr>ga_group_name = grp, ga_policy_id = policyID, ga_updated_at = timeText (UTC now), ga_updated_by = actorID\<rparr>
            (\<lambda>r. r\<lparr>ga_policy_id := policyID, ga_updated_at := timeText (UTC now), ga_updated_by := actorID\<rparr>)
            (db_assignments s)\<rparr>))"

definition UnassignGroupPolicy :: "Store \<Rightarrow> string \<Rightarrow> string \<Rightarrow> gotime \<Rightarrow> go_error option \<times> Store" where
  "UnassignGroupPolicy s actorID grp now =
     (if \<not> validIdentifier actorID \<or> \<not> validGroup grp then (Some ErrInvalidInput, s)
      else (case requireAffected (tbl_affected (\<lambda>r. ga_group_name r = grp) (db_assignments s)) of
          Some err \<Rightarrow> (Some err, s)
        | None \<Rightarrow> audited s actorID ''group.policy.remove'' ''group'' grp now
            (s\<lparr>db_assignments := filter (\<lambda>r. ga_group_name r \<noteq> grp) (db_assignments s)\<rparr>)))"

text \<open>The join of assignments and policies for a group.\<close>

definition group_policy :: "Store \<Rightarrow> string \<Rightarrow> policy_row option" where
  "group_policy s grp =
     (case tbl_lookup ga_group_name grp (db_assignments s) of
        None \<Rightarrow> None
      | Some a \<Rightarrow> tbl_lookup po_id (ga_policy_id a) (db_policies s))"

definition PolicyForDevice :: "Store \<Rightarrow> string \<Rightarrow> PolicyDocument result" where
  "PolicyForDevice s deviceID =
     (case find (live_device deviceID) (db_devices s) of
        None \<Rightarrow> Inl ErrNotFound
      | Some device \<Rightarrow>
          (case group_policy s (dv_group_name device) of
             None \<Rightarrow> Inl ErrNotFound
           | Some row \<Rightarrow> decodeStoredPolicy (po_document row)))"

definition PolicyForGroup :: "Store \<Rightarrow> string \<Rightarrow> PolicyDocument result" where
  "PolicyForGroup s grp =
     (if \<not> validGroup grp then Inl ErrInvalidInput
      else (case group_policy s grp of
          None \<Rightarrow> Inl ErrNotFound
        | Some row \<Rightarrow> decodeStoredPolicy (po_document row)))"

subsection \<open>Reports\<close>

definition cf_key :: "finding_row \<Rightarrow> string \<times> string \<times> string" where
  "cf_key row = (cf_device_id row, cf_detector_id row, cf_category row)"

definition report_row :: "string \<Rightarrow> ReportSync \<Rightarrow> RedactedFinding \<Rightarrow> int \<Rightarrow> finding_row" where
  "report_row deviceID report finding occurrences =
     \<lparr>cf_device_id = deviceID, cf_detector_id = rf_DetectorID finding, cf_category = rf_Category finding,
      cf_severity = rf_Severity finding, cf_state = rf_State finding,
      cf_first_seen = timeText (UTC (rf_FirstSeen finding)), cf_last_seen = timeText (UTC (rf_LastSeen finding)),
      cf_occurrences = occurrences, cf_reported_at = timeText (UTC (rs_ReportedAt report))\<rparr>"

definition merge_row :: "finding_row \<Rightarrow> finding_row \<Rightarrow> finding_row" where
  "merge_row excluded row =
     row\<lparr>cf_severity := cf_severity excluded, cf_state := cf_state excluded, cf_first_seen := cf_first_seen excluded,
       cf_last_seen := cf_last_seen excluded, cf_occurrences := cf_occurrences excluded,
       cf_reported_at := cf_reported_at excluded\<rparr>"

fun store_findings :: "bool \<Rightarrow> string \<Rightarrow> ReportSync \<Rightarrow> RedactedFinding list \<Rightarrow> finding_row list \<Rightarrow> finding_row list result" where
  "store_findings known deviceID report [] rows = Inr rows"
| "store_findings known deviceID report (finding # findings) rows =
     (case sql_uint64 (rf_Occurrences finding) of
        None \<Rightarrow> Inl (Wrap ''store redacted finding: %w'' high_bit_error)
      | Some occurrences \<Rightarrow>
          if \<not> known then Inl (Wrap ''store redacted finding: %w'' foreign_key_error)
          else (let row = report_row deviceID report finding occurrences
                in store_findings known deviceID report findings (tbl_upsert cf_key row (merge_row row) rows)))"

definition SyncReport :: "Store \<Rightarrow> string \<Rightarrow> ReportSync \<Rightarrow> gotime \<Rightarrow> go_error option \<times> Store" where
  "SyncReport s deviceID report now =
     (case ReportSync_Validate (UTC now) report of
        Some err \<Rightarrow> (Some err, s)
      | None \<Rightarrow>
          (case store_findings (deviceID \<in> set (map dv_id (db_devices s))) deviceID report (rs_Findings report) (db_findings s) of
             Inl err \<Rightarrow> (Some err, s)
           | Inr rows \<Rightarrow>
               (case update_devices (s\<lparr>db_findings := rows\<rparr>) (live_device deviceID)
                       (\<lambda>r. r\<lparr>dv_last_seen_at := Some (timeText (UTC now))\<rparr>) of
                  (Some err, _) \<Rightarrow> (Some err, s)
                | (None, s') \<Rightarrow> (None, s'))))"

definition row_finding :: "finding_row \<Rightarrow> StoredFinding result" where
  "row_finding row =
     (case parseTime (cf_first_seen row) of
        Inl err \<Rightarrow> Inl err
      | Inr firstSeen \<Rightarrow>
     (case parseTime (cf_last_seen row) of
        Inl err \<Rightarrow> Inl err
      | Inr lastSeen \<Rightarrow>
     (case parseTime (cf_reported_at row) of
        Inl err \<Rightarrow> Inl err
      | Inr reportedAt \<Rightarrow>
          Inr \<lparr>stf_DeviceID = cf_device_id row, stf_ReportedAt = reportedAt,
            stf_Finding = \<lparr>rf_DetectorID = cf_detector_id row, rf_Category = cf_category row,
              rf_Severity = cf_severity row, rf_State = cf_state row, rf_FirstSeen = firstSeen,
              rf_LastSeen = lastSeen, rf_Occurrences = word_of_int (cf_occurrences row)\<rparr>\<rparr>)))"

definition finding_order :: "finding_row \<Rightarrow> finding_row \<Rightarrow> bool" where
  "finding_order a b \<longleftrightarrow> cf_reported_at a > cf_reported_at b
     \<or> (cf_reported_at a = cf_reported_at b \<and> (cf_device_id a, cf_detector_id a) \<le> (cf_device_id b, cf_detector_id b))"

definition ListFindings :: "Store \<Rightarrow> int \<Rightarrow> StoredFinding list result" where
  "ListFindings s limit =
     map_result row_finding (take (nat (boundedLimit limit 500 5000)) (sort_by finding_order (db_findings s)))"

definition row_audit :: "audit_row \<Rightarrow> AuditEntry result" where
  "row_audit row =
     (case parseTime (au_created_at row) of
        Inl err \<Rightarrow> Inl err
      | Inr createdAt \<Rightarrow>
          Inr \<lparr>ae_Sequence = au_sequence row, ae_ActorID = au_actor_id row, ae_Action = au_action row,
            ae_TargetType = au_target_type row, ae_TargetID = au_target_id row, ae_CreatedAt = createdAt\<rparr>)"

definition ListAudit :: "Store \<Rightarrow> int \<Rightarrow> int \<Rightarrow> AuditEntry list result" where
  "ListAudit s afterSequence limit =
     (if afterSequence < 0 then Inl ErrInvalidInput
      else map_result row_audit
        (take (nat (boundedLimit limit 100 1000))
          (sort_key au_sequence (filter (\<lambda>row. au_sequence row > afterSequence) (db_audit s)))))"

end
