(* ===== verification/GoAddr.thy ===== *)
theory GoAddr
  imports GoNet
begin

section \<open>Addresses (package net) and decimal arguments (strconv.Atoi)\<close>

text \<open>
  The host and port of an address, the bytes of a textual IP address as eight 16-bit groups,
  and the loopback test that guards every plain HTTP connection of the program.
\<close>

definition Atoi :: "string \<Rightarrow> int option" where
  "Atoi s =
     (let digits = (case s of c # r \<Rightarrow> if c = CHR ''+'' \<or> c = CHR ''-'' then r else s | [] \<Rightarrow> [])
      in if digits = [] then None
         else (case parse_digits 0 digits of
             None \<Rightarrow> None
           | Some n \<Rightarrow>
               (let v = (if hd s = CHR ''-'' then - n else n)
                in if - (2 ^ 63) \<le> v \<and> v < 2 ^ 63 then Some v else None)))"

text \<open>\<open>net.SplitHostPort\<close>, \<open>None\<close> for each of its errors.\<close>

definition SplitHostPort :: "string \<Rightarrow> (string \<times> string) option" where
  "SplitHostPort s =
     (if CHR '':'' \<notin> set s then None
      else
       (let port = rev (takeWhile (\<lambda>c. c \<noteq> CHR '':'') (rev s));
            i = length s - length port - 1
        in if hd s = CHR ''['' then
             (let e = length (takeWhile (\<lambda>c. c \<noteq> CHR '']'') s)
              in if CHR '']'' \<notin> set s \<or> e + 1 \<noteq> i \<or> CHR ''['' \<in> set (drop 1 s) \<or> CHR '']'' \<in> set (drop (e + 1) s)
                 then None
                 else Some (take (e - 1) (drop 1 s), port))
           else if CHR '':'' \<in> set (take i s) \<or> CHR ''['' \<in> set s \<or> CHR '']'' \<in> set s then None
           else Some (take i s, port)))"

subsection \<open>net.ParseIP\<close>

type_synonym ip = "nat list"

definition ipv4_octets :: "string \<Rightarrow> nat list" where
  "ipv4_octets s = map (\<lambda>p. nat (foldl (\<lambda>n c. n * 10 + digit_val c) 0 p)) (split_on (CHR ''.'') s)"

definition ipv4_groups :: "string \<Rightarrow> nat list" where
  "ipv4_groups s = (let q = ipv4_octets s in [q ! 0 * 256 + q ! 1, q ! 2 * 256 + q ! 3])"

definition hex_number :: "string \<Rightarrow> nat" where
  "hex_number s = foldl (\<lambda>n c. n * 16 +
     (if is_digit c then byte c - 48 else if byte c \<ge> 97 then byte c - 87 else byte c - 55)) 0 s"

text \<open>The groups before and after a double colon, with zeros between them.\<close>

definition fill_groups :: "nat \<Rightarrow> nat list option \<Rightarrow> nat list \<Rightarrow> ip option" where
  "fill_groups n front after =
     (case front of
        None \<Rightarrow> if n = 0 then Some after else None
      | Some b \<Rightarrow> if n = 0 then None else Some (b @ replicate n 0 @ after))"

fun ipv6_groups :: "nat \<Rightarrow> nat list option \<Rightarrow> nat list \<Rightarrow> string \<Rightarrow> ip option" where
  "ipv6_groups 0 front after s = None"
| "ipv6_groups (Suc n) front after s =
     (let hex = takeWhile is_hex s; rest = dropWhile is_hex s in
      if hex = [] \<or> length hex > 4 then None
      else case rest of
          [] \<Rightarrow> fill_groups n front (after @ [hex_number hex])
        | c # r \<Rightarrow>
            if c = CHR ''.'' then
              (if front = None \<and> n \<noteq> 1 then None
               else if n = 0 then None
               else if valid_ipv4 s then fill_groups (n - 1) front (after @ ipv4_groups s) else None)
            else if c \<noteq> CHR '':'' \<or> r = [] then None
            else if hd r = CHR '':'' then
              (if front \<noteq> None then None
               else if tl r = [] then fill_groups n (Some (after @ [hex_number hex])) []
               else ipv6_groups n (Some (after @ [hex_number hex])) [] (tl r))
            else ipv6_groups n front (after @ [hex_number hex]) r)"

definition ParseIP :: "string \<Rightarrow> ip option" where
  "ParseIP s =
     (case find (\<lambda>c. c = CHR ''.'' \<or> c = CHR '':'' \<or> c = CHR ''%'') s of
        None \<Rightarrow> None
      | Some c \<Rightarrow>
          if c = CHR ''.'' then (if valid_ipv4 s then Some (replicate 5 0 @ [65535] @ ipv4_groups s) else None)
          else if c = CHR '':'' \<and> CHR ''%'' \<notin> set s then
            (if has_prefix s ''::'' then
               (if drop 2 s = [] then Some (replicate 8 0) else ipv6_groups 8 (Some []) [] (drop 2 s))
             else ipv6_groups 8 None [] s)
          else None)"

definition IsLoopback :: "ip \<Rightarrow> bool" where
  "IsLoopback ip \<longleftrightarrow>
     (if take 6 ip = replicate 5 0 @ [65535] then ip ! 6 div 256 = 127 else ip = replicate 7 0 @ [1])"

definition isLoopbackHost :: "string \<Rightarrow> bool" where
  "isLoopbackHost host \<longleftrightarrow>
     key_is host ''localhost'' \<or> (case ParseIP host of None \<Rightarrow> False | Some address \<Rightarrow> IsLoopback address)"

subsection \<open>Only loopback addresses pass\<close>

lemma fill_groups_length: "fill_groups n front after = Some ip \<Longrightarrow>
   length ip = n + length after + (case front of None \<Rightarrow> 0 | Some b \<Rightarrow> length b)"
  by (auto simp: fill_groups_def split: option.splits if_splits)

lemma ipv6_groups_length:
  "ipv6_groups n front after s = Some ip \<Longrightarrow>
     length ip = n + length after + (case front of None \<Rightarrow> 0 | Some b \<Rightarrow> length b)"
proof (induction n arbitrary: front after s)
  case (Suc n)
  have fg: "length ip = m + length a + (case b of None \<Rightarrow> 0 | Some b \<Rightarrow> length b)"
    if "fill_groups m b a = Some ip" for m b a
    using that by (rule fill_groups_length)
  show ?case
  proof (cases "dropWhile is_hex s")
    case Nil
    with Suc.prems show ?thesis by (auto simp: Let_def dest!: fg split: if_splits)
  next
    case (Cons c r)
    with Suc.prems show ?thesis
      by (cases front) (auto simp: Let_def ipv4_groups_def dest!: fg Suc.IH split: if_splits)
  qed
qed simp

lemma ParseIP_length: "ParseIP s = Some ip \<Longrightarrow> length ip = 8"
  by (auto simp: ParseIP_def ipv4_groups_def Let_def dest!: ipv6_groups_length split: option.splits if_splits)

lemma fill_groups_ok: "fill_groups n front after \<noteq> None \<longleftrightarrow> (if n = 0 then front = None else front \<noteq> None)"
  by (auto simp: fill_groups_def split: option.splits)

lemma fill_groups_0: "fill_groups 0 (Some b) after = None"
  by (simp add: fill_groups_def)

lemma ipv6_groups_ok:
  "ipv6_groups n front after s \<noteq> None \<longleftrightarrow> ipv6_fields n (front \<noteq> None) s"
proof (induction n arbitrary: front after s)
  case (Suc n)
  have some: "(Some a \<noteq> None) = True" "(None \<noteq> None) = False" for a :: "nat list" by simp_all
  show ?case
  proof (cases "dropWhile is_hex s")
    case Nil
    then show ?thesis by (simp add: Let_def fill_groups_ok del: not_None_eq dropWhile_eq_Nil_conv)
  next
    case (Cons c r)
    show ?thesis
    proof (cases front)
      case None
      with Cons show ?thesis
        by (cases "c = CHR ''.''"; cases "c = CHR '':''"; cases "hd r = CHR '':''"; cases "tl r = []"; cases "n = 0")
          (simp_all add: Let_def fill_groups_ok Suc.IH some del: not_None_eq)
    next
      case (Some b)
      with Cons show ?thesis
        by (cases "c = CHR ''.''"; cases "c = CHR '':''"; cases "hd r = CHR '':''"; cases "tl r = []"; cases "n = 0")
          (simp_all add: Let_def fill_groups_ok fill_groups_0 Suc.IH some del: not_None_eq)
    qed
  qed
qed simp

lemma ParseIP_ok_iff: "ParseIP_ok s \<longleftrightarrow> ParseIP s \<noteq> None"
  using ipv6_groups_ok [of 8 "Some []" "[]" "drop 2 s"] ipv6_groups_ok [of 8 None "[]" s]
  by (auto simp: ParseIP_ok_def ParseIP_def valid_ipv6_def split: option.splits)

end
