(* ===== verification/Controller_Server.thy ===== *)
theory Controller_Server
  imports Controller_Store GoAddr
begin

section \<open>The controller's HTTP interface (internal/controller/server.go)\<close>

text \<open>
  Requests and responses as \<open>net/http\<close> hands them to the handlers. The path is the list of its
  decoded segments, the query the map \<open>URL.Query\<close> gives, the content type what
  \<open>mime.ParseMediaType\<close> made of the header (\<open>None\<close> where it failed). A request body is its
  length and the values a JSON decoder finds in it, each with the number of bytes read when
  its end (or the offending byte, \<open>None\<close>) is reached; \<open>http.MaxBytesReader\<close> cuts it off. What the
  clock and the random number generator answer during the request comes with it.

  The store is the state: a handler gives the response and the store after it. The header
  \<open>Content-Type\<close> is not represented, nor are redirects of unclean paths.
\<close>

definition defaultJSONBodyLimit :: int where "defaultJSONBodyLimit = 65536"
definition policyJSONBodyLimit :: int where "policyJSONBodyLimit = 262144"
definition reportJSONBodyLimit :: int where "reportJSONBodyLimit = 1048576"

definition errBodyTooLarge :: go_error where "errBodyTooLarge = New ''request body exceeds limit''"
definition errUnsupportedMedia :: go_error where
  "errUnsupportedMedia = New ''request content type must be application/json''"

record request_body =
  bd_length :: nat
  bd_values :: "(nat \<times> json option) list"

record request =
  rq_method :: string
  rq_path :: "string list"
  rq_query :: "(string \<times> string list) list"
  rq_authorization :: string
  rq_device_id :: string
  rq_media_type :: "string option"
  rq_content_length :: int
  rq_body :: request_body
  rq_now :: gotime
  rq_rand_id :: "8 word list result"
  rq_rand :: "8 word list result"

record response =
  re_status :: nat
  re_authenticate :: bool
  re_body :: "json option"

record Server =
  srv_principals :: PrincipalSet
  srv_signer :: Signer
  srv_sha256 :: "string \<Rightarrow> 8 word list"
  srv_ed25519 :: ed25519

definition NewServer ::
  "Store option \<Rightarrow> PrincipalSet option \<Rightarrow> Signer option \<Rightarrow> (string \<Rightarrow> 8 word list) \<Rightarrow> ed25519 \<Rightarrow> Server result" where
  "NewServer store principals signer sha256 ed =
     (case store of
        None \<Rightarrow> Inl (New ''controller store is required'')
      | Some _ \<Rightarrow>
     (case principals of
        None \<Rightarrow> Inl (New ''controller principals are required'')
      | Some ps \<Rightarrow>
     if ps = [] then Inl (New ''controller principals are required'')
     else (case signer of
        None \<Rightarrow> Inl (New ''controller signer is required'')
      | Some sg \<Rightarrow>
     if sg_privateKey sg = [] then Inl (New ''controller signer is required'')
     else Inr \<lparr>srv_principals = ps, srv_signer = sg, srv_sha256 = sha256, srv_ed25519 = ed\<rparr>)))"

subsection \<open>Responses\<close>

definition writeJSON :: "nat \<Rightarrow> json option \<Rightarrow> response" where
  "writeJSON status value = \<lparr>re_status = status, re_authenticate = False, re_body = value\<rparr>"

definition NoContent :: response where
  "NoContent = \<lparr>re_status = 204, re_authenticate = False, re_body = None\<rparr>"

definition writeAPIError :: "nat \<Rightarrow> string \<Rightarrow> response" where
  "writeAPIError status code = writeJSON status (Some (JObj [(''error'', jstr code)]))"

definition writeUnauthorized :: response where
  "writeUnauthorized = (writeAPIError 401 ''unauthorized'')\<lparr>re_authenticate := True\<rparr>"

definition writeStoreError :: "go_error \<Rightarrow> response" where
  "writeStoreError err =
     (if errors_Is err ErrInvalidInput then writeAPIError 400 ''invalid_request''
      else if errors_Is err ErrNotFound then writeAPIError 404 ''not_found''
      else if errors_Is err ErrConflict then writeAPIError 409 ''conflict''
      else if errors_Is err ErrUnauthenticated then writeUnauthorized
      else writeAPIError 500 ''internal_error'')"

definition writeDecodeError :: "go_error \<Rightarrow> response" where
  "writeDecodeError err =
     (if errors_Is err errBodyTooLarge then writeAPIError 413 ''request_too_large''
      else if errors_Is err errUnsupportedMedia then writeAPIError 415 ''unsupported_media_type''
      else writeAPIError 400 ''invalid_request'')"

text \<open>What most handlers do with a store operation that returns only an error.\<close>

definition respond :: "response \<Rightarrow> go_error option \<times> Store \<Rightarrow> response \<times> Store" where
  "respond ok outcome =
     (case outcome of (Some err, s) \<Rightarrow> (writeStoreError err, s) | (None, s) \<Rightarrow> (ok, s))"

subsection \<open>Reading requests\<close>

text \<open>The values a decoder finds below the limit, and whether the limit cuts the body.\<close>

definition below_limit :: "int \<Rightarrow> request_body \<Rightarrow> json_stream" where
  "below_limit limit body = map snd (takeWhile (\<lambda>v. int (fst v) \<le> limit) (bd_values body))"

definition decodeRequestJSON :: "int \<Rightarrow> (json \<Rightarrow> 'a \<Rightarrow> 'a option) \<Rightarrow> 'a \<Rightarrow> request \<Rightarrow> 'a result" where
  "decodeRequestJSON limit dec zero rq =
     (if rq_media_type rq \<noteq> Some ''application/json'' then Inl errUnsupportedMedia
      else if rq_content_length rq > limit then Inl errBodyTooLarge
      else
        (let stream = below_limit limit (rq_body rq);
             too_long = int (bd_length (rq_body rq)) > limit
         in case decodeStrictReader dec zero stream of
              Inl err \<Rightarrow> Inl (if stream = [] \<and> too_long then errBodyTooLarge else err)
            | Inr x \<Rightarrow> if too_long then Inl errBodyTooLarge else Inr x))"

definition requireEmptyBody :: "request \<Rightarrow> bool" where
  "requireEmptyBody rq \<longleftrightarrow> bd_length (rq_body rq) = 0"

definition invalid_request :: response where
  "invalid_request = writeAPIError 400 ''invalid_request''"

definition queryInteger :: "request \<Rightarrow> string \<Rightarrow> int \<Rightarrow> response + int" where
  "queryInteger rq name fallback =
     (case map_of (rq_query rq) name of
        None \<Rightarrow> Inr fallback
      | Some values \<Rightarrow>
          (case values of
             [v] \<Rightarrow>
               if v = [] then Inl invalid_request
               else (case Atoi v of
                   None \<Rightarrow> Inl invalid_request
                 | Some n \<Rightarrow> if n < 0 then Inl invalid_request else Inr n)
           | _ \<Rightarrow> Inl invalid_request))"

definition bearerToken :: "string \<Rightarrow> string \<times> bool" where
  "bearerToken header =
     (if length header \<le> 7 \<or> length header > 7 + maxBearerTokenBytes \<or> \<not> has_prefix header ''Bearer ''
      then ([], False)
      else if list_ex (\<lambda>c. c \<in> {CHR '' '', CHR 0x09, CHR 0x0D, CHR 0x0A}) (drop 7 header) then ([], False)
      else (drop 7 header, True))"

text \<open>The values of the wildcards of the matched pattern.\<close>

type_synonym path_values = "(string \<times> string) list"

definition PathValue :: "path_values \<Rightarrow> string \<Rightarrow> string" where
  "PathValue vals name = (case map_of vals name of None \<Rightarrow> [] | Some v \<Rightarrow> v)"

subsection \<open>The agent's handlers\<close>

record enrollmentRequest =
  er_EnrollmentToken :: string
  er_Device :: DeviceMetadata

definition enrollmentRequest_fields :: "enrollmentRequest fields" where
  "enrollmentRequest_fields =
    [(''enrollment_token'', fld er_EnrollmentToken (\<lambda>x s. s\<lparr>er_EnrollmentToken := x\<rparr>) dec_string),
     (''device'', fld er_Device (\<lambda>x s. s\<lparr>er_Device := x\<rparr>) (dec_record True DeviceMetadata_fields))]"

definition enroll :: "Server \<Rightarrow> request \<Rightarrow> Store \<Rightarrow> response \<times> Store" where
  "enroll srv rq s =
     (case decodeRequestJSON defaultJSONBodyLimit (dec_record True enrollmentRequest_fields)
             \<lparr>er_EnrollmentToken = [], er_Device = zero_DeviceMetadata\<rparr> rq of
        Inl err \<Rightarrow> (writeDecodeError err, s)
      | Inr body \<Rightarrow>
          (case Enroll (srv_sha256 srv) (rq_rand_id rq) (rq_rand rq) s (er_EnrollmentToken body) (er_Device body) (rq_now rq) of
             (Inl err, s') \<Rightarrow>
               (if errors_Is err ErrUnauthenticated then writeUnauthorized else writeStoreError err, s')
           | (Inr (grant, _), s') \<Rightarrow> (writeJSON 201 (Some (EnrollmentGrant_json grant)), s')))"

type_synonym agent_handler = "Server \<Rightarrow> request \<Rightarrow> Device \<Rightarrow> Store \<Rightarrow> response \<times> Store"

definition heartbeat :: agent_handler where
  "heartbeat srv rq device s =
     (case decodeRequestJSON defaultJSONBodyLimit (dec_record True DeviceMetadata_fields) zero_DeviceMetadata rq of
        Inl err \<Rightarrow> (writeDecodeError err, s)
      | Inr metadata \<Rightarrow> respond NoContent (Heartbeat s (dev_ID device) metadata (rq_now rq)))"

definition fetchPolicy :: agent_handler where
  "fetchPolicy srv rq device s =
     (case PolicyForDevice s (dev_ID device) of
        Inl err \<Rightarrow> (writeStoreError err, s)
      | Inr document \<Rightarrow>
          (case Sign (srv_ed25519 srv) (Some (srv_signer srv)) document of
             Inl err \<Rightarrow> (writeStoreError err, s)
           | Inr envelope \<Rightarrow> (writeJSON 200 (Some (SignedPolicy_json envelope)), s)))"

definition syncReport :: agent_handler where
  "syncReport srv rq device s =
     (case decodeRequestJSON reportJSONBodyLimit (dec_record True (ReportSync_fields True)) zero_ReportSync rq of
        Inl err \<Rightarrow> (writeDecodeError err, s)
      | Inr report \<Rightarrow>
          respond (writeJSON 202 (Some (JObj [(''accepted'', jint (int (length (rs_Findings report))))])))
            (SyncReport s (dev_ID device) report (rq_now rq)))"

definition rotateCredential :: agent_handler where
  "rotateCredential srv rq device s =
     (if \<not> requireEmptyBody rq then (invalid_request, s)
      else (case RotateDeviceCredential (srv_sha256 srv) (rq_rand rq) s (dev_ID device) (rq_now rq) of
          (Inl err, s') \<Rightarrow> (writeStoreError err, s')
        | (Inr credential, s') \<Rightarrow>
            (writeJSON 200 (Some (JObj [(''device_credential'', jstr credential), (''device_id'', jstr (dev_ID device))])), s')))"

subsection \<open>The administrators' handlers\<close>

type_synonym admin_handler = "Server \<Rightarrow> request \<Rightarrow> path_values \<Rightarrow> Principal \<Rightarrow> Store \<Rightarrow> response \<times> Store"

record createEnrollmentTokenRequest =
  ct_Group :: string
  ct_TTLSeconds :: "32 word"

definition createEnrollmentTokenRequest_fields :: "createEnrollmentTokenRequest fields" where
  "createEnrollmentTokenRequest_fields =
    [(''group'', fld ct_Group (\<lambda>x s. s\<lparr>ct_Group := x\<rparr>) dec_string),
     (''ttl_seconds'', fld ct_TTLSeconds (\<lambda>x s. s\<lparr>ct_TTLSeconds := x\<rparr>) dec_uint32)]"

text \<open>\<open>time.Duration(TTLSeconds) * time.Second\<close> stays below \<open>2\<^sup>63\<close>.\<close>

definition createEnrollmentToken :: admin_handler where
  "createEnrollmentToken srv rq vals admin s =
     (case decodeRequestJSON defaultJSONBodyLimit (dec_record True createEnrollmentTokenRequest_fields)
             \<lparr>ct_Group = [], ct_TTLSeconds = 0\<rparr> rq of
        Inl err \<Rightarrow> (writeDecodeError err, s)
      | Inr body \<Rightarrow>
          (case CreateEnrollmentToken (srv_sha256 srv) (rq_rand rq) s (prin_ID admin) (ct_Group body)
                  (uint (ct_TTLSeconds body) * Second) (rq_now rq) of
             (Inl err, s') \<Rightarrow> (writeStoreError err, s')
           | (Inr (token, expiresAt), s') \<Rightarrow>
               (writeJSON 201 (if json_time expiresAt
                  then Some (JObj [(''enrollment_token'', jstr token), (''expires_at'', jtime expiresAt)]) else None), s')))"

text \<open>A list under one member; a nil slice is \<open>null\<close>, an element that cannot be encoded voids the body.\<close>

fun all_some :: "'a option list \<Rightarrow> 'a list option" where
  "all_some [] = Some []"
| "all_some (x # xs) = (case x of None \<Rightarrow> None | Some y \<Rightarrow> map_option ((#) y) (all_some xs))"

definition list_body :: "string \<Rightarrow> ('a \<Rightarrow> json option) \<Rightarrow> 'a list \<Rightarrow> json option" where
  "list_body name enc xs =
     map_option (\<lambda>js. JObj [(name, if js = [] then JNull else JArr js)]) (all_some (map enc xs))"

definition respond_list :: "string \<Rightarrow> ('a \<Rightarrow> json option) \<Rightarrow> 'a list result \<Rightarrow> response" where
  "respond_list name enc r =
     (case r of Inl err \<Rightarrow> writeStoreError err | Inr xs \<Rightarrow> writeJSON 200 (list_body name enc xs))"

definition listDevices :: admin_handler where
  "listDevices srv rq vals admin s =
     (case queryInteger rq ''limit'' 0 of
        Inl failed \<Rightarrow> (failed, s)
      | Inr limit \<Rightarrow> (respond_list ''devices'' Device_json (ListDevices s limit), s))"

definition revokeDevice :: admin_handler where
  "revokeDevice srv rq vals admin s =
     (if \<not> requireEmptyBody rq then (invalid_request, s)
      else respond NoContent (RevokeDevice s (prin_ID admin) (PathValue vals ''deviceID'') (rq_now rq)))"

record groupRequest =
  gr_Group :: string

definition groupRequest_fields :: "groupRequest fields" where
  "groupRequest_fields = [(''group'', fld gr_Group (\<lambda>x s. s\<lparr>gr_Group := x\<rparr>) dec_string)]"

definition assignDeviceGroup :: admin_handler where
  "assignDeviceGroup srv rq vals admin s =
     (case decodeRequestJSON defaultJSONBodyLimit (dec_record True groupRequest_fields) \<lparr>gr_Group = []\<rparr> rq of
        Inl err \<Rightarrow> (writeDecodeError err, s)
      | Inr body \<Rightarrow>
          respond NoContent
            (AssignDeviceGroup s (prin_ID admin) (PathValue vals ''deviceID'') (gr_Group body) (rq_now rq)))"

definition listFindings :: admin_handler where
  "listFindings srv rq vals admin s =
     (case queryInteger rq ''limit'' 0 of
        Inl failed \<Rightarrow> (failed, s)
      | Inr limit \<Rightarrow> (respond_list ''findings'' StoredFinding_json (ListFindings s limit), s))"

definition listAudit :: admin_handler where
  "listAudit srv rq vals admin s =
     (case queryInteger rq ''limit'' 0 of
        Inl failed \<Rightarrow> (failed, s)
      | Inr limit \<Rightarrow>
     (case queryInteger rq ''after'' 0 of
        Inl failed \<Rightarrow> (failed, s)
      | Inr aft \<Rightarrow> (respond_list ''audit'' AuditEntry_json (ListAudit s aft limit), s)))"

definition listPolicies :: admin_handler where
  "listPolicies srv rq vals admin s =
     (case queryInteger rq ''limit'' 0 of
        Inl failed \<Rightarrow> (failed, s)
      | Inr limit \<Rightarrow> (respond_list ''policies'' (\<lambda>d. Some (PolicyDocument_json d)) (ListPolicies s limit), s))"

definition decode_policy :: "request \<Rightarrow> PolicyDocument result" where
  "decode_policy rq = decodeRequestJSON policyJSONBodyLimit (dec_PolicyDocument True) zero_PolicyDocument rq"

definition createPolicy :: admin_handler where
  "createPolicy srv rq vals admin s =
     (case decode_policy rq of
        Inl err \<Rightarrow> (writeDecodeError err, s)
      | Inr document \<Rightarrow>
          respond (writeJSON 201 (Some (PolicyDocument_json document)))
            (CreatePolicy s (prin_ID admin) document (rq_now rq)))"

definition respond_policy :: "PolicyDocument result \<Rightarrow> response" where
  "respond_policy r =
     (case r of Inl err \<Rightarrow> writeStoreError err | Inr d \<Rightarrow> writeJSON 200 (Some (PolicyDocument_json d)))"

definition getPolicy :: admin_handler where
  "getPolicy srv rq vals admin s = (respond_policy (GetPolicy s (PathValue vals ''policyID'')), s)"

definition updatePolicy :: admin_handler where
  "updatePolicy srv rq vals admin s =
     (case decode_policy rq of
        Inl err \<Rightarrow> (writeDecodeError err, s)
      | Inr document \<Rightarrow>
          if pd_ID document \<noteq> PathValue vals ''policyID'' then (invalid_request, s)
          else respond (writeJSON 200 (Some (PolicyDocument_json document)))
            (UpdatePolicy s (prin_ID admin) document (rq_now rq)))"

definition deletePolicy :: admin_handler where
  "deletePolicy srv rq vals admin s =
     (if \<not> requireEmptyBody rq then (invalid_request, s)
      else respond NoContent (DeletePolicy s (prin_ID admin) (PathValue vals ''policyID'') (rq_now rq)))"

definition getGroupPolicy :: admin_handler where
  "getGroupPolicy srv rq vals admin s = (respond_policy (PolicyForGroup s (PathValue vals ''group'')), s)"

record policyAssignmentRequest =
  pa_PolicyID :: string

definition policyAssignmentRequest_fields :: "policyAssignmentRequest fields" where
  "policyAssignmentRequest_fields = [(''policy_id'', fld pa_PolicyID (\<lambda>x s. s\<lparr>pa_PolicyID := x\<rparr>) dec_string)]"

definition assignGroupPolicy :: admin_handler where
  "assignGroupPolicy srv rq vals admin s =
     (case decodeRequestJSON defaultJSONBodyLimit (dec_record True policyAssignmentRequest_fields) \<lparr>pa_PolicyID = []\<rparr> rq of
        Inl err \<Rightarrow> (writeDecodeError err, s)
      | Inr body \<Rightarrow>
          respond NoContent
            (AssignGroupPolicy s (prin_ID admin) (PathValue vals ''group'') (pa_PolicyID body) (rq_now rq)))"

definition unassignGroupPolicy :: admin_handler where
  "unassignGroupPolicy srv rq vals admin s =
     (if \<not> requireEmptyBody rq then (invalid_request, s)
      else respond NoContent (UnassignGroupPolicy s (prin_ID admin) (PathValue vals ''group'') (rq_now rq)))"

subsection \<open>Authentication\<close>

type_synonym handler = "Server \<Rightarrow> request \<Rightarrow> path_values \<Rightarrow> Store \<Rightarrow> response \<times> Store"

definition withPrincipal :: "Role \<Rightarrow> admin_handler \<Rightarrow> handler" where
  "withPrincipal required nxt srv rq vals s =
     (case AuthenticateBearer (srv_sha256 srv) (srv_principals srv) (rq_authorization rq) of
        None \<Rightarrow> (writeUnauthorized, s)
      | Some admin \<Rightarrow>
          if \<not> Allows (prin_Role admin) required then (writeAPIError 403 ''forbidden'', s)
          else nxt srv rq vals admin s)"

definition withAgent :: "agent_handler \<Rightarrow> handler" where
  "withAgent nxt srv rq vals s =
     (let (credential, validFormat) = bearerToken (rq_authorization rq)
      in case AuthenticateDevice (srv_sha256 srv) s (rq_device_id rq) credential of
           Inl _ \<Rightarrow> (writeUnauthorized, s)
         | Inr device \<Rightarrow> if \<not> validFormat then (writeUnauthorized, s) else nxt srv rq device s)"

definition health :: handler where
  "health srv rq vals s = (writeJSON 200 (Some (JObj [(''status'', jstr ''ok'')])), s)"

subsection \<open>Routes\<close>

datatype segment = Lit string | Wild string

type_synonym route = "string \<times> segment list \<times> handler"

definition agent_routes :: "route list" where
  "agent_routes =
    [(''POST'', [Lit ''v1'', Lit ''agent'', Lit ''heartbeat''], withAgent heartbeat),
     (''GET'', [Lit ''v1'', Lit ''agent'', Lit ''policy''], withAgent fetchPolicy),
     (''POST'', [Lit ''v1'', Lit ''agent'', Lit ''reports''], withAgent syncReport),
     (''POST'', [Lit ''v1'', Lit ''agent'', Lit ''credentials'', Lit ''rotate''], withAgent rotateCredential)]"

text \<open>Method, pattern, required role and handler of each administrator route.\<close>

definition admin_table :: "(string \<times> segment list \<times> Role \<times> admin_handler) list" where
  "admin_table =
    [(''POST'', [Lit ''v1'', Lit ''admin'', Lit ''enrollment-tokens''], RoleOperator, createEnrollmentToken),
     (''GET'', [Lit ''v1'', Lit ''admin'', Lit ''devices''], RoleViewer, listDevices),
     (''POST'', [Lit ''v1'', Lit ''admin'', Lit ''devices'', Wild ''deviceID'', Lit ''revoke''], RoleAdmin, revokeDevice),
     (''PUT'', [Lit ''v1'', Lit ''admin'', Lit ''devices'', Wild ''deviceID'', Lit ''group''], RoleOperator, assignDeviceGroup),
     (''GET'', [Lit ''v1'', Lit ''admin'', Lit ''findings''], RoleViewer, listFindings),
     (''GET'', [Lit ''v1'', Lit ''admin'', Lit ''audit''], RoleAdmin, listAudit),
     (''GET'', [Lit ''v1'', Lit ''admin'', Lit ''policies''], RoleViewer, listPolicies),
     (''POST'', [Lit ''v1'', Lit ''admin'', Lit ''policies''], RoleOperator, createPolicy),
     (''GET'', [Lit ''v1'', Lit ''admin'', Lit ''policies'', Wild ''policyID''], RoleViewer, getPolicy),
     (''PUT'', [Lit ''v1'', Lit ''admin'', Lit ''policies'', Wild ''policyID''], RoleOperator, updatePolicy),
     (''DELETE'', [Lit ''v1'', Lit ''admin'', Lit ''policies'', Wild ''policyID''], RoleOperator, deletePolicy),
     (''GET'', [Lit ''v1'', Lit ''admin'', Lit ''groups'', Wild ''group'', Lit ''policy''], RoleViewer, getGroupPolicy),
     (''PUT'', [Lit ''v1'', Lit ''admin'', Lit ''groups'', Wild ''group'', Lit ''policy''], RoleOperator, assignGroupPolicy),
     (''DELETE'', [Lit ''v1'', Lit ''admin'', Lit ''groups'', Wild ''group'', Lit ''policy''], RoleOperator, unassignGroupPolicy)]"

definition admin_routes :: "route list" where
  "admin_routes = map (\<lambda>(verb, pattern, role, h). (verb, pattern, withPrincipal role h)) admin_table"

definition routes :: "route list" where
  "routes = [(''GET'', [Lit ''healthz''], health),
     (''POST'', [Lit ''v1'', Lit ''agent'', Lit ''enroll''], \<lambda>srv rq vals. enroll srv rq)]
     @ agent_routes @ admin_routes"

text \<open>\<open>http.ServeMux\<close>: a wildcard takes one non-empty segment, a \<open>GET\<close> pattern also serves \<open>HEAD\<close>.\<close>

fun match_path :: "segment list \<Rightarrow> string list \<Rightarrow> path_values option" where
  "match_path [] [] = Some []"
| "match_path (Lit l # ps) (x # xs) = (if x = l then match_path ps xs else None)"
| "match_path (Wild n # ps) (x # xs) = (if x = [] then None else map_option ((#) (n, x)) (match_path ps xs))"
| "match_path _ _ = None"

definition match_method :: "string \<Rightarrow> string \<Rightarrow> bool" where
  "match_method pattern verb \<longleftrightarrow> pattern = verb \<or> (pattern = ''GET'' \<and> verb = ''HEAD'')"

fun dispatch :: "route list \<Rightarrow> request \<Rightarrow> (handler \<times> path_values) option" where
  "dispatch [] rq = None"
| "dispatch ((verb, pattern, h) # rs) rq =
     (case match_path pattern (rq_path rq) of
        Some vals \<Rightarrow> if match_method verb (rq_method rq) then Some (h, vals) else dispatch rs rq
      | None \<Rightarrow> dispatch rs rq)"

definition unrouted :: "request \<Rightarrow> response" where
  "unrouted rq = \<lparr>re_status = (if list_ex (\<lambda>(_, pattern, _). match_path pattern (rq_path rq) \<noteq> None) routes then 405 else 404),
     re_authenticate = False, re_body = None\<rparr>"

definition ServeHTTP :: "Server \<Rightarrow> request \<Rightarrow> Store \<Rightarrow> response \<times> Store" where
  "ServeHTTP srv rq s =
     (case dispatch routes rq of
        None \<Rightarrow> (unrouted rq, s)
      | Some (h, vals) \<Rightarrow> h srv rq vals s)"

definition securityHeaders :: "(string \<times> string) list" where
  "securityHeaders = [(''Cache-Control'', ''no-store''), (''Content-Security-Policy'', ''default-src '' @ [CHR 0x27] @ ''none'' @ [CHR 0x27]),
     (''Referrer-Policy'', ''no-referrer''), (''X-Content-Type-Options'', ''nosniff''), (''X-Frame-Options'', ''DENY'')]"

subsection \<open>Listening\<close>

definition ValidateListenConfiguration :: "string \<Rightarrow> string \<Rightarrow> string \<Rightarrow> go_error option" where
  "ValidateListenConfiguration listenAddress certificatePath keyPath =
     (case SplitHostPort listenAddress of
        None \<Rightarrow> Some (New ''listen address must be in host:port form'')
      | Some (host, port) \<Rightarrow>
          if port = [] then Some (New ''listen address must be in host:port form'')
          else
           (let hasCertificate = \<not> blank certificatePath; hasKey = \<not> blank keyPath
            in if hasCertificate \<noteq> hasKey then Some (New ''TLS certificate and key must be provided together'')
               else if \<not> isLoopbackHost host \<and> \<not> hasCertificate
               then Some (New ''TLS is required for non-loopback listeners'')
               else None))"

definition segment_text :: "segment \<Rightarrow> string" where
  "segment_text p = (case p of Lit l \<Rightarrow> ''/'' @ l | Wild n \<Rightarrow> ''/{'' @ n @ ''}'')"

definition EndpointSummary :: "string list" where
  "EndpointSummary =
    [''GET /healthz'', ''POST /v1/agent/enroll'', ''POST /v1/agent/heartbeat'', ''GET /v1/agent/policy'',
     ''POST /v1/agent/reports'', ''POST /v1/agent/credentials/rotate'', ''POST /v1/admin/enrollment-tokens'',
     ''GET /v1/admin/devices'', ''POST /v1/admin/devices/{deviceID}/revoke'', ''PUT /v1/admin/devices/{deviceID}/group'',
     ''GET /v1/admin/findings'', ''GET /v1/admin/audit'', ''GET /v1/admin/policies'', ''POST /v1/admin/policies'',
     ''GET /v1/admin/policies/{policyID}'', ''PUT /v1/admin/policies/{policyID}'', ''DELETE /v1/admin/policies/{policyID}'',
     ''GET /v1/admin/groups/{group}/policy'', ''PUT /v1/admin/groups/{group}/policy'', ''DELETE /v1/admin/groups/{group}/policy'']"

definition Server_String :: string where
  "Server_String = ''organization controller ('' @ FormatInt (int (length EndpointSummary)) @ '' routes)''"

end
