(* ===== verification/Controller_Inv.thy ===== *)
theory Controller_Inv
  imports Controller_Server Controller_Facts
begin

section \<open>What every request keeps of the controller's database\<close>

text \<open>
  The invariant of the tables (primary and foreign keys, the gapless audit sequence, policies
  that are valid documents under their own identifier and revision), the effects an actor can
  have on the store, one rule per operation, and the proof that every HTTP request is one
  of them or changes nothing. Properties of all reachable stores follow by rule induction.
\<close>

subsection \<open>The invariant\<close>

definition policy_row_ok :: "policy_row \<Rightarrow> bool" where
  "policy_row_ok r \<longleftrightarrow> (\<exists>d. PolicyDocument_Validate d = None \<and> po_document r = PolicyDocument_json d
     \<and> po_id r = pd_ID d \<and> po_revision r = uint (pd_Revision d))"

definition keys_ok :: "Store \<Rightarrow> bool" where
  "keys_ok s \<longleftrightarrow> tbl_keyed tk_token_hash (db_tokens s) \<and> tbl_keyed dv_id (db_devices s)
     \<and> tbl_keyed po_id (db_policies s) \<and> tbl_keyed ga_group_name (db_assignments s) \<and> tbl_keyed cf_key (db_findings s)"

definition refs_ok :: "Store \<Rightarrow> bool" where
  "refs_ok s \<longleftrightarrow> ga_policy_id ` set (db_assignments s) \<subseteq> po_id ` set (db_policies s)
     \<and> cf_device_id ` set (db_findings s) \<subseteq> dv_id ` set (db_devices s)"

definition audit_ok :: "Store \<Rightarrow> bool" where
  "audit_ok s \<longleftrightarrow> map au_sequence (db_audit s) = map int [1 ..< Suc (length (db_audit s))]
     \<and> db_audit_seq s = int (length (db_audit s))"

definition controller_ok :: "Store \<Rightarrow> bool" where
  "controller_ok s \<longleftrightarrow> keys_ok s \<and> refs_ok s \<and> audit_ok s \<and> list_all policy_row_ok (db_policies s)"

lemma controller_ok_new: "controller_ok new_database"
  by (simp add: controller_ok_def keys_ok_def refs_ok_def audit_ok_def new_database_def)

lemma controller_ok_migrated: "migrate now new_database = Inr s \<Longrightarrow> controller_ok s"
  by (auto simp: migrate_def new_database_def controllerSchemaVersion_def controller_ok_def keys_ok_def refs_ok_def audit_ok_def)

subsection \<open>Audit entries\<close>

definition entry :: "Store \<Rightarrow> string \<Rightarrow> string \<Rightarrow> string \<Rightarrow> string \<Rightarrow> gotime \<Rightarrow> audit_row" where
  "entry s actorID action targetType targetID now =
     \<lparr>au_sequence = db_audit_seq s + 1, au_actor_id = actorID, au_action = action, au_target_type = targetType,
      au_target_id = targetID, au_created_at = timeText (UTC now)\<rparr>"

definition log_entry :: "string \<Rightarrow> string \<Rightarrow> string \<Rightarrow> string \<Rightarrow> gotime \<Rightarrow> Store \<Rightarrow> Store" where
  "log_entry actorID action targetType targetID now s =
     s\<lparr>db_audit := db_audit s @ [entry s actorID action targetType targetID now], db_audit_seq := db_audit_seq s + 1\<rparr>"

lemma audited_eq:
  "audited prev actorID action targetType targetID now s =
     (if db_audit_seq s \<ge> 2 ^ 63 - 1 then (Some (Wrap ''append admin audit: %w'' database_full), prev)
      else (None, log_entry actorID action targetType targetID now s))"
  by (simp add: audited_def appendAudit_def log_entry_def entry_def)

lemma log_entry_simps [simp]:
  "db_tokens (log_entry a b c d now s) = db_tokens s" "db_devices (log_entry a b c d now s) = db_devices s"
  "db_policies (log_entry a b c d now s) = db_policies s" "db_assignments (log_entry a b c d now s) = db_assignments s"
  "db_findings (log_entry a b c d now s) = db_findings s"
  "db_audit (log_entry a b c d now s) = db_audit s @ [entry s a b c d now]"
  "db_audit_seq (log_entry a b c d now s) = db_audit_seq s + 1"
  by (simp_all add: log_entry_def)

lemma entry_simps [simp]:
  "au_sequence (entry s a b c d now) = db_audit_seq s + 1" "au_actor_id (entry s a b c d now) = a"
  "au_action (entry s a b c d now) = b" "au_target_type (entry s a b c d now) = c"
  "au_target_id (entry s a b c d now) = d" "au_created_at (entry s a b c d now) = timeText (UTC now)"
  by (simp_all add: entry_def)

lemma entry_cong: "db_audit_seq s = db_audit_seq t \<Longrightarrow> entry s = entry t"
  by (intro ext) (simp add: entry_def)

lemma controller_ok_log: "controller_ok s \<Longrightarrow> controller_ok (log_entry a b c d now s)"
  by (simp add: controller_ok_def keys_ok_def refs_ok_def audit_ok_def)

subsection \<open>Updates of one table\<close>

lemma update_devices_eq:
  "update_devices s sel f =
     (requireAffected (tbl_affected sel (db_devices s)), s\<lparr>db_devices := tbl_update sel f (db_devices s)\<rparr>)"
  by (simp add: update_devices_def split: option.split)

lemma image_tbl_update: "(\<And>r. key (f r) = key r) \<Longrightarrow> key ` set (tbl_update sel f rows) = key ` set rows"
  by (metis list.set_map map_key_tbl_update)

lemma controller_ok_devices:
  assumes "controller_ok s" and "\<And>r. dv_id (f r) = dv_id r"
  shows "controller_ok (s\<lparr>db_devices := tbl_update sel f (db_devices s)\<rparr>)"
  using assms by (auto simp: controller_ok_def keys_ok_def refs_ok_def audit_ok_def image_tbl_update)

lemma requireAffected_None: "requireAffected n = None \<longleftrightarrow> n = 1"
  by (simp add: requireAffected_def)

subsection \<open>Effects\<close>

text \<open>
  Who acts: an unauthenticated enrolling agent, an enrolled device, or an administrator. The
  rules are the state-changing operations of the store.
\<close>

datatype actor = Enrolling | Agent string | Administrator string

inductive effect :: "(string \<Rightarrow> 8 word list) \<Rightarrow> gotime \<Rightarrow> actor \<Rightarrow> Store \<Rightarrow> Store \<Rightarrow> bool" for sha256 now where
  enrolls: "effect sha256 now Enrolling s (snd (Enroll sha256 r r' s token metadata now))"
| beats: "effect sha256 now (Agent d) s (snd (Heartbeat s d metadata now))"
| rotates: "effect sha256 now (Agent d) s (snd (RotateDeviceCredential sha256 r s d now))"
| reports: "effect sha256 now (Agent d) s (snd (SyncReport s d report now))"
| invites: "effect sha256 now (Administrator a) s (snd (CreateEnrollmentToken sha256 r s a grp ttl now))"
| revokes: "effect sha256 now (Administrator a) s (snd (RevokeDevice s a d now))"
| regroups: "effect sha256 now (Administrator a) s (snd (AssignDeviceGroup s a d grp now))"
| creates: "effect sha256 now (Administrator a) s (snd (CreatePolicy s a doc now))"
| updates: "effect sha256 now (Administrator a) s (snd (UpdatePolicy s a doc now))"
| deletes: "effect sha256 now (Administrator a) s (snd (DeletePolicy s a p now))"
| assigns: "effect sha256 now (Administrator a) s (snd (AssignGroupPolicy s a grp p now))"
| unassigns: "effect sha256 now (Administrator a) s (snd (UnassignGroupPolicy s a grp now))"

text \<open>What the request must show for an effect of that actor.\<close>

definition authorised :: "Server \<Rightarrow> request \<Rightarrow> Store \<Rightarrow> actor \<Rightarrow> bool" where
  "authorised srv rq s actor \<longleftrightarrow>
     (case actor of
        Enrolling \<Rightarrow> True
      | Agent d \<Rightarrow> rq_device_id rq = d \<and> snd (bearerToken (rq_authorization rq))
          \<and> (\<exists>device. AuthenticateDevice (srv_sha256 srv) s d (fst (bearerToken (rq_authorization rq))) = Inr device)
      | Administrator a \<Rightarrow>
          \<exists>p. AuthenticateBearer (srv_sha256 srv) (srv_principals srv) (rq_authorization rq) = Some p
            \<and> prin_ID p = a \<and> Allows (prin_Role p) RoleOperator)"

lemma AuthenticateDevice_ID: "AuthenticateDevice sha256 s d c = Inr device \<Longrightarrow> dev_ID device = d"
  by (auto simp: AuthenticateDevice_def Let_def row_device_def dest!: tbl_lookup_SomeD split: if_splits option.splits sum.splits)

lemma snd_respond: "snd (respond r x) = snd x"
  by (auto simp: respond_def split: prod.splits option.splits)

definition handler_ok :: "actor option \<Rightarrow> Server \<Rightarrow> request \<Rightarrow> response \<times> Store \<Rightarrow> Store \<Rightarrow> bool" where
  "handler_ok actor srv rq outcome s \<longleftrightarrow>
     snd outcome = s \<or> (\<exists>a. actor = Some a \<and> effect (srv_sha256 srv) (rq_now rq) a s (snd outcome))"

lemma enroll_effect: "handler_ok (Some Enrolling) srv rq (enroll srv rq s) s"
  unfolding handler_ok_def enroll_def
  using effect.enrolls [of "srv_sha256 srv" "rq_now rq" s "rq_rand_id rq" "rq_rand rq"]
  by (auto split: sum.split prod.split) (metis snd_conv)+

lemma agent_effect:
  assumes "h \<in> {heartbeat, fetchPolicy, syncReport, rotateCredential}"
  shows "handler_ok (Some (Agent (dev_ID device))) srv rq (h srv rq device s) s"
proof -
  have "handler_ok (Some (Agent (dev_ID device))) srv rq (rotateCredential srv rq device s) s"
    unfolding handler_ok_def rotateCredential_def
    using effect.rotates [of "srv_sha256 srv" "rq_now rq" "dev_ID device" s "rq_rand rq"]
    by (auto split: sum.split prod.split)
  moreover have "handler_ok (Some (Agent (dev_ID device))) srv rq (heartbeat srv rq device s) s"
    by (simp add: handler_ok_def heartbeat_def snd_respond effect.beats split: sum.split)
  moreover have "handler_ok (Some (Agent (dev_ID device))) srv rq (syncReport srv rq device s) s"
    by (simp add: handler_ok_def syncReport_def snd_respond effect.reports split: sum.split)
  moreover have "handler_ok (Some (Agent (dev_ID device))) srv rq (fetchPolicy srv rq device s) s"
    by (simp add: handler_ok_def fetchPolicy_def split: sum.split)
  ultimately show ?thesis using assms by auto
qed

text \<open>Every route that needs less than an operator only reads.\<close>

lemma admin_reads:
  "snd (listDevices srv rq vals p s) = s" "snd (listFindings srv rq vals p s) = s" "snd (listAudit srv rq vals p s) = s"
  "snd (listPolicies srv rq vals p s) = s" "snd (getPolicy srv rq vals p s) = s" "snd (getGroupPolicy srv rq vals p s) = s"
  by (simp_all add: listDevices_def listFindings_def listAudit_def listPolicies_def getPolicy_def getGroupPolicy_def split: sum.split)

lemma admin_writes:
  "handler_ok (Some (Administrator (prin_ID p))) srv rq (revokeDevice srv rq vals p s) s"
  "handler_ok (Some (Administrator (prin_ID p))) srv rq (assignDeviceGroup srv rq vals p s) s"
  "handler_ok (Some (Administrator (prin_ID p))) srv rq (createPolicy srv rq vals p s) s"
  "handler_ok (Some (Administrator (prin_ID p))) srv rq (updatePolicy srv rq vals p s) s"
  "handler_ok (Some (Administrator (prin_ID p))) srv rq (deletePolicy srv rq vals p s) s"
  "handler_ok (Some (Administrator (prin_ID p))) srv rq (assignGroupPolicy srv rq vals p s) s"
  "handler_ok (Some (Administrator (prin_ID p))) srv rq (unassignGroupPolicy srv rq vals p s) s"
  by (simp_all add: handler_ok_def revokeDevice_def assignDeviceGroup_def createPolicy_def updatePolicy_def deletePolicy_def
      assignGroupPolicy_def unassignGroupPolicy_def snd_respond effect.intros split: sum.split)

lemma invite_writes: "handler_ok (Some (Administrator (prin_ID p))) srv rq (createEnrollmentToken srv rq vals p s) s"
  unfolding handler_ok_def createEnrollmentToken_def
  using effect.invites [of "srv_sha256 srv" "rq_now rq" "prin_ID p" s "rq_rand rq"]
  by (auto split: sum.split prod.split) (metis snd_conv)+

lemma admin_table_ok:
  assumes "(verb, pattern, role, h) \<in> set admin_table" and "Allows (prin_Role p) role"
  shows "handler_ok (if Allows (prin_Role p) RoleOperator then Some (Administrator (prin_ID p)) else None) srv rq (h srv rq vals p s) s"
proof -
  have up: "Allows (prin_Role p) RoleOperator" if "Allows (prin_Role p) RoleAdmin"
    using that by (auto simp: Allows_def role_rank_def role_defs Role_Valid_def)
  show ?thesis
    using assms up admin_writes [of p srv rq vals s] invite_writes [of p srv rq vals s] admin_reads [of srv rq vals p s]
    unfolding admin_table_def by (auto simp: handler_ok_def)
qed

lemma dispatch_SomeD: "dispatch rs rq = Some (h, vals) \<Longrightarrow> h \<in> set (map (snd \<circ> snd) rs)"
  by (induction rs rq rule: dispatch.induct) (auto split: option.splits if_splits)

lemma withAgent_effect:
  assumes "h \<in> {heartbeat, fetchPolicy, syncReport, rotateCredential}" and "snd (withAgent h srv rq vals s) \<noteq> s"
  shows "\<exists>a. authorised srv rq s a \<and> effect (srv_sha256 srv) (rq_now rq) a s (snd (withAgent h srv rq vals s))"
proof -
  obtain c ok where b: "bearerToken (rq_authorization rq) = (c, ok)" by (cases "bearerToken (rq_authorization rq)")
  with assms(2) obtain device where d: "AuthenticateDevice (srv_sha256 srv) s (rq_device_id rq) c = Inr device" "ok"
    by (auto simp: withAgent_def split: sum.splits if_splits)
  then have run: "withAgent h srv rq vals s = h srv rq device s" by (simp add: withAgent_def b)
  have "dev_ID device = rq_device_id rq" using d(1) by (rule AuthenticateDevice_ID)
  with d b have "authorised srv rq s (Agent (dev_ID device))" by (simp add: authorised_def)
  with agent_effect [OF assms(1), of device srv rq s] assms(2) run show ?thesis by (auto simp: handler_ok_def)
qed

lemma withPrincipal_effect:
  assumes "(verb, pattern, role, h) \<in> set admin_table" and "snd (withPrincipal role h srv rq vals s) \<noteq> s"
  shows "\<exists>a. authorised srv rq s a \<and> effect (srv_sha256 srv) (rq_now rq) a s (snd (withPrincipal role h srv rq vals s))"
proof -
  obtain p where p: "AuthenticateBearer (srv_sha256 srv) (srv_principals srv) (rq_authorization rq) = Some p"
      "Allows (prin_Role p) role"
    using assms(2) by (auto simp: withPrincipal_def split: option.splits if_splits)
  then have run: "withPrincipal role h srv rq vals s = h srv rq vals p s" by (simp add: withPrincipal_def)
  have "Allows (prin_Role p) RoleOperator" and "effect (srv_sha256 srv) (rq_now rq) (Administrator (prin_ID p)) s (snd (h srv rq vals p s))"
    using admin_table_ok [OF assms(1) p(2), of srv rq vals s] assms(2) run by (auto simp: handler_ok_def split: if_splits)
  with p run show ?thesis by (intro exI [of _ "Administrator (prin_ID p)"]) (auto simp: authorised_def)
qed

text \<open>A request changes nothing or has one authorised effect.\<close>

lemma ServeHTTP_effect:
  assumes "snd (ServeHTTP srv rq s) \<noteq> s"
  shows "\<exists>a. authorised srv rq s a \<and> effect (srv_sha256 srv) (rq_now rq) a s (snd (ServeHTTP srv rq s))"
proof -
  obtain h vals where d: "dispatch routes rq = Some (h, vals)"
    using assms by (auto simp: ServeHTTP_def split: option.splits)
  then have run: "ServeHTTP srv rq s = h srv rq vals s" by (simp add: ServeHTTP_def)
  have "h \<in> set (map (snd \<circ> snd) routes)" using d by (rule dispatch_SomeD)
  then consider "h = health" | "h = (\<lambda>srv rq vals. enroll srv rq)"
    | g where "h = withAgent g" "g \<in> {heartbeat, fetchPolicy, syncReport, rotateCredential}"
    | verb pattern role g where "(verb, pattern, role, g) \<in> set admin_table" "h = withPrincipal role g"
    by (auto simp: routes_def agent_routes_def admin_routes_def)
  then show ?thesis
  proof cases
    case 1
    with run assms show ?thesis by (simp add: health_def)
  next
    case 2
    with run assms enroll_effect [of srv rq s] show ?thesis
      by (intro exI [of _ Enrolling]) (auto simp: handler_ok_def authorised_def)
  next
    case 3
    with run assms withAgent_effect [OF 3(2), of srv rq vals s] show ?thesis by simp
  next
    case 4
    with run assms withPrincipal_effect [OF 4(1), of srv rq vals s] show ?thesis by simp
  qed
qed

subsection \<open>Every effect keeps the invariant\<close>

lemma controller_ok_Enroll:
  assumes "controller_ok s"
  shows "controller_ok (snd (Enroll sha256 r r' s token metadata now))"
proof -
  have "controller_ok (snd (enroll_device s d ch th metadata t))" for d ch th t
    using assms
    by (auto simp: enroll_device_def controller_ok_def keys_ok_def refs_ok_def audit_ok_def split: option.split)
  then show ?thesis
    using assms by (auto simp: Enroll_def Let_def split: option.split sum.split prod.split) (metis snd_conv)+
qed

lemma controller_ok_Heartbeat: "controller_ok s \<Longrightarrow> controller_ok (snd (Heartbeat s d metadata now))"
  by (simp add: Heartbeat_def update_devices_eq controller_ok_devices split: option.split)

lemma controller_ok_Rotate: "controller_ok s \<Longrightarrow> controller_ok (snd (RotateDeviceCredential sha256 r s d now))"
  by (auto simp: RotateDeviceCredential_def update_devices_eq controller_ok_devices split: option.split sum.split)

lemma controller_ok_Revoke: "controller_ok s \<Longrightarrow> controller_ok (snd (RevokeDevice s a d now))"
  by (simp add: RevokeDevice_def update_devices_eq audited_eq controller_ok_devices controller_ok_log split: option.split)

lemma controller_ok_Regroup: "controller_ok s \<Longrightarrow> controller_ok (snd (AssignDeviceGroup s a d grp now))"
  by (simp add: AssignDeviceGroup_def update_devices_eq audited_eq controller_ok_devices controller_ok_log split: option.split)

lemma controller_ok_Invite:
  assumes "controller_ok s"
  shows "controller_ok (snd (CreateEnrollmentToken sha256 r s a grp ttl now))"
proof -
  have "controller_ok (s\<lparr>db_tokens := db_tokens s @ [row]\<rparr>)"
    if "tk_token_hash row \<notin> tk_token_hash ` set (db_tokens s)" for row
    using that assms by (simp add: controller_ok_def keys_ok_def refs_ok_def audit_ok_def)
  then show ?thesis
    using assms by (auto simp: CreateEnrollmentToken_def Let_def audited_eq intro!: controller_ok_log split: sum.split prod.split)
qed

lemma controller_ok_Create:
  assumes "controller_ok s"
  shows "controller_ok (snd (CreatePolicy s a doc now))"
proof -
  have "controller_ok (s\<lparr>db_policies := db_policies s @ [row]\<rparr>)"
    if "po_id row \<notin> po_id ` set (db_policies s)" and "policy_row_ok row" for row
    using that assms by (auto simp: controller_ok_def keys_ok_def refs_ok_def audit_ok_def)
  moreover have "policy_row_ok \<lparr>po_id = pd_ID doc, po_revision = 1, po_document = PolicyDocument_json doc, po_created_at = t,
      po_updated_at = t, po_created_by = a, po_updated_by = a\<rparr>"
    if "PolicyDocument_Validate doc = None" "pd_Revision doc = 1" for t
    using that unfolding policy_row_ok_def by (intro exI [of _ doc]) simp
  ultimately show ?thesis
    using assms by (auto simp: CreatePolicy_def audited_eq intro!: controller_ok_log split: option.split)
qed

lemma sql_uint64_Some: "sql_uint64 w = Some n \<Longrightarrow> n = uint w \<and> n < 2 ^ 63"
  by (simp add: sql_uint64_def split: if_splits)

lemma controller_ok_Update:
  assumes "controller_ok s"
  shows "controller_ok (snd (UpdatePolicy s a doc now))"
proof -
  have "controller_ok (s\<lparr>db_policies := tbl_update (\<lambda>r. po_id r = pd_ID doc \<and> sel r) f (db_policies s)\<rparr>)"
    if "\<And>r. po_id (f r) = po_id r" and "\<And>r. po_id r = pd_ID doc \<Longrightarrow> policy_row_ok (f r)" for sel f
    using that assms
    by (auto simp: controller_ok_def keys_ok_def refs_ok_def audit_ok_def image_tbl_update list_all_iff)
      (auto simp: tbl_update_def)
  moreover have "policy_row_ok (r\<lparr>po_revision := uint (pd_Revision doc), po_document := PolicyDocument_json doc,
      po_updated_at := t, po_updated_by := a\<rparr>)"
    if "PolicyDocument_Validate doc = None" "po_id r = pd_ID doc" for r t
    using that unfolding policy_row_ok_def by (intro exI [of _ doc]) simp
  ultimately show ?thesis
    using assms
    by (auto simp: UpdatePolicy_def audited_eq Let_def dest!: sql_uint64_Some intro!: controller_ok_log split: option.split)
qed

lemma subset_except: "X \<subseteq> f ` A \<Longrightarrow> p \<notin> X \<Longrightarrow> X \<subseteq> f ` {r \<in> A. f r \<noteq> p}"
  by blast

lemma controller_ok_Delete:
  assumes "controller_ok s"
  shows "controller_ok (snd (DeletePolicy s a p now))"
proof -
  have "controller_ok (s\<lparr>db_policies := filter (\<lambda>r. po_id r \<noteq> p) (db_policies s)\<rparr>)"
    if "p \<notin> ga_policy_id ` set (db_assignments s)"
  proof -
    have "ga_policy_id ` set (db_assignments s) \<subseteq> po_id ` {r \<in> set (db_policies s). po_id r \<noteq> p}"
      using that assms by (intro subset_except) (simp_all add: controller_ok_def refs_ok_def)
    then show ?thesis
      using assms by (simp add: controller_ok_def keys_ok_def refs_ok_def audit_ok_def list_all_iff tbl_keyed_filter)
  qed
  moreover have "filter (\<lambda>r. po_id r = p) (db_policies s) = []" if "p \<notin> po_id ` set (db_policies s)"
    using that by (auto simp: filter_empty_conv)
  ultimately show ?thesis
    using assms
    by (auto simp: DeletePolicy_def audited_eq requireAffected_def tbl_affected_def filter_empty_conv
        intro!: controller_ok_log split: option.split)
qed

lemma controller_ok_Assign:
  assumes "controller_ok s"
  shows "controller_ok (snd (AssignGroupPolicy s a grp p now))"
proof -
  have keyed: "tbl_keyed ga_group_name (tbl_upsert ga_group_name row f (db_assignments s))"
    if "\<And>r. ga_group_name (f r) = ga_group_name r" for row f
    using assms that by (intro tbl_keyed_upsert) (auto simp: controller_ok_def keys_ok_def)
  have refs: "ga_policy_id ` set (tbl_upsert ga_group_name row f (db_assignments s)) \<subseteq> po_id ` set (db_policies s)"
    if "ga_policy_id row \<in> po_id ` set (db_policies s)" and "\<And>r. ga_policy_id (f r) = ga_policy_id row" for row f
    using assms that by (auto simp: controller_ok_def refs_ok_def tbl_upsert_def tbl_update_def)
  show ?thesis
    using assms
    by (auto simp: AssignGroupPolicy_def audited_eq intro!: controller_ok_log)
      (auto simp: controller_ok_def keys_ok_def refs_ok_def audit_ok_def intro!: keyed dest!: refs [THEN subsetD, rotated 2, OF imageI])
qed

lemma controller_ok_Unassign: "controller_ok s \<Longrightarrow> controller_ok (snd (UnassignGroupPolicy s a grp now))"
  by (auto simp: UnassignGroupPolicy_def audited_eq intro!: controller_ok_log split: option.split)
    (auto simp: controller_ok_def keys_ok_def refs_ok_def audit_ok_def)

lemma subset_step: "A \<subseteq> B \<union> {d} \<Longrightarrow> B \<subseteq> insert d C \<Longrightarrow> A \<subseteq> C \<union> {d}"
  by blast

lemma subset_known: "A \<subseteq> B \<union> (if d \<in> D then {d} else {}) \<Longrightarrow> B \<subseteq> D \<Longrightarrow> A \<subseteq> D"
  by (cases "d \<in> D") auto

lemma store_findings_ok:
  "store_findings known d report fs rows = Inr rows' \<Longrightarrow> tbl_keyed cf_key rows \<Longrightarrow>
     tbl_keyed cf_key rows' \<and> cf_device_id ` set rows' \<subseteq> cf_device_id ` set rows \<union> (if known then {d} else {})"
proof (induction known d report fs rows rule: store_findings.induct)
  case (2 known d report f fs rows)
  then obtain n where n: "sql_uint64 (rf_Occurrences f) = Some n" and known: "known"
    by (auto split: option.splits if_splits)
  let ?row = "report_row d report f n" and ?rows = "tbl_upsert cf_key (report_row d report f n) (merge_row (report_row d report f n)) rows"
  have key: "cf_key (merge_row r q) = cf_key q" "cf_device_id (merge_row r q) = cf_device_id q" for r q
    by (simp_all add: cf_key_def merge_row_def)
  have "tbl_keyed cf_key ?rows" using 2(3) by (intro tbl_keyed_upsert) (simp_all add: key)
  moreover have sub: "cf_device_id ` set ?rows \<subseteq> insert d (cf_device_id ` set rows)"
    by (auto simp: tbl_upsert_def tbl_update_def key) (simp add: report_row_def)
  moreover have "store_findings known d report fs ?rows = Inr rows'" using 2(2) n known by (simp add: Let_def)
  ultimately have "tbl_keyed cf_key rows'" and "cf_device_id ` set rows' \<subseteq> cf_device_id ` set ?rows \<union> {d}"
    using 2(1) [OF n _ refl] known by simp_all
  moreover from this(2) have "cf_device_id ` set rows' \<subseteq> cf_device_id ` set rows \<union> {d}"
    using sub by (rule subset_step)
  ultimately show ?case using known by simp
qed simp

lemma controller_ok_Sync:
  assumes "controller_ok s"
  shows "controller_ok (snd (SyncReport s d report now))"
proof -
  have "controller_ok (s\<lparr>db_findings := rows\<rparr>)"
    if "store_findings (d \<in> dv_id ` set (db_devices s)) d report fs (db_findings s) = Inr rows" for fs rows
  proof -
    have k: "tbl_keyed cf_key (db_findings s)" and r: "cf_device_id ` set (db_findings s) \<subseteq> dv_id ` set (db_devices s)"
      using assms by (simp_all add: controller_ok_def keys_ok_def refs_ok_def)
    note rows = store_findings_ok [OF that k]
    have "tbl_keyed cf_key rows" by (rule conjunct1 [OF rows])
    moreover have "cf_device_id ` set rows \<subseteq> dv_id ` set (db_devices s)"
      using conjunct2 [OF rows] r by (rule subset_known)

    ultimately show ?thesis using assms by (simp add: controller_ok_def keys_ok_def refs_ok_def audit_ok_def)
  qed
  then have "controller_ok (s\<lparr>db_findings := rows, db_devices := tbl_update sel (\<lambda>r. r\<lparr>dv_last_seen_at := t\<rparr>) (db_devices s)\<rparr>)"
    if "store_findings (d \<in> dv_id ` set (db_devices s)) d report fs (db_findings s) = Inr rows" for fs rows sel t
    using that controller_ok_devices [of "s\<lparr>db_findings := rows\<rparr>" "\<lambda>r. r\<lparr>dv_last_seen_at := t\<rparr>" sel] by simp
  then show ?thesis
    using assms by (simp add: SyncReport_def update_devices_eq split: option.split sum.split)
qed

lemmas controller_ok_operations =
  controller_ok_Enroll controller_ok_Heartbeat controller_ok_Rotate controller_ok_Revoke controller_ok_Regroup
  controller_ok_Invite controller_ok_Create controller_ok_Update controller_ok_Delete controller_ok_Assign
  controller_ok_Unassign controller_ok_Sync

lemma effect_ok: "effect sha256 now a s s' \<Longrightarrow> controller_ok s \<Longrightarrow> controller_ok s'"
  by (induction rule: effect.induct) (auto intro: controller_ok_operations)

definition served :: "Server \<Rightarrow> Store \<Rightarrow> request \<Rightarrow> Store" where
  "served srv s rq = snd (ServeHTTP srv rq s)"

lemma served_ok: "controller_ok s \<Longrightarrow> controller_ok (served srv s rq)"
  using ServeHTTP_effect [of srv rq s] effect_ok by (cases "served srv s rq = s") (auto simp: served_def)

interpretation controller: machine "served srv" controller_ok for srv
  by unfold_locales (rule served_ok)

text \<open>A fact that every effect keeps holds after any requests.\<close>

lemma served_keeps:
  assumes "\<And>now a s s'. effect (srv_sha256 srv) now a s s' \<Longrightarrow> controller_ok s \<Longrightarrow> P s \<Longrightarrow> P s'"
    and "controller_ok s" and "P s"
  shows "P (controller.run srv s rqs)"
proof (rule controller.run_stable [where P = P])
  show "P (served srv s c)" if "controller_ok s" "P s" for s c
    using ServeHTTP_effect [of srv c s] assms(1) that by (cases "served srv s c = s") (auto simp: served_def)
qed (rule assms)+

end
