(* ===== verification/Controller_Samples.thy ===== *)
theory Controller_Samples
  imports Controller_Inv
begin

section \<open>A small concrete controller\<close>

text \<open>
  A server with one administrator, a device, an enrollment token and a policy, on which the
  theorems about the controller are applied. The stand-ins for SHA-256 and Ed25519 only have
  the lengths of the real ones.
\<close>

definition sample_sha256 :: "string \<Rightarrow> 8 word list" where
  "sample_sha256 s = take 32 (map (\<lambda>c. word_of_nat (byte c)) s @ replicate 32 1)"

definition sample_ed25519 :: ed25519 where
  "sample_ed25519 = \<lparr>ed_Sign = (\<lambda>key text. replicate 64 (word_of_nat (length text))),
     ed_Verify = (\<lambda>key text signature. signature = replicate 64 (word_of_nat (length text)))\<rparr>"

definition sample_signer :: Signer where
  "sample_signer = \<lparr>sg_privateKey = replicate 64 7, sg_publicKey = replicate 32 7\<rparr>"

definition sample_admin :: PrincipalSpec where
  "sample_admin = \<lparr>ps_ID = ''root'', ps_Role = RoleAdmin,
     ps_TokenSHA256 = ''7365637265740101010101010101010101010101010101010101010101010101''\<rparr>"

definition sample_principal :: Principal where
  "sample_principal = \<lparr>prin_ID = ''root'', prin_Role = RoleAdmin, prin_tokenHash = sample_sha256 ''secret''\<rparr>"

definition sample_server :: Server where
  "sample_server = \<lparr>srv_principals = [sample_principal], srv_signer = sample_signer, srv_sha256 = sample_sha256,
     srv_ed25519 = sample_ed25519\<rparr>"

definition sample_now :: gotime where
  "sample_now = \<lparr>t_ns = 63900000001000000000, t_off = 0\<rparr>"

definition sample_mac :: DeviceMetadata where
  "sample_mac = \<lparr>dm_Name = ''mac'', dm_Platform = ''macos'', dm_OSVersion = ''15.1'', dm_AgentVersion = ''1.0''\<rparr>"

definition sample_policy :: PolicyDocument where
  "sample_policy = \<lparr>pd_Schema = PolicySchema, pd_SchemaVersion = PolicySchemaVersion, pd_ID = ''base'', pd_Revision = 1,
     pd_Checks = [\<lparr>pc_ID = ''firewall'', pc_Enabled = True\<rparr>], pd_Profile = ''developer'',
     pd_Cadence = \<lparr>cp_ScanIntervalSeconds = 3600, cp_JitterSeconds = 60\<rparr>,
     pd_Reporting = \<lparr>rp_Enabled = True, rp_SyncIntervalSeconds = 600\<rparr>, pd_Remediation = RemediationPrompt\<rparr>"

definition sample_device :: device_row where
  "sample_device = \<lparr>dv_id = ''d1'', dv_credential_hash = sample_sha256 ''key'', dv_name = ''mac'', dv_platform = ''macos'',
     dv_os_version = ''15.1'', dv_agent_version = ''1.0'', dv_group_name = ''eng'', dv_enrolled_at = timeText sample_now,
     dv_last_seen_at = None, dv_credential_rotated_at = timeText sample_now, dv_revoked_at = None\<rparr>"

definition sample_token :: token_row where
  "sample_token = \<lparr>tk_token_hash = sample_sha256 ''invite'', tk_group_name = ''eng'',
     tk_expires_at = timeText (Add sample_now Hour), tk_created_at = timeText sample_now, tk_created_by = ''root'',
     tk_used_at = None, tk_used_by_device_id = None\<rparr>"

definition sample_store :: Store where
  "sample_store = snd (AssignGroupPolicy
     (snd (CreatePolicy (new_database\<lparr>db_devices := [sample_device], db_tokens := [sample_token]\<rparr>) ''root'' sample_policy sample_now))
     ''root'' ''eng'' ''base'' sample_now)"

definition sample_request :: request where
  "sample_request = \<lparr>rq_method = ''GET'', rq_path = [''v1'', ''agent'', ''policy''], rq_query = [],
     rq_authorization = ''Bearer key'', rq_device_id = ''d1'', rq_media_type = None, rq_content_length = 0,
     rq_body = \<lparr>bd_length = 0, bd_values = []\<rparr>, rq_now = sample_now, rq_rand_id = Inr [], rq_rand = Inr []\<rparr>"

lemma sample_root: "validIdentifier ''root''" "validIdentifier ''eng''" "validIdentifier ''base''" "validIdentifier ''d1''"
  "validIdentifier ''firewall''" "validIdentifier ''network''"
  by (simp_all add: controller_identifier_chars ident_char_def)

lemma sample_label: "validLabel ''mac'' maxInventoryValueSize" "validLabel ''macos'' 64"
  "validLabel ''15.1'' maxInventoryValueSize" "validLabel ''1.0'' maxInventoryValueSize"
  by (simp_all add: validLabel_def maxInventoryValueSize_def TrimSpace_def trim_runes_def IsSpace_def IsControl_def Let_def)

lemma sample_mac_valid: "DeviceMetadata_Validate sample_mac = None"
  unfolding DeviceMetadata_Validate_def first_error_None_iff
  using sample_label by (simp add: sample_mac_def)

lemma sample_policy_valid: "PolicyDocument_Validate (sample_policy\<lparr>pd_Revision := n\<rparr>) = None" if "n \<noteq> 0"
proof -
  have "policy_checks (sample_policy\<lparr>pd_Revision := n\<rparr>) = None"
    unfolding policy_checks_def first_error_None_iff
    using that sample_root by (simp add: sample_policy_def maxPolicyChecks_def RemediationMode_Valid_def)
  moreover have "\<exists>p. Resolve ''developer'' [] = Inr p"
    by (simp add: Resolve_def presets_def Profile_Validate_None_iff Let_def axis_defs axes_def split: option.split)
  ultimately show ?thesis
    using sample_root by (simp add: PolicyDocument_Validate_None_iff) (simp add: sample_policy_def)
qed

lemma sample_device_store: "controller_ok (new_database\<lparr>db_devices := [sample_device], db_tokens := [sample_token]\<rparr>)"
  by (simp add: controller_ok_def keys_ok_def refs_ok_def audit_ok_def new_database_def tbl_keyed_def)

lemma sample_store_ok: "controller_ok sample_store"
  unfolding sample_store_def by (intro controller_ok_operations sample_device_store)

end
