(* ===== verification/Controller_Props.thy ===== *)
theory Controller_Props
  imports Controller_Samples
begin

section \<open>What the controller promises\<close>

text \<open>
  The properties of the HTTP interface and of the store: which requests may change what,
  audit, enrollment tokens, revocation, stored policies and their revisions, reports.
\<close>

subsection \<open>The tables an effect may touch\<close>

text \<open>What an administrator controls about the devices: identity, group and revocation.\<close>

definition device_standing :: "device_row \<Rightarrow> string \<times> string \<times> string option" where
  "device_standing r = (dv_id r, dv_group_name r, dv_revoked_at r)"

definition unaudited :: "Store \<Rightarrow> Store \<Rightarrow> bool" where
  "unaudited s s' \<longleftrightarrow> db_audit s' = db_audit s \<and> db_policies s' = db_policies s \<and> db_assignments s' = db_assignments s
     \<and> (\<exists>new. map device_standing (db_devices s') = map device_standing (db_devices s) @ new)
     \<and> map tk_token_hash (db_tokens s') = map tk_token_hash (db_tokens s)"

lemma unaudited_refl [simp]: "unaudited s s"
  by (simp add: unaudited_def)

lemma standing_simps [simp]:
  "device_standing (r\<lparr>dv_name := n\<rparr>) = device_standing r" "device_standing (r\<lparr>dv_platform := n\<rparr>) = device_standing r"
  "device_standing (r\<lparr>dv_os_version := n\<rparr>) = device_standing r" "device_standing (r\<lparr>dv_agent_version := n\<rparr>) = device_standing r"
  "device_standing (r\<lparr>dv_credential_hash := h\<rparr>) = device_standing r"
  "device_standing (r\<lparr>dv_credential_rotated_at := n\<rparr>) = device_standing r"
  "device_standing (r\<lparr>dv_last_seen_at := l\<rparr>) = device_standing r"
  by (simp_all add: device_standing_def)

lemma unaudited_Enroll: "unaudited s (snd (Enroll sha256 r r' s token metadata now))"
proof -
  have "unaudited s (snd (enroll_device s d ch th metadata t))" for d ch th t
    by (simp add: enroll_device_def unaudited_def split: option.split)
  then show ?thesis
    by (auto simp: Enroll_def Let_def split: option.split sum.split prod.split) (metis snd_conv)+
qed

lemma unaudited_agent:
  "unaudited s (snd (Heartbeat s d metadata now))"
  "unaudited s (snd (RotateDeviceCredential sha256 r s d now))"
  "unaudited s (snd (SyncReport s d report now))"
  by (simp_all add: unaudited_def Heartbeat_def RotateDeviceCredential_def SyncReport_def update_devices_eq
      split: option.split sum.split prod.split)

definition audited_by :: "gotime \<Rightarrow> string \<Rightarrow> Store \<Rightarrow> Store \<Rightarrow> bool" where
  "audited_by now a s s' \<longleftrightarrow> (\<exists>action typ target. db_audit s' = db_audit s @ [entry s a action typ target now])"

lemma entry_update [simp]:
  "entry (s\<lparr>db_tokens := x1\<rparr>) = entry s" "entry (s\<lparr>db_devices := x2\<rparr>) = entry s"
  "entry (s\<lparr>db_policies := x3\<rparr>) = entry s" "entry (s\<lparr>db_assignments := x4\<rparr>) = entry s"
  by (rule entry_cong, simp)+

lemma entry_UTC [simp]: "entry s a b c d (UTC now) = entry s a b c d now"
  by (simp add: entry_def UTC_def)

lemma admin_operation_audited:
  "snd (CreateEnrollmentToken sha256 r s a grp ttl now) = s \<or> audited_by now a s (snd (CreateEnrollmentToken sha256 r s a grp ttl now))"
  "snd (RevokeDevice s a d now) = s \<or> audited_by now a s (snd (RevokeDevice s a d now))"
  "snd (AssignDeviceGroup s a d grp now) = s \<or> audited_by now a s (snd (AssignDeviceGroup s a d grp now))"
  "snd (CreatePolicy s a doc now) = s \<or> audited_by now a s (snd (CreatePolicy s a doc now))"
  "snd (UpdatePolicy s a doc now) = s \<or> audited_by now a s (snd (UpdatePolicy s a doc now))"
  "snd (DeletePolicy s a p now) = s \<or> audited_by now a s (snd (DeletePolicy s a p now))"
  "snd (AssignGroupPolicy s a grp p now) = s \<or> audited_by now a s (snd (AssignGroupPolicy s a grp p now))"
  "snd (UnassignGroupPolicy s a grp now) = s \<or> audited_by now a s (snd (UnassignGroupPolicy s a grp now))"
  by (auto simp: CreateEnrollmentToken_def RevokeDevice_def AssignDeviceGroup_def CreatePolicy_def UpdatePolicy_def
      DeletePolicy_def AssignGroupPolicy_def UnassignGroupPolicy_def update_devices_eq audited_eq audited_by_def Let_def
      split: option.split sum.split prod.split)

lemma effect_audited:
  assumes "effect sha256 now a s s'"
  shows "unaudited s s' \<or> (\<exists>p. a = Administrator p \<and> audited_by now p s s')"
  using assms
proof cases
  case enrolls
  then show ?thesis using unaudited_Enroll by simp
next
  case beats
  then show ?thesis using unaudited_agent by simp
next
  case rotates
  then show ?thesis using unaudited_agent by simp
next
  case reports
  then show ?thesis using unaudited_agent by simp
qed (insert admin_operation_audited unaudited_refl; metis)+


subsection \<open>The audit log\<close>

lemma effect_audit_grows:
  assumes "effect sha256 now a s s'"
  shows "\<exists>new. db_audit s' = db_audit s @ new"
  using effect_audited [OF assms] by (auto simp: unaudited_def audited_by_def)

text \<open>
  C31: Whatever requests are served, the entries of the audit log stay as they are and new ones
  come after them, numbered 1, 2, 3 and so on without a gap.
\<close>

theorem audit_append_only:
  assumes "controller_ok s"
  shows "\<exists>new. db_audit (controller.run srv s rqs) = db_audit s @ new
     \<and> map au_sequence (db_audit s @ new) = map int [1 ..< Suc (length (db_audit s @ new))]"
proof -
  let ?t = "controller.run srv s rqs"
  have "\<exists>new. db_audit ?t = db_audit s @ new"
  proof (rule served_keeps [where P = "\<lambda>t. \<exists>new. db_audit t = db_audit s @ new"])
    fix now a t t'
    assume e: "effect (srv_sha256 srv) now a t t'" and "\<exists>new. db_audit t = db_audit s @ new"
    with effect_audit_grows [OF e] show "\<exists>new. db_audit t' = db_audit s @ new" by auto
  qed (use assms in auto)
  moreover have "audit_ok ?t"
    using controller.run_inv [OF assms] by (simp add: controller_ok_def)
  ultimately show ?thesis by (auto simp: audit_ok_def)
qed

theorem audit_append_only_witness:
  "\<exists>new. db_audit (controller.run sample_server sample_store [sample_request]) = db_audit sample_store @ new
     \<and> map au_sequence (db_audit sample_store @ new) = map int [1 ..< Suc (length (db_audit sample_store @ new))]"
  by (rule audit_append_only [OF sample_store_ok])

subsection \<open>Failures\<close>

lemma live_device_eq: "live_device d = (\<lambda>r. dv_id r = d \<and> dv_revoked_at r = None)"
  by (rule ext) (simp add: live_device_def)

lemma update_devices_error:
  assumes "controller_ok s" and "requireAffected (tbl_affected (live_device d) (db_devices s)) \<noteq> None"
  shows "tbl_update (live_device d) f (db_devices s) = db_devices s"
proof -
  have "tbl_keyed dv_id (db_devices s)" using assms(1) by (simp add: controller_ok_def keys_ok_def)
  then have "tbl_affected (live_device d) (db_devices s) \<le> 1"
    using tbl_affected_keyed [of dv_id "db_devices s" d "\<lambda>r. dv_revoked_at r = None"]
    by (auto simp: live_device_eq split: option.splits)
  with assms(2) have "filter (live_device d) (db_devices s) = []"
    by (auto simp: requireAffected_def tbl_affected_def le_Suc_eq split: if_splits)
  then show ?thesis by (auto simp: tbl_update_def filter_empty_conv intro: map_idI)
qed

text \<open>Every operation that reports an error leaves the store alone.\<close>

definition atomic :: "Store \<Rightarrow> go_error option \<times> Store \<Rightarrow> bool" where
  "atomic s outcome \<longleftrightarrow> fst outcome \<noteq> None \<longrightarrow> snd outcome = s"

lemma atomic_operations:
  "atomic s (RevokeDevice s a d now)" "atomic s (AssignDeviceGroup s a d grp now)" "atomic s (CreatePolicy s a doc now)"
  "atomic s (UpdatePolicy s a doc now)" "atomic s (DeletePolicy s a p now)" "atomic s (AssignGroupPolicy s a grp p now)"
  "atomic s (UnassignGroupPolicy s a grp now)" "atomic s (SyncReport s d report now)"
  by (auto simp: atomic_def RevokeDevice_def AssignDeviceGroup_def CreatePolicy_def UpdatePolicy_def DeletePolicy_def
      AssignGroupPolicy_def UnassignGroupPolicy_def SyncReport_def update_devices_eq audited_eq Let_def
      split: option.splits sum.splits)

lemma atomic_Heartbeat: "controller_ok s \<Longrightarrow> atomic s (Heartbeat s d metadata now)"
  by (auto simp: atomic_def Heartbeat_def update_devices_eq update_devices_error split: option.split)

lemma atomic_results:
  "fst (CreateEnrollmentToken sha256 r s a grp ttl now) = Inl e \<Longrightarrow> snd (CreateEnrollmentToken sha256 r s a grp ttl now) = s"
  "fst (Enroll sha256 r r' s token metadata now) = Inl e \<Longrightarrow> snd (Enroll sha256 r r' s token metadata now) = s"
  by (auto simp: CreateEnrollmentToken_def Enroll_def enroll_device_def audited_eq Let_def
      split: option.splits sum.splits prod.splits if_splits)

lemma atomic_Rotate:
  "controller_ok s \<Longrightarrow> fst (RotateDeviceCredential sha256 r s d now) = Inl e \<Longrightarrow> snd (RotateDeviceCredential sha256 r s d now) = s"
  by (auto simp: RotateDeviceCredential_def update_devices_eq update_devices_error split: option.splits sum.splits prod.splits)

lemma respond_error: "atomic s x \<Longrightarrow> re_status ok < 400 \<Longrightarrow> 400 \<le> re_status (fst (respond ok x)) \<Longrightarrow> snd (respond ok x) = s"
  by (auto simp: respond_def atomic_def split: prod.splits option.splits)

lemma status_ok [simp]: "re_status NoContent = 204" "re_status (writeJSON n j) = n"
  by (simp_all add: NoContent_def writeJSON_def)

lemma agent_error:
  assumes "controller_ok s" and "h \<in> {heartbeat, fetchPolicy, syncReport, rotateCredential}"
    and "400 \<le> re_status (fst (h srv rq device s))"
  shows "snd (h srv rq device s) = s"
proof -
  have "snd (rotateCredential srv rq device s) = s" if "400 \<le> re_status (fst (rotateCredential srv rq device s))"
    using that atomic_Rotate [OF assms(1), of "srv_sha256 srv" "rq_rand rq" "dev_ID device" "rq_now rq"]
    by (auto simp: rotateCredential_def split: if_splits sum.splits prod.splits)
  moreover have "snd (heartbeat srv rq device s) = s" if "400 \<le> re_status (fst (heartbeat srv rq device s))"
    using that by (auto simp: heartbeat_def atomic_Heartbeat [OF assms(1)] intro!: respond_error split: sum.splits)
  moreover have "snd (syncReport srv rq device s) = s" if "400 \<le> re_status (fst (syncReport srv rq device s))"
    using that by (auto simp: syncReport_def atomic_operations intro!: respond_error split: sum.splits)
  moreover have "snd (fetchPolicy srv rq device s) = s" by (simp add: fetchPolicy_def split: sum.split)
  ultimately show ?thesis using assms(2,3) by auto
qed

lemma admin_error:
  assumes "(verb, pattern, role, h) \<in> set admin_table" and "400 \<le> re_status (fst (h srv rq vals p s))"
  shows "snd (h srv rq vals p s) = s"
proof -
  have "snd (createEnrollmentToken srv rq vals p s) = s" if "400 \<le> re_status (fst (createEnrollmentToken srv rq vals p s))"
    using that atomic_results(1) [of "srv_sha256 srv" "rq_rand rq" s "prin_ID p"]
    by (auto simp: createEnrollmentToken_def split: sum.splits prod.splits) (metis fst_conv snd_conv)+
  moreover have "snd (g srv rq vals p s) = s" if "400 \<le> re_status (fst (g srv rq vals p s))"
    and "g \<in> {revokeDevice, assignDeviceGroup, createPolicy, updatePolicy, deletePolicy, assignGroupPolicy, unassignGroupPolicy}" for g
    using that
    by (auto simp: revokeDevice_def assignDeviceGroup_def createPolicy_def updatePolicy_def deletePolicy_def
        assignGroupPolicy_def unassignGroupPolicy_def atomic_operations intro!: respond_error split: sum.splits if_splits)
  ultimately show ?thesis
    using assms admin_reads [of srv rq vals p s] unfolding admin_table_def by (auto simp del: status_ok)
qed

text \<open>
  C30: A request answered with an error status (400 and above), whatever its method, path and
  credentials, leaves the database exactly as it was.
\<close>

theorem errors_change_nothing:
  assumes "controller_ok s" and "400 \<le> re_status (fst (ServeHTTP srv rq s))"
  shows "snd (ServeHTTP srv rq s) = s"
proof (cases "dispatch routes rq")
  case None
  then show ?thesis by (simp add: ServeHTTP_def)
next
  case (Some hv)
  then obtain h vals where d: "dispatch routes rq = Some (h, vals)" by (cases hv) auto
  then have run: "ServeHTTP srv rq s = h srv rq vals s" by (simp add: ServeHTTP_def)
  from d have "h \<in> set (map (snd \<circ> snd) routes)" by (rule dispatch_SomeD)
  then consider "h = health" | "h = (\<lambda>srv rq vals. enroll srv rq)"
    | g where "h = withAgent g" "g \<in> {heartbeat, fetchPolicy, syncReport, rotateCredential}"
    | verb pattern role g where "(verb, pattern, role, g) \<in> set admin_table" "h = withPrincipal role g"
    by (auto simp: routes_def agent_routes_def admin_routes_def)
  then show ?thesis
  proof cases
    case 2
    then show ?thesis
      using assms run atomic_results(2) [of "srv_sha256 srv" "rq_rand_id rq" "rq_rand rq" s]
      by (auto simp: enroll_def split: sum.splits prod.splits) (metis fst_conv snd_conv)+
  next
    case 3
    then show ?thesis
      using assms run agent_error [OF assms(1) 3(2)] by (auto simp: withAgent_def split: prod.splits sum.splits if_splits)
  next
    case 4
    then show ?thesis
      using assms run admin_error [OF 4(1)] by (auto simp: withPrincipal_def split: option.splits if_splits)
  qed (use run in \<open>simp add: health_def\<close>)
qed

theorem errors_change_nothing_witness:
  "snd (ServeHTTP sample_server (sample_request\<lparr>rq_method := ''POST'', rq_path := [''v1'', ''admin'', ''policies'']\<rparr>) sample_store)
     = sample_store"
proof (rule errors_change_nothing [OF sample_store_ok])
  have "sample_sha256 ''key'' \<noteq> sample_sha256 ''secret''" by (simp add: sample_sha256_def)
  then show "400 \<le> re_status (fst (ServeHTTP sample_server
      (sample_request\<lparr>rq_method := ''POST'', rq_path := [''v1'', ''admin'', ''policies'']\<rparr>) sample_store))"
    by (simp add: ServeHTTP_def routes_def agent_routes_def admin_routes_def admin_table_def match_method_def
        sample_request_def withPrincipal_def AuthenticateBearer_def bearer_candidate_def sample_server_def
        sample_principal_def maxBearerTokenBytes_def has_prefix_def writeUnauthorized_def writeAPIError_def)
qed

end
