(* ===== verification/Controller_Access.thy ===== *)
theory Controller_Access
  imports Controller_Props
begin

section \<open>Credentials of the controller\<close>

text \<open>
  Enrollment tokens are good for one enrollment, a revoked device stays out whatever requests
  follow, and a bearer token authenticates the one principal that holds its hash.
\<close>

subsection \<open>Enrollment tokens\<close>

definition spent :: "8 word list \<Rightarrow> Store \<Rightarrow> bool" where
  "spent h s \<longleftrightarrow> (\<exists>row. tbl_lookup tk_token_hash h (db_tokens s) = Some row \<and> tk_used_at row \<noteq> None)"

lemma tokens_other_operations:
  "db_tokens (snd (Heartbeat s d metadata now)) = db_tokens s"
  "db_tokens (snd (RotateDeviceCredential sha256 r s d now)) = db_tokens s"
  "db_tokens (snd (SyncReport s d report now)) = db_tokens s"
  "db_tokens (snd (RevokeDevice s a d now)) = db_tokens s"
  "db_tokens (snd (AssignDeviceGroup s a d grp now)) = db_tokens s"
  "db_tokens (snd (CreatePolicy s a doc now)) = db_tokens s"
  "db_tokens (snd (UpdatePolicy s a doc now)) = db_tokens s"
  "db_tokens (snd (DeletePolicy s a p now)) = db_tokens s"
  "db_tokens (snd (AssignGroupPolicy s a grp p now)) = db_tokens s"
  "db_tokens (snd (UnassignGroupPolicy s a grp now)) = db_tokens s"
  by (auto simp: Heartbeat_def RotateDeviceCredential_def SyncReport_def RevokeDevice_def AssignDeviceGroup_def
      CreatePolicy_def UpdatePolicy_def DeletePolicy_def AssignGroupPolicy_def UnassignGroupPolicy_def
      update_devices_eq audited_eq Let_def split: option.split sum.split prod.split)

lemma spent_tokens: "db_tokens s' = db_tokens s \<Longrightarrow> spent h s \<Longrightarrow> spent h s'"
  by (simp add: spent_def)

definition consume :: "gotime \<Rightarrow> string \<Rightarrow> token_row \<Rightarrow> token_row" where
  "consume now d r = r\<lparr>tk_used_at := Some (timeText now), tk_used_by_device_id := Some d\<rparr>"

lemma usable_token_eq:
  "usable_token h now = (\<lambda>r. tk_token_hash r = h \<and> (tk_used_at r = None \<and> tk_expires_at r > timeText now))"
  by (rule ext) (simp add: usable_token_def)

lemma lookup_consumed:
  "tbl_lookup tk_token_hash k (tbl_update (usable_token h now) (consume now d) rows) =
     map_option (\<lambda>r. if k = h \<and> tk_used_at r = None \<and> tk_expires_at r > timeText now then consume now d r else r)
       (tbl_lookup tk_token_hash k rows)"
  unfolding usable_token_eq by (rule tbl_lookup_update) (simp add: consume_def)

lemma spent_enroll_device:
  assumes "spent h s"
  shows "spent h (snd (enroll_device s d ch th metadata now))"
proof -
  obtain row where row: "tbl_lookup tk_token_hash h (db_tokens s) = Some row" "tk_used_at row \<noteq> None"
    using assms by (auto simp: spent_def)
  have "(\<lambda>r. r\<lparr>tk_used_at := Some (timeText now), tk_used_by_device_id := Some d\<rparr>) = consume now d"
    by (rule ext) (simp add: consume_def)
  with assms row show ?thesis
    by (auto simp: enroll_device_def spent_def lookup_consumed split: option.split)
qed

lemma spent_Enroll: "spent h s \<Longrightarrow> spent h (snd (Enroll sha256 r r' s token metadata now))"
  using spent_enroll_device
  by (auto simp: Enroll_def Let_def split: option.split sum.split prod.split) (metis snd_conv)+

lemma spent_Invite: "spent h s \<Longrightarrow> spent h (snd (CreateEnrollmentToken sha256 r s a grp ttl now))"
  by (auto simp: CreateEnrollmentToken_def Let_def audited_eq spent_def tbl_lookup_append
      split: sum.split prod.split option.split)

lemma spent_effect: "effect sha256 now a s s' \<Longrightarrow> spent h s \<Longrightarrow> spent h s'"
  by (induction rule: effect.induct) (auto intro: spent_Enroll spent_Invite spent_tokens simp: tokens_other_operations)

lemma Enroll_spends:
  assumes "controller_ok s" and "Enroll sha256 r r' s token metadata now = (Inr x, s')"
  shows "spent (sha256 token) s'"
proof -
  have fun_eq: "(\<lambda>r. r\<lparr>tk_used_at := Some (timeText t), tk_used_by_device_id := Some d\<rparr>) = consume t d" for t d
    by (rule ext) (simp add: consume_def)
  obtain d ch t grp where e: "enroll_device s d ch (sha256 token) metadata t = (Inr grp, s')"
    using assms(2) by (auto simp: Enroll_def Let_def split: option.splits sum.splits prod.splits if_splits)
  then obtain row where f: "find (usable_token (sha256 token) t) (db_tokens s) = Some row"
      and s': "db_tokens s' = tbl_update (usable_token (sha256 token) t) (consume t d) (db_tokens s)"
    by (auto simp: enroll_device_def fun_eq split: option.splits if_splits)
  have row: "row \<in> set (db_tokens s)" "usable_token (sha256 token) t row" using find_SomeD [OF f] by simp_all
  then have "tbl_lookup tk_token_hash (sha256 token) (db_tokens s) = Some row"
    using assms(1) by (simp add: tbl_lookup_eq_Some_iff controller_ok_def keys_ok_def usable_token_def)
  then have "tbl_lookup tk_token_hash (sha256 token) (db_tokens s') = Some (consume t d row)"
    using row(2) by (simp add: s' lookup_consumed usable_token_def)
  then show ?thesis by (simp add: spent_def consume_def)
qed

lemma spent_refused:
  assumes "controller_ok s" and "spent (sha256 token) s" and "DeviceMetadata_Validate metadata = None"
  shows "Enroll sha256 (Inr b) (Inr b') s token metadata now = (Inl ErrUnauthenticated, s)"
proof -
  obtain row where row: "tbl_lookup tk_token_hash (sha256 token) (db_tokens s) = Some row" "tk_used_at row \<noteq> None"
    using assms(2) by (auto simp: spent_def)
  have keyed: "tbl_keyed tk_token_hash (db_tokens s)" using assms(1) by (simp add: controller_ok_def keys_ok_def)
  have none: "find (usable_token (sha256 token) t) (db_tokens s) = None" for t
  proof -
    have "q = row" if "q \<in> set (db_tokens s)" "tk_token_hash q = sha256 token" for q
      using that row(1) tbl_lookup_eq_Some_iff [OF keyed, of "sha256 token" q] by simp
    then show ?thesis using row(2) by (auto simp: find_None_iff usable_token_def)
  qed
  show ?thesis
    by (simp add: Enroll_def assms(3) newRandomIdentifier_def newCredential_def Let_def enroll_device_def none)
qed

text \<open>
  C16: An enrollment token works once: after it has enrolled a device, every later attempt with
  the same token, by any device, at any time, after any requests served in between, is
  refused as unauthenticated and changes nothing.
\<close>

theorem enrollment_token_single_use:
  assumes "controller_ok s" and "Enroll (srv_sha256 srv) r r' s token metadata now = (Inr x, s1)"
    and "DeviceMetadata_Validate metadata' = None"
  shows "Enroll (srv_sha256 srv) (Inr b) (Inr b') (controller.run srv s1 rqs) token metadata' now'
     = (Inl ErrUnauthenticated, controller.run srv s1 rqs)"
proof (rule spent_refused)
  have ok: "controller_ok s1" using effect_ok [OF effect.enrolls assms(1)] assms(2) by (metis snd_conv)
  show "controller_ok (controller.run srv s1 rqs)" using ok by (rule controller.run_inv)
  show "spent (srv_sha256 srv token) (controller.run srv s1 rqs)"
    by (rule served_keeps [where P = "spent (srv_sha256 srv token)"])
      (rule spent_effect, assumption+, rule ok, rule Enroll_spends [OF assms(1,2)])
qed (rule assms(3))

subsection \<open>Revocation\<close>

definition locked_out :: "string \<Rightarrow> Store \<Rightarrow> bool" where
  "locked_out d s \<longleftrightarrow> (\<exists>row. tbl_lookup dv_id d (db_devices s) = Some row \<and> dv_revoked_at row \<noteq> None)"

lemma devices_other_operations:
  "db_devices (snd (CreateEnrollmentToken sha256 r s a grp ttl now)) = db_devices s"
  "db_devices (snd (CreatePolicy s a doc now)) = db_devices s"
  "db_devices (snd (UpdatePolicy s a doc now)) = db_devices s"
  "db_devices (snd (DeletePolicy s a p now)) = db_devices s"
  "db_devices (snd (AssignGroupPolicy s a grp p now)) = db_devices s"
  "db_devices (snd (UnassignGroupPolicy s a grp now)) = db_devices s"
  by (auto simp: CreateEnrollmentToken_def CreatePolicy_def UpdatePolicy_def DeletePolicy_def AssignGroupPolicy_def
      UnassignGroupPolicy_def audited_eq Let_def split: option.split sum.split prod.split)

lemma locked_out_devices: "db_devices s' = db_devices s \<Longrightarrow> locked_out d s \<Longrightarrow> locked_out d s'"
  by (simp add: locked_out_def)

lemma lookup_update_sel:
  assumes "\<And>r. key (f r) = key r"
  shows "tbl_lookup key k (tbl_update sel f rows) = map_option (\<lambda>r. if sel r then f r else r) (tbl_lookup key k rows)"
  using assms by (induction rows) (auto simp: tbl_update_def)

lemma locked_out_update:
  assumes "\<And>r. dv_id (f r) = dv_id r" and "\<And>r. dv_revoked_at r \<noteq> None \<Longrightarrow> dv_revoked_at (f r) \<noteq> None"
    and "locked_out d s"
  shows "locked_out d (s\<lparr>db_devices := tbl_update sel f (db_devices s)\<rparr>)"
proof -
  obtain row where row: "tbl_lookup dv_id d (db_devices s) = Some row" "dv_revoked_at row \<noteq> None"
    using assms(3) unfolding locked_out_def by blast
  then have "tbl_lookup dv_id d (tbl_update sel f (db_devices s)) = Some (if sel row then f row else row)"
    by (simp add: lookup_update_sel assms(1))
  moreover have "dv_revoked_at (if sel row then f row else row) \<noteq> None" using row(2) assms(2) by simp
  ultimately show ?thesis by (simp add: locked_out_def)
qed

lemma locked_out_update_findings:
  assumes "locked_out d s"
  shows "locked_out d (s\<lparr>db_findings := x, db_devices := tbl_update sel (\<lambda>r. r\<lparr>dv_last_seen_at := y\<rparr>) (db_devices s)\<rparr>)"
  using locked_out_update [of "\<lambda>r. r\<lparr>dv_last_seen_at := y\<rparr>" d s sel] assms by (simp add: locked_out_def)

lemma locked_out_log: "locked_out d (log_entry a b c e now s) \<longleftrightarrow> locked_out d s"
  by (simp add: locked_out_def)

lemma locked_out_Enroll: "locked_out d s \<Longrightarrow> locked_out d (snd (Enroll sha256 r r' s token metadata now))"
proof -
  have "locked_out d s \<Longrightarrow> locked_out d (snd (enroll_device s e ch th metadata t))" for e ch th t
    by (auto simp: enroll_device_def locked_out_def tbl_lookup_append split: option.split)
  then show "locked_out d s \<Longrightarrow> ?thesis"
    by (auto simp: Enroll_def Let_def split: option.split sum.split prod.split) (metis snd_conv)+
qed

lemma locked_out_updates:
  assumes "locked_out d s"
  shows "locked_out d (snd (Heartbeat s e metadata now))"
    and "locked_out d (snd (RotateDeviceCredential sha256 r s e now))"
    and "locked_out d (snd (SyncReport s e report now))"
    and "locked_out d (snd (RevokeDevice s a e now))"
    and "locked_out d (snd (AssignDeviceGroup s a e grp now))"
  using assms
  by (auto simp: Heartbeat_def RotateDeviceCredential_def SyncReport_def RevokeDevice_def AssignDeviceGroup_def
      update_devices_eq audited_eq locked_out_log intro!: locked_out_update locked_out_update_findings
      split: option.split sum.split prod.split)

lemma locked_out_effect: "effect sha256 now a s s' \<Longrightarrow> locked_out d s \<Longrightarrow> locked_out d s'"
  by (induction rule: effect.induct)
    (auto intro: locked_out_Enroll locked_out_updates locked_out_devices simp: devices_other_operations)

lemma RevokeDevice_locks:
  assumes "RevokeDevice s a d now = (None, s')"
  shows "locked_out d s'"
proof -
  have "filter (live_device d) (db_devices s) \<noteq> []"
    and dev: "db_devices s' = tbl_update (live_device d) (\<lambda>r. r\<lparr>dv_revoked_at := Some (timeText (UTC now))\<rparr>) (db_devices s)"
    using assms
    by (auto simp: RevokeDevice_def update_devices_eq audited_eq requireAffected_def tbl_affected_def
        split: if_splits option.splits)
  then obtain r where "r \<in> set (db_devices s)" "dv_id r = d" by (auto simp: filter_empty_conv live_device_def)
  then obtain q where q: "tbl_lookup dv_id d (db_devices s) = Some q"
    by (cases "tbl_lookup dv_id d (db_devices s)") auto
  have "dv_id q = d" using tbl_lookup_SomeD [OF q] by simp
  with q dev show ?thesis by (auto simp: locked_out_def lookup_update_sel live_device_def)
qed

lemma locked_out_denied:
  assumes "controller_ok s" and "locked_out d s"
  shows "AuthenticateDevice sha256 s d c = Inl ErrUnauthenticated" and "PolicyForDevice s d = Inl ErrNotFound"
proof -
  obtain row where row: "tbl_lookup dv_id d (db_devices s) = Some row" "dv_revoked_at row \<noteq> None"
    using assms(2) by (auto simp: locked_out_def)
  then show "AuthenticateDevice sha256 s d c = Inl ErrUnauthenticated" by (simp add: AuthenticateDevice_def)
  have "tbl_keyed dv_id (db_devices s)" using assms(1) by (simp add: controller_ok_def keys_ok_def)
  then have "q = row" if "q \<in> set (db_devices s)" "dv_id q = d" for q
    using that row(1) tbl_lookup_eq_Some_iff [of dv_id "db_devices s" d q] by simp
  then have "find (live_device d) (db_devices s) = None" using row(2) by (auto simp: find_None_iff live_device_def)
  then show "PolicyForDevice s d = Inl ErrNotFound" by (simp add: PolicyForDevice_def)
qed

text \<open>
  C15: Once an administrator has revoked a device, it stays out for good: after any further
  requests no credential authenticates it, every agent endpoint answers 401 to its
  identifier without changing anything, and no policy is handed out to it.
\<close>

theorem revoked_device_stays_out:
  assumes "controller_ok s" and "RevokeDevice s a d now = (None, s1)"
  shows "let t = controller.run srv s1 rqs in
     AuthenticateDevice sha256 t d credential = Inl ErrUnauthenticated
     \<and> PolicyForDevice t d = Inl ErrNotFound
     \<and> (\<forall>rq h vals. rq_device_id rq = d \<longrightarrow> withAgent h srv rq vals t = (writeUnauthorized, t))"
proof -
  let ?t = "controller.run srv s1 rqs"
  have ok: "controller_ok s1" using controller_ok_Revoke [OF assms(1)] assms(2) by (metis snd_conv)
  have "controller_ok ?t" using ok by (rule controller.run_inv)
  moreover have "locked_out d ?t"
    by (rule served_keeps [where P = "locked_out d"])
      (rule locked_out_effect, assumption+, rule ok, rule RevokeDevice_locks [OF assms(2)])
  ultimately show ?thesis
    by (auto simp: Let_def locked_out_denied withAgent_def split: prod.split)
qed

lemma sample_expires: "timeText sample_now < timeText (Add sample_now Hour)"
proof -
  have "sql_year sample_now" "sql_year (Add sample_now Hour)"
    by (simp_all add: sample_now_def sql_year_def year_of_def Let_def day_ns_def duration_defs)
  then show ?thesis by (simp add: timeText_order) (simp add: Before_def duration_defs)
qed

theorem enrollment_token_single_use_witness:
  "\<exists>x s1. Enroll sample_sha256 (Inr [1]) (Inr [2]) sample_store ''invite'' sample_mac sample_now = (Inr x, s1)
     \<and> Enroll sample_sha256 (Inr [3]) (Inr [4]) (controller.run sample_server s1 [sample_request]) ''invite'' sample_mac sample_now
       = (Inl ErrUnauthenticated, controller.run sample_server s1 [sample_request])"
proof -
  have tokens: "db_tokens sample_store = [sample_token]"
    and devices: "db_devices sample_store = [sample_device]"
    unfolding sample_store_def by (simp_all add: tokens_other_operations devices_other_operations)
  have "usable_token (sample_sha256 ''invite'') (UTC sample_now) sample_token"
    using sample_expires by (simp add: usable_token_def sample_token_def UTC_def sample_now_def)
  moreover have "base64_encode url_alphabet [1] \<noteq> ''d1''"
    by (simp add: base64_encode_def url_alphabet_def)
  ultimately obtain x s1 where e: "Enroll sample_sha256 (Inr [1]) (Inr [2]) sample_store ''invite'' sample_mac sample_now = (Inr x, s1)"
    by (simp add: Enroll_def sample_mac_valid newRandomIdentifier_def newCredential_def Let_def enroll_device_def tokens devices
        sample_device_def maxBearerTokenBytes_def)
  have sha: "srv_sha256 sample_server = sample_sha256" by (simp add: sample_server_def)
  from e enrollment_token_single_use [OF sample_store_ok, of sample_server, unfolded sha, OF e sample_mac_valid]
  show ?thesis by blast
qed

theorem revoked_device_stays_out_witness:
  "\<exists>s1. RevokeDevice sample_store ''root'' ''d1'' sample_now = (None, s1)
     \<and> AuthenticateDevice sample_sha256 (controller.run sample_server s1 [sample_request]) ''d1'' ''key'' = Inl ErrUnauthenticated"
proof -
  have "db_devices sample_store = [sample_device]"
    unfolding sample_store_def by (simp add: devices_other_operations)
  moreover have "db_audit_seq sample_store < 100"
    unfolding sample_store_def
    by (simp add: AssignGroupPolicy_def CreatePolicy_def audited_eq new_database_def split: option.split)
  ultimately obtain s1 where "RevokeDevice sample_store ''root'' ''d1'' sample_now = (None, s1)"
    using sample_root
    by (simp add: RevokeDevice_def update_devices_eq audited_eq requireAffected_def tbl_affected_def live_device_def sample_device_def)
  with revoked_device_stays_out [OF sample_store_ok this, of sample_server "[sample_request]" sample_sha256 "''key''"]
  show ?thesis by (auto simp: Let_def)
qed

subsection \<open>Administrators\<close>

text \<open>
  With a loaded principal configuration, the bearer header authenticates a principal exactly
  when it is well formed and the SHA-256 of its token is the digest configured for that
  principal; identifiers and digests are unique and one principal is an administrator.
\<close>

theorem AuthenticateBearer_characterised:
  assumes "NewPrincipalSet specs = Inr principals"
  shows "(AuthenticateBearer sha256 principals header = Some p \<longleftrightarrow>
       p \<in> set principals \<and> snd (bearer_candidate header) \<and> prin_tokenHash p = sha256 (fst (bearer_candidate header)))
     \<and> distinct (map prin_ID principals) \<and> distinct (map prin_tokenHash principals)
     \<and> (\<exists>q \<in> set principals. prin_Role q = RoleAdmin)"
  using NewPrincipalSet_ok [OF assms] AuthenticateBearer_Some [of sha256 principals header p]
    AuthenticateBearer_match [of principals p header sha256]
  by (auto simp: principals_ok_def)

theorem AuthenticateBearer_characterised_witness:
  "AuthenticateBearer sample_sha256 [sample_principal] ''Bearer secret'' = Some sample_principal"
proof -
  have "NewPrincipalSet [sample_admin] = Inr [sample_principal]"
    using sample_root
    by (simp add: NewPrincipalSet_def sample_admin_def sample_principal_def hex_value_def sample_sha256_def Role_Valid_def eval_nat_numeral)
  from AuthenticateBearer_characterised [OF this, of sample_sha256 "''Bearer secret''" sample_principal]
  show ?thesis
    by (simp add: bearer_candidate_def has_prefix_def maxBearerTokenBytes_def) (simp add: sample_principal_def)
qed

end
