(* ===== verification/Controller_Policies.thy ===== *)
theory Controller_Policies
  imports Controller_Props
begin

section \<open>Policies and reports of the controller\<close>

text \<open>
  Stored policies always read back as valid documents, updates of a policy are serialised by
  its revision, agents get exactly their group's policy under a signature that verifies, and
  a report touches the findings of the reporting device only.
\<close>

subsection \<open>Reading stored policies\<close>

lemma decode_row:
  assumes "policy_row_ok r"
  obtains d where "decodeStoredPolicy (po_document r) = Inr d" and "PolicyDocument_Validate d = None"
    and "po_id r = pd_ID d" and "po_revision r = uint (pd_Revision d)" and "po_document r = PolicyDocument_json d"
  using assms by (auto simp: policy_row_ok_def decodeStoredPolicy_def decode_valid_policy)

lemma valid_policy_ID: "PolicyDocument_Validate d = None \<Longrightarrow> validIdentifier (pd_ID d)"
  using policy_checks_None(3) by (simp add: PolicyDocument_Validate_None_iff)

lemma stored_row_ok: "controller_ok s \<Longrightarrow> r \<in> set (db_policies s) \<Longrightarrow> policy_row_ok r"
  by (simp add: controller_ok_def list_all_iff)

lemma policies_keyed: "controller_ok s \<Longrightarrow> tbl_keyed po_id (db_policies s)"
  by (simp add: controller_ok_def keys_ok_def)

lemma GetPolicy_row:
  assumes "controller_ok s" and "r \<in> set (db_policies s)"
  shows "GetPolicy s (po_id r) = decodeStoredPolicy (po_document r)"
proof -
  obtain d where "PolicyDocument_Validate d = None" "po_id r = pd_ID d"
    using stored_row_ok [OF assms] by (rule decode_row)
  then have "validIdentifier (po_id r)" by (simp add: valid_policy_ID)
  moreover have "tbl_lookup po_id (po_id r) (db_policies s) = Some r"
    using tbl_lookup_eq_Some_iff [OF policies_keyed [OF assms(1)]] assms(2) by simp
  ultimately show ?thesis by (simp add: GetPolicy_def)
qed






subsection \<open>Revisions\<close>

definition follows :: "Store \<Rightarrow> PolicyDocument \<Rightarrow> bool" where
  "follows s doc \<longleftrightarrow> (case GetPolicy s (pd_ID doc) of
     Inl _ \<Rightarrow> False | Inr old \<Rightarrow> uint (pd_Revision doc) = uint (pd_Revision old) + 1)"

lemma uint_pred: "w \<noteq> 0 \<Longrightarrow> uint (w - 1) = uint (w :: 64 word) - 1"
proof -
  assume "w \<noteq> 0"
  then have "uint w \<noteq> 0" by (simp add: unsigned_eq_0_iff)
  then have "1 \<le> uint w" using uint_ge_0 [of w] by linarith
  then show ?thesis by (simp add: uint_sub_if')
qed

lemma follows_iff:
  assumes "controller_ok s" and "PolicyDocument_Validate doc = None"
  shows "follows s doc \<longleftrightarrow>
    (\<exists>r \<in> set (db_policies s). po_id r = pd_ID doc \<and> po_revision r = uint (pd_Revision doc - 1))"
proof (cases "tbl_lookup po_id (pd_ID doc) (db_policies s)")
  case None
  then have "GetPolicy s (pd_ID doc) = Inl ErrNotFound"
    using assms(2) by (simp add: GetPolicy_def valid_policy_ID)
  with None show ?thesis by (auto simp: follows_def image_iff)
next
  case (Some r)
  then have r: "r \<in> set (db_policies s)" "po_id r = pd_ID doc" using tbl_lookup_SomeD [OF Some] by simp_all
  then have only: "q = r" if "q \<in> set (db_policies s)" "po_id q = pd_ID doc" for q
    using that Some tbl_lookup_eq_Some_iff [OF policies_keyed [OF assms(1)], of "pd_ID doc" q] by simp
  have "pd_Revision doc \<noteq> 0" using policy_checks_None(4) assms(2) by (simp add: PolicyDocument_Validate_None_iff)
  then have pred: "uint (pd_Revision doc - 1) = uint (pd_Revision doc) - 1" by (rule uint_pred)
  obtain d where d: "decodeStoredPolicy (po_document r) = Inr d" "po_revision r = uint (pd_Revision d)"
    using stored_row_ok [OF assms(1) r(1)] by (rule decode_row)
  have "follows s doc \<longleftrightarrow> po_revision r = uint (pd_Revision doc - 1)"
    using GetPolicy_row [OF assms(1) r(1)] d pred by (auto simp: follows_def r(2))
  with r only show ?thesis by blast
qed

lemma affected_one:
  assumes "tbl_keyed po_id rows"
  shows "requireAffected (tbl_affected (\<lambda>r. po_id r = i \<and> po_revision r = n) rows) = None \<longleftrightarrow>
     (\<exists>r \<in> set rows. po_id r = i \<and> po_revision r = n)"
proof (cases "tbl_lookup po_id i rows")
  case None
  then show ?thesis using tbl_affected_keyed [OF assms] by (auto simp: requireAffected_def)
next
  case (Some r)
  then have "q \<in> set rows \<and> po_id q = i \<longleftrightarrow> q = r" for q
    using tbl_lookup_eq_Some_iff [OF assms, of i q] by auto
  then have "(\<exists>q \<in> set rows. po_id q = i \<and> po_revision q = n) \<longleftrightarrow> po_revision r = n" unfolding Bex_def by (metis (no_types))
  with Some show ?thesis using tbl_affected_keyed [OF assms, of i] by (simp add: requireAffected_def)
qed

lemma UpdatePolicy_outcome:
  assumes "controller_ok s" and "validIdentifier a" and "PolicyDocument_Validate doc = None"
    and "uint (pd_Revision doc) < 2 ^ 63" and "db_audit_seq s < 2 ^ 63 - 1"
  shows "UpdatePolicy s a doc now =
    (if follows s doc
     then (None, log_entry a ''policy.update'' ''policy'' (pd_ID doc) now
       (s\<lparr>db_policies := tbl_update (\<lambda>r. po_id r = pd_ID doc \<and> po_revision r = uint (pd_Revision doc - 1))
          (\<lambda>r. r\<lparr>po_revision := uint (pd_Revision doc), po_document := PolicyDocument_json doc,
             po_updated_at := timeText (UTC now), po_updated_by := a\<rparr>) (db_policies s)\<rparr>))
     else (Some ErrConflict, s))"
proof -
  have "pd_Revision doc \<noteq> 0" using policy_checks_None(4) assms(3) by (simp add: PolicyDocument_Validate_None_iff)
  then have "sql_uint64 (pd_Revision doc - 1) = Some (uint (pd_Revision doc - 1))"
    using assms(4) by (simp add: sql_uint64_def uint_pred)
  then show ?thesis
    using assms follows_iff [OF assms(1,3)] affected_one [OF policies_keyed [OF assms(1)], of "pd_ID doc"]
    by (simp add: UpdatePolicy_def sql_uint64_def audited_eq Let_def del: not_None_eq)
qed

text \<open>
  C17: Policy updates are serialised by the revision. An update is accepted exactly when its
  revision is one above the stored one; then the stored policy is the new document, every
  other policy is as before, and any second update with the same revision, which was made
  from the same state, is refused as a conflict and changes nothing.
\<close>

theorem policy_updates_serialised:
  assumes "controller_ok s" and "validIdentifier a" and "PolicyDocument_Validate doc = None"
    and "uint (pd_Revision doc) < 2 ^ 63" and "db_audit_seq s < 2 ^ 63 - 2"
  shows "if follows s doc
    then (\<exists>s'. UpdatePolicy s a doc now = (None, s') \<and> GetPolicy s' (pd_ID doc) = Inr doc
      \<and> (\<forall>i. i \<noteq> pd_ID doc \<longrightarrow> GetPolicy s' i = GetPolicy s i)
      \<and> (\<forall>b doc2 now2. validIdentifier b \<longrightarrow> PolicyDocument_Validate doc2 = None \<longrightarrow> pd_ID doc2 = pd_ID doc
           \<longrightarrow> pd_Revision doc2 = pd_Revision doc \<longrightarrow> UpdatePolicy s' b doc2 now2 = (Some ErrConflict, s')))
    else UpdatePolicy s a doc now = (Some ErrConflict, s)"
proof -
  have outcome: "UpdatePolicy s a doc now = (if follows s doc then (None, snd (UpdatePolicy s a doc now)) else (Some ErrConflict, s))"
    using assms by (simp add: UpdatePolicy_outcome)
  show ?thesis
  proof (cases "follows s doc")
    case True
    define s' where "s' = snd (UpdatePolicy s a doc now)"
    let ?f = "\<lambda>r. r\<lparr>po_revision := uint (pd_Revision doc), po_document := PolicyDocument_json doc,
       po_updated_at := timeText (UTC now), po_updated_by := a\<rparr>"
    have s': "s' = log_entry a ''policy.update'' ''policy'' (pd_ID doc) now
       (s\<lparr>db_policies := tbl_update (\<lambda>r. po_id r = pd_ID doc \<and> po_revision r = uint (pd_Revision doc - 1)) ?f (db_policies s)\<rparr>)"
      unfolding s'_def using assms True by (simp add: UpdatePolicy_outcome)
    have ok: "controller_ok s'" unfolding s'_def using assms(1) by (rule controller_ok_Update)
    have look: "tbl_lookup po_id i (db_policies s') =
        map_option (\<lambda>r. if i = pd_ID doc \<and> po_revision r = uint (pd_Revision doc - 1) then ?f r else r)
          (tbl_lookup po_id i (db_policies s))" for i
      unfolding s' log_entry_simps by (simp add: tbl_lookup_update)
    obtain r where r: "r \<in> set (db_policies s)" "po_id r = pd_ID doc" "po_revision r = uint (pd_Revision doc - 1)"
      using True follows_iff [OF assms(1,3)] by blast
    then have "tbl_lookup po_id (pd_ID doc) (db_policies s) = Some r"
      using tbl_lookup_eq_Some_iff [OF policies_keyed [OF assms(1)]] by simp
    then have new: "GetPolicy s' (pd_ID doc) = Inr doc"
      using r(3) assms(3) by (simp add: GetPolicy_def look valid_policy_ID decodeStoredPolicy_def decode_valid_policy)
    have others: "GetPolicy s' i = GetPolicy s i" if "i \<noteq> pd_ID doc" for i
      using that by (simp add: GetPolicy_def look option.map_ident)
    have "db_audit_seq s' < 2 ^ 63 - 1" using assms(5) by (simp add: s')
    then have "UpdatePolicy s' b doc2 now2 = (Some ErrConflict, s')"
      if "validIdentifier b" "PolicyDocument_Validate doc2 = None" "pd_ID doc2 = pd_ID doc" "pd_Revision doc2 = pd_Revision doc"
      for b doc2 now2
      using UpdatePolicy_outcome [OF ok that(1,2)] assms(4) that new by (simp add: follows_def)
    then show ?thesis using True outcome new others unfolding s'_def by auto
  qed (use outcome in simp)
qed

lemma sample_store_policies:
  "tbl_lookup po_id ''base'' (db_policies sample_store) = Some \<lparr>po_id = ''base'', po_revision = 1,
     po_document = PolicyDocument_json sample_policy, po_created_at = timeText (UTC sample_now),
     po_updated_at = timeText (UTC sample_now), po_created_by = ''root'', po_updated_by = ''root''\<rparr>"
  "db_audit_seq sample_store = 2"
  "db_assignments sample_store = [\<lparr>ga_group_name = ''eng'', ga_policy_id = ''base'', ga_updated_at = timeText (UTC sample_now),
     ga_updated_by = ''root''\<rparr>]"
proof -
  have p: "pd_ID sample_policy = ''base''" "pd_Revision sample_policy = 1" by (simp_all add: sample_policy_def)
  have v: "PolicyDocument_Validate sample_policy = None" using sample_policy_valid [of 1] by (simp add: sample_policy_def)
  note unfold = sample_store_def AssignGroupPolicy_def CreatePolicy_def audited_eq new_database_def v p sample_root validGroup_def
  show "tbl_lookup po_id ''base'' (db_policies sample_store) = Some \<lparr>po_id = ''base'', po_revision = 1,
     po_document = PolicyDocument_json sample_policy, po_created_at = timeText (UTC sample_now),
     po_updated_at = timeText (UTC sample_now), po_created_by = ''root'', po_updated_by = ''root''\<rparr>"
    "db_audit_seq sample_store = 2"
    "db_assignments sample_store = [\<lparr>ga_group_name = ''eng'', ga_policy_id = ''base'', ga_updated_at = timeText (UTC sample_now),
     ga_updated_by = ''root''\<rparr>]"
    by (simp_all add: unfold log_entry_def tbl_upsert_def)
qed

theorem policy_updates_serialised_witness:
  "\<exists>s'. UpdatePolicy sample_store ''root'' (sample_policy\<lparr>pd_Revision := 2\<rparr>) sample_now = (None, s')
     \<and> GetPolicy s' ''base'' = Inr (sample_policy\<lparr>pd_Revision := 2\<rparr>)"
proof -
  let ?doc = "sample_policy\<lparr>pd_Revision := 2\<rparr>"
  have v: "PolicyDocument_Validate ?doc = None" "PolicyDocument_Validate sample_policy = None"
    using sample_policy_valid [of 2] sample_policy_valid [of 1] by (simp_all add: sample_policy_def)
  have p: "pd_ID ?doc = ''base''" "pd_Revision ?doc = 2" "pd_Revision sample_policy = 1" by (simp_all add: sample_policy_def)
  have "GetPolicy sample_store ''base'' = Inr sample_policy"
    using v by (simp add: GetPolicy_def sample_root sample_store_policies decodeStoredPolicy_def decode_valid_policy)
  then have "follows sample_store ?doc" by (simp add: follows_def p)
  with policy_updates_serialised [OF sample_store_ok sample_root(1) v(1), of sample_now] p
  show ?thesis by (auto simp: sample_store_policies)
qed

subsection \<open>Signed policies\<close>

text \<open>What is assumed of Ed25519 for one key pair: its signatures have 64 bytes and verify.\<close>

definition signs_for :: "ed25519 \<Rightarrow> Signer \<Rightarrow> bool" where
  "signs_for ed sg \<longleftrightarrow> length (sg_privateKey sg) = 64 \<and> length (sg_publicKey sg) = 32
     \<and> (\<forall>message. length (ed_Sign ed (sg_privateKey sg) message) = 64
         \<and> ed_Verify ed (sg_publicKey sg) message (ed_Sign ed (sg_privateKey sg) message))"

lemma Sign_verifies:
  assumes "signs_for ed sg" and "PolicyDocument_Validate doc = None"
  shows "\<exists>envelope. Sign ed (Some sg) doc = Inr envelope \<and> sp_Document envelope = doc \<and> VerifySignedPolicy ed envelope = None"
  using assms by (simp add: Sign_def VerifySignedPolicy_def signs_for_def)

lemma PolicyForDevice_valid:
  assumes "controller_ok s" and "PolicyForDevice s d = Inr doc"
  shows "PolicyDocument_Validate doc = None"
  using assms(2) by (auto simp: PolicyForDevice_def decodeStoredPolicy_def split: option.splits)

lemma PolicyForDevice_error:
  assumes "controller_ok s" and "PolicyForDevice s d = Inl err"
  shows "err = ErrNotFound"
proof -
  have "\<exists>doc. decodeStoredPolicy (po_document r) = Inr doc" if "group_policy s grp = Some r" for grp r
  proof -
    have "r \<in> set (db_policies s)" using that by (auto simp: group_policy_def dest!: tbl_lookup_SomeD split: option.splits)
    with assms(1) have "policy_row_ok r" by (intro stored_row_ok)
    then show ?thesis by (rule decode_row) blast
  qed
  then show ?thesis using assms(2) by (fastforce simp: PolicyForDevice_def split: option.splits)
qed

definition policy_request :: "request \<Rightarrow> bool" where
  "policy_request rq \<longleftrightarrow> rq_method rq = ''GET'' \<and> rq_path rq = [''v1'', ''agent'', ''policy'']"

lemma dispatch_policy: "policy_request rq \<Longrightarrow> dispatch routes rq = Some (withAgent fetchPolicy, [])"
  by (simp add: policy_request_def routes_def agent_routes_def match_method_def)

lemma policy_answered:
  assumes "controller_ok s" and "signs_for (srv_ed25519 srv) (srv_signer srv)" and "policy_request rq"
    and "authorised srv rq s (Agent d)"
  shows "case PolicyForDevice s d of
      Inr doc \<Rightarrow> \<exists>envelope. ServeHTTP srv rq s = (writeJSON 200 (Some (SignedPolicy_json envelope)), s)
        \<and> Sign (srv_ed25519 srv) (Some (srv_signer srv)) doc = Inr envelope
        \<and> sp_Document envelope = doc \<and> VerifySignedPolicy (srv_ed25519 srv) envelope = None
    | Inl _ \<Rightarrow> ServeHTTP srv rq s = (writeAPIError 404 ''not_found'', s)"
proof -
  obtain device where dev: "AuthenticateDevice (srv_sha256 srv) s (rq_device_id rq) (fst (bearerToken (rq_authorization rq))) = Inr device"
      "snd (bearerToken (rq_authorization rq))" "rq_device_id rq = d"
    using assms(4) by (auto simp: authorised_def)
  then have id: "dev_ID device = d" using AuthenticateDevice_ID by blast
  have run: "ServeHTTP srv rq s = fetchPolicy srv rq device s"
    using dev dispatch_policy [OF assms(3)] by (simp add: ServeHTTP_def withAgent_def case_prod_unfold)
  show ?thesis
  proof (cases "PolicyForDevice s d")
    case (Inl err)
    with PolicyForDevice_error [OF assms(1) Inl] run id show ?thesis
      by (simp add: fetchPolicy_def writeStoreError_def controller_errors)
  next
    case (Inr doc)
    then obtain envelope where "Sign (srv_ed25519 srv) (Some (srv_signer srv)) doc = Inr envelope" "sp_Document envelope = doc"
        "VerifySignedPolicy (srv_ed25519 srv) envelope = None"
      using Sign_verifies [OF assms(2) PolicyForDevice_valid [OF assms(1) Inr]] by blast
    moreover from this Inr run id have "ServeHTTP srv rq s = (writeJSON 200 (Some (SignedPolicy_json envelope)), s)"
      by (simp add: fetchPolicy_def)
    ultimately show ?thesis unfolding Inr sum.case by blast
  qed
qed

text \<open>
  C26: A device that authenticates and asks for its policy gets, where its group has one, that
  very document in an envelope that verifies under the controller's public key, and a 404
  otherwise; the request changes nothing.
\<close>

theorem agent_gets_verified_policy:
  assumes "controller_ok s" and "signs_for (srv_ed25519 srv) (srv_signer srv)" and "policy_request rq"
    and "authorised srv rq s (Agent d)"
  shows "case PolicyForDevice s d of
      Inr doc \<Rightarrow> \<exists>envelope. ServeHTTP srv rq s = (writeJSON 200 (Some (SignedPolicy_json envelope)), s)
        \<and> sp_Document envelope = doc \<and> VerifySignedPolicy (srv_ed25519 srv) envelope = None
    | Inl _ \<Rightarrow> ServeHTTP srv rq s = (writeAPIError 404 ''not_found'', s)"
proof -
  from policy_answered [OF assms] show ?thesis by (auto split: sum.splits)
qed

lemma sample_store_devices: "db_devices sample_store = [sample_device]"
  by (simp add: sample_store_def AssignGroupPolicy_def CreatePolicy_def audited_eq split: option.split)

lemma sample_auth: "\<exists>device. AuthenticateDevice sample_sha256 sample_store ''d1'' ''key'' = Inr device"
proof -
  have "parseTime (timeText sample_now) = Inr sample_now"
    using parseTime_timeText [of sample_now] by (simp add: sample_now_def sql_year_def year_of_def Let_def day_ns_def UTC_def)
  then show ?thesis
    by (simp add: AuthenticateDevice_def sample_store_devices sample_device_def row_device_def parse_null_def maxBearerTokenBytes_def)
qed

lemma sample_assigned: "PolicyForDevice sample_store ''d1'' = Inr sample_policy"
proof -
  have "PolicyDocument_Validate sample_policy = None" using sample_policy_valid [of 1] by (simp add: sample_policy_def)
  then show ?thesis
    by (simp add: PolicyForDevice_def sample_store_devices live_device_def group_policy_def sample_store_policies
        decodeStoredPolicy_def decode_valid_policy) (simp add: sample_device_def)
qed

theorem agent_gets_verified_policy_witness:
  "\<exists>envelope. ServeHTTP sample_server sample_request sample_store = (writeJSON 200 (Some (SignedPolicy_json envelope)), sample_store)
     \<and> sp_Document envelope = sample_policy \<and> VerifySignedPolicy sample_ed25519 envelope = None"
proof -
  have signs: "signs_for (srv_ed25519 sample_server) (srv_signer sample_server)"
    by (simp add: signs_for_def sample_server_def sample_signer_def sample_ed25519_def)
  have req: "policy_request sample_request" by (simp add: policy_request_def sample_request_def)
  have auth: "authorised sample_server sample_request sample_store (Agent ''d1'')"
    using sample_auth
    by (simp add: authorised_def sample_request_def bearerToken_def maxBearerTokenBytes_def has_prefix_def sample_server_def)
  show ?thesis
    using agent_gets_verified_policy [OF sample_store_ok signs req auth] sample_assigned by (simp add: sample_server_def)
qed

subsection \<open>Reports\<close>

definition finding_key :: "string \<Rightarrow> RedactedFinding \<Rightarrow> string \<times> string \<times> string" where
  "finding_key d f = (d, rf_DetectorID f, rf_Category f)"

lemma report_row_key [simp]: "cf_key (report_row d report f n) = finding_key d f"
  by (simp add: cf_key_def report_row_def finding_key_def)

lemma merge_row_same: "cf_key q = cf_key r \<Longrightarrow> merge_row r q = r"
  by (cases q; cases r) (simp add: cf_key_def merge_row_def)

lemma lookup_stored:
  "tbl_lookup cf_key k (tbl_upsert cf_key r (merge_row r) rows) = (if k = cf_key r then Some r else tbl_lookup cf_key k rows)"
  by (subst tbl_lookup_upsert) (auto simp: merge_row_same dest: tbl_lookup_SomeD split: option.split)

lemma store_findings_lookup:
  "store_findings known d report fs rows = Inr rows' \<Longrightarrow> distinct (map (finding_key d) fs) \<Longrightarrow>
     (\<forall>f \<in> set fs. tbl_lookup cf_key (finding_key d f) rows' = Some (report_row d report f (uint (rf_Occurrences f))))
     \<and> (\<forall>k. k \<notin> finding_key d ` set fs \<longrightarrow> tbl_lookup cf_key k rows' = tbl_lookup cf_key k rows)"
proof (induction known d report fs rows rule: store_findings.induct)
  case (2 known d report f fs rows)
  let ?row = "report_row d report f (uint (rf_Occurrences f))"
  obtain n where n: "sql_uint64 (rf_Occurrences f) = Some n" and known: "known"
    using 2(2) by (auto split: option.splits if_splits)
  then have n': "n = uint (rf_Occurrences f)" using sql_uint64_Some by blast
  have rest: "store_findings known d report fs (tbl_upsert cf_key ?row (merge_row ?row) rows) = Inr rows'"
    using 2(2) n n' known by (simp add: Let_def)
  have IH: "(\<forall>g \<in> set fs. tbl_lookup cf_key (finding_key d g) rows' = Some (report_row d report g (uint (rf_Occurrences g))))
     \<and> (\<forall>k. k \<notin> finding_key d ` set fs \<longrightarrow> tbl_lookup cf_key k rows' = tbl_lookup cf_key k (tbl_upsert cf_key ?row (merge_row ?row) rows))"
    using 2(1) [OF n, of ?row] known rest 2(3) n' by simp
  then have "tbl_lookup cf_key (finding_key d f) rows' = Some ?row" using 2(3) by (simp add: lookup_stored del: split_paired_All)
  with IH show ?case by (simp add: lookup_stored del: split_paired_All)
qed simp

lemma report_keys_distinct:
  assumes "ReportSync_Validate now report = None"
  shows "distinct (map (finding_key d) (rs_Findings report))"
proof -
  have "distinct (map redacted_key (rs_Findings report))"
    using assms by (auto simp: ReportSync_Validate_def split: option.splits)
  then show ?thesis
    unfolding distinct_map inj_on_def finding_key_def redacted_key_def by (metis prod.inject)
qed

text \<open>
  C27: An accepted report leaves exactly its own findings as the rows of the reporting device
  for their detectors and categories, whatever was stored before; every other finding, of
  this or any other device, every policy, assignment and token and the standing of every
  device stay as they were.
\<close>

theorem report_touches_own_findings:
  assumes "SyncReport s d report now = (None, s')"
  shows "(\<forall>f \<in> set (rs_Findings report). tbl_lookup cf_key (finding_key d f) (db_findings s')
          = Some (report_row d report f (uint (rf_Occurrences f))))
     \<and> (\<forall>k. k \<notin> finding_key d ` set (rs_Findings report) \<longrightarrow>
          tbl_lookup cf_key k (db_findings s') = tbl_lookup cf_key k (db_findings s))
     \<and> db_policies s' = db_policies s \<and> db_assignments s' = db_assignments s \<and> db_tokens s' = db_tokens s
     \<and> map device_standing (db_devices s') = map device_standing (db_devices s)"
proof -
  obtain rows where valid: "ReportSync_Validate (UTC now) report = None"
    and rows: "store_findings (d \<in> set (map dv_id (db_devices s))) d report (rs_Findings report) (db_findings s) = Inr rows"
    and s': "s' = s\<lparr>db_findings := rows, db_devices := tbl_update (live_device d) (\<lambda>r. r\<lparr>dv_last_seen_at := Some (timeText (UTC now))\<rparr>) (db_devices s)\<rparr>"
    using assms by (auto simp: SyncReport_def update_devices_eq split: option.splits sum.splits)
  note look = store_findings_lookup [OF rows report_keys_distinct [OF valid]]
  show ?thesis using look by (simp add: s' del: split_paired_All)
qed

theorem report_touches_own_findings_witness:
  "\<exists>s'. SyncReport sample_store ''d1'' \<lparr>rs_Schema = ReportSchema, rs_SchemaVersion = ReportSchemaVersion, rs_ReportedAt = sample_now,
       rs_Findings = [\<lparr>rf_DetectorID = ''firewall'', rf_Category = ''network'', rf_Severity = SeverityWarn, rf_State = FindingOpen,
         rf_FirstSeen = sample_now, rf_LastSeen = sample_now, rf_Occurrences = 3\<rparr>]\<rparr> sample_now = (None, s')
     \<and> map device_standing (db_devices s') = map device_standing (db_devices sample_store)"
proof -
  let ?f = "\<lparr>rf_DetectorID = ''firewall'', rf_Category = ''network'', rf_Severity = SeverityWarn, rf_State = FindingOpen,
         rf_FirstSeen = sample_now, rf_LastSeen = sample_now, rf_Occurrences = 3\<rparr>"
  let ?r = "\<lparr>rs_Schema = ReportSchema, rs_SchemaVersion = ReportSchemaVersion, rs_ReportedAt = sample_now, rs_Findings = [?f]\<rparr>"
  have z: "\<not> IsZero sample_now" by (simp add: sample_now_def IsZero_def)
  have after: "\<not> After sample_now (Add u (5 * Minute))" if "t_ns u = t_ns sample_now" for u
    using that by (simp add: After_def duration_defs)
  have "RedactedFinding_validate sample_now ?f = None"
    unfolding RedactedFinding_validate_def first_error_None_iff
    using z after [of sample_now] sample_root by (simp add: Severity_Valid_def FindingState_Valid_def Before_def)
  moreover have "report_checks (UTC sample_now) ?r = None"
    unfolding report_checks_def first_error_None_iff using z after [of "UTC sample_now"] by (simp add: maxReportFindings_def)
  ultimately have "ReportSync_Validate (UTC sample_now) ?r = None" by (simp add: ReportSync_Validate_def)
  then obtain s' where "SyncReport sample_store ''d1'' ?r sample_now = (None, s')"
    by (simp add: SyncReport_def sample_store_devices sql_uint64_def Let_def update_devices_eq requireAffected_def
        tbl_affected_def live_device_def sample_device_def)
  with report_touches_own_findings [OF this] show ?thesis by blast
qed

end
