(* ===== verification/GoURL.thy ===== *)
theory GoURL
  imports GoAddr
begin

section \<open>URLs (package net/url)\<close>

text \<open>
  \<open>url.Parse\<close> as far as the sources use it: scheme, opaque part, whether there is user
  information, host, decoded path, raw query and fragment. \<open>None\<close> stands for each parse error;
  the contents of the user information are not kept, since every caller refuses it.
\<close>

record url =
  u_Scheme :: string
  u_Opaque :: string
  u_User :: bool
  u_Host :: string
  u_Path :: string
  u_ForceQuery :: bool
  u_RawQuery :: string
  u_Fragment :: string
  u_OmitHost :: bool
  u_RawPath :: string

subsection \<open>Percent encoding\<close>

definition unhex :: "char \<Rightarrow> nat" where
  "unhex c = (if is_digit c then byte c - 48 else if byte c \<ge> 97 then byte c - 87 else byte c - 55)"

definition unreserved :: "char \<Rightarrow> bool" where
  "unreserved c \<longleftrightarrow> is_digit c \<or> (97 \<le> byte c \<and> byte c \<le> 122) \<or> (65 \<le> byte c \<and> byte c \<le> 90) \<or> c \<in> set ''-_.~''"

definition host_char :: "char \<Rightarrow> bool" where
  "host_char c \<longleftrightarrow> unreserved c \<or> c \<in> set (CHR 0x27 # CHR 0x22 # ''!$&()*+,;=:[]<>'')"

text \<open>
  In a host only bytes above ASCII and the percent sign may be percent-encoded; in an IPv6 zone
  also the space and what a host may contain.
\<close>

datatype escape_mode = InPath | InHost | InZone

definition escape_ok :: "escape_mode \<Rightarrow> char \<Rightarrow> char \<Rightarrow> bool" where
  "escape_ok mode a b \<longleftrightarrow>
     (case mode of
        InPath \<Rightarrow> True
      | InHost \<Rightarrow> \<not> unhex a < 8 \<or> (a = CHR ''2'' \<and> b = CHR ''5'')
      | InZone \<Rightarrow> (a = CHR ''2'' \<and> b = CHR ''5'') \<or> 16 * unhex a + unhex b = 32
          \<or> host_char (char_of (16 * unhex a + unhex b)))"

fun unescape :: "escape_mode \<Rightarrow> string \<Rightarrow> string option" where
  "unescape mode [] = Some []"
| "unescape mode (c # s) =
     (if c = CHR ''%'' then
        (case s of
           a # b # r \<Rightarrow>
             if \<not> is_hex a \<or> \<not> is_hex b \<or> \<not> escape_ok mode a b then None
             else map_option ((#) (char_of (16 * unhex a + unhex b))) (unescape mode r)
         | _ \<Rightarrow> None)
      else if mode \<noteq> InPath \<and> byte c < 128 \<and> \<not> host_char c then None
      else map_option ((#) c) (unescape mode s))"

definition hex_upper :: "nat \<Rightarrow> char" where
  "hex_upper n = (if n < 10 then char_of (48 + n) else char_of (55 + n))"

definition escape_with :: "(char \<Rightarrow> bool) \<Rightarrow> string \<Rightarrow> string" where
  "escape_with keep s = concat (map (\<lambda>c. if keep c then [c]
     else [CHR ''%'', hex_upper (byte c div 16), hex_upper (byte c mod 16)]) s)"

definition path_char :: "char \<Rightarrow> bool" where
  "path_char c \<longleftrightarrow> unreserved c \<or> c \<in> set ''$&+,/:;=@''"

subsection \<open>Splitting\<close>

definition cut_at :: "char \<Rightarrow> string \<Rightarrow> string \<times> string" where
  "cut_at c s = (takeWhile (\<lambda>d. d \<noteq> c) s, drop 1 (dropWhile (\<lambda>d. d \<noteq> c) s))"

text \<open>Before and after the last occurrence.\<close>

definition cut_last :: "char \<Rightarrow> string \<Rightarrow> string \<times> string" where
  "cut_last c s = (let t = rev (takeWhile (\<lambda>d. d \<noteq> c) (rev s)) in (take (length s - length t - 1) s, t))"

definition scheme_char :: "char \<Rightarrow> bool" where
  "scheme_char c \<longleftrightarrow> is_digit c \<or> (97 \<le> byte c \<and> byte c \<le> 122) \<or> (65 \<le> byte c \<and> byte c \<le> 90) \<or> c \<in> set ''+-.''"

definition letter :: "char \<Rightarrow> bool" where
  "letter c \<longleftrightarrow> (97 \<le> byte c \<and> byte c \<le> 122) \<or> (65 \<le> byte c \<and> byte c \<le> 90)"

definition to_lower :: "string \<Rightarrow> string" where
  "to_lower s = map (\<lambda>c. if 65 \<le> byte c \<and> byte c \<le> 90 then char_of (byte c + 32) else c) s"

definition getScheme :: "string \<Rightarrow> (string \<times> string) option" where
  "getScheme s =
     (let front = takeWhile scheme_char s; rest = dropWhile scheme_char s
      in case rest of
           c # r \<Rightarrow>
             if c = CHR '':'' then
               (if front = [] then None else if letter (hd front) then Some (front, r) else Some ([], s))
             else Some ([], s)
         | [] \<Rightarrow> Some ([], s))"

definition validOptionalPort :: "string \<Rightarrow> bool" where
  "validOptionalPort port \<longleftrightarrow> (case port of [] \<Rightarrow> True | c # r \<Rightarrow> c = CHR '':'' \<and> list_all is_digit r)"

text \<open>The first \<open>%25\<close> of a bracketed literal starts its zone.\<close>

fun before_zone :: "string \<Rightarrow> string" where
  "before_zone [] = []"
| "before_zone (c # s) = (if has_prefix (c # s) ''%25'' then [] else c # before_zone s)"

definition parseHost :: "string \<Rightarrow> string option" where
  "parseHost host =
     (if has_prefix host ''['' then
        (if CHR '']'' \<notin> set host then None
         else
          (let (literal, port) = cut_last (CHR '']'') host; front = before_zone literal
           in if \<not> validOptionalPort port then None
              else if front = literal then unescape InHost host
              else (case (unescape InHost front, unescape InZone (drop (length front) literal), unescape InHost (CHR '']'' # port)) of
                  (Some h1, Some h2, Some h3) \<Rightarrow> Some (h1 @ h2 @ h3)
                | _ \<Rightarrow> None)))
      else if CHR '':'' \<in> set host \<and> \<not> list_all is_digit (snd (cut_last (CHR '':'') host)) then None
      else unescape InHost host)"

definition userinfo_char :: "char \<Rightarrow> bool" where
  "userinfo_char c \<longleftrightarrow> unreserved c \<or> c \<in> set (CHR 0x27 # '':!$&()*+,;=%@'')"

definition parseAuthority :: "string \<Rightarrow> (bool \<times> string) option" where
  "parseAuthority authority =
     (if CHR ''@'' \<notin> set authority then map_option (Pair False) (parseHost authority)
      else
       (let (userinfo, host) = cut_last (CHR ''@'') authority
        in case parseHost host of
             None \<Rightarrow> None
           | Some h \<Rightarrow> if list_all userinfo_char userinfo \<and> unescape InPath userinfo \<noteq> None then Some (True, h) else None))"

definition parse_query :: "string \<Rightarrow> string \<times> bool \<times> string" where
  "parse_query rest =
     (if rest \<noteq> [] \<and> last rest = CHR ''?'' \<and> CHR ''?'' \<notin> set (butlast rest) then (butlast rest, True, [])
      else (fst (cut_at (CHR ''?'') rest), False, snd (cut_at (CHR ''?'') rest)))"

definition empty_url :: url where
  "empty_url = \<lparr>u_Scheme = [], u_Opaque = [], u_User = False, u_Host = [], u_Path = [], u_ForceQuery = False,
     u_RawQuery = [], u_Fragment = [], u_OmitHost = False, u_RawPath = []\<rparr>"

text \<open>The path as it was written is kept when it is not what escaping the decoded path gives.\<close>

definition raw_path :: "string \<Rightarrow> string \<Rightarrow> string" where
  "raw_path written p = (if written = escape_with path_char p then [] else written)"

definition parse_rest :: "url \<Rightarrow> string \<Rightarrow> url option" where
  "parse_rest u rest =
     (if \<not> has_prefix rest ''/'' \<and> u_Scheme u \<noteq> [] then Some (u\<lparr>u_Opaque := rest\<rparr>)
      else if \<not> has_prefix rest ''/'' \<and> CHR '':'' \<in> set (fst (cut_at (CHR ''/'') rest)) then None
      else if (u_Scheme u \<noteq> [] \<or> \<not> has_prefix rest ''///'') \<and> has_prefix rest ''//'' then
       (let authority = takeWhile (\<lambda>c. c \<noteq> CHR ''/'') (drop 2 rest);
            path = dropWhile (\<lambda>c. c \<noteq> CHR ''/'') (drop 2 rest)
        in case parseAuthority authority of
             None \<Rightarrow> None
           | Some (user, host) \<Rightarrow>
               map_option (\<lambda>p. u\<lparr>u_User := user, u_Host := host, u_Path := p, u_RawPath := raw_path path p\<rparr>) (unescape InPath path))
      else map_option (\<lambda>p. u\<lparr>u_OmitHost := (u_Scheme u \<noteq> [] \<and> has_prefix rest ''/''), u_Path := p, u_RawPath := raw_path rest p\<rparr>) (unescape InPath rest))"

definition url_Parse :: "string \<Rightarrow> url option" where
  "url_Parse raw =
     (let (u, frag) = cut_at (CHR ''#'') raw
      in if list_ex (\<lambda>c. byte c < 32 \<or> byte c = 127) u then None
         else if u = ''*'' then map_option (\<lambda>f. empty_url\<lparr>u_Path := ''*'', u_Fragment := f\<rparr>) (unescape InPath frag)
         else (case getScheme u of
             None \<Rightarrow> None
           | Some (scheme, rest0) \<Rightarrow>
               (let (rest, force, query) = parse_query rest0
                in case parse_rest (empty_url\<lparr>u_Scheme := to_lower scheme, u_ForceQuery := force, u_RawQuery := query\<rparr>) rest of
                     None \<Rightarrow> None
                   | Some parsed \<Rightarrow> map_option (\<lambda>f. parsed\<lparr>u_Fragment := f\<rparr>) (unescape InPath frag))))"

text \<open>\<open>strings.TrimSuffix\<close>, the suffix first.\<close>

definition trim_suffix :: "string \<Rightarrow> string \<Rightarrow> string" where
  "trim_suffix suffix s =
     (if length suffix \<le> length s \<and> drop (length s - length suffix) s = suffix then take (length s - length suffix) s else s)"

subsection \<open>Host and port\<close>

definition Hostname :: "url \<Rightarrow> string" where
  "Hostname u =
     (let h = u_Host u
      in if has_prefix h ''['' \<and> CHR '']'' \<in> set h then takeWhile (\<lambda>c. c \<noteq> CHR '']'') (drop 1 h)
         else if CHR '':'' \<in> set h \<and> validOptionalPort (CHR '':'' # snd (cut_last (CHR '':'') h)) then fst (cut_last (CHR '':'') h)
         else h)"

definition Port :: "url \<Rightarrow> string" where
  "Port u =
     (let h = u_Host u
      in if has_prefix h ''['' \<and> CHR '']'' \<in> set h then
           drop 1 (snd (cut_last (CHR '']'') h))
         else if CHR '':'' \<in> set h \<and> validOptionalPort (CHR '':'' # snd (cut_last (CHR '':'') h)) then snd (cut_last (CHR '':'') h)
         else [])"

text \<open>\<open>URL.String\<close> of a URL with a scheme and a host, no opaque part, user, query or fragment.\<close>

definition origin_text :: "url \<Rightarrow> string" where
  "origin_text u = u_Scheme u @ ''://'' @ escape_with (\<lambda>c. host_char c) (u_Host u) @ escape_with path_char (u_Path u)"

text \<open>\<open>EscapedPath\<close>: the path as it was written, when it still is a valid writing of the path.\<close>

definition valid_raw :: "char \<Rightarrow> bool" where
  "valid_raw c \<longleftrightarrow> path_char c \<or> c \<in> set (CHR 0x27 # ''!()*[]%'')"

definition EscapedPath :: "url \<Rightarrow> string" where
  "EscapedPath u =
     (if u_RawPath u \<noteq> [] \<and> list_all valid_raw (u_RawPath u) \<and> unescape InPath (u_RawPath u) = Some (u_Path u) then u_RawPath u
      else if u_Path u = ''*'' then ''*''
      else escape_with path_char (u_Path u))"

text \<open>\<open>URL.String\<close> of a URL with a scheme and a host, no opaque part, user or fragment.\<close>

definition url_String :: "url \<Rightarrow> string" where
  "url_String u =
     (let path = EscapedPath u
      in u_Scheme u @ ''://'' @ escape_with host_char (u_Host u)
         @ (if path \<noteq> [] \<and> hd path \<noteq> CHR ''/'' then ''/'' else []) @ path
         @ (if u_ForceQuery u \<or> u_RawQuery u \<noteq> [] then ''?'' @ u_RawQuery u else []))"

subsection \<open>Queries\<close>

definition QueryEscape :: "string \<Rightarrow> string" where
  "QueryEscape s = map (\<lambda>c. if c = CHR '' '' then CHR ''+'' else c) (escape_with (\<lambda>c. unreserved c \<or> c = CHR '' '') s)"

definition QueryUnescape :: "string \<Rightarrow> string option" where
  "QueryUnescape s = unescape InPath (map (\<lambda>c. if c = CHR ''+'' then CHR '' '' else c) s)"

text \<open>\<open>url.Values\<close>: the values of each key, the keys in the order of their first occurrence.\<close>

type_synonym url_values = "(string \<times> string list) list"

definition values_add :: "string \<Rightarrow> string \<Rightarrow> url_values \<Rightarrow> url_values" where
  "values_add k v m =
     (if k \<in> fst ` set m then map (\<lambda>(a, vs). if a = k then (a, vs @ [v]) else (a, vs)) m else m @ [(k, [v])])"

definition values_set :: "string \<Rightarrow> string \<Rightarrow> url_values \<Rightarrow> url_values" where
  "values_set k v m =
     (if k \<in> fst ` set m then map (\<lambda>(a, vs). if a = k then (a, [v]) else (a, vs)) m else m @ [(k, [v])])"

text \<open>\<open>URL.Query\<close>: pairs with a semicolon or a bad escape are left out.\<close>

fun query_pairs :: "string list \<Rightarrow> url_values \<Rightarrow> url_values" where
  "query_pairs [] m = m"
| "query_pairs (pair # pairs) m =
     (if pair = [] \<or> CHR '';'' \<in> set pair then query_pairs pairs m
      else case (QueryUnescape (fst (cut_at (CHR ''='') pair)), QueryUnescape (snd (cut_at (CHR ''='') pair))) of
          (Some k, Some v) \<Rightarrow> query_pairs pairs (values_add k v m)
        | _ \<Rightarrow> query_pairs pairs m)"

definition Query :: "url \<Rightarrow> url_values" where
  "Query u = query_pairs (split_on (CHR ''&'') (u_RawQuery u)) []"

definition Encode :: "url_values \<Rightarrow> string" where
  "Encode m = join_with ''&'' (concat (map (\<lambda>(k, vs). map (\<lambda>v. QueryEscape k @ ''='' @ QueryEscape v) vs) (sort_key fst m)))"

subsection \<open>Lower case\<close>

text \<open>
  \<open>strings.ToLower\<close> as far as its results can equal or match anything in ASCII: of the characters
  beyond ASCII only the Kelvin sign and the dotted capital I have an ASCII lower case; the
  others are left as they are, and are beyond ASCII either way.
\<close>

definition ToLower :: "string \<Rightarrow> string" where
  "ToLower s = concat (map (\<lambda>r.
     if 65 \<le> fst r \<and> fst r \<le> 90 then [char_of (fst r + 32)]
     else if fst r = 8490 then ''k'' else if fst r = 304 then ''i'' else snd r) (runes s))"

end
