(* ===== verification/Managed_State.thy ===== *)
theory Managed_State
  imports Controller_Facts GoURL
begin

section \<open>The enrollment state of an agent (internal/managed/state.go, policy_lock_unix.go)\<close>

text \<open>
  Validation of the enrollment state and of the controller's URL, the private files an agent
  keeps, and how they are read and replaced. A file is its metadata and the JSON values found
  in it; reading goes through the answers of \<open>Lstat\<close>, \<open>Open\<close> and \<open>Stat\<close> (\<open>file_calls\<close>), writing
  through the outcomes of the system calls (\<open>io_calls\<close>, \<open>True\<close> for success): a temporary file
  is written, then linked or renamed over the destination, then the directory is synced, so
  that a failure leaves the old file or, after the rename, the new one.
\<close>

definition StateSchema :: string where "StateSchema = ''io.oh-my-safety/managed-enrollment''"
definition StateSchemaVersion :: int where "StateSchemaVersion = 1"
definition maxStateBytes :: int where "maxStateBytes = 32768"

record EnrollmentState =
  es_Schema :: string
  es_SchemaVersion :: int
  es_ControllerURL :: string
  es_DeviceID :: string
  es_DeviceCredential :: string
  es_PolicyPublicKey :: string
  es_EnrolledAt :: gotime

subsection \<open>Validation\<close>

definition loopbackHostname :: "string \<Rightarrow> bool" where
  "loopbackHostname host \<longleftrightarrow>
     key_is host ''localhost'' \<or> (case ParseIP host of None \<Rightarrow> False | Some address \<Rightarrow> IsLoopback address)"

definition validateControllerURL :: "string \<Rightarrow> string result" where
  "validateControllerURL raw =
     (if TrimSpace raw \<noteq> raw \<or> raw = [] then Inl (New ''controller URL is required'')
      else (case url_Parse raw of
          None \<Rightarrow> Inl (New ''controller URL must be an origin without credentials, query, or path'')
        | Some parsed \<Rightarrow>
            if u_Host parsed = [] \<or> u_User parsed \<or> u_RawQuery parsed \<noteq> [] \<or> u_Fragment parsed \<noteq> []
               \<or> (u_Path parsed \<noteq> [] \<and> u_Path parsed \<noteq> ''/'')
            then Inl (New ''controller URL must be an origin without credentials, query, or path'')
            else if u_Scheme parsed = ''http'' \<and> \<not> loopbackHostname (Hostname parsed)
            then Inl (New ''HTTP controller URLs are allowed only for loopback hosts'')
            else if u_Scheme parsed \<noteq> ''https'' \<and> u_Scheme parsed \<noteq> ''http''
            then Inl (New ''controller URL must use HTTPS'')
            else if Port parsed = [] \<and> u_Scheme parsed \<noteq> ''https''
            then Inl (New ''loopback HTTP controller URL must include a port'')
            else Inr (trim_suffix ''/'' (origin_text (parsed\<lparr>u_Path := []\<rparr>) @ (if u_ForceQuery parsed then ''?'' else [])))))"

definition decodePublicKey :: "string \<Rightarrow> 8 word list result" where
  "decodePublicKey encoded =
     (case base64_decode std_alphabet encoded of
        None \<Rightarrow> Inl (New ''policy public key must be raw-base64 Ed25519 key material'')
      | Some decoded \<Rightarrow>
          if length decoded \<noteq> 32 then Inl (New ''policy public key must be raw-base64 Ed25519 key material'')
          else if base64_encode std_alphabet decoded \<noteq> encoded
          then Inl (New ''policy public key is not canonical raw base64'')
          else Inr decoded)"

definition safeIdentifier :: "string \<Rightarrow> nat \<Rightarrow> bool" where
  "safeIdentifier value maximum \<longleftrightarrow> value \<noteq> [] \<and> length value \<le> maximum
     \<and> all_runes (\<lambda>r. (97 \<le> r \<and> r \<le> 122) \<or> (65 \<le> r \<and> r \<le> 90) \<or> (48 \<le> r \<and> r \<le> 57)
         \<or> r = 46 \<or> r = 95 \<or> r = 45) value"

definition safeCredential :: "string \<Rightarrow> bool" where
  "safeCredential value \<longleftrightarrow> 32 \<le> length value \<and> length value \<le> 512
     \<and> all_runes (\<lambda>r. \<not> (IsSpace r \<or> IsControl r)) value"

definition EnrollmentState_Validate :: "EnrollmentState \<Rightarrow> go_error option" where
  "EnrollmentState_Validate state = first_error
    [(es_Schema state \<noteq> StateSchema \<or> es_SchemaVersion state \<noteq> StateSchemaVersion,
        New ''unsupported managed enrollment state schema''),
     (validateControllerURL (es_ControllerURL state) \<noteq> Inr (es_ControllerURL state),
        New ''managed enrollment state has an invalid controller URL''),
     (\<not> safeIdentifier (es_DeviceID state) 128, New ''managed enrollment state has an invalid device id''),
     (\<not> safeCredential (es_DeviceCredential state), New ''managed enrollment state has an invalid device credential''),
     (isl (decodePublicKey (es_PolicyPublicKey state)), New ''managed enrollment state has an invalid policy public key''),
     (IsZero (es_EnrolledAt state), New ''managed enrollment state has no enrollment timestamp'')]"

subsection \<open>JSON\<close>

definition EnrollmentState_fields :: "EnrollmentState fields" where
  "EnrollmentState_fields =
    [(''schema'', fld es_Schema (\<lambda>x s. s\<lparr>es_Schema := x\<rparr>) dec_string),
     (''schema_version'', fld es_SchemaVersion (\<lambda>x s. s\<lparr>es_SchemaVersion := x\<rparr>) dec_int64),
     (''controller_url'', fld es_ControllerURL (\<lambda>x s. s\<lparr>es_ControllerURL := x\<rparr>) dec_string),
     (''device_id'', fld es_DeviceID (\<lambda>x s. s\<lparr>es_DeviceID := x\<rparr>) dec_string),
     (''device_credential'', fld es_DeviceCredential (\<lambda>x s. s\<lparr>es_DeviceCredential := x\<rparr>) dec_string),
     (''policy_public_key'', fld es_PolicyPublicKey (\<lambda>x s. s\<lparr>es_PolicyPublicKey := x\<rparr>) dec_string),
     (''enrolled_at'', fld es_EnrolledAt (\<lambda>x s. s\<lparr>es_EnrolledAt := x\<rparr>) dec_time)]"

definition zero_EnrollmentState :: EnrollmentState where
  "zero_EnrollmentState = \<lparr>es_Schema = [], es_SchemaVersion = 0, es_ControllerURL = [], es_DeviceID = [],
     es_DeviceCredential = [], es_PolicyPublicKey = [], es_EnrolledAt = zero_time\<rparr>"

definition EnrollmentState_json :: "EnrollmentState \<Rightarrow> json option" where
  "EnrollmentState_json s =
     (if json_time (es_EnrolledAt s) then Some (JObj
       [(''schema'', jstr (es_Schema s)), (''schema_version'', jint (es_SchemaVersion s)),
        (''controller_url'', jstr (es_ControllerURL s)), (''device_id'', jstr (es_DeviceID s)),
        (''device_credential'', jstr (es_DeviceCredential s)), (''policy_public_key'', jstr (es_PolicyPublicKey s)),
        (''enrolled_at'', jtime (es_EnrolledAt s))]) else None)"

definition SignedPolicy_fields :: "SignedPolicy fields" where
  "SignedPolicy_fields =
    [(''schema'', fld sp_Schema (\<lambda>x s. s\<lparr>sp_Schema := x\<rparr>) dec_string),
     (''schema_version'', fld sp_SchemaVersion (\<lambda>x s. s\<lparr>sp_SchemaVersion := x\<rparr>) dec_int64),
     (''document'', fld sp_Document (\<lambda>x s. s\<lparr>sp_Document := x\<rparr>) (dec_PolicyDocument True)),
     (''algorithm'', fld sp_Algorithm (\<lambda>x s. s\<lparr>sp_Algorithm := x\<rparr>) dec_string),
     (''signing_public_key'', fld sp_SigningPublicKey (\<lambda>x s. s\<lparr>sp_SigningPublicKey := x\<rparr>) dec_string),
     (''signature'', fld sp_Signature (\<lambda>x s. s\<lparr>sp_Signature := x\<rparr>) dec_string)]"

definition zero_SignedPolicy :: SignedPolicy where
  "zero_SignedPolicy = \<lparr>sp_Schema = [], sp_SchemaVersion = 0, sp_Document = zero_PolicyDocument, sp_Algorithm = [],
     sp_SigningPublicKey = [], sp_Signature = []\<rparr>"

text \<open>\<open>decodeStrict\<close> is the controller's \<open>decodeStrictReader\<close>.\<close>

definition decodeStrict :: "(json \<Rightarrow> 'a \<Rightarrow> 'a option) \<Rightarrow> 'a \<Rightarrow> json_stream \<Rightarrow> 'a result" where
  "decodeStrict dec zero stream =
     (case stream of
        [] \<Rightarrow> Inl io_EOF
      | None # _ \<Rightarrow> Inl json_syntax
      | Some j # rest \<Rightarrow>
          (case dec j zero of
             None \<Rightarrow> Inl (New ''json: cannot unmarshal'')
           | Some x \<Rightarrow>
               (case rest of
                  [] \<Rightarrow> Inr x
                | Some _ # _ \<Rightarrow> Inl (New ''multiple JSON values are not allowed'')
                | None # _ \<Rightarrow> Inl json_syntax)))"

subsection \<open>Private files\<close>

definition ErrNotExist :: go_error where "ErrNotExist = New ''file does not exist''"

record stored_file =
  sf_info :: file_info
  sf_stream :: json_stream

definition calls_of :: "stored_file option \<Rightarrow> file_calls" where
  "calls_of f =
     (case f of
        None \<Rightarrow> \<lparr>fc_lstat = Inl ErrNotExist, fc_open = Some ErrNotExist, fc_stat = Inl ErrNotExist, fc_content = []\<rparr>
      | Some s \<Rightarrow> \<lparr>fc_lstat = Inr (sf_info s), fc_open = None, fc_stat = Inr (sf_info s), fc_content = sf_stream s\<rparr>)"

text \<open>What the program writes: a private file with one JSON text and a newline.\<close>

definition written :: "json \<Rightarrow> stored_file" where
  "written j = \<lparr>sf_info = \<lparr>fin_regular = True, fin_perm = 384, fin_size = int (length (json_text j)) + 1, fin_inode = 0\<rparr>,
     sf_stream = [Some j]\<rparr>"

definition LoadState :: "string \<Rightarrow> file_calls \<Rightarrow> EnrollmentState result" where
  "LoadState path calls =
     (if blank path then Inl (New ''managed enrollment state path is required'')
      else (case fc_lstat calls of
          Inl err \<Rightarrow> Inl (Wrap ''inspect managed enrollment state: %w'' err)
        | Inr initialInfo \<Rightarrow>
      if \<not> private_file initialInfo
      then Inl (New ''managed enrollment state must be a regular non-symlink mode-600 file'')
      else if fc_open calls \<noteq> None then Inl (New ''open managed enrollment state'')
      else (case fc_stat calls of
          Inl _ \<Rightarrow> Inl (New ''inspect opened managed enrollment state'')
        | Inr openedInfo \<Rightarrow>
      if \<not> private_file openedInfo \<or> fin_inode initialInfo \<noteq> fin_inode openedInfo
      then Inl (New ''managed enrollment state changed while opening it'')
      else if fin_size openedInfo > maxStateBytes then Inl (New ''managed enrollment state exceeds its size limit'')
      else (case decodeStrict (dec_record True EnrollmentState_fields) zero_EnrollmentState (fc_content calls) of
          Inl _ \<Rightarrow> Inl (New ''decode managed enrollment state'')
        | Inr state \<Rightarrow>
            (case EnrollmentState_Validate state of Some err \<Rightarrow> Inl err | None \<Rightarrow> Inr state)))))"

subsection \<open>Directories and writes\<close>

datatype 'a lstat = NotExist | LstatFailed | Found 'a

record dir_info =
  di_is_dir :: bool
  di_symlink :: bool
  di_perm :: nat

record dir_calls =
  dc_lstat :: "dir_info lstat"
  dc_mkdir :: bool
  dc_chmod :: bool
  dc_lstat_again :: "dir_info lstat"

definition private_directory :: "dir_info lstat \<Rightarrow> go_error option" where
  "private_directory answer =
     (case answer of
        Found info \<Rightarrow>
          if \<not> di_is_dir info \<or> di_symlink info then Some (New ''managed state parent must be a non-symlink directory'')
          else if di_perm info mod 64 \<noteq> 0
          then Some (New ''managed state parent must not be accessible by group or other'')
          else None
      | _ \<Rightarrow> Some (New ''managed state parent must be a non-symlink directory''))"

definition ensurePrivateStateDirectory :: "dir_calls \<Rightarrow> go_error option" where
  "ensurePrivateStateDirectory calls =
     (case dc_lstat calls of
        NotExist \<Rightarrow>
          if \<not> dc_mkdir calls then Some (New ''create managed state directory'')
          else if \<not> dc_chmod calls then Some (New ''restrict managed state directory'')
          else private_directory (dc_lstat_again calls)
      | LstatFailed \<Rightarrow> Some (New ''inspect managed state directory'')
      | Found info \<Rightarrow> private_directory (Found info))"

record io_calls =
  io_create :: bool
  io_chmod :: bool
  io_write :: bool
  io_sync :: bool
  io_close :: bool
  io_lstat :: bool
  io_install :: bool
  io_opendir :: bool
  io_syncdir :: bool

definition writeTemporaryState :: "io_calls \<Rightarrow> EnrollmentState \<Rightarrow> json result" where
  "writeTemporaryState calls state =
     (case EnrollmentState_json state of
        None \<Rightarrow> Inl (New ''encode managed enrollment state'')
      | Some encoded \<Rightarrow>
          if int (length (json_text encoded)) > maxStateBytes then Inl (New ''managed enrollment state exceeds its size limit'')
          else if \<not> io_create calls then Inl (New ''create temporary managed enrollment state'')
          else if \<not> io_chmod calls then Inl (New ''restrict temporary managed enrollment state'')
          else if \<not> io_write calls then Inl (New ''write managed enrollment state'')
          else if \<not> io_sync calls then Inl (New ''sync managed enrollment state'')
          else if \<not> io_close calls then Inl (New ''close managed enrollment state'')
          else Inr encoded)"

definition syncDirectory :: "io_calls \<Rightarrow> go_error option" where
  "syncDirectory calls =
     (if \<not> io_opendir calls then Some (New ''open managed state directory for sync'')
      else if \<not> io_syncdir calls then Some (New ''sync managed state directory'')
      else None)"

text \<open>The destination may also appear between the check and the link; \<open>io_install\<close> is then false.\<close>

definition createState ::
  "dir_calls \<Rightarrow> io_calls \<Rightarrow> bool \<Rightarrow> stored_file option \<Rightarrow> EnrollmentState \<Rightarrow> go_error option \<times> stored_file option" where
  "createState dcalls calls appeared file state =
     (case EnrollmentState_Validate state of
        Some err \<Rightarrow> (Some err, file)
      | None \<Rightarrow>
     if \<not> io_lstat calls then (Some (New ''inspect managed enrollment state destination''), file)
     else if file \<noteq> None then (Some (New ''managed enrollment state already exists''), file)
     else (case ensurePrivateStateDirectory dcalls of
        Some err \<Rightarrow> (Some err, file)
      | None \<Rightarrow>
     (case writeTemporaryState calls state of
        Inl err \<Rightarrow> (Some err, file)
      | Inr encoded \<Rightarrow>
          if \<not> io_install calls
          then (Some (New (if appeared then ''managed enrollment state already exists'' else ''install managed enrollment state'')), file)
          else (syncDirectory calls, Some (written encoded)))))"

definition replaceState ::
  "dir_calls \<Rightarrow> io_calls \<Rightarrow> stored_file option \<Rightarrow> EnrollmentState \<Rightarrow> go_error option \<times> stored_file option" where
  "replaceState dcalls calls file state =
     (case EnrollmentState_Validate state of
        Some err \<Rightarrow> (Some err, file)
      | None \<Rightarrow>
     (case (if io_lstat calls then file else None) of
        None \<Rightarrow> (Some (New ''inspect managed enrollment state before update''), file)
      | Some current \<Rightarrow>
     if \<not> private_file (sf_info current)
     then (Some (New ''managed enrollment state must be a regular non-symlink mode-600 file''), file)
     else (case ensurePrivateStateDirectory dcalls of
        Some err \<Rightarrow> (Some err, file)
      | None \<Rightarrow>
     (case writeTemporaryState calls state of
        Inl err \<Rightarrow> (Some err, file)
      | Inr encoded \<Rightarrow>
          if \<not> io_install calls then (Some (New ''replace managed enrollment state''), file)
          else (syncDirectory calls, Some (written encoded))))))"

subsection \<open>The lock of the policy files\<close>

record lock_calls =
  lk_open :: bool
  lk_newfile :: bool
  lk_stat :: "file_info result"
  lk_lstat :: "file_info result"
  lk_flock :: bool

definition acquirePolicyWriteLock :: "lock_calls \<Rightarrow> go_error option" where
  "acquirePolicyWriteLock calls =
     (if \<not> lk_open calls \<or> \<not> lk_newfile calls then Some (New ''open managed policy lock'')
      else (case lk_stat calls of
          Inl _ \<Rightarrow> Some (New ''inspect managed policy lock'')
        | Inr openedInfo \<Rightarrow>
      (case lk_lstat calls of
          Inl _ \<Rightarrow> Some (New ''managed policy lock is unsafe'')
        | Inr pathInfo \<Rightarrow>
            if \<not> private_file openedInfo \<or> \<not> private_file pathInfo \<or> fin_inode openedInfo \<noteq> fin_inode pathInfo
            then Some (New ''managed policy lock is unsafe'')
            else if \<not> lk_flock calls then Some (New ''another managed policy update is in progress'')
            else None)))"

end
