(* ===== verification/GoFile.thy ===== *)
theory GoFile
  imports GoURL GoJson
begin

section \<open>Files and paths (packages os, io/fs, path/filepath)\<close>

text \<open>
  The Unix side of the standard library that the scanners use: lexical paths, file modes, \<open>filepath.WalkDir\<close>
  over what the file system answers, and reads of an open file. What the file system answers is data: a
  \<open>file_tree\<close> for a walk, an \<open>opened\<close> for an open file.
\<close>

subsection \<open>Paths\<close>

definition filepath_Dir :: "string \<Rightarrow> string" where
  "filepath_Dir p = path_Clean (take (length p - length (takeWhile (\<lambda>c. c \<noteq> CHR ''/'') (rev p))) p)"

text \<open>\<open>filepath.Join\<close> of two elements that are not empty.\<close>

definition filepath_Join :: "string \<Rightarrow> string \<Rightarrow> string" where
  "filepath_Join a b = path_Clean (a @ ''/'' @ b)"

definition IsAbs :: "string \<Rightarrow> bool" where
  "IsAbs p \<longleftrightarrow> has_prefix p ''/''"

text \<open>\<open>filepath.Abs\<close>, with what \<open>os.Getwd\<close> gives.\<close>

definition filepath_Abs :: "string result \<Rightarrow> string \<Rightarrow> string result" where
  "filepath_Abs cwd p = (if IsAbs p then Inr (path_Clean p) else map_sum id (\<lambda>d. path_Clean (d @ ''/'' @ p)) cwd)"

definition filepath_Base :: "string \<Rightarrow> string" where
  "filepath_Base p =
     (if p = [] then ''.''
      else let q = rev (dropWhile (\<lambda>c. c = CHR ''/'') (rev p));
               b = rev (takeWhile (\<lambda>c. c \<noteq> CHR ''/'') (rev q))
           in if b = [] then ''/'' else b)"

text \<open>The elements of a clean path; the root has the empty one.\<close>

definition path_elements :: "string \<Rightarrow> string list" where
  "path_elements p =
     (if p = ''.'' then [] else if p = ''/'' then [[]] else split_on (CHR ''/'') p)"

fun strip_common :: "string list \<Rightarrow> string list \<Rightarrow> string list \<times> string list" where
  "strip_common (b # bs) (t # ts) = (if b = t then strip_common bs ts else (b # bs, t # ts))"
| "strip_common bs ts = (bs, ts)"

text \<open>\<open>filepath.Rel\<close>.\<close>

definition filepath_Rel :: "string \<Rightarrow> string \<Rightarrow> string result" where
  "filepath_Rel base targ =
     (let b = path_Clean base; t = path_Clean targ;
          impossible = Inl (New (''Rel: can't make '' @ targ @ '' relative to '' @ base))
      in if b = t then Inr ''.''
         else if IsAbs b \<noteq> IsAbs t then impossible
         else (case strip_common (path_elements b) (path_elements t) of
             (bs, ts) \<Rightarrow>
               if bs \<noteq> [] \<and> hd bs = ''..'' then impossible
               else Inr (join_with ''/'' (replicate (length bs) ''..'' @ (if t = ''.'' then [] else ts)))))"

subsection \<open>Lower case comparison\<close>

text \<open>\<open>strings.EqualFold\<close> with an ASCII word is the comparison that \<open>encoding/json\<close> uses for member names.\<close>

definition EqualFold :: "string \<Rightarrow> string \<Rightarrow> bool" where
  "EqualFold = key_is"

subsection \<open>File modes\<close>

unbundle bit_operations_syntax

type_synonym FileMode = "32 word"

definition ModeDir :: FileMode where "ModeDir = 0x80000000"
definition ModeSymlink :: FileMode where "ModeSymlink = 0x08000000"
definition ModeDevice :: FileMode where "ModeDevice = 0x04000000"
definition ModeNamedPipe :: FileMode where "ModeNamedPipe = 0x02000000"
definition ModeSocket :: FileMode where "ModeSocket = 0x01000000"
definition ModeSetuid :: FileMode where "ModeSetuid = 0x00800000"
definition ModeSetgid :: FileMode where "ModeSetgid = 0x00400000"
definition ModeCharDevice :: FileMode where "ModeCharDevice = 0x00200000"
definition ModeSticky :: FileMode where "ModeSticky = 0x00100000"
definition ModeIrregular :: FileMode where "ModeIrregular = 0x00080000"

text \<open>Whether the mode has one of the bits.\<close>

definition has_mode :: "FileMode \<Rightarrow> FileMode \<Rightarrow> bool" where
  "has_mode m bits \<longleftrightarrow> m AND bits \<noteq> 0"

definition mode_IsDir :: "FileMode \<Rightarrow> bool" where
  "mode_IsDir m \<longleftrightarrow> has_mode m ModeDir"

definition mode_IsRegular :: "FileMode \<Rightarrow> bool" where
  "mode_IsRegular m \<longleftrightarrow>
     \<not> has_mode m (ModeDir OR ModeSymlink OR ModeNamedPipe OR ModeSocket OR ModeDevice OR ModeCharDevice OR ModeIrregular)"

definition mode_Perm :: "FileMode \<Rightarrow> 32 word" where
  "mode_Perm m = m AND 0x1FF"

text \<open>A \<open>FileInfo\<close>: the mode, the size, which file it is (\<open>os.SameFile\<close>) and its owner where the system tells.\<close>

record FileInfo =
  fi_Mode :: FileMode
  fi_Size :: int
  fi_file :: nat
  fi_owner :: "(32 word \<times> 32 word) option"

definition SameFile :: "FileInfo \<Rightarrow> FileInfo \<Rightarrow> bool" where
  "SameFile a b \<longleftrightarrow> fi_file a = fi_file b"

subsection \<open>filepath.WalkDir\<close>

text \<open>
  What the file system answers in a walk: the type of an entry, the entries \<open>os.ReadDir\<close> gives for it, in the order of
  their names, and the error it gives. The callback gets the path, the type (\<open>None\<close> for the nil entry of a
  root that cannot be inspected) and the error, and threads its state.
\<close>

datatype file_tree = Entry (entry_name: string) (entry_type: FileMode) (entry_children: "file_tree list") (entry_error: "go_error option")

type_synonym 's walk_fn = "string \<Rightarrow> FileMode option \<Rightarrow> go_error option \<Rightarrow> 's \<Rightarrow> 's \<times> go_error option"

definition SkipDir :: go_error where "SkipDir = New ''skip this directory''"
definition SkipAll :: go_error where "SkipAll = New ''skip everything and stop the walk''"

text \<open>\<open>SkipDir\<close> from the callback for a directory ends that directory only.\<close>

definition skip_dir :: "bool \<Rightarrow> go_error option \<Rightarrow> go_error option" where
  "skip_dir is_dir e = (if e = Some SkipDir \<and> is_dir then None else e)"

fun walk_dir :: "'s walk_fn \<Rightarrow> string \<Rightarrow> file_tree \<Rightarrow> 's \<Rightarrow> 's \<times> go_error option"
  and walk_entries :: "'s walk_fn \<Rightarrow> string \<Rightarrow> file_tree list \<Rightarrow> 's \<Rightarrow> 's \<times> go_error option" where
  "walk_dir fn path (Entry name type children err) st =
     (case fn path (Some type) None st of
        (st, e) \<Rightarrow>
          if e \<noteq> None \<or> \<not> mode_IsDir type then (st, skip_dir (mode_IsDir type) e)
          else (case err of
              None \<Rightarrow> walk_entries fn path children st
            | Some readErr \<Rightarrow>
                (case fn path (Some type) (Some readErr) st of
                   (st, e) \<Rightarrow> if e \<noteq> None then (st, skip_dir (mode_IsDir type) e) else walk_entries fn path children st)))"
| "walk_entries fn path [] st = (st, None)"
| "walk_entries fn path (c # cs) st =
     (case walk_dir fn (filepath_Join path (entry_name c)) c st of
        (st, e) \<Rightarrow> if e = Some SkipDir then (st, None) else if e \<noteq> None then (st, e) else walk_entries fn path cs st)"

definition WalkDir :: "'s walk_fn \<Rightarrow> string \<Rightarrow> file_tree result \<Rightarrow> 's \<Rightarrow> 's \<times> go_error option" where
  "WalkDir fn root answer st =
     (case (case answer of
          Inl err \<Rightarrow> fn root None (Some err) st
        | Inr tree \<Rightarrow> walk_dir fn root tree st) of
        (st, e) \<Rightarrow> (st, if e = Some SkipDir \<or> e = Some SkipAll then None else e))"

subsection \<open>Reading an open file\<close>

text \<open>
  One step of a read loop: what \<open>ctx.Err\<close> says before it and what \<open>Read\<close> gives, bytes and an error (\<open>io.EOF\<close> is one). A read
  fills at most the buffer it is given. After the listed reads the file has ended. \<open>op_at_limit\<close> is
  what \<open>Stat\<close> says at the limit, \<open>op_current\<close> what it says after the loop.
\<close>

definition io_EOF :: go_error where "io_EOF = New ''EOF''"

record read_step =
  rd_ctx :: "go_error option"
  rd_bytes :: string
  rd_error :: "go_error option"

record opened =
  op_stat :: "FileInfo result"
  op_reads :: "read_step list"
  op_at_limit :: "FileInfo result"
  op_current :: "FileInfo result"

datatype read_end = ReadFailed go_error | ReadLimit | ReadEOF

text \<open>
  The loop of both scanners: read into a buffer of that size until the end or until \<open>limit\<close> bytes are read. An
  error of \<open>Read\<close> is wrapped.
\<close>

definition read_size :: "int \<Rightarrow> int \<Rightarrow> string \<Rightarrow> nat" where
  "read_size buffer limit acc = nat (min buffer (limit - int (length acc)))"

fun read_loop :: "(go_error \<Rightarrow> go_error) \<Rightarrow> int \<Rightarrow> int \<Rightarrow> read_step list \<Rightarrow> string \<Rightarrow> string \<times> read_end" where
  "read_loop wrap buffer limit [] acc = (acc, if limit - int (length acc) \<le> 0 then ReadLimit else ReadEOF)"
| "read_loop wrap buffer limit (r # rs) acc =
     (case rd_ctx r of
        Some err \<Rightarrow> (acc, ReadFailed err)
      | None \<Rightarrow>
          if limit - int (length acc) \<le> 0 then (acc, ReadLimit)
          else (let acc' = acc @ take (read_size buffer limit acc) (rd_bytes r)
            in case rd_error r of
                 None \<Rightarrow> read_loop wrap buffer limit rs acc'
               | Some err \<Rightarrow> (acc', if errors_Is err io_EOF then ReadEOF else ReadFailed (wrap err))))"

lemma read_loop_bound: "int (length acc) \<le> limit \<Longrightarrow> read_loop wrap buffer limit rs acc = (s, e) \<Longrightarrow> int (length s) \<le> limit"
proof (induction rs arbitrary: acc)
  case (Cons r rs)
  have room: "int (length (acc @ take (read_size buffer limit acc) (rd_bytes r))) \<le> limit"
    using Cons.prems(1) by (simp add: read_size_def)
  with Cons.prems Cons.IH [OF room] show ?case by (auto simp: Let_def split: option.splits if_splits)
qed (auto split: if_splits)

text \<open>Reads that nothing disturbs, into a buffer of that size, give the whole content up to the limit.\<close>

definition untroubled :: "int \<Rightarrow> read_step list \<Rightarrow> bool" where
  "untroubled buffer rs \<longleftrightarrow> list_all (\<lambda>r. rd_ctx r = None \<and> rd_error r = None \<and> int (length (rd_bytes r)) \<le> buffer) rs"

lemma untroubled_simps [simp]:
  "untroubled buffer []"
  "untroubled buffer (r # rs) \<longleftrightarrow> rd_ctx r = None \<and> rd_error r = None \<and> int (length (rd_bytes r)) \<le> buffer \<and> untroubled buffer rs"
  by (auto simp: untroubled_def)

lemma read_loop_full:
  assumes "untroubled buffer rs" and "int (length acc) = limit"
  shows "read_loop wrap buffer limit rs acc = (acc, ReadLimit)"
  using assms by (cases rs) auto

lemma read_loop_whole:
  assumes "untroubled buffer rs" and "int (length acc) \<le> limit"
  shows "read_loop wrap buffer limit rs acc =
    (let whole = acc @ concat (map rd_bytes rs)
     in (take (nat limit) whole, if int (length whole) < limit then ReadEOF else ReadLimit))"
  using assms
proof (induction rs arbitrary: acc)
  case (Cons r rs)
  show ?case
  proof (cases "limit - int (length acc) \<le> 0")
    case True
    with Cons.prems show ?thesis by (simp add: Let_def)
  next
    case False
    define k where "k = nat (limit - int (length acc))"
    show ?thesis
    proof (cases "length (rd_bytes r) \<le> k")
      case True
      then have "take (read_size buffer limit acc) (rd_bytes r) = rd_bytes r" using Cons.prems by (auto simp: read_size_def k_def min_def)
      moreover have "int (length (acc @ rd_bytes r)) \<le> limit" using True False by (simp add: k_def)
      ultimately show ?thesis using Cons False by (simp add: Let_def)
    next
      case big: False
      then have part: "take (read_size buffer limit acc) (rd_bytes r) = take k (rd_bytes r)"
        using Cons.prems big by (auto simp: read_size_def k_def min_def)
      have "int (length (acc @ take k (rd_bytes r))) = limit" using big False by (simp add: k_def)
      with read_loop_full Cons.prems(1)
      have "read_loop wrap buffer limit (r # rs) acc = (acc @ take k (rd_bytes r), ReadLimit)"
        using False part by (simp add: Let_def)
      moreover have "take (nat limit) (acc @ rd_bytes r @ concat (map rd_bytes rs)) = acc @ take k (rd_bytes r)"
        using big False Cons.prems(2) by (auto simp: k_def nat_diff_distrib')
      ultimately show ?thesis using big False by (auto simp: Let_def k_def)
    qed
  qed
qed simp

end
