(* ===== verification/Managed_Policy.thy ===== *)
theory Managed_Policy
  imports Managed_State GoFile
begin

section \<open>The managed policy of an agent (internal/managed/policy.go)\<close>

text \<open>
  The agent keeps the last policy it accepted and a ledger of the highest revision it has seen
  of every policy. A policy is accepted when it is signed by the pinned key, its revision is
  not below the ledger's, and the same revision has the same digest. The three files of one
  directory (enrollment state, policy, ledger) are the fields of \<open>disk\<close>; the state's file has
  its own name. Each call runs with the outcomes of its system calls (\<open>policy_calls\<close>), any of
  which may fail.
\<close>

definition PolicyFileName :: string where "PolicyFileName = ''managed-policy.json''"
definition policyRevisionLedgerFileName :: string where "policyRevisionLedgerFileName = ''managed-policy-revisions.json''"
definition policyRevisionLedgerSchema :: string where "policyRevisionLedgerSchema = ''io.oh-my-safety/managed-policy-revisions''"
definition policyRevisionLedgerVersion :: int where "policyRevisionLedgerVersion = 1"
definition maxPolicyFileBytes :: int where "maxPolicyFileBytes = 262144"
definition maxPolicyRevisionLedgerBytes :: int where "maxPolicyRevisionLedgerBytes = 1048576"
definition maxRememberedPolicyIDs :: nat where "maxRememberedPolicyIDs = 4096"

definition errPolicyNotFound :: go_error where "errPolicyNotFound = New ''managed policy not found''"
definition errLedgerNotFound :: go_error where "errLedgerNotFound = New ''managed policy revision ledger not found''"

record policyRevisionEntry =
  re_PolicyID :: string
  re_HighestRevision :: "64 word"
  re_DocumentSHA256 :: string

record policyRevisionLedger =
  rl_Schema :: string
  rl_SchemaVersion :: int
  rl_Policies :: "policyRevisionEntry list"

subsection \<open>Paths\<close>

definition PolicyPath :: "string \<Rightarrow> string" where
  "PolicyPath statePath = filepath_Join (filepath_Dir statePath) PolicyFileName"

definition policyRevisionLedgerPath :: "string \<Rightarrow> string" where
  "policyRevisionLedgerPath statePath = filepath_Join (filepath_Dir statePath) policyRevisionLedgerFileName"

subsection \<open>Signatures and digests\<close>

definition verifyPinnedPolicy :: "ed25519 \<Rightarrow> string \<Rightarrow> SignedPolicy \<Rightarrow> go_error option" where
  "verifyPinnedPolicy ed pinnedEncoding envelope =
     (case decodePublicKey pinnedEncoding of
        Inl _ \<Rightarrow> Some (New ''pinned policy public key is invalid'')
      | Inr pinned \<Rightarrow>
          if decodePublicKey (sp_SigningPublicKey envelope) \<noteq> Inr pinned
          then Some (New ''policy signer does not match pinned key'')
          else if VerifySignedPolicy ed envelope \<noteq> None then Some (New ''controller policy signature is invalid'')
          else None)"

definition policyDocumentDigest :: "(string \<Rightarrow> 8 word list) \<Rightarrow> PolicyDocument \<Rightarrow> string" where
  "policyDocumentDigest sha256 document = hex_encode (sha256 (json_text (PolicyDocument_json document)))"

definition policiesEqual :: "PolicyDocument \<Rightarrow> PolicyDocument \<Rightarrow> bool" where
  "policiesEqual left right \<longleftrightarrow> json_text (PolicyDocument_json left) = json_text (PolicyDocument_json right)"

subsection \<open>The revision ledger\<close>

definition ledger_invalid :: go_error where
  "ledger_invalid = New ''managed policy revision ledger is invalid''"

definition entry_error :: "policyRevisionEntry \<Rightarrow> go_error option" where
  "entry_error entry =
     (if \<not> safeIdentifier (re_PolicyID entry) 128 \<or> re_HighestRevision entry = 0
         \<or> map_option length (hex_DecodeString (re_DocumentSHA256 entry)) \<noteq> Some 32
      then Some ledger_invalid else None)"

definition ledger_validate :: "policyRevisionLedger \<Rightarrow> go_error option" where
  "ledger_validate ledger =
     (if rl_Schema ledger \<noteq> policyRevisionLedgerSchema \<or> rl_SchemaVersion ledger \<noteq> policyRevisionLedgerVersion
         \<or> length (rl_Policies ledger) > maxRememberedPolicyIDs
      then Some ledger_invalid
      else check_distinct entry_error re_PolicyID
             (New ''managed policy revision ledger contains duplicate policy ids'') [] (rl_Policies ledger))"

text \<open>
  The loop over the entries: \<open>None\<close> when no entry has the policy's ID, otherwise the error or
  whether the entry changed, with the entries after it.
\<close>

fun observe_entries ::
  "string \<Rightarrow> PolicyDocument \<Rightarrow> policyRevisionEntry list \<Rightarrow> (bool \<times> policyRevisionEntry list) result option" where
  "observe_entries digest document [] = None"
| "observe_entries digest document (entry # rest) =
     (if re_PolicyID entry \<noteq> pd_ID document then
        map_option (map_sum id (\<lambda>(changed, es). (changed, entry # es))) (observe_entries digest document rest)
      else if pd_Revision document < re_HighestRevision entry
      then Some (Inl (New ''managed policy revision rollback rejected''))
      else if pd_Revision document = re_HighestRevision entry \<and> digest \<noteq> re_DocumentSHA256 entry
      then Some (Inl (New ''managed policy revision equivocation rejected''))
      else if pd_Revision document = re_HighestRevision entry
      then Some (Inr (False, entry # rest))
      else Some (Inr (True, entry\<lparr>re_HighestRevision := pd_Revision document, re_DocumentSHA256 := digest\<rparr> # rest)))"

definition observe ::
  "(string \<Rightarrow> 8 word list) \<Rightarrow> PolicyDocument \<Rightarrow> policyRevisionLedger \<Rightarrow> (bool \<times> policyRevisionLedger) result" where
  "observe sha256 document ledger =
     (let digest = policyDocumentDigest sha256 document
      in case observe_entries digest document (rl_Policies ledger) of
           Some (Inl err) \<Rightarrow> Inl err
         | Some (Inr (changed, entries)) \<Rightarrow> Inr (changed, ledger\<lparr>rl_Policies := entries\<rparr>)
         | None \<Rightarrow>
             if length (rl_Policies ledger) \<ge> maxRememberedPolicyIDs
             then Inl (New ''managed policy revision ledger is full'')
             else Inr (True, ledger\<lparr>rl_Policies := sort_key re_PolicyID (rl_Policies ledger @
                 [\<lparr>re_PolicyID = pd_ID document, re_HighestRevision = pd_Revision document, re_DocumentSHA256 = digest\<rparr>])\<rparr>))"

definition verifyCurrent ::
  "(string \<Rightarrow> 8 word list) \<Rightarrow> policyRevisionLedger \<Rightarrow> PolicyDocument \<Rightarrow> go_error option" where
  "verifyCurrent sha256 ledger document =
     (case find (\<lambda>e. re_PolicyID e = pd_ID document) (rl_Policies ledger) of
        None \<Rightarrow> Some (New ''cached managed policy is absent from revision ledger'')
      | Some entry \<Rightarrow>
          if re_HighestRevision entry \<noteq> pd_Revision document
             \<or> re_DocumentSHA256 entry \<noteq> policyDocumentDigest sha256 document
          then Some (New ''cached managed policy does not match revision ledger'')
          else None)"

subsection \<open>Reading the files\<close>

definition policyRevisionEntry_fields :: "policyRevisionEntry fields" where
  "policyRevisionEntry_fields =
    [(''policy_id'', fld re_PolicyID (\<lambda>x s. s\<lparr>re_PolicyID := x\<rparr>) dec_string),
     (''highest_revision'', fld re_HighestRevision (\<lambda>x s. s\<lparr>re_HighestRevision := x\<rparr>) dec_uint64),
     (''document_sha256'', fld re_DocumentSHA256 (\<lambda>x s. s\<lparr>re_DocumentSHA256 := x\<rparr>) dec_string)]"

definition zero_policyRevisionEntry :: policyRevisionEntry where
  "zero_policyRevisionEntry = \<lparr>re_PolicyID = [], re_HighestRevision = 0, re_DocumentSHA256 = []\<rparr>"

definition policyRevisionEntry_json :: "policyRevisionEntry \<Rightarrow> json" where
  "policyRevisionEntry_json e = JObj
     [(''policy_id'', jstr (re_PolicyID e)), (''highest_revision'', jint (uint (re_HighestRevision e))),
      (''document_sha256'', jstr (re_DocumentSHA256 e))]"

definition policyRevisionLedger_fields :: "policyRevisionLedger fields" where
  "policyRevisionLedger_fields =
    [(''schema'', fld rl_Schema (\<lambda>x s. s\<lparr>rl_Schema := x\<rparr>) dec_string),
     (''schema_version'', fld rl_SchemaVersion (\<lambda>x s. s\<lparr>rl_SchemaVersion := x\<rparr>) dec_int64),
     (''policies'', fld rl_Policies (\<lambda>x s. s\<lparr>rl_Policies := x\<rparr>)
        (dec_slice zero_policyRevisionEntry (dec_record True policyRevisionEntry_fields)))]"

definition zero_policyRevisionLedger :: policyRevisionLedger where
  "zero_policyRevisionLedger = \<lparr>rl_Schema = [], rl_SchemaVersion = 0, rl_Policies = []\<rparr>"

definition policyRevisionLedger_json :: "policyRevisionLedger \<Rightarrow> json" where
  "policyRevisionLedger_json l = JObj
     [(''schema'', jstr (rl_Schema l)), (''schema_version'', jint (rl_SchemaVersion l)),
      (''policies'', JArr (map policyRevisionEntry_json (rl_Policies l)))]"

text \<open>Whether each call that reads a file succeeds (apart from the file being there).\<close>

record read_calls =
  rc_lstat :: bool
  rc_open :: bool
  rc_stat :: bool

definition io_failed :: go_error where "io_failed = New ''input/output error''"

definition read_with :: "read_calls \<Rightarrow> stored_file option \<Rightarrow> file_calls" where
  "read_with rc file =
     (let calls = calls_of file
      in calls\<lparr>fc_lstat := (if rc_lstat rc then fc_lstat calls else Inl io_failed),
               fc_open := (if rc_open rc then fc_open calls else Some io_failed),
               fc_stat := (if rc_stat rc then fc_stat calls else Inl io_failed)\<rparr>)"

definition loadSignedPolicyFile :: "file_calls \<Rightarrow> SignedPolicy result" where
  "loadSignedPolicyFile calls =
     (case fc_lstat calls of
        Inl err \<Rightarrow> Inl (if errors_Is err ErrNotExist then errPolicyNotFound else New ''inspect managed policy'')
      | Inr initialInfo \<Rightarrow>
      if \<not> private_file initialInfo then Inl (New ''managed policy must be a regular non-symlink mode-600 file'')
      else if fc_open calls \<noteq> None then Inl (New ''open managed policy'')
      else (case fc_stat calls of
          Inl _ \<Rightarrow> Inl (New ''inspect opened managed policy'')
        | Inr openedInfo \<Rightarrow>
      if \<not> private_file openedInfo \<or> fin_inode initialInfo \<noteq> fin_inode openedInfo
      then Inl (New ''managed policy changed while opening it'')
      else if fin_size openedInfo > maxPolicyFileBytes then Inl (New ''managed policy exceeds its size limit'')
      else (case decodeStrict (dec_record True SignedPolicy_fields) zero_SignedPolicy (fc_content calls) of
          Inl _ \<Rightarrow> Inl (New ''decode managed policy'')
        | Inr envelope \<Rightarrow> Inr envelope)))"

definition loadPolicyRevisionLedger :: "file_calls \<Rightarrow> policyRevisionLedger result" where
  "loadPolicyRevisionLedger calls =
     (case fc_lstat calls of
        Inl err \<Rightarrow> Inl (if errors_Is err ErrNotExist then errLedgerNotFound else New ''inspect managed policy revision ledger'')
      | Inr initialInfo \<Rightarrow>
      if \<not> private_file initialInfo
      then Inl (New ''managed policy revision ledger must be a regular non-symlink mode-600 file'')
      else if fc_open calls \<noteq> None then Inl (New ''open managed policy revision ledger'')
      else (case fc_stat calls of
          Inl _ \<Rightarrow> Inl (New ''inspect opened policy revision ledger'')
        | Inr openedInfo \<Rightarrow>
      if \<not> private_file openedInfo \<or> fin_inode initialInfo \<noteq> fin_inode openedInfo
      then Inl (New ''managed policy revision ledger changed while opening it'')
      else if fin_size openedInfo > maxPolicyRevisionLedgerBytes
      then Inl (New ''managed policy revision ledger exceeds its size limit'')
      else (case decodeStrict (dec_record True policyRevisionLedger_fields) zero_policyRevisionLedger (fc_content calls) of
          Inl _ \<Rightarrow> Inl (New ''decode managed policy revision ledger'')
        | Inr ledger \<Rightarrow> (case ledger_validate ledger of Some err \<Rightarrow> Inl err | None \<Rightarrow> Inr ledger))))"

subsection \<open>Writing the files\<close>

definition writeTemporaryPolicy :: "io_calls \<Rightarrow> go_error option" where
  "writeTemporaryPolicy calls = first_error
    [(\<not> io_create calls, New ''create temporary managed policy''),
     (\<not> io_chmod calls, New ''restrict temporary managed policy''),
     (\<not> io_write calls, New ''write managed policy''),
     (\<not> io_sync calls, New ''sync managed policy''),
     (\<not> io_close calls, New ''close managed policy'')]"

text \<open>The outcome and the ledger's file afterwards.\<close>

definition persistPolicyRevisionLedger ::
  "io_calls \<Rightarrow> policyRevisionLedger \<Rightarrow> stored_file option \<Rightarrow> go_error option \<times> stored_file option" where
  "persistPolicyRevisionLedger calls ledger file =
     (case ledger_validate ledger of
        Some err \<Rightarrow> (Some err, file)
      | None \<Rightarrow>
     (let encoded = policyRevisionLedger_json ledger
      in if int (length (json_text encoded)) > maxPolicyRevisionLedgerBytes
         then (Some (New ''encode managed policy revision ledger''), file)
         else (case writeTemporaryPolicy calls of
             Some err \<Rightarrow> (Some err, file)
           | None \<Rightarrow>
               if \<not> io_lstat calls then (Some (New ''inspect managed policy revision ledger destination''), file)
               else if \<not> io_install calls
               then (Some (New (if file = None then ''install managed policy revision ledger''
                                else ''replace managed policy revision ledger'')), file)
               else (syncDirectory calls, Some (written encoded)))))"

record disk =
  dk_state :: "stored_file option"
  dk_policy :: "stored_file option"
  dk_ledger :: "stored_file option"

record policy_calls =
  py_read_state :: read_calls
  py_read_policy :: read_calls
  py_read_ledger :: read_calls
  py_directory :: dir_calls
  py_lock :: lock_calls
  py_write_ledger :: io_calls
  py_write_policy :: io_calls

text \<open>\<open>LoadPolicy\<close> reads the three files.\<close>

definition LoadPolicy ::
  "(string \<Rightarrow> 8 word list) \<Rightarrow> ed25519 \<Rightarrow> policy_calls \<Rightarrow> string \<Rightarrow> disk \<Rightarrow> PolicyDocument result" where
  "LoadPolicy sha256 ed calls statePath disk =
     (case LoadState statePath (read_with (py_read_state calls) (dk_state disk)) of
        Inl err \<Rightarrow> Inl err
      | Inr state \<Rightarrow>
     (case loadSignedPolicyFile (read_with (py_read_policy calls) (dk_policy disk)) of
        Inl err \<Rightarrow> Inl err
      | Inr envelope \<Rightarrow>
     (case verifyPinnedPolicy ed (es_PolicyPublicKey state) envelope of
        Some err \<Rightarrow> Inl err
      | None \<Rightarrow>
     (case loadPolicyRevisionLedger (read_with (py_read_ledger calls) (dk_ledger disk)) of
        Inl err \<Rightarrow> Inl err
      | Inr ledger \<Rightarrow>
     (case verifyCurrent sha256 ledger (sp_Document envelope) of
        Some err \<Rightarrow> Inl err
      | None \<Rightarrow> Inr (sp_Document envelope))))))"

text \<open>
  \<open>persistVerifiedPolicy\<close> in the order of the source: the checks before the lock, the cached
  policy and the ledger as found (\<open>cached_policy\<close>, \<open>current_ledger\<close>), the ledger's update, then the policy's file.
  The ledger is written before the policy, so that a failure in between never lets an
  older revision back in.
\<close>

definition cached_policy :: "ed25519 \<Rightarrow> string \<Rightarrow> file_calls \<Rightarrow> SignedPolicy option result" where
  "cached_policy ed pinned calls =
     (case loadSignedPolicyFile calls of
        Inr existing \<Rightarrow>
          if verifyPinnedPolicy ed pinned existing \<noteq> None
          then Inl (New ''cached managed policy signature is invalid'') else Inr (Some existing)
      | Inl err \<Rightarrow> if errors_Is err errPolicyNotFound then Inr None else Inl err)"

text \<open>The ledger and whether its file is missing.\<close>

definition current_ledger ::
  "(string \<Rightarrow> 8 word list) \<Rightarrow> SignedPolicy option \<Rightarrow> file_calls \<Rightarrow> (bool \<times> policyRevisionLedger) result" where
  "current_ledger sha256 existing calls =
     (case loadPolicyRevisionLedger calls of
        Inr ledger \<Rightarrow> Inr (False, ledger)
      | Inl err \<Rightarrow>
          if \<not> errors_Is err errLedgerNotFound then Inl err
          else
           (let fresh = \<lparr>rl_Schema = policyRevisionLedgerSchema, rl_SchemaVersion = policyRevisionLedgerVersion, rl_Policies = []\<rparr>
            in case existing of
                 None \<Rightarrow> Inr (True, fresh)
               | Some envelope \<Rightarrow> map_sum id (\<lambda>(_, ledger). (True, ledger)) (observe sha256 (sp_Document envelope) fresh)))"

definition unchanged_policy :: "SignedPolicy option \<Rightarrow> PolicyDocument \<Rightarrow> bool" where
  "unchanged_policy existing document \<longleftrightarrow>
     (case existing of
        None \<Rightarrow> False
      | Some envelope \<Rightarrow> pd_ID (sp_Document envelope) = pd_ID document \<and> pd_Revision (sp_Document envelope) = pd_Revision document
          \<and> policiesEqual (sp_Document envelope) document)"

definition install_policy ::
  "io_calls \<Rightarrow> string \<Rightarrow> SignedPolicy \<Rightarrow> disk \<Rightarrow> string result \<times> disk" where
  "install_policy calls path envelope disk =
     (let encoded = SignedPolicy_json envelope
      in if int (length (json_text encoded)) > maxPolicyFileBytes then (Inl (New ''encode verified managed policy''), disk)
         else (case writeTemporaryPolicy calls of
             Some err \<Rightarrow> (Inl err, disk)
           | None \<Rightarrow>
               if \<not> io_lstat calls then (Inl (New ''inspect managed policy destination''), disk)
               else if \<not> io_install calls
               then (Inl (New (if dk_policy disk = None then ''install verified managed policy''
                               else ''replace verified managed policy'')), disk)
               else (case syncDirectory calls of None \<Rightarrow> Inr path | Some err \<Rightarrow> Inl err,
                     disk\<lparr>dk_policy := Some (written encoded)\<rparr>)))"

definition persistVerifiedPolicy ::
  "(string \<Rightarrow> 8 word list) \<Rightarrow> ed25519 \<Rightarrow> policy_calls \<Rightarrow> string \<Rightarrow> SignedPolicy \<Rightarrow> disk \<Rightarrow> string result \<times> disk" where
  "persistVerifiedPolicy sha256 ed calls statePath envelope disk =
     (let document = sp_Document envelope; path = PolicyPath statePath
      in case LoadState statePath (read_with (py_read_state calls) (dk_state disk)) of
        Inl err \<Rightarrow> (Inl err, disk)
      | Inr state \<Rightarrow>
     (case verifyPinnedPolicy ed (es_PolicyPublicKey state) envelope of
        Some err \<Rightarrow> (Inl err, disk)
      | None \<Rightarrow>
     (case ensurePrivateStateDirectory (py_directory calls) of
        Some err \<Rightarrow> (Inl err, disk)
      | None \<Rightarrow>
     (case acquirePolicyWriteLock (py_lock calls) of
        Some err \<Rightarrow> (Inl err, disk)
      | None \<Rightarrow>
     (case cached_policy ed (es_PolicyPublicKey state) (read_with (py_read_policy calls) (dk_policy disk)) of
        Inl err \<Rightarrow> (Inl err, disk)
      | Inr existing \<Rightarrow>
     (case current_ledger sha256 existing (read_with (py_read_ledger calls) (dk_ledger disk)) of
        Inl err \<Rightarrow> (Inl err, disk)
      | Inr (ledgerMissing, ledger) \<Rightarrow>
     (case observe sha256 document ledger of
        Inl err \<Rightarrow> (Inl err, disk)
      | Inr (ledgerChanged, updated) \<Rightarrow>
     (case (if ledgerMissing \<or> ledgerChanged
            then persistPolicyRevisionLedger (py_write_ledger calls) updated (dk_ledger disk) else (None, dk_ledger disk)) of
        (Some err, file) \<Rightarrow> (Inl err, disk\<lparr>dk_ledger := file\<rparr>)
      | (None, file) \<Rightarrow>
          if unchanged_policy existing document then (Inr path, disk\<lparr>dk_ledger := file\<rparr>)
          else install_policy (py_write_policy calls) path envelope (disk\<lparr>dk_ledger := file\<rparr>)))))))))"

end
