(* ===== verification/Managed_Redact.thy ===== *)
theory Managed_Redact
  imports Controller_Samples
begin

section \<open>Redaction of findings (internal/managed/sync.go)\<close>

text \<open>
  \<open>RedactFindings\<close> keeps seven fields of each finding and merges the findings of one detector
  and category. The Go map is the list of its entries in order of insertion, which the final
  sort makes irrelevant. The theorem states the merge independently of the loop.
\<close>

definition severityRank :: "Severity \<Rightarrow> int" where
  "severityRank severity =
     (if severity = SeverityCritical then 3 else if severity = SeverityWarn then 2 else if severity = SeverityInfo then 1 else 0)"

definition stateRank :: "FindingState \<Rightarrow> int" where
  "stateRank state =
     (if state = FindingOpen then 4 else if state = FindingAcknowledged then 3 else if state = FindingSuppressed then 2
      else if state = FindingResolved then 1 else 0)"

definition candidate :: "Finding \<Rightarrow> RedactedFinding" where
  "candidate finding =
     \<lparr>rf_DetectorID = fi_DetectorID finding,
      rf_Category = (if fi_Category finding = [] then ''uncategorized'' else fi_Category finding),
      rf_Severity = fi_Severity finding, rf_State = fi_State finding,
      rf_FirstSeen = UTC (fi_FirstSeen finding), rf_LastSeen = UTC (fi_LastSeen finding),
      rf_Occurrences = fi_Occurrences finding\<rparr>"

text \<open>The update of an existing entry, after the overflow check.\<close>

definition merge_finding :: "RedactedFinding \<Rightarrow> RedactedFinding \<Rightarrow> RedactedFinding" where
  "merge_finding existing c = existing
     \<lparr>rf_Occurrences := rf_Occurrences existing + rf_Occurrences c,
      rf_FirstSeen := (if Before (rf_FirstSeen c) (rf_FirstSeen existing) then rf_FirstSeen c else rf_FirstSeen existing),
      rf_LastSeen := (if After (rf_LastSeen c) (rf_LastSeen existing) then rf_LastSeen c else rf_LastSeen existing),
      rf_Severity := (if severityRank (rf_Severity c) > severityRank (rf_Severity existing) then rf_Severity c
                      else rf_Severity existing),
      rf_State := (if stateRank (rf_State c) > stateRank (rf_State existing) then rf_State c else rf_State existing)\<rparr>"

type_synonym aggregate = "(string \<times> RedactedFinding) list"

definition occurrence_overflow :: go_error where
  "occurrence_overflow = New ''redacted finding occurrence count overflow''"

definition map_put :: "'k \<Rightarrow> 'v \<Rightarrow> ('k \<times> 'v) list \<Rightarrow> ('k \<times> 'v) list" where
  "map_put k v m = (if k \<in> fst ` set m then map (\<lambda>(k', v'). if k' = k then (k', v) else (k', v')) m else m @ [(k, v)])"

fun redact_loop :: "aggregate \<Rightarrow> Finding list \<Rightarrow> aggregate result" where
  "redact_loop aggregated [] = Inr aggregated"
| "redact_loop aggregated (finding # rest) =
     (let c = candidate finding; key = redacted_key c
      in case map_of aggregated key of
           None \<Rightarrow> redact_loop (map_put key c aggregated) rest
         | Some existing \<Rightarrow>
             if (- 1) - rf_Occurrences existing < rf_Occurrences c then Inl occurrence_overflow
             else redact_loop (map_put key (merge_finding existing c) aggregated) rest)"

definition redact_order :: "RedactedFinding \<Rightarrow> string \<times> string" where
  "redact_order r = (rf_DetectorID r, rf_Category r)"

definition RedactFindings :: "Finding list \<Rightarrow> RedactedFinding list result" where
  "RedactFindings findings =
     (case redact_loop [] findings of
        Inl err \<Rightarrow> Inl err
      | Inr aggregated \<Rightarrow> Inr (sort_key redact_order (map snd aggregated)))"

subsection \<open>The loop\<close>

lemma map_of_map_put: "map_of (map_put k v m) = (map_of m)(k \<mapsto> v)"
proof
  fix x
  show "map_of (map_put k v m) x = ((map_of m)(k \<mapsto> v)) x"
  proof (cases "k \<in> fst ` set m")
    case True
    have "map_of (map (\<lambda>(k', v'). if k' = k then (k', v) else (k', v')) m) x = (if x = k then map_option (\<lambda>_. v) (map_of m x) else map_of m x)"
      by (induction m) (auto split: prod.split)
    moreover have "map_of m k \<noteq> None" using True by (simp only: map_of_eq_None_iff) simp
    ultimately show ?thesis using True by (auto simp: map_put_def)
  next
    case False
    then have "map_of m k = None" by (simp only: map_of_eq_None_iff) simp
    with False show ?thesis by (cases "map_of m x") (auto simp: map_put_def map_add_def)
  qed
qed

lemma map_put_keys: "map fst (map_put k v m) = (if k \<in> set (map fst m) then map fst m else map fst m @ [k])"
  by (auto simp: map_put_def)

text \<open>The entry of a key after some findings of that key.\<close>

fun merge_all :: "RedactedFinding option \<Rightarrow> RedactedFinding list \<Rightarrow> RedactedFinding option" where
  "merge_all e0 [] = e0"
| "merge_all None (c # cs) = merge_all (Some c) cs"
| "merge_all (Some e) (c # cs) = merge_all (Some (merge_finding e c)) cs"

definition total :: "RedactedFinding option \<Rightarrow> nat" where
  "total e0 = (case e0 of None \<Rightarrow> 0 | Some e \<Rightarrow> unat (rf_Occurrences e))"

lemma total_None: "total None = 0"
  by (simp add: total_def)

text \<open>The findings that share a key, redacted.\<close>

definition redaction_class :: "string \<Rightarrow> Finding list \<Rightarrow> RedactedFinding list" where
  "redaction_class k fs = filter (\<lambda>c. redacted_key c = k) (map candidate fs)"

definition occurrences_in :: "string \<Rightarrow> Finding list \<Rightarrow> nat" where
  "occurrences_in k fs = sum_list (map (\<lambda>c. unat (rf_Occurrences c)) (redaction_class k fs))"

lemma overflow_iff: "(- 1) - (a :: 64 word) < b \<longleftrightarrow> unat a + unat b \<ge> 2 ^ 64"
proof -
  have "unat ((- 1) - a) = 2 ^ 64 - 1 - unat a"
    using unat_sub [of a "- 1"] by (simp add: unsigned_minus_1_eq_mask mask_eq_exp_minus_1)
  moreover have "unat a < 2 ^ 64" using unsigned_less [of a, where 'a = nat] by simp
  ultimately show ?thesis by (simp add: word_less_nat_alt) linarith
qed

lemma unat_plus_fits: "unat a + unat b < 2 ^ 64 \<Longrightarrow> unat (a + b) = unat a + unat (b :: 64 word)"
  by (subst unat_add_lem [symmetric]) simp

lemma redact_loop_entries:
  "case redact_loop aggregated fs of
     Inl err \<Rightarrow> err = occurrence_overflow \<and> (\<exists>k. total (map_of aggregated k) + occurrences_in k fs \<ge> 2 ^ 64)
   | Inr result \<Rightarrow> (\<forall>k. total (map_of aggregated k) + occurrences_in k fs < 2 ^ 64
        \<and> map_of result k = merge_all (map_of aggregated k) (redaction_class k fs)
        \<and> total (map_of result k) = total (map_of aggregated k) + occurrences_in k fs)"
proof (induction aggregated fs rule: redact_loop.induct)
  case (1 aggregated)
  have "total e < 2 ^ 64" for e
    using unsigned_less [of "rf_Occurrences (the e)", where 'a = nat] by (cases e) (simp_all add: total_def)
  then show ?case by (simp add: redaction_class_def occurrences_in_def)
next
  case (2 aggregated f fs)
  let ?c = "candidate f" and ?k = "redacted_key (candidate f)"
  have cls: "redaction_class k (f # fs) = (if k = ?k then [?c] else []) @ redaction_class k fs" for k
    by (auto simp: redaction_class_def)
  then have occ: "occurrences_in k (f # fs) = (if k = ?k then unat (rf_Occurrences ?c) else 0) + occurrences_in k fs" for k
    by (simp add: occurrences_in_def)
  show ?case
  proof (cases "map_of aggregated ?k")
    case None
    have t: "total (((map_of aggregated)(?k \<mapsto> ?c)) k) + occurrences_in k fs = total (map_of aggregated k) + occurrences_in k (f # fs)"
      and m: "merge_all (((map_of aggregated)(?k \<mapsto> ?c)) k) (redaction_class k fs) = merge_all (map_of aggregated k) (redaction_class k (f # fs))" for k
      using None by (simp_all add: occ cls total_def)
    show ?thesis using 2(1) [OF refl refl None, unfolded map_of_map_put t m] None by (simp add: Let_def)
  next
    case (Some e)
    show ?thesis
    proof (cases "unat (rf_Occurrences e) + unat (rf_Occurrences ?c) \<ge> 2 ^ 64")
      case True
      then have "total (map_of aggregated ?k) + occurrences_in ?k (f # fs) \<ge> 2 ^ 64" using Some by (simp add: occ total_def)
      then have "\<exists>k. total (map_of aggregated k) + occurrences_in k (f # fs) \<ge> 2 ^ 64" by (rule exI)
      moreover have "- 1 - rf_Occurrences e < rf_Occurrences ?c" using True by (simp only: overflow_iff)
      ultimately show ?thesis using Some by (simp add: Let_def)
    next
      case False
      then have "unat (rf_Occurrences e + rf_Occurrences ?c) = unat (rf_Occurrences e) + unat (rf_Occurrences ?c)"
        by (intro unat_plus_fits) simp
      then have t: "total (((map_of aggregated)(?k \<mapsto> merge_finding e ?c)) k) + occurrences_in k fs = total (map_of aggregated k) + occurrences_in k (f # fs)"
        and m: "merge_all (((map_of aggregated)(?k \<mapsto> merge_finding e ?c)) k) (redaction_class k fs) = merge_all (map_of aggregated k) (redaction_class k (f # fs))" for k
        using Some by (simp_all add: occ cls total_def merge_finding_def)
      have "\<not> (- 1) - rf_Occurrences e < rf_Occurrences ?c" using False by (simp only: overflow_iff) simp
      then show ?thesis using 2(2) [OF refl refl Some, unfolded map_of_map_put t m] Some by (simp add: Let_def)
    qed
  qed
qed

lemma redact_loop_keys:
  "redact_loop aggregated fs = Inr result \<Longrightarrow> distinct (map fst aggregated) \<Longrightarrow>
     (\<forall>(k, r) \<in> set aggregated. redacted_key r = k) \<Longrightarrow>
     distinct (map fst result) \<and> (\<forall>(k, r) \<in> set result. redacted_key r = k)"
proof (induction aggregated fs rule: redact_loop.induct)
  case (2 aggregated f fs)
  let ?k = "redacted_key (candidate f)"
  have put: "distinct (map fst (map_put ?k v aggregated)) \<and> (\<forall>(k, r) \<in> set (map_put ?k v aggregated). redacted_key r = k)"
    if "redacted_key v = ?k" for v
    using 2(4,5) that map_put_keys [of ?k v aggregated] by (auto simp: map_put_def split: if_splits)
  have same: "redacted_key (merge_finding e c) = redacted_key e" for e c
    by (simp add: redacted_key_def merge_finding_def)
  show ?case
  proof (cases "map_of aggregated ?k")
    case None
    then show ?thesis using 2(1) [OF refl refl None] 2(3) put [of "candidate f"] by (simp add: Let_def)
  next
    case (Some e)
    then have "redacted_key e = ?k" using 2(5) map_of_SomeD [OF Some] by auto
    then show ?thesis using 2(2) [OF refl refl Some] 2(3) Some put [of "merge_finding e (candidate f)"] same
      by (auto simp: Let_def split: if_splits)
  qed
qed simp

subsection \<open>What the merge computes\<close>

definition summarises :: "RedactedFinding \<Rightarrow> RedactedFinding list \<Rightarrow> bool" where
  "summarises r cs \<longleftrightarrow>
     (\<exists>c \<in> set cs. redact_order r = redact_order c)
     \<and> rf_FirstSeen r \<in> rf_FirstSeen ` set cs \<and> (\<forall>c \<in> set cs. \<not> Before (rf_FirstSeen c) (rf_FirstSeen r))
     \<and> rf_LastSeen r \<in> rf_LastSeen ` set cs \<and> (\<forall>c \<in> set cs. \<not> After (rf_LastSeen c) (rf_LastSeen r))
     \<and> rf_Severity r \<in> rf_Severity ` set cs \<and> (\<forall>c \<in> set cs. severityRank (rf_Severity c) \<le> severityRank (rf_Severity r))
     \<and> rf_State r \<in> rf_State ` set cs \<and> (\<forall>c \<in> set cs. stateRank (rf_State c) \<le> stateRank (rf_State r))"

lemma summarises_single: "summarises c [c]"
  by (simp add: summarises_def Before_def After_def)

lemma summarises_snoc: "summarises r cs \<Longrightarrow> summarises (merge_finding r c) (cs @ [c])"
  unfolding summarises_def merge_finding_def redact_order_def Before_def After_def
  by (auto 0 3 simp: not_less intro: order_trans less_imp_le)

lemma merge_all_summarises:
  "summarises e cs \<Longrightarrow> merge_all (Some e) ds = Some r \<Longrightarrow> summarises r (cs @ ds)"
proof (induction ds arbitrary: e cs)
  case (Cons d ds)
  then show ?case using Cons.IH [OF summarises_snoc [OF Cons.prems(1), of d]] by simp
qed simp

lemma merge_all_class: "merge_all None cs = Some r \<Longrightarrow> summarises r cs"
  using merge_all_summarises [OF summarises_single] by (cases cs) fastforce+

lemma merge_all_Some: "(\<exists>r. merge_all (Some e) cs = Some r)"
  by (induction cs arbitrary: e) auto

lemma merge_all_None_iff: "merge_all None cs = None \<longleftrightarrow> cs = []"
  using merge_all_Some by (cases cs) auto

text \<open>
  C21: \<open>RedactFindings\<close> fails exactly when the occurrences of some detector and category add up
  to 2 to the 64 or more. Otherwise its result is sorted by detector and category without
  duplicates and has one entry for every detector and category that occurs: its occurrences
  are the sum over their findings, its times the earliest first and latest last seen, its
  severity and state the highest ranked, and the empty category is \<open>uncategorized\<close>.
\<close>

theorem RedactFindings_summarises:
  "case RedactFindings findings of
     Inl err \<Rightarrow> err = occurrence_overflow \<and> (\<exists>k. occurrences_in k findings \<ge> 2 ^ 64)
   | Inr rs \<Rightarrow> (\<forall>k. occurrences_in k findings < 2 ^ 64)
       \<and> sorted (map redact_order rs) \<and> distinct (map redact_order rs)
       \<and> redacted_key ` set rs = (\<lambda>f. redacted_key (candidate f)) ` set findings
       \<and> (\<forall>r \<in> set rs. summarises r (redaction_class (redacted_key r) findings)
            \<and> unat (rf_Occurrences r) = occurrences_in (redacted_key r) findings)"
proof (cases "redact_loop [] findings")
  case (Inl err)
  with redact_loop_entries [of "[]" findings] show ?thesis by (simp add: RedactFindings_def total_def)
next
  case (Inr agg)
  have all: "occurrences_in k findings < 2 ^ 64" "map_of agg k = merge_all None (redaction_class k findings)"
      "total (map_of agg k) = occurrences_in k findings" for k
    using redact_loop_entries [of "[]" findings, unfolded Inr sum.case map_of.simps total_None] by simp_all (metis)
  have agg: "distinct (map fst agg)" "\<forall>(k, r) \<in> set agg. redacted_key r = k"
    using redact_loop_keys [OF Inr] by simp_all
  then have at: "map_of agg (redacted_key r) = Some r" if "r \<in> snd ` set agg" for r
    using that by (auto intro!: map_of_is_SomeI)
  have keys: "redacted_key ` (snd ` set agg) = fst ` set agg" using agg(2) by (force simp: image_iff)
  have "k \<in> fst ` set agg \<longleftrightarrow> k \<in> (\<lambda>f. redacted_key (candidate f)) ` set findings" for k
  proof -
    have "k \<in> fst ` set agg \<longleftrightarrow> map_of agg k \<noteq> None" by (simp only: map_of_eq_None_iff) simp
    also have "\<dots> \<longleftrightarrow> redaction_class k findings \<noteq> []" unfolding all(2) merge_all_None_iff ..
    finally show ?thesis by (auto simp: redaction_class_def filter_empty_conv)
  qed
  then have names: "redacted_key ` snd ` set agg = (\<lambda>f. redacted_key (candidate f)) ` set findings" unfolding keys by blast
  have "map redacted_key (map snd agg) = map fst agg" using agg(2) by (induction agg) auto
  with agg(1) have "distinct (map redacted_key (map snd agg))" by (simp only:)
  moreover have "redact_order r = redact_order r' \<Longrightarrow> redacted_key r = redacted_key r'" for r r'
    by (simp add: redact_order_def redacted_key_def)
  ultimately have d: "distinct (map redact_order (map snd agg))"
    unfolding distinct_map inj_on_def by metis
  then have "distinct (map redact_order (sort_key redact_order (map snd agg)))"
    using distinct_map [of redact_order "map snd agg"] distinct_map [of redact_order "sort_key redact_order (map snd agg)"]
    by (simp only: set_sort distinct_sort)
  moreover have "summarises r (redaction_class (redacted_key r) findings)"
      "unat (rf_Occurrences r) = occurrences_in (redacted_key r) findings" if "r \<in> snd ` set agg" for r
    using at [OF that] all(2,3) [of "redacted_key r"] merge_all_class by (simp_all add: total_def)
  ultimately show ?thesis using all(1) names by (simp add: RedactFindings_def Inr)
qed

text \<open>Two sightings of one detector are reported as one finding with both counts.\<close>

theorem RedactFindings_summarises_witness:
  "\<exists>r. RedactFindings [zero_Finding\<lparr>fi_DetectorID := ''firewall'', fi_Occurrences := 2\<rparr>,
        zero_Finding\<lparr>fi_DetectorID := ''firewall'', fi_Occurrences := 3, fi_Severity := SeverityWarn\<rparr>] = Inr [r]
     \<and> unat (rf_Occurrences r) = 5 \<and> rf_Severity r = SeverityWarn"
proof -
  let ?f = "zero_Finding\<lparr>fi_DetectorID := ''firewall'', fi_Occurrences := 2\<rparr>"
  let ?g = "zero_Finding\<lparr>fi_DetectorID := ''firewall'', fi_Occurrences := 3, fi_Severity := SeverityWarn\<rparr>"
  have r: "RedactFindings [?f, ?g] = Inr [merge_finding (candidate ?f) (candidate ?g)]"
    by (simp add: RedactFindings_def candidate_def redacted_key_def map_put_def Let_def zero_Finding_def)
  have "unat (rf_Occurrences (merge_finding (candidate ?f) (candidate ?g))) = occurrences_in (redacted_key (candidate ?f)) [?f, ?g]"
    using RedactFindings_summarises [of "[?f, ?g]"] unfolding r
    by (simp add: merge_finding_def redacted_key_def candidate_def)
  moreover have "\<dots> = 5"
    by (simp add: occurrences_in_def redaction_class_def redacted_key_def candidate_def zero_Finding_def)
  ultimately show ?thesis
    using r by (simp add: merge_finding_def candidate_def severityRank_def zero_Finding_def SeverityWarn_def SeverityCritical_def SeverityInfo_def)
qed

end
