(* ===== verification/Managed_Client.thy ===== *)
theory Managed_Client
  imports Managed_Policy Managed_Redact
begin

section \<open>The agent's client of the controller (internal/managed/client.go, sync.go)\<close>

text \<open>
  The transport, that is \<open>http.Client.Do\<close> with everything behind it, is an argument: a function
  from the request to the reply. A reply is a failure (with the context's error when the context
  has ended) or a response as far as the client looks at it: the status, the media type of its
  \<open>Content-Type\<close> (\<open>None\<close> where it cannot be parsed), whether its body can be read, the
  body's length and the JSON values in it. A request body is \<open>None\<close> for no value, \<open>Some None\<close>
  for a value that cannot be marshalled. A context is whether it is not nil.
\<close>

definition defaultRequestTimeout :: duration where "defaultRequestTimeout = 15 * Second"
definition maxRequestTimeout :: duration where "maxRequestTimeout = 30 * Second"
definition maxEnrollmentRequestBytes :: int where "maxEnrollmentRequestBytes = 65536"
definition maxEnrollmentResponseBytes :: int where "maxEnrollmentResponseBytes = 32768"
definition maxHeartbeatRequestBytes :: int where "maxHeartbeatRequestBytes = 65536"
definition maxPolicyResponseBytes :: int where "maxPolicyResponseBytes = 524288"
definition maxReportRequestBytes :: int where "maxReportRequestBytes = 1048576"
definition maxReportResponseBytes :: int where "maxReportResponseBytes = 32768"
definition maxRotationResponseBytes :: int where "maxRotationResponseBytes = 32768"

text \<open>\<open>RemoteError\<close>: its operation is not part of the message.\<close>

definition RemoteError :: "string \<Rightarrow> int \<Rightarrow> go_error" where
  "RemoteError operation status =
     (if status = 0 then Errorf ''managed controller request failed'' []
      else Errorf ''managed controller request failed with status %d'' [ArgD status])"

subsection \<open>Requests and replies\<close>

record http_request =
  hq_method :: string
  hq_endpoint :: string
  hq_content_type :: "string option"
  hq_authorization :: "string option"
  hq_device_id :: "string option"
  hq_body :: "json option"

record http_response =
  hr_status :: int
  hr_media_type :: "string option"
  hr_read_error :: bool
  hr_length :: int
  hr_values :: json_stream

datatype reply = Failed "go_error option" | Reply http_response

type_synonym transport = "http_request \<Rightarrow> reply"

record http_client =
  hc_Timeout :: duration
  hc_jar :: bool
  hc_follow_redirects :: bool

definition boundedHTTPClient :: "http_client option \<Rightarrow> http_client" where
  "boundedHTTPClient input =
     (let copied = (case input of None \<Rightarrow> \<lparr>hc_Timeout = 0, hc_jar = False, hc_follow_redirects = True\<rparr> | Some c \<Rightarrow> c);
          timeout = (if hc_Timeout copied \<le> 0 \<or> hc_Timeout copied > maxRequestTimeout then defaultRequestTimeout
                     else hc_Timeout copied)
      in copied\<lparr>hc_Timeout := timeout, hc_jar := False, hc_follow_redirects := False\<rparr>)"

definition request_for :: "string \<Rightarrow> string \<Rightarrow> string \<Rightarrow> string \<Rightarrow> json option \<Rightarrow> http_request" where
  "request_for method endpoint deviceID credential body =
     \<lparr>hq_method = method, hq_endpoint = endpoint,
      hq_content_type = (if body = None then None else Some ''application/json''),
      hq_authorization = (if credential = [] then None else Some (''Bearer '' @ credential)),
      hq_device_id = (if credential = [] then None else Some deviceID),
      hq_body = body\<rparr>"

text \<open>The response after the status has been checked, where no value and where one is expected.\<close>

definition no_content :: "http_response \<Rightarrow> go_error option" where
  "no_content response =
     (if hr_length response \<noteq> 0 \<or> hr_read_error response then Some (New ''controller returned an unexpected response body'')
      else None)"

definition read_response :: "(json \<Rightarrow> 'a \<Rightarrow> 'a option) \<Rightarrow> 'a \<Rightarrow> int \<Rightarrow> http_response \<Rightarrow> 'a result" where
  "read_response dec zero responseLimit response =
     (if hr_media_type response \<noteq> Some ''application/json'' then Inl (New ''controller returned a non-JSON response'')
      else if hr_read_error response then Inl (New ''read controller response'')
      else if hr_length response > responseLimit then Inl (New ''controller response exceeds its size limit'')
      else (case decodeStrict dec zero (hr_values response) of
          Inl _ \<Rightarrow> Inl (New ''controller returned invalid JSON'')
        | Inr x \<Rightarrow> Inr x))"

definition exchange ::
  "transport \<Rightarrow> string \<Rightarrow> string \<Rightarrow> string \<Rightarrow> string \<Rightarrow> json option option \<Rightarrow> int \<Rightarrow> int \<Rightarrow> string \<Rightarrow> http_response result" where
  "exchange http method endpoint deviceID credential requestValue requestLimit expectedStatus operation =
     (if (case requestValue of None \<Rightarrow> False | Some None \<Rightarrow> True
          | Some (Some encoded) \<Rightarrow> int (length (json_text encoded)) > requestLimit)
      then Inl (New ''managed request payload is invalid or too large'')
      else if url_Parse endpoint = None then Inl (New ''create managed controller request'')
      else (case http (request_for method endpoint deviceID credential (Option.bind requestValue id)) of
          Failed (Some ctx_err) \<Rightarrow> Inl (Wrap ''managed controller request canceled: %w'' ctx_err)
        | Failed None \<Rightarrow> Inl (RemoteError operation 0)
        | Reply response \<Rightarrow>
            if hr_status response \<noteq> expectedStatus then Inl (RemoteError operation (hr_status response))
            else Inr response))"

text \<open>\<open>performJSON\<close> without and with a response value.\<close>

definition performJSON_empty ::
  "transport \<Rightarrow> string \<Rightarrow> string \<Rightarrow> string \<Rightarrow> string \<Rightarrow> json option option \<Rightarrow> int \<Rightarrow> int \<Rightarrow> string \<Rightarrow> go_error option" where
  "performJSON_empty http method endpoint deviceID credential requestValue requestLimit expectedStatus operation =
     (case exchange http method endpoint deviceID credential requestValue requestLimit expectedStatus operation of
        Inl err \<Rightarrow> Some err
      | Inr response \<Rightarrow> no_content response)"

definition performJSON ::
  "transport \<Rightarrow> string \<Rightarrow> string \<Rightarrow> string \<Rightarrow> string \<Rightarrow> json option option \<Rightarrow> int \<Rightarrow> int
     \<Rightarrow> (json \<Rightarrow> 'a \<Rightarrow> 'a option) \<Rightarrow> 'a \<Rightarrow> int \<Rightarrow> string \<Rightarrow> 'a result" where
  "performJSON http method endpoint deviceID credential requestValue requestLimit expectedStatus dec zero responseLimit operation =
     (case exchange http method endpoint deviceID credential requestValue requestLimit expectedStatus operation of
        Inl err \<Rightarrow> Inl err
      | Inr response \<Rightarrow> read_response dec zero responseLimit response)"

subsection \<open>JSON of the requests and answers\<close>

definition DeviceMetadata_json :: "DeviceMetadata \<Rightarrow> json" where
  "DeviceMetadata_json m = JObj
     [(''name'', jstr (dm_Name m)), (''platform'', jstr (dm_Platform m)), (''os_version'', jstr (dm_OSVersion m)),
      (''agent_version'', jstr (dm_AgentVersion m))]"

definition enrollmentRequest_json :: "string \<Rightarrow> DeviceMetadata \<Rightarrow> json" where
  "enrollmentRequest_json token device = JObj
     [(''enrollment_token'', jstr token), (''device'', DeviceMetadata_json device)]"

definition ReportSync_json :: "ReportSync \<Rightarrow> json option" where
  "ReportSync_json r =
     (if json_time (rs_ReportedAt r) \<and> (\<forall>f \<in> set (rs_Findings r). json_time (rf_FirstSeen f) \<and> json_time (rf_LastSeen f))
      then Some (JObj
        [(''schema'', jstr (rs_Schema r)), (''schema_version'', jint (rs_SchemaVersion r)),
         (''reported_at'', jtime (rs_ReportedAt r)),
         (''findings'', JArr (map (\<lambda>f. JObj (RedactedFinding_members f)) (rs_Findings r)))])
      else None)"

definition EnrollmentGrant_fields :: "EnrollmentGrant fields" where
  "EnrollmentGrant_fields =
    [(''device_id'', fld eg_DeviceID (\<lambda>x s. s\<lparr>eg_DeviceID := x\<rparr>) dec_string),
     (''device_credential'', fld eg_DeviceCredential (\<lambda>x s. s\<lparr>eg_DeviceCredential := x\<rparr>) dec_string)]"

definition zero_EnrollmentGrant :: EnrollmentGrant where
  "zero_EnrollmentGrant = \<lparr>eg_DeviceID = [], eg_DeviceCredential = []\<rparr>"

definition accepted_fields :: "int fields" where
  "accepted_fields = [(''accepted'', fld id (\<lambda>x _. x) dec_int64)]"

subsection \<open>Enrollment\<close>

record EnrollmentOptions =
  eo_StatePath :: string
  eo_ControllerURL :: string
  eo_TokenEnv :: string
  eo_PolicyPublicKey :: string
  eo_Metadata :: DeviceMetadata

definition env_char :: "char \<Rightarrow> bool" where
  "env_char c \<longleftrightarrow> (65 \<le> byte c \<and> byte c \<le> 90) \<or> c = CHR ''_''"

definition validEnvironmentName :: "string \<Rightarrow> bool" where
  "validEnvironmentName value \<longleftrightarrow> value \<noteq> [] \<and> length value \<le> 128 \<and> env_char (hd value)
     \<and> list_all (\<lambda>c. env_char c \<or> is_digit c) (tl value)"

definition EnrollFromEnvironment ::
  "transport \<Rightarrow> bool \<Rightarrow> (string \<Rightarrow> string option) \<Rightarrow> dir_calls \<Rightarrow> io_calls \<Rightarrow> bool \<Rightarrow> gotime \<Rightarrow> EnrollmentOptions
     \<Rightarrow> stored_file option \<Rightarrow> EnrollmentState result \<times> stored_file option" where
  "EnrollFromEnvironment http ctx getenv dcalls calls appeared now options file =
     (if \<not> ctx then (Inl (New ''managed enrollment context is required''), file)
      else if \<not> validEnvironmentName (eo_TokenEnv options)
      then (Inl (New ''enrollment token environment variable name is invalid''), file)
      else (case getenv (eo_TokenEnv options) of
        None \<Rightarrow> (Inl (New ''enrollment token environment variable is missing or invalid''), file)
      | Some token \<Rightarrow>
      if \<not> safeCredential token then (Inl (New ''enrollment token environment variable is missing or invalid''), file)
      else if DeviceMetadata_Validate (eo_Metadata options) \<noteq> None then (Inl (New ''local device metadata is invalid''), file)
      else (case validateControllerURL (eo_ControllerURL options) of
        Inl err \<Rightarrow> (Inl err, file)
      | Inr canonicalURL \<Rightarrow>
      (case decodePublicKey (eo_PolicyPublicKey options) of
        Inl err \<Rightarrow> (Inl err, file)
      | Inr _ \<Rightarrow>
      if blank (eo_StatePath options) then (Inl (New ''managed enrollment state path is required''), file)
      else if \<not> io_lstat calls then (Inl (New ''inspect managed enrollment state destination''), file)
      else if file \<noteq> None then (Inl (New ''managed enrollment state already exists''), file)
      else (case ensurePrivateStateDirectory dcalls of
        Some err \<Rightarrow> (Inl err, file)
      | None \<Rightarrow>
      (case performJSON http ''POST'' (canonicalURL @ ''/v1/agent/enroll'') [] []
              (Some (Some (enrollmentRequest_json token (eo_Metadata options)))) maxEnrollmentRequestBytes 201
              (dec_record True EnrollmentGrant_fields) zero_EnrollmentGrant maxEnrollmentResponseBytes ''enroll'' of
        Inl err \<Rightarrow> (Inl err, file)
      | Inr grant \<Rightarrow>
      (let state = \<lparr>es_Schema = StateSchema, es_SchemaVersion = StateSchemaVersion, es_ControllerURL = canonicalURL,
             es_DeviceID = eg_DeviceID grant, es_DeviceCredential = eg_DeviceCredential grant,
             es_PolicyPublicKey = eo_PolicyPublicKey options, es_EnrolledAt = UTC now\<rparr>
       in case createState dcalls calls appeared file state of
            (Some err, file') \<Rightarrow> (Inl err, file')
          | (None, file') \<Rightarrow> (Inr state, file'))))))))"

subsection \<open>The client\<close>

record Client =
  cl_statePath :: string
  cl_policyPath :: string
  cl_state :: EnrollmentState
  cl_http :: http_client

definition Open :: "string \<Rightarrow> http_client option \<Rightarrow> file_calls \<Rightarrow> Client result" where
  "Open statePath httpClient calls =
     (case LoadState statePath calls of
        Inl err \<Rightarrow> Inl err
      | Inr state \<Rightarrow> Inr \<lparr>cl_statePath = statePath, cl_policyPath = PolicyPath statePath, cl_state = state,
          cl_http = boundedHTTPClient httpClient\<rparr>)"

text \<open>\<open>runtime.GOOS\<close>, \<open>runtime.GOARCH\<close> and the answer of \<open>os.Hostname\<close> are arguments.\<close>

definition LocalDeviceMetadataForName ::
  "string \<Rightarrow> string \<Rightarrow> string result \<Rightarrow> string \<Rightarrow> string \<Rightarrow> DeviceMetadata result" where
  "LocalDeviceMetadataForName goos goarch hostname agentVersion deviceName =
     (let named = (if deviceName \<noteq> [] then Inr deviceName
        else (case hostname of Inl _ \<Rightarrow> Inl (New ''read local hostname'')
              | Inr h \<Rightarrow> if blank h then Inl (New ''read local hostname'') else Inr h))
      in case named of
           Inl err \<Rightarrow> Inl err
         | Inr name \<Rightarrow>
             (let metadata = \<lparr>dm_Name = name, dm_Platform = goos, dm_OSVersion = goos @ ''-'' @ goarch, dm_AgentVersion = agentVersion\<rparr>
              in if DeviceMetadata_Validate metadata \<noteq> None then Inl (New ''local device metadata is invalid'') else Inr metadata))"

definition LocalDeviceMetadata :: "string \<Rightarrow> string \<Rightarrow> string result \<Rightarrow> string \<Rightarrow> DeviceMetadata result" where
  "LocalDeviceMetadata goos goarch hostname agentVersion = LocalDeviceMetadataForName goos goarch hostname agentVersion []"

definition client_Heartbeat :: "transport \<Rightarrow> bool \<Rightarrow> Client \<Rightarrow> DeviceMetadata \<Rightarrow> go_error option" where
  "client_Heartbeat http ctx client metadata =
     (if \<not> ctx then Some (New ''managed heartbeat context is required'')
      else if DeviceMetadata_Validate metadata \<noteq> None then Some (New ''local device metadata is invalid'')
      else performJSON_empty http ''POST'' (es_ControllerURL (cl_state client) @ ''/v1/agent/heartbeat'')
             (es_DeviceID (cl_state client)) (es_DeviceCredential (cl_state client)) (Some (Some (DeviceMetadata_json metadata)))
             maxHeartbeatRequestBytes 204 ''heartbeat'')"

definition client_FetchPolicy ::
  "(string \<Rightarrow> 8 word list) \<Rightarrow> ed25519 \<Rightarrow> transport \<Rightarrow> policy_calls \<Rightarrow> bool \<Rightarrow> Client \<Rightarrow> disk \<Rightarrow> PolicyDocument result \<times> disk" where
  "client_FetchPolicy sha256 ed http calls ctx client d =
     (if \<not> ctx then (Inl (New ''managed policy context is required''), d)
      else (case performJSON http ''GET'' (es_ControllerURL (cl_state client) @ ''/v1/agent/policy'')
              (es_DeviceID (cl_state client)) (es_DeviceCredential (cl_state client)) None 0 200
              (dec_record True SignedPolicy_fields) zero_SignedPolicy maxPolicyResponseBytes ''fetch policy'' of
        Inl err \<Rightarrow> (Inl err, d)
      | Inr envelope \<Rightarrow>
      (case verifyPinnedPolicy ed (es_PolicyPublicKey (cl_state client)) envelope of
        Some err \<Rightarrow> (Inl err, d)
      | None \<Rightarrow>
      (case persistVerifiedPolicy sha256 ed calls (cl_statePath client) envelope d of
        (Inl err, d') \<Rightarrow> (Inl err, d')
      | (Inr _, d') \<Rightarrow> (Inr (sp_Document envelope), d')))))"

definition client_SubmitReport :: "transport \<Rightarrow> bool \<Rightarrow> Client \<Rightarrow> ReportSync \<Rightarrow> gotime \<Rightarrow> go_error option" where
  "client_SubmitReport http ctx client report now =
     (if \<not> ctx then Some (New ''managed report context is required'')
      else if ReportSync_Validate (UTC now) report \<noteq> None then Some (New ''redacted report is invalid'')
      else (case performJSON http ''POST'' (es_ControllerURL (cl_state client) @ ''/v1/agent/reports'')
              (es_DeviceID (cl_state client)) (es_DeviceCredential (cl_state client)) (Some (ReportSync_json report))
              maxReportRequestBytes 202 (dec_record True accepted_fields) 0 maxReportResponseBytes ''submit report'' of
        Inl err \<Rightarrow> Some err
      | Inr accepted \<Rightarrow>
          if accepted \<noteq> int (length (rs_Findings report))
          then Some (New ''controller acknowledged an unexpected report count'') else None))"

text \<open>The credential is replaced in the client only after the state's file was.\<close>

definition client_RotateCredential ::
  "transport \<Rightarrow> dir_calls \<Rightarrow> io_calls \<Rightarrow> bool \<Rightarrow> Client \<Rightarrow> disk \<Rightarrow> go_error option \<times> Client \<times> disk" where
  "client_RotateCredential http dcalls calls ctx client d =
     (if \<not> ctx then (Some (New ''managed credential rotation context is required''), client, d)
      else (case performJSON http ''POST'' (es_ControllerURL (cl_state client) @ ''/v1/agent/credentials/rotate'')
              (es_DeviceID (cl_state client)) (es_DeviceCredential (cl_state client)) None 0 200
              (dec_record True EnrollmentGrant_fields) zero_EnrollmentGrant maxRotationResponseBytes ''rotate credential'' of
        Inl err \<Rightarrow> (Some err, client, d)
      | Inr grant \<Rightarrow>
      if eg_DeviceID grant \<noteq> es_DeviceID (cl_state client) \<or> \<not> safeCredential (eg_DeviceCredential grant)
      then (Some (New ''controller returned an invalid rotated credential''), client, d)
      else
       (let updated = (cl_state client)\<lparr>es_DeviceCredential := eg_DeviceCredential grant\<rparr>
        in case replaceState dcalls calls (dk_state d) updated of
             (Some _, file) \<Rightarrow> (Some (New ''persist rotated device credential''), client, d\<lparr>dk_state := file\<rparr>)
           | (None, file) \<Rightarrow> (None, client\<lparr>cl_state := updated\<rparr>, d\<lparr>dk_state := file\<rparr>))))"

subsection \<open>Synchronisation\<close>

record SyncResult =
  sy_PolicyID :: string
  sy_PolicyRevision :: "64 word"
  sy_PolicyPath :: string
  sy_ReportingEnabled :: bool
  sy_FindingsSent :: int

text \<open>The finding source is what its \<open>ListFindings\<close> answers (\<open>None\<close> for a nil source).\<close>

definition client_Sync ::
  "(string \<Rightarrow> 8 word list) \<Rightarrow> ed25519 \<Rightarrow> transport \<Rightarrow> policy_calls \<Rightarrow> bool \<Rightarrow> Finding list result option \<Rightarrow> Client
     \<Rightarrow> DeviceMetadata \<Rightarrow> gotime \<Rightarrow> disk \<Rightarrow> SyncResult result \<times> disk" where
  "client_Sync sha256 ed http calls ctx source client metadata now d =
     (if \<not> ctx then (Inl (New ''managed sync context is required''), d)
      else (case source of
        None \<Rightarrow> (Inl (New ''local finding source is required''), d)
      | Some listed \<Rightarrow>
      if IsZero now then (Inl (New ''managed sync timestamp is required''), d)
      else (case client_Heartbeat http ctx client metadata of
        Some err \<Rightarrow> (Inl err, d)
      | None \<Rightarrow>
      (case client_FetchPolicy sha256 ed http calls ctx client d of
        (Inl err, d') \<Rightarrow> (Inl err, d')
      | (Inr policy, d') \<Rightarrow>
      (let outcome = \<lparr>sy_PolicyID = pd_ID policy, sy_PolicyRevision = pd_Revision policy, sy_PolicyPath = cl_policyPath client,
             sy_ReportingEnabled = rp_Enabled (pd_Reporting policy), sy_FindingsSent = 0\<rparr>
       in if \<not> rp_Enabled (pd_Reporting policy) then (Inr outcome, d')
          else (case listed of
            Inl _ \<Rightarrow> (Inl (New ''read local findings for managed sync''), d')
          | Inr localFindings \<Rightarrow>
          (case RedactFindings localFindings of
            Inl err \<Rightarrow> (Inl err, d')
          | Inr redacted \<Rightarrow>
              (case client_SubmitReport http ctx client
                      \<lparr>rs_Schema = ReportSchema, rs_SchemaVersion = ReportSchemaVersion, rs_ReportedAt = UTC now, rs_Findings = redacted\<rparr> now of
                 Some err \<Rightarrow> (Inl err, d')
               | None \<Rightarrow> (Inr (outcome\<lparr>sy_FindingsSent := int (length redacted)\<rparr>), d')))))))))"

end
