(* ===== verification/Managed_Policy_Props.thy ===== *)
theory Managed_Policy_Props
  imports Managed_Policy Controller_Samples
begin

section \<open>The agent never goes back to an older policy\<close>

text \<open>
  The ledger's file reads back as the ledger that was written; one persisted policy leaves its
  revision remembered, and no later event, failed or not, makes the ledger forget it.
\<close>

subsection \<open>Files read back\<close>

lemma safeIdentifier_valid: "safeIdentifier s 128 = validIdentifier s"
  by (simp add: safeIdentifier_def validIdentifier_def maxIdentifierLength_def)

lemma hex_DecodeString_ascii: "hex_DecodeString s = Some bs \<Longrightarrow> ascii s"
  by (induction s arbitrary: bs rule: hex_DecodeString.induct)
    (auto simp: hex_value_def split: option.splits if_splits)

lemma index_of_in: "index_of c ds = Some n \<Longrightarrow> c \<in> set ds"
  by (induction ds arbitrary: n) (auto split: if_splits)

lemma all_indices_in: "all_indices alphabet s = Some ns \<Longrightarrow> set s \<subseteq> set alphabet"
  by (induction s arbitrary: ns) (auto split: option.splits dest: index_of_in)

lemma base64_ascii: "base64_decode std_alphabet s = Some bs \<Longrightarrow> ascii s"
proof -
  assume "base64_decode std_alphabet s = Some bs"
  then have "set s \<subseteq> set std_alphabet \<union> {CHR 0x0A, CHR 0x0D}"
    by (auto simp: base64_decode_def split: option.splits dest!: all_indices_in)
  moreover have "\<forall>c \<in> set std_alphabet \<union> {CHR 0x0A, CHR 0x0D}. byte c < 128" by (simp add: std_alphabet_def)
  ultimately show ?thesis by (auto simp: ascii_def list_all_iff)
qed

lemma decodeStrict_one: "decodeStrict dec z [Some j] = (case dec j z of None \<Rightarrow> Inl (New ''json: cannot unmarshal'') | Some x \<Rightarrow> Inr x)"
  by (simp add: decodeStrict_def split: option.split)

lemma ledger_validate_None_iff:
  "ledger_validate l = None \<longleftrightarrow> rl_Schema l = policyRevisionLedgerSchema \<and> rl_SchemaVersion l = 1
     \<and> length (rl_Policies l) \<le> maxRememberedPolicyIDs \<and> (\<forall>e \<in> set (rl_Policies l). entry_error e = None)
     \<and> distinct (map re_PolicyID (rl_Policies l))"
  by (auto simp: ledger_validate_def policyRevisionLedgerVersion_def)

lemma entry_roundtrip:
  assumes "entry_error e = None"
  shows "dec_record True policyRevisionEntry_fields (policyRevisionEntry_json e) zero_policyRevisionEntry = Some e"
proof -
  have "sanitize (re_PolicyID e) = re_PolicyID e" "sanitize (re_DocumentSHA256 e) = re_DocumentSHA256 e"
    using assms by (auto simp: entry_error_def safeIdentifier_valid controller_identifier_clean hex_DecodeString_ascii split: if_splits)
  then show ?thesis
    unfolding policyRevisionEntry_json_def
    by (subst dec_record_plain)
      (simp_all add: policyRevisionEntry_fields_def plain_name_def by_name_def fld_def zero_policyRevisionEntry_def)
qed

lemma ledger_roundtrip:
  assumes "ledger_validate l = None"
  shows "dec_record True policyRevisionLedger_fields (policyRevisionLedger_json l) zero_policyRevisionLedger = Some l"
proof -
  have v: "rl_Schema l = policyRevisionLedgerSchema" "rl_SchemaVersion l = 1" "\<forall>e \<in> set (rl_Policies l). entry_error e = None"
    using assms by (simp_all add: ledger_validate_None_iff)
  have "dec_slice zero_policyRevisionEntry (dec_record True policyRevisionEntry_fields)
      (JArr (map policyRevisionEntry_json (rl_Policies l))) [] = Some (rl_Policies l)"
    using dec_list_map [of "rl_Policies l" "dec_record True policyRevisionEntry_fields" policyRevisionEntry_json
        zero_policyRevisionEntry "\<lambda>e. e"] v(3)
    by (simp add: dec_slice_def entry_roundtrip)
  moreover have "sanitize policyRevisionLedgerSchema = policyRevisionLedgerSchema" by (simp add: policyRevisionLedgerSchema_def)
  ultimately show ?thesis
    unfolding policyRevisionLedger_json_def using v(1,2)
    by (subst dec_record_plain)
      (simp_all add: policyRevisionLedger_fields_def plain_name_def by_name_def fld_def zero_policyRevisionLedger_def)
qed

lemma signed_roundtrip:
  assumes "VerifySignedPolicy ed envelope = None"
  shows "dec_record True SignedPolicy_fields (SignedPolicy_json envelope) zero_SignedPolicy = Some envelope"
proof -
  have v: "sp_Schema envelope = SignedPolicySchema" "sp_SchemaVersion envelope = 1" "sp_Algorithm envelope = ''Ed25519''"
      "PolicyDocument_Validate (sp_Document envelope) = None"
    and plain: "sanitize (sp_SigningPublicKey envelope) = sp_SigningPublicKey envelope" "sanitize (sp_Signature envelope) = sp_Signature envelope"
    using assms by (auto simp: VerifySignedPolicy_def SignedPolicyVersion_def base64_ascii split: if_splits option.splits)
  have "sanitize SignedPolicySchema = SignedPolicySchema" by (simp add: SignedPolicySchema_def)
  then show ?thesis
    unfolding SignedPolicy_json_def using v plain
    by (subst dec_record_plain)
      (simp_all add: SignedPolicy_fields_def plain_name_def by_name_def fld_def zero_SignedPolicy_def decode_valid_policy)
qed

lemma read_with_simps [simp]:
  "fc_content (read_with rc (Some f)) = sf_stream f"
  "fc_lstat (read_with rc (Some f)) = (if rc_lstat rc then Inr (sf_info f) else Inl io_failed)"
  "fc_open (read_with rc (Some f)) = (if rc_open rc then None else Some io_failed)"
  "fc_stat (read_with rc (Some f)) = (if rc_stat rc then Inr (sf_info f) else Inl io_failed)"
  by (simp_all add: read_with_def calls_of_def Let_def)

text \<open>Reading a ledger that is there either fails or gives what its file holds.\<close>

definition file_ledger :: "stored_file \<Rightarrow> policyRevisionLedger result" where
  "file_ledger f = loadPolicyRevisionLedger (read_with \<lparr>rc_lstat = True, rc_open = True, rc_stat = True\<rparr> (Some f))"

lemma load_file_ledger:
  "loadPolicyRevisionLedger (read_with rc (Some f)) = Inr l \<Longrightarrow> file_ledger f = Inr l"
  by (auto simp: loadPolicyRevisionLedger_def file_ledger_def split: if_splits sum.splits option.splits)

lemma check_distinct_SomeD:
  "check_distinct chk key dup seen xs = Some e \<Longrightarrow> e = dup \<or> (\<exists>x \<in> set xs. chk x = Some e)"
  by (induction xs arbitrary: seen) (auto split: option.splits if_splits)

lemma ledger_validate_SomeD:
  assumes "ledger_validate l = Some err"
  shows "\<not> errors_Is err errLedgerNotFound"
proof -
  have "err = ledger_invalid \<or> err = New ''managed policy revision ledger contains duplicate policy ids''"
    using assms by (auto simp: ledger_validate_def entry_error_def dest!: check_distinct_SomeD split: if_splits)
  then show ?thesis by (auto simp: ledger_invalid_def errLedgerNotFound_def)
qed

lemma ledger_present:
  "loadPolicyRevisionLedger (read_with rc (Some f)) = Inl err \<Longrightarrow> \<not> errors_Is err errLedgerNotFound"
  by (auto simp: loadPolicyRevisionLedger_def ledger_validate_SomeD split: if_splits sum.splits option.splits)
    (simp_all add: errLedgerNotFound_def ErrNotExist_def io_failed_def)

lemma loaded_valid: "loadPolicyRevisionLedger calls = Inr l \<Longrightarrow> ledger_validate l = None"
  by (auto simp: loadPolicyRevisionLedger_def split: if_splits sum.splits option.splits)

lemma written_ledger:
  assumes "ledger_validate l = None" and "file_ledger (written (policyRevisionLedger_json l)) = Inr l'"
  shows "l' = l"
  using assms(2) by (auto simp: file_ledger_def loadPolicyRevisionLedger_def written_def decodeStrict_one
      ledger_roundtrip [OF assms(1)] assms(1) split: if_splits)

subsection \<open>What the ledger remembers\<close>

text \<open>An entry that stands for the same policy at a later revision, or at the same with the same digest.\<close>

definition at_least :: "policyRevisionEntry \<Rightarrow> policyRevisionEntry \<Rightarrow> bool" where
  "at_least e e' \<longleftrightarrow> re_PolicyID e' = re_PolicyID e
     \<and> (re_HighestRevision e < re_HighestRevision e'
        \<or> re_HighestRevision e' = re_HighestRevision e \<and> re_DocumentSHA256 e' = re_DocumentSHA256 e)"

definition entry_of :: "(string \<Rightarrow> 8 word list) \<Rightarrow> PolicyDocument \<Rightarrow> policyRevisionEntry" where
  "entry_of sha256 d = \<lparr>re_PolicyID = pd_ID d, re_HighestRevision = pd_Revision d,
     re_DocumentSHA256 = policyDocumentDigest sha256 d\<rparr>"

lemma at_least_refl [simp]: "at_least e e"
  by (simp add: at_least_def)

lemma at_least_trans: "at_least e e' \<Longrightarrow> at_least e' e'' \<Longrightarrow> at_least e e''"
  unfolding at_least_def by (metis order_less_trans)

lemma observe_entries_None: "observe_entries dg d es = None \<longleftrightarrow> pd_ID d \<notin> re_PolicyID ` set es"
  by (induction es) auto

lemma observe_later:
  assumes "re_PolicyID f \<noteq> pd_ID d" and "observe_entries dg d (f # es) = Some (Inr (c, es'))"
  shows "\<exists>r. observe_entries dg d es = Some (Inr (c, r)) \<and> es' = f # r"
proof (cases "observe_entries dg d es")
  case (Some z)
  with assms show ?thesis by (cases z) auto
qed (use assms in simp)

lemma observe_entries_Some:
  assumes "observe_entries (policyDocumentDigest sha256 d) d es = Some (Inr (changed, es'))"
  shows "entry_of sha256 d \<in> set es' \<and> (\<forall>e \<in> set es. \<exists>e' \<in> set es'. at_least e e')
     \<and> (\<not> changed \<longrightarrow> es' = es) \<and> map re_PolicyID es' = map re_PolicyID es"
  using assms
proof (induction es arbitrary: es')
  case (Cons e es)
  show ?case
  proof (cases "re_PolicyID e = pd_ID d")
    case True
    then consider "pd_Revision d = re_HighestRevision e" "re_DocumentSHA256 e = policyDocumentDigest sha256 d" "es' = e # es"
      | "re_HighestRevision e < pd_Revision d" "changed"
        "es' = e\<lparr>re_HighestRevision := pd_Revision d, re_DocumentSHA256 := policyDocumentDigest sha256 d\<rparr> # es"
      using Cons.prems by (auto split: if_splits)
    then show ?thesis
    proof cases
      case 1
      then have "e = entry_of sha256 d" using True by (simp add: entry_of_def)
      then show ?thesis using 1 by (auto intro: at_least_refl)
    next
      case 2
      then have "e\<lparr>re_HighestRevision := pd_Revision d, re_DocumentSHA256 := policyDocumentDigest sha256 d\<rparr> = entry_of sha256 d"
        using True by (simp add: entry_of_def)
      then show ?thesis using 2 True by (auto simp: at_least_def entry_of_def intro: at_least_refl)
    qed
  next
    case False
    then obtain r where r: "observe_entries (policyDocumentDigest sha256 d) d es = Some (Inr (changed, r))" "es' = e # r"
      using observe_later [OF False Cons.prems] by blast
    from Cons.IH [OF r(1)] r(2) show ?thesis by auto
  qed
qed simp

lemma observe_Inr:
  assumes "observe sha256 d l = Inr (changed, l')"
  shows "entry_of sha256 d \<in> set (rl_Policies l')" "e \<in> set (rl_Policies l) \<Longrightarrow> \<exists>e' \<in> set (rl_Policies l'). at_least e e'"
    "\<not> changed \<Longrightarrow> l' = l"
proof -
  have "entry_of sha256 d \<in> set (rl_Policies l') \<and> (e \<in> set (rl_Policies l) \<longrightarrow> (\<exists>e' \<in> set (rl_Policies l'). at_least e e'))
     \<and> (\<not> changed \<longrightarrow> l' = l)"
  proof (cases "observe_entries (policyDocumentDigest sha256 d) d (rl_Policies l)")
    case None
    with assms show ?thesis by (auto simp: observe_def entry_of_def Let_def split: if_splits intro: at_least_refl)
  next
    case (Some r)
    then obtain es where "r = Inr (changed, es)" "l' = l\<lparr>rl_Policies := es\<rparr>"
      using assms by (auto simp: observe_def Let_def split: sum.splits)
    with observe_entries_Some [of sha256 d "rl_Policies l" changed es] Some show ?thesis by auto
  qed
  then show "entry_of sha256 d \<in> set (rl_Policies l')" "e \<in> set (rl_Policies l) \<Longrightarrow> \<exists>e' \<in> set (rl_Policies l'). at_least e e'"
    "\<not> changed \<Longrightarrow> l' = l" by blast+
qed

text \<open>A document that passes is at least at the ledger's revision of its policy.\<close>

lemma observe_accepts:
  assumes "observe sha256 d l = Inr r" and "distinct (map re_PolicyID (rl_Policies l))"
    and "e \<in> set (rl_Policies l)" and "re_PolicyID e = pd_ID d"
  shows "at_least e (entry_of sha256 d)"
proof -
  have "observe_entries dg d es = Some (Inr x) \<Longrightarrow> distinct (map re_PolicyID es) \<Longrightarrow> e \<in> set es
      \<Longrightarrow> re_HighestRevision e < pd_Revision d \<or> pd_Revision d = re_HighestRevision e \<and> dg = re_DocumentSHA256 e" for dg es x
    using assms(4)
  proof (induction es arbitrary: x)
    case (Cons f es)
    show ?case
    proof (cases "re_PolicyID f = pd_ID d")
      case True
      then have "f = e" using Cons.prems by (auto simp: image_iff)
      then show ?thesis using Cons.prems(1) True by (auto split: if_splits)
    next
      case False
      then obtain y where "observe_entries dg d es = Some (Inr y)"
        using observe_later [of f d dg es "fst x" "snd x"] Cons.prems(1) by auto
      then show ?thesis using Cons.IH [of y] Cons.prems False by auto
    qed
  qed simp
  moreover have "observe_entries (policyDocumentDigest sha256 d) d (rl_Policies l) \<noteq> None"
    unfolding observe_entries_None using assms(3,4) by (auto intro: rev_image_eqI)
  then obtain x where "observe_entries (policyDocumentDigest sha256 d) d (rl_Policies l) = Some (Inr x)"
    using assms(1) by (auto simp: observe_def Let_def split: sum.splits)
  ultimately show ?thesis using assms(2-4) by (auto simp: at_least_def entry_of_def)
qed

definition remembers :: "policyRevisionEntry \<Rightarrow> disk \<Rightarrow> bool" where
  "remembers e d \<longleftrightarrow> (case dk_ledger d of
     None \<Rightarrow> False
   | Some f \<Rightarrow> (\<forall>l. file_ledger f = Inr l \<longrightarrow> (\<exists>e' \<in> set (rl_Policies l). at_least e e')))"

text \<open>One guarded step of a function that returns a result and the state.\<close>

lemma refusal_step:
  assumes "(case x of None \<Rightarrow> k | Some err \<Rightarrow> (Some err, s)) = (r, s')"
  obtains err where "r = Some err" and "s' = s" | "x = None" and "k = (r, s')"
  using assms by (cases x) auto

lemma failing_step:
  assumes "(case x of None \<Rightarrow> k | Some err \<Rightarrow> (Inl err, s)) = (r, s')"
  obtains err where "r = Inl err" and "s' = s" | "x = None" and "k = (r, s')"
  using assms by (cases x) auto

lemma result_step:
  assumes "(case x of Inl err \<Rightarrow> (Inl err, s) | Inr y \<Rightarrow> k y) = (r, s')"
  obtains err where "r = Inl err" and "s' = s" | y where "x = Inr y" and "k y = (r, s')"
  using assms by (cases x) auto

lemma persist_ledger_cases:
  assumes "persistPolicyRevisionLedger calls l file = (eo, file')"
  obtains "file' = file" and "eo \<noteq> None"
    | "file' = Some (written (policyRevisionLedger_json l))" and "ledger_validate l = None"
proof -
  have "file' = file \<and> eo \<noteq> None \<or> file' = Some (written (policyRevisionLedger_json l)) \<and> ledger_validate l = None"
    using assms unfolding persistPolicyRevisionLedger_def Let_def
    by (elim refusal_step) (auto split: if_splits elim!: refusal_step)
  then show thesis using that by blast
qed

lemma install_policy_ledger: "install_policy calls path envelope d = (r, d') \<Longrightarrow> dk_ledger d' = dk_ledger d"
  by (auto simp: install_policy_def Let_def split: option.splits if_splits)

text \<open>Either nothing happens to the ledger, or the document passed the ledger as found.\<close>

lemma persist_cases:
  assumes "persistVerifiedPolicy sha256 ed calls path envelope d = (r, d')"
  obtains (refused) err where "dk_ledger d' = dk_ledger d" and "r = Inl err"
    | (kept) existing l where "dk_ledger d' = dk_ledger d"
        "current_ledger sha256 existing (read_with (py_read_ledger calls) (dk_ledger d)) = Inr (False, l)"
        "observe sha256 (sp_Document envelope) l = Inr (False, l)"
    | (recorded) existing missing l changed l' where
        "current_ledger sha256 existing (read_with (py_read_ledger calls) (dk_ledger d)) = Inr (missing, l)"
        "observe sha256 (sp_Document envelope) l = Inr (changed, l')"
        "dk_ledger d' = Some (written (policyRevisionLedger_json l'))" "ledger_validate l' = None"
proof -
  let ?read = "read_with (py_read_ledger calls) (dk_ledger d)"
  have refuse: thesis if "r = Inl err" "d' = d" for err using that refused by blast
  from assms [unfolded persistVerifiedPolicy_def Let_def] show thesis
  proof (elim result_step failing_step)
    fix state existing found observed
    assume found: "current_ledger sha256 existing ?read = Inr found"
      and rest: "(case found of (missing, l) \<Rightarrow>
         case observe sha256 (sp_Document envelope) l of Inl err \<Rightarrow> (Inl err, d)
         | Inr (changed, l') \<Rightarrow>
            (case if missing \<or> changed then persistPolicyRevisionLedger (py_write_ledger calls) l' (dk_ledger d) else (None, dk_ledger d) of
               (None, file) \<Rightarrow> if unchanged_policy existing (sp_Document envelope) then (Inr (PolicyPath path), d\<lparr>dk_ledger := file\<rparr>)
                  else install_policy (py_write_policy calls) (PolicyPath path) envelope (d\<lparr>dk_ledger := file\<rparr>)
             | (Some err, file) \<Rightarrow> (Inl err, d\<lparr>dk_ledger := file\<rparr>))) = (r, d')"
    obtain missing l where fl: "found = (missing, l)" by (cases found)
    show thesis
    proof (cases "observe sha256 (sp_Document envelope) l")
      case (Inr z)
      obtain changed l' where z: "z = (changed, l')" by (cases z)
      obtain eo stored where w: "(if missing \<or> changed then persistPolicyRevisionLedger (py_write_ledger calls) l' (dk_ledger d)
          else (None, dk_ledger d)) = (eo, stored)" by fastforce
      have out: "dk_ledger d' = stored" "eo = Some err \<Longrightarrow> r = Inl err" for err
        using rest fl Inr z w by (auto split: option.splits if_splits dest!: install_policy_ledger)
      show thesis
      proof (cases "missing \<or> changed")
        case True
        with w have "persistPolicyRevisionLedger (py_write_ledger calls) l' (dk_ledger d) = (eo, stored)" by simp
        then show thesis
        proof (cases rule: persist_ledger_cases)
          case 1
          then show thesis using out refused by blast
        next
          case 2
          then show thesis using found fl Inr z out recorded by blast
        qed
      next
        case False
        then show thesis using found fl Inr z out w observe_Inr(3) [of sha256 _ l changed l'] kept by simp
      qed
    next
      case (Inl err)
      then show thesis using rest fl refuse [of err] by auto
    qed
  qed (use refuse in blast)+
qed

lemma current_ledger_found:
  assumes "current_ledger sha256 existing (read_with rc (Some f)) = Inr (missing, l)"
  shows "file_ledger f = Inr l \<and> ledger_validate l = None"
  using assms by (auto simp: current_ledger_def dest: load_file_ledger loaded_valid ledger_present split: sum.splits if_splits)

lemma current_ledger_absent: "\<not> current_ledger sha256 existing (read_with rc None) = Inr (False, l)"
proof -
  have "\<exists>err. loadPolicyRevisionLedger (read_with rc None) = Inl err"
    by (simp add: loadPolicyRevisionLedger_def read_with_def calls_of_def Let_def)
  then obtain err where "loadPolicyRevisionLedger (read_with rc None) = Inl err" by blast
  moreover have "map_sum id (\<lambda>(_, y). (True, y)) z \<noteq> Inr (False, l)" for z :: "(bool \<times> policyRevisionLedger) result"
    by (cases z) auto
  ultimately show ?thesis by (auto simp: current_ledger_def Let_def split: option.splits)
qed

lemma remembers_persist:
  assumes "remembers e d" and "persistVerifiedPolicy sha256 ed calls path envelope d = (r, d')"
  shows "remembers e d'"
proof -
  obtain f where f: "dk_ledger d = Some f" using assms(1) by (auto simp: remembers_def split: option.splits)
  from assms(2) show ?thesis
  proof (cases rule: persist_cases)
    case (recorded existing missing l changed l')
    have "file_ledger f = Inr l" using current_ledger_found recorded(1) f by simp
    then obtain e' where e': "e' \<in> set (rl_Policies l)" "at_least e e'"
      using assms(1) f by (auto simp: remembers_def)
    then obtain e'' where "e'' \<in> set (rl_Policies l')" "at_least e e''"
      using observe_Inr(2) [OF recorded(2) e'(1)] at_least_trans by blast
    then show ?thesis
      using recorded(3) written_ledger [OF recorded(4)] by (auto simp: remembers_def)
  qed (use assms(1) in \<open>simp_all add: remembers_def\<close>)
qed

lemma persist_remembers:
  assumes "persistVerifiedPolicy sha256 ed calls path envelope d = (Inr p, d')"
  shows "remembers (entry_of sha256 (sp_Document envelope)) d'"
  using assms
proof (cases rule: persist_cases)
  case (kept existing l)
  then obtain f where f: "dk_ledger d = Some f" using current_ledger_absent by (cases "dk_ledger d") auto
  have "file_ledger f = Inr l" using current_ledger_found kept(2) f by simp
  then show ?thesis using kept(1) f observe_Inr(1) [OF kept(3)] by (auto simp: remembers_def intro: at_least_refl)
next
  case (recorded existing missing l changed l')
  then show ?thesis
    using written_ledger [OF recorded(4)] observe_Inr(1) [OF recorded(2)] by (auto simp: remembers_def intro: at_least_refl)
qed simp

lemma persist_refuses_older:
  assumes "remembers e d" and "persistVerifiedPolicy sha256 ed calls path envelope d = (Inr p, d')"
    and "re_PolicyID e = pd_ID (sp_Document envelope)"
  shows "at_least e (entry_of sha256 (sp_Document envelope))"
proof -
  obtain f where f: "dk_ledger d = Some f" using assms(1) by (auto simp: remembers_def split: option.splits)
  obtain existing missing l r where l: "current_ledger sha256 existing (read_with (py_read_ledger calls) (Some f)) = Inr (missing, l)"
    and r: "observe sha256 (sp_Document envelope) l = Inr r"
    using assms(2) by (cases rule: persist_cases) (auto simp: f)
  have l': "file_ledger f = Inr l" "ledger_validate l = None" using current_ledger_found [OF l] by simp_all
  then obtain e' where e': "e' \<in> set (rl_Policies l)" "at_least e e'" using assms(1) f by (auto simp: remembers_def)
  have "at_least e' (entry_of sha256 (sp_Document envelope))"
    by (rule observe_accepts [OF r]) (use l' e' assms(3) in \<open>auto simp: ledger_validate_None_iff at_least_def\<close>)
  with e'(2) show ?thesis by (rule at_least_trans)
qed

lemma loaded_at_least:
  assumes "remembers e d" and "LoadPolicy sha256 ed calls path d = Inr cached" and "re_PolicyID e = pd_ID cached"
  shows "at_least e (entry_of sha256 cached)"
proof -
  obtain f where f: "dk_ledger d = Some f" using assms(1) by (auto simp: remembers_def split: option.splits)
  obtain l where l: "loadPolicyRevisionLedger (read_with (py_read_ledger calls) (Some f)) = Inr l"
      "verifyCurrent sha256 l cached = None"
    using assms(2) f by (auto simp: LoadPolicy_def split: sum.splits option.splits)
  then have valid: "file_ledger f = Inr l" "distinct (map re_PolicyID (rl_Policies l))"
    using load_file_ledger loaded_valid by (auto simp: ledger_validate_None_iff)
  then obtain e' where e': "e' \<in> set (rl_Policies l)" "at_least e e'" using assms(1) f by (auto simp: remembers_def)
  obtain c where c: "find (\<lambda>e. re_PolicyID e = pd_ID cached) (rl_Policies l) = Some c" "c = entry_of sha256 cached"
    using l(2) by (auto simp: verifyCurrent_def entry_of_def split: option.splits if_splits dest: find_SomeD)
  have "c \<in> set (rl_Policies l)" "re_PolicyID c = re_PolicyID e'"
    using find_SomeD [OF c(1)] assms(3) e'(2) by (simp_all add: at_least_def)
  then have "e' = c" using valid(2) e'(1) by (auto simp: distinct_map dest: inj_onD)
  then show ?thesis using e'(2) c(2) by simp
qed

subsection \<open>Histories of an agent's files\<close>

text \<open>
  Between two calls the state and the policy may be replaced by anything, by a credential
  rotation, a new enrollment or by hand; only the ledger is left to the agent.
\<close>

datatype policy_event =
    Persist policy_calls SignedPolicy
  | New_state "stored_file option"
  | New_policy "stored_file option"

fun policy_step ::
  "(string \<Rightarrow> 8 word list) \<Rightarrow> ed25519 \<Rightarrow> string \<Rightarrow> disk \<Rightarrow> policy_event \<Rightarrow> disk" where
  "policy_step sha256 ed path d (Persist calls envelope) = snd (persistVerifiedPolicy sha256 ed calls path envelope d)"
| "policy_step sha256 ed path d (New_state f) = d\<lparr>dk_state := f\<rparr>"
| "policy_step sha256 ed path d (New_policy f) = d\<lparr>dk_policy := f\<rparr>"

interpretation agent: machine "policy_step sha256 ed path" "remembers e" for sha256 ed path e
proof
  show "remembers e (policy_step sha256 ed path d ev)" if "remembers e d" for d ev
  proof (cases ev)
    case (Persist calls envelope)
    then show ?thesis
      using remembers_persist [OF that, of sha256 ed calls path envelope] by (cases "persistVerifiedPolicy sha256 ed calls path envelope d") auto
  qed (use that in \<open>simp_all add: remembers_def\<close>)
qed

lemma remembered_later:
  assumes "persistVerifiedPolicy sha256 ed calls path envelope d = (Inr p, d')"
  shows "remembers (entry_of sha256 (sp_Document envelope)) (foldl (policy_step sha256 ed path) d' evs)"
  using agent.run_inv [OF persist_remembers [OF assms], of sha256 ed path evs] by (simp add: agent.run_def)

end
