(* ===== verification/Managed_Policy_Cache.thy ===== *)
theory Managed_Policy_Cache
  imports Managed_Policy_Props
begin

section \<open>An accepted policy is the cached policy\<close>

text \<open>
  After \<open>persistVerifiedPolicy\<close> succeeded, \<open>LoadPolicy\<close> gives back the accepted document. A
  sample agent on which the theorems about the policy files are applied.
\<close>

lemma persist_accepted:
  assumes "persistVerifiedPolicy sha256 ed calls path envelope d = (Inr p, d')"
  obtains state existing where "LoadState path (read_with (py_read_state calls) (dk_state d)) = Inr state"
    and "verifyPinnedPolicy ed (es_PolicyPublicKey state) envelope = None"
    and "cached_policy ed (es_PolicyPublicKey state) (read_with (py_read_policy calls) (dk_policy d)) = Inr existing"
    and "dk_state d' = dk_state d"
    and "dk_policy d' = (if unchanged_policy existing (sp_Document envelope) then dk_policy d
           else Some (written (SignedPolicy_json envelope)))"
proof -
  have install: "dk_state e' = dk_state e \<and> dk_policy e' = Some (written (SignedPolicy_json envelope))"
    if "install_policy io path' envelope e = (Inr p, e')" for io path' e e'
    using that by (auto simp: install_policy_def Let_def split: option.splits if_splits)
  from assms [unfolded persistVerifiedPolicy_def Let_def] show thesis
  proof (elim result_step failing_step)
    fix state existing found
    assume parts: "LoadState path (read_with (py_read_state calls) (dk_state d)) = Inr state"
        "verifyPinnedPolicy ed (es_PolicyPublicKey state) envelope = None"
        "cached_policy ed (es_PolicyPublicKey state) (read_with (py_read_policy calls) (dk_policy d)) = Inr existing"
      and rest: "(case found of (missing, l) \<Rightarrow>
         case observe sha256 (sp_Document envelope) l of Inl err \<Rightarrow> (Inl err, d)
         | Inr (changed, l') \<Rightarrow>
            (case if missing \<or> changed then persistPolicyRevisionLedger (py_write_ledger calls) l' (dk_ledger d) else (None, dk_ledger d) of
               (None, file) \<Rightarrow> if unchanged_policy existing (sp_Document envelope) then (Inr (PolicyPath path), d\<lparr>dk_ledger := file\<rparr>)
                  else install_policy (py_write_policy calls) (PolicyPath path) envelope (d\<lparr>dk_ledger := file\<rparr>)
             | (Some err, file) \<Rightarrow> (Inl err, d\<lparr>dk_ledger := file\<rparr>))) = (Inr p, d')"
    from rest have "dk_state d' = dk_state d \<and> dk_policy d' = (if unchanged_policy existing (sp_Document envelope) then dk_policy d
           else Some (written (SignedPolicy_json envelope)))"
      by (auto split: prod.splits sum.splits option.splits if_splits dest!: install)
    with parts show thesis by (intro that) auto
  qed simp_all
qed

text \<open>Calls that all succeed.\<close>

definition reads_well :: "policy_calls \<Rightarrow> bool" where
  "reads_well calls \<longleftrightarrow> list_all (\<lambda>rc. rc_lstat rc \<and> rc_open rc \<and> rc_stat rc)
     [py_read_state calls, py_read_policy calls, py_read_ledger calls]"

lemma LoadState_quiet:
  assumes "LoadState path (read_with rc f) = Inr state" and "rc_lstat rc'" and "rc_open rc'" and "rc_stat rc'"
  shows "LoadState path (read_with rc' f) = Inr state"
  using assms by (cases f) (auto simp: LoadState_def read_with_def calls_of_def Let_def split: if_splits sum.splits option.splits)

lemma loadSignedPolicyFile_quiet:
  assumes "loadSignedPolicyFile (read_with rc f) = Inr envelope" and "rc_lstat rc'" and "rc_open rc'" and "rc_stat rc'"
  shows "loadSignedPolicyFile (read_with rc' f) = Inr envelope"
  using assms by (cases f) (auto simp: loadSignedPolicyFile_def read_with_def calls_of_def Let_def split: if_splits sum.splits)

lemma loadPolicyRevisionLedger_quiet:
  assumes "rc_lstat rc" and "rc_open rc" and "rc_stat rc"
  shows "loadPolicyRevisionLedger (read_with rc (Some f)) = file_ledger f"
  using assms by (simp add: file_ledger_def loadPolicyRevisionLedger_def)

definition within_limits :: "disk \<Rightarrow> bool" where
  "within_limits d \<longleftrightarrow> (\<forall>f. dk_policy d = Some f \<longrightarrow> fin_size (sf_info f) \<le> maxPolicyFileBytes)
     \<and> (\<forall>f. dk_ledger d = Some f \<longrightarrow> fin_size (sf_info f) \<le> maxPolicyRevisionLedgerBytes)"

lemma written_info [simp]: "private_file (sf_info (written j))" "sf_stream (written j) = [Some j]"
  by (simp_all add: written_def private_file_def)

lemma ledger_after:
  assumes "persistVerifiedPolicy sha256 ed calls path envelope d = (Inr p, d')" and "within_limits d'"
  obtains f l where "dk_ledger d' = Some f" and "file_ledger f = Inr l"
    and "entry_of sha256 (sp_Document envelope) \<in> set (rl_Policies l)" and "distinct (map re_PolicyID (rl_Policies l))"
  using assms(1)
proof (cases rule: persist_cases)
  case (kept existing l)
  then obtain f where f: "dk_ledger d = Some f" using current_ledger_absent by (cases "dk_ledger d") auto
  have "file_ledger f = Inr l \<and> ledger_validate l = None" using current_ledger_found kept(2) f by simp
  then show thesis using that [of f l] kept(1) f observe_Inr(1) [OF kept(3)] by (simp add: ledger_validate_None_iff)
next
  case (recorded existing missing l changed l')
  have "fin_size (sf_info (written (policyRevisionLedger_json l'))) \<le> maxPolicyRevisionLedgerBytes"
    using assms(2) recorded(3) by (simp add: within_limits_def)
  then have "file_ledger (written (policyRevisionLedger_json l')) = Inr l'"
    by (simp add: file_ledger_def loadPolicyRevisionLedger_def decodeStrict_one ledger_roundtrip recorded(4))
  then show thesis using that [of _ l'] recorded(3,4) observe_Inr(1) [OF recorded(2)] by (simp add: ledger_validate_None_iff)
qed simp

lemma verifyCurrent_entry:
  assumes "entry_of sha256 d \<in> set (rl_Policies l)" and "distinct (map re_PolicyID (rl_Policies l))"
    and "pd_ID d' = pd_ID d" and "pd_Revision d' = pd_Revision d" and "policyDocumentDigest sha256 d' = policyDocumentDigest sha256 d"
  shows "verifyCurrent sha256 l d' = None"
proof -
  have "find (\<lambda>e. re_PolicyID e = pd_ID d) es = Some (entry_of sha256 d)"
    if "entry_of sha256 d \<in> set es" "distinct (map re_PolicyID es)" for es
    using that by (induction es) (force simp: entry_of_def image_iff)+
  then show ?thesis using assms by (simp add: verifyCurrent_def entry_of_def)
qed

lemma persist_then_load:
  assumes "persistVerifiedPolicy sha256 ed calls path envelope d = (Inr p, d')"
    and "within_limits d'" and "reads_well calls'"
  shows "\<exists>cached. LoadPolicy sha256 ed calls' path d' = Inr cached \<and> policiesEqual cached (sp_Document envelope)
     \<and> pd_ID cached = pd_ID (sp_Document envelope) \<and> pd_Revision cached = pd_Revision (sp_Document envelope)
     \<and> PolicyDocument_Validate cached = None"
proof -
  have quiet: "rc_lstat (py_read_state calls')" "rc_open (py_read_state calls')" "rc_stat (py_read_state calls')"
      "rc_lstat (py_read_policy calls')" "rc_open (py_read_policy calls')" "rc_stat (py_read_policy calls')"
      "rc_lstat (py_read_ledger calls')" "rc_open (py_read_ledger calls')" "rc_stat (py_read_ledger calls')"
    using assms(3) by (simp_all add: reads_well_def)
  obtain state existing where st: "LoadState path (read_with (py_read_state calls) (dk_state d)) = Inr state"
    and pinned: "verifyPinnedPolicy ed (es_PolicyPublicKey state) envelope = None"
    and old: "cached_policy ed (es_PolicyPublicKey state) (read_with (py_read_policy calls) (dk_policy d)) = Inr existing"
    and d': "dk_state d' = dk_state d" "dk_policy d' = (if unchanged_policy existing (sp_Document envelope) then dk_policy d
           else Some (written (SignedPolicy_json envelope)))"
    using assms(1) by (rule persist_accepted)
  have state: "LoadState path (read_with (py_read_state calls') (dk_state d')) = Inr state"
    unfolding d'(1) by (rule LoadState_quiet [OF st quiet(1-3)])
  obtain cached where cached: "loadSignedPolicyFile (read_with (py_read_policy calls') (dk_policy d')) = Inr cached"
      "verifyPinnedPolicy ed (es_PolicyPublicKey state) cached = None"
    and same: "policiesEqual (sp_Document cached) (sp_Document envelope)" "pd_ID (sp_Document cached) = pd_ID (sp_Document envelope)"
      "pd_Revision (sp_Document cached) = pd_Revision (sp_Document envelope)"
  proof (cases "unchanged_policy existing (sp_Document envelope)")
    case True
    then obtain c where c: "existing = Some c" "policiesEqual (sp_Document c) (sp_Document envelope)"
        "pd_ID (sp_Document c) = pd_ID (sp_Document envelope)" "pd_Revision (sp_Document c) = pd_Revision (sp_Document envelope)"
      by (auto simp: unchanged_policy_def split: option.splits)
    then have "loadSignedPolicyFile (read_with (py_read_policy calls) (dk_policy d)) = Inr c"
        "verifyPinnedPolicy ed (es_PolicyPublicKey state) c = None"
      using old by (auto simp: cached_policy_def split: sum.splits if_splits)
    with True c d'(2) show thesis using that [of c] loadSignedPolicyFile_quiet [OF _ quiet(4-6)] by simp
  next
    case False
    have v: "VerifySignedPolicy ed envelope = None" using pinned by (auto simp: verifyPinnedPolicy_def split: sum.splits if_splits)
    have "fin_size (sf_info (written (SignedPolicy_json envelope))) \<le> maxPolicyFileBytes"
      using assms(2) False d'(2) by (simp add: within_limits_def)
    then have "loadSignedPolicyFile (read_with (py_read_policy calls') (dk_policy d')) = Inr envelope"
      using False d'(2) quiet by (simp add: loadSignedPolicyFile_def decodeStrict_one signed_roundtrip [OF v])
    with pinned show thesis using that [of envelope] by (simp add: policiesEqual_def)
  qed
  obtain f l where f: "dk_ledger d' = Some f" "file_ledger f = Inr l"
      "entry_of sha256 (sp_Document envelope) \<in> set (rl_Policies l)" "distinct (map re_PolicyID (rl_Policies l))"
    using assms(1,2) by (rule ledger_after)
  then have "loadPolicyRevisionLedger (read_with (py_read_ledger calls') (dk_ledger d')) = Inr l"
    using loadPolicyRevisionLedger_quiet [OF quiet(7-9)] by simp
  moreover have "policyDocumentDigest sha256 (sp_Document cached) = policyDocumentDigest sha256 (sp_Document envelope)"
    using same(1) by (simp add: policyDocumentDigest_def policiesEqual_def)
  then have "verifyCurrent sha256 l (sp_Document cached) = None" by (rule verifyCurrent_entry [OF f(3,4) same(2,3)])
  ultimately have "LoadPolicy sha256 ed calls' path d' = Inr (sp_Document cached)"
    using state cached by (simp add: LoadPolicy_def)
  moreover have "PolicyDocument_Validate (sp_Document cached) = None"
    using cached(2) by (auto simp: verifyPinnedPolicy_def VerifySignedPolicy_def split: sum.splits if_splits option.splits)
  ultimately show ?thesis using same by blast
qed


subsection \<open>A sample agent\<close>

definition sample_state :: EnrollmentState where
  "sample_state = \<lparr>es_Schema = StateSchema, es_SchemaVersion = StateSchemaVersion, es_ControllerURL = ''https://c'',
     es_DeviceID = ''d1'', es_DeviceCredential = ''0123456789abcdef0123456789abcdef'',
     es_PolicyPublicKey = base64_encode std_alphabet (replicate 32 7), es_EnrolledAt = sample_now\<rparr>"

definition sample_io :: io_calls where
  "sample_io = \<lparr>io_create = True, io_chmod = True, io_write = True, io_sync = True, io_close = True, io_lstat = True,
     io_install = True, io_opendir = True, io_syncdir = True\<rparr>"

definition sample_calls :: policy_calls where
  "sample_calls =
    (let rc = \<lparr>rc_lstat = True, rc_open = True, rc_stat = True\<rparr>;
         info = \<lparr>fin_regular = True, fin_perm = 384, fin_size = 0, fin_inode = 0\<rparr>
     in \<lparr>py_read_state = rc, py_read_policy = rc, py_read_ledger = rc,
       py_directory = \<lparr>dc_lstat = Found \<lparr>di_is_dir = True, di_symlink = False, di_perm = 448\<rparr>, dc_mkdir = True, dc_chmod = True,
         dc_lstat_again = NotExist\<rparr>,
       py_lock = \<lparr>lk_open = True, lk_newfile = True, lk_stat = Inr info, lk_lstat = Inr info, lk_flock = True\<rparr>,
       py_write_ledger = sample_io, py_write_policy = sample_io\<rparr>)"

definition sample_disk :: disk where
  "sample_disk = \<lparr>dk_state = Some \<lparr>sf_info = \<lparr>fin_regular = True, fin_perm = 384, fin_size = 300, fin_inode = 0\<rparr>,
     sf_stream = [EnrollmentState_json sample_state]\<rparr>, dk_policy = None, dk_ledger = None\<rparr>"

definition sample_envelope :: SignedPolicy where
  "sample_envelope = \<lparr>sp_Schema = SignedPolicySchema, sp_SchemaVersion = SignedPolicyVersion, sp_Document = sample_policy,
     sp_Algorithm = ''Ed25519'', sp_SigningPublicKey = base64_encode std_alphabet (replicate 32 7),
     sp_Signature = base64_encode std_alphabet (replicate 64 7)\<rparr>"

text \<open>A hash and a signature scheme that are quick to evaluate.\<close>

definition flat_sha256 :: "string \<Rightarrow> 8 word list" where
  "flat_sha256 s = replicate 32 1"

definition flat_ed25519 :: ed25519 where
  "flat_ed25519 = \<lparr>ed_Sign = (\<lambda>key message. replicate 64 7), ed_Verify = (\<lambda>key message signature. signature = replicate 64 7)\<rparr>"

definition sample_ledger :: policyRevisionLedger where
  "sample_ledger = \<lparr>rl_Schema = policyRevisionLedgerSchema, rl_SchemaVersion = policyRevisionLedgerVersion,
     rl_Policies = [entry_of flat_sha256 sample_policy]\<rparr>"

lemma sample_key: "decodePublicKey (base64_encode std_alphabet (replicate 32 7)) = Inr (replicate 32 7)"
  by (simp add: decodePublicKey_def)

lemma sample_text: "json_exact_time sample_now" "json_time sample_now" "\<not> IsZero sample_now"
proof -
  show "json_time sample_now" by code_simp
  then show "json_exact_time sample_now" by (simp add: json_exact_time_def) (simp add: sample_now_def)
qed (simp add: sample_now_def IsZero_def)

lemma sample_state_valid: "EnrollmentState_Validate sample_state = None"
proof -
  have "validateControllerURL ''https://c'' = Inr ''https://c''" "safeIdentifier ''d1'' 128" by code_simp+
  moreover have "safeCredential ''0123456789abcdef0123456789abcdef''" by (simp add: safeCredential_def IsSpace_def IsControl_def)
  ultimately show ?thesis
    unfolding EnrollmentState_Validate_def first_error_None_iff using sample_key sample_text by (simp add: sample_state_def)
qed

lemma sample_state_loads: "LoadState ''s'' (read_with (py_read_state sample_calls) (dk_state sample_disk)) = Inr sample_state"
proof -
  have key: "sanitize (base64_encode std_alphabet (replicate 32 7)) = base64_encode std_alphabet (replicate 32 7)"
    by (intro sanitize_ascii base64_ascii [OF std_roundtrip])
  obtain ms where ms: "EnrollmentState_json sample_state = Some (JObj ms)" "ms =
       [(''schema'', jstr StateSchema), (''schema_version'', jint 1), (''controller_url'', jstr ''https://c''),
        (''device_id'', jstr ''d1''), (''device_credential'', jstr ''0123456789abcdef0123456789abcdef''),
        (''policy_public_key'', jstr (base64_encode std_alphabet (replicate 32 7))), (''enrolled_at'', jtime sample_now)]"
    using sample_text(2) by (simp add: EnrollmentState_json_def sample_state_def StateSchemaVersion_def)
  have "sanitize StateSchema = StateSchema" by (simp add: StateSchema_def)
  then have "dec_record True EnrollmentState_fields (JObj ms) zero_EnrollmentState = Some sample_state"
    using key sample_text(1)
    by (subst dec_record_plain) (simp_all add: ms(2) EnrollmentState_fields_def plain_name_def by_name_def fld_def
       zero_EnrollmentState_def sample_state_def StateSchemaVersion_def)
  moreover have "\<not> blank ''s''" by code_simp
  ultimately show ?thesis
    by (simp add: LoadState_def sample_disk_def sample_calls_def Let_def decodeStrict_one sample_state_valid ms(1) private_file_def maxStateBytes_def)
qed

lemma sample_pinned: "verifyPinnedPolicy flat_ed25519 (es_PolicyPublicKey sample_state) sample_envelope = None"
  using sample_policy_valid [of 1] sample_key
  by (simp add: verifyPinnedPolicy_def VerifySignedPolicy_def sample_state_def sample_envelope_def flat_ed25519_def sample_policy_def)

lemma sample_ledger_valid: "ledger_validate sample_ledger = None"
proof -
  have "map_option length (hex_DecodeString (hex_encode (replicate 32 1))) = Some 32" by code_simp
  then show ?thesis
    using sample_root(3)
    by (simp add: ledger_validate_None_iff sample_ledger_def policyRevisionLedgerVersion_def maxRememberedPolicyIDs_def
        entry_error_def entry_of_def safeIdentifier_valid sample_policy_def policyDocumentDigest_def flat_sha256_def)
qed

lemma sample_texts:
  "hex_encode (replicate 32 1) = ''0101010101010101010101010101010101010101010101010101010101010101''"
  "base64_encode std_alphabet (replicate 32 7) = ''BwcHBwcHBwcHBwcHBwcHBwcHBwcHBwcHBwcHBwcHBwc''"
  "base64_encode std_alphabet (replicate 64 7) = ''BwcHBwcHBwcHBwcHBwcHBwcHBwcHBwcHBwcHBwcHBwcHBwcHBwcHBwcHBwcHBwcHBwcHBwcHBwcHBwcHBwcHBw''"
  "FormatInt 1 = ''1''" "FormatInt 3600 = ''3600''" "FormatInt 60 = ''60''" "FormatInt 600 = ''600''"
  by code_simp+

lemma sample_sizes:
  "int (length (json_text (policyRevisionLedger_json sample_ledger))) < 1000"
  "int (length (json_text (SignedPolicy_json sample_envelope))) < 1000"
  by (simp_all add: sample_ledger_def sample_envelope_def policyRevisionLedger_json_def policyRevisionEntry_json_def
      SignedPolicy_json_def entry_of_def policyDocumentDigest_def flat_sha256_def sample_texts jint_def jstr_def quote_text_def
      escape_rune_def join_with.simps policyRevisionLedgerSchema_def policyRevisionLedgerVersion_def sample_policy_def
      SignedPolicySchema_def SignedPolicyVersion_def PolicyDocument_json_def PolicyCheck_json_def CadencePolicy_json_def
      ReportingPolicy_json_def PolicySchema_def PolicySchemaVersion_def RemediationPrompt_def)

definition sample_cached :: disk where
  "sample_cached = sample_disk\<lparr>dk_ledger := Some (written (policyRevisionLedger_json sample_ledger)),
     dk_policy := Some (written (SignedPolicy_json sample_envelope))\<rparr>"

lemma sample_persist:
  "persistVerifiedPolicy flat_sha256 flat_ed25519 sample_calls ''s'' sample_envelope sample_disk = (Inr (PolicyPath ''s''), sample_cached)"
proof -
  note state = sample_state_loads [unfolded sample_disk_def sample_calls_def Let_def, simplified]
  have "observe flat_sha256 sample_policy \<lparr>rl_Schema = policyRevisionLedgerSchema, rl_SchemaVersion = policyRevisionLedgerVersion, rl_Policies = []\<rparr>
      = Inr (True, sample_ledger)"
    by (simp add: observe_def sample_ledger_def entry_of_def maxRememberedPolicyIDs_def Let_def)
  moreover have "sp_Document sample_envelope = sample_policy" by (simp add: sample_envelope_def)
  ultimately show ?thesis
    using sample_pinned sample_sizes sample_ledger_valid state
    by (simp add: persistVerifiedPolicy_def sample_disk_def sample_cached_def sample_calls_def Let_def sample_io_def
        ensurePrivateStateDirectory_def private_directory_def acquirePolicyWriteLock_def private_file_def cached_policy_def
        loadSignedPolicyFile_def read_with_def calls_of_def current_ledger_def loadPolicyRevisionLedger_def
        persistPolicyRevisionLedger_def maxPolicyRevisionLedgerBytes_def writeTemporaryPolicy_def syncDirectory_def
        unchanged_policy_def install_policy_def maxPolicyFileBytes_def ErrNotExist_def errLedgerNotFound_def errPolicyNotFound_def)
qed

lemma sample_limits: "within_limits sample_cached"
  using sample_sizes by (simp add: within_limits_def sample_cached_def written_def maxPolicyFileBytes_def maxPolicyRevisionLedgerBytes_def)

lemma sample_reads: "reads_well sample_calls"
  by (simp add: reads_well_def sample_calls_def Let_def)


text \<open>
  C2: Rollback protection. Once an agent has accepted a policy document, then after any
  sequence of further policies with any system calls failing, and even if the state and the
  cached policy are replaced, it accepts a document of the same policy only at a later
  revision, or at the same revision with the same digest; and a cached policy that
  \<open>LoadPolicy\<close> returns under that name is no older either.
\<close>

theorem no_policy_rollback:
  assumes "persistVerifiedPolicy sha256 ed calls path envelope d = (Inr p, d1)"
    and "d2 = foldl (policy_step sha256 ed path) d1 evs"
  shows "(persistVerifiedPolicy sha256 ed calls2 path envelope2 d2 = (Inr p2, d3) \<longrightarrow>
        pd_ID (sp_Document envelope2) = pd_ID (sp_Document envelope) \<longrightarrow>
          pd_Revision (sp_Document envelope) < pd_Revision (sp_Document envelope2)
          \<or> pd_Revision (sp_Document envelope2) = pd_Revision (sp_Document envelope)
            \<and> policyDocumentDigest sha256 (sp_Document envelope2) = policyDocumentDigest sha256 (sp_Document envelope))
     \<and> (LoadPolicy sha256 ed calls3 path d2 = Inr cached \<longrightarrow> pd_ID cached = pd_ID (sp_Document envelope) \<longrightarrow>
          pd_Revision (sp_Document envelope) < pd_Revision cached
          \<or> pd_Revision cached = pd_Revision (sp_Document envelope)
            \<and> policyDocumentDigest sha256 cached = policyDocumentDigest sha256 (sp_Document envelope))"
proof -
  let ?e = "entry_of sha256 (sp_Document envelope)"
  have later: "remembers ?e d2" unfolding assms(2) by (rule remembered_later [OF assms(1)])
  have "at_least ?e (entry_of sha256 (sp_Document envelope2))"
    if "persistVerifiedPolicy sha256 ed calls2 path envelope2 d2 = (Inr p2, d3)"
      "pd_ID (sp_Document envelope2) = pd_ID (sp_Document envelope)"
    using persist_refuses_older [OF later that(1)] that(2) by (simp add: entry_of_def)
  moreover have "at_least ?e (entry_of sha256 cached)"
    if "LoadPolicy sha256 ed calls3 path d2 = Inr cached" "pd_ID cached = pd_ID (sp_Document envelope)"
    using loaded_at_least [OF later that(1)] that(2) by (simp add: entry_of_def)
  ultimately show ?thesis by (auto simp: at_least_def entry_of_def)
qed

theorem no_policy_rollback_witness:
  "\<exists>cached. LoadPolicy flat_sha256 flat_ed25519 sample_calls ''s'' sample_cached = Inr cached \<and> pd_ID cached = ''base''
     \<and> 1 \<le> pd_Revision cached"
proof -
  have "within_limits sample_cached" "reads_well sample_calls" by (rule sample_limits, rule sample_reads)
  from persist_then_load [OF sample_persist this] obtain cached
    where cached: "LoadPolicy flat_sha256 flat_ed25519 sample_calls ''s'' sample_cached = Inr cached"
      and id: "pd_ID cached = ''base''" by (auto simp: sample_envelope_def sample_policy_def)
  have "1 \<le> pd_Revision cached"
    using no_policy_rollback [OF sample_persist, of sample_cached "[]" sample_calls sample_envelope undefined undefined sample_calls cached]
      cached id by (auto simp: sample_envelope_def sample_policy_def intro: order.strict_implies_order)
  with cached id show ?thesis by blast
qed

end
