(* ===== verification/Managed_Exchange.thy ===== *)
theory Managed_Exchange
  imports Managed_Client Managed_Policy_Cache Controller_Policies
begin

section \<open>An agent and its controller\<close>







end
