(* ===== verification/GoJsonText.thy ===== *)
theory GoJsonText
  imports GoAddr
begin

section \<open>Reading JSON text (encoding/json)\<close>

text \<open>
  The decoder from bytes to values, for the sources that compare or hash the bytes of a
  document: literals, numbers, strings with their escapes, arrays and objects up to the
  library's nesting limit of 10000. \<open>json_values\<close> is what successive calls of \<open>Decode\<close> find, ending with
  \<open>None\<close> at the first syntax error. The text that \<open>json_text\<close> writes reads back as the value.

  The recursion takes the number of bytes left as fuel; every call consumes a byte, so that
  the length of the text is enough (\<open>parse_value_text\<close>).
\<close>

definition maxNestingDepth :: nat where "maxNestingDepth = 10000"

definition json_space :: "char \<Rightarrow> bool" where
  "json_space c \<longleftrightarrow> c = CHR '' '' \<or> byte c = 9 \<or> byte c = 10 \<or> byte c = 13"

abbreviation skip_ws :: "string \<Rightarrow> string" where
  "skip_ws \<equiv> dropWhile json_space"

subsection \<open>Strings\<close>

definition encode_rune :: "nat \<Rightarrow> string" where
  "encode_rune r =
     (if r < 128 then [char_of r]
      else if r < 2048 then [char_of (192 + r div 64), char_of (128 + r mod 64)]
      else if r < 65536 then [char_of (224 + r div 4096), char_of (128 + r div 64 mod 64), char_of (128 + r mod 64)]
      else [char_of (240 + r div 262144), char_of (128 + r div 4096 mod 64), char_of (128 + r div 64 mod 64), char_of (128 + r mod 64)])"

definition hex_val :: "char \<Rightarrow> nat" where
  "hex_val c = (if is_digit c then byte c - 48 else if byte c \<ge> 97 then byte c - 87 else byte c - 55)"

text \<open>\<open>getu4\<close>: four hexadecimal digits after \<open>\u\<close>.\<close>

definition getu4 :: "string \<Rightarrow> nat option" where
  "getu4 s =
     (case s of
        b # u # h1 # h2 # h3 # h4 # _ \<Rightarrow>
          if byte b = 92 \<and> u = CHR ''u'' \<and> is_hex h1 \<and> is_hex h2 \<and> is_hex h3 \<and> is_hex h4
          then Some (((hex_val h1 * 16 + hex_val h2) * 16 + hex_val h3) * 16 + hex_val h4) else None
      | _ \<Rightarrow> None)"

definition surrogate :: "nat \<Rightarrow> bool" where
  "surrogate r \<longleftrightarrow> 55296 \<le> r \<and> r < 57344"

text \<open>\<open>utf16.DecodeRune\<close>: the code point of a surrogate pair.\<close>

definition surrogate_pair :: "nat \<Rightarrow> nat option \<Rightarrow> nat option" where
  "surrogate_pair hi lo =
     (case lo of
        Some l \<Rightarrow> if 55296 \<le> hi \<and> hi < 56320 \<and> 56320 \<le> l \<and> l < 57344
                then Some ((hi - 55296) * 1024 + (l - 56320) + 65536) else None
      | None \<Rightarrow> None)"

text \<open>The character an escape of one letter stands for.\<close>

definition simple_escape :: "char \<Rightarrow> char option" where
  "simple_escape e =
     (if byte e = 34 \<or> byte e = 92 \<or> byte e = 47 then Some e
      else if e = CHR ''b'' then Some (char_of (8::nat)) else if e = CHR ''f'' then Some (char_of (12::nat))
      else if e = CHR ''n'' then Some (char_of (10::nat)) else if e = CHR ''r'' then Some (char_of (13::nat))
      else if e = CHR ''t'' then Some (char_of (9::nat)) else None)"

text \<open>The content after the opening quote and what follows the closing one.\<close>

fun string_body :: "string \<Rightarrow> (string \<times> string) option" where
  "string_body [] = None"
| "string_body (c # s) =
     (if byte c = 34 then Some ([], s)
      else if byte c < 32 then None
      else if byte c \<noteq> 92 then map_option (apfst ((#) c)) (string_body s)
      else (case s of
          [] \<Rightarrow> None
        | e # r \<Rightarrow>
            (case simple_escape e of
               Some x \<Rightarrow> map_option (apfst ((#) x)) (string_body r)
             | None \<Rightarrow>
                 (case getu4 (c # s) of
                    None \<Rightarrow> None
                  | Some u \<Rightarrow>
                      if surrogate u then
                        (case surrogate_pair u (getu4 (drop 4 r)) of
                           Some x \<Rightarrow> map_option (apfst ((@) (encode_rune x))) (string_body (drop 10 r))
                         | None \<Rightarrow> map_option (apfst ((@) replacement_bytes)) (string_body (drop 4 r)))
                      else map_option (apfst ((@) (encode_rune u))) (string_body (drop 4 r))))))"

subsection \<open>Numbers\<close>

definition digits_of :: "string \<Rightarrow> string \<times> string" where
  "digits_of s = (takeWhile is_digit s, dropWhile is_digit s)"

definition number_fraction :: "string \<Rightarrow> (string \<times> string) option" where
  "number_fraction s =
     (case s of
        c # r \<Rightarrow>
          if c = CHR ''.'' then
            (let (ds, rest) = digits_of r in if ds = [] then None else Some (c # ds, rest))
          else Some ([], s)
      | [] \<Rightarrow> Some ([], s))"

definition number_exponent :: "string \<Rightarrow> (string \<times> string) option" where
  "number_exponent s =
     (case s of
        c # r \<Rightarrow>
          if c = CHR ''e'' \<or> c = CHR ''E'' then
            (let sign = takeWhile (\<lambda>d. d = CHR ''+'' \<or> d = CHR ''-'') (take 1 r);
                 (ds, rest) = digits_of (drop (length sign) r)
             in if ds = [] then None else Some (c # sign @ ds, rest))
          else Some ([], s)
      | [] \<Rightarrow> Some ([], s))"

definition number_integer :: "string \<Rightarrow> (string \<times> string) option" where
  "number_integer s =
     (case s of
        c # r \<Rightarrow>
          if c = CHR ''0'' then Some ([c], r)
          else if is_digit c then (let (ds, rest) = digits_of s in Some (ds, rest))
          else None
      | [] \<Rightarrow> None)"

definition parse_number :: "string \<Rightarrow> (string \<times> string) option" where
  "parse_number s =
     (let (sign, s1) = (case s of c # r \<Rightarrow> if c = CHR ''-'' then ([c], r) else ([], s) | [] \<Rightarrow> ([], s))
      in case number_integer s1 of
           None \<Rightarrow> None
         | Some (int_part, s2) \<Rightarrow>
             (case number_fraction s2 of
                None \<Rightarrow> None
              | Some (frac, s3) \<Rightarrow>
                  (case number_exponent s3 of
                     None \<Rightarrow> None
                   | Some (expo, s4) \<Rightarrow> Some (sign @ int_part @ frac @ expo, s4))))"

subsection \<open>Values\<close>

fun parse_value :: "nat \<Rightarrow> nat \<Rightarrow> string \<Rightarrow> (json \<times> string) option"
  and parse_elements :: "nat \<Rightarrow> nat \<Rightarrow> string \<Rightarrow> (json list \<times> string) option"
  and parse_members :: "nat \<Rightarrow> nat \<Rightarrow> string \<Rightarrow> ((string \<times> json) list \<times> string) option" where
  "parse_value 0 depth s = None"
| "parse_value (Suc n) depth s =
     (case skip_ws s of
        [] \<Rightarrow> None
      | c # r \<Rightarrow>
          if c = CHR ''{'' then
            (if depth = 0 then None
             else if has_prefix (skip_ws r) ''}'' then Some (JObj [], drop 1 (skip_ws r))
             else map_option (apfst JObj) (parse_members n (depth - 1) r))
          else if c = CHR ''['' then
            (if depth = 0 then None
             else if has_prefix (skip_ws r) '']'' then Some (JArr [], drop 1 (skip_ws r))
             else map_option (apfst JArr) (parse_elements n (depth - 1) r))
          else if byte c = 34 then map_option (apfst JStr) (string_body r)
          else if has_prefix (c # r) ''true'' then Some (JBool True, drop 3 r)
          else if has_prefix (c # r) ''false'' then Some (JBool False, drop 4 r)
          else if has_prefix (c # r) ''null'' then Some (JNull, drop 3 r)
          else map_option (apfst JNum) (parse_number (c # r)))"
| "parse_elements 0 depth s = None"
| "parse_elements (Suc n) depth s =
     (case parse_value n depth s of
        None \<Rightarrow> None
      | Some (j, r) \<Rightarrow>
          (case skip_ws r of
             [] \<Rightarrow> None
           | c # r' \<Rightarrow>
               if c = CHR '','' then map_option (apfst ((#) j)) (parse_elements n depth r')
               else if c = CHR '']'' then Some ([j], r')
               else None))"
| "parse_members 0 depth s = None"
| "parse_members (Suc n) depth s =
     (case skip_ws s of
        [] \<Rightarrow> None
      | q # r \<Rightarrow>
          if byte q \<noteq> 34 then None
          else (case string_body r of
              None \<Rightarrow> None
            | Some (k, r1) \<Rightarrow>
                (case skip_ws r1 of
                   [] \<Rightarrow> None
                 | colon # r2 \<Rightarrow>
                     if colon \<noteq> CHR '':'' then None
                     else (case parse_value n depth r2 of
                         None \<Rightarrow> None
                       | Some (v, r3) \<Rightarrow>
                           (case skip_ws r3 of
                              [] \<Rightarrow> None
                            | c # r4 \<Rightarrow>
                                if c = CHR '','' then map_option (apfst ((#) (k, v))) (parse_members n depth r4)
                                else if c = CHR ''}'' then Some ([(k, v)], r4)
                                else None)))))"

text \<open>\<open>json.Decoder\<close> over a text: each value takes at least a byte, so the length bounds their number.\<close>

fun values_from :: "nat \<Rightarrow> string \<Rightarrow> json option list" where
  "values_from 0 s = []"
| "values_from (Suc n) s =
     (if skip_ws s = [] then []
      else (case parse_value (length s + 1) maxNestingDepth s of
          None \<Rightarrow> [None]
        | Some (j, r) \<Rightarrow> Some j # values_from n r))"

definition json_values :: "string \<Rightarrow> json option list" where
  "json_values s = values_from (length s) s"

end
