(* ===== verification/GoJsonText_Facts.thy ===== *)
theory GoJsonText_Facts
  imports GoJsonText
begin

section \<open>JSON text reads back\<close>

text \<open>
  What \<open>json_text\<close> writes for a value of the model's encoders, \<open>parse_value\<close> reads as that
  value, whatever follows; \<open>json_values\<close> of such a text is that one value.
\<close>

subsection \<open>Strings\<close>

lemma string_body_raw:
  "\<forall>b \<in> set bs. byte b \<ge> 128 \<Longrightarrow> string_body (bs @ t) = map_option (apfst ((@) bs)) (string_body t)"
proof (induction bs)
  case Nil
  then show ?case by (cases "string_body t") auto
next
  case (Cons b bs)
  then show ?case by (cases "string_body t") auto
qed

lemma nibble_hex:
  assumes "n < 16"
  shows "is_hex (nibble n) \<and> hex_val (nibble n) = n"
proof -
  have "\<forall>n \<in> set [0..<16]. is_hex (nibble n) \<and> hex_val (nibble n) = n" by code_simp
  with assms show ?thesis by simp
qed


lemma separator_parts:
  fixes x y z k :: nat
  assumes "x * 4096 + y * 64 + z = 8232 + k" and "y < 64" and "z < 64" and "k < 2"
  shows "x = 2 \<and> y = 0 \<and> z = 40 + k"
proof -
  have "x = 2"
  proof (rule ccontr)
    assume "x \<noteq> 2"
    then have "x \<le> 1 \<or> 3 \<le> x" by linarith
    then show False using assms by auto
  qed
  then have yz: "y * 64 + z = 40 + k" using assms(1) by simp
  then have "y = 0" using assms(4) by (cases y) auto
  with yz \<open>x = 2\<close> show ?thesis by simp
qed

lemma decode_rune_shape:
  assumes "128 \<le> byte c"
  obtains (bad) "decode_rune (c # s) = (65533, 1)"
    | (two) c1 r where "s = c1 # r" "194 \<le> byte c" "byte c \<le> 223" "cont 128 191 c1"
        "decode_rune (c # s) = ((byte c mod 32) * 64 + byte c1 mod 64, 2)"
    | (three) c1 c2 r where "s = c1 # c2 # r" "224 \<le> byte c" "byte c \<le> 239" "cont 128 191 c1" "cont 128 191 c2"
        "decode_rune (c # s) = ((byte c mod 16) * 4096 + (byte c1 mod 64) * 64 + byte c2 mod 64, 3)"
    | (four) c1 c2 c3 r where "s = c1 # c2 # c3 # r" "240 \<le> byte c" "byte c \<le> 244" "cont 128 191 c1" "byte c = 240 \<longrightarrow> 144 \<le> byte c1"
        "cont 128 191 c2" "cont 128 191 c3"
        "decode_rune (c # s) = ((byte c mod 8) * 262144 + (byte c1 mod 64) * 4096 + (byte c2 mod 64) * 64 + byte c3 mod 64, 4)"
proof (cases "lead (byte c)")
  case None
  then show thesis using assms bad by (simp add: decode_rune_def)
next
  case (Some l)
  obtain n lo hi where l: "lead (byte c) = Some (n, lo, hi)" using Some by (cases l) auto
  have lo: "128 \<le> lo" using l by (auto simp: lead_def split: if_splits)
  note facts = lead_SomeD [OF l]
  have wide: "cont lo hi d \<Longrightarrow> cont 128 191 d" for d using lo facts(4) by (auto simp: cont_def)
  consider "n = 2" | "n = 3" | "n \<noteq> 2" "n \<noteq> 3" by blast
  then show thesis
  proof cases
    case 1
    show thesis
    proof (cases s)
      case (Cons c1 r)
      show thesis
      proof (cases "cont lo hi c1")
        case True
        then show thesis using two [of c1 r] Cons 1 l facts(1) wide assms by (simp add: decode_rune_def)
      qed (use bad Cons 1 l assms in \<open>simp add: decode_rune_def\<close>)
    qed (use bad 1 l assms in \<open>simp add: decode_rune_def\<close>)
  next
    case 2
    show thesis
    proof (cases "\<exists>c1 c2 r. s = c1 # c2 # r \<and> cont lo hi c1 \<and> cont 128 191 c2")
      case True
      then obtain c1 c2 r where "s = c1 # c2 # r" "cont lo hi c1" "cont 128 191 c2" by blast
      then show thesis using three [of c1 c2 r] 2 l facts(2) wide assms by (simp add: decode_rune_def)
    next
      case False
      then have "decode_rune (c # s) = (65533, 1)" using 2 l assms by (auto simp: decode_rune_def split: list.splits)
      then show thesis by (rule bad)
    qed
  next
    case 3
    show thesis
    proof (cases "\<exists>c1 c2 c3 r. s = c1 # c2 # c3 # r \<and> cont lo hi c1 \<and> cont 128 191 c2 \<and> cont 128 191 c3")
      case True
      then obtain c1 c2 c3 r where "s = c1 # c2 # c3 # r" "cont lo hi c1" "cont 128 191 c2" "cont 128 191 c3" by blast
      moreover have "byte c = 240 \<longrightarrow> 144 \<le> byte c1" using facts(3) 3 \<open>cont lo hi c1\<close> by (auto simp: cont_def)
      ultimately show thesis using four [of c1 c2 c3 r] 3 l facts(3) wide assms by (simp add: decode_rune_def)
    next
      case False
      then have "decode_rune (c # s) = (65533, 1)" using 3 l assms by (auto simp: decode_rune_def split: list.splits)
      then show thesis by (rule bad)
    qed
  qed
qed

lemma decode_rune_wide:
  assumes "128 \<le> byte c" and "b \<in> set (take (snd (decode_rune (c # s))) (c # s))"
  shows "128 \<le> byte b"
  using assms(1)
proof (cases rule: decode_rune_shape [where s = s])
qed (use assms in \<open>auto simp: cont_def\<close>)

text \<open>The two separators that the encoder escapes have one encoding each.\<close>

lemma decode_rune_separator:
  assumes "128 \<le> byte c" and "fst (decode_rune (c # s)) = 8232 + k" and "k < 2"
  shows "take (snd (decode_rune (c # s))) (c # s) = [char_of (226::nat), char_of (128::nat), char_of (168 + k)]"
  using assms(1)
proof (cases rule: decode_rune_shape [where s = s])
  case bad
  with assms(2,3) show ?thesis by simp
next
  case (two c1 r)
  have "byte c mod 32 < 32" "byte c1 mod 64 < 64" by simp_all
  then have "(byte c mod 32) * 64 + byte c1 mod 64 < 2048" by linarith
  with two assms(2) show ?thesis by simp
next
  case (three c1 c2 r)
  have parts: "byte c mod 16 = byte c - 224" "byte c1 mod 64 = byte c1 - 128" "byte c2 mod 64 = byte c2 - 128"
    using three mod_shift_nat [of 14 16 "byte c"] mod_shift_nat [of 2 64 "byte c1"] mod_shift_nat [of 2 64 "byte c2"]
    by (auto simp: cont_def)
  have "byte c1 - 128 < 64" "byte c2 - 128 < 64" using three by (auto simp: cont_def)
  moreover have "(byte c - 224) * 4096 + (byte c1 - 128) * 64 + (byte c2 - 128) = 8232 + k"
    using assms(2) three parts by simp
  ultimately have "byte c - 224 = 2" "byte c1 - 128 = 0" "byte c2 - 128 = 40 + k"
    using separator_parts [of "byte c - 224" "byte c1 - 128" "byte c2 - 128" k] assms(3) by simp_all
  then have "byte c = 226" "byte c1 = 128" "byte c2 = 168 + k" using three by (auto simp: cont_def)
  then have "c = char_of (226::nat)" "c1 = char_of (128::nat)" "c2 = char_of (168 + k)" by (metis char_of_char)+
  with three show ?thesis by simp
next
  case (four c1 c2 c3 r)
  have "65536 \<le> (byte c mod 8) * 262144 + (byte c1 mod 64) * 4096"
  proof (cases "byte c = 240")
    case True
    then have "16 \<le> byte c1 mod 64" using four mod_shift_nat [of 2 64 "byte c1"] by (auto simp: cont_def)
    then show ?thesis by simp
  next
    case False
    then have "1 \<le> byte c mod 8" using four mod_shift_nat [of 30 8 "byte c"] by auto
    then show ?thesis by simp
  qed
  with four assms(2,3) show ?thesis by simp
qed

lemma append_one: "(@) [c] = (#) c"
  by auto

lemma unicode_escape_reads:
  assumes "n < 128"
  shows "string_body (char_of (92::nat) # ''u00'' @ [nibble (n div 16), nibble (n mod 16)] @ t) =
    map_option (apfst ((#) (char_of n))) (string_body t)"
proof -
  have h: "is_hex (nibble (n div 16))" "hex_val (nibble (n div 16)) = n div 16" "is_hex (nibble (n mod 16))" "hex_val (nibble (n mod 16)) = n mod 16"
    using nibble_hex [of "n div 16"] nibble_hex [of "n mod 16"] assms by auto
  have z: "is_hex CHR ''0''" "hex_val CHR ''0'' = 0" by code_simp+
  have "getu4 (char_of (92::nat) # ''u00'' @ [nibble (n div 16), nibble (n mod 16)] @ t) = Some n"
    using h z by (simp add: getu4_def)
  moreover have "simple_escape CHR ''u'' = None" by code_simp
  ultimately show ?thesis using assms by (simp add: surrogate_def encode_rune_def append_one)
qed

lemma short_escape_reads:
  assumes "simple_escape e = Some x"
  shows "string_body (char_of (92::nat) # e # t) = map_option (apfst ((#) x)) (string_body t)"
  using assms by simp

lemma ascii_rune_reads:
  assumes "byte c < 128"
  shows "string_body (escape_rune (byte c, [c]) @ t) = map_option (apfst ((#) c)) (string_body t)"
proof -
  define n where "n = byte c"
  have c: "c = char_of n" by (simp add: n_def)
  have esc: "simple_escape CHR 0x22 = Some (char_of (34::nat))" "simple_escape (char_of (92::nat)) = Some (char_of (92::nat))"
    "simple_escape CHR ''b'' = Some (char_of (8::nat))" "simple_escape CHR ''f'' = Some (char_of (12::nat))"
    "simple_escape CHR ''n'' = Some (char_of (10::nat))" "simple_escape CHR ''r'' = Some (char_of (13::nat))"
    "simple_escape CHR ''t'' = Some (char_of (9::nat))"
    by code_simp+
  consider "n \<in> {34, 92, 8, 12, 10, 13, 9}" | "n \<notin> {34, 92, 8, 12, 10, 13, 9}" "n < 32 \<or> n \<in> {60, 62, 38}"
    | "n \<notin> {34, 92}" "32 \<le> n" "n \<notin> {60, 62, 38}" by (cases "n < 32") auto
  then show ?thesis
  proof cases
    case 1
    then show ?thesis using esc short_escape_reads by (auto simp: escape_rune_def c simp del: string_body.simps)
  next
    case 2
    then have "escape_rune (byte c, [c]) = char_of (92::nat) # ''u00'' @ [nibble (n div 16), nibble (n mod 16)]"
      by (auto simp: escape_rune_def Let_def n_def)
    then show ?thesis using unicode_escape_reads [of n t] assms by (simp add: n_def del: string_body.simps)
  next
    case 3
    then have "escape_rune (byte c, [c]) = [c]" using assms by (auto simp: escape_rune_def Let_def n_def)
    then show ?thesis using 3 by (simp add: n_def)
  qed
qed

lemma separator_escape_reads:
  assumes "k < 2"
  shows "string_body (char_of (92::nat) # ''u202'' @ [nibble (8 + k)] @ t) =
    map_option (apfst ((@) [char_of (226::nat), char_of (128::nat), char_of (168 + k)])) (string_body t)"
proof -
  have h: "is_hex (nibble (8 + k))" "hex_val (nibble (8 + k)) = 8 + k" using nibble_hex [of "8 + k"] assms by auto
  have z: "is_hex CHR ''0''" "hex_val CHR ''0'' = 0" "is_hex CHR ''2''" "hex_val CHR ''2'' = 2" by code_simp+
  have "getu4 (char_of (92::nat) # ''u202'' @ [nibble (8 + k)] @ t) = Some (8232 + k)"
    using h z by (simp add: getu4_def)
  moreover have "simple_escape CHR ''u'' = None" by code_simp
  moreover have "encode_rune (8232 + k) = [char_of (226::nat), char_of (128::nat), char_of (168 + k)]"
    using assms by (auto simp: encode_rune_def less_2_cases_iff)
  ultimately show ?thesis using assms by (simp add: surrogate_def)
qed

lemma escaped_rune_reads:
  assumes "s \<noteq> []"
  shows "string_body (escape_rune (fst (decode_rune s), take (snd (decode_rune s)) s) @ t) =
    map_option (apfst ((@) (take (snd (decode_rune s)) s))) (string_body t)"
proof -
  obtain c r where s: "s = c # r" using assms by (cases s) auto
  show ?thesis
  proof (cases "byte c < 128")
    case True
    then have d: "decode_rune s = (byte c, 1)" by (simp add: s decode_rune_def)
    show ?thesis using ascii_rune_reads [OF True, of t] by (simp add: d [unfolded s] s append_one)
  next
    case False
    then have wide: "128 \<le> byte c" by simp
    let ?r = "fst (decode_rune s)" and ?bs = "take (snd (decode_rune s)) s"
    show ?thesis
    proof (cases "?r = 8232 \<or> ?r = 8233")
      case True
      then obtain k where k: "?r = 8232 + k" "k < 2" by (metis add.right_neutral add_Suc_right numeral_2_eq_2 lessI Suc_eq_plus1 zero_less_Suc numeral_plus_one semiring_norm(5))
      have "?bs = [char_of (226::nat), char_of (128::nat), char_of (168 + k)]"
        using decode_rune_separator [OF wide, of r k] k s by simp
      moreover have "escape_rune (?r, ?bs) = char_of (92::nat) # ''u202'' @ [nibble (8 + k)]"
        using k by (auto simp: escape_rune_def Let_def less_2_cases_iff)
      ultimately show ?thesis using separator_escape_reads [OF k(2), of t] by simp
    next
      case False
      have "128 \<le> ?r" using decode_rune_non_ascii [OF wide, of r] by (simp add: s)
      then have "escape_rune (?r, ?bs) = ?bs" using False by (simp add: escape_rune_def Let_def)
      moreover have "\<forall>b \<in> set ?bs. 128 \<le> byte b" using decode_rune_wide [OF wide] by (simp add: s)
      ultimately show ?thesis using string_body_raw by simp
    qed
  qed
qed

lemma quoted_reads: "string_body (concat (map escape_rune (runes s)) @ CHR 0x22 # t) = Some (s, t)"
proof (induction s rule: runes.induct)
  case (1 s)
  show ?case
  proof (cases "s = []")
    case False
    let ?n = "snd (decode_rune s)"
    have "string_body (concat (map escape_rune (runes s)) @ CHR 0x22 # t) =
        string_body (escape_rune (fst (decode_rune s), take ?n s) @ concat (map escape_rune (runes (drop ?n s))) @ CHR 0x22 # t)"
      using False by (subst runes.simps) simp
    also have "\<dots> = Some (take ?n s @ drop ?n s, t)" unfolding escaped_rune_reads [OF False] 1 [OF False] by simp
    finally show ?thesis by simp
  qed simp
qed

subsection \<open>Numbers\<close>

text \<open>What may follow a value.\<close>

definition delimited :: "string \<Rightarrow> bool" where
  "delimited t \<longleftrightarrow> (case t of [] \<Rightarrow> True | c # _ \<Rightarrow> c \<in> set '',]}'' \<or> json_space c)"

lemma delimited_hd:
  assumes "delimited (c # t)"
  shows "\<not> is_digit c" "c \<noteq> CHR ''.''" "c \<noteq> CHR ''e''" "c \<noteq> CHR ''E''"
  using assms by (auto simp: delimited_def is_digit_def json_space_def)

lemma dec_text_digits: "0 \<le> n \<Longrightarrow> list_all is_digit (dec_text n)"
proof (induction n rule: dec_text.induct)
  case (1 n)
  have d: "is_digit (digit m)" if "0 \<le> m" "m < 10" for m
  proof -
    have "\<forall>m \<in> set [0..9::int]. is_digit (digit m)" by code_simp
    with that show ?thesis by simp
  qed
  show ?case
  proof (cases "n < 10")
    case True
    with 1 d show ?thesis by (subst dec_text.simps) simp
  next
    case False
    with 1 d [of "n mod 10"] show ?thesis by (subst dec_text.simps) simp
  qed
qed

lemma dec_text_no_leading_zero: "0 < n \<Longrightarrow> hd (dec_text n) \<noteq> CHR ''0''"
proof (induction n rule: dec_text.induct)
  case (1 n)
  show ?case
  proof (cases "n < 10")
    case True
    have "\<forall>m \<in> set [1..9::int]. digit m \<noteq> CHR ''0''" by code_simp
    with True 1 show ?thesis by (subst dec_text.simps) simp
  next
    case False
    then have "hd (dec_text (n div 10)) \<noteq> CHR ''0''" using 1 by simp
    with False show ?thesis by (subst dec_text.simps) (simp add: dec_text_nonempty)
  qed
qed

lemma digits_before_delimiter:
  assumes "list_all is_digit ds" and "delimited t"
  shows "digits_of (ds @ t) = (ds, t)"
proof -
  have "takeWhile is_digit t = [] \<and> dropWhile is_digit t = t" using assms(2) delimited_hd by (cases t) auto
  with assms(1) show ?thesis by (simp add: digits_of_def list_all_iff takeWhile_append dropWhile_append)
qed

lemma integer_reads:
  assumes "0 \<le> n" and "delimited t"
  shows "number_integer (dec_text n @ t) = Some (dec_text n, t)"
proof (cases "n = 0")
  case True
  have "dec_text 0 = ''0''" by code_simp
  with True show ?thesis by (simp add: number_integer_def)
next
  case False
  with assms have "hd (dec_text n) \<noteq> CHR ''0''" using dec_text_no_leading_zero by simp
  moreover obtain c ds where cs: "dec_text n = c # ds" using dec_text_nonempty [of n] by (cases "dec_text n") auto
  moreover have "list_all is_digit (c # ds)" using dec_text_digits [OF assms(1)] cs by simp
  ultimately show ?thesis
    using digits_before_delimiter [of "c # ds" t] assms(2) by (simp add: number_integer_def)
qed

lemma number_reads:
  assumes "delimited t"
  shows "parse_number (FormatInt n @ t) = Some (FormatInt n, t)"
proof -
  have tail: "number_fraction t = Some ([], t)" "number_exponent t = Some ([], t)"
    using assms delimited_hd by (cases t; simp add: number_fraction_def number_exponent_def)+
  have i: "number_integer (dec_text \<bar>n\<bar> @ t) = Some (dec_text \<bar>n\<bar>, t)" by (rule integer_reads) (simp_all add: assms)
  show ?thesis
  proof (cases "n < 0")
    case True
    then have "FormatInt n = CHR ''-'' # dec_text \<bar>n\<bar>" by (simp add: FormatInt_def append_int_def)
    then show ?thesis using i tail by (simp add: parse_number_def)
  next
    case False
    then have f: "FormatInt n = dec_text \<bar>n\<bar>" by (simp add: FormatInt_def append_int_def)
    obtain c ds where cs: "dec_text \<bar>n\<bar> = c # ds" using dec_text_nonempty [of "\<bar>n\<bar>"] by (cases "dec_text \<bar>n\<bar>") auto
    have "is_digit c" using dec_text_digits [of "\<bar>n\<bar>"] cs by simp
    then have "c \<noteq> CHR ''-''" by (auto simp: is_digit_def)
    then show ?thesis using i tail by (simp add: parse_number_def f cs)
  qed
qed

subsection \<open>Values\<close>

text \<open>The values the encoders of the model build, nested at most that deep.\<close>

primrec json_fits :: "json \<Rightarrow> nat \<Rightarrow> bool" where
  "json_fits JNull d = True"
| "json_fits (JBool b) d = True"
| "json_fits (JNum s) d = (\<exists>n. s = FormatInt n)"
| "json_fits (JStr s) d = True"
| "json_fits (JArr js) d = (0 < d \<and> list_all (\<lambda>f. f (d - 1)) (map json_fits js))"
| "json_fits (JObj ms) d = (0 < d \<and> list_all (\<lambda>m. snd m (d - 1)) (map (map_prod id json_fits) ms))"

lemma json_fits_simps [simp]: "json_fits (jstr s) d" "json_fits (jint n) d" "json_fits (jtime t) d"
  by (auto simp: jstr_def jint_def jtime_def)

definition reads_back :: "json \<Rightarrow> bool" where
  "reads_back j \<longleftrightarrow> (\<forall>n d t. json_fits j d \<longrightarrow> delimited t \<longrightarrow> length (json_text j) < n \<longrightarrow>
     parse_value n d (json_text j @ t) = Some (j, t))"

definition member_text :: "string \<times> json \<Rightarrow> string" where
  "member_text m = quote_text (fst m) @ '':'' @ json_text (snd m)"

lemma json_text_obj: "json_text (JObj ms) = ''{'' @ join_with '','' (map member_text ms) @ ''}''"
proof -
  have "map (\<lambda>(k, v). quote_text k @ '':'' @ json_text v) ms = map member_text ms" by (auto simp: member_text_def)
  then show ?thesis by (simp only: json_text.simps)
qed

lemma json_text_start:
  assumes "json_fits j d"
  obtains c r where "json_text j = c # r" and "\<not> json_space c" and "c \<notin> set '',]}''"
proof (cases j)
  case (JNum s)
  then obtain n where n: "s = FormatInt n" using assms by auto
  obtain c ds where cs: "dec_text \<bar>n\<bar> = c # ds" using dec_text_nonempty [of "\<bar>n\<bar>"] by (cases "dec_text \<bar>n\<bar>") auto
  have "is_digit c" using dec_text_digits [of "\<bar>n\<bar>"] cs by simp
  then have "\<not> json_space c" "c \<notin> set '',]}''" by (auto simp: is_digit_def json_space_def)
  then show thesis using that JNum n cs by (cases "n < 0") (auto simp: FormatInt_def append_int_def json_space_def)
next
  case (JBool b)
  then show thesis using that by (cases b) (auto simp: json_space_def)
qed (use that in \<open>auto simp: json_space_def quote_text_def\<close>)

lemma elements_read:
  assumes "\<forall>j \<in> set js. reads_back j"
  shows "js \<noteq> [] \<Longrightarrow> list_all (\<lambda>j. json_fits j d) js \<Longrightarrow> length (join_with '','' (map json_text js)) + 1 < n
    \<Longrightarrow> parse_elements n d (join_with '','' (map json_text js) @ CHR '']'' # t) = Some (js, t)"
  using assms
proof (induction js arbitrary: n)
  case (Cons j js)
  obtain m where n: "n = Suc m" using Cons.prems(3) by (cases n) auto
  have j: "reads_back j" "json_fits j d" using Cons.prems by simp_all
  show ?case
  proof (cases js)
    case Nil
    have "parse_value m d (json_text j @ CHR '']'' # t) = Some (j, CHR '']'' # t)"
      using j Cons.prems(3) Nil n by (simp add: reads_back_def delimited_def)
    then show ?thesis by (simp add: n Nil json_space_def)
  next
    case (Cons k ks)
    let ?rest = "join_with '','' (map json_text js)"
    have len: "length (json_text j) < m" "length ?rest + 1 < m"
      using Cons.prems(3) Cons n by simp_all
    have "parse_value m d (json_text j @ CHR '','' # ?rest @ CHR '']'' # t) = Some (j, CHR '','' # ?rest @ CHR '']'' # t)"
      using j len(1) by (simp add: reads_back_def delimited_def)
    moreover have "parse_elements m d (?rest @ CHR '']'' # t) = Some (js, t)"
      using Cons.IH Cons.prems len(2) Cons by simp
    ultimately show ?thesis using Cons by (simp add: n json_space_def)
  qed
qed simp

lemma members_read:
  assumes "\<forall>m \<in> set ms. reads_back (snd m)"
  shows "ms \<noteq> [] \<Longrightarrow> list_all (\<lambda>m. json_fits (snd m) d) ms \<Longrightarrow> length (join_with '','' (map member_text ms)) + 1 < n
    \<Longrightarrow> parse_members n d (join_with '','' (map member_text ms) @ CHR ''}'' # t) = Some (ms, t)"
  using assms
proof (induction ms arbitrary: n)
  case (Cons kv ms)
  obtain k v where kv: "kv = (k, v)" by (cases kv)
  obtain m where n: "n = Suc m" using Cons.prems(3) by (cases n) auto
  have v: "reads_back v" "json_fits v d" using Cons.prems kv by simp_all
  have key: "string_body (concat (map escape_rune (runes k)) @ CHR 0x22 # u) = Some (k, u)" for u
    by (rule quoted_reads)
  show ?case
  proof (cases ms)
    case Nil
    have "parse_value m d (json_text v @ CHR ''}'' # t) = Some (v, CHR ''}'' # t)"
      using v Cons.prems(3) Nil n kv by (simp add: reads_back_def delimited_def member_text_def)
    then show ?thesis using key by (simp add: n Nil kv json_space_def member_text_def quote_text_def)
  next
    case (Cons m' ms')
    define rest where "rest = join_with '','' (map member_text ms)"
    have joined: "join_with '','' (map member_text (kv # ms)) = quote_text k @ CHR '':'' # json_text v @ CHR '','' # rest"
      using Cons by (simp add: rest_def) (simp add: member_text_def kv)
    have "length (join_with '','' (map member_text (kv # ms))) = length (member_text kv) + 1 + length rest" using Cons by (simp add: rest_def)
    moreover have "length (json_text v) < length (member_text kv)" by (simp add: member_text_def kv)
    ultimately have len: "length (json_text v) < m" "length rest + 1 < m" using Cons.prems(3) n by linarith+
    have "parse_value m d (json_text v @ CHR '','' # rest @ CHR ''}'' # t) = Some (v, CHR '','' # rest @ CHR ''}'' # t)"
      using v len(1) by (simp add: reads_back_def delimited_def)
    moreover have "parse_members m d (rest @ CHR ''}'' # t) = Some (ms, t)"
      using Cons.IH Cons.prems len(2) Cons by (simp add: rest_def)
    ultimately show ?thesis using key unfolding joined by (simp add: n kv json_space_def quote_text_def)
  qed
qed simp

lemma value_reads: "reads_back j"
proof (induction j)
  case (JArr js)
  have ih: "\<forall>j \<in> set js. reads_back j" using JArr by blast
  have "parse_value n d (json_text (JArr js) @ t) = Some (JArr js, t)"
    if fit: "json_fits (JArr js) d" and len: "length (json_text (JArr js)) < n" for n d t
  proof -
    obtain m where n: "n = Suc m" using len by (cases n) auto
    show ?thesis
    proof (cases js)
      case (Cons k ks)
      have fits: "list_all (\<lambda>j. json_fits j (d - 1)) js" "0 < d" using fit by (simp_all add: list_all_iff)
      then obtain c r where "json_text k = c # r" "\<not> json_space c" "c \<notin> set '',]}''"
        using json_text_start [of k "d - 1"] Cons by auto
      then have start: "skip_ws (join_with '','' (map json_text js) @ CHR '']'' # t) = join_with '','' (map json_text js) @ CHR '']'' # t"
        "\<not> has_prefix (join_with '','' (map json_text js) @ CHR '']'' # t) '']''"
        using Cons by (cases ks; simp add: has_prefix_def)+
      have "parse_elements m (d - 1) (join_with '','' (map json_text js) @ CHR '']'' # t) = Some (js, t)"
        by (rule elements_read [OF ih]) (use fits Cons len n in auto)
      then show ?thesis using start fits(2) by (simp add: n json_space_def)
    qed (use fit n in \<open>simp add: json_space_def has_prefix_def\<close>)
  qed
  then show ?case by (simp add: reads_back_def)
next
  case (JObj ms)
  have ih: "\<forall>m \<in> set ms. reads_back (snd m)" using JObj by (auto simp: prod_set_defs)
  have "parse_value n d (json_text (JObj ms) @ t) = Some (JObj ms, t)"
    if fit: "json_fits (JObj ms) d" and len: "length (json_text (JObj ms)) < n" for n d t
  proof -
    obtain m where n: "n = Suc m" using len by (cases n) auto
    show ?thesis
    proof (cases ms)
      case (Cons k ks)
      have fits: "list_all (\<lambda>m. json_fits (snd m) (d - 1)) ms" "0 < d" using fit by (auto simp: list_all_iff)
      have start: "skip_ws (join_with '','' (map member_text ms) @ CHR ''}'' # t) = join_with '','' (map member_text ms) @ CHR ''}'' # t"
        "\<not> has_prefix (join_with '','' (map member_text ms) @ CHR ''}'' # t) ''}''"
        using Cons by (cases ks; simp add: has_prefix_def member_text_def quote_text_def json_space_def)+
      have "parse_members m (d - 1) (join_with '','' (map member_text ms) @ CHR ''}'' # t) = Some (ms, t)"
        by (rule members_read [OF ih]) (use fits Cons len n json_text_obj [of ms] in auto)
      then show ?thesis using start fits(2) unfolding json_text_obj by (simp add: n json_space_def)
    qed (use fit n in \<open>simp add: json_space_def has_prefix_def\<close>)
  qed
  then show ?case by (simp add: reads_back_def)
next
  case (JNum s)
  have "parse_value n d (s @ t) = Some (JNum s, t)" if fit: "json_fits (JNum s) d" and dl: "delimited t" and len: "length s < n" for n d t
  proof -
    obtain m where n: "n = Suc m" using len by (cases n) auto
    obtain i where i: "s = FormatInt i" using fit by auto
    obtain c ds where cs: "dec_text \<bar>i\<bar> = c # ds" using dec_text_nonempty [of "\<bar>i\<bar>"] by (cases "dec_text \<bar>i\<bar>") auto
    have "is_digit c" using dec_text_digits [of "\<bar>i\<bar>"] cs by simp
    then obtain e es where s: "s = e # es" "is_digit e \<or> e = CHR ''-''"
      using cs i by (cases "i < 0") (auto simp: FormatInt_def append_int_def)
    then have "\<not> json_space e" "e \<noteq> CHR ''{''" "e \<noteq> CHR ''[''" "byte e \<noteq> 34"
      "\<not> has_prefix (e # es @ t) ''true''" "\<not> has_prefix (e # es @ t) ''false''" "\<not> has_prefix (e # es @ t) ''null''"
      by (auto simp: is_digit_def json_space_def has_prefix_def)
    moreover have "parse_number ((e # es) @ t) = Some (e # es, t)" using number_reads [OF dl, of i, folded i] unfolding s(1) .
    ultimately show ?thesis unfolding s(1) by (simp add: n)
  qed
  then show ?case by (simp add: reads_back_def)
next
  case (JStr s)
  have "parse_value n d (quote_text s @ t) = Some (JStr s, t)" if len: "length (quote_text s) < n" for n d t
  proof -
    obtain m where n: "n = Suc m" using len by (cases n) auto
    show ?thesis using quoted_reads [of s t] by (simp add: n quote_text_def json_space_def)
  qed
  then show ?case by (simp add: reads_back_def)
next
  case JNull
  have "parse_value n d (''null'' @ t) = Some (JNull, t)" if "4 < n" for n d t
    using that by (cases n) (simp_all add: json_space_def has_prefix_def)
  then show ?case by (simp add: reads_back_def)
next
  case (JBool b)
  have "parse_value n d (''true'' @ t) = Some (JBool True, t)" "parse_value n d (''false'' @ t) = Some (JBool False, t)" if "0 < n" for n d t
    using that by (cases n; simp add: json_space_def has_prefix_def)+
  then show ?case by (simp add: reads_back_def)
qed

lemma parse_value_text: "json_fits j d \<Longrightarrow> delimited t \<Longrightarrow> parse_value (Suc (length (json_text j @ t))) d (json_text j @ t) = Some (j, t)"
  using value_reads [of j] unfolding reads_back_def by (simp del: parse_value.simps)

theorem json_values_text: "json_fits j maxNestingDepth \<Longrightarrow> json_values (json_text j) = [Some j]"
proof -
  assume fits: "json_fits j maxNestingDepth"
  obtain c r where start: "json_text j = c # r" "\<not> json_space c" using json_text_start [OF fits] by blast
  moreover have "parse_value (Suc (length (json_text j))) maxNestingDepth (json_text j) = Some (j, [])"
    using parse_value_text [OF fits, of "[]"] by (simp add: delimited_def)
  moreover have "values_from n [] = []" for n by (cases n) simp_all
  ultimately show ?thesis by (simp add: json_values_def)
qed

end
