(* ===== verification/Intel_Bundle.thy ===== *)
theory Intel_Bundle
  imports Managed_State GoJsonText_Facts
begin

section \<open>Intelligence bundles (internal/intel/contract.go, canonical.go, errors.go)\<close>

text \<open>
  A bundle is a list of declarative records with a header, and has one canonical JSON text: the
  records are normalised one by one, sorted by their identity, and the times are in UTC. Texts are bytes
  here, since they are compared and hashed; they are read by \<open>json_values\<close>.

  \<open>regexp.Compile\<close> is an argument: \<open>None\<close> where the pattern does not compile, otherwise whether
  the compiled pattern matches the empty string. The fixed patterns of the source are
  predicates on characters.
\<close>

definition BundleSchema :: string where "BundleSchema = ''io.oh-my-safety/intelligence-bundle''"
definition BundleSchemaVersion :: int where "BundleSchemaVersion = 1"

definition maxBundleIDBytes :: nat where "maxBundleIDBytes = 128"
definition maxKeyIDBytes :: nat where "maxKeyIDBytes = 128"
definition maxPackageBytes :: nat where "maxPackageBytes = 256"
definition maxEcosystemBytes :: nat where "maxEcosystemBytes = 32"
definition maxVersionBytes :: nat where "maxVersionBytes = 128"
definition maxSignerIDBytes :: nat where "maxSignerIDBytes = 128"
definition maxDetectorIDBytes :: nat where "maxDetectorIDBytes = 128"
definition maxConstraints :: nat where "maxConstraints = 16"

subsection \<open>Errors\<close>

definition ErrInvalidEncoding :: go_error where "ErrInvalidEncoding = New ''intel: invalid canonical JSON encoding''"
definition ErrNonCanonical :: go_error where "ErrNonCanonical = New ''intel: bundle is not canonical JSON''"
definition ErrBundleTooLarge :: go_error where "ErrBundleTooLarge = New ''intel: bundle exceeds size limit''"
definition ErrTooManyRecords :: go_error where "ErrTooManyRecords = New ''intel: bundle exceeds record limit''"
definition ErrInvalidBundle :: go_error where "ErrInvalidBundle = New ''intel: invalid bundle envelope''"
definition ErrInvalidRecord :: go_error where "ErrInvalidRecord = New ''intel: invalid declarative record''"
definition ErrDuplicateRecord :: go_error where "ErrDuplicateRecord = New ''intel: duplicate record''"
definition ErrPayloadHashMismatch :: go_error where "ErrPayloadHashMismatch = New ''intel: payload hash mismatch''"
definition ErrUnknownKey :: go_error where "ErrUnknownKey = New ''intel: signing key is not trusted''"
definition ErrInvalidSignature :: go_error where "ErrInvalidSignature = New ''intel: signature verification failed''"
definition ErrExpired :: go_error where "ErrExpired = New ''intel: bundle has expired''"
definition ErrNotYetValid :: go_error where "ErrNotYetValid = New ''intel: bundle is not yet valid''"
definition ErrAgentSchema :: go_error where "ErrAgentSchema = New ''intel: agent schema is below bundle minimum''"
definition ErrRollback :: go_error where "ErrRollback = New ''intel: bundle sequence would roll back accepted state''"
definition ErrSequenceConflict :: go_error where "ErrSequenceConflict = New ''intel: accepted sequence conflicts with different content''"
definition ErrInvalidTrustStore :: go_error where "ErrInvalidTrustStore = New ''intel: invalid trust store''"
definition ErrInsecurePermissions :: go_error where "ErrInsecurePermissions = New ''intel: file permissions must be 0600''"
definition ErrUnsafeFile :: go_error where "ErrUnsafeFile = New ''intel: expected a regular non-symlink file''"
definition ErrNoCurrentBundle :: go_error where "ErrNoCurrentBundle = New ''intel: no current bundle is installed''"
definition ErrCurrentState :: go_error where "ErrCurrentState = New ''intel: invalid current bundle metadata''"

text \<open>
  \<open>recordValidationError\<close>: the message of the record with its cause. A duplicate joins \<open>ErrInvalidRecord\<close>
  and \<open>ErrDuplicateRecord\<close>; the latter is kept here.
\<close>

definition recordValidationError :: "nat \<Rightarrow> string \<Rightarrow> go_error \<Rightarrow> go_error" where
  "recordValidationError index code cause =
     Wrapf ''intel: record %d failed validation (%s)'' [ArgD (int index), ArgS code] cause"

definition invalidRecord :: "nat \<Rightarrow> string \<Rightarrow> go_error" where
  "invalidRecord index code = recordValidationError index code ErrInvalidRecord"

subsection \<open>Types\<close>

type_synonym RecordType = string

definition RecordMaliciousSHA256 :: RecordType where "RecordMaliciousSHA256 = ''malicious_sha256''"
definition RecordRevokedSigner :: RecordType where "RecordRevokedSigner = ''revoked_signer''"
definition RecordVulnerablePackage :: RecordType where "RecordVulnerablePackage = ''vulnerable_package''"
definition RecordSecretPattern :: RecordType where "RecordSecretPattern = ''secret_detector_pattern''"

lemmas record_types = RecordMaliciousSHA256_def RecordRevokedSigner_def RecordVulnerablePackage_def RecordSecretPattern_def

definition SignerID :: string where "SignerID = ''signer_id''"
definition TeamID :: string where "TeamID = ''team_id''"

definition ConstraintOperator_valid :: "string \<Rightarrow> bool" where
  "ConstraintOperator_valid operator \<longleftrightarrow> operator \<in> set [''eq'', ''lt'', ''lte'', ''gt'', ''gte'']"

record VersionConstraint =
  vc_Operator :: string
  vc_Version :: string

record MaliciousSHA256Record =
  ms_SHA256 :: string

record RevokedSignerRecord =
  rs_Kind :: string
  rs_Identifier :: string

record VulnerablePackageRecord =
  vp_Ecosystem :: string
  vp_Package :: string
  vp_Constraints :: "VersionConstraint list"

record SecretDetectorPatternRecord =
  sd_DetectorID :: string
  sd_Pattern :: string

record BundleRecord =
  br_Type :: RecordType
  br_MaliciousSHA256 :: "MaliciousSHA256Record option"
  br_RevokedSigner :: "RevokedSignerRecord option"
  br_VulnerablePackage :: "VulnerablePackageRecord option"
  br_SecretPattern :: "SecretDetectorPatternRecord option"

text \<open>\<open>None\<close> is the nil slice of records, which is not a valid bundle.\<close>

record Bundle =
  bu_Schema :: string
  bu_SchemaVersion :: int
  bu_BundleID :: string
  bu_Sequence :: "64 word"
  bu_IssuedAt :: gotime
  bu_ExpiresAt :: gotime
  bu_MinimumAgentSchema :: int
  bu_Records :: "BundleRecord list option"
  bu_PayloadSHA256 :: string
  bu_KeyID :: string
  bu_Signature :: string

record Limits =
  li_MaxBundleBytes :: int
  li_MaxRecords :: int
  li_MaxRecordBytes :: int
  li_MaxPatternBytes :: int

definition DefaultLimits :: Limits where
  "DefaultLimits = \<lparr>li_MaxBundleBytes = 4194304, li_MaxRecords = 10000, li_MaxRecordBytes = 8192, li_MaxPatternBytes = 1024\<rparr>"

definition normalizeLimits :: "Limits \<Rightarrow> Limits result" where
  "normalizeLimits limits0 =
     (let limits = (if limits0 = \<lparr>li_MaxBundleBytes = 0, li_MaxRecords = 0, li_MaxRecordBytes = 0, li_MaxPatternBytes = 0\<rparr>
                    then DefaultLimits else limits0)
      in case first_error
           [(li_MaxBundleBytes limits \<le> 0, New ''intel: max bundle bytes must be positive''),
            (li_MaxRecords limits \<le> 0, New ''intel: max records must be positive''),
            (li_MaxRecordBytes limits \<le> 0, New ''intel: max record bytes must be positive''),
            (li_MaxPatternBytes limits \<le> 0, New ''intel: max pattern bytes must be positive''),
            (li_MaxPatternBytes limits > li_MaxRecordBytes limits, New ''intel: pattern limit cannot exceed record limit'')] of
           Some err \<Rightarrow> Inl err
         | None \<Rightarrow> Inr limits)"

subsection \<open>The fixed patterns\<close>

definition alnum :: "char \<Rightarrow> bool" where
  "alnum c \<longleftrightarrow> letter c \<or> is_digit c"

definition safe_identifier :: "string \<Rightarrow> bool" where
  "safe_identifier s \<longleftrightarrow> s \<noteq> [] \<and> alnum (hd s) \<and> list_all (\<lambda>c. alnum c \<or> c \<in> set ''._:-'') (tl s)"

definition safePackage :: "string \<Rightarrow> bool" where
  "safePackage s \<longleftrightarrow> s \<noteq> [] \<and> (alnum (hd s) \<or> hd s = CHR ''@'') \<and> list_all (\<lambda>c. alnum c \<or> c \<in> set ''@+._:/~-'') (tl s)"

definition safeVersion :: "string \<Rightarrow> bool" where
  "safeVersion s \<longleftrightarrow> s \<noteq> [] \<and> alnum (hd s) \<and> list_all (\<lambda>c. alnum c \<or> c \<in> set ''+._:~-'') (tl s)"

definition sha256Pattern :: "string \<Rightarrow> bool" where
  "sha256Pattern s \<longleftrightarrow> length s = 64 \<and> list_all (\<lambda>c. is_digit c \<or> (97 \<le> byte c \<and> byte c \<le> 102)) s"

definition teamIDPattern :: "string \<Rightarrow> bool" where
  "teamIDPattern s \<longleftrightarrow> length s = 10 \<and> list_all (\<lambda>c. (65 \<le> byte c \<and> byte c \<le> 90) \<or> is_digit c) s"

definition boundedMatch :: "string \<Rightarrow> nat \<Rightarrow> (string \<Rightarrow> bool) \<Rightarrow> bool" where
  "boundedMatch value limit pattern \<longleftrightarrow> value \<noteq> [] \<and> length value \<le> limit \<and> pattern value"

definition boundedIdentifier :: "string \<Rightarrow> nat \<Rightarrow> bool" where
  "boundedIdentifier value limit = boundedMatch value limit safe_identifier"

definition containsUnsafeControl :: "string \<Rightarrow> bool" where
  "containsUnsafeControl value \<longleftrightarrow> \<not> all_runes (\<lambda>r. \<not> (r < 32 \<or> r = 127)) value"

subsection \<open>JSON\<close>

definition VersionConstraint_json :: "VersionConstraint \<Rightarrow> json" where
  "VersionConstraint_json c = JObj [(''operator'', jstr (vc_Operator c)), (''version'', jstr (vc_Version c))]"

definition BundleRecord_json :: "BundleRecord \<Rightarrow> json" where
  "BundleRecord_json r = JObj ([(''type'', jstr (br_Type r))]
     @ (case br_MaliciousSHA256 r of None \<Rightarrow> [] | Some m \<Rightarrow> [(''malicious_sha256'', JObj [(''sha256'', jstr (ms_SHA256 m))])])
     @ (case br_RevokedSigner r of None \<Rightarrow> [] | Some s \<Rightarrow>
          [(''revoked_signer'', JObj [(''kind'', jstr (rs_Kind s)), (''identifier'', jstr (rs_Identifier s))])])
     @ (case br_VulnerablePackage r of None \<Rightarrow> [] | Some p \<Rightarrow>
          [(''vulnerable_package'', JObj [(''ecosystem'', jstr (vp_Ecosystem p)), (''package'', jstr (vp_Package p)),
             (''constraints'', JArr (map VersionConstraint_json (vp_Constraints p)))])])
     @ (case br_SecretPattern r of None \<Rightarrow> [] | Some p \<Rightarrow>
          [(''secret_detector_pattern'', JObj [(''detector_id'', jstr (sd_DetectorID p)), (''pattern'', jstr (sd_Pattern p))])]))"

definition records_json :: "BundleRecord list option \<Rightarrow> json" where
  "records_json rs = (case rs of None \<Rightarrow> JNull | Some xs \<Rightarrow> JArr (map BundleRecord_json xs))"

definition payloadEnvelope_json :: "BundleRecord list option \<Rightarrow> json" where
  "payloadEnvelope_json rs = JObj [(''records'', records_json rs)]"

definition unsigned_members :: "Bundle \<Rightarrow> (string \<times> json) list" where
  "unsigned_members b =
     [(''schema'', jstr (bu_Schema b)), (''schema_version'', jint (bu_SchemaVersion b)), (''bundle_id'', jstr (bu_BundleID b)),
      (''sequence'', jint (uint (bu_Sequence b))), (''issued_at'', jtime (bu_IssuedAt b)), (''expires_at'', jtime (bu_ExpiresAt b)),
      (''minimum_agent_schema'', jint (bu_MinimumAgentSchema b)), (''records'', records_json (bu_Records b)),
      (''payload_sha256'', jstr (bu_PayloadSHA256 b)), (''key_id'', jstr (bu_KeyID b))]"

definition canonicalUnsigned :: "Bundle \<Rightarrow> string option" where
  "canonicalUnsigned b =
     (if json_time (bu_IssuedAt b) \<and> json_time (bu_ExpiresAt b) then Some (json_text (JObj (unsigned_members b))) else None)"

definition canonicalBundle :: "Bundle \<Rightarrow> string option" where
  "canonicalBundle b =
     (if json_time (bu_IssuedAt b) \<and> json_time (bu_ExpiresAt b)
      then Some (json_text (JObj (unsigned_members b @ [(''signature'', jstr (bu_Signature b))]))) else None)"

definition hashBytes :: "(string \<Rightarrow> 8 word list) \<Rightarrow> string \<Rightarrow> string" where
  "hashBytes sha256 value = hex_encode (sha256 value)"

definition VersionConstraint_fields :: "VersionConstraint fields" where
  "VersionConstraint_fields =
    [(''operator'', fld vc_Operator (\<lambda>x s. s\<lparr>vc_Operator := x\<rparr>) dec_string),
     (''version'', fld vc_Version (\<lambda>x s. s\<lparr>vc_Version := x\<rparr>) dec_string)]"

definition MaliciousSHA256Record_fields :: "MaliciousSHA256Record fields" where
  "MaliciousSHA256Record_fields = [(''sha256'', fld ms_SHA256 (\<lambda>x s. s\<lparr>ms_SHA256 := x\<rparr>) dec_string)]"

definition RevokedSignerRecord_fields :: "RevokedSignerRecord fields" where
  "RevokedSignerRecord_fields =
    [(''kind'', fld rs_Kind (\<lambda>x s. s\<lparr>rs_Kind := x\<rparr>) dec_string),
     (''identifier'', fld rs_Identifier (\<lambda>x s. s\<lparr>rs_Identifier := x\<rparr>) dec_string)]"

definition VulnerablePackageRecord_fields :: "VulnerablePackageRecord fields" where
  "VulnerablePackageRecord_fields =
    [(''ecosystem'', fld vp_Ecosystem (\<lambda>x s. s\<lparr>vp_Ecosystem := x\<rparr>) dec_string),
     (''package'', fld vp_Package (\<lambda>x s. s\<lparr>vp_Package := x\<rparr>) dec_string),
     (''constraints'', fld vp_Constraints (\<lambda>x s. s\<lparr>vp_Constraints := x\<rparr>)
        (dec_slice \<lparr>vc_Operator = [], vc_Version = []\<rparr> (dec_record True VersionConstraint_fields)))]"

definition SecretDetectorPatternRecord_fields :: "SecretDetectorPatternRecord fields" where
  "SecretDetectorPatternRecord_fields =
    [(''detector_id'', fld sd_DetectorID (\<lambda>x s. s\<lparr>sd_DetectorID := x\<rparr>) dec_string),
     (''pattern'', fld sd_Pattern (\<lambda>x s. s\<lparr>sd_Pattern := x\<rparr>) dec_string)]"

definition BundleRecord_fields :: "BundleRecord fields" where
  "BundleRecord_fields =
    [(''type'', fld br_Type (\<lambda>x s. s\<lparr>br_Type := x\<rparr>) dec_string),
     (''malicious_sha256'', fld br_MaliciousSHA256 (\<lambda>x s. s\<lparr>br_MaliciousSHA256 := x\<rparr>)
        (dec_ptr \<lparr>ms_SHA256 = []\<rparr> (dec_record True MaliciousSHA256Record_fields))),
     (''revoked_signer'', fld br_RevokedSigner (\<lambda>x s. s\<lparr>br_RevokedSigner := x\<rparr>)
        (dec_ptr \<lparr>rs_Kind = [], rs_Identifier = []\<rparr> (dec_record True RevokedSignerRecord_fields))),
     (''vulnerable_package'', fld br_VulnerablePackage (\<lambda>x s. s\<lparr>br_VulnerablePackage := x\<rparr>)
        (dec_ptr \<lparr>vp_Ecosystem = [], vp_Package = [], vp_Constraints = []\<rparr> (dec_record True VulnerablePackageRecord_fields))),
     (''secret_detector_pattern'', fld br_SecretPattern (\<lambda>x s. s\<lparr>br_SecretPattern := x\<rparr>)
        (dec_ptr \<lparr>sd_DetectorID = [], sd_Pattern = []\<rparr> (dec_record True SecretDetectorPatternRecord_fields)))]"

definition zero_BundleRecord :: BundleRecord where
  "zero_BundleRecord = \<lparr>br_Type = [], br_MaliciousSHA256 = None, br_RevokedSigner = None, br_VulnerablePackage = None,
     br_SecretPattern = None\<rparr>"

text \<open>A slice whose nil is told apart from the empty one.\<close>

definition dec_nil_slice :: "'a \<Rightarrow> (json \<Rightarrow> 'a \<Rightarrow> 'a option) \<Rightarrow> json \<Rightarrow> 'a list option \<Rightarrow> 'a list option option" where
  "dec_nil_slice zero dec j cur =
     (case j of JNull \<Rightarrow> Some None
      | JArr js \<Rightarrow> map_option Some (dec_list zero dec js (case cur of None \<Rightarrow> [] | Some xs \<Rightarrow> xs))
      | _ \<Rightarrow> None)"

definition Bundle_fields :: "Bundle fields" where
  "Bundle_fields =
    [(''schema'', fld bu_Schema (\<lambda>x s. s\<lparr>bu_Schema := x\<rparr>) dec_string),
     (''schema_version'', fld bu_SchemaVersion (\<lambda>x s. s\<lparr>bu_SchemaVersion := x\<rparr>) dec_int64),
     (''bundle_id'', fld bu_BundleID (\<lambda>x s. s\<lparr>bu_BundleID := x\<rparr>) dec_string),
     (''sequence'', fld bu_Sequence (\<lambda>x s. s\<lparr>bu_Sequence := x\<rparr>) dec_uint64),
     (''issued_at'', fld bu_IssuedAt (\<lambda>x s. s\<lparr>bu_IssuedAt := x\<rparr>) dec_time),
     (''expires_at'', fld bu_ExpiresAt (\<lambda>x s. s\<lparr>bu_ExpiresAt := x\<rparr>) dec_time),
     (''minimum_agent_schema'', fld bu_MinimumAgentSchema (\<lambda>x s. s\<lparr>bu_MinimumAgentSchema := x\<rparr>) dec_int64),
     (''records'', fld bu_Records (\<lambda>x s. s\<lparr>bu_Records := x\<rparr>) (dec_nil_slice zero_BundleRecord (dec_record True BundleRecord_fields))),
     (''payload_sha256'', fld bu_PayloadSHA256 (\<lambda>x s. s\<lparr>bu_PayloadSHA256 := x\<rparr>) dec_string),
     (''key_id'', fld bu_KeyID (\<lambda>x s. s\<lparr>bu_KeyID := x\<rparr>) dec_string),
     (''signature'', fld bu_Signature (\<lambda>x s. s\<lparr>bu_Signature := x\<rparr>) dec_string)]"

definition zero_Bundle :: Bundle where
  "zero_Bundle = \<lparr>bu_Schema = [], bu_SchemaVersion = 0, bu_BundleID = [], bu_Sequence = 0, bu_IssuedAt = zero_time,
     bu_ExpiresAt = zero_time, bu_MinimumAgentSchema = 0, bu_Records = None, bu_PayloadSHA256 = [], bu_KeyID = [], bu_Signature = []\<rparr>"

definition intel_decodeStrict :: "(json \<Rightarrow> 'a \<Rightarrow> 'a option) \<Rightarrow> 'a \<Rightarrow> string \<Rightarrow> 'a result" where
  "intel_decodeStrict dec zero encoded =
     (case json_values encoded of
        [Some j] \<Rightarrow> (case dec j zero of None \<Rightarrow> Inl ErrInvalidEncoding | Some x \<Rightarrow> Inr x)
      | _ \<Rightarrow> Inl ErrInvalidEncoding)"

subsection \<open>Records\<close>

definition constraint_key :: "VersionConstraint \<Rightarrow> string" where
  "constraint_key c = vc_Operator c @ '':'' @ vc_Version c"

definition version_constraint_error :: "nat \<Rightarrow> VersionConstraint \<Rightarrow> go_error option" where
  "version_constraint_error index c =
     (if \<not> ConstraintOperator_valid (vc_Operator c) \<or> \<not> boundedMatch (vc_Version c) maxVersionBytes safeVersion
      then Some (invalidRecord index ''constraint'') else None)"

definition canonical_malicious :: "nat \<Rightarrow> MaliciousSHA256Record \<Rightarrow> (BundleRecord \<times> string) result" where
  "canonical_malicious index m =
     (let hash = ToLower (ms_SHA256 m)
      in if \<not> sha256Pattern hash then Inl (invalidRecord index ''sha256'')
         else Inr (zero_BundleRecord\<lparr>br_Type := RecordMaliciousSHA256, br_MaliciousSHA256 := Some \<lparr>ms_SHA256 = hash\<rparr>\<rparr>,
                   RecordMaliciousSHA256 @ '':'' @ hash))"

definition canonical_signer :: "nat \<Rightarrow> RevokedSignerRecord \<Rightarrow> (BundleRecord \<times> string) result" where
  "canonical_signer index revoked =
     (case (if rs_Kind revoked = TeamID then
              (if teamIDPattern (rs_Identifier revoked) then None else Some ''team_id'')
            else if rs_Kind revoked = SignerID then
              (if boundedIdentifier (rs_Identifier revoked) maxSignerIDBytes then None else Some ''signer_id'')
            else Some ''signer_kind'') of
        Some code \<Rightarrow> Inl (invalidRecord index code)
      | None \<Rightarrow> Inr (zero_BundleRecord\<lparr>br_Type := RecordRevokedSigner, br_RevokedSigner := Some revoked\<rparr>,
                     RecordRevokedSigner @ '':'' @ rs_Kind revoked @ '':'' @ rs_Identifier revoked))"

definition canonical_package :: "nat \<Rightarrow> VulnerablePackageRecord \<Rightarrow> (BundleRecord \<times> string) result" where
  "canonical_package index pkg0 =
     (let pkg = pkg0\<lparr>vp_Ecosystem := ToLower (vp_Ecosystem pkg0)\<rparr>
      in if \<not> boundedMatch (vp_Ecosystem pkg) maxEcosystemBytes safe_identifier then Inl (invalidRecord index ''ecosystem'')
         else if \<not> boundedMatch (vp_Package pkg) maxPackageBytes safePackage \<or> contains (vp_Package pkg) ''..''
         then Inl (invalidRecord index ''package'')
         else if vp_Constraints pkg = [] \<or> length (vp_Constraints pkg) > maxConstraints
         then Inl (invalidRecord index ''constraint_count'')
         else (case check_distinct (version_constraint_error index) constraint_key (invalidRecord index ''duplicate_constraint'') []
                 (vp_Constraints pkg) of
             Some err \<Rightarrow> Inl err
           | None \<Rightarrow>
               Inr (zero_BundleRecord\<lparr>br_Type := RecordVulnerablePackage,
                      br_VulnerablePackage := Some (pkg\<lparr>vp_Constraints := sort_key constraint_key (vp_Constraints pkg)\<rparr>)\<rparr>,
                    RecordVulnerablePackage @ '':'' @ vp_Ecosystem pkg @ '':'' @ vp_Package pkg)))"

type_synonym regexp = "string \<Rightarrow> bool option"

definition canonical_secret :: "regexp \<Rightarrow> Limits \<Rightarrow> nat \<Rightarrow> SecretDetectorPatternRecord \<Rightarrow> (BundleRecord \<times> string) result" where
  "canonical_secret compile limits index p =
     (if \<not> boundedIdentifier (sd_DetectorID p) maxDetectorIDBytes then Inl (invalidRecord index ''detector_id'')
      else if sd_Pattern p = [] \<or> int (length (sd_Pattern p)) > li_MaxPatternBytes limits \<or> containsUnsafeControl (sd_Pattern p)
      then Inl (invalidRecord index ''pattern_length'')
      else if compile (sd_Pattern p) \<noteq> Some False then Inl (invalidRecord index ''pattern'')
      else Inr (zero_BundleRecord\<lparr>br_Type := RecordSecretPattern, br_SecretPattern := Some p\<rparr>,
                RecordSecretPattern @ '':'' @ sd_DetectorID p))"

definition payload_count :: "BundleRecord \<Rightarrow> nat" where
  "payload_count r = length (filter id
     [br_MaliciousSHA256 r \<noteq> None, br_RevokedSigner r \<noteq> None, br_VulnerablePackage r \<noteq> None, br_SecretPattern r \<noteq> None])"

definition canonical_by_type :: "regexp \<Rightarrow> nat \<Rightarrow> BundleRecord \<Rightarrow> Limits \<Rightarrow> (BundleRecord \<times> string) result" where
  "canonical_by_type compile index r limits =
     (let missing = Inl (invalidRecord index ''type_payload'')
      in if br_Type r = RecordMaliciousSHA256 then
           (case br_MaliciousSHA256 r of None \<Rightarrow> missing | Some m \<Rightarrow> canonical_malicious index m)
         else if br_Type r = RecordRevokedSigner then
           (case br_RevokedSigner r of None \<Rightarrow> missing | Some s \<Rightarrow> canonical_signer index s)
         else if br_Type r = RecordVulnerablePackage then
           (case br_VulnerablePackage r of None \<Rightarrow> missing | Some p \<Rightarrow> canonical_package index p)
         else if br_Type r = RecordSecretPattern then
           (case br_SecretPattern r of None \<Rightarrow> missing | Some p \<Rightarrow> canonical_secret compile limits index p)
         else Inl (invalidRecord index ''record_type''))"

definition canonicalRecord :: "regexp \<Rightarrow> nat \<Rightarrow> BundleRecord \<Rightarrow> Limits \<Rightarrow> (BundleRecord \<times> string) result" where
  "canonicalRecord compile index r limits =
     (if payload_count r \<noteq> 1 then Inl (invalidRecord index ''payload_count'')
      else (case canonical_by_type compile index r limits of
          Inl err \<Rightarrow> Inl err
        | Inr (normalized, identity) \<Rightarrow>
            if int (length (json_text (BundleRecord_json normalized))) > li_MaxRecordBytes limits
            then Inl (invalidRecord index ''record_size'') else Inr (normalized, identity)))"

text \<open>A canonical record has the payload of its type.\<close>

definition recordSortKey :: "BundleRecord \<Rightarrow> string" where
  "recordSortKey r =
     (if br_Type r = RecordMaliciousSHA256 then br_Type r @ '':'' @ ms_SHA256 (the (br_MaliciousSHA256 r))
      else if br_Type r = RecordRevokedSigner then
        br_Type r @ '':'' @ rs_Kind (the (br_RevokedSigner r)) @ '':'' @ rs_Identifier (the (br_RevokedSigner r))
      else if br_Type r = RecordVulnerablePackage then
        br_Type r @ '':'' @ vp_Ecosystem (the (br_VulnerablePackage r)) @ '':'' @ vp_Package (the (br_VulnerablePackage r))
      else if br_Type r = RecordSecretPattern then br_Type r @ '':'' @ sd_DetectorID (the (br_SecretPattern r))
      else br_Type r)"

fun canonical_loop :: "regexp \<Rightarrow> Limits \<Rightarrow> nat \<Rightarrow> string list \<Rightarrow> BundleRecord list \<Rightarrow> BundleRecord list result" where
  "canonical_loop compile limits index duplicates [] = Inr []"
| "canonical_loop compile limits index duplicates (r # rs) =
     (case canonicalRecord compile index r limits of
        Inl err \<Rightarrow> Inl err
      | Inr (normalized, identity) \<Rightarrow>
          if identity \<in> set duplicates then Inl (recordValidationError index ''duplicate'' ErrDuplicateRecord)
          else map_sum id ((#) normalized) (canonical_loop compile limits (Suc index) (identity # duplicates) rs))"

definition canonicalRecords :: "regexp \<Rightarrow> BundleRecord list \<Rightarrow> Limits \<Rightarrow> BundleRecord list result" where
  "canonicalRecords compile rs limits =
     map_sum id (sort_key recordSortKey) (canonical_loop compile limits 0 [] rs)"

subsection \<open>Bundles\<close>

definition validateBundleHeader :: "Bundle \<Rightarrow> go_error option" where
  "validateBundleHeader b =
     (if bu_Schema b \<noteq> BundleSchema \<or> bu_SchemaVersion b \<noteq> BundleSchemaVersion
         \<or> \<not> boundedIdentifier (bu_BundleID b) maxBundleIDBytes \<or> bu_Sequence b = 0
         \<or> IsZero (bu_IssuedAt b) \<or> IsZero (bu_ExpiresAt b) \<or> \<not> After (bu_ExpiresAt b) (bu_IssuedAt b)
         \<or> bu_MinimumAgentSchema b \<le> 0 \<or> bu_Records b = None \<or> \<not> boundedIdentifier (bu_KeyID b) maxKeyIDBytes
      then Some ErrInvalidBundle else None)"

text \<open>The bundle in canonical form and the text of its payload.\<close>

definition prepareBundle :: "regexp \<Rightarrow> Bundle \<Rightarrow> Limits \<Rightarrow> (Bundle \<times> string) result" where
  "prepareBundle compile b limits =
     (case validateBundleHeader b of
        Some err \<Rightarrow> Inl err
      | None \<Rightarrow>
     if int (length (the (bu_Records b))) > li_MaxRecords limits then Inl ErrTooManyRecords
     else (case canonicalRecords compile (the (bu_Records b)) limits of
        Inl err \<Rightarrow> Inl err
      | Inr rs \<Rightarrow>
          Inr (b\<lparr>bu_IssuedAt := UTC (bu_IssuedAt b), bu_ExpiresAt := UTC (bu_ExpiresAt b), bu_Records := Some rs\<rparr>,
               json_text (payloadEnvelope_json (Some rs)))))"

end
