(* ===== verification/Intel_Sign.thy ===== *)
theory Intel_Sign
  imports Intel_Bundle
begin

section \<open>Signed bundles and the trust store (internal/intel/sign.go, trust.go)\<close>

text \<open>
  A bundle is signed over its canonical text without the signature. \<open>Bundle_Verify\<close> accepts bytes
  only if they are the canonical text of a bundle that is signed by a trusted key, within its time
  of validity and not behind the last accepted one. A private file is read through the answers
  of its system calls (\<open>secure_calls\<close>).
\<close>

subsection \<open>Padded base64 (base64.StdEncoding)\<close>

definition padding :: "nat \<Rightarrow> string" where
  "padding n = (if n mod 4 = 2 then ''=='' else if n mod 4 = 3 then ''='' else [])"

definition std_encode :: "8 word list \<Rightarrow> string" where
  "std_encode bytes = (let body = base64_encode std_alphabet bytes in body @ padding (length body))"

definition std_decode :: "string \<Rightarrow> 8 word list option" where
  "std_decode s =
     (let t = filter (\<lambda>c. c \<noteq> CHR 0x0A \<and> c \<noteq> CHR 0x0D) s;
          body = takeWhile (\<lambda>c. c \<noteq> CHR ''='') t; pads = dropWhile (\<lambda>c. c \<noteq> CHR ''='') t
      in if length t mod 4 = 0 \<and> pads \<in> set [[], ''='', ''==''] then base64_decode std_alphabet body else None)"

subsection \<open>Signing\<close>

definition Bundle_Sign ::
  "regexp \<Rightarrow> (string \<Rightarrow> 8 word list) \<Rightarrow> ed25519 \<Rightarrow> Bundle \<Rightarrow> string \<Rightarrow> 8 word list \<Rightarrow> Limits \<Rightarrow> (Bundle \<times> string) result" where
  "Bundle_Sign compile sha256 ed bundle keyID privateKey limits =
     (case normalizeLimits limits of
        Inl err \<Rightarrow> Inl err
      | Inr resolvedLimits \<Rightarrow>
     if length privateKey \<noteq> 64 then Inl (New ''intel: invalid Ed25519 private key'')
     else
      (let b = bundle\<lparr>bu_Schema := (if bu_Schema bundle = [] then BundleSchema else bu_Schema bundle),
                 bu_SchemaVersion := (if bu_SchemaVersion bundle = 0 then BundleSchemaVersion else bu_SchemaVersion bundle),
                 bu_KeyID := keyID, bu_PayloadSHA256 := [], bu_Signature := []\<rparr>
       in case prepareBundle compile b resolvedLimits of
            Inl err \<Rightarrow> Inl err
          | Inr (prepared0, payload) \<Rightarrow>
              (let prepared = prepared0\<lparr>bu_PayloadSHA256 := hashBytes sha256 payload\<rparr>
               in case canonicalUnsigned prepared of
                    None \<Rightarrow> Inl ErrInvalidBundle
                  | Some unsigned_text \<Rightarrow>
                      (let sealed = prepared\<lparr>bu_Signature := std_encode (ed_Sign ed privateKey unsigned_text)\<rparr>
                       in case canonicalBundle sealed of
                            None \<Rightarrow> Inl ErrInvalidBundle
                          | Some canonical \<Rightarrow>
                              if int (length canonical) > li_MaxBundleBytes resolvedLimits then Inl ErrBundleTooLarge
                              else Inr (sealed, canonical)))))"

definition Canonicalize :: "regexp \<Rightarrow> Bundle \<Rightarrow> Limits \<Rightarrow> string result" where
  "Canonicalize compile bundle limits =
     (case normalizeLimits limits of
        Inl err \<Rightarrow> Inl err
      | Inr resolvedLimits \<Rightarrow>
     (case prepareBundle compile bundle resolvedLimits of
        Inl err \<Rightarrow> Inl err
      | Inr (prepared, _) \<Rightarrow>
          if \<not> sha256Pattern (bu_PayloadSHA256 prepared) \<or> bu_Signature prepared = [] then Inl ErrInvalidBundle
          else (case canonicalBundle prepared of
              None \<Rightarrow> Inl ErrInvalidBundle
            | Some canonical \<Rightarrow>
                if int (length canonical) > li_MaxBundleBytes resolvedLimits then Inl ErrBundleTooLarge else Inr canonical)))"

subsection \<open>Verification\<close>

type_synonym TrustStore = "(string \<times> 8 word list) list"

record AcceptanceState =
  as_BundleID :: string
  as_Sequence :: "64 word"
  as_PayloadSHA256 :: string

record VerifyOptions =
  vo_Limits :: Limits
  vo_Now :: gotime
  vo_ClockSkew :: duration
  vo_AgentSchema :: int
  vo_LastAccepted :: "AcceptanceState option"

record VerifiedBundle =
  vb_Bundle :: Bundle
  vb_Canonical :: string
  vb_Replay :: bool

text \<open>The bytes as a canonical bundle whose payload has the hash it states.\<close>

definition decode_canonical ::
  "regexp \<Rightarrow> (string \<Rightarrow> 8 word list) \<Rightarrow> Limits \<Rightarrow> string \<Rightarrow> Bundle result" where
  "decode_canonical compile sha256 limits encoded =
     (case intel_decodeStrict (dec_record True Bundle_fields) zero_Bundle encoded of
        Inl err \<Rightarrow> Inl err
      | Inr decoded \<Rightarrow>
     if (case bu_Records decoded of None \<Rightarrow> False | Some rs \<Rightarrow> int (length rs) > li_MaxRecords limits) then Inl ErrTooManyRecords
     else (case prepareBundle compile decoded limits of
        Inl err \<Rightarrow> Inl err
      | Inr (prepared, payload) \<Rightarrow>
     (case canonicalBundle prepared of
        None \<Rightarrow> Inl ErrInvalidBundle
      | Some canonical \<Rightarrow>
          if encoded \<noteq> canonical then Inl ErrNonCanonical
          else if \<not> sha256Pattern (bu_PayloadSHA256 prepared) \<or> bu_PayloadSHA256 prepared \<noteq> hashBytes sha256 payload
          then Inl ErrPayloadHashMismatch else Inr prepared)))"

definition check_signature :: "ed25519 \<Rightarrow> TrustStore \<Rightarrow> Bundle \<Rightarrow> go_error option" where
  "check_signature ed trusted prepared =
     (case map_of trusted (bu_KeyID prepared) of
        None \<Rightarrow> Some ErrUnknownKey
      | Some publicKey \<Rightarrow>
     (case std_decode (bu_Signature prepared) of
        None \<Rightarrow> Some ErrInvalidSignature
      | Some signature \<Rightarrow>
          if length signature \<noteq> 64 \<or> std_encode signature \<noteq> bu_Signature prepared then Some ErrInvalidSignature
          else (case canonicalUnsigned prepared of
              None \<Rightarrow> Some ErrInvalidSignature
            | Some unsigned_text \<Rightarrow> if \<not> ed_Verify ed publicKey unsigned_text signature then Some ErrInvalidSignature else None)))"

definition check_validity :: "gotime \<Rightarrow> VerifyOptions \<Rightarrow> Bundle \<Rightarrow> go_error option" where
  "check_validity clock options prepared =
     (let now = UTC (if IsZero (vo_Now options) then clock else vo_Now options);
          agentSchema = (if vo_AgentSchema options \<le> 0 then 1 else vo_AgentSchema options)
      in first_error
        [(vo_ClockSkew options < 0, ErrInvalidBundle),
         (Before (Add now (vo_ClockSkew options)) (bu_IssuedAt prepared), ErrNotYetValid),
         (After (Add now (- vo_ClockSkew options)) (bu_ExpiresAt prepared), ErrExpired),
         (bu_MinimumAgentSchema prepared > agentSchema, ErrAgentSchema)])"

text \<open>Whether the bundle is the last accepted one again.\<close>

definition check_sequence :: "AcceptanceState option \<Rightarrow> Bundle \<Rightarrow> bool result" where
  "check_sequence lastAccepted prepared =
     (case lastAccepted of
        None \<Rightarrow> Inr False
      | Some previous \<Rightarrow>
          if as_Sequence previous = 0 then Inr False
          else if bu_Sequence prepared < as_Sequence previous then Inl ErrRollback
          else if bu_Sequence prepared = as_Sequence previous \<and> bu_BundleID prepared = as_BundleID previous
                  \<and> bu_PayloadSHA256 prepared = as_PayloadSHA256 previous
          then Inr True
          else if bu_Sequence prepared = as_Sequence previous then Inl ErrSequenceConflict
          else Inr False)"

definition Bundle_Verify ::
  "regexp \<Rightarrow> (string \<Rightarrow> 8 word list) \<Rightarrow> ed25519 \<Rightarrow> gotime \<Rightarrow> string \<Rightarrow> TrustStore option \<Rightarrow> VerifyOptions \<Rightarrow> VerifiedBundle result" where
  "Bundle_Verify compile sha256 ed clock encoded trustStore options =
     (case normalizeLimits (vo_Limits options) of
        Inl err \<Rightarrow> Inl err
      | Inr resolvedLimits \<Rightarrow>
     if int (length encoded) > li_MaxBundleBytes resolvedLimits then Inl ErrBundleTooLarge
     else (case trustStore of
        None \<Rightarrow> Inl ErrUnknownKey
      | Some trusted \<Rightarrow>
     (case decode_canonical compile sha256 resolvedLimits encoded of
        Inl err \<Rightarrow> Inl err
      | Inr prepared \<Rightarrow>
     (case check_signature ed trusted prepared of
        Some err \<Rightarrow> Inl err
      | None \<Rightarrow>
     (case check_validity clock options prepared of
        Some err \<Rightarrow> Inl err
      | None \<Rightarrow>
     (case check_sequence (vo_LastAccepted options) prepared of
        Inl err \<Rightarrow> Inl err
      | Inr replay \<Rightarrow> Inr \<lparr>vb_Bundle = prepared, vb_Canonical = encoded, vb_Replay = replay\<rparr>))))))"

subsection \<open>Private files\<close>

definition errFileChanged :: go_error where "errFileChanged = New ''intel: local file changed while opening''"

record secure_calls =
  sc_lstat :: "file_info result"
  sc_open :: "go_error option"
  sc_stat :: "file_info result"
  sc_read :: "string result"

definition readSecureRegularFile :: "secure_calls \<Rightarrow> int \<Rightarrow> string result" where
  "readSecureRegularFile calls maxBytes =
     (case sc_lstat calls of
        Inl err \<Rightarrow> Inl (Wrap ''intel: inspect local file: %w'' err)
      | Inr bfr \<Rightarrow>
     if \<not> fin_regular bfr then Inl ErrUnsafeFile
     else if fin_perm bfr \<noteq> 384 then Inl ErrInsecurePermissions
     else if fin_size bfr > maxBytes then Inl ErrBundleTooLarge
     else (case sc_open calls of
        Some err \<Rightarrow> Inl (Wrap ''intel: open local file: %w'' err)
      | None \<Rightarrow>
     (case sc_stat calls of
        Inl err \<Rightarrow> Inl (Wrap ''intel: inspect opened file: %w'' err)
      | Inr aft \<Rightarrow>
     if \<not> fin_regular aft then Inl ErrUnsafeFile
     else if fin_inode bfr \<noteq> fin_inode aft then Inl errFileChanged
     else if fin_perm aft \<noteq> 384 then Inl ErrInsecurePermissions
     else (case sc_read calls of
        Inl err \<Rightarrow> Inl (Wrap ''intel: read local file: %w'' err)
      | Inr content \<Rightarrow>
          (let encoded = take (nat (maxBytes + 1)) content
           in if int (length encoded) > maxBytes then Inl ErrBundleTooLarge else Inr encoded)))))"

subsection \<open>The trust store\<close>

definition TrustStoreSchema :: string where "TrustStoreSchema = ''io.oh-my-safety/intelligence-trust-store''"
definition TrustStoreVersion :: int where "TrustStoreVersion = 1"
definition maxTrustStoreBytes :: int where "maxTrustStoreBytes = 1048576"
definition maxTrustStoreKeys :: nat where "maxTrustStoreKeys = 1024"

record trustStoreKey =
  tk_KeyID :: string
  tk_PublicKey :: string

record trustStoreFile =
  tf_Schema :: string
  tf_SchemaVersion :: int
  tf_Keys :: "trustStoreKey list"

definition trustStoreKey_fields :: "trustStoreKey fields" where
  "trustStoreKey_fields =
    [(''key_id'', fld tk_KeyID (\<lambda>x s. s\<lparr>tk_KeyID := x\<rparr>) dec_string),
     (''public_key'', fld tk_PublicKey (\<lambda>x s. s\<lparr>tk_PublicKey := x\<rparr>) dec_string)]"

definition trustStoreFile_fields :: "trustStoreFile fields" where
  "trustStoreFile_fields =
    [(''schema'', fld tf_Schema (\<lambda>x s. s\<lparr>tf_Schema := x\<rparr>) dec_string),
     (''schema_version'', fld tf_SchemaVersion (\<lambda>x s. s\<lparr>tf_SchemaVersion := x\<rparr>) dec_int64),
     (''keys'', fld tf_Keys (\<lambda>x s. s\<lparr>tf_Keys := x\<rparr>)
        (dec_slice \<lparr>tk_KeyID = [], tk_PublicKey = []\<rparr> (dec_record True trustStoreKey_fields)))]"

definition trustStoreFile_json :: "trustStoreFile \<Rightarrow> json" where
  "trustStoreFile_json d = JObj
     [(''schema'', jstr (tf_Schema d)), (''schema_version'', jint (tf_SchemaVersion d)),
      (''keys'', JArr (map (\<lambda>k. JObj [(''key_id'', jstr (tk_KeyID k)), (''public_key'', jstr (tk_PublicKey k))]) (tf_Keys d)))]"

fun trusted_keys :: "TrustStore \<Rightarrow> trustStoreKey list \<Rightarrow> TrustStore result" where
  "trusted_keys keys [] = Inr keys"
| "trusted_keys keys (e # es) =
     (if \<not> boundedIdentifier (tk_KeyID e) maxKeyIDBytes \<or> tk_KeyID e \<in> set (map fst keys) then Inl ErrInvalidTrustStore
      else (case std_decode (tk_PublicKey e) of
          None \<Rightarrow> Inl ErrInvalidTrustStore
        | Some decoded \<Rightarrow>
            if length decoded \<noteq> 32 \<or> std_encode decoded \<noteq> tk_PublicKey e then Inl ErrInvalidTrustStore
            else trusted_keys (keys @ [(tk_KeyID e, decoded)]) es))"

definition LoadTrustStore :: "secure_calls \<Rightarrow> TrustStore result" where
  "LoadTrustStore calls =
     (case readSecureRegularFile calls maxTrustStoreBytes of
        Inl err \<Rightarrow> Inl err
      | Inr encoded \<Rightarrow>
     (case intel_decodeStrict (dec_record True trustStoreFile_fields) \<lparr>tf_Schema = [], tf_SchemaVersion = 0, tf_Keys = []\<rparr> encoded of
        Inl _ \<Rightarrow> Inl ErrInvalidTrustStore
      | Inr document \<Rightarrow>
          if tf_Schema document \<noteq> TrustStoreSchema \<or> tf_SchemaVersion document \<noteq> TrustStoreVersion \<or> tf_Keys document = []
             \<or> length (tf_Keys document) > maxTrustStoreKeys
          then Inl ErrInvalidTrustStore else trusted_keys [] (tf_Keys document)))"

definition trustStoreDocument :: "string \<Rightarrow> 8 word list \<Rightarrow> string result" where
  "trustStoreDocument keyID publicKey =
     (if \<not> boundedIdentifier keyID maxKeyIDBytes \<or> length publicKey \<noteq> 32 then Inl (New ''intel: invalid trust-store key'')
      else Inr (json_text (trustStoreFile_json \<lparr>tf_Schema = TrustStoreSchema, tf_SchemaVersion = TrustStoreVersion,
        tf_Keys = [\<lparr>tk_KeyID = keyID, tk_PublicKey = std_encode publicKey\<rparr>]\<rparr>)))"

end
