(* ===== verification/Intel_Install.thy ===== *)
theory Intel_Install
  imports Intel_Sign
begin

section \<open>Installing bundles (internal/intel/install.go)\<close>

text \<open>
  The directory of installed bundles: the bundle files, named after the hash of their content,
  and \<open>current.json\<close>, which points to one of them. A bundle is written before the
  pointer, both through a temporary file that is renamed. Every system call may fail: the answers are
  arguments, so that an installation may stop at any point. Installations of one process into one directory are
  serialised by a lock; they are whole operations here.
\<close>

definition CurrentSchema :: string where "CurrentSchema = ''io.oh-my-safety/intelligence-current''"
definition CurrentSchemaVersion :: int where "CurrentSchemaVersion = 1"
definition maxCurrentMetadataBytes :: int where "maxCurrentMetadataBytes = 65536"
definition maxCurrentReadAttempts :: nat where "maxCurrentReadAttempts = 128"

record CurrentMetadata =
  cm_Schema :: string
  cm_SchemaVersion :: int
  cm_BundleFile :: string
  cm_BundleID :: string
  cm_Sequence :: "64 word"
  cm_PayloadSHA256 :: string
  cm_BundleSHA256 :: string
  cm_KeyID :: string

definition CurrentMetadata_fields :: "CurrentMetadata fields" where
  "CurrentMetadata_fields =
    [(''schema'', fld cm_Schema (\<lambda>x s. s\<lparr>cm_Schema := x\<rparr>) dec_string),
     (''schema_version'', fld cm_SchemaVersion (\<lambda>x s. s\<lparr>cm_SchemaVersion := x\<rparr>) dec_int64),
     (''bundle_file'', fld cm_BundleFile (\<lambda>x s. s\<lparr>cm_BundleFile := x\<rparr>) dec_string),
     (''bundle_id'', fld cm_BundleID (\<lambda>x s. s\<lparr>cm_BundleID := x\<rparr>) dec_string),
     (''sequence'', fld cm_Sequence (\<lambda>x s. s\<lparr>cm_Sequence := x\<rparr>) dec_uint64),
     (''payload_sha256'', fld cm_PayloadSHA256 (\<lambda>x s. s\<lparr>cm_PayloadSHA256 := x\<rparr>) dec_string),
     (''bundle_sha256'', fld cm_BundleSHA256 (\<lambda>x s. s\<lparr>cm_BundleSHA256 := x\<rparr>) dec_string),
     (''key_id'', fld cm_KeyID (\<lambda>x s. s\<lparr>cm_KeyID := x\<rparr>) dec_string)]"

definition zero_CurrentMetadata :: CurrentMetadata where
  "zero_CurrentMetadata = \<lparr>cm_Schema = [], cm_SchemaVersion = 0, cm_BundleFile = [], cm_BundleID = [], cm_Sequence = 0,
     cm_PayloadSHA256 = [], cm_BundleSHA256 = [], cm_KeyID = []\<rparr>"

definition CurrentMetadata_json :: "CurrentMetadata \<Rightarrow> json" where
  "CurrentMetadata_json m = JObj
     [(''schema'', jstr (cm_Schema m)), (''schema_version'', jint (cm_SchemaVersion m)), (''bundle_file'', jstr (cm_BundleFile m)),
      (''bundle_id'', jstr (cm_BundleID m)), (''sequence'', jint (uint (cm_Sequence m))),
      (''payload_sha256'', jstr (cm_PayloadSHA256 m)), (''bundle_sha256'', jstr (cm_BundleSHA256 m)), (''key_id'', jstr (cm_KeyID m))]"

definition AcceptanceState_of :: "CurrentMetadata \<Rightarrow> AcceptanceState" where
  "AcceptanceState_of m = \<lparr>as_BundleID = cm_BundleID m, as_Sequence = cm_Sequence m, as_PayloadSHA256 = cm_PayloadSHA256 m\<rparr>"

definition bundle_file_name :: "string \<Rightarrow> string" where
  "bundle_file_name hash = ''bundle-'' @ hash @ ''.json''"

text \<open>\<open>bundleFilePattern\<close> with its group equal to the stated hash.\<close>

definition validCurrentMetadata :: "CurrentMetadata \<Rightarrow> bool" where
  "validCurrentMetadata m \<longleftrightarrow> cm_Schema m = CurrentSchema \<and> cm_SchemaVersion m = CurrentSchemaVersion
     \<and> sha256Pattern (cm_BundleSHA256 m) \<and> cm_BundleFile m = bundle_file_name (cm_BundleSHA256 m)
     \<and> boundedIdentifier (cm_BundleID m) maxBundleIDBytes \<and> cm_Sequence m > 0 \<and> sha256Pattern (cm_PayloadSHA256 m)
     \<and> boundedIdentifier (cm_KeyID m) maxKeyIDBytes"

definition strongerAcceptance :: "AcceptanceState option \<Rightarrow> AcceptanceState \<Rightarrow> AcceptanceState result" where
  "strongerAcceptance caller current =
     (case caller of
        None \<Rightarrow> Inr current
      | Some c \<Rightarrow>
          if as_Sequence c = 0 then Inr current
          else if as_Sequence current = 0 then Inr c
          else if as_Sequence c > as_Sequence current then Inr c
          else if as_Sequence current > as_Sequence c then Inr current
          else if as_BundleID c \<noteq> as_BundleID current \<or> as_PayloadSHA256 c \<noteq> as_PayloadSHA256 current
          then Inl ErrSequenceConflict
          else Inr current)"

subsection \<open>Directories\<close>

definition io_error :: go_error where "io_error = New ''input/output error''"

definition inspectPrivateDirectory :: "dir_info lstat \<Rightarrow> go_error option" where
  "inspectPrivateDirectory answer =
     (case answer of
        NotExist \<Rightarrow> Some (Wrap ''intel: inspect private directory: %w'' ErrNotExist)
      | LstatFailed \<Rightarrow> Some (Wrap ''intel: inspect private directory: %w'' io_error)
      | Found info \<Rightarrow>
          if di_symlink info \<or> \<not> di_is_dir info then Some ErrUnsafeFile
          else if di_perm info \<noteq> 448 then Some (New ''intel: directory permissions must be 0700'')
          else None)"

text \<open>
  \<open>ensurePrivateDirectory\<close> calls itself after creating the directory; each round has its answers.
  The last round of a list finds the directory or fails; past it there are no answers.
\<close>

record dir_round =
  rd_lstat :: "dir_info lstat"
  rd_mkdir :: bool
  rd_chmod :: bool
  rd_inspect :: "dir_info lstat"

fun ensurePrivateDirectory :: "dir_round list \<Rightarrow> go_error option" where
  "ensurePrivateDirectory [] = Some io_error"
| "ensurePrivateDirectory (r # rs) =
     (case rd_lstat r of
        NotExist \<Rightarrow>
          if \<not> rd_mkdir r then Some (Wrap ''intel: create private directory: %w'' io_error)
          else if \<not> rd_chmod r then Some (Wrap ''intel: restrict private directory: %w'' io_error)
          else ensurePrivateDirectory rs
      | LstatFailed \<Rightarrow> Some (Wrap ''intel: inspect private directory: %w'' io_error)
      | Found _ \<Rightarrow> inspectPrivateDirectory (rd_inspect r))"

record byte_file =
  bf_info :: file_info
  bf_bytes :: string

record bundle_dir =
  bd_current :: "byte_file option"
  bd_bundles :: "string \<Rightarrow> byte_file option"

text \<open>Whether the calls that read a file succeed, and whether it is still the same file when it is opened.\<close>

record secure_faults =
  sx_lstat :: bool
  sx_open :: bool
  sx_stat :: bool
  sx_same :: bool
  sx_read :: bool

definition secure_of :: "secure_faults \<Rightarrow> byte_file option \<Rightarrow> secure_calls" where
  "secure_of x file =
     (case file of
        None \<Rightarrow> \<lparr>sc_lstat = Inl (if sx_lstat x then ErrNotExist else io_error), sc_open = Some ErrNotExist,
                 sc_stat = Inl ErrNotExist, sc_read = Inl io_error\<rparr>
      | Some f \<Rightarrow>
          \<lparr>sc_lstat = (if sx_lstat x then Inr (bf_info f) else Inl io_error), sc_open = (if sx_open x then None else Some io_error),
           sc_stat = (if sx_stat x then Inr ((bf_info f)\<lparr>fin_inode := fin_inode (bf_info f) + (if sx_same x then 0 else 1)\<rparr>) else Inl io_error),
           sc_read = (if sx_read x then Inr (bf_bytes f) else Inl io_error)\<rparr>)"

definition new_file :: "string \<Rightarrow> byte_file" where
  "new_file content = \<lparr>bf_info = \<lparr>fin_regular = True, fin_perm = 384, fin_size = int (length content), fin_inode = 0\<rparr>, bf_bytes = content\<rparr>"

subsection \<open>Reading the current bundle\<close>

fun read_attempts :: "nat \<Rightarrow> nat \<Rightarrow> (nat \<Rightarrow> secure_calls) \<Rightarrow> string result" where
  "read_attempts 0 k calls = readSecureRegularFile (calls k) maxCurrentMetadataBytes"
| "read_attempts (Suc n) k calls =
     (case readSecureRegularFile (calls k) maxCurrentMetadataBytes of
        Inl err \<Rightarrow> if errors_Is err errFileChanged then read_attempts n (Suc k) calls else Inl err
      | Inr encoded \<Rightarrow> Inr encoded)"

definition read_metadata :: "(nat \<Rightarrow> secure_calls) \<Rightarrow> CurrentMetadata result" where
  "read_metadata calls =
     (case read_attempts (maxCurrentReadAttempts - 1) 0 calls of
        Inl err \<Rightarrow>
          Inl (if errors_Is err ErrNotExist then ErrNoCurrentBundle else if errors_Is err errFileChanged then ErrCurrentState else err)
      | Inr currentJSON \<Rightarrow>
          (case intel_decodeStrict (dec_record True CurrentMetadata_fields) zero_CurrentMetadata currentJSON of
             Inl _ \<Rightarrow> Inl ErrCurrentState
           | Inr metadata \<Rightarrow> if \<not> validCurrentMetadata metadata then Inl ErrCurrentState else Inr metadata))"

definition read_bundle ::
  "regexp \<Rightarrow> (string \<Rightarrow> 8 word list) \<Rightarrow> Limits \<Rightarrow> CurrentMetadata \<Rightarrow> secure_calls \<Rightarrow> string result" where
  "read_bundle compile sha256 limits metadata calls =
     (case readSecureRegularFile calls (li_MaxBundleBytes limits) of
        Inl _ \<Rightarrow> Inl ErrCurrentState
      | Inr bundleJSON \<Rightarrow>
     if hashBytes sha256 bundleJSON \<noteq> cm_BundleSHA256 metadata then Inl ErrCurrentState
     else (case intel_decodeStrict (dec_record True Bundle_fields) zero_Bundle bundleJSON of
        Inl _ \<Rightarrow> Inl ErrCurrentState
      | Inr b \<Rightarrow>
     (case prepareBundle compile b limits of
        Inl _ \<Rightarrow> Inl ErrCurrentState
      | Inr (prepared, _) \<Rightarrow>
          if canonicalBundle prepared \<noteq> Some bundleJSON \<or> bu_BundleID b \<noteq> cm_BundleID metadata \<or> bu_Sequence b \<noteq> cm_Sequence metadata
             \<or> bu_PayloadSHA256 b \<noteq> cm_PayloadSHA256 metadata \<or> bu_KeyID b \<noteq> cm_KeyID metadata
          then Inl ErrCurrentState else Inr bundleJSON)))"

definition ReadCurrent ::
  "regexp \<Rightarrow> (string \<Rightarrow> 8 word list) \<Rightarrow> dir_info lstat \<Rightarrow> dir_info lstat \<Rightarrow> (nat \<Rightarrow> secure_calls) \<Rightarrow> (string \<Rightarrow> secure_calls) \<Rightarrow> Limits
     \<Rightarrow> (CurrentMetadata \<times> string) result" where
  "ReadCurrent compile sha256 dirAnswer bundlesAnswer current bundles limits =
     (case normalizeLimits limits of
        Inl err \<Rightarrow> Inl err
      | Inr resolvedLimits \<Rightarrow>
     (case inspectPrivateDirectory dirAnswer of
        Some err \<Rightarrow> Inl (if errors_Is err ErrNotExist then ErrNoCurrentBundle else err)
      | None \<Rightarrow>
     if inspectPrivateDirectory bundlesAnswer \<noteq> None then Inl ErrCurrentState
     else (case read_metadata current of
        Inl err \<Rightarrow> Inl err
      | Inr metadata \<Rightarrow>
     (case read_bundle compile sha256 resolvedLimits metadata (bundles (cm_BundleFile metadata)) of
        Inl err \<Rightarrow> Inl err
      | Inr bundleJSON \<Rightarrow> Inr (metadata, bundleJSON)))))"

subsection \<open>Writing\<close>

text \<open>
  The answers of the calls that write a file: the context's error at the \<open>k\<close>-th check, the bytes
  the \<open>k\<close>-th \<open>Write\<close> takes of its chunk, and the outcome of the others.
\<close>

record write_calls =
  wr_create :: bool
  wr_chmod :: bool
  wr_ctx :: "nat \<Rightarrow> go_error option"
  wr_write :: "nat \<Rightarrow> nat result"
  wr_sync :: bool
  wr_close :: bool
  wr_rename :: bool
  wr_opendir :: bool
  wr_syncdir :: bool

definition io_ErrShortWrite :: go_error where "io_ErrShortWrite = New ''short write''"

function write_chunks :: "write_calls \<Rightarrow> nat \<Rightarrow> string \<Rightarrow> go_error option" where
  "write_chunks calls k content =
     (if content = [] then None
      else (case wr_ctx calls k of
          Some err \<Rightarrow> Some err
        | None \<Rightarrow>
            (case wr_write calls k of
               Inl err \<Rightarrow> Some (Wrap ''intel: write local file: %w'' err)
             | Inr taken \<Rightarrow>
                 if min taken (min 65536 (length content)) = 0 then Some (Wrap ''intel: write local file: %w'' io_ErrShortWrite)
                 else write_chunks calls (Suc k) (drop (min taken 65536) content))))"
  by pat_completeness auto
termination
  by (relation "measure (\<lambda>(calls, k, content). length content)") (auto simp: min_def split: if_splits)

declare write_chunks.simps [simp del]

definition writeAndSync :: "write_calls \<Rightarrow> string \<Rightarrow> go_error option" where
  "writeAndSync calls content =
     (case write_chunks calls 0 content of
        Some err \<Rightarrow> Some err
      | None \<Rightarrow> if \<not> wr_sync calls then Some (Wrap ''intel: sync local file: %w'' io_error) else None)"

definition intel_syncDirectory :: "write_calls \<Rightarrow> go_error option" where
  "intel_syncDirectory calls =
     (if \<not> wr_opendir calls then Some (Wrap ''intel: open directory for sync: %w'' io_error)
      else if \<not> wr_syncdir calls then Some (Wrap ''intel: sync directory: %w'' io_error)
      else None)"

text \<open>Up to the rename; the temporary file is removed on failure.\<close>

definition write_temp :: "string \<Rightarrow> write_calls \<Rightarrow> string \<Rightarrow> go_error option" where
  "write_temp what calls content =
     (if \<not> wr_create calls then Some (Wrap (''intel: create '' @ what @ '' temp file: %w'') io_error)
      else if \<not> wr_chmod calls then Some (Wrap (''intel: restrict '' @ what @ '' temp file: %w'') io_error)
      else (case writeAndSync calls content of
          Some err \<Rightarrow> Some err
        | None \<Rightarrow> if \<not> wr_close calls then Some (Wrap (''intel: close '' @ what @ '' temp file: %w'') io_error) else None))"

definition writeImmutableFile ::
  "secure_calls \<Rightarrow> write_calls \<Rightarrow> secure_calls \<Rightarrow> string \<Rightarrow> byte_file option \<Rightarrow> go_error option \<times> byte_file option" where
  "writeImmutableFile before_calls calls after_calls content file =
     (case readSecureRegularFile before_calls (int (length content)) of
        Inr existing \<Rightarrow> (if existing \<noteq> content then Some ErrCurrentState else None, file)
      | Inl err \<Rightarrow>
     if \<not> errors_Is err ErrNotExist then (Some err, file)
     else (case write_temp ''bundle'' calls content of
        Some err \<Rightarrow> (Some err, file)
      | None \<Rightarrow>
          if \<not> wr_rename calls
          then (if readSecureRegularFile after_calls (int (length content)) = Inr content then None
                else Some (Wrap ''intel: publish immutable bundle: %w'' io_error), file)
          else (intel_syncDirectory calls, Some (new_file content))))"

definition writeAtomicFile :: "write_calls \<Rightarrow> string \<Rightarrow> byte_file option \<Rightarrow> go_error option \<times> byte_file option" where
  "writeAtomicFile calls content file =
     (case write_temp ''current'' calls content of
        Some err \<Rightarrow> (Some err, file)
      | None \<Rightarrow>
          if \<not> wr_rename calls then (Some (Wrap ''intel: publish current metadata: %w'' io_error), file)
          else (intel_syncDirectory calls, Some (new_file content)))"

subsection \<open>Install\<close>

record InstallResult =
  ir_Metadata :: CurrentMetadata
  ir_Installed :: bool
  ir_Replay :: bool

text \<open>
  The answers of one call of \<open>Install\<close>. The two directories have been ensured when they are
  inspected again, so that the answers there are a failure (\<open>None\<close>) or what was found.
\<close>

record install_calls =
  in_ctx_start :: "go_error option"
  in_abs :: bool
  in_dir :: "dir_round list"
  in_bundles_dir :: "dir_round list"
  in_inspect_dir :: "dir_info option"
  in_inspect_bundles :: "dir_info option"
  in_current :: "nat \<Rightarrow> secure_faults"
  in_bundle :: secure_faults
  in_clock :: gotime
  in_ctx_verified :: "go_error option"
  in_existing :: secure_faults
  in_write_bundle :: write_calls
  in_existing_again :: secure_faults
  in_write_current :: write_calls

definition found :: "dir_info option \<Rightarrow> dir_info lstat" where
  "found answer = (case answer of None \<Rightarrow> LstatFailed | Some info \<Rightarrow> Found info)"

definition current_of ::
  "regexp \<Rightarrow> (string \<Rightarrow> 8 word list) \<Rightarrow> install_calls \<Rightarrow> Limits \<Rightarrow> bundle_dir \<Rightarrow> (CurrentMetadata \<times> string) result" where
  "current_of compile sha256 calls limits d =
     ReadCurrent compile sha256 (found (in_inspect_dir calls)) (found (in_inspect_bundles calls))
       (\<lambda>k. secure_of (in_current calls k) (bd_current d)) (\<lambda>name. secure_of (in_bundle calls) (bd_bundles d name)) limits"

definition metadata_for :: "(string \<Rightarrow> 8 word list) \<Rightarrow> VerifiedBundle \<Rightarrow> CurrentMetadata" where
  "metadata_for sha256 v =
     (let bundleHash = hashBytes sha256 (vb_Canonical v); b = vb_Bundle v
      in \<lparr>cm_Schema = CurrentSchema, cm_SchemaVersion = CurrentSchemaVersion, cm_BundleFile = bundle_file_name bundleHash,
          cm_BundleID = bu_BundleID b, cm_Sequence = bu_Sequence b, cm_PayloadSHA256 = bu_PayloadSHA256 b,
          cm_BundleSHA256 = bundleHash, cm_KeyID = bu_KeyID b\<rparr>)"

text \<open>The last step: the bundle, then the pointer.\<close>

definition publish ::
  "install_calls \<Rightarrow> CurrentMetadata \<Rightarrow> VerifiedBundle \<Rightarrow> bundle_dir \<Rightarrow> InstallResult result \<times> bundle_dir" where
  "publish calls metadata v d =
     (let name = cm_BundleFile metadata; old = bd_bundles d name
      in case writeImmutableFile (secure_of (in_existing calls) old) (in_write_bundle calls) (secure_of (in_existing_again calls) old)
              (vb_Canonical v) old of
           (Some err, file) \<Rightarrow> (Inl err, d\<lparr>bd_bundles := (bd_bundles d)(name := file)\<rparr>)
         | (None, file) \<Rightarrow>
             (let d1 = d\<lparr>bd_bundles := (bd_bundles d)(name := file)\<rparr>
              in case writeAtomicFile (in_write_current calls) (json_text (CurrentMetadata_json metadata)) (bd_current d1) of
                   (Some err, current) \<Rightarrow> (Inl err, d1\<lparr>bd_current := current\<rparr>)
                 | (None, current) \<Rightarrow>
                     (Inr \<lparr>ir_Metadata = metadata, ir_Installed = True, ir_Replay = vb_Replay v\<rparr>, d1\<lparr>bd_current := current\<rparr>)))"

definition Install ::
  "regexp \<Rightarrow> (string \<Rightarrow> 8 word list) \<Rightarrow> ed25519 \<Rightarrow> install_calls \<Rightarrow> string \<Rightarrow> TrustStore option \<Rightarrow> string \<Rightarrow> VerifyOptions
     \<Rightarrow> bundle_dir \<Rightarrow> InstallResult result \<times> bundle_dir" where
  "Install compile sha256 ed calls encoded trustStore directory options d =
     (case in_ctx_start calls of
        Some err \<Rightarrow> (Inl err, d)
      | None \<Rightarrow>
     if directory = [] \<or> \<not> in_abs calls then (Inl (New ''intel: invalid install directory''), d)
     else (case ensurePrivateDirectory (in_dir calls) of
        Some err \<Rightarrow> (Inl err, d)
      | None \<Rightarrow>
     (case ensurePrivateDirectory (in_bundles_dir calls) of
        Some err \<Rightarrow> (Inl err, d)
      | None \<Rightarrow>
     (let current = current_of compile sha256 calls (vo_Limits options) d
      in case (case current of
            Inr (metadata, _) \<Rightarrow> map_sum id Some (strongerAcceptance (vo_LastAccepted options) (AcceptanceState_of metadata))
          | Inl err \<Rightarrow> if errors_Is err ErrNoCurrentBundle then Inr (vo_LastAccepted options) else Inl err) of
        Inl err \<Rightarrow> (Inl err, d)
      | Inr lastAccepted \<Rightarrow>
     (case Bundle_Verify compile sha256 ed (in_clock calls) encoded trustStore (options\<lparr>vo_LastAccepted := lastAccepted\<rparr>) of
        Inl err \<Rightarrow> (Inl err, d)
      | Inr verified \<Rightarrow>
     (case in_ctx_verified calls of
        Some err \<Rightarrow> (Inl err, d)
      | None \<Rightarrow>
     (let metadata = metadata_for sha256 verified
      in if current = Inr (metadata, vb_Canonical verified) \<and> vb_Replay verified
         then (Inr \<lparr>ir_Metadata = metadata, ir_Installed = False, ir_Replay = True\<rparr>, d)
         else publish calls metadata verified d)))))))"

end
