(* ===== verification/Intel_Facts.thy ===== *)
theory Intel_Facts
  imports Intel_Install
begin

section \<open>Facts about bundle texts and files\<close>

text \<open>
  Identifiers and hashes are ASCII; a JSON text is at most six times as long as its strings;
  what \<open>current.json\<close> holds reads back; and what the reading and writing of files under faults can
  give.
\<close>

subsection \<open>Lengths of JSON texts\<close>

lemma length_escape_rune: "snd r \<noteq> [] \<Longrightarrow> length (escape_rune r) \<le> 6 * length (snd r)"
  by (cases "snd r") (simp_all add: escape_rune_def Let_def)

lemma length_quote_text: "length (quote_text s) \<le> 6 * length s + 2"
proof -
  have "length (concat (map escape_rune rs)) \<le> 6 * length (concat (map snd rs))" if "\<forall>r \<in> set rs. snd r \<noteq> []" for rs
    using that
  proof (induction rs)
    case (Cons r rs)
    then show ?case using length_escape_rune [of r] by simp
  qed simp
  then show ?thesis using runes_bytes_nonempty [of _ s] concat_runes [of s] by (fastforce simp: quote_text_def)
qed

lemma length_dec_text: "0 \<le> n \<Longrightarrow> n < 10 ^ Suc k \<Longrightarrow> length (dec_text n) \<le> Suc k"
proof (induction k arbitrary: n)
  case 0
  then show ?case by (simp add: dec_text.simps [of n])
next
  case (Suc k)
  then have "n div 10 < 10 ^ Suc k" by auto
  with Suc show ?case by (subst dec_text.simps) auto
qed

lemma length_FormatInt: "0 \<le> n \<Longrightarrow> n < 10 ^ Suc k \<Longrightarrow> length (FormatInt n) \<le> Suc k"
  using length_dec_text [of n k] by (simp add: FormatInt_def append_int_def Let_def)

subsection \<open>Identifiers and hashes\<close>

lemma byte_eq: "byte c = byte d \<longleftrightarrow> c = d"
  using of_char_eq_iff [of c d, where 'a = nat] by simp

lemma alnum_byte: "alnum c \<Longrightarrow> byte c < 128"
  by (auto simp: alnum_def letter_def is_digit_def)

lemma safe_chars_ascii:
  assumes "list_all (\<lambda>c. alnum c \<or> c \<in> set cs) s" and "ascii cs"
  shows "ascii s"
  using assms by (auto simp: ascii_def list_all_iff dest: alnum_byte)

lemma safe_identifier_ascii: "safe_identifier s \<Longrightarrow> ascii s"
proof (cases s)
  case (Cons c cs)
  assume "safe_identifier s"
  then have "alnum c" "list_all (\<lambda>c. alnum c \<or> c \<in> set ''._:-'') cs" by (simp_all add: safe_identifier_def Cons)
  moreover have "ascii ''._:-''" by code_simp
  ultimately show ?thesis using safe_chars_ascii [of "''._:-''" cs] alnum_byte [of c] by (simp add: Cons ascii_def)
qed (simp add: safe_identifier_def)

lemma boundedIdentifier_ascii: "boundedIdentifier s n \<Longrightarrow> ascii s \<and> length s \<le> n \<and> s \<noteq> []"
  by (simp add: boundedIdentifier_def boundedMatch_def safe_identifier_ascii)

lemma sha256Pattern_ascii: "sha256Pattern s \<Longrightarrow> ascii s \<and> length s = 64"
  by (auto simp: sha256Pattern_def ascii_def list_all_iff is_digit_def)

lemma hex_encode_length: "length (hex_encode bs) = 2 * length bs"
  by (induction bs) (simp_all add: hex_encode_def)

lemma hashBytes_pattern:
  assumes "\<And>x. length (sha256 x) = 32"
  shows "sha256Pattern (hashBytes sha256 s)"
proof -
  have "is_digit c \<or> (97 \<le> byte c \<and> byte c \<le> 102)" if "c \<in> set ''0123456789abcdef''" for c
    using that by (auto simp: is_digit_def)
  then have "is_digit (hex_digit n) \<or> (97 \<le> byte (hex_digit n) \<and> byte (hex_digit n) \<le> 102)" if "n < 16" for n
    using hex_digit_in [OF that] by blast
  then have "list_all (\<lambda>c. is_digit c \<or> (97 \<le> byte c \<and> byte c \<le> 102)) (hex_encode bs)" for bs
    by (auto simp: hex_encode_def list_all_iff byte_nibbles)
  then show ?thesis by (simp add: sha256Pattern_def hashBytes_def hex_encode_length assms)
qed

subsection \<open>The text of current.json\<close>

lemma metadata_parts:
  assumes "validCurrentMetadata m"
  shows "ascii (cm_Schema m)" "length (cm_Schema m) = 36" "cm_SchemaVersion m = 1" "ascii (cm_BundleFile m)" "length (cm_BundleFile m) = 76"
    "ascii (cm_BundleID m)" "length (cm_BundleID m) \<le> 128" "ascii (cm_PayloadSHA256 m)" "length (cm_PayloadSHA256 m) = 64"
    "ascii (cm_BundleSHA256 m)" "length (cm_BundleSHA256 m) = 64" "ascii (cm_KeyID m)" "length (cm_KeyID m) \<le> 128"
proof -
  note parts = assms [unfolded validCurrentMetadata_def]
  have "ascii CurrentSchema" "length CurrentSchema = 36" by code_simp+
  then show "ascii (cm_Schema m)" "length (cm_Schema m) = 36" "cm_SchemaVersion m = 1"
    using parts by (simp_all add: CurrentSchemaVersion_def)
  have "ascii ''bundle-''" "ascii ''.json''" by code_simp+
  then show "ascii (cm_BundleFile m)" "length (cm_BundleFile m) = 76"
    using parts sha256Pattern_ascii [of "cm_BundleSHA256 m"] by (auto simp: bundle_file_name_def ascii_def)
qed (use assms boundedIdentifier_ascii sha256Pattern_ascii in \<open>auto simp: validCurrentMetadata_def maxBundleIDBytes_def maxKeyIDBytes_def\<close>)

lemma metadata_text_small:
  assumes "validCurrentMetadata m"
  shows "length (json_text (CurrentMetadata_json m)) < 10000"
proof -
  note keys = length_quote_text [of "''schema''"] length_quote_text [of "''schema_version''"] length_quote_text [of "''bundle_file''"]
    length_quote_text [of "''bundle_id''"] length_quote_text [of "''sequence''"] length_quote_text [of "''payload_sha256''"]
    length_quote_text [of "''bundle_sha256''"] length_quote_text [of "''key_id''"]
  note vals = length_quote_text [of "cm_Schema m"] length_quote_text [of "cm_BundleFile m"] length_quote_text [of "cm_BundleID m"]
    length_quote_text [of "cm_PayloadSHA256 m"] length_quote_text [of "cm_BundleSHA256 m"] length_quote_text [of "cm_KeyID m"]
  have "uint (cm_Sequence m) < 10 ^ Suc 19" using uint_lt2p [of "cm_Sequence m"] by simp
  then have "length (FormatInt (uint (cm_Sequence m))) \<le> 20" "length (FormatInt 1) \<le> 1"
    using length_FormatInt [of "uint (cm_Sequence m)" 19] length_FormatInt [of 1 0] by (simp_all add: uint_ge_0)
  with keys vals metadata_parts [OF assms] show ?thesis
    by (simp add: CurrentMetadata_json_def jstr_def jint_def join_with.simps)
qed

lemma metadata_reads:
  assumes "validCurrentMetadata m"
  shows "intel_decodeStrict (dec_record True CurrentMetadata_fields) zero_CurrentMetadata (json_text (CurrentMetadata_json m)) = Inr m"
proof -
  have "json_values (json_text (CurrentMetadata_json m)) = [Some (CurrentMetadata_json m)]"
    by (rule json_values_text) (simp add: CurrentMetadata_json_def maxNestingDepth_def)
  moreover have "dec_record True CurrentMetadata_fields (CurrentMetadata_json m) zero_CurrentMetadata = Some m"
    unfolding CurrentMetadata_json_def
    by (subst dec_record_plain)
      (simp_all add: CurrentMetadata_fields_def plain_name_def by_name_def fld_def zero_CurrentMetadata_def metadata_parts [OF assms])
  ultimately show ?thesis by (simp add: intel_decodeStrict_def)
qed

end
