(* ===== verification/Intel_Canonical.thy ===== *)
theory Intel_Canonical
  imports Intel_Facts
begin

section \<open>The canonical form of a bundle\<close>

text \<open>
  Normalising a record is idempotent and its sort key is its identity; the canonical list of
  records depends only on which records there are, not on their order; a canonical bundle reads back from its
  text.
\<close>

subsection \<open>Lower case\<close>

lemma ascii_byte_in_rune: "r \<in> set (runes s) \<Longrightarrow> c \<in> set (snd r) \<Longrightarrow> byte c < 128 \<Longrightarrow> r = (byte c, [c])"
proof (induction s rule: runes.induct)
  case (1 s)
  show ?case
  proof (cases s)
    case (Cons d ds)
    show ?thesis
    proof (cases "byte d < 128")
      case True
      then have "runes s = (byte d, [d]) # runes ds" "snd (decode_rune s) = 1" by (simp_all add: Cons decode_rune_def)
      then show ?thesis using 1 Cons by (auto simp: Cons)
    next
      case False
      then have "r \<noteq> (fst (decode_rune s), take (snd (decode_rune s)) s)"
        using decode_rune_wide [of d c ds] 1(3,4) by (auto simp: Cons)
      then have "r \<in> set (runes (drop (snd (decode_rune s)) s))" using 1(2) by (auto simp: Cons runes.simps [of "d # ds"])
      with 1 Cons show ?thesis by blast
    qed
  qed (use 1 in simp)
qed

definition lower_rune :: "rune \<Rightarrow> string" where
  "lower_rune r =
    (if 65 \<le> fst r \<and> fst r \<le> 90 then [char_of (fst r + 32)]
     else if fst r = 8490 then ''k'' else if fst r = 304 then ''i'' else snd r)"

lemma ToLower_eq: "ToLower s = concat (map lower_rune (runes s))"
  by (simp add: ToLower_def lower_rune_def [abs_def])

lemma ToLower_no_upper:
  assumes "c \<in> set (ToLower s)"
  shows "\<not> (65 \<le> byte c \<and> byte c \<le> 90)"
proof
  assume up: "65 \<le> byte c \<and> byte c \<le> 90"
  from assms obtain r where r: "r \<in> set (runes s)" "c \<in> set (lower_rune r)" by (auto simp: ToLower_eq)
  show False
  proof (cases "c \<in> set (snd r)")
    case True
    with r up have "r = (byte c, [c])" by (intro ascii_byte_in_rune [of r s]) auto
    with r(2) up have "c = char_of (byte c + 32)" by (simp add: lower_rune_def)
    then have "byte c = byte (char_of (byte c + 32) :: char)" by simp
    with up show False by simp
  next
    case False
    with r(2) up show False by (auto simp: lower_rune_def split: if_splits)
  qed
qed

lemma ToLower_fixed: "ascii s \<Longrightarrow> (\<And>c. c \<in> set s \<Longrightarrow> \<not> (65 \<le> byte c \<and> byte c \<le> 90)) \<Longrightarrow> ToLower s = s"
proof (induction s)
  case (Cons c cs)
  then have "byte c < 128" by (simp add: ascii_def)
  moreover have "ToLower cs = cs" using Cons by (auto simp: ascii_def)
  ultimately show ?case using Cons.prems(2) [of c] by (auto simp: ToLower_def)
qed (simp add: ToLower_def)

lemma ToLower_idem: "ascii (ToLower s) \<Longrightarrow> ToLower (ToLower s) = ToLower s"
  by (rule ToLower_fixed) (auto dest: ToLower_no_upper)

subsection \<open>One record\<close>

text \<open>The strings of a record are valid UTF-8, so that they survive their JSON form.\<close>

definition record_clean :: "BundleRecord \<Rightarrow> bool" where
  "record_clean r \<longleftrightarrow> sanitize (br_Type r) = br_Type r
     \<and> (\<forall>m. br_MaliciousSHA256 r = Some m \<longrightarrow> sanitize (ms_SHA256 m) = ms_SHA256 m)
     \<and> (\<forall>s. br_RevokedSigner r = Some s \<longrightarrow> sanitize (rs_Kind s) = rs_Kind s \<and> sanitize (rs_Identifier s) = rs_Identifier s)
     \<and> (\<forall>p. br_VulnerablePackage r = Some p \<longrightarrow> sanitize (vp_Ecosystem p) = vp_Ecosystem p \<and> sanitize (vp_Package p) = vp_Package p
          \<and> (\<forall>c \<in> set (vp_Constraints p). sanitize (vc_Operator c) = vc_Operator c \<and> sanitize (vc_Version c) = vc_Version c))
     \<and> (\<forall>p. br_SecretPattern r = Some p \<longrightarrow> sanitize (sd_DetectorID p) = sd_DetectorID p \<and> sanitize (sd_Pattern p) = sd_Pattern p)"

text \<open>What Go's compiler of regular expressions accepts is valid UTF-8.\<close>

definition compiles_text :: "regexp \<Rightarrow> bool" where
  "compiles_text compile \<longleftrightarrow> (\<forall>p. compile p \<noteq> None \<longrightarrow> sanitize p = p)"

text \<open>A record in canonical form, with its identity.\<close>

definition settled :: "regexp \<Rightarrow> Limits \<Rightarrow> BundleRecord \<Rightarrow> string \<Rightarrow> bool" where
  "settled compile limits n k \<longleftrightarrow> (\<forall>j. canonical_by_type compile j n limits = Inr (n, k)) \<and> payload_count n = 1
     \<and> recordSortKey n = k \<and> (compiles_text compile \<longrightarrow> record_clean n)"

lemma distinct_types [simp]:
  "RecordMaliciousSHA256 \<noteq> RecordRevokedSigner" "RecordMaliciousSHA256 \<noteq> RecordVulnerablePackage"
  "RecordMaliciousSHA256 \<noteq> RecordSecretPattern" "RecordRevokedSigner \<noteq> RecordVulnerablePackage"
  "RecordRevokedSigner \<noteq> RecordSecretPattern" "RecordVulnerablePackage \<noteq> RecordSecretPattern"
  "RecordRevokedSigner \<noteq> RecordMaliciousSHA256" "RecordVulnerablePackage \<noteq> RecordMaliciousSHA256"
  "RecordSecretPattern \<noteq> RecordMaliciousSHA256" "RecordVulnerablePackage \<noteq> RecordRevokedSigner"
  "RecordSecretPattern \<noteq> RecordRevokedSigner" "RecordSecretPattern \<noteq> RecordVulnerablePackage"
  by (simp_all add: record_types)

lemma types_clean [simp]:
  "sanitize RecordMaliciousSHA256 = RecordMaliciousSHA256" "sanitize RecordRevokedSigner = RecordRevokedSigner"
  "sanitize RecordVulnerablePackage = RecordVulnerablePackage" "sanitize RecordSecretPattern = RecordSecretPattern"
  by (simp_all add: record_types)

lemmas settled_simps = settled_def canonical_by_type_def payload_count_def recordSortKey_def record_clean_def zero_BundleRecord_def

lemma malicious_settled:
  assumes "canonical_malicious i m = Inr (n, k)"
  shows "settled compile limits n k"
proof -
  define h where "h = ToLower (ms_SHA256 m)"
  have h: "sha256Pattern h" and n: "n = zero_BundleRecord\<lparr>br_Type := RecordMaliciousSHA256, br_MaliciousSHA256 := Some \<lparr>ms_SHA256 = h\<rparr>\<rparr>"
      and k: "k = RecordMaliciousSHA256 @ '':'' @ h"
    using assms by (auto simp: canonical_malicious_def h_def Let_def split: if_splits)
  have a: "ascii h" using sha256Pattern_ascii [OF h] by simp
  then have "ToLower h = h" unfolding h_def by (rule ToLower_idem)
  with h a show ?thesis unfolding n k by (simp add: settled_simps canonical_malicious_def Let_def)
qed

lemma signer_settled:
  assumes "canonical_signer i s = Inr (n, k)"
  shows "settled compile limits n k"
proof -
  have kind: "rs_Kind s = TeamID \<and> teamIDPattern (rs_Identifier s) \<or> rs_Kind s = SignerID \<and> boundedIdentifier (rs_Identifier s) maxSignerIDBytes"
      and n: "n = zero_BundleRecord\<lparr>br_Type := RecordRevokedSigner, br_RevokedSigner := Some s\<rparr>"
      and k: "k = RecordRevokedSigner @ '':'' @ rs_Kind s @ '':'' @ rs_Identifier s"
    using assms by (auto simp: canonical_signer_def split: if_splits)
  have "ascii (rs_Identifier s)"
    using kind boundedIdentifier_ascii by (auto simp: teamIDPattern_def ascii_def list_all_iff is_digit_def)
  moreover have "ascii TeamID" "ascii SignerID" by code_simp+
  ultimately have "sanitize (rs_Kind s) = rs_Kind s" "sanitize (rs_Identifier s) = rs_Identifier s" using kind by auto
  moreover have "canonical_signer j s = Inr (n, k)" for j
    using kind by (auto simp: canonical_signer_def n k TeamID_def SignerID_def)
  ultimately show ?thesis using n k by (simp add: settled_simps)
qed

lemma first_and_safe_ascii:
  assumes "s \<noteq> []" and "byte (hd s) < 128" and "list_all (\<lambda>c. alnum c \<or> c \<in> set cs) (tl s)" and "ascii cs"
  shows "ascii s"
  using assms safe_chars_ascii [of cs "tl s"] by (cases s) (auto simp: ascii_def)

lemma package_ascii:
  shows "boundedMatch s l safe_identifier \<Longrightarrow> ascii s" and "boundedMatch s l safePackage \<Longrightarrow> ascii s"
    and "boundedMatch s l safeVersion \<Longrightarrow> ascii s"
proof -
  have cs: "ascii ''@+._:/~-''" "ascii ''+._:~-''" by code_simp+
  show "ascii s" if "boundedMatch s l safe_identifier" using that safe_identifier_ascii by (simp add: boundedMatch_def)
  show "ascii s" if "boundedMatch s l safePackage"
    using that first_and_safe_ascii [OF _ _ _ cs(1), of s] alnum_byte by (auto simp: boundedMatch_def safePackage_def)
  show "ascii s" if "boundedMatch s l safeVersion"
    using that first_and_safe_ascii [OF _ _ _ cs(2), of s] alnum_byte by (auto simp: boundedMatch_def safeVersion_def)
qed

lemma sort_key_same: "sort_key f (sort_key f xs) = sort_key f xs"
  by (intro sort_key_id_if_sorted sorted_sort_key)

lemma package_settled:
  assumes "canonical_package i p = Inr (n, k)"
  shows "settled compile limits n k"
proof -
  define q where "q = p\<lparr>vp_Ecosystem := ToLower (vp_Ecosystem p), vp_Constraints := sort_key constraint_key (vp_Constraints p)\<rparr>"
  have eco: "boundedMatch (vp_Ecosystem q) maxEcosystemBytes safe_identifier"
      and pkg: "boundedMatch (vp_Package q) maxPackageBytes safePackage" "\<not> contains (vp_Package q) ''..''"
      and cnt: "vp_Constraints q \<noteq> []" "length (vp_Constraints q) \<le> maxConstraints"
      and chk: "\<forall>c \<in> set (vp_Constraints q). version_constraint_error i c = None" "distinct (map constraint_key (vp_Constraints q))"
      and n: "n = zero_BundleRecord\<lparr>br_Type := RecordVulnerablePackage, br_VulnerablePackage := Some q\<rparr>"
      and k: "k = RecordVulnerablePackage @ '':'' @ vp_Ecosystem q @ '':'' @ vp_Package q"
    using assms by (auto simp: canonical_package_def q_def Let_def distinct_map split: if_splits option.splits dest: arg_cong [where f = length])
  have eco_a: "ascii (vp_Ecosystem q)" and pkg_a: "ascii (vp_Package q)" using eco pkg(1) package_ascii by blast+
  then have low: "ToLower (vp_Ecosystem q) = vp_Ecosystem q" by (simp add: q_def ToLower_idem)
  have sorted: "sort_key constraint_key (vp_Constraints q) = vp_Constraints q" by (simp add: q_def sort_key_same)
  have upd: "q\<lparr>vp_Ecosystem := vp_Ecosystem q\<rparr> = q" "q\<lparr>vp_Constraints := vp_Constraints q\<rparr> = q" by (cases q; simp)+
  have "check_distinct (version_constraint_error j) constraint_key dup [] (vp_Constraints q) = None" for j dup
    using chk by (auto simp: version_constraint_error_def split: if_splits)
  then have "canonical_package j q = Inr (n, k)" for j
    using eco pkg cnt by (simp add: canonical_package_def n k low Let_def upd sorted del: check_distinct_Nil_None_iff)
  moreover have "sanitize (vc_Operator c) = vc_Operator c \<and> sanitize (vc_Version c) = vc_Version c" if "c \<in> set (vp_Constraints q)" for c
    using chk(1) that package_ascii(3)
    by (auto simp: version_constraint_error_def ConstraintOperator_valid_def split: if_splits)
  ultimately show ?thesis using n k eco_a pkg_a by (simp add: settled_simps)
qed

lemma secret_settled:
  assumes "canonical_secret compile limits i p = Inr (n, k)"
  shows "settled compile limits n k"
proof -
  have n: "n = zero_BundleRecord\<lparr>br_Type := RecordSecretPattern, br_SecretPattern := Some p\<rparr>"
      and k: "k = RecordSecretPattern @ '':'' @ sd_DetectorID p"
      and ok: "boundedIdentifier (sd_DetectorID p) maxDetectorIDBytes" "compile (sd_Pattern p) = Some False"
    using assms by (auto simp: canonical_secret_def split: if_splits)
  have "canonical_secret compile limits j p = Inr (n, k)" for j
    using assms by (auto simp: canonical_secret_def n k split: if_splits)
  moreover have "compiles_text compile \<Longrightarrow> sanitize (sd_Pattern p) = sd_Pattern p" using ok(2) by (auto simp: compiles_text_def)
  ultimately show ?thesis using ok boundedIdentifier_ascii n k by (simp add: settled_simps)
qed

lemma canonicalRecord_settled:
  assumes "canonicalRecord compile i r limits = Inr (n, k)"
  shows "settled compile limits n k" and "canonicalRecord compile j n limits = Inr (n, k)"
proof -
  have typed: "canonical_by_type compile i r limits = Inr (n, k)"
    and size: "int (length (json_text (BundleRecord_json n))) \<le> li_MaxRecordBytes limits"
    using assms by (auto simp: canonicalRecord_def split: sum.splits if_splits)
  from typed show s: "settled compile limits n k"
    by (auto simp: canonical_by_type_def Let_def split: if_splits option.splits
        intro: malicious_settled signer_settled package_settled secret_settled)
  with size show "canonicalRecord compile j n limits = Inr (n, k)" by (simp add: settled_def canonicalRecord_def)
qed

text \<open>Whether a record is accepted does not depend on its position.\<close>

lemma canonicalRecord_index:
  "(canonicalRecord compile i r limits = Inr p) = (canonicalRecord compile j r limits = Inr p)"
proof -
  have check: "check_distinct (version_constraint_error i) constraint_key a [] cs = None
      \<longleftrightarrow> check_distinct (version_constraint_error j) constraint_key b [] cs = None" for i j a b cs
    by (simp add: version_constraint_error_def)
  have package: "canonical_package i p = Inr x \<Longrightarrow> canonical_package j p = Inr x" for i j p x
    using check [of i _ "vp_Constraints p" j]
    by (auto simp: canonical_package_def Let_def simp del: check_distinct_Nil_None_iff split: if_splits option.splits)
  have typed: "canonical_by_type compile i r limits = Inr x \<Longrightarrow> canonical_by_type compile j r limits = Inr x" for i j x
    by (auto simp: canonical_by_type_def canonical_malicious_def canonical_signer_def canonical_secret_def Let_def
        split: if_splits option.splits dest: package)
  have one: "canonicalRecord compile i r limits = Inr p \<Longrightarrow> canonicalRecord compile j r limits = Inr p" for i j
    using typed [of i _ j] by (cases p) (auto simp: canonicalRecord_def split: if_splits sum.splits)
  show ?thesis by (blast intro: one)
qed

subsection \<open>The list of records\<close>

definition normal :: "regexp \<Rightarrow> Limits \<Rightarrow> BundleRecord \<Rightarrow> BundleRecord option" where
  "normal compile limits r = (case canonicalRecord compile 0 r limits of Inl _ \<Rightarrow> None | Inr (n, k) \<Rightarrow> Some n)"

lemma normal_Some: "normal compile limits r = Some n \<longleftrightarrow> canonicalRecord compile i r limits = Inr (n, recordSortKey n)"
proof -
  have "canonicalRecord compile 0 r limits = Inr (n, k) \<Longrightarrow> recordSortKey n = k" for k
    using canonicalRecord_settled(1) by (auto simp: settled_def)
  then have "normal compile limits r = Some n \<longleftrightarrow> canonicalRecord compile 0 r limits = Inr (n, recordSortKey n)"
    by (auto simp: normal_def split: sum.splits)
  then show ?thesis using canonicalRecord_index by blast
qed

lemma canonicalRecord_normal:
  "canonicalRecord compile i r limits = Inr (n, k) \<longleftrightarrow> normal compile limits r = Some n \<and> k = recordSortKey n"
  using canonicalRecord_settled(1) [of compile i r limits n k] by (auto simp: normal_Some [where i = i] settled_def)

lemma normal_idem: "normal compile limits r = Some n \<Longrightarrow> normal compile limits n = Some n"
  using canonicalRecord_settled(2) [of compile 0 r limits n "recordSortKey n" 0] by (simp add: normal_Some [where i = 0])

lemma normal_clean: "normal compile limits r = Some n \<Longrightarrow> compiles_text compile \<Longrightarrow> record_clean n"
  using canonicalRecord_settled(1) [of compile 0 r limits n "recordSortKey n"] by (simp add: normal_Some [where i = 0] settled_def)

lemma canonical_loop_Inr:
  "canonical_loop compile limits i seen rs = Inr out \<longleftrightarrow> map (normal compile limits) rs = map Some out
     \<and> distinct (map recordSortKey out) \<and> set (map recordSortKey out) \<inter> set seen = {}"
proof (induction rs arbitrary: i seen out)
  case (Cons r rs)
  show ?case
  proof (cases "canonicalRecord compile i r limits")
    case (Inl err)
    then have "normal compile limits r = None" using normal_Some [of compile limits r _ i] by (cases "normal compile limits r") auto
    with Inl show ?thesis by (cases out) auto
  next
    case (Inr p)
    then obtain n where n: "p = (n, recordSortKey n)" "normal compile limits r = Some n" by (cases p) (auto simp: canonicalRecord_normal)
    have "canonical_loop compile limits i seen (r # rs) = Inr out \<longleftrightarrow> recordSortKey n \<notin> set seen \<and>
        (\<exists>ns. out = n # ns \<and> canonical_loop compile limits (Suc i) (recordSortKey n # seen) rs = Inr ns)"
      by (cases "canonical_loop compile limits (Suc i) (recordSortKey n # seen) rs") (auto simp: Inr n)
    with n Cons.IH show ?thesis by (cases out) auto
  qed
qed auto

lemma canonicalRecords_Inr:
  "canonicalRecords compile rs limits = Inr out \<longleftrightarrow>
     (\<exists>ns. map (normal compile limits) rs = map Some ns \<and> distinct (map recordSortKey ns) \<and> out = sort_key recordSortKey ns)"
proof -
  have "canonical_loop compile limits 0 [] rs = Inr ns \<longleftrightarrow> map (normal compile limits) rs = map Some ns \<and> distinct (map recordSortKey ns)" for ns
    by (simp add: canonical_loop_Inr)
  moreover have "canonicalRecords compile rs limits = Inr out \<longleftrightarrow>
      (\<exists>ns. canonical_loop compile limits 0 [] rs = Inr ns \<and> out = sort_key recordSortKey ns)"
    by (cases "canonical_loop compile limits 0 [] rs") (auto simp: canonicalRecords_def)
  ultimately show ?thesis by auto
qed

lemma permuted_normals:
  assumes "map f rs = map Some ns" and "mset rs' = mset rs"
  obtains ns' where "map f rs' = map Some ns'" and "mset ns' = mset ns"
proof -
  have all: "\<forall>x \<in> set rs'. f x \<noteq> None"
    using assms by (metis (no_types, lifting) imageE image_eqI list.set_map mset_eq_setD option.distinct(1))
  then have some: "map f rs' = map Some (map (the \<circ> f) rs')" by auto
  have "ns = map the (map f rs)" by (simp add: assms(1) comp_def)
  then have "mset (map (the \<circ> f) rs') = mset ns" using assms(2) by simp
  with some show thesis by (rule that)
qed

text \<open>Only which records there are matters.\<close>

lemma canonicalRecords_order:
  assumes "canonicalRecords compile rs limits = Inr out" and "mset rs' = mset rs"
  shows "canonicalRecords compile rs' limits = Inr out"
proof -
  obtain ns where ns: "map (normal compile limits) rs = map Some ns" "distinct (map recordSortKey ns)" "out = sort_key recordSortKey ns"
    using assms(1) by (auto simp: canonicalRecords_Inr)
  from ns(1) assms(2) obtain ns' where ns': "map (normal compile limits) rs' = map Some ns'" "mset ns' = mset ns" by (rule permuted_normals)
  have "mset (map recordSortKey ns') = mset (map recordSortKey ns)" using ns'(2) by simp
  then have d: "distinct (map recordSortKey ns')" using ns(2) mset_eq_imp_distinct_iff by blast
  have "sort_key recordSortKey ns' = sort_key recordSortKey ns"
    using ns' d by (intro sort_key_inj_key_eq) (simp_all add: distinct_map)
  then show ?thesis using ns(3) ns'(1) d by (auto simp: canonicalRecords_Inr)
qed

lemma canonicalRecords_idem:
  assumes "canonicalRecords compile rs limits = Inr out"
  shows "canonicalRecords compile out limits = Inr out"
proof -
  obtain ns where ns: "map (normal compile limits) rs = map Some ns" "distinct (map recordSortKey ns)" "out = sort_key recordSortKey ns"
    using assms by (auto simp: canonicalRecords_Inr)
  have "normal compile limits n = Some n" if "n \<in> set ns" for n
  proof -
    have "Some n \<in> set (map (normal compile limits) rs)" using that ns(1) by simp
    then show ?thesis using normal_idem by auto
  qed
  then have "map (normal compile limits) ns = map Some ns" by simp
  then have "canonicalRecords compile ns limits = Inr out" using ns unfolding canonicalRecords_Inr by blast
  then show ?thesis by (rule canonicalRecords_order) (simp add: ns(3))
qed

lemma canonicalRecords_clean:
  assumes "canonicalRecords compile rs limits = Inr out" and "compiles_text compile" and "n \<in> set out"
  shows "record_clean n"
proof -
  obtain ns where ns: "map (normal compile limits) rs = map Some ns" "n \<in> set ns" using assms(1,3) by (auto simp: canonicalRecords_Inr)
  then have "Some n \<in> set (map (normal compile limits) rs)" by simp
  then show ?thesis using normal_clean [OF _ assms(2)] by auto
qed

lemma canonicalRecords_length: "canonicalRecords compile rs limits = Inr out \<Longrightarrow> length out = length rs"
  by (auto simp: canonicalRecords_Inr dest: arg_cong [where f = length])

end
