(* ===== verification/Intel_Install_Props.thy ===== *)
theory Intel_Install_Props
  imports Intel_Facts
begin

section \<open>The installed bundle\<close>

text \<open>
  What is installed is what \<open>ReadCurrent\<close> reads when no system call fails (\<open>installed\<close>). The
  pointer and the bundle it names are always a pair that fits: an installation that stops
  anywhere leaves the previous pair or the new one, and the new one is no older.
\<close>

subsection \<open>Reading files\<close>

definition quiet_faults :: secure_faults where
  "quiet_faults = \<lparr>sx_lstat = True, sx_open = True, sx_stat = True, sx_same = True, sx_read = True\<rparr>"

definition usable :: "byte_file \<Rightarrow> int \<Rightarrow> bool" where
  "usable f limit \<longleftrightarrow> fin_regular (bf_info f) \<and> fin_perm (bf_info f) = 384 \<and> fin_size (bf_info f) \<le> limit \<and> int (length (bf_bytes f)) \<le> limit"

lemma taken_whole: "int (length (take (nat (n + 1)) s)) \<le> n \<Longrightarrow> int (length s) \<le> n \<and> take (nat (n + 1)) s = s"
  by (cases "length s \<le> nat (n + 1)") (auto split: if_splits)

lemma secure_read:
  assumes "readSecureRegularFile (secure_of x f) n = Inr s"
  shows "\<exists>g. f = Some g \<and> usable g n \<and> s = bf_bytes g"
  using assms taken_whole [of n]
  by (cases f) (auto simp: readSecureRegularFile_def secure_of_def usable_def Let_def split: if_splits)

lemma secure_read_quiet: "usable g n \<Longrightarrow> readSecureRegularFile (secure_of quiet_faults (Some g)) n = Inr (bf_bytes g)"
  by (auto simp: readSecureRegularFile_def secure_of_def usable_def quiet_faults_def Let_def)

lemmas intel_errors = ErrNotExist_def io_error_def ErrUnsafeFile_def ErrInsecurePermissions_def ErrBundleTooLarge_def
  errFileChanged_def ErrNoCurrentBundle_def ErrCurrentState_def

lemma secure_read_error:
  assumes "readSecureRegularFile (secure_of x f) n = Inl err"
  shows "errors_Is err ErrNotExist \<Longrightarrow> f = None" and "\<not> errors_Is err ErrNoCurrentBundle"
  using assms by (cases f; auto simp: readSecureRegularFile_def secure_of_def Let_def intel_errors split: if_splits)+

lemma read_attempts_Inr:
  "read_attempts n k (\<lambda>k. secure_of (x k) f) = Inr s \<Longrightarrow> \<exists>g. f = Some g \<and> usable g maxCurrentMetadataBytes \<and> s = bf_bytes g"
  by (induction n arbitrary: k) (auto split: sum.splits if_splits dest: secure_read)

lemma read_attempts_Inl:
  "read_attempts n k (\<lambda>k. secure_of (x k) f) = Inl err
     \<Longrightarrow> (errors_Is err ErrNotExist \<longrightarrow> f = None) \<and> \<not> errors_Is err ErrNoCurrentBundle"
  by (induction n arbitrary: k) (auto split: sum.splits if_splits dest: secure_read_error)

lemma read_attempts_quiet:
  "usable g maxCurrentMetadataBytes \<Longrightarrow> read_attempts n k (\<lambda>k. secure_of quiet_faults (Some g)) = Inr (bf_bytes g)"
  by (cases n) (simp_all add: secure_read_quiet)

subsection \<open>A pointer and its bundle\<close>

definition bundle_matches :: "regexp \<Rightarrow> (string \<Rightarrow> 8 word list) \<Rightarrow> Limits \<Rightarrow> CurrentMetadata \<Rightarrow> string \<Rightarrow> bool" where
  "bundle_matches compile sha256 limits m s \<longleftrightarrow> hashBytes sha256 s = cm_BundleSHA256 m \<and>
     (\<exists>b prepared payload. intel_decodeStrict (dec_record True Bundle_fields) zero_Bundle s = Inr b
        \<and> prepareBundle compile b limits = Inr (prepared, payload) \<and> canonicalBundle prepared = Some s
        \<and> bu_BundleID b = cm_BundleID m \<and> bu_Sequence b = cm_Sequence m
        \<and> bu_PayloadSHA256 b = cm_PayloadSHA256 m \<and> bu_KeyID b = cm_KeyID m)"

lemma read_bundle_Inr:
  "read_bundle compile sha256 limits m calls = Inr s \<longleftrightarrow>
     readSecureRegularFile calls (li_MaxBundleBytes limits) = Inr s \<and> bundle_matches compile sha256 limits m s"
  by (auto simp: read_bundle_def bundle_matches_def split: sum.splits prod.splits if_splits)

definition stored :: "regexp \<Rightarrow> (string \<Rightarrow> 8 word list) \<Rightarrow> Limits \<Rightarrow> bundle_dir \<Rightarrow> CurrentMetadata \<Rightarrow> string \<Rightarrow> bool" where
  "stored compile sha256 limits d m s \<longleftrightarrow>
     (\<exists>f g. bd_current d = Some f \<and> usable f maxCurrentMetadataBytes
        \<and> intel_decodeStrict (dec_record True CurrentMetadata_fields) zero_CurrentMetadata (bf_bytes f) = Inr m
        \<and> validCurrentMetadata m \<and> bd_bundles d (cm_BundleFile m) = Some g \<and> usable g (li_MaxBundleBytes limits)
        \<and> bf_bytes g = s) \<and> bundle_matches compile sha256 limits m s"

definition installed ::
  "regexp \<Rightarrow> (string \<Rightarrow> 8 word list) \<Rightarrow> Limits \<Rightarrow> bundle_dir \<Rightarrow> (CurrentMetadata \<times> string) result" where
  "installed compile sha256 limits d =
     (let dir = Found \<lparr>di_is_dir = True, di_symlink = False, di_perm = 448\<rparr>
      in ReadCurrent compile sha256 dir dir (\<lambda>k. secure_of quiet_faults (bd_current d)) (\<lambda>name. secure_of quiet_faults (bd_bundles d name)) limits)"

lemma read_metadata_Inr:
  assumes "read_metadata (\<lambda>k. secure_of (x k) f) = Inr m"
  shows "\<exists>g. f = Some g \<and> usable g maxCurrentMetadataBytes \<and> validCurrentMetadata m
     \<and> intel_decodeStrict (dec_record True CurrentMetadata_fields) zero_CurrentMetadata (bf_bytes g) = Inr m"
  using assms by (auto simp: read_metadata_def split: sum.splits if_splits dest!: read_attempts_Inr)

lemma ReadCurrent_stored:
  assumes "ReadCurrent compile sha256 a1 a2 (\<lambda>k. secure_of (x k) (bd_current d)) (\<lambda>name. secure_of y (bd_bundles d name)) limits = Inr (m, s)"
  shows "\<exists>rl. normalizeLimits limits = Inr rl \<and> stored compile sha256 rl d m s"
  using assms
  by (auto simp: ReadCurrent_def stored_def read_bundle_Inr split: sum.splits option.splits if_splits
      dest!: read_metadata_Inr secure_read)

lemma installed_iff:
  "installed compile sha256 limits d = Inr (m, s) \<longleftrightarrow> (\<exists>rl. normalizeLimits limits = Inr rl \<and> stored compile sha256 rl d m s)"
proof
  assume "\<exists>rl. normalizeLimits limits = Inr rl \<and> stored compile sha256 rl d m s"
  then obtain rl f g where rl: "normalizeLimits limits = Inr rl" and f: "bd_current d = Some f" "usable f maxCurrentMetadataBytes"
      "intel_decodeStrict (dec_record True CurrentMetadata_fields) zero_CurrentMetadata (bf_bytes f) = Inr m" "validCurrentMetadata m"
    and g: "bd_bundles d (cm_BundleFile m) = Some g" "usable g (li_MaxBundleBytes rl)" "bf_bytes g = s"
    and m: "bundle_matches compile sha256 rl m s" by (auto simp: stored_def)
  have "read_metadata (\<lambda>k. secure_of quiet_faults (bd_current d)) = Inr m"
    by (simp add: read_metadata_def f read_attempts_quiet)
  moreover have "read_bundle compile sha256 rl m (secure_of quiet_faults (bd_bundles d (cm_BundleFile m))) = Inr s"
    using g(3) m by (simp add: read_bundle_Inr g(1,2) secure_read_quiet)
  ultimately show "installed compile sha256 limits d = Inr (m, s)"
    by (simp add: installed_def ReadCurrent_def rl inspectPrivateDirectory_def)
qed (auto simp: installed_def Let_def dest: ReadCurrent_stored)

lemma current_of_Inr: "current_of compile sha256 calls limits d = Inr (m, s) \<Longrightarrow> installed compile sha256 limits d = Inr (m, s)"
  unfolding current_of_def installed_iff by (rule ReadCurrent_stored)

lemma current_of_missing:
  assumes "current_of compile sha256 calls limits d = Inl err" and "errors_Is err ErrNoCurrentBundle"
    and "installed compile sha256 limits d = Inr (m, s)"
  shows False
proof -
  obtain f rl where "bd_current d = Some f" and rl: "normalizeLimits limits = Inr rl" using assms(3) by (auto simp: installed_iff stored_def)
  then have "read_metadata (\<lambda>k. secure_of (in_current calls k) (bd_current d)) = Inl e \<Longrightarrow> \<not> errors_Is e ErrNoCurrentBundle" for e
    by (auto simp: read_metadata_def intel_errors split: sum.splits if_splits dest!: read_attempts_Inl)
  moreover have "read_bundle compile sha256 rl m' calls' = Inl e \<Longrightarrow> \<not> errors_Is e ErrNoCurrentBundle" for m' calls' e
    by (auto simp: read_bundle_def intel_errors split: sum.splits prod.splits if_splits)
  moreover have "inspectPrivateDirectory (found a) = Some e \<Longrightarrow> \<not> errors_Is e ErrNotExist \<and> \<not> errors_Is e ErrNoCurrentBundle" for a e
    by (auto simp: inspectPrivateDirectory_def found_def intel_errors split: option.splits if_splits)
  ultimately show False
    using assms(1,2) by (auto simp: current_of_def ReadCurrent_def rl intel_errors split: sum.splits option.splits if_splits)
qed

subsection \<open>What an accepted bundle is\<close>

lemma prepareBundle_fields:
  assumes "prepareBundle compile b limits = Inr (prepared, payload)"
  shows "bu_Schema prepared = bu_Schema b" "bu_SchemaVersion prepared = bu_SchemaVersion b" "bu_BundleID prepared = bu_BundleID b"
    "bu_Sequence prepared = bu_Sequence b" "bu_MinimumAgentSchema prepared = bu_MinimumAgentSchema b"
    "bu_PayloadSHA256 prepared = bu_PayloadSHA256 b" "bu_KeyID prepared = bu_KeyID b" "bu_Signature prepared = bu_Signature b"
    "boundedIdentifier (bu_BundleID b) maxBundleIDBytes" "0 < bu_Sequence b" "boundedIdentifier (bu_KeyID b) maxKeyIDBytes"
  using assms
  by (auto simp: prepareBundle_def validateBundleHeader_def word_neq_0_conv split: option.splits sum.splits if_splits)

lemma Verify_Inr:
  assumes "Bundle_Verify compile sha256 ed clock encoded trustStore options = Inr v"
  obtains rl trusted where "normalizeLimits (vo_Limits options) = Inr rl" and "int (length encoded) \<le> li_MaxBundleBytes rl"
    and "trustStore = Some trusted" and "vb_Canonical v = encoded"
    and "decode_canonical compile sha256 rl encoded = Inr (vb_Bundle v)" and "check_signature ed trusted (vb_Bundle v) = None"
    and "check_sequence (vo_LastAccepted options) (vb_Bundle v) = Inr (vb_Replay v)"
  using assms by (auto simp: Bundle_Verify_def split: sum.splits if_splits option.splits)

lemma decode_canonical_Inr:
  assumes "decode_canonical compile sha256 limits encoded = Inr prepared"
  obtains b payload where "intel_decodeStrict (dec_record True Bundle_fields) zero_Bundle encoded = Inr b"
    and "prepareBundle compile b limits = Inr (prepared, payload)" and "canonicalBundle prepared = Some encoded"
    and "sha256Pattern (bu_PayloadSHA256 prepared)" and "bu_PayloadSHA256 prepared = hashBytes sha256 payload"
  using assms by (auto simp: decode_canonical_def split: sum.splits if_splits option.splits prod.splits)

lemma metadata_for_simps [simp]:
  "cm_BundleFile (metadata_for sha256 v) = bundle_file_name (hashBytes sha256 (vb_Canonical v))"
  "cm_BundleID (metadata_for sha256 v) = bu_BundleID (vb_Bundle v)" "cm_Sequence (metadata_for sha256 v) = bu_Sequence (vb_Bundle v)"
  "cm_PayloadSHA256 (metadata_for sha256 v) = bu_PayloadSHA256 (vb_Bundle v)"
  "cm_BundleSHA256 (metadata_for sha256 v) = hashBytes sha256 (vb_Canonical v)" "cm_KeyID (metadata_for sha256 v) = bu_KeyID (vb_Bundle v)"
  by (simp_all add: metadata_for_def Let_def)

lemma verified_metadata:
  assumes "\<And>x. length (sha256 x) = 32" and "decode_canonical compile sha256 limits (vb_Canonical v) = Inr (vb_Bundle v)"
  shows "validCurrentMetadata (metadata_for sha256 v)" and "bundle_matches compile sha256 limits (metadata_for sha256 v) (vb_Canonical v)"
  using assms(2)
proof (induction rule: decode_canonical_Inr)
  case (1 b payload)
  note same = prepareBundle_fields [OF 1(2)]
  show "validCurrentMetadata (metadata_for sha256 v)"
    using 1(4) same hashBytes_pattern [of sha256 "vb_Canonical v", OF assms(1)]
    by (simp add: validCurrentMetadata_def metadata_for_def Let_def)
  show "bundle_matches compile sha256 limits (metadata_for sha256 v) (vb_Canonical v)"
    using 1 same by (simp add: bundle_matches_def)
qed

definition no_older :: "CurrentMetadata \<Rightarrow> CurrentMetadata \<Rightarrow> bool" where
  "no_older m m' \<longleftrightarrow> cm_Sequence m < cm_Sequence m'
     \<or> cm_Sequence m' = cm_Sequence m \<and> cm_BundleID m' = cm_BundleID m \<and> cm_PayloadSHA256 m' = cm_PayloadSHA256 m"

lemma no_older_refl [simp]: "no_older m m"
  by (simp add: no_older_def)

lemma no_older_trans: "no_older m m' \<Longrightarrow> no_older m' m'' \<Longrightarrow> no_older m m''"
  by (auto simp: no_older_def)

lemma accepted_is_no_older:
  assumes "strongerAcceptance caller (AcceptanceState_of m) = Inr accepted" and "cm_Sequence m \<noteq> 0"
    and "check_sequence (Some accepted) (vb_Bundle v) = Inr replay"
  shows "no_older m (metadata_for sha256 v)"
  using assms
  by (auto simp: strongerAcceptance_def AcceptanceState_of_def check_sequence_def no_older_def Let_def split: option.splits if_splits)

subsection \<open>Writing the bundle and the pointer\<close>

lemma writeImmutable_file:
  assumes "writeImmutableFile (secure_of x old) calls (secure_of y old) content old = (eo, fl)"
  shows "fl = old \<or> old = None \<and> fl = Some (new_file content)"
    and "eo = None \<Longrightarrow> \<exists>g. fl = Some g \<and> usable g (int (length content)) \<and> bf_bytes g = content"
proof -
  have new: "usable (new_file content) (int (length content))" "bf_bytes (new_file content) = content"
    by (simp_all add: usable_def new_file_def)
  show "fl = old \<or> old = None \<and> fl = Some (new_file content)"
    using assms by (auto simp: writeImmutableFile_def split: sum.splits if_splits option.splits dest: secure_read_error(1))
  show "\<exists>g. fl = Some g \<and> usable g (int (length content)) \<and> bf_bytes g = content" if "eo = None"
    using assms that new
    by (auto simp: writeImmutableFile_def split: sum.splits if_splits option.splits dest!: secure_read)
qed

lemma writeAtomic_file:
  assumes "writeAtomicFile calls content old = (eo, fl)"
  shows "fl = old \<and> eo \<noteq> None \<or> fl = Some (new_file content)"
proof (cases "write_temp ''current'' calls content")
  case (Some err)
  then have "writeAtomicFile calls content old = (Some err, old)" by (simp add: writeAtomicFile_def)
  with assms show ?thesis by auto
qed (use assms in \<open>auto simp: writeAtomicFile_def split: if_splits\<close>)

lemma publish_cases:
  assumes "publish calls m v d = (r, d')"
  obtains (kept) fl where "bd_current d' = bd_current d" and "bd_bundles d' = (bd_bundles d)(cm_BundleFile m := fl)"
      and "fl = bd_bundles d (cm_BundleFile m) \<or> bd_bundles d (cm_BundleFile m) = None" and "\<exists>err. r = Inl err"
    | (published) g where "bd_current d' = Some (new_file (json_text (CurrentMetadata_json m)))"
        and "bd_bundles d' = (bd_bundles d)(cm_BundleFile m := Some g)" and "usable g (int (length (vb_Canonical v)))"
        and "bf_bytes g = vb_Canonical v" and "\<And>res. r = Inr res \<Longrightarrow> ir_Metadata res = m"
proof -
  let ?old = "bd_bundles d (cm_BundleFile m)"
  obtain eo fl where w: "writeImmutableFile (secure_of (in_existing calls) ?old) (in_write_bundle calls)
      (secure_of (in_existing_again calls) ?old) (vb_Canonical v) ?old = (eo, fl)" by fastforce
  note kinds = writeImmutable_file [OF w]
  show thesis
  proof (cases eo)
    case (Some err)
    with assms w kinds(1) show thesis by (intro kept [of fl]) (auto simp: publish_def Let_def)
  next
    case None
    then obtain g where g: "fl = Some g" "usable g (int (length (vb_Canonical v)))" "bf_bytes g = vb_Canonical v"
      using kinds(2) by blast
    obtain eo2 current where c: "writeAtomicFile (in_write_current calls) (json_text (CurrentMetadata_json m)) (bd_current d) = (eo2, current)"
      by fastforce
    from writeAtomic_file [OF c] show thesis
    proof
      assume "current = bd_current d \<and> eo2 \<noteq> None"
      with assms w c None kinds(1) show thesis by (intro kept [of fl]) (auto simp: publish_def Let_def)
    next
      assume "current = Some (new_file (json_text (CurrentMetadata_json m)))"
      with assms w c None g show thesis by (intro published [of g]) (auto simp: publish_def Let_def split: option.splits)
    qed
  qed
qed

lemma kept_stored:
  assumes "stored compile sha256 limits d m s" and "bd_current d' = bd_current d"
    and "bd_bundles d' = (bd_bundles d)(name := fl)" and "fl = bd_bundles d name \<or> bd_bundles d name = None"
  shows "stored compile sha256 limits d' m s"
  using assms by (auto simp: stored_def)

lemma published_stored:
  assumes "bd_current d' = Some (new_file (json_text (CurrentMetadata_json m)))" and "bd_bundles d' (cm_BundleFile m) = Some g"
    and "usable g (int (length s))" and "bf_bytes g = s" and "int (length s) \<le> li_MaxBundleBytes limits"
    and "validCurrentMetadata m" and "bundle_matches compile sha256 limits m s"
  shows "stored compile sha256 limits d' m s"
proof -
  have "usable (new_file (json_text (CurrentMetadata_json m))) maxCurrentMetadataBytes"
    using metadata_text_small [OF assms(6)] by (simp add: usable_def new_file_def maxCurrentMetadataBytes_def)
  moreover have "bf_bytes (new_file t) = t" for t by (simp add: new_file_def)
  moreover have "usable g (li_MaxBundleBytes limits)" using assms(3,5) by (simp add: usable_def)
  ultimately show ?thesis using assms metadata_reads [OF assms(6)] by (simp add: stored_def)
qed

end
