(* ===== verification/Intel_Sign_Props.thy ===== *)
theory Intel_Sign_Props
  imports Intel_Canonical Intel_Install_Props
begin

section \<open>Signing and verification agree\<close>

text \<open>
  A canonical bundle reads back from its text, padded base64 decodes what it encodes, so that
  \<open>Bundle_Verify\<close> accepts what \<open>Bundle_Sign\<close> writes.
\<close>

subsection \<open>The JSON form of a bundle\<close>

lemmas decoder_simps = plain_name_def by_name_def fld_def

lemma constraint_roundtrip:
  "sanitize (vc_Operator c) = vc_Operator c \<Longrightarrow> sanitize (vc_Version c) = vc_Version c
     \<Longrightarrow> dec_record True VersionConstraint_fields (VersionConstraint_json c) \<lparr>vc_Operator = [], vc_Version = []\<rparr> = Some c"
  unfolding VersionConstraint_json_def by (subst dec_record_plain) (simp_all add: VersionConstraint_fields_def decoder_simps)

lemma malicious_roundtrip:
  "sanitize (ms_SHA256 m) = ms_SHA256 m
     \<Longrightarrow> dec_record True MaliciousSHA256Record_fields (JObj [(''sha256'', jstr (ms_SHA256 m))]) \<lparr>ms_SHA256 = []\<rparr> = Some m"
  by (subst dec_record_plain) (simp_all add: MaliciousSHA256Record_fields_def decoder_simps)

lemma signer_roundtrip:
  "sanitize (rs_Kind s) = rs_Kind s \<Longrightarrow> sanitize (rs_Identifier s) = rs_Identifier s
     \<Longrightarrow> dec_record True RevokedSignerRecord_fields (JObj [(''kind'', jstr (rs_Kind s)), (''identifier'', jstr (rs_Identifier s))])
           \<lparr>rs_Kind = [], rs_Identifier = []\<rparr> = Some s"
  by (subst dec_record_plain) (simp_all add: RevokedSignerRecord_fields_def decoder_simps)

lemma package_roundtrip:
  assumes "sanitize (vp_Ecosystem p) = vp_Ecosystem p" and "sanitize (vp_Package p) = vp_Package p"
    and "\<forall>c \<in> set (vp_Constraints p). sanitize (vc_Operator c) = vc_Operator c \<and> sanitize (vc_Version c) = vc_Version c"
  shows "dec_record True VulnerablePackageRecord_fields (JObj [(''ecosystem'', jstr (vp_Ecosystem p)), (''package'', jstr (vp_Package p)),
             (''constraints'', JArr (map VersionConstraint_json (vp_Constraints p)))])
           \<lparr>vp_Ecosystem = [], vp_Package = [], vp_Constraints = []\<rparr> = Some p"
proof -
  have "dec_slice \<lparr>vc_Operator = [], vc_Version = []\<rparr> (dec_record True VersionConstraint_fields)
      (JArr (map VersionConstraint_json (vp_Constraints p))) [] = Some (vp_Constraints p)"
    using dec_list_map [of "vp_Constraints p" "dec_record True VersionConstraint_fields" VersionConstraint_json
        "\<lparr>vc_Operator = [], vc_Version = []\<rparr>" "\<lambda>c. c"] assms(3)
    by (simp add: dec_slice_def constraint_roundtrip)
  with assms(1,2) show ?thesis by (subst dec_record_plain) (simp_all add: VulnerablePackageRecord_fields_def decoder_simps)
qed

lemma secret_roundtrip:
  "sanitize (sd_DetectorID p) = sd_DetectorID p \<Longrightarrow> sanitize (sd_Pattern p) = sd_Pattern p
     \<Longrightarrow> dec_record True SecretDetectorPatternRecord_fields (JObj [(''detector_id'', jstr (sd_DetectorID p)), (''pattern'', jstr (sd_Pattern p))])
           \<lparr>sd_DetectorID = [], sd_Pattern = []\<rparr> = Some p"
  by (subst dec_record_plain) (simp_all add: SecretDetectorPatternRecord_fields_def decoder_simps)

lemma record_roundtrip:
  assumes "record_clean r"
  shows "dec_record True BundleRecord_fields (BundleRecord_json r) zero_BundleRecord = Some r"
  using assms unfolding BundleRecord_json_def
  by (subst dec_record_plain)
    (simp_all add: BundleRecord_fields_def decoder_simps zero_BundleRecord_def record_clean_def dec_ptr_Some
      malicious_roundtrip signer_roundtrip package_roundtrip secret_roundtrip split: option.splits)

lemma record_fits: "json_fits (BundleRecord_json r) 9998"
  by (cases "br_MaliciousSHA256 r"; cases "br_RevokedSigner r"; cases "br_VulnerablePackage r"; cases "br_SecretPattern r";
    simp add: BundleRecord_json_def VersionConstraint_json_def list_all_iff)

definition bundle_clean :: "Bundle \<Rightarrow> bool" where
  "bundle_clean b \<longleftrightarrow> sanitize (bu_Schema b) = bu_Schema b \<and> bu_SchemaVersion b = 1 \<and> sanitize (bu_BundleID b) = bu_BundleID b
     \<and> json_exact_time (bu_IssuedAt b) \<and> json_exact_time (bu_ExpiresAt b) \<and> 0 \<le> bu_MinimumAgentSchema b \<and> bu_MinimumAgentSchema b < 2 ^ 63
     \<and> (\<exists>rs. bu_Records b = Some rs \<and> (\<forall>r \<in> set rs. record_clean r)) \<and> sanitize (bu_PayloadSHA256 b) = bu_PayloadSHA256 b
     \<and> sanitize (bu_KeyID b) = bu_KeyID b \<and> sanitize (bu_Signature b) = bu_Signature b"

lemma bundle_reads:
  assumes "bundle_clean b" and "canonicalBundle b = Some s"
  shows "intel_decodeStrict (dec_record True Bundle_fields) zero_Bundle s = Inr b"
proof -
  obtain rs where rs: "bu_Records b = Some rs" "\<forall>r \<in> set rs. record_clean r" using assms(1) by (auto simp: bundle_clean_def)
  let ?j = "JObj (unsigned_members b @ [(''signature'', jstr (bu_Signature b))])"
  have s: "s = json_text ?j" using assms(2) by (auto simp: canonicalBundle_def split: if_splits)
  have "json_fits ?j maxNestingDepth"
    using record_fits by (simp add: unsigned_members_def records_json_def rs maxNestingDepth_def list_all_iff)
  then have one: "json_values s = [Some ?j]" unfolding s by (rule json_values_text)
  have "dec_nil_slice zero_BundleRecord (dec_record True BundleRecord_fields) (records_json (bu_Records b)) None = Some (Some rs)"
    using dec_list_map [of rs "dec_record True BundleRecord_fields" BundleRecord_json zero_BundleRecord "\<lambda>c. c"] rs(2)
    by (simp add: dec_nil_slice_def records_json_def rs(1) record_roundtrip)
  then have "dec_record True Bundle_fields ?j zero_Bundle = Some b"
    using assms(1) rs(1) unfolding unsigned_members_def
    by (subst dec_record_plain) (simp_all add: Bundle_fields_def decoder_simps zero_Bundle_def bundle_clean_def)
  with one show ?thesis by (simp add: intel_decodeStrict_def)
qed

subsection \<open>Padded base64\<close>

lemma encode_chars: "set (base64_encode std_alphabet bytes) \<subseteq> set std_alphabet"
  using sextets_bound [of bytes] std_alphabet(2) by (auto simp: base64_encode_def list_all_iff)

lemma padded_length: "length (body @ padding (length body)) mod 4 = 0" if "length body mod 4 \<noteq> 1" for body :: string
proof -
  have "length body mod 4 < 4" by simp
  with that have "length body mod 4 = 0 \<or> length body mod 4 = 2 \<or> length body mod 4 = 3" by linarith
  then show ?thesis
  proof (elim disjE)
    assume r: "length body mod 4 = 2"
    then have "(length body + 2) mod 4 = 0" using mod_add_left_eq [of "length body" 4 2] by simp
    with r show ?thesis by (simp add: padding_def)
  next
    assume r: "length body mod 4 = 3"
    then have "(length body + 1) mod 4 = 0" using mod_add_left_eq [of "length body" 4 1] by simp
    with r show ?thesis by (simp add: padding_def)
  qed (simp add: padding_def)
qed

lemma sextets_length: "length (sextets bytes) mod 4 \<noteq> 1"
  by (induction bytes rule: sextets.induct) simp_all

lemma std_decode_encode: "std_decode (std_encode bytes) = Some bytes"
proof -
  let ?body = "base64_encode std_alphabet bytes"
  have none: "CHR ''='' \<notin> set std_alphabet" by (simp add: std_alphabet_def)
  then have body: "\<forall>c \<in> set ?body. c \<noteq> CHR ''=''" "\<forall>c \<in> set ?body. c \<noteq> CHR 0x0A \<and> c \<noteq> CHR 0x0D"
    using encode_chars [of bytes] std_alphabet(3,4) by blast+
  have pads: "set (padding n) \<subseteq> {CHR ''=''}" "padding n \<in> set [[], ''='', ''=='']" for n by (auto simp: padding_def)
  have len: "length (?body @ padding (length ?body)) mod 4 = 0"
    using sextets_length [of bytes] by (intro padded_length) (simp add: base64_encode_def)
  have "filter (\<lambda>c. c \<noteq> CHR 0x0A \<and> c \<noteq> CHR 0x0D) (?body @ padding (length ?body)) = ?body @ padding (length ?body)"
  proof (rule filter_True, rule ballI)
    fix c
    assume "c \<in> set (?body @ padding (length ?body))"
    then have "c \<in> set ?body \<or> c = CHR ''=''" using pads(1) [of "length ?body"] by auto
    then show "c \<noteq> CHR 0x0A \<and> c \<noteq> CHR 0x0D" using body(2) by auto
  qed
  moreover have "takeWhile (\<lambda>c. c \<noteq> CHR ''='') (?body @ padding n) = ?body" for n
    using body(1) by (subst takeWhile_append2) (simp_all add: padding_def)
  moreover have "dropWhile (\<lambda>c. c \<noteq> CHR ''='') (?body @ padding n) = padding n" for n
    using body(1) by (subst dropWhile_append2) (simp_all add: padding_def)
  moreover have "base64_decode std_alphabet ?body = Some bytes" by (rule std_roundtrip)
  ultimately show ?thesis using len pads(2) unfolding std_decode_def std_encode_def Let_def by presburger
qed

lemma std_encode_ascii: "ascii (std_encode bytes)"
proof -
  have "ascii std_alphabet" by code_simp
  then have "ascii (base64_encode std_alphabet bytes)" using encode_chars [of bytes] by (auto simp: ascii_def)
  then show ?thesis by (auto simp: std_encode_def padding_def ascii_def Let_def)
qed

subsection \<open>From signing to verification\<close>

lemma UTC_UTC [simp]: "UTC (UTC t) = UTC t"
  by (simp add: UTC_def)

lemma prepareBundle_again:
  assumes "prepareBundle compile b limits = Inr (prepared, payload)"
    and "sealed = prepared\<lparr>bu_PayloadSHA256 := h, bu_Signature := g\<rparr>"
  shows "prepareBundle compile sealed limits = Inr (sealed, payload)"
proof -
  obtain rs out where rs: "bu_Records b = Some rs" "canonicalRecords compile rs limits = Inr out" "int (length rs) \<le> li_MaxRecords limits"
    and v: "validateBundleHeader b = None"
    and p: "prepared = b\<lparr>bu_IssuedAt := UTC (bu_IssuedAt b), bu_ExpiresAt := UTC (bu_ExpiresAt b), bu_Records := Some out\<rparr>"
      "payload = json_text (payloadEnvelope_json (Some out))"
    using assms(1) by (auto simp: prepareBundle_def validateBundleHeader_def split: option.splits if_splits sum.splits)
  have "validateBundleHeader sealed = None"
    using v by (simp add: assms(2) p validateBundleHeader_def rs(1) IsZero_def After_def split: if_splits)
  then show ?thesis
    using canonicalRecords_idem [OF rs(2)] canonicalRecords_length [OF rs(2)] rs(3)
    by (simp add: prepareBundle_def assms(2) p)
qed

lemma prepared_clean:
  assumes "prepareBundle compile b limits = Inr (prepared, payload)" and "compiles_text compile" and "bu_MinimumAgentSchema b < 2 ^ 63"
    and "json_time (bu_IssuedAt prepared)" and "json_time (bu_ExpiresAt prepared)"
    and "sanitize (bu_PayloadSHA256 b) = bu_PayloadSHA256 b" and "sanitize (bu_Signature b) = bu_Signature b"
  shows "bundle_clean prepared"
proof -
  obtain rs out where rs: "bu_Records b = Some rs" "canonicalRecords compile rs limits = Inr out"
    and v: "validateBundleHeader b = None"
    and p: "prepared = b\<lparr>bu_IssuedAt := UTC (bu_IssuedAt b), bu_ExpiresAt := UTC (bu_ExpiresAt b), bu_Records := Some out\<rparr>"
    using assms(1) by (auto simp: prepareBundle_def validateBundleHeader_def split: option.splits if_splits sum.splits)
  have "ascii BundleSchema" by code_simp
  with v have "sanitize (bu_Schema b) = bu_Schema b" "bu_SchemaVersion b = 1" "sanitize (bu_BundleID b) = bu_BundleID b"
      "sanitize (bu_KeyID b) = bu_KeyID b" "0 \<le> bu_MinimumAgentSchema b"
    using boundedIdentifier_ascii by (auto simp: validateBundleHeader_def BundleSchemaVersion_def split: if_splits)
  then show ?thesis
    using assms(3-) canonicalRecords_clean [OF rs(2) assms(2)] by (simp add: bundle_clean_def p json_exact_time_def UTC_def)
qed

lemma Sign_Inr:
  assumes "Bundle_Sign compile sha256 ed bundle keyID privateKey limits = Inr (sealed, canonical)"
  obtains rl b prepared payload unsigned_text where "normalizeLimits limits = Inr rl" and "prepareBundle compile b rl = Inr (prepared, payload)"
    and "bu_MinimumAgentSchema b = bu_MinimumAgentSchema bundle" and "bu_KeyID b = keyID" and "bu_PayloadSHA256 b = []"
    and "bu_Signature b = []" and "bu_IssuedAt b = bu_IssuedAt bundle" and "bu_ExpiresAt b = bu_ExpiresAt bundle"
    and "bu_Sequence b = bu_Sequence bundle" and "bu_BundleID b = bu_BundleID bundle" and "bu_Records b = bu_Records bundle"
    and "canonicalUnsigned (prepared\<lparr>bu_PayloadSHA256 := hashBytes sha256 payload\<rparr>) = Some unsigned_text"
    and "sealed = prepared\<lparr>bu_PayloadSHA256 := hashBytes sha256 payload, bu_Signature := std_encode (ed_Sign ed privateKey unsigned_text)\<rparr>"
    and "canonicalBundle sealed = Some canonical" and "int (length canonical) \<le> li_MaxBundleBytes rl"
proof -
  define b where "b = bundle\<lparr>bu_Schema := (if bu_Schema bundle = [] then BundleSchema else bu_Schema bundle),
                 bu_SchemaVersion := (if bu_SchemaVersion bundle = 0 then BundleSchemaVersion else bu_SchemaVersion bundle),
                 bu_KeyID := keyID, bu_PayloadSHA256 := [], bu_Signature := []\<rparr>"
  from assms show thesis
    unfolding Bundle_Sign_def Let_def b_def [symmetric]
    by (auto split: sum.splits if_splits option.splits prod.splits intro: that [of _ b] simp: b_def)
qed

text \<open>A bundle that was signed, at a time and in a state of the agent that admit it.\<close>

definition admits :: "gotime \<Rightarrow> VerifyOptions \<Rightarrow> Bundle \<Rightarrow> bool" where
  "admits clock options b \<longleftrightarrow> check_validity clock options b = None
     \<and> (\<forall>previous. vo_LastAccepted options = Some previous \<longrightarrow> as_Sequence previous < bu_Sequence b)"

lemma signed_decodes:
  assumes "Bundle_Sign compile sha256 ed bundle keyID privateKey limits = Inr (sealed, canonical)"
    and "compiles_text compile" and "\<And>x. length (sha256 x) = 32" and "bu_MinimumAgentSchema bundle < 2 ^ 63"
    and "normalizeLimits limits = Inr rl"
  shows "decode_canonical compile sha256 rl canonical = Inr sealed"
  using assms(1)
proof (cases rule: Sign_Inr)
  case (1 rl' b prepared payload unsigned_text)
  with assms(5) have rl: "rl' = rl" by simp
  have again: "prepareBundle compile sealed rl = Inr (sealed, payload)" using prepareBundle_again [OF 1(2,13)] rl by simp
  have times: "json_time (bu_IssuedAt sealed)" "json_time (bu_ExpiresAt sealed)"
    using 1(14) by (auto simp: canonicalBundle_def split: if_splits)
  have hash: "sha256Pattern (hashBytes sha256 payload)" by (rule hashBytes_pattern) (rule assms(3))
  have "bu_PayloadSHA256 sealed = hashBytes sha256 payload" "bu_MinimumAgentSchema sealed = bu_MinimumAgentSchema bundle"
      "sanitize (bu_Signature sealed) = bu_Signature sealed"
    using 1(3) prepareBundle_fields(5) [OF 1(2)] by (simp_all add: 1(13) std_encode_ascii)
  moreover from this hash have "sanitize (bu_PayloadSHA256 sealed) = bu_PayloadSHA256 sealed" by (simp add: sha256Pattern_ascii)
  ultimately have "bundle_clean sealed" using prepared_clean [OF again assms(2) _ times] assms(4) by simp
  then have "intel_decodeStrict (dec_record True Bundle_fields) zero_Bundle canonical = Inr sealed" using 1(14) by (rule bundle_reads)
  moreover have "\<not> li_MaxRecords rl < int (length (the (bu_Records sealed)))" "bu_Records sealed \<noteq> None"
    using again by (auto simp: prepareBundle_def validateBundleHeader_def split: if_splits option.splits)
  ultimately show ?thesis
    using again 1(14) hash \<open>bu_PayloadSHA256 sealed = hashBytes sha256 payload\<close>
    by (auto simp: decode_canonical_def split: option.splits)
qed

lemma unsigned_ignores_signature: "canonicalUnsigned (b\<lparr>bu_Signature := g\<rparr>) = canonicalUnsigned b"
  by (simp add: canonicalUnsigned_def unsigned_members_def)

lemma signed_checks:
  assumes "Bundle_Sign compile sha256 ed bundle keyID privateKey limits = Inr (sealed, canonical)"
    and "map_of trusted keyID = Some publicKey"
    and "\<And>m. length (ed_Sign ed privateKey m) = 64 \<and> ed_Verify ed publicKey m (ed_Sign ed privateKey m)"
  shows "check_signature ed trusted sealed = None"
  using assms(1)
proof (cases rule: Sign_Inr)
  case (1 rl b prepared payload unsigned_text)
  have "bu_KeyID sealed = keyID" using 1(4) prepareBundle_fields(7) [OF 1(2)] by (simp add: 1(13))
  moreover have "canonicalUnsigned sealed = Some unsigned_text" using 1(12) by (simp add: 1(13) unsigned_ignores_signature)
  ultimately show ?thesis using assms(2,3) by (simp add: check_signature_def 1(13) std_decode_encode)
qed

lemma sign_then_verify:
  assumes "Bundle_Sign compile sha256 ed bundle keyID privateKey (vo_Limits options) = Inr (sealed, canonical)"
    and "compiles_text compile" and "\<And>x. length (sha256 x) = 32" and "bu_MinimumAgentSchema bundle < 2 ^ 63"
    and "map_of trusted keyID = Some publicKey"
    and "\<And>m. length (ed_Sign ed privateKey m) = 64 \<and> ed_Verify ed publicKey m (ed_Sign ed privateKey m)"
    and "admits clock options sealed"
  shows "Bundle_Verify compile sha256 ed clock canonical (Some trusted) options
    = Inr \<lparr>vb_Bundle = sealed, vb_Canonical = canonical, vb_Replay = False\<rparr>"
proof -
  obtain rl where rl: "normalizeLimits (vo_Limits options) = Inr rl" and size: "int (length canonical) \<le> li_MaxBundleBytes rl"
    using assms(1) by (cases rule: Sign_Inr) auto
  have "check_sequence (vo_LastAccepted options) sealed = Inr False"
    using assms(7) by (auto simp: admits_def check_sequence_def split: option.splits)
  with rl size signed_decodes [OF assms(1-4) rl] signed_checks [OF assms(1,5,6)] assms(7) show ?thesis
    by (simp add: Bundle_Verify_def admits_def)
qed

end
