(* ===== verification/Intel_Samples.thy ===== *)
theory Intel_Samples
  imports Intel_Sign_Props Managed_Policy_Cache
begin

section \<open>A sample bundle\<close>

text \<open>
  A bundle with two records, signed with the flat signature scheme, and its installation into an
  empty directory with system calls that all succeed.
\<close>

definition intel_hash :: string where "intel_hash = replicate 64 CHR ''a''"

definition intel_records :: "BundleRecord list" where
  "intel_records =
    [zero_BundleRecord\<lparr>br_Type := RecordRevokedSigner, br_RevokedSigner := Some \<lparr>rs_Kind = TeamID, rs_Identifier = ''ABCDE12345''\<rparr>\<rparr>,
     zero_BundleRecord\<lparr>br_Type := RecordMaliciousSHA256, br_MaliciousSHA256 := Some \<lparr>ms_SHA256 = intel_hash\<rparr>\<rparr>]"

definition intel_sorted :: "BundleRecord list" where
  "intel_sorted =
    [zero_BundleRecord\<lparr>br_Type := RecordMaliciousSHA256, br_MaliciousSHA256 := Some \<lparr>ms_SHA256 = intel_hash\<rparr>\<rparr>,
     zero_BundleRecord\<lparr>br_Type := RecordRevokedSigner, br_RevokedSigner := Some \<lparr>rs_Kind = TeamID, rs_Identifier = ''ABCDE12345''\<rparr>\<rparr>]"

definition sample_bundle :: Bundle where
  "sample_bundle = \<lparr>bu_Schema = [], bu_SchemaVersion = 0, bu_BundleID = ''b'', bu_Sequence = 1, bu_IssuedAt = sample_now,
     bu_ExpiresAt = Add sample_now 3600000000000, bu_MinimumAgentSchema = 1, bu_Records = Some intel_records, bu_PayloadSHA256 = [],
     bu_KeyID = [], bu_Signature = []\<rparr>"

definition intel_sealed :: Bundle where
  "intel_sealed = \<lparr>bu_Schema = BundleSchema, bu_SchemaVersion = 1, bu_BundleID = ''b'', bu_Sequence = 1, bu_IssuedAt = sample_now,
     bu_ExpiresAt = Add sample_now 3600000000000, bu_MinimumAgentSchema = 1, bu_Records = Some intel_sorted,
     bu_PayloadSHA256 = hex_encode (replicate 32 1), bu_KeyID = ''k1'', bu_Signature = std_encode (replicate 64 7)\<rparr>"

definition intel_canonical :: string where
  "intel_canonical = json_text (JObj (unsigned_members intel_sealed @ [(''signature'', jstr (bu_Signature intel_sealed))]))"

definition no_regexp :: regexp where "no_regexp p = None"

lemma intel_hash: "sha256Pattern intel_hash" "ToLower intel_hash = intel_hash" "ascii intel_hash" "length intel_hash = 64"
proof -
  show p: "sha256Pattern intel_hash" by code_simp
  then show "ascii intel_hash" "length intel_hash = 64" by (simp_all add: sha256Pattern_ascii)
  then show "ToLower intel_hash = intel_hash" by (intro ToLower_fixed) (auto simp: intel_hash_def)
qed

lemma intel_texts:
  "teamIDPattern ''ABCDE12345''" "boundedIdentifier ''b'' 128" "boundedIdentifier ''k1'' 128" "quote_text ''ABCDE12345'' = [CHR 0x22] @ ''ABCDE12345'' @ [CHR 0x22]"
  by code_simp+

lemma intel_record_sizes: "r \<in> set intel_records \<Longrightarrow> length (json_text (BundleRecord_json r)) \<le> 8192"
  using length_quote_text [of intel_hash]
  by (auto simp: intel_records_def BundleRecord_json_def zero_BundleRecord_def record_types join_with.simps jstr_def quote_text_def
      escape_rune_def TeamID_def intel_hash)

lemma intel_loop: "canonical_loop no_regexp DefaultLimits 0 [] intel_records = Inr intel_records"
proof -
  have "canonicalRecord no_regexp i (intel_records ! 0) DefaultLimits = Inr (intel_records ! 0, recordSortKey (intel_records ! 0))"
    and "canonicalRecord no_regexp i (intel_records ! 1) DefaultLimits = Inr (intel_records ! 1, recordSortKey (intel_records ! 1))" for i
    using intel_record_sizes [of "intel_records ! 0"] intel_record_sizes [of "intel_records ! 1"]
    by (simp_all add: intel_records_def canonicalRecord_def canonical_by_type_def canonical_signer_def canonical_malicious_def
        payload_count_def zero_BundleRecord_def recordSortKey_def intel_hash intel_texts DefaultLimits_def Let_def)
  then show ?thesis
    by (simp add: intel_records_def recordSortKey_def zero_BundleRecord_def record_types)
qed

lemma intel_order: "canonicalRecords no_regexp intel_records DefaultLimits = Inr intel_sorted"
proof -
  have "RecordMaliciousSHA256 @ CHR '':'' # intel_hash < RecordRevokedSigner @ CHR '':'' # TeamID @ CHR '':'' # ''ABCDE12345''"
    by (simp add: record_types less_list_code)
  then show ?thesis
    unfolding canonicalRecords_def intel_loop
    by (simp add: intel_records_def intel_sorted_def recordSortKey_def zero_BundleRecord_def)
qed

lemma intel_bundle_times:
  "json_time sample_now" "json_time (Add sample_now 3600000000000)" "UTC sample_now = sample_now"
  "UTC (Add sample_now 3600000000000) = Add sample_now 3600000000000" "\<not> IsZero sample_now" "\<not> IsZero (Add sample_now 3600000000000)"
  "After (Add sample_now 3600000000000) sample_now"
  by (code_simp, code_simp, simp_all add: sample_now_def UTC_def Add_def IsZero_def After_def)

lemma intel_canonical_size: "int (length intel_canonical) \<le> 4194304"
proof -
  have "length (json_text (BundleRecord_json r)) \<le> 8192" if "r \<in> set intel_sorted" for r
    using that by (intro intel_record_sizes) (auto simp: intel_sorted_def intel_records_def)
  then have records: "length (json_text (BundleRecord_json (intel_sorted ! 0))) \<le> 8192"
      "length (json_text (BundleRecord_json (intel_sorted ! 1))) \<le> 8192"
    by (simp_all add: intel_sorted_def)
  have two: "intel_sorted = [intel_sorted ! 0, intel_sorted ! 1]" by (simp add: intel_sorted_def)
  have "length (FormatInt 1) = 1" "length BundleSchema = 35" "length (hex_encode (replicate 32 1)) = 64"
      "length (std_encode (replicate 64 7)) = 88" "length (FormatRFC3339Nano sample_now) \<le> 30"
      "length (FormatRFC3339Nano (Add sample_now 3600000000000)) \<le> 30" "ascii BundleSchema" "ascii (hex_encode (replicate 32 1))"
      "ascii (std_encode (replicate 64 7))" "uint (1 :: 64 word) = 1"
    by code_simp+
  moreover have "length (json_text (records_json (Some intel_sorted))) \<le> 17000"
    using records by (subst two) (simp add: records_json_def join_with.simps)
  moreover note length_quote_text [of "BundleSchema"] length_quote_text [of "hex_encode (replicate 32 1)"]
    length_quote_text [of "std_encode (replicate 64 7)"] length_quote_text [of "FormatRFC3339Nano sample_now"]
    length_quote_text [of "FormatRFC3339Nano (Add sample_now 3600000000000)"] length_quote_text [of "''k1''"] length_quote_text [of "''b''"]
    length_quote_text [of "''schema''"] length_quote_text [of "''schema_version''"] length_quote_text [of "''bundle_id''"]
    length_quote_text [of "''sequence''"] length_quote_text [of "''issued_at''"] length_quote_text [of "''expires_at''"]
    length_quote_text [of "''minimum_agent_schema''"] length_quote_text [of "''records''"] length_quote_text [of "''payload_sha256''"]
    length_quote_text [of "''key_id''"] length_quote_text [of "''signature''"]
  ultimately have "length intel_canonical \<le> 30000"
    by (simp add: intel_canonical_def unsigned_members_def intel_sealed_def jstr_def jint_def jtime_def join_with.simps)
  then show ?thesis by simp
qed

lemma intel_signed:
  "Bundle_Sign no_regexp flat_sha256 flat_ed25519 sample_bundle ''k1'' (replicate 64 7) DefaultLimits = Inr (intel_sealed, intel_canonical)"
proof -
  have limits: "normalizeLimits DefaultLimits = Inr DefaultLimits" by (simp add: normalizeLimits_def DefaultLimits_def Let_def)
  show ?thesis
    using intel_canonical_size
    by (simp add: Bundle_Sign_def limits sample_bundle_def prepareBundle_def validateBundleHeader_def BundleSchema_def BundleSchemaVersion_def
        intel_texts maxBundleIDBytes_def maxKeyIDBytes_def intel_bundle_times intel_order Let_def canonicalUnsigned_def canonicalBundle_def
        intel_canonical_def intel_sealed_def hashBytes_def flat_sha256_def flat_ed25519_def)
      (simp add: DefaultLimits_def intel_records_def)
qed

subsection \<open>Verifying and installing it\<close>

definition intel_options :: VerifyOptions where
  "intel_options = \<lparr>vo_Limits = DefaultLimits, vo_Now = sample_now, vo_ClockSkew = 0, vo_AgentSchema = 1, vo_LastAccepted = None\<rparr>"

definition intel_trust :: TrustStore where
  "intel_trust = [(''k1'', replicate 32 7)]"

lemma intel_admits: "admits clock intel_options intel_sealed"
proof -
  have "\<not> Before sample_now sample_now" "\<not> After sample_now (Add sample_now 3600000000000)" by code_simp+
  moreover have zero: "Add t 0 = t" for t by (simp add: Add_def)
  ultimately show ?thesis
    by (simp add: zero admits_def check_validity_def intel_options_def intel_sealed_def intel_bundle_times Let_def)
qed

lemma flat_signs: "length (ed_Sign flat_ed25519 key m) = 64 \<and> ed_Verify flat_ed25519 public m (ed_Sign flat_ed25519 key m)"
  by (simp add: flat_ed25519_def)

lemma flat_length: "length (flat_sha256 x) = 32"
  by (simp add: flat_sha256_def)

lemma no_regexp_text: "compiles_text no_regexp"
  by (simp add: compiles_text_def no_regexp_def)

lemma intel_verified:
  "Bundle_Verify no_regexp flat_sha256 flat_ed25519 clock intel_canonical (Some intel_trust) intel_options
    = Inr \<lparr>vb_Bundle = intel_sealed, vb_Canonical = intel_canonical, vb_Replay = False\<rparr>"
  by (rule sign_then_verify [OF intel_signed [folded intel_options_def [THEN arg_cong [where f = vo_Limits], simplified]] no_regexp_text flat_length _ _ flat_signs intel_admits])
    (simp_all add: sample_bundle_def intel_trust_def)

definition quiet_write :: write_calls where
  "quiet_write = \<lparr>wr_create = True, wr_chmod = True, wr_ctx = (\<lambda>k. None), wr_write = (\<lambda>k. Inr 65536), wr_sync = True, wr_close = True,
     wr_rename = True, wr_opendir = True, wr_syncdir = True\<rparr>"

lemma quiet_chunks: "write_chunks quiet_write k content = None"
proof (induction "length content" arbitrary: k content rule: less_induct)
  case less
  show ?case
  proof (cases "content = []")
    case False
    then have "write_chunks quiet_write (Suc k) (drop 65536 content) = None" by (intro less) simp
    with False show ?thesis by (subst write_chunks.simps) (simp add: quiet_write_def)
  qed (simp add: write_chunks.simps)
qed

definition intel_calls :: install_calls where
  "intel_calls =
    (let dir = \<lparr>di_is_dir = True, di_symlink = False, di_perm = 448\<rparr>;
         round = \<lparr>rd_lstat = Found dir, rd_mkdir = True, rd_chmod = True, rd_inspect = Found dir\<rparr>
     in \<lparr>in_ctx_start = None, in_abs = True, in_dir = [round], in_bundles_dir = [round], in_inspect_dir = Some dir,
         in_inspect_bundles = Some dir, in_current = (\<lambda>k. quiet_faults), in_bundle = quiet_faults, in_clock = sample_now,
         in_ctx_verified = None, in_existing = quiet_faults, in_write_bundle = quiet_write, in_existing_again = quiet_faults,
         in_write_current = quiet_write\<rparr>)"

definition intel_verified_bundle :: VerifiedBundle where
  "intel_verified_bundle = \<lparr>vb_Bundle = intel_sealed, vb_Canonical = intel_canonical, vb_Replay = False\<rparr>"

definition intel_metadata :: CurrentMetadata where
  "intel_metadata = metadata_for flat_sha256 intel_verified_bundle"

definition intel_empty :: bundle_dir where
  "intel_empty = \<lparr>bd_current = None, bd_bundles = (\<lambda>name. None)\<rparr>"

definition intel_filled :: bundle_dir where
  "intel_filled = \<lparr>bd_current = Some (new_file (json_text (CurrentMetadata_json intel_metadata))),
     bd_bundles = (\<lambda>name. None)(cm_BundleFile intel_metadata := Some (new_file intel_canonical))\<rparr>"

lemma quiet_temp: "write_temp what quiet_write content = None"
  by (simp add: write_temp_def writeAndSync_def quiet_chunks) (simp add: quiet_write_def)

lemma quiet_sync: "intel_syncDirectory quiet_write = None"
  by (simp add: intel_syncDirectory_def quiet_write_def)

lemma read_nothing: "readSecureRegularFile (secure_of quiet_faults None) n = Inl (Wrap ''intel: inspect local file: %w'' ErrNotExist)"
  by (simp add: readSecureRegularFile_def secure_of_def quiet_faults_def)

lemma attempts_nothing:
  "read_attempts n k (\<lambda>k. secure_of quiet_faults None) = Inl (Wrap ''intel: inspect local file: %w'' ErrNotExist)"
  by (cases n) (simp_all add: read_nothing intel_errors)

lemma intel_publish:
  "publish intel_calls intel_metadata intel_verified_bundle intel_empty
     = (Inr \<lparr>ir_Metadata = intel_metadata, ir_Installed = True, ir_Replay = False\<rparr>, intel_filled)"
  by (simp add: publish_def intel_calls_def intel_empty_def intel_filled_def intel_verified_bundle_def writeImmutableFile_def writeAtomicFile_def
      read_nothing quiet_temp quiet_sync Let_def ErrNotExist_def)
    (simp add: quiet_write_def)

lemma intel_install:
  "Install no_regexp flat_sha256 flat_ed25519 intel_calls intel_canonical (Some intel_trust) ''d'' intel_options intel_empty
    = (Inr \<lparr>ir_Metadata = intel_metadata, ir_Installed = True, ir_Replay = False\<rparr>, intel_filled)"
proof -
  have "current_of no_regexp flat_sha256 intel_calls DefaultLimits intel_empty = Inl ErrNoCurrentBundle"
    by (simp add: current_of_def ReadCurrent_def normalizeLimits_def DefaultLimits_def intel_calls_def found_def inspectPrivateDirectory_def
        intel_empty_def read_metadata_def attempts_nothing Let_def ErrNotExist_def)
  moreover have "errors_Is ErrNoCurrentBundle ErrNoCurrentBundle" by (simp add: ErrNoCurrentBundle_def)
  moreover have same: "intel_options\<lparr>vo_LastAccepted := None\<rparr> = intel_options" "vo_Limits intel_options = DefaultLimits"
      "vo_LastAccepted intel_options = None" by (simp_all add: intel_options_def)
  moreover have "in_ctx_start intel_calls = None" "in_abs intel_calls" "ensurePrivateDirectory (in_dir intel_calls) = None"
      "ensurePrivateDirectory (in_bundles_dir intel_calls) = None" "in_ctx_verified intel_calls = None"
    by (simp_all add: intel_calls_def Let_def inspectPrivateDirectory_def)
  ultimately show ?thesis
    using intel_publish intel_verified [of "in_clock intel_calls", folded intel_verified_bundle_def]
    by (simp add: Install_def same intel_metadata_def intel_verified_bundle_def)
qed

end
