(* ===== verification/Intel_Props.thy ===== *)
theory Intel_Props
  imports Intel_Samples
begin

section \<open>Properties of intelligence bundles\<close>

text \<open>
  The installed bundle is never replaced by an older one, a successful installation publishes
  the verified bytes, a signed bundle is verified, and the canonical form does not depend on
  the order of the records; each is applied to a sample bundle.
\<close>

subsection \<open>One installation\<close>

lemma Install_cases:
  assumes "Install compile sha256 ed calls encoded trustStore directory options d = (r, d')"
  obtains (refused) err where "r = Inl err" and "d' = d"
    | (accepted) current lastAccepted v where "current = current_of compile sha256 calls (vo_Limits options) d"
        and "case current of
              Inr (m, s) \<Rightarrow> \<exists>a. lastAccepted = Some a \<and> strongerAcceptance (vo_LastAccepted options) (AcceptanceState_of m) = Inr a
            | Inl err \<Rightarrow> errors_Is err ErrNoCurrentBundle \<and> lastAccepted = vo_LastAccepted options"
        and "Bundle_Verify compile sha256 ed (in_clock calls) encoded trustStore (options\<lparr>vo_LastAccepted := lastAccepted\<rparr>) = Inr v"
        and "(if current = Inr (metadata_for sha256 v, vb_Canonical v) \<and> vb_Replay v
              then (Inr \<lparr>ir_Metadata = metadata_for sha256 v, ir_Installed = False, ir_Replay = True\<rparr>, d)
              else publish calls (metadata_for sha256 v) v d) = (r, d')"
proof (cases "d' = d \<and> (\<exists>err. r = Inl err)")
  case False
  let ?current = "current_of compile sha256 calls (vo_Limits options) d"
  from assms False show thesis
  proof (cases ?current)
    case (Inl err)
    with assms False show thesis
      by (auto simp: Install_def Let_def split: option.splits sum.splits if_splits intro: accepted [of ?current])
  next
    case (Inr ms)
    with assms False show thesis
      by (cases ms; cases "strongerAcceptance (vo_LastAccepted options) (AcceptanceState_of (fst ms))")
        (auto simp: Install_def Let_def split: option.splits sum.splits if_splits intro: accepted [of ?current])
  qed
qed (use refused in blast)

lemma Install_step:
  assumes "\<And>x. length (sha256 x) = 32" and "installed compile sha256 (vo_Limits options) d = Inr (m, s)"
  shows "\<exists>m' s'. installed compile sha256 (vo_Limits options) (snd (Install compile sha256 ed calls encoded trustStore directory options d)) = Inr (m', s')
    \<and> no_older m m'"
proof -
  obtain r d' where step: "Install compile sha256 ed calls encoded trustStore directory options d = (r, d')" by fastforce
  obtain rl where rl: "normalizeLimits (vo_Limits options) = Inr rl" and st: "stored compile sha256 rl d m s"
    using assms(2) by (auto simp: installed_iff)
  from step have "\<exists>m' s'. stored compile sha256 rl d' m' s' \<and> no_older m m'"
  proof (cases rule: Install_cases)
    case refused
    with st show ?thesis using no_older_refl by blast
  next
    case (accepted current lastAccepted v)
    have cur: "current = Inr (m, s)"
    proof (cases current)
      case (Inl err)
      then show ?thesis using accepted(1,2) current_of_missing [OF _ _ assms(2)] by auto
    next
      case (Inr ms)
      then show ?thesis using current_of_Inr [of compile sha256 calls "vo_Limits options" d "fst ms" "snd ms"] accepted(1) assms(2) by (cases ms) auto
    qed
    then obtain a where a: "lastAccepted = Some a" "strongerAcceptance (vo_LastAccepted options) (AcceptanceState_of m) = Inr a"
      using accepted(2) by auto
    from accepted(3) show ?thesis
    proof (cases rule: Verify_Inr)
      case (1 rl' trusted)
      with rl have "rl' = rl" by simp
      note v = 1 [unfolded this]
      let ?m = "metadata_for sha256 v"
      have "cm_Sequence m \<noteq> 0" using st by (auto simp: stored_def validCurrentMetadata_def)
      with a v(7) have newer: "no_older m ?m" by (auto intro: accepted_is_no_older)
      have dec: "decode_canonical compile sha256 rl (vb_Canonical v) = Inr (vb_Bundle v)" using v(4,5) by simp
      note valid = verified_metadata [OF assms(1) dec]
      show ?thesis
      proof (cases "current = Inr (?m, vb_Canonical v) \<and> vb_Replay v")
        case True
        with accepted(4) st show ?thesis using no_older_refl by auto
      next
        case False
        with accepted(4) have "publish calls ?m v d = (r, d')" by simp
        then show ?thesis
        proof (cases rule: publish_cases)
          case kept
          then show ?thesis using kept_stored [OF st kept(1,2)] no_older_refl by blast
        next
          case (published g)
          have "stored compile sha256 rl d' ?m (vb_Canonical v)"
            by (rule published_stored [OF published(1) _ published(3,4) _ valid]) (use published(2) v(2,4) in simp_all)
          with newer show ?thesis by blast
        qed
      qed
    qed
  qed
  with rl step show ?thesis by (auto simp: installed_iff)
qed


lemma Install_published:
  assumes "\<And>x. length (sha256 x) = 32"
    and "Install compile sha256 ed calls encoded trustStore directory options d = (Inr res, d')"
  obtains rl trusted b where "normalizeLimits (vo_Limits options) = Inr rl" and "trustStore = Some trusted"
    and "decode_canonical compile sha256 rl encoded = Inr b" and "check_signature ed trusted b = None"
    and "stored compile sha256 rl d' (ir_Metadata res) encoded"
  using assms(2)
proof (cases rule: Install_cases)
  case (accepted current lastAccepted v)
  let ?m = "metadata_for sha256 v"
  from accepted(3) show thesis
  proof (cases rule: Verify_Inr)
    case (1 rl trusted)
    then have limits: "normalizeLimits (vo_Limits options) = Inr rl" by simp
    have dec: "decode_canonical compile sha256 rl (vb_Canonical v) = Inr (vb_Bundle v)" using 1(4,5) by simp
    note valid = verified_metadata [OF assms(1) dec]
    have "stored compile sha256 rl d' (ir_Metadata res) encoded"
    proof (cases "current = Inr (?m, vb_Canonical v) \<and> vb_Replay v")
      case True
      then have "ir_Metadata res = ?m" "d' = d" "installed compile sha256 (vo_Limits options) d = Inr (?m, vb_Canonical v)"
        using accepted(1,4) current_of_Inr by auto
      with 1(4) limits show ?thesis by (auto simp: installed_iff)
    next
      case False
      with accepted(4) have "publish calls ?m v d = (Inr res, d')" by simp
      then show ?thesis
      proof (cases rule: publish_cases)
        case (published g)
        have "stored compile sha256 rl d' ?m (vb_Canonical v)"
          by (rule published_stored [OF published(1) _ published(3,4) _ valid]) (use published(2) 1(2,4) in simp_all)
        with published(5) 1(4) show ?thesis by simp
      qed simp
    qed
    with limits 1 show thesis by (intro that)
  qed
qed simp

definition install_step ::
  "regexp \<Rightarrow> (string \<Rightarrow> 8 word list) \<Rightarrow> ed25519 \<Rightarrow> Limits \<Rightarrow> bundle_dir
     \<Rightarrow> install_calls \<times> string \<times> TrustStore option \<times> string \<times> VerifyOptions \<Rightarrow> bundle_dir" where
  "install_step compile sha256 ed limits d attempt =
     (case attempt of (calls, encoded, trustStore, directory, options) \<Rightarrow>
        snd (Install compile sha256 ed calls encoded trustStore directory (options\<lparr>vo_Limits := limits\<rparr>) d))"

text \<open>
  C11: The installed bundle is never lost and never rolls back. From a directory in which a bundle is
  installed, after any sequence of \<open>Install\<close> calls with any bytes, trust stores and options (under the
  same limits), any of whose system calls may fail at any point, \<open>ReadCurrent\<close> reads a
  bundle again, and it has a later sequence number or is the same bundle and payload.
\<close>

theorem installed_bundle_never_rolls_back:
  assumes "\<And>x. length (sha256 x) = 32" and "installed compile sha256 limits d = Inr (m, s)"
  shows "\<exists>m' s'. installed compile sha256 limits (foldl (install_step compile sha256 ed limits) d attempts) = Inr (m', s')
    \<and> (cm_Sequence m < cm_Sequence m'
       \<or> cm_Sequence m' = cm_Sequence m \<and> cm_BundleID m' = cm_BundleID m \<and> cm_PayloadSHA256 m' = cm_PayloadSHA256 m)"
proof -
  have "\<exists>m' s'. installed compile sha256 limits (foldl (install_step compile sha256 ed limits) d attempts) = Inr (m', s') \<and> no_older m m'"
    using assms(2)
  proof (induction attempts arbitrary: d m s)
    case (Cons attempt attempts)
    obtain calls encoded trustStore directory options where a: "attempt = (calls, encoded, trustStore, directory, options)" by (cases attempt) auto
    have "installed compile sha256 (vo_Limits (options\<lparr>vo_Limits := limits\<rparr>)) d = Inr (m, s)" using Cons.prems by simp
    from Install_step [OF assms(1) this, of ed calls encoded trustStore directory]
    obtain m1 s1 where one: "installed compile sha256 limits (install_step compile sha256 ed limits d attempt) = Inr (m1, s1)" "no_older m m1"
      by (auto simp: install_step_def a)
    from Cons.IH [OF one(1)] one(2) no_older_trans show ?case by fastforce
  qed (use no_older_refl in auto)
  then show ?thesis by (simp add: no_older_def)
qed

lemma intel_filled_reads: "installed no_regexp flat_sha256 DefaultLimits intel_filled = Inr (intel_metadata, intel_canonical)"
proof -
  have "vo_Limits intel_options = DefaultLimits" by (simp add: intel_options_def)
  with intel_install [THEN Install_published [OF flat_length]] show ?thesis by (force simp: installed_iff)
qed

theorem installed_bundle_never_rolls_back_witness:
  "\<exists>m' s'. installed no_regexp flat_sha256 DefaultLimits (foldl (install_step no_regexp flat_sha256 flat_ed25519 DefaultLimits) intel_filled
       [(intel_calls, intel_canonical, Some intel_trust, ''d'', intel_options), (intel_calls, ''{}'', None, ''d'', intel_options)]) = Inr (m', s')
     \<and> 1 \<le> cm_Sequence m'"
  using installed_bundle_never_rolls_back [OF flat_length intel_filled_reads, of flat_ed25519
      "[(intel_calls, intel_canonical, Some intel_trust, ''d'', intel_options), (intel_calls, ''{}'', None, ''d'', intel_options)]"]
  by (fastforce simp: intel_metadata_def intel_verified_bundle_def intel_sealed_def)



text \<open>
  C13: Signing and verification agree. What \<open>Sign\<close> returns for a bundle, \<open>Verify\<close> accepts and
  decodes to the same bundle, if the key is trusted under the key ID, the bundle is valid at the time and for the
  agent's schema, and its sequence number is later than the accepted one.
\<close>

theorem signed_bundle_verifies:
  assumes "Bundle_Sign compile sha256 ed bundle keyID privateKey (vo_Limits options) = Inr (sealed, canonical)"
    and "compiles_text compile" and "\<And>x. length (sha256 x) = 32" and "bu_MinimumAgentSchema bundle < 2 ^ 63"
    and "map_of trusted keyID = Some publicKey"
    and "\<And>m. length (ed_Sign ed privateKey m) = 64 \<and> ed_Verify ed publicKey m (ed_Sign ed privateKey m)"
    and "admits clock options sealed"
  shows "Bundle_Verify compile sha256 ed clock canonical (Some trusted) options
    = Inr \<lparr>vb_Bundle = sealed, vb_Canonical = canonical, vb_Replay = False\<rparr>"
  by (rule sign_then_verify [OF assms])

theorem signed_bundle_verifies_witness:
  "Bundle_Verify no_regexp flat_sha256 flat_ed25519 sample_now intel_canonical (Some intel_trust) intel_options
    = Inr \<lparr>vb_Bundle = intel_sealed, vb_Canonical = intel_canonical, vb_Replay = False\<rparr>"
proof -
  have "vo_Limits intel_options = DefaultLimits" by (simp add: intel_options_def)
  then have signed: "Bundle_Sign no_regexp flat_sha256 flat_ed25519 sample_bundle ''k1'' (replicate 64 7) (vo_Limits intel_options)
      = Inr (intel_sealed, intel_canonical)" by (simp add: intel_signed)
  show ?thesis
    by (rule signed_bundle_verifies [OF signed no_regexp_text flat_length _ _ flat_signs intel_admits])
      (simp_all add: sample_bundle_def intel_trust_def)
qed

text \<open>
  C28: The canonical form is canonical. It does not depend on the order in which the records are
  given, normalising it again changes nothing, and its records are sorted by their identities, of which no two are
  the same.
\<close>

theorem canonicalRecords_canonical:
  assumes "canonicalRecords compile rs limits = Inr out" and "mset rs' = mset rs"
  shows "canonicalRecords compile rs' limits = Inr out \<and> canonicalRecords compile out limits = Inr out
    \<and> distinct (map recordSortKey out) \<and> sorted (map recordSortKey out)"
proof -
  have "distinct (map recordSortKey out) \<and> sorted (map recordSortKey out)"
    using assms(1) by (auto simp: canonicalRecords_Inr distinct_map)
  then show ?thesis using canonicalRecords_order [OF assms] canonicalRecords_idem [OF assms(1)] by blast
qed

theorem canonicalRecords_canonical_witness:
  "canonicalRecords no_regexp (rev intel_records) DefaultLimits = Inr intel_sorted \<and> canonicalRecords no_regexp intel_sorted DefaultLimits = Inr intel_sorted"
  using canonicalRecords_canonical [OF intel_order, of "rev intel_records"] by simp

end
