(* ===== verification/GoRegex.thy ===== *)
theory GoRegex
  imports GoURL
begin

section \<open>Regular expressions (regexp)\<close>

text \<open>
  The expressions the sources use, as data: classes of runes, greedy repetitions of a class, alternatives
  (the first that leads to a match is taken), captures, word boundaries and anchors. A
  position is the rune before it and the runes after it. \<open>rx_run\<close> gives the matches at a position in the order in which
  Go's leftmost-first rule prefers them, so that the first one is the match; \<open>matches\<close> says declaratively
  what a match is, and the two agree (\<open>rx_run_iff\<close>).
\<close>

datatype rx =
    RChar "nat \<Rightarrow> bool"
  | RMany nat "nat option" "nat \<Rightarrow> bool"
  | RSeq rx rx
  | RAlt rx rx
  | RGroup rx
  | RWordBoundary
  | RBegin
  | REnd
  | REmpty

type_synonym pos = "rune option \<times> rune list"

text \<open>The position that many runes further.\<close>

definition advance :: "nat \<Rightarrow> pos \<Rightarrow> pos" where
  "advance n p = (if n = 0 then p else (Some (snd p ! (n - 1)), drop n (snd p)))"

definition passed :: "pos \<Rightarrow> pos \<Rightarrow> string" where
  "passed p q = concat (map snd (take (length (snd p) - length (snd q)) (snd p)))"

definition word_rune :: "nat \<Rightarrow> bool" where
  "word_rune r \<longleftrightarrow> (48 \<le> r \<and> r \<le> 57) \<or> (65 \<le> r \<and> r \<le> 90) \<or> r = 95 \<or> (97 \<le> r \<and> r \<le> 122)"

definition at_boundary :: "pos \<Rightarrow> bool" where
  "at_boundary p \<longleftrightarrow>
     (case fst p of None \<Rightarrow> False | Some r \<Rightarrow> word_rune (fst r)) \<noteq> (case snd p of [] \<Rightarrow> False | r # _ \<Rightarrow> word_rune (fst r))"

text \<open>How many runes of the class follow, at most the bound.\<close>

definition run_length :: "nat option \<Rightarrow> (nat \<Rightarrow> bool) \<Rightarrow> pos \<Rightarrow> nat" where
  "run_length hi P p =
     (let n = length (takeWhile (\<lambda>r. P (fst r)) (snd p)) in case hi of None \<Rightarrow> n | Some h \<Rightarrow> min n h)"

primrec rx_run :: "rx \<Rightarrow> pos \<Rightarrow> (string list \<times> pos) list" where
  "rx_run (RChar P) p = (case snd p of [] \<Rightarrow> [] | r # _ \<Rightarrow> if P (fst r) then [([], advance 1 p)] else [])"
| "rx_run (RMany lo hi P) p = map (\<lambda>n. ([], advance n p)) (rev [lo..<Suc (run_length hi P p)])"
| "rx_run (RSeq a b) p = concat (map (\<lambda>(gs, q). map (\<lambda>(hs, t). (gs @ hs, t)) (rx_run b q)) (rx_run a p))"
| "rx_run (RAlt a b) p = rx_run a p @ rx_run b p"
| "rx_run (RGroup a) p = map (\<lambda>(gs, q). (passed p q # gs, q)) (rx_run a p)"
| "rx_run RWordBoundary p = (if at_boundary p then [([], p)] else [])"
| "rx_run RBegin p = (if fst p = None then [([], p)] else [])"
| "rx_run REnd p = (if snd p = [] then [([], p)] else [])"
| "rx_run REmpty p = [([], p)]"

text \<open>The match at a position, if there is one.\<close>

definition rx_first :: "rx \<Rightarrow> pos \<Rightarrow> (string list \<times> pos) option" where
  "rx_first e p = (case rx_run e p of [] \<Rightarrow> None | m # _ \<Rightarrow> Some m)"

definition start_of :: "string \<Rightarrow> pos" where
  "start_of s = (None, runes s)"

text \<open>\<open>FindStringSubmatch\<close> of an expression that begins with an anchor: the captures.\<close>

definition find_anchored :: "rx \<Rightarrow> string \<Rightarrow> string list option" where
  "find_anchored e s = map_option fst (rx_first e (start_of s))"

definition rx_matches :: "rx \<Rightarrow> string \<Rightarrow> bool" where
  "rx_matches e s \<longleftrightarrow> find_anchored e s \<noteq> None"

text \<open>\<open>FindAllString\<close> of an expression that matches no empty text, from left to right.\<close>

function find_all :: "rx \<Rightarrow> pos \<Rightarrow> string list" where
  "find_all e p =
     (if snd p = [] then []
      else (case rx_first e p of
          None \<Rightarrow> find_all e (advance 1 p)
        | Some (gs, q) \<Rightarrow>
            if length (snd q) < length (snd p) then passed p q # find_all e q else find_all e (advance 1 p)))"
  by pat_completeness auto
termination
  by (relation "measure (\<lambda>(e, p). length (snd p))") (auto simp: advance_def)

declare find_all.simps [simp del]

definition FindAllString :: "rx \<Rightarrow> string \<Rightarrow> string list" where
  "FindAllString e s = find_all e (start_of s)"

subsection \<open>Classes and literals\<close>

definition in_chars :: "string \<Rightarrow> nat \<Rightarrow> bool" where
  "in_chars cs r \<longleftrightarrow> r \<in> set (map byte cs)"

definition any_rune :: "nat \<Rightarrow> bool" where "any_rune r \<longleftrightarrow> r \<noteq> 10"

definition space_rune :: "nat \<Rightarrow> bool" where "space_rune r \<longleftrightarrow> (9 \<le> r \<and> r \<le> 13) \<or> r = 32"

definition digit_rune :: "nat \<Rightarrow> bool" where "digit_rune r \<longleftrightarrow> 48 \<le> r \<and> r \<le> 57"
definition upper_rune :: "nat \<Rightarrow> bool" where "upper_rune r \<longleftrightarrow> 65 \<le> r \<and> r \<le> 90"
definition lower_rune_class :: "nat \<Rightarrow> bool" where "lower_rune_class r \<longleftrightarrow> 97 \<le> r \<and> r \<le> 122"
definition alnum_rune :: "nat \<Rightarrow> bool" where "alnum_rune r \<longleftrightarrow> digit_rune r \<or> upper_rune r \<or> lower_rune_class r"

text \<open>
  Case-insensitive classes: a rune with a variant in the class. Beyond ASCII the long s and the Kelvin
  sign have ASCII variants.
\<close>

definition case_variants :: "nat \<Rightarrow> nat list" where
  "case_variants r = r # (if upper_rune r then [r + 32] else if lower_rune_class r then [r - 32]
     else if r = 383 then [115] else if r = 8490 then [107] else [])"

definition folded :: "(nat \<Rightarrow> bool) \<Rightarrow> nat \<Rightarrow> bool" where
  "folded P r \<longleftrightarrow> list_ex P (case_variants r)"

fun seq_of :: "rx list \<Rightarrow> rx" where
  "seq_of [] = REmpty"
| "seq_of [e] = e"
| "seq_of (e # f # es) = RSeq e (seq_of (f # es))"

fun alt_of :: "rx list \<Rightarrow> rx" where
  "alt_of [] = RChar (\<lambda>r. False)"
| "alt_of [e] = e"
| "alt_of (e # f # es) = RAlt e (alt_of (f # es))"

definition literal :: "string \<Rightarrow> rx" where
  "literal s = seq_of (map (\<lambda>c. RChar (\<lambda>r. r = byte c)) s)"

definition literal_fold :: "string \<Rightarrow> rx" where
  "literal_fold s = seq_of (map (\<lambda>c. RChar (folded (\<lambda>r. r = byte c))) s)"

definition optional :: "rx \<Rightarrow> rx" where "optional e = RAlt e REmpty"

subsection \<open>What a match is\<close>

inductive matches :: "rx \<Rightarrow> pos \<Rightarrow> string list \<Rightarrow> pos \<Rightarrow> bool" where
  "snd p = r # rs \<Longrightarrow> P (fst r) \<Longrightarrow> matches (RChar P) p [] (Some r, rs)"
| "lo \<le> n \<Longrightarrow> n \<le> length (snd p) \<Longrightarrow> (\<forall>h. hi = Some h \<longrightarrow> n \<le> h) \<Longrightarrow> \<forall>r \<in> set (take n (snd p)). P (fst r)
     \<Longrightarrow> matches (RMany lo hi P) p [] (advance n p)"
| "matches a p gs q \<Longrightarrow> matches b q hs t \<Longrightarrow> matches (RSeq a b) p (gs @ hs) t"
| "matches a p gs q \<Longrightarrow> matches (RAlt a b) p gs q"
| "matches b p gs q \<Longrightarrow> matches (RAlt a b) p gs q"
| "matches a p gs q \<Longrightarrow> matches (RGroup a) p (passed p q # gs) q"
| "at_boundary p \<Longrightarrow> matches RWordBoundary p [] p"
| "fst p = None \<Longrightarrow> matches RBegin p [] p"
| "snd p = [] \<Longrightarrow> matches REnd p [] p"
| "matches REmpty p [] p"

inductive_simps matches_simps:
  "matches (RChar P) p gs q" "matches (RMany lo hi P) p gs q" "matches (RSeq a b) p gs q" "matches (RAlt a b) p gs q"
  "matches (RGroup a) p gs q" "matches RWordBoundary p gs q" "matches RBegin p gs q" "matches REnd p gs q" "matches REmpty p gs q"

lemma take_run: "(\<forall>r \<in> set (take n rs). P (fst r)) \<and> n \<le> length rs \<longleftrightarrow> n \<le> length (takeWhile (\<lambda>r. P (fst r)) rs)"
proof (induction rs arbitrary: n)
  case (Cons r rs)
  then show ?case by (cases n) auto
qed simp

lemma run_length_iff:
  "n \<le> run_length hi P p \<longleftrightarrow> n \<le> length (snd p) \<and> (\<forall>h. hi = Some h \<longrightarrow> n \<le> h) \<and> (\<forall>r \<in> set (take n (snd p)). P (fst r))"
  using take_run [of n "snd p" P] by (cases hi) (auto simp: run_length_def Let_def)

lemma in_composed:
  "(gs, q) \<in> set (concat (map (\<lambda>(us, t). map (\<lambda>(vs, w). (us @ vs, w)) (f t)) xs)) \<longleftrightarrow>
     (\<exists>us t vs. (us, t) \<in> set xs \<and> (vs, q) \<in> set (f t) \<and> gs = us @ vs)"
proof (induction xs)
  case (Cons x xs)
  have one: "(gs, q) \<in> set (map (\<lambda>(vs, w). (us @ vs, w)) ys) \<longleftrightarrow> (\<exists>vs. (vs, q) \<in> set ys \<and> gs = us @ vs)"
    for us and ys :: "('a list \<times> 'b) list"
    by (induction ys) auto
  obtain us t where x: "x = (us, t)" by (cases x)
  show ?case unfolding x list.map concat.simps set_append Un_iff Cons.IH prod.case one by auto
qed simp

theorem rx_run_iff: "(gs, q) \<in> set (rx_run e p) \<longleftrightarrow> matches e p gs q"
proof (induction e arbitrary: gs p q)
  case (RChar P)
  show ?case by (cases "snd p") (auto simp: advance_def matches_simps)
next
  case (RMany lo hi P)
  have "(gs, q) \<in> set (rx_run (RMany lo hi P) p) \<longleftrightarrow> gs = [] \<and> (\<exists>n. lo \<le> n \<and> n \<le> run_length hi P p \<and> q = advance n p)"
    by (auto simp: less_Suc_eq_le)
  then show ?case unfolding run_length_iff matches_simps by blast
next
  case (RSeq a b)
  show ?case unfolding rx_run.simps in_composed RSeq.IH matches_simps by (simp only: ex_simps conj_ac) auto
next
  case (RAlt a b)
  then show ?case by (auto simp: matches_simps)
next
  case (RGroup a)
  have one: "(gs, q) \<in> set (map (\<lambda>(us, q). (passed p q # us, q)) xs) \<longleftrightarrow> (\<exists>us. (us, q) \<in> set xs \<and> gs = passed p q # us)" for xs
    by (induction xs) auto
  show ?case unfolding rx_run.simps one RGroup.IH matches_simps by (cases q) auto
qed (auto simp: matches_simps)

end
