(* ===== verification/Scanner_Text.thy ===== *)
theory Scanner_Text
  imports GoRegex Model Complex_Main
begin

section \<open>Credentials in text (internal/scanner/secret.go)\<close>

text \<open>
  Which lines of a text are reported: private key blocks, tokens of known formats and
  assignments of random-looking values to keys that name a secret. A finding holds a keyed
  fingerprint of the value and an excerpt without it. HMAC-SHA256 is an argument, and so is
  \<open>math.Log2\<close>; the entropy is computed with it in rational numbers, without rounding.
\<close>

definition minimumFingerprintKeyBytes :: nat where "minimumFingerprintKeyBytes = 32"

subsection \<open>Patterns\<close>

definition privateKeyBegin :: rx where
  "privateKeyBegin = seq_of
     [RBegin, literal ''-----BEGIN '',
      RGroup (alt_of (map literal [''RSA PRIVATE KEY'', ''EC PRIVATE KEY'', ''DSA PRIVATE KEY'', ''OPENSSH PRIVATE KEY'', ''PRIVATE KEY'',
        ''ENCRYPTED PRIVATE KEY'', ''PGP PRIVATE KEY BLOCK''])),
      literal ''-----'', RMany 0 None space_rune, REnd]"

definition secret_words :: rx where
  "secret_words = alt_of
     [literal_fold ''password'', literal_fold ''passwd'', literal_fold ''pwd'', literal_fold ''secret'',
      seq_of [literal_fold ''api'', optional (RChar (in_chars ''_-'')), literal_fold ''key''],
      seq_of [literal_fold ''access'', optional (RChar (in_chars ''_-'')), literal_fold ''token''],
      seq_of [literal_fold ''auth'', optional (RChar (in_chars ''_-'')), literal_fold ''token'']]"

definition quote_rune :: "nat \<Rightarrow> bool" where "quote_rune r \<longleftrightarrow> r = 34 \<or> r = 39"

definition declaration_word :: rx where
  "declaration_word = optional (RSeq (alt_of (map literal_fold [''export'', ''const'', ''let'', ''var''])) (RMany 1 None space_rune))"

definition name_rune :: "nat \<Rightarrow> bool" where
  "name_rune = folded (\<lambda>r. alnum_rune r \<or> in_chars ''_.-'' r)"

definition secret_name :: rx where
  "secret_name = RSeq (RMany 0 None name_rune) secret_words"

definition assign_operator :: rx where
  "assign_operator = alt_of (map literal ['':='', ''='', '':''])"

definition assignmentLine :: rx where
  "assignmentLine = seq_of
     [RBegin, RMany 0 None space_rune, declaration_word, optional (RChar quote_rune), RGroup secret_name, optional (RChar quote_rune),
      RMany 0 None space_rune, RGroup assign_operator, RMany 0 None space_rune, RGroup (RMany 0 None any_rune), REnd]"

definition between :: "rx list \<Rightarrow> rx" where
  "between es = seq_of (RWordBoundary # es @ [RWordBoundary])"

definition tokenDetectors :: "(string \<times> rx) list" where
  "tokenDetectors =
    [(''token.aws-access-key-id'',
       between [alt_of (map literal [''AKIA'', ''ASIA'']), RMany 16 (Some 16) (\<lambda>r. digit_rune r \<or> upper_rune r)]),
     (''token.github'',
       between [RAlt
         (seq_of [literal ''gh'', RChar (in_chars ''pousr''), literal ''_'', RMany 36 (Some 255) alnum_rune])
         (seq_of [literal ''github_pat_'', RMany 82 (Some 255) (\<lambda>r. alnum_rune r \<or> in_chars ''_'' r)])]),
     (''token.gitlab'',
       between [literal ''glpat-'', RMany 20 (Some 255) (\<lambda>r. alnum_rune r \<or> in_chars ''_-'' r)]),
     (''token.google-api-key'',
       between [literal ''AIza'', RMany 35 (Some 35) (\<lambda>r. alnum_rune r \<or> in_chars ''_-'' r)]),
     (''token.slack'',
       between [literal ''xox'', RChar (in_chars ''baprs''), literal ''-'', RMany 20 (Some 255) (\<lambda>r. alnum_rune r \<or> in_chars ''-'' r)]),
     (''token.stripe-live-secret'',
       between [literal ''sk_live_'', RMany 16 (Some 255) alnum_rune])]"

subsection \<open>Values that look random\<close>

definition allSame :: "string \<Rightarrow> bool" where
  "allSame value \<longleftrightarrow> value \<noteq> [] \<and> list_all (\<lambda>c. c = hd value) value"

definition repeatedPattern :: "string \<Rightarrow> bool" where
  "repeatedPattern value \<longleftrightarrow> list_ex (\<lambda>width. width * 3 \<le> length value \<and> length value mod width = 0
     \<and> concat (replicate (length value div width) (take width value)) = value) [1, 2, 3, 4]"

text \<open>Bytes wrap around.\<close>

definition next_byte :: "char \<Rightarrow> char \<Rightarrow> bool" where
  "next_byte c d \<longleftrightarrow> byte d = (byte c + 1) mod 256"

definition sequentialASCII :: "string \<Rightarrow> bool" where
  "sequentialASCII value \<longleftrightarrow> 8 \<le> length value
     \<and> (list_all (\<lambda>(c, d). next_byte c d) (zip value (tl value)) \<or> list_all (\<lambda>(c, d). next_byte d c) (zip value (tl value)))"

definition shannonEntropy :: "(rat \<Rightarrow> rat) \<Rightarrow> string \<Rightarrow> rat" where
  "shannonEntropy log2 value =
     foldl (\<lambda>entropy c. let probability = of_nat (count_list value c) / of_nat (length value) in entropy - probability * log2 probability)
       0 (remdups value)"

definition to_upper :: "string \<Rightarrow> string" where
  "to_upper s = map (\<lambda>c. if 97 \<le> byte c \<and> byte c \<le> 122 then char_of (byte c - 32) else c) s"

text \<open>The tokens are ASCII.\<close>

definition validateFormattedToken :: "(rat \<Rightarrow> rat) \<Rightarrow> string \<Rightarrow> bool" where
  "validateFormattedToken log2 value \<longleftrightarrow>
     \<not> (contains (to_upper value) ''EXAMPLE'' \<or> contains (to_upper value) ''PLACEHOLDER'' \<or> contains (to_upper value) ''REDACTED''
        \<or> allSame value \<or> repeatedPattern value)
     \<and> shannonEntropy log2 value \<ge> 3"

definition highEntropyAssignment :: "(rat \<Rightarrow> rat) \<Rightarrow> string \<Rightarrow> bool" where
  "highEntropyAssignment log2 value \<longleftrightarrow>
     (let lower = ToLower (TrimSpace value)
      in 16 \<le> length value \<and> length value \<le> 4096
         \<and> lower \<notin> set [[], ''password'', ''password123'', ''changeme'', ''change_me'', ''change-me'', ''secret'', ''example'',
             ''example-secret'', ''example_password'', ''dummy'', ''placeholder'', ''redacted'', ''[redacted]'', ''not-a-real-secret'']
         \<and> \<not> list_ex (has_prefix lower) [''${'', ''{{'', ''<'', ''your_'', ''your-'', ''process.env'', ''os.environ'']
         \<and> \<not> allSame value \<and> \<not> repeatedPattern value \<and> \<not> sequentialASCII value
         \<and> shannonEntropy log2 value \<ge> 3)"

text \<open>What stands before the closing quote; a backslash keeps the next byte.\<close>

fun before_quote :: "char \<Rightarrow> bool \<Rightarrow> string \<Rightarrow> string option" where
  "before_quote quote escaped [] = None"
| "before_quote quote escaped (c # s) =
     (if escaped then map_option ((#) c) (before_quote quote False s)
      else if c = CHR 0x5C then map_option ((#) c) (before_quote quote True s)
      else if c = quote then Some []
      else map_option ((#) c) (before_quote quote False s))"

definition assignedValue :: "string \<Rightarrow> string" where
  "assignedValue raw =
     (let value = TrimSpace raw
      in if value = [] then []
         else if hd value \<in> set [CHR 0x27, CHR 0x22, CHR 0x60] then
           (case before_quote (hd value) False (tl value) of Some v \<Rightarrow> v | None \<Rightarrow> TrimSpace (tl value))
         else TrimSpace (takeWhile (\<lambda>c. c \<notin> set [CHR '' '', CHR 0x09, CHR 0x0D, CHR 0x0A, CHR '','', CHR '';'', CHR ''#'']) value))"

definition isBinary :: "string \<Rightarrow> bool" where
  "isBinary content \<longleftrightarrow> nul \<in> set content \<or> sanitize content \<noteq> content
     \<or> content \<noteq> [] \<and> length (filter (\<lambda>c. byte c < 32 \<and> c \<notin> set [CHR 0x0A, CHR 0x0D, CHR 0x09, CHR 0x0C]) content) * 100
          div length content > 10"

subsection \<open>Findings\<close>

record SecretFinding =
  sf_DetectorID :: string
  sf_Path :: string
  sf_Line :: nat
  sf_Fingerprint :: string
  sf_RedactedExcerpt :: string

type_synonym hmac = "8 word list \<Rightarrow> string \<Rightarrow> 8 word list"

definition fingerprint :: "hmac \<Rightarrow> 8 word list \<Rightarrow> string \<Rightarrow> string \<Rightarrow> string" where
  "fingerprint hmac key detectorID value =
     ''hmac-sha256:'' @ hex_encode (take 16 (hmac key (detectorID @ [nul] @ value)))"

definition sort_findings :: "SecretFinding list \<Rightarrow> SecretFinding list" where
  "sort_findings = sort_key (\<lambda>f. (sf_Path f, sf_Line f, sf_DetectorID f, sf_Fingerprint f))"

record inspection =
  ip_log2 :: "rat \<Rightarrow> rat"
  ip_hmac :: hmac
  ip_key :: "8 word list"
  ip_path :: string
  ip_limit :: nat

definition finding_of :: "inspection \<Rightarrow> nat \<Rightarrow> string \<Rightarrow> string \<Rightarrow> string \<Rightarrow> SecretFinding" where
  "finding_of i index detectorID value excerpt =
     \<lparr>sf_DetectorID = detectorID, sf_Path = ip_path i, sf_Line = index + 1,
      sf_Fingerprint = fingerprint (ip_hmac i) (ip_key i) detectorID value, sf_RedactedExcerpt = excerpt\<rparr>"

fun add_matches :: "inspection \<Rightarrow> nat \<Rightarrow> string \<Rightarrow> string list \<Rightarrow> SecretFinding list \<Rightarrow> SecretFinding list" where
  "add_matches i index detectorID [] fs = fs"
| "add_matches i index detectorID (m # ms) fs =
     (if \<not> validateFormattedToken (ip_log2 i) m then add_matches i index detectorID ms fs
      else let fs' = fs @ [finding_of i index detectorID m ''[REDACTED TOKEN]'']
           in if length fs' \<ge> ip_limit i then fs' else add_matches i index detectorID ms fs')"

fun add_tokens :: "inspection \<Rightarrow> nat \<Rightarrow> string \<Rightarrow> (string \<times> rx) list \<Rightarrow> SecretFinding list \<Rightarrow> SecretFinding list" where
  "add_tokens i index line [] fs = fs"
| "add_tokens i index line ((detectorID, pattern) # ds) fs =
     (let fs' = add_matches i index detectorID (FindAllString pattern line) fs
      in if length fs' \<ge> ip_limit i then fs' else add_tokens i index line ds fs')"

text \<open>The lines up to the end marker, or all of them, and the lines after it.\<close>

fun take_block :: "string \<Rightarrow> string list \<Rightarrow> string list \<times> string list" where
  "take_block marker [] = ([], [])"
| "take_block marker (l # ls) =
     (if TrimSpace (trim_suffix [CHR 0x0D] l) = marker then ([l], ls) else apfst ((#) l) (take_block marker ls))"

lemma take_block_length: "length (snd (take_block marker ls)) \<le> length ls"
  by (induction ls) auto

definition is_comment :: "string \<Rightarrow> bool" where
  "is_comment line \<longleftrightarrow> list_ex (has_prefix (TrimSpace line)) [''#'', ''//'', '';'']"

text \<open>The finding for an assignment of a random-looking value.\<close>

definition assignment_finding :: "inspection \<Rightarrow> nat \<Rightarrow> string \<Rightarrow> SecretFinding option" where
  "assignment_finding i index line =
     (case find_anchored assignmentLine line of
        Some [key, operator, raw] \<Rightarrow>
          (let value = assignedValue raw
           in if highEntropyAssignment (ip_log2 i) value
              then Some (finding_of i index ''secret.assignment'' value (ToLower key @ '' '' @ operator @ '' [REDACTED]'')) else None)
      | _ \<Rightarrow> None)"

function inspect_lines ::
  "inspection \<Rightarrow> (nat \<Rightarrow> go_error option) \<Rightarrow> nat \<Rightarrow> string list \<Rightarrow> SecretFinding list \<Rightarrow> SecretFinding list result" where
  "inspect_lines i ctx index [] fs = Inr fs"
| "inspect_lines i ctx index (l # ls) fs =
     (case ctx index of
        Some err \<Rightarrow> Inl err
      | None \<Rightarrow>
          if length fs \<ge> ip_limit i then Inr fs
          else (let line = trim_suffix [CHR 0x0D] l
            in case find_anchored privateKeyBegin line of
                 Some match \<Rightarrow>
                   (let (block, rest) = take_block (''-----END '' @ concat (take 1 match) @ ''-----'') ls;
                        fs' = fs @ [finding_of i index ''private-key.pem'' (join_with [CHR 0x0A] (l # block)) ''[REDACTED PRIVATE KEY BLOCK]'']
                    in if length fs' \<ge> ip_limit i then Inr fs' else inspect_lines i ctx (index + length block + 1) rest fs')
               | None \<Rightarrow>
                   if is_comment line then inspect_lines i ctx (index + 1) ls fs
                   else (let fs' = add_tokens i index line tokenDetectors fs
                     in if length fs' \<ge> ip_limit i then inspect_lines i ctx (index + 1) ls fs'
                        else (case assignment_finding i index line of
                            None \<Rightarrow> inspect_lines i ctx (index + 1) ls fs'
                          | Some f \<Rightarrow>
                              if length fs' + 1 \<ge> ip_limit i then Inr (fs' @ [f]) else inspect_lines i ctx (index + 1) ls (fs' @ [f])))))"
  by pat_completeness auto
termination
  by (relation "measure (\<lambda>(i, ctx, index, ls, fs). length ls)") (auto simp: less_Suc_eq_le, metis take_block_length snd_conv)

declare inspect_lines.simps(2) [simp del]

definition inspectText :: "inspection \<Rightarrow> (nat \<Rightarrow> go_error option) \<Rightarrow> string \<Rightarrow> SecretFinding list result" where
  "inspectText i ctx content = map_sum id sort_findings (inspect_lines i ctx 0 (split_on (CHR 0x0A) content) [])"

end
