(* ===== verification/Scanner_Walk.thy ===== *)
theory Scanner_Walk
  imports Scanner_Text GoFile
begin

section \<open>The bounded secret scan (internal/scanner/contract.go, secret.go)\<close>

text \<open>
  The scan walks its roots, skips what it should not read and accounts for it, reads the rest up to the limits and inspects
  the text. What it leaves out because of a limit is a coverage finding. The walk's answers are a \<open>file_tree\<close> per root;
  every other answer is a function of the path, since a path is opened once; the answers of \<open>ctx.Err\<close> are
  numbered by the visits. Sizes and counters are integers: \<open>MaxFindings\<close> is below the largest \<open>int\<close>, where adding one would wrap.
\<close>

definition SecretResultSchema :: string where "SecretResultSchema = ''io.oh-my-safety/secret-scan''"
definition SecretResultSchemaVersion :: int where "SecretResultSchemaVersion = 1"
definition ExecutableResultSchema :: string where "ExecutableResultSchema = ''io.oh-my-safety/executable-triage''"
definition ExecutableResultSchemaVersion :: int where "ExecutableResultSchemaVersion = 1"
definition SecretScannerID :: string where "SecretScannerID = ''local-secret-scanner''"
definition ExecutableScannerID :: string where "ExecutableScannerID = ''changed-executable-triage''"

subsection \<open>Coverage\<close>

definition CoverageFindingLimit :: string where "CoverageFindingLimit = ''coverage_limit''"
definition CoverageMaxFileBytes :: string where "CoverageMaxFileBytes = ''max_file_bytes''"
definition CoverageMaxTotalBytes :: string where "CoverageMaxTotalBytes = ''max_total_bytes''"
definition CoverageMaxDepth :: string where "CoverageMaxDepth = ''max_depth''"
definition CoverageMaxFiles :: string where "CoverageMaxFiles = ''max_files''"
definition CoverageMaxFindings :: string where "CoverageMaxFindings = ''max_findings''"

record CoverageLimitFinding =
  cv_Kind :: string
  cv_ScannerID :: string
  cv_Code :: string
  cv_Path :: string
  cv_Limit :: int
  cv_Observed :: int
  cv_Occurrences :: int

record coverageAccumulator =
  ca_scannerID :: string
  ca_byCode :: "CoverageLimitFinding list"

definition newCoverageAccumulator :: "string \<Rightarrow> coverageAccumulator" where
  "newCoverageAccumulator scannerID = \<lparr>ca_scannerID = scannerID, ca_byCode = []\<rparr>"

definition coverage_again :: "string \<Rightarrow> int \<Rightarrow> CoverageLimitFinding \<Rightarrow> CoverageLimitFinding" where
  "coverage_again path observed f =
     f\<lparr>cv_Occurrences := cv_Occurrences f + 1,
       cv_Path := (if path \<noteq> [] \<and> (cv_Path f = [] \<or> path < cv_Path f) then path else cv_Path f),
       cv_Observed := max (cv_Observed f) observed\<rparr>"

definition coverage_add :: "string \<Rightarrow> string \<Rightarrow> int \<Rightarrow> int \<Rightarrow> coverageAccumulator \<Rightarrow> coverageAccumulator" where
  "coverage_add code path limit observed a =
     a\<lparr>ca_byCode := tbl_upsert cv_Code
         \<lparr>cv_Kind = CoverageFindingLimit, cv_ScannerID = ca_scannerID a, cv_Code = code, cv_Path = path,
          cv_Limit = limit, cv_Observed = observed, cv_Occurrences = 1\<rparr>
         (coverage_again path observed) (ca_byCode a)\<rparr>"

definition coverage_findings :: "coverageAccumulator \<Rightarrow> CoverageLimitFinding list" where
  "coverage_findings a = sort_key (\<lambda>f. (cv_Code f, cv_Path f)) (ca_byCode a)"

subsection \<open>Limits and results\<close>

record SecretLimits =
  sl_MaxFileBytes :: int
  sl_MaxTotalBytes :: int
  sl_MaxDepth :: int
  sl_MaxFiles :: int
  sl_MaxFindings :: int

definition zero_SecretLimits :: SecretLimits where
  "zero_SecretLimits = \<lparr>sl_MaxFileBytes = 0, sl_MaxTotalBytes = 0, sl_MaxDepth = 0, sl_MaxFiles = 0, sl_MaxFindings = 0\<rparr>"

definition DefaultSecretLimits :: SecretLimits where
  "DefaultSecretLimits =
     \<lparr>sl_MaxFileBytes = 1048576, sl_MaxTotalBytes = 33554432, sl_MaxDepth = 8, sl_MaxFiles = 2000, sl_MaxFindings = 200\<rparr>"

record SecretOptions =
  so_Limits :: SecretLimits
  so_FingerprintKey :: "8 word list"

record SecretStats =
  st_FilesConsidered :: int
  st_FilesScanned :: int
  st_BytesRead :: int
  st_SymlinksSkipped :: int
  st_NonRegularSkipped :: int
  st_BinarySkipped :: int
  st_OversizeSkipped :: int

record SecretResult =
  sr_Schema :: string
  sr_SchemaVersion :: int
  sr_ScannerID :: string
  sr_Findings :: "SecretFinding list"
  sr_Coverage :: "CoverageLimitFinding list"
  sr_Stats :: SecretStats

record SecretScanner =
  ss_limits :: SecretLimits
  ss_key :: "8 word list"

definition validateSecretLimits :: "SecretLimits \<Rightarrow> go_error option" where
  "validateSecretLimits l = first_error
     [(sl_MaxFileBytes l \<le> 0, New ''max file bytes must be positive''),
      (sl_MaxTotalBytes l \<le> 0, New ''max total bytes must be positive''),
      (sl_MaxDepth l < 0, New ''max depth cannot be negative''),
      (sl_MaxFiles l \<le> 0, New ''max files must be positive''),
      (sl_MaxFindings l \<le> 0, New ''max findings must be positive'')]"

definition NewSecretScanner :: "SecretOptions \<Rightarrow> SecretScanner result" where
  "NewSecretScanner opts =
     (let limits = (if so_Limits opts = zero_SecretLimits then DefaultSecretLimits else so_Limits opts)
      in case validateSecretLimits limits of
           Some err \<Rightarrow> Inl err
         | None \<Rightarrow>
             if length (so_FingerprintKey opts) < minimumFingerprintKeyBytes
             then Inl (Errorf ''fingerprint key must contain at least %d bytes'' [ArgD (int minimumFingerprintKeyBytes)])
             else Inr \<lparr>ss_limits = limits, ss_key = so_FingerprintKey opts\<rparr>)"

subsection \<open>Helpers\<close>

text \<open>The roots without blank ones, clean, sorted and each once.\<close>

definition normalizePaths :: "string list \<Rightarrow> string list" where
  "normalizePaths paths = sort (remdups (map path_Clean (filter (\<lambda>p. TrimSpace p \<noteq> []) paths)))"

definition relativeDepth :: "string \<Rightarrow> string \<Rightarrow> int result" where
  "relativeDepth start path =
     (case filepath_Rel start path of
        Inl err \<Rightarrow> Inl (Wrapf ''resolve scan depth for %q: %w'' [ArgS path] err)
      | Inr relative \<Rightarrow> Inr (if relative = ''.'' then 0 else int (length (split_on (CHR ''/'') relative))))"

text \<open>The content, the bytes read, whether the limit was exceeded, and the error.\<close>

definition readRegularFileBounded ::
  "string \<Rightarrow> FileInfo \<Rightarrow> opened result \<Rightarrow> int \<Rightarrow> string \<times> int \<times> bool \<times> go_error option" where
  "readRegularFileBounded path before answer limit =
     (case answer of
        Inl err \<Rightarrow> ([], 0, False, Some (Wrapf ''open %q: %w'' [ArgS path] err))
      | Inr file \<Rightarrow>
          (case op_stat file of
             Inl err \<Rightarrow> ([], 0, False, Some (Wrapf ''inspect opened file %q: %w'' [ArgS path] err))
           | Inr after \<Rightarrow>
               if \<not> mode_IsRegular (fi_Mode after) \<or> \<not> SameFile before after then ([], 0, False, None)
               else (case read_loop (\<lambda>err. Wrapf ''read %q: %w'' [ArgS path] err) 32768 limit (op_reads file) [] of
                   (content, ReadFailed err) \<Rightarrow> ([], int (length content), False, Some err)
                 | (content, ReadEOF) \<Rightarrow> (content, int (length content), False, None)
                 | (content, ReadLimit) \<Rightarrow>
                     (case op_at_limit file of
                        Inl err \<Rightarrow> ([], int (length content), False, Some (Wrapf ''inspect bounded file %q: %w'' [ArgS path] err))
                      | Inr current \<Rightarrow>
                          if fi_Size current > int (length content) then ([], int (length content), True, None)
                          else (content, int (length content), False, None)))))"

subsection \<open>The scan\<close>

text \<open>What the scan finds outside it.\<close>

record scan_env =
  se_log2 :: "rat \<Rightarrow> rat"
  se_hmac :: hmac
  se_ctx :: "nat \<Rightarrow> go_error option"
  se_tree :: "string \<Rightarrow> file_tree result"
  se_info :: "string \<Rightarrow> FileInfo result"
  se_open :: "string \<Rightarrow> opened result"
  se_text_ctx :: "string \<Rightarrow> nat \<Rightarrow> go_error option"

record walk_state =
  sc_Findings :: "SecretFinding list"
  sc_coverage :: coverageAccumulator
  sc_stats :: SecretStats
  sc_seenPaths :: "string list"
  sc_visits :: nat

definition errStopSecretScan :: go_error where "errStopSecretScan = New ''secret scan bound reached''"

definition with_stats :: "(SecretStats \<Rightarrow> SecretStats) \<Rightarrow> walk_state \<Rightarrow> walk_state" where
  "with_stats f st = st\<lparr>sc_stats := f (sc_stats st)\<rparr>"

definition with_coverage :: "string \<Rightarrow> string \<Rightarrow> int \<Rightarrow> int \<Rightarrow> walk_state \<Rightarrow> walk_state" where
  "with_coverage code path limit observed st = st\<lparr>sc_coverage := coverage_add code path limit observed (sc_coverage st)\<rparr>"

text \<open>The loop that takes over a file's findings.\<close>

fun take_findings :: "SecretLimits \<Rightarrow> string \<Rightarrow> SecretFinding list \<Rightarrow> walk_state \<Rightarrow> walk_state \<times> go_error option" where
  "take_findings l path [] st = (st, None)"
| "take_findings l path (f # fs) st =
     (if int (length (sc_Findings st)) \<ge> sl_MaxFindings l
      then (with_coverage CoverageMaxFindings path (sl_MaxFindings l) (int (length (sc_Findings st)) + 1) st, Some errStopSecretScan)
      else take_findings l path fs (st\<lparr>sc_Findings := sc_Findings st @ [f]\<rparr>))"

definition scan_content :: "SecretScanner \<Rightarrow> scan_env \<Rightarrow> string \<Rightarrow> string \<Rightarrow> walk_state \<Rightarrow> walk_state \<times> go_error option" where
  "scan_content s env path content st =
     (if isBinary content then (with_stats (\<lambda>c. c\<lparr>st_BinarySkipped := st_BinarySkipped c + 1\<rparr>) st, None)
      else let st = with_stats (\<lambda>c. c\<lparr>st_FilesScanned := st_FilesScanned c + 1\<rparr>) st;
               remaining = sl_MaxFindings (ss_limits s) - int (length (sc_Findings st))
        in case inspectText \<lparr>ip_log2 = se_log2 env, ip_hmac = se_hmac env, ip_key = ss_key s, ip_path = path,
                   ip_limit = nat (remaining + 1)\<rparr> (se_text_ctx env path) content of
             Inl err \<Rightarrow> (st, Some err)
           | Inr found \<Rightarrow> take_findings (ss_limits s) path found st)"

definition scan_file :: "SecretScanner \<Rightarrow> scan_env \<Rightarrow> string \<Rightarrow> FileInfo \<Rightarrow> walk_state \<Rightarrow> walk_state \<times> go_error option" where
  "scan_file s env path info st =
     (let l = ss_limits s; remaining = sl_MaxTotalBytes l - st_BytesRead (sc_stats st)
      in if \<not> mode_IsRegular (fi_Mode info) then (with_stats (\<lambda>c. c\<lparr>st_NonRegularSkipped := st_NonRegularSkipped c + 1\<rparr>) st, None)
         else if fi_Size info > sl_MaxFileBytes l then
           (with_coverage CoverageMaxFileBytes path (sl_MaxFileBytes l) (fi_Size info)
              (with_stats (\<lambda>c. c\<lparr>st_OversizeSkipped := st_OversizeSkipped c + 1\<rparr>) st), None)
         else if remaining \<le> 0 \<or> fi_Size info > remaining then
           (with_coverage CoverageMaxTotalBytes path (sl_MaxTotalBytes l) (st_BytesRead (sc_stats st) + fi_Size info) st, Some errStopSecretScan)
         else (case readRegularFileBounded path info (se_open env path) (min (sl_MaxFileBytes l) remaining) of
             (content, bytesRead, exceeded, err) \<Rightarrow>
               let st = with_stats (\<lambda>c. c\<lparr>st_BytesRead := st_BytesRead c + bytesRead\<rparr>) st
               in if err \<noteq> None then (st, err)
                  else if exceeded then
                    (if remaining < sl_MaxFileBytes l
                     then (with_coverage CoverageMaxTotalBytes path (sl_MaxTotalBytes l) (st_BytesRead (sc_stats st) + 1) st, Some errStopSecretScan)
                     else (with_stats (\<lambda>c. c\<lparr>st_OversizeSkipped := st_OversizeSkipped c + 1\<rparr>)
                             (with_coverage CoverageMaxFileBytes path (sl_MaxFileBytes l) (bytesRead + 1) st), None))
                  else scan_content s env path content st))"

text \<open>The callback of the walk.\<close>

definition scan_entry :: "SecretScanner \<Rightarrow> scan_env \<Rightarrow> string \<Rightarrow> walk_state walk_fn" where
  "scan_entry s env start path type walkErr st0 =
     (let l = ss_limits s; st = st0\<lparr>sc_visits := sc_visits st0 + 1\<rparr>; is_dir = (case type of None \<Rightarrow> False | Some m \<Rightarrow> mode_IsDir m);
          is_link = (case type of None \<Rightarrow> False | Some m \<Rightarrow> has_mode m ModeSymlink)
      in case se_ctx env (sc_visits st0) of
           Some err \<Rightarrow> (st, Some err)
         | None \<Rightarrow>
        (case walkErr of
           Some err \<Rightarrow> (st, Some (Wrapf ''inspect %q: %w'' [ArgS path] err))
         | None \<Rightarrow>
        (case relativeDepth start path of
           Inl err \<Rightarrow> (st, Some err)
         | Inr depth \<Rightarrow>
             if depth > sl_MaxDepth l then
               (with_coverage CoverageMaxDepth path (sl_MaxDepth l) depth st, if is_dir then Some SkipDir else None)
             else if is_link then
               (with_stats (\<lambda>c. c\<lparr>st_SymlinksSkipped := st_SymlinksSkipped c + 1\<rparr>) st, if is_dir then Some SkipDir else None)
             else if is_dir then (st, None)
             else if path \<in> set (sc_seenPaths st) then (st, None)
             else let st = st\<lparr>sc_seenPaths := sc_seenPaths st @ [path]\<rparr>
               in if st_FilesConsidered (sc_stats st) \<ge> sl_MaxFiles l then
                    (with_coverage CoverageMaxFiles path (sl_MaxFiles l) (st_FilesConsidered (sc_stats st) + 1) st, Some errStopSecretScan)
                  else let st = with_stats (\<lambda>c. c\<lparr>st_FilesConsidered := st_FilesConsidered c + 1\<rparr>) st
                    in case se_info env path of
                         Inl err \<Rightarrow> (st, Some (Wrapf ''inspect %q: %w'' [ArgS path] err))
                       | Inr info \<Rightarrow> scan_file s env path info st)))"

text \<open>The roots in order; reaching a bound ends the scan without an error.\<close>

fun scan_roots :: "SecretScanner \<Rightarrow> scan_env \<Rightarrow> string list \<Rightarrow> walk_state \<Rightarrow> walk_state \<times> go_error option" where
  "scan_roots s env [] st = (st, None)"
| "scan_roots s env (start # roots) st =
     (let start = path_Clean start
      in case WalkDir (scan_entry s env start) start (se_tree env start) st of
           (st, None) \<Rightarrow> scan_roots s env roots st
         | (st, Some err) \<Rightarrow> (st, if errors_Is err errStopSecretScan then None else Some err))"

definition zero_SecretStats :: SecretStats where
  "zero_SecretStats = \<lparr>st_FilesConsidered = 0, st_FilesScanned = 0, st_BytesRead = 0, st_SymlinksSkipped = 0,
     st_NonRegularSkipped = 0, st_BinarySkipped = 0, st_OversizeSkipped = 0\<rparr>"

definition initial_scan :: walk_state where
  "initial_scan = \<lparr>sc_Findings = [], sc_coverage = newCoverageAccumulator SecretScannerID, sc_stats = zero_SecretStats,
     sc_seenPaths = [], sc_visits = 1\<rparr>"

definition walk_result :: "walk_state \<Rightarrow> SecretResult" where
  "walk_result st = \<lparr>sr_Schema = SecretResultSchema, sr_SchemaVersion = SecretResultSchemaVersion, sr_ScannerID = SecretScannerID,
     sr_Findings = sort_findings (sc_Findings st), sr_Coverage = coverage_findings (sc_coverage st), sr_Stats = sc_stats st\<rparr>"

definition Scan :: "SecretScanner \<Rightarrow> scan_env \<Rightarrow> string list \<Rightarrow> SecretResult \<times> go_error option" where
  "Scan s env roots =
     (case se_ctx env 0 of
        Some err \<Rightarrow> (walk_result initial_scan, Some err)
      | None \<Rightarrow> apfst walk_result (scan_roots s env (normalizePaths roots) initial_scan))"

end
