(* ===== verification/Scanner_Text_Props.thy ===== *)
theory Scanner_Text_Props
  imports Scanner_Text
begin

section \<open>What the text scanner reports\<close>

text \<open>
  The scan with its limit reports the first findings of a scan without one; a finding shows the name of a
  key at most; a token of word characters that stands alone is found.
\<close>

subsection \<open>The limit\<close>

definition tokens_of :: "inspection \<Rightarrow> nat \<Rightarrow> string \<Rightarrow> (string \<times> rx) list \<Rightarrow> SecretFinding list" where
  "tokens_of i index line ds = concat (map (\<lambda>(detectorID, pattern).
     map (\<lambda>m. finding_of i index detectorID m ''[REDACTED TOKEN]'') (filter (validateFormattedToken (ip_log2 i)) (FindAllString pattern line))) ds)"

text \<open>All findings of the lines, without a limit.\<close>

function text_findings :: "inspection \<Rightarrow> nat \<Rightarrow> string list \<Rightarrow> SecretFinding list" where
  "text_findings i index [] = []"
| "text_findings i index (l # ls) =
     (let line = trim_suffix [CHR 0x0D] l
      in case find_anchored privateKeyBegin line of
           Some match \<Rightarrow>
             (let (block, rest) = take_block (''-----END '' @ concat (take 1 match) @ ''-----'') ls
              in finding_of i index ''private-key.pem'' (join_with [CHR 0x0A] (l # block)) ''[REDACTED PRIVATE KEY BLOCK]''
                 # text_findings i (index + length block + 1) rest)
         | None \<Rightarrow>
             (if is_comment line then []
              else tokens_of i index line tokenDetectors @ (case assignment_finding i index line of None \<Rightarrow> [] | Some f \<Rightarrow> [f]))
             @ text_findings i (index + 1) ls)"
  by pat_completeness auto
termination
  by (relation "measure (\<lambda>(i, index, ls). length ls)") (auto simp: less_Suc_eq_le, metis take_block_length snd_conv)

declare text_findings.simps(2) [simp del]

lemma add_matches_take:
  assumes "length fs < ip_limit i"
  shows "add_matches i index d ms fs =
    take (ip_limit i) (fs @ map (\<lambda>m. finding_of i index d m ''[REDACTED TOKEN]'') (filter (validateFormattedToken (ip_log2 i)) ms))"
  using assms
proof (induction ms arbitrary: fs)
  case (Cons m ms)
  show ?case
  proof (cases "validateFormattedToken (ip_log2 i) m \<and> Suc (length fs) < ip_limit i")
    case True
    then show ?thesis using Cons.IH [of "fs @ [finding_of i index d m ''[REDACTED TOKEN]'']"] by (simp add: Let_def)
  next
    case False
    show ?thesis
    proof (cases "validateFormattedToken (ip_log2 i) m")
      case True
      with False Cons.prems have "ip_limit i - length fs = Suc 0" by simp
      with True False show ?thesis by (simp add: Let_def)
    qed (use Cons in simp)
  qed
qed simp

lemma take_prefix: "take n (xs @ ys) = take n (take n xs @ ys)" if "length xs \<ge> n"
  using that by simp

lemma add_tokens_take:
  assumes "length fs < ip_limit i"
  shows "add_tokens i index line ds fs = take (ip_limit i) (fs @ tokens_of i index line ds)"
  using assms
proof (induction ds arbitrary: fs)
  case (Cons d ds)
  obtain name e where d: "d = (name, e)" by (cases d)
  let ?more = "map (\<lambda>m. finding_of i index name m ''[REDACTED TOKEN]'') (filter (validateFormattedToken (ip_log2 i)) (FindAllString e line))"
  note step = add_matches_take [OF Cons.prems, of index name "FindAllString e line"]
  show ?case
  proof (cases "length (fs @ ?more) < ip_limit i")
    case True
    then have "add_matches i index name (FindAllString e line) fs = fs @ ?more" using step by simp
    with True Cons.IH [OF True] show ?thesis by (simp add: d tokens_of_def Let_def)
  next
    case False
    then have full: "ip_limit i \<le> length (take (ip_limit i) (fs @ ?more))" by simp
    then have "add_tokens i index line (d # ds) fs = take (ip_limit i) (fs @ ?more)" using step Cons.prems by (simp add: d Let_def)
    moreover have "tokens_of i index line (d # ds) = ?more @ tokens_of i index line ds" by (simp add: d tokens_of_def)
    moreover have "take (ip_limit i) ((fs @ ?more) @ tokens_of i index line ds) = take (ip_limit i) (fs @ ?more)" using False by simp
    ultimately show ?thesis by simp
  qed
qed (simp add: tokens_of_def)

lemma inspect_lines_take:
  assumes "\<And>k. ctx k = None"
  shows "length fs \<le> ip_limit i \<Longrightarrow> inspect_lines i ctx index ls fs = Inr (take (ip_limit i) (fs @ text_findings i index ls))"
proof (induction "length ls" arbitrary: index ls fs rule: less_induct)
  case less
  show ?case
  proof (cases ls)
    case (Cons l ls')
    define line where "line = trim_suffix [CHR 0x0D] l"
    note step = inspect_lines.simps(2) [of i ctx index l ls' fs] text_findings.simps(2) [of i index l ls'] assms line_def [symmetric]
    have IH: "inspect_lines i ctx k ls'' fs' = Inr (take (ip_limit i) (fs' @ text_findings i k ls''))"
      if "length ls'' \<le> length ls'" "length fs' \<le> ip_limit i" for k ls'' fs'
      using less(1) [of ls'' fs' k] that Cons by simp
    show ?thesis
    proof (cases "ip_limit i \<le> length fs")
      case True
      with less.prems show ?thesis by (simp add: Cons step)
    next
      case room: False
      show ?thesis
      proof (cases "find_anchored privateKeyBegin line")
        case (Some match)
        obtain block rest where b: "take_block (''-----END '' @ concat (take 1 match) @ ''-----'') ls' = (block, rest)" by fastforce
        then have "length rest \<le> length ls'" using take_block_length [of "''-----END '' @ concat (take 1 match) @ ''-----''" ls'] by simp
        note go = IH [OF this, of "fs @ [finding_of i index ''private-key.pem'' (join_with [CHR 0x0A] (l # block)) ''[REDACTED PRIVATE KEY BLOCK]'']"]
        show ?thesis
        proof (cases "ip_limit i \<le> Suc (length fs)")
          case True
          with room have "ip_limit i - length fs = Suc 0" by simp
          with True room Some b show ?thesis by (simp add: Cons step Let_def)
        next
          case False
          with go room Some b show ?thesis by (simp add: Cons step Let_def)
        qed
      next
        case None
        show ?thesis
        proof (cases "is_comment line")
          case True
          with room None IH less.prems show ?thesis by (simp add: Cons step Let_def)
        next
          case False
          let ?more = "tokens_of i index line tokenDetectors"
          have toks: "add_tokens i index line tokenDetectors fs = take (ip_limit i) (fs @ ?more)"
            using room by (intro add_tokens_take) simp
          have next_line: "inspect_lines i ctx (index + 1) ls' fs' = Inr (take (ip_limit i) (fs' @ text_findings i (index + 1) ls'))"
            if "length fs' \<le> ip_limit i" for fs' using IH that by simp
          show ?thesis
          proof (cases "ip_limit i \<le> length fs + length ?more")
            case True
            then have "ip_limit i \<le> length (take (ip_limit i) (fs @ ?more))" by simp
            with True next_line [of "take (ip_limit i) (fs @ ?more)"] toks room None False show ?thesis
              by (simp add: Cons step Let_def)
          next
            case more: False
            then have toks: "add_tokens i index line tokenDetectors fs = fs @ ?more" using toks by simp
            show ?thesis
            proof (cases "assignment_finding i index line")
              case a: None
              with more next_line [of "fs @ ?more"] toks room None False show ?thesis by (simp add: Cons step Let_def)
            next
              case a: (Some f)
              show ?thesis
              proof (cases "ip_limit i \<le> length fs + length ?more + 1")
                case True
                with more have "ip_limit i - (length fs + length ?more) = Suc 0" by simp
                with True more toks a room None False show ?thesis by (simp add: Cons step Let_def)
              next
                case False': False
                with more next_line [of "(fs @ ?more) @ [f]"] toks a room None False show ?thesis by (simp add: Cons step Let_def)
              qed
            qed
          qed
        qed
      qed
    qed
  qed (use less.prems in simp)
qed

lemma inspectText_take:
  assumes "\<And>k. ctx k = None"
  shows "inspectText i ctx content = Inr (sort_findings (take (ip_limit i) (text_findings i 0 (split_on (CHR 0x0A) content))))"
  using inspect_lines_take [of ctx "[]" i 0] assms by (simp add: inspectText_def)

subsection \<open>What an expression consumes\<close>

text \<open>Every rune of a match is in the class.\<close>

primrec rx_only :: "(nat \<Rightarrow> bool) \<Rightarrow> rx \<Rightarrow> bool" where
  "rx_only P (RChar Q) = (\<forall>r. Q r \<longrightarrow> P r)"
| "rx_only P (RMany lo hi Q) = (\<forall>r. Q r \<longrightarrow> P r)"
| "rx_only P (RSeq a b) = (rx_only P a \<and> rx_only P b)"
| "rx_only P (RAlt a b) = (rx_only P a \<and> rx_only P b)"
| "rx_only P (RGroup a) = rx_only P a"
| "rx_only P RWordBoundary = True"
| "rx_only P RBegin = True"
| "rx_only P REnd = True"
| "rx_only P REmpty = True"

definition moved :: "pos \<Rightarrow> rune list \<Rightarrow> pos \<Rightarrow> bool" where
  "moved p rs q \<longleftrightarrow> snd p = rs @ snd q \<and> fst q = (if rs = [] then fst p else Some (last rs))"

lemma moved_passed: "moved p rs q \<Longrightarrow> passed p q = concat (map snd rs)"
  by (simp add: moved_def passed_def)

lemma moved_append: "moved p rs q \<Longrightarrow> moved q ts t \<Longrightarrow> moved p (rs @ ts) t"
  by (auto simp: moved_def)

lemma moved_advance: "n \<le> length (snd p) \<Longrightarrow> moved p (take n (snd p)) (advance n p)"
  by (cases n) (auto simp: moved_def advance_def take_Suc_conv_app_nth id_take_nth_drop [symmetric])

lemma matches_moved:
  "matches e p gs q \<Longrightarrow> rx_only P e \<Longrightarrow> \<exists>rs. moved p rs q \<and> (\<forall>r \<in> set rs. P (fst r))"
proof (induction rule: matches.induct)
  case (1 p r rs Q)
  then have "moved p [r] (Some r, rs)" by (simp add: moved_def)
  with 1 show ?case by auto
next
  case (2 lo n p hi Q)
  then show ?case using moved_advance [of n p] by auto
next
  case (3 a p gs q b hs t)
  then obtain rs ts where "moved p rs q" "\<forall>r \<in> set rs. P (fst r)" "moved q ts t" "\<forall>r \<in> set ts. P (fst r)" by auto
  then show ?case using moved_append by (metis Un_iff set_append)
next
  case (6 a p gs q)
  then show ?case by simp
qed (auto simp: moved_def)

lemma first_matches: "rx_first e p = Some (gs, q) \<Longrightarrow> matches e p gs q"
  unfolding rx_run_iff [symmetric] by (auto simp: rx_first_def split: list.splits)

lemma first_exists: "matches e p gs q \<Longrightarrow> rx_first e p \<noteq> None"
  unfolding rx_run_iff [symmetric] by (auto simp: rx_first_def split: list.splits)

subsection \<open>What a finding shows\<close>

lemma literal_only:
  assumes "\<And>c. c \<in> set s \<Longrightarrow> P (byte c)"
  shows "rx_only P (literal s)"
proof -
  have "rx_only P (seq_of (map (\<lambda>c. RChar (\<lambda>r. r = byte c)) s))"
    using assms
  proof (induction s)
    case (Cons c s)
    then show ?case by (cases s) auto
  qed simp
  then show ?thesis by (simp add: literal_def)
qed

lemma literal_fold_only:
  assumes "\<And>c. c \<in> set s \<Longrightarrow> Q (byte c)"
  shows "rx_only (folded Q) (literal_fold s)"
proof -
  have mono: "folded (\<lambda>r. r = byte c) r \<Longrightarrow> Q (byte c) \<Longrightarrow> folded Q r" for c r
    by (auto simp: folded_def list_ex_iff)
  have "rx_only (folded Q) (seq_of (map (\<lambda>c. RChar (folded (\<lambda>r. r = byte c))) s))"
    using assms
  proof (induction s)
    case (Cons c s)
    then show ?case using mono by (cases s) auto
  qed simp
  then show ?thesis by (simp add: literal_fold_def)
qed

lemma secret_words_only: "rx_only name_rune secret_words"
proof -
  have "\<forall>c \<in> set s. alnum_rune (byte c) \<or> in_chars ''_.-'' (byte c)"
    if "s \<in> set [''password'', ''passwd'', ''pwd'', ''secret'', ''api'', ''key'', ''access'', ''token'', ''auth'']" for s
  proof -
    have "\<forall>s \<in> set [''password'', ''passwd'', ''pwd'', ''secret'', ''api'', ''key'', ''access'', ''token'', ''auth'']. \<forall>c \<in> set s.
        alnum_rune (byte c) \<or> in_chars ''_.-'' (byte c)" by code_simp
    with that show ?thesis by blast
  qed
  then have word: "rx_only name_rune (literal_fold s)"
    if "s \<in> set [''password'', ''passwd'', ''pwd'', ''secret'', ''api'', ''key'', ''access'', ''token'', ''auth'']" for s
    unfolding name_rune_def using that by (intro literal_fold_only) blast
  have sep: "rx_only name_rune (optional (RChar (in_chars ''_-'')))"
    by (auto simp: optional_def name_rune_def folded_def case_variants_def in_chars_def)
  show ?thesis using word sep by (simp add: secret_words_def)
qed

text \<open>Expressions without captures.\<close>

primrec no_group :: "rx \<Rightarrow> bool" where
  "no_group (RChar Q) = True"
| "no_group (RMany lo hi Q) = True"
| "no_group (RSeq a b) = (no_group a \<and> no_group b)"
| "no_group (RAlt a b) = (no_group a \<and> no_group b)"
| "no_group (RGroup a) = False"
| "no_group RWordBoundary = True"
| "no_group RBegin = True"
| "no_group REnd = True"
| "no_group REmpty = True"

lemma matches_no_group: "matches e p gs q \<Longrightarrow> no_group e \<Longrightarrow> gs = []"
  by (induction rule: matches.induct) auto

lemma no_group_seq: "list_all no_group es \<Longrightarrow> no_group (seq_of es)"
  by (induction es rule: seq_of.induct) auto

lemma no_group_alt: "list_all no_group es \<Longrightarrow> no_group (alt_of es)"
  by (induction es rule: alt_of.induct) auto

lemma no_group_literal: "no_group (literal s)" "no_group (literal_fold s)"
  unfolding literal_def literal_fold_def by (rule no_group_seq, simp add: list_all_iff)+

lemma no_group_words: "no_group secret_words"
  by (simp add: secret_words_def optional_def no_group_literal)

text \<open>A literal matches its own text.\<close>

lemma literal_passed:
  assumes "matches (literal s) p gs q" and "ascii s"
  shows "\<exists>rs. moved p rs q \<and> map fst rs = map byte s"
proof -
  have "matches (seq_of (map (\<lambda>c. RChar (\<lambda>r. r = byte c)) s)) p gs q \<Longrightarrow> \<exists>rs. moved p rs q \<and> map fst rs = map byte s"
  proof (induction s arbitrary: p gs)
    case Nil
    then show ?case by (auto simp: matches_simps moved_def)
  next
    case (Cons c s)
    have one: "matches (RChar (\<lambda>r. r = byte c)) p gs q \<Longrightarrow> \<exists>r. moved p [r] q \<and> fst r = byte c" for p gs q
      by (auto simp: matches_simps moved_def)
    show ?case
    proof (cases s)
      case Nil
      with Cons.prems one show ?thesis by fastforce
    next
      case (Cons d s')
      with Cons.prems obtain gs1 t gs2 where "matches (RChar (\<lambda>r. r = byte c)) p gs1 t"
          and rest: "matches (seq_of (map (\<lambda>c. RChar (\<lambda>r. r = byte c)) s)) t gs2 q"
        by (auto simp: matches_simps)
      then obtain r where "moved p [r] t" "fst r = byte c" using one by blast
      moreover obtain rs where "moved t rs q" "map fst rs = map byte s" using Cons.IH [OF rest] by blast
      ultimately show ?thesis using moved_append [of p "[r]" t rs q] by (intro exI [of _ "r # rs"]) simp
    qed
  qed
  then show ?thesis using assms(1) by (simp add: literal_def)
qed

lemma assignment_no_group: "no_group declaration_word" "no_group (optional (RChar quote_rune))" "no_group secret_name" "no_group assign_operator"
  using no_group_literal no_group_words by (simp_all add: optional_def declaration_word_def secret_name_def assign_operator_def)

lemma secret_name_only: "rx_only name_rune secret_name"
  using secret_words_only by (simp add: secret_name_def)

lemma assign_operator_text:
  assumes "matches assign_operator p gs q"
  shows "\<exists>rs. moved p rs q \<and> map fst rs \<in> set [map byte '':='', map byte ''='', map byte '':'']"
proof -
  have "ascii '':=''" "ascii ''=''" "ascii '':''" by code_simp+
  then show ?thesis
    using assms literal_passed unfolding assign_operator_def list.map alt_of.simps matches_simps(4) by fastforce
qed

lemma skip_parts: "matches (seq_of (es @ f # fs)) p gs q \<Longrightarrow> list_all no_group es \<Longrightarrow> \<exists>t. matches (seq_of (f # fs)) t gs q"
proof (induction es arbitrary: p)
  case (Cons e es)
  obtain d ds where d: "es @ f # fs = d # ds" by (cases "es @ f # fs") auto
  have "matches (RSeq e (seq_of (es @ f # fs))) p gs q" using Cons.prems(1) by (simp add: d)
  then obtain us t vs where m: "gs = us @ vs" "matches e p us t" "matches (seq_of (es @ f # fs)) t vs q" unfolding matches_simps(3) by blast
  moreover have "us = []" using matches_no_group [OF m(2)] Cons.prems(2) by simp
  ultimately show ?case using Cons by simp
qed auto

lemma group_part:
  assumes "matches (seq_of (RGroup e # f # es)) p gs q" and "no_group e"
  obtains u hs t where "matches e p [] u" and "gs = passed p u # hs" and "matches (seq_of (f # es)) u hs q"
proof -
  obtain us u vs where "gs = us @ vs" "matches (RGroup e) p us u" "matches (seq_of (f # es)) u vs q"
    using assms(1) unfolding seq_of.simps matches_simps(3) by blast
  moreover from this obtain ws where "us = passed p u # ws" "matches e p ws u" unfolding matches_simps(5) by blast
  moreover have "ws = []" using matches_no_group [OF \<open>matches e p ws u\<close> assms(2)] .
  ultimately show thesis using that [of u vs] by simp
qed

lemma assignment_groups:
  assumes "find_anchored assignmentLine line = Some gs"
  shows "\<exists>key operator raw. gs = [concat (map snd key), concat (map snd operator), raw] \<and> (\<forall>r \<in> set key. name_rune (fst r))
    \<and> map fst operator \<in> set [map byte '':='', map byte ''='', map byte '':'']"
proof -
  obtain q where "rx_first assignmentLine (start_of line) = Some (gs, q)"
    using assms by (auto simp: find_anchored_def)
  then have "matches assignmentLine (start_of line) gs q" by (rule first_matches)
  then obtain p3 where "matches (seq_of [RGroup secret_name, optional (RChar quote_rune), RMany 0 None space_rune, RGroup assign_operator,
      RMany 0 None space_rune, RGroup (RMany 0 None any_rune), REnd]) p3 gs q"
    using assignment_no_group skip_parts [of "[RBegin, RMany 0 None space_rune, declaration_word, optional (RChar quote_rune)]" "RGroup secret_name"]
    unfolding assignmentLine_def list.pred_inject append.simps by fastforce
  then obtain p4 hs where key: "matches secret_name p3 [] p4" and gs: "gs = passed p3 p4 # hs" and
      "matches (seq_of [optional (RChar quote_rune), RMany 0 None space_rune, RGroup assign_operator, RMany 0 None space_rune,
        RGroup (RMany 0 None any_rune), REnd]) p4 hs q"
    using assignment_no_group(3) by (rule group_part)
  then obtain p6 where "matches (seq_of [RGroup assign_operator, RMany 0 None space_rune, RGroup (RMany 0 None any_rune), REnd]) p6 hs q"
    using assignment_no_group skip_parts [of "[optional (RChar quote_rune), RMany 0 None space_rune]" "RGroup assign_operator"]
    unfolding list.pred_inject append.simps by fastforce
  then obtain p7 ks where op: "matches assign_operator p6 [] p7" and hs: "hs = passed p6 p7 # ks" and
      "matches (seq_of [RMany 0 None space_rune, RGroup (RMany 0 None any_rune), REnd]) p7 ks q"
    using assignment_no_group(4) by (rule group_part)
  then obtain p8 where "matches (seq_of [RGroup (RMany 0 None any_rune), REnd]) p8 ks q"
    using skip_parts [of "[RMany 0 None space_rune]" "RGroup (RMany 0 None any_rune)"] unfolding list.pred_inject append.simps by fastforce
  then obtain p9 ls where ks: "ks = passed p8 p9 # ls" and "matches (seq_of [REnd]) p9 ls q" by (elim group_part) simp_all
  then have "gs = [passed p3 p4, passed p6 p7, passed p8 p9]" using gs hs by (simp add: matches_simps)
  moreover obtain rs where "moved p3 rs p4" "\<forall>r \<in> set rs. name_rune (fst r)" using matches_moved [OF key secret_name_only] by blast
  moreover obtain ts where "moved p6 ts p7" "map fst ts \<in> set [map byte '':='', map byte ''='', map byte '':'']"
    using assign_operator_text [OF op] by blast
  ultimately show ?thesis using moved_passed by blast
qed

definition shows_name_only :: "inspection \<Rightarrow> SecretFinding \<Rightarrow> bool" where
  "shows_name_only i f \<longleftrightarrow> sf_Path f = ip_path i
     \<and> (\<exists>value. sf_Fingerprint f = fingerprint (ip_hmac i) (ip_key i) (sf_DetectorID f) value)
     \<and> (sf_RedactedExcerpt f \<in> set [''[REDACTED TOKEN]'', ''[REDACTED PRIVATE KEY BLOCK]'']
        \<or> (\<exists>key operator. sf_RedactedExcerpt f = ToLower (concat (map snd key)) @ '' '' @ concat (map snd operator) @ '' [REDACTED]''
             \<and> (\<forall>r \<in> set key. name_rune (fst r)) \<and> map fst operator \<in> set [map byte '':='', map byte ''='', map byte '':'']))"

lemma finding_of_shows:
  "sf_Path (finding_of i index d v x) = ip_path i" "sf_RedactedExcerpt (finding_of i index d v x) = x"
  "\<exists>value. sf_Fingerprint (finding_of i index d v x) = fingerprint (ip_hmac i) (ip_key i) (sf_DetectorID (finding_of i index d v x)) value"
  by (auto simp: finding_of_def)

lemma assignment_shows: "assignment_finding i index line = Some f \<Longrightarrow> shows_name_only i f"
proof -
  assume f: "assignment_finding i index line = Some f"
  then obtain gs where gs: "find_anchored assignmentLine line = Some gs" by (auto simp: assignment_finding_def split: option.splits)
  from assignment_groups [OF gs] obtain key operator raw where
    parts: "gs = [concat (map snd key), concat (map snd operator), raw]" "\<forall>r \<in> set key. name_rune (fst r)"
      "map fst operator \<in> set [map byte '':='', map byte ''='', map byte '':'']" by blast
  with f gs have "f = finding_of i index ''secret.assignment'' (assignedValue raw)
      (ToLower (concat (map snd key)) @ '' '' @ concat (map snd operator) @ '' [REDACTED]'')"
    by (simp add: assignment_finding_def Let_def split: if_splits)
  with parts(2,3) show ?thesis unfolding shows_name_only_def using finding_of_shows by blast
qed

lemma fixed_shows:
  "x \<in> set [''[REDACTED TOKEN]'', ''[REDACTED PRIVATE KEY BLOCK]''] \<Longrightarrow> shows_name_only i (finding_of i index d v x)"
  using finding_of_shows by (simp add: shows_name_only_def)

lemma text_findings_shown: "f \<in> set (text_findings i index ls) \<Longrightarrow> shows_name_only i f"
proof (induction "length ls" arbitrary: index ls rule: less_induct)
  case less
  show ?case
  proof (cases ls)
    case (Cons l ls')
    define line where "line = trim_suffix [CHR 0x0D] l"
    show ?thesis
    proof (cases "find_anchored privateKeyBegin line")
      case None
      then have "f \<in> set (tokens_of i index line tokenDetectors) \<or> assignment_finding i index line = Some f
          \<or> f \<in> set (text_findings i (index + 1) ls')"
        using less.prems by (auto simp: Cons text_findings.simps(2) line_def Let_def split: if_splits option.splits)
      then show ?thesis
      proof (elim disjE)
        assume "f \<in> set (tokens_of i index line tokenDetectors)"
        then obtain d v where "f = finding_of i index d v ''[REDACTED TOKEN]''" by (auto simp: tokens_of_def)
        then show ?thesis by (simp add: fixed_shows)
      qed (use assignment_shows less.hyps [of ls' "index + 1"] Cons in auto)
    next
      case (Some match)
      obtain block rest where b: "take_block (''-----END '' @ concat (take 1 match) @ ''-----'') ls' = (block, rest)" by fastforce
      then have short: "length rest < length ls" using take_block_length [of "''-----END '' @ concat (take 1 match) @ ''-----''" ls'] Cons by simp
      have "f = finding_of i index ''private-key.pem'' (join_with [CHR 0x0A] (l # block)) ''[REDACTED PRIVATE KEY BLOCK]''
          \<or> f \<in> set (text_findings i (index + length block + 1) rest)"
        using less.prems Some b by (auto simp: Cons text_findings.simps(2) line_def Let_def)
      then show ?thesis using fixed_shows less.hyps [OF short] by auto
    qed
  qed (use less.prems in simp)
qed

subsection \<open>Tokens that stand alone\<close>

lemma last_in_append: "ts \<noteq> [] \<Longrightarrow> rs @ us = ws @ ts \<Longrightarrow> length ws < length rs \<Longrightarrow> hd ts \<in> set rs"
proof -
  assume ts: "ts \<noteq> []" and eq: "rs @ us = ws @ ts" and l: "length ws < length rs"
  have "rs ! length ws = (ws @ ts) ! length ws" using eq [symmetric] l by (simp add: nth_append)
  then have "rs ! length ws = hd ts" using ts by (simp add: nth_append hd_conv_nth)
  with l show "hd ts \<in> set rs" by (metis nth_mem)
qed

definition word_between :: "rx list \<Rightarrow> bool" where
  "word_between es \<longleftrightarrow> rx_only word_rune (between es) \<and> (\<forall>p gs q. matches (between es) p gs q \<longrightarrow> at_boundary p \<and> at_boundary q \<and> snd p \<noteq> snd q)"

text \<open>A match within word characters that ends at a boundary ends where the word ends.\<close>

lemma whole_word:
  assumes "moved (prev, w @ post) rs q" and "\<forall>r \<in> set rs. word_rune (fst r)" and "at_boundary q" and "rs \<noteq> []"
    and "\<forall>r \<in> set w. word_rune (fst r)" and "post \<noteq> [] \<longrightarrow> \<not> word_rune (fst (hd post))"
  shows "rs = w"
proof -
  have eq: "rs @ snd q = w @ post" and q: "fst q = Some (last rs)" using assms(1,4) by (simp_all add: moved_def)
  have "\<not> length w < length rs"
  proof
    assume l: "length w < length rs"
    then have "post \<noteq> []" using arg_cong [OF eq, of length] by auto
    then show False using last_in_append [OF _ eq l] assms(2,6) by blast
  qed
  moreover have "\<not> length rs < length w"
  proof
    assume l: "length rs < length w"
    then have "snd q = drop (length rs) w @ post" using arg_cong [OF eq, of "drop (length rs)"] by simp
    moreover obtain x xs where x: "drop (length rs) w = x # xs" using l by (cases "drop (length rs) w") auto
    moreover have "x \<in> set w" using in_set_dropD [of x "length rs" w] x by simp
    moreover have "word_rune (fst (last rs))" using assms(2,4) by simp
    ultimately show False using assms(3,5) q by (simp add: at_boundary_def)
  qed
  ultimately show ?thesis using eq by (metis append_eq_append_conv linorder_neqE_nat)
qed

lemma word_found:
  assumes "word_between es" and "\<forall>r \<in> set w. word_rune (fst r)" and "post \<noteq> [] \<longrightarrow> \<not> word_rune (fst (hd post))"
    and "rx_first (between es) (if pre = [] then prev else Some (last pre), w @ post) \<noteq> None"
    and "pre \<noteq> [] \<longrightarrow> \<not> word_rune (fst (last pre))"
  shows "concat (map snd w) \<in> set (find_all (between es) (prev, pre @ w @ post))"
  using assms(4,5)
proof (induction "length pre" arbitrary: prev pre rule: less_induct)
  case less
  let ?e = "between es"
  have props: "at_boundary q \<and> rs \<noteq> []" if mv: "moved p rs q" and mt: "matches ?e p gs q" for p rs q gs
  proof -
    have "at_boundary q \<and> snd p \<noteq> snd q" using assms(1) mt unfolding word_between_def by blast
    with mv show ?thesis by (auto simp: moved_def)
  qed
  have consumed: "\<exists>rs. moved p rs q \<and> (\<forall>r \<in> set rs. word_rune (fst r))" if "matches ?e p gs q" for p gs q
    using matches_moved [OF that] assms(1) by (auto simp: word_between_def)
  show ?case
  proof (cases pre)
    case Nil
    with less.prems obtain gs q where f: "rx_first ?e (prev, w @ post) = Some (gs, q)" by auto
    obtain rs where rs: "moved (prev, w @ post) rs q" "\<forall>r \<in> set rs. word_rune (fst r)" using consumed [OF first_matches [OF f]] by blast
    have "rs = w" using whole_word [OF rs] props [OF rs(1) first_matches [OF f]] assms(2,3) by blast
    moreover have "rs \<noteq> []" using props [OF rs(1) first_matches [OF f]] by simp
    moreover have "length (snd q) < length (w @ post)" using rs(1) \<open>rs \<noteq> []\<close> by (auto simp: moved_def dest: arg_cong [where f = length])
    ultimately show ?thesis using f moved_passed [OF rs(1)] by (subst find_all.simps) (simp add: Nil)
  next
    case (Cons r pre')
    let ?p = "(prev, pre @ w @ post)"
    have skip: "concat (map snd w) \<in> set (find_all ?e (advance 1 ?p))"
      using less.hyps [of pre' "Some r"] less.prems by (cases "pre' = []") (auto simp: Cons advance_def)
    show ?thesis
    proof (cases "rx_first ?e ?p")
      case None
      with skip show ?thesis by (subst find_all.simps) (simp add: Cons)
    next
      case (Some m)
      obtain gs q where m: "m = (gs, q)" by (cases m)
      note mt = first_matches [OF Some [unfolded m]]
      obtain rs where rs: "moved ?p rs q" "\<forall>r \<in> set rs. word_rune (fst r)" using consumed [OF mt] by blast
      then have ne: "rs \<noteq> []" using props mt by blast
      have eq: "rs @ snd q = pre @ w @ post" and q: "fst q = Some (last rs)" using rs(1) ne by (simp_all add: moved_def)
      have last: "\<not> word_rune (fst (last pre))" using less.prems Cons by simp
      have l: "length rs < length pre"
      proof (rule ccontr)
        assume "\<not> length rs < length pre"
        then have "take (length pre) rs = pre" using arg_cong [OF eq, of "take (length pre)"] by simp
        then have "last pre \<in> set rs" using Cons by (metis in_set_takeD last_in_set list.distinct(1))
        with rs(2) last show False by blast
      qed
      define pre2 where "pre2 = drop (length rs) pre"
      have pre2: "pre2 \<noteq> []" "last pre2 = last pre" "length pre2 < length pre" using l ne by (auto simp: pre2_def simp flip: length_greater_0_conv)
      have "snd q = pre2 @ w @ post" using arg_cong [OF eq, of "drop (length rs)"] l by (simp add: pre2_def)
      then have "q = (Some (last rs), pre2 @ w @ post)" using q by (cases q) simp
      moreover have "concat (map snd w) \<in> set (find_all ?e (Some (last rs), pre2 @ w @ post))"
        by (rule less.hyps [OF pre2(3)]) (use less.prems pre2 Cons in auto)
      moreover have "length (snd q) < length (pre @ w @ post)" using arg_cong [OF eq, of length] ne by (cases rs) auto
      ultimately show ?thesis using Some m skip by (subst find_all.simps) (auto simp: Cons)
    qed
  qed
qed

text \<open>The least number of runes a match takes.\<close>

primrec rx_min :: "rx \<Rightarrow> nat" where
  "rx_min (RChar Q) = 1"
| "rx_min (RMany lo hi Q) = lo"
| "rx_min (RSeq a b) = rx_min a + rx_min b"
| "rx_min (RAlt a b) = min (rx_min a) (rx_min b)"
| "rx_min (RGroup a) = rx_min a"
| "rx_min RWordBoundary = 0"
| "rx_min RBegin = 0"
| "rx_min REnd = 0"
| "rx_min REmpty = 0"

lemma matches_min: "matches e p gs q \<Longrightarrow> length (snd q) + rx_min e \<le> length (snd p)"
  by (induction rule: matches.induct) (auto simp: advance_def)

lemma word_betweenI:
  assumes "list_all (rx_only word_rune) es" and "0 < sum_list (map rx_min es)"
  shows "word_between es"
proof -
  have only: "rx_only word_rune (seq_of (fs @ [RWordBoundary]))" if "list_all (rx_only word_rune) fs" for fs
    using that
  proof (induction fs)
    case (Cons f fs)
    then show ?case by (cases "fs @ [RWordBoundary]") auto
  qed simp
  have least: "rx_min (seq_of (fs @ [RWordBoundary])) = sum_list (map rx_min fs)" for fs
  proof (induction fs)
    case (Cons f fs)
    then show ?case by (cases "fs @ [RWordBoundary]") auto
  qed simp
  have ends: "matches (seq_of (fs @ [RWordBoundary])) p gs q \<Longrightarrow> at_boundary q" for fs p gs q
  proof (induction fs arbitrary: p gs)
    case (Cons f fs)
    then show ?case by (cases "fs @ [RWordBoundary]") (auto simp: matches_simps)
  qed (simp add: matches_simps)
  have split: "between es = RSeq RWordBoundary (seq_of (es @ [RWordBoundary]))"
    unfolding between_def by (cases "es @ [RWordBoundary]") simp_all
  have "at_boundary p \<and> at_boundary q \<and> snd p \<noteq> snd q" if m: "matches (between es) p gs q" for p gs q
  proof -
    obtain hs where "at_boundary p" "matches (seq_of (es @ [RWordBoundary])) p hs q"
      using m unfolding split matches_simps(3,6) by blast
    moreover have "at_boundary q" using ends calculation(2) by blast
    moreover have "length (snd q) < length (snd p)"
      using matches_min [OF calculation(2)] assms(2) unfolding least by linarith
    ultimately show ?thesis by auto
  qed
  then show ?thesis using only [OF assms(1)] by (simp add: word_between_def split)
qed

text \<open>The formats that consist of word characters.\<close>

definition word_detectors :: "(string \<times> rx) list" where
  "word_detectors = [tokenDetectors ! 0, tokenDetectors ! 1, tokenDetectors ! 5]"

lemma word_detectors_between:
  assumes "(d, e) \<in> set word_detectors"
  shows "\<exists>es. e = between es \<and> word_between es"
proof -
  have "\<forall>s \<in> set [''AKIA'', ''ASIA'', ''gh'', ''_'', ''github_pat_'', ''sk_live_'']. \<forall>c \<in> set s. word_rune (byte c)" by code_simp
  then have lit: "rx_only word_rune (literal s)" if "s \<in> set [''AKIA'', ''ASIA'', ''gh'', ''_'', ''github_pat_'', ''sk_live_'']" for s
    using that by (intro literal_only) blast
  have cls: "alnum_rune r \<Longrightarrow> word_rune r" "digit_rune r \<Longrightarrow> word_rune r" "upper_rune r \<Longrightarrow> word_rune r"
      "in_chars ''pousr'' r \<Longrightarrow> word_rune r" "in_chars ''_'' r \<Longrightarrow> word_rune r" for r
    by (auto simp: alnum_rune_def digit_rune_def upper_rune_def lower_rune_class_def word_rune_def in_chars_def)
  note parts = word_betweenI lit cls
  from assms consider
      "e = between [alt_of (map literal [''AKIA'', ''ASIA'']), RMany 16 (Some 16) (\<lambda>r. digit_rune r \<or> upper_rune r)]"
    | "e = between [RAlt (seq_of [literal ''gh'', RChar (in_chars ''pousr''), literal ''_'', RMany 36 (Some 255) alnum_rune])
         (seq_of [literal ''github_pat_'', RMany 82 (Some 255) (\<lambda>r. alnum_rune r \<or> in_chars ''_'' r)])]"
    | "e = between [literal ''sk_live_'', RMany 16 (Some 255) alnum_rune]"
    by (auto simp: word_detectors_def tokenDetectors_def)
  then show ?thesis
  proof cases
    case 1
    then show ?thesis using parts by (intro exI conjI) (assumption, rule word_betweenI, auto)
  next
    case 2
    then show ?thesis using parts by (intro exI conjI) (assumption, rule word_betweenI, auto)
  next
    case 3
    then show ?thesis using parts by (intro exI conjI) (assumption, rule word_betweenI, auto)
  qed
qed

text \<open>Without private key blocks every line is looked at.\<close>

lemma text_findings_lines:
  assumes "\<forall>l \<in> set ls. find_anchored privateKeyBegin (trim_suffix [CHR 0x0D] l) = None" and "n < length ls"
    and "\<not> is_comment (trim_suffix [CHR 0x0D] (ls ! n))"
    and "f \<in> set (tokens_of i (index + n) (trim_suffix [CHR 0x0D] (ls ! n)) tokenDetectors)"
  shows "f \<in> set (text_findings i index ls)"
  using assms
proof (induction ls arbitrary: n index)
  case (Cons l ls)
  show ?case
  proof (cases n)
    case 0
    with Cons.prems show ?thesis by (auto simp: text_findings.simps(2) Let_def)
  next
    case (Suc k)
    with Cons.prems Cons.IH [of k "index + 1"] show ?thesis by (simp add: text_findings.simps(2) Let_def)
  qed
qed simp

lemma token_in_line:
  assumes "(d, e) \<in> set word_detectors" and "runes line = pre @ w @ post"
    and "\<forall>r \<in> set w. word_rune (fst r)" and "pre \<noteq> [] \<longrightarrow> \<not> word_rune (fst (last pre))" and "post \<noteq> [] \<longrightarrow> \<not> word_rune (fst (hd post))"
    and "rx_first e (if pre = [] then None else Some (last pre), w @ post) \<noteq> None"
    and "validateFormattedToken (ip_log2 i) (concat (map snd w))"
  shows "finding_of i index d (concat (map snd w)) ''[REDACTED TOKEN]'' \<in> set (tokens_of i index line tokenDetectors)"
proof -
  obtain es where es: "e = between es" "word_between es" using word_detectors_between [OF assms(1)] by blast
  have "concat (map snd w) \<in> set (FindAllString e line)"
    using word_found [OF es(2) assms(3,5)] assms(4,6) by (simp add: FindAllString_def start_of_def assms(2) es(1))
  moreover have "(d, e) \<in> set tokenDetectors" using assms(1) by (auto simp: word_detectors_def tokenDetectors_def)
  ultimately show ?thesis using assms(7) unfolding tokens_of_def by force
qed

end
