(* ===== verification/GoFile_Walk.thy ===== *)
theory GoFile_Walk
  imports GoFile
begin

section \<open>What a walk does, from what its callback does\<close>

text \<open>
  Two contracts between \<open>filepath.WalkDir\<close> and its callback: a relation that every call keeps is kept by the walk; a
  walk that returns no error has covered every entry, when each call covers its entry, or says what it skips.
\<close>

text \<open>The entries a walk visits below and at a path, when it descends into the directories of that type.\<close>

fun entries_of :: "(FileMode \<Rightarrow> bool) \<Rightarrow> string \<Rightarrow> file_tree \<Rightarrow> (string \<times> FileMode) list" where
  "entries_of descend path (Entry name type children err) =
     (path, type) # (if mode_IsDir type \<and> descend type
        then concat (map (\<lambda>c. entries_of descend (filepath_Join path (entry_name c)) c) children) else [])"

text \<open>The errors a walk can be told of.\<close>

fun tree_errors :: "file_tree \<Rightarrow> go_error list" where
  "tree_errors (Entry name type children err) = (case err of None \<Rightarrow> [] | Some e \<Rightarrow> [e]) @ concat (map tree_errors children)"

lemma tree_induct [case_names 1 2 3]:
  assumes "\<And>name type children err. Q children \<Longrightarrow> P (Entry name type children err)"
    and "Q []" and "\<And>c cs. P c \<Longrightarrow> Q cs \<Longrightarrow> Q (c # cs)"
  shows "P tree" and "Q trees"
proof -
  have P: "P t" for t
  proof (induction t)
    case (Entry name type children err)
    then have "Q children" by (induction children) (use assms(2,3) in auto)
    then show ?case by (rule assms(1))
  qed
  show "P tree" by (rule P)
  show "Q trees" by (induction trees) (use P assms(2,3) in auto)
qed

text \<open>An error of the walk is one that the callback gave in its last state.\<close>

definition from_callback :: "'s walk_fn \<Rightarrow> go_error list \<Rightarrow> 's \<Rightarrow> go_error \<Rightarrow> bool" where
  "from_callback fn errs st e \<longleftrightarrow> (\<exists>path node err s. (err = None \<or> err \<in> Some ` set errs) \<and> fn path node err s = (st, Some e))"

lemma from_callback_more: "from_callback fn errs st e \<Longrightarrow> set errs \<subseteq> set errs' \<Longrightarrow> from_callback fn errs' st e"
  unfolding from_callback_def by blast

lemma walk_error:
  "walk_dir fn path tree st = (st', Some e) \<Longrightarrow> from_callback fn (tree_errors tree) st' e"
  "walk_entries fn path trees st = (st', Some e) \<Longrightarrow> from_callback fn (concat (map tree_errors trees)) st' e"
proof (induction tree and trees arbitrary: path st st' and path st st' rule: tree_induct)
  case (1 name type children err)
  obtain st1 e1 where first: "fn path (Some type) None st = (st1, e1)" by fastforce
  obtain st2 e2 where second: "fn path (Some type) err st1 = (st2, e2)" by fastforce
  from "1.prems" first second consider "st' = st1" "e1 = Some e" | "st' = st2" "e2 = Some e" "err \<noteq> None"
    | s where "walk_entries fn path children s = (st', Some e)"
    by (cases err; cases e1; cases e2) (auto simp: skip_dir_def split: if_splits)
  then show ?case
  proof cases
    case 1 with first show ?thesis unfolding from_callback_def by blast
  next
    case 2 with second show ?thesis unfolding from_callback_def by fastforce
  next
    case 3 then show ?thesis by (rule from_callback_more [OF "1.IH"]) auto
  qed
next
  case (3 c cs)
  obtain st1 e1 where first: "walk_dir fn (filepath_Join path (entry_name c)) c st = (st1, e1)" by fastforce
  with "3.prems" consider "st' = st1" "e1 = Some e" | "walk_entries fn path cs st1 = (st', Some e)" by (auto split: if_splits)
  then show ?case
  proof cases
    case 1 with first show ?thesis by (intro from_callback_more [OF "3.IH"(1)]) auto
  next
    case 2 then show ?thesis by (intro from_callback_more [OF "3.IH"(2)]) auto
  qed
qed simp

definition answer_errors :: "file_tree result \<Rightarrow> go_error list" where
  "answer_errors answer = (case answer of Inl e \<Rightarrow> [e] | Inr tree \<Rightarrow> tree_errors tree)"

lemma WalkDir_error: "WalkDir fn path answer st = (st', Some e) \<Longrightarrow> from_callback fn (answer_errors answer) st' e"
  using walk_error(1) [of fn path _ st] unfolding WalkDir_def answer_errors_def from_callback_def
  by (cases answer) (auto split: prod.splits if_splits)

locale walk_keeps =
  fixes fn :: "'s walk_fn" and keeps :: "'s \<Rightarrow> 's \<Rightarrow> bool"
  assumes keeps_refl: "keeps st st"
    and keeps_trans: "keeps st st' \<Longrightarrow> keeps st' st'' \<Longrightarrow> keeps st st''"
    and keeps_step: "fn path type err st = (st', r) \<Longrightarrow> keeps st st'"
begin

lemma walk_kept:
  "walk_dir fn path tree st = (st', r) \<Longrightarrow> keeps st st'"
  "walk_entries fn path trees st = (st', r) \<Longrightarrow> keeps st st'"
proof (induction tree and trees arbitrary: path st st' r and path st st' r rule: tree_induct)
  case (1 name type children err)
  obtain st1 e1 where first: "fn path (Some type) None st = (st1, e1)" by fastforce
  obtain st2 e2 where second: "fn path (Some type) err st1 = (st2, e2)" by fastforce
  note at1 = keeps_step [OF first]
  note at2 = keeps_trans [OF at1 keeps_step [OF second]]
  show ?case
  proof (cases "e1 = None \<and> mode_IsDir type")
    case False
    with "1.prems" first have "st' = st1" by auto
    with at1 show ?thesis by simp
  next
    case True
    with "1.prems" first second consider "walk_entries fn path children st1 = (st', r)"
      | "walk_entries fn path children st2 = (st', r)" | "st' = st2"
      by (cases err; cases e2) auto
    then show ?thesis using "1.IH" keeps_trans at1 at2 by cases blast+
  qed
next
  case 2
  then show ?case using keeps_refl by simp
next
  case (3 c cs)
  obtain st1 e1 where first: "walk_dir fn (filepath_Join path (entry_name c)) c st = (st1, e1)" by fastforce
  with "3.prems" consider "st' = st1" | "walk_entries fn path cs st1 = (st', r)" by (auto split: if_splits)
  then show ?case using "3.IH"(1) [OF first] "3.IH"(2) keeps_trans by cases blast+
qed

lemma WalkDir_kept: "WalkDir fn path answer st = (st', r) \<Longrightarrow> keeps st st'"
  unfolding WalkDir_def using walk_kept(1) keeps_step by (cases answer) (fastforce split: prod.splits)+

end

text \<open>
  A callback that covers, while an invariant holds: without an error it has done its entry; it skips directories
  only, what it does not descend into or after all is done; an error that it is told of ends the walk; it never
  ends the walk as if it were complete.
\<close>

locale walk_covers = walk_keeps +
  fixes inv :: "'a \<Rightarrow> bool" and covered :: "string \<Rightarrow> FileMode \<Rightarrow> 'a \<Rightarrow> bool" and descend :: "FileMode \<Rightarrow> bool"
  assumes covered_kept: "keeps st st' \<Longrightarrow> covered path type st \<Longrightarrow> covered path type st'"
    and covers: "inv st \<Longrightarrow> fn path (Some type) None st = (st', None) \<Longrightarrow> inv st' \<and> covered path type st'"
    and skips: "inv st \<Longrightarrow> fn path (Some type) None st = (st', Some SkipDir) \<Longrightarrow>
       mode_IsDir type \<and> inv st' \<and> covered path type st' \<and> (descend type \<longrightarrow> (\<forall>p u. covered p u st'))"
    and told: "inv st \<Longrightarrow> fn path node (Some e) st = (st', r) \<Longrightarrow> r \<noteq> None \<and> r \<noteq> Some SkipDir"
    and no_skip_all: "inv st \<Longrightarrow> fn path node err st \<noteq> (st', Some SkipAll)"
begin

lemma walk_covered:
  "inv st \<Longrightarrow> walk_dir fn path tree st = (st', r) \<Longrightarrow> r \<noteq> Some SkipDir \<and> r \<noteq> Some SkipAll
     \<and> (r = None \<longrightarrow> inv st' \<and> (\<forall>(p, t) \<in> set (entries_of descend path tree). covered p t st'))"
  "inv st \<Longrightarrow> walk_entries fn path trees st = (st', r) \<Longrightarrow> r \<noteq> Some SkipDir \<and> r \<noteq> Some SkipAll
     \<and> (r = None \<longrightarrow> inv st' \<and> (\<forall>c \<in> set trees. \<forall>(p, t) \<in> set (entries_of descend (filepath_Join path (entry_name c)) c). covered p t st'))"
proof (induction tree and trees arbitrary: path st st' r and path st st' r rule: tree_induct)
  case (1 name type children err)
  obtain st1 e1 where first: "fn path (Some type) None st = (st1, e1)" by fastforce
  obtain st2 e2 where second: "fn path (Some type) err st1 = (st2, e2)" by fastforce
  note result = "1.prems"(2) [simplified walk_dir.simps first prod.case]
  have no_all: "e1 \<noteq> Some SkipAll" using first no_skip_all "1.prems"(1) by blast
  show ?case
  proof (cases e1)
    case (Some e)
    show ?thesis
    proof (cases "e = SkipDir")
      case True
      with Some skips first "1.prems"(1)
      have "mode_IsDir type \<and> inv st1 \<and> covered path type st1 \<and> (descend type \<longrightarrow> (\<forall>p u. covered p u st1))" by blast
      with True Some result show ?thesis by (auto simp: skip_dir_def)
    next
      case False
      with Some result no_all show ?thesis by (auto simp: skip_dir_def)
    qed
  next
    case None
    with first "1.prems"(1) have at: "inv st1 \<and> covered path type st1" using covers by blast
    show ?thesis
    proof (cases "mode_IsDir type")
      case False
      with None result at show ?thesis by (auto simp: skip_dir_def)
    next
      case dir: True
      show ?thesis
      proof (cases err)
        case read: (Some x)
        with second at told have "e2 \<noteq> None \<and> e2 \<noteq> Some SkipDir" by blast
        moreover have "e2 \<noteq> Some SkipAll" using second at no_skip_all by blast
        ultimately show ?thesis using result None dir read second by (auto simp: skip_dir_def)
      next
        case fine: None
        with dir \<open>e1 = None\<close> result have entries: "walk_entries fn path children st1 = (st', r)" by simp
        have "covered path type st'" using covered_kept [OF walk_kept(2) [OF entries]] at by blast
        with "1.IH" [OF _ entries] at show ?thesis by auto
      qed
    qed
  qed
next
  case (3 c cs)
  obtain st1 e1 where first: "walk_dir fn (filepath_Join path (entry_name c)) c st = (st1, e1)" by fastforce
  note here = "3.IH"(1) [OF "3.prems"(1) first]
  show ?case
  proof (cases e1)
    case (Some e)
    with here first "3.prems"(2) show ?thesis by auto
  next
    case None
    with "3.prems"(2) first have later: "walk_entries fn path cs st1 = (st', r)" by simp
    have "\<forall>(p, t) \<in> set (entries_of descend (filepath_Join path (entry_name c)) c). covered p t st'"
      using here None covered_kept [OF walk_kept(2) [OF later]] by auto
    with "3.IH"(2) [OF _ later] here None show ?thesis by auto
  qed
qed simp

lemma WalkDir_covered:
  assumes "inv st" and "WalkDir fn path (Inr tree) st = (st', None)"
  shows "inv st' \<and> (\<forall>(p, t) \<in> set (entries_of descend path tree). covered p t st')"
proof -
  obtain e where e: "walk_dir fn path tree st = (st', e)" "e = None \<or> e = Some SkipDir \<or> e = Some SkipAll"
    using assms(2) by (auto simp: WalkDir_def split: prod.splits if_splits)
  with walk_covered(1) [OF assms(1) e(1)] show ?thesis by auto
qed

end

end
