(* ===== verification/Scanner_Walk_Facts.thy ===== *)
theory Scanner_Walk_Facts
  imports Scanner_Walk Scanner_Text_Props GoFile_Walk
begin

section \<open>What the steps of the secret scan keep\<close>

text \<open>
  The bounds and the form of the findings, each a relation between states that every step keeps, and what a file that
  was scanned without a coverage finding has contributed.
\<close>

lemma with_stats_simps [simp]:
  "sc_Findings (with_stats f st) = sc_Findings st" "sc_coverage (with_stats f st) = sc_coverage st"
  "sc_stats (with_stats f st) = f (sc_stats st)" "sc_seenPaths (with_stats f st) = sc_seenPaths st"
  by (simp_all add: with_stats_def)

lemma with_coverage_simps [simp]:
  "sc_Findings (with_coverage c p l x st) = sc_Findings st" "sc_stats (with_coverage c p l x st) = sc_stats st"
  "sc_seenPaths (with_coverage c p l x st) = sc_seenPaths st"
  by (simp_all add: with_coverage_def)

definition covered_all :: "walk_state \<Rightarrow> bool" where
  "covered_all st \<longleftrightarrow> ca_byCode (sc_coverage st) = []"

lemma covered_all_simps [simp]:
  "covered_all (with_stats f st) = covered_all st" "\<not> covered_all (with_coverage c p l x st)"
  "covered_all (st\<lparr>sc_seenPaths := ps\<rparr>) = covered_all st" "covered_all (st\<lparr>sc_visits := n\<rparr>) = covered_all st"
  "covered_all (st\<lparr>sc_Findings := fs\<rparr>) = covered_all st"
  by (auto simp: covered_all_def with_coverage_def coverage_add_def tbl_upsert_def tbl_update_def)

subsection \<open>Taking over findings\<close>

lemma take_findings_kept:
  assumes "take_findings l path fs st = (st', r)"
  shows "sc_stats st' = sc_stats st \<and> sc_seenPaths st' = sc_seenPaths st
    \<and> set (sc_Findings st) \<subseteq> set (sc_Findings st') \<and> set (sc_Findings st') \<subseteq> set (sc_Findings st) \<union> set fs
    \<and> (int (length (sc_Findings st)) \<le> sl_MaxFindings l \<longrightarrow> int (length (sc_Findings st')) \<le> sl_MaxFindings l)
    \<and> (covered_all st' \<longrightarrow> covered_all st \<and> r = None \<and> sc_Findings st' = sc_Findings st @ fs)
    \<and> (r = None \<or> r = Some errStopSecretScan \<and> \<not> covered_all st')"
  using assms
proof (induction fs arbitrary: st)
  case (Cons f fs)
  show ?case
  proof (cases "int (length (sc_Findings st)) \<ge> sl_MaxFindings l")
    case True
    with Cons.prems show ?thesis by auto
  next
    case False
    with Cons.prems Cons.IH [of "st\<lparr>sc_Findings := sc_Findings st @ [f]\<rparr>"] show ?thesis by auto
  qed
qed auto

subsection \<open>The text of a file\<close>

definition inspection_of :: "SecretScanner \<Rightarrow> scan_env \<Rightarrow> string \<Rightarrow> nat \<Rightarrow> inspection" where
  "inspection_of s env path limit =
     \<lparr>ip_log2 = se_log2 env, ip_hmac = se_hmac env, ip_key = ss_key s, ip_path = path, ip_limit = limit\<rparr>"

lemma inspection_of_simps [simp]:
  "ip_path (inspection_of s env path n) = path" "ip_limit (inspection_of s env path n) = n"
  by (simp_all add: inspection_of_def)

text \<open>The findings do not depend on the limit.\<close>

lemma finding_of_limit: "finding_of (i\<lparr>ip_limit := n\<rparr>) = finding_of i"
  by (intro ext) (simp add: finding_of_def)

lemma text_findings_limit: "text_findings (i\<lparr>ip_limit := n\<rparr>) k ls = text_findings i k ls"
proof (induction i k ls rule: text_findings.induct)
  case (2 i index l ls)
  have parts: "tokens_of (i\<lparr>ip_limit := n\<rparr>) = tokens_of i" "assignment_finding (i\<lparr>ip_limit := n\<rparr>) = assignment_finding i"
    by (intro ext, simp add: tokens_of_def finding_of_limit)
      (intro ext, simp add: assignment_finding_def finding_of_limit Let_def split: option.split list.split)
  show ?case
    using 2 by (auto simp: text_findings.simps(2) parts finding_of_limit Let_def split: option.splits prod.splits)
qed simp

definition file_findings :: "SecretScanner \<Rightarrow> scan_env \<Rightarrow> string \<Rightarrow> string \<Rightarrow> SecretFinding list" where
  "file_findings s env path content = text_findings (inspection_of s env path 0) 0 (split_on (CHR 0x0A) content)"

text \<open>An inspection that was not cancelled is one that could not be.\<close>

lemma inspect_lines_uncancelled:
  "inspect_lines i ctx index ls fs = Inr r \<Longrightarrow> inspect_lines i (\<lambda>k. None) index ls fs = Inr r"
proof (induction i ctx index ls fs rule: inspect_lines.induct)
  case (2 i ctx index l ls fs)
  from "2.prems" have "ctx index = None" by (auto simp: inspect_lines.simps(2) split: option.splits)
  with 2 show ?case
    by (auto simp: inspect_lines.simps(2) [of i ctx] inspect_lines.simps(2) [of i "\<lambda>k. None"] Let_def
        split: option.splits prod.splits if_splits)
qed simp

lemma inspectText_file:
  assumes "inspectText (inspection_of s env path n) ctx content = Inr found"
  shows "found = sort_findings (take n (file_findings s env path content))"
proof -
  have "inspectText (inspection_of s env path n) (\<lambda>k. None) content = Inr found"
    using assms inspect_lines_uncancelled [of "inspection_of s env path n" ctx] unfolding inspectText_def
    by (cases "inspect_lines (inspection_of s env path n) ctx 0 (split_on (CHR 0x0A) content) []") auto
  then have "found = sort_findings (take n (text_findings (inspection_of s env path n) 0 (split_on (CHR 0x0A) content)))"
    by (simp add: inspectText_take)
  moreover have "inspection_of s env path 0 = (inspection_of s env path n)\<lparr>ip_limit := 0\<rparr>" by (simp add: inspection_of_def)
  ultimately show ?thesis by (simp only: file_findings_def text_findings_limit)
qed

lemma file_findings_shown: "f \<in> set (file_findings s env path content) \<Longrightarrow> shows_name_only (inspection_of s env path 0) f"
  unfolding file_findings_def by (rule text_findings_shown)

subsection \<open>What every step keeps\<close>

definition valid_limits :: "SecretScanner \<Rightarrow> bool" where
  "valid_limits s \<longleftrightarrow> validateSecretLimits (ss_limits s) = None"

lemma valid_limits_iff:
  "valid_limits s \<longleftrightarrow> 0 < sl_MaxFileBytes (ss_limits s) \<and> 0 < sl_MaxTotalBytes (ss_limits s) \<and> 0 \<le> sl_MaxDepth (ss_limits s)
     \<and> 0 < sl_MaxFiles (ss_limits s) \<and> 0 < sl_MaxFindings (ss_limits s)"
  by (auto simp: valid_limits_def validateSecretLimits_def)

definition within_limits :: "SecretScanner \<Rightarrow> walk_state \<Rightarrow> bool" where
  "within_limits s st \<longleftrightarrow> int (length (sc_Findings st)) \<le> sl_MaxFindings (ss_limits s)
     \<and> st_BytesRead (sc_stats st) \<le> sl_MaxTotalBytes (ss_limits s) \<and> st_FilesConsidered (sc_stats st) \<le> sl_MaxFiles (ss_limits s)"

definition findings_shown :: "SecretScanner \<Rightarrow> scan_env \<Rightarrow> walk_state \<Rightarrow> bool" where
  "findings_shown s env st \<longleftrightarrow> (\<forall>f \<in> set (sc_Findings st). \<exists>path. shows_name_only (inspection_of s env path 0) f)"

definition scan_keeps :: "SecretScanner \<Rightarrow> scan_env \<Rightarrow> walk_state \<Rightarrow> walk_state \<Rightarrow> bool" where
  "scan_keeps s env st st' \<longleftrightarrow>
     (covered_all st' \<longrightarrow> covered_all st) \<and> set (sc_seenPaths st) \<subseteq> set (sc_seenPaths st') \<and> set (sc_Findings st) \<subseteq> set (sc_Findings st')
     \<and> (valid_limits s \<and> within_limits s st \<longrightarrow> within_limits s st') \<and> (findings_shown s env st \<longrightarrow> findings_shown s env st')"

lemma scan_keeps_refl: "scan_keeps s env st st"
  by (simp add: scan_keeps_def)

lemma scan_keeps_trans: "scan_keeps s env st st' \<Longrightarrow> scan_keeps s env st' st'' \<Longrightarrow> scan_keeps s env st st''"
  unfolding scan_keeps_def by blast

text \<open>Steps that leave the findings alone.\<close>

lemma scan_keeps_quiet:
  assumes "sc_Findings st' = sc_Findings st" and "covered_all st' \<Longrightarrow> covered_all st" and "set (sc_seenPaths st) \<subseteq> set (sc_seenPaths st')"
    and "valid_limits s \<Longrightarrow> within_limits s st \<Longrightarrow> st_BytesRead (sc_stats st') \<le> sl_MaxTotalBytes (ss_limits s)
      \<and> st_FilesConsidered (sc_stats st') \<le> sl_MaxFiles (ss_limits s)"
  shows "scan_keeps s env st st'"
  using assms by (auto simp: scan_keeps_def within_limits_def findings_shown_def)

lemma scan_content_kept:
  assumes "scan_content s env path content st = (st', r)"
  shows "scan_keeps s env st st'"
proof (cases "isBinary content")
  case True
  with assms show ?thesis by (auto simp: scan_content_def within_limits_def intro!: scan_keeps_quiet)
next
  case False
  define st1 where "st1 = with_stats (\<lambda>c. c\<lparr>st_FilesScanned := st_FilesScanned c + 1\<rparr>) st"
  have first: "scan_keeps s env st st1" by (auto simp: st1_def within_limits_def intro!: scan_keeps_quiet)
  define n where "n = nat (sl_MaxFindings (ss_limits s) - int (length (sc_Findings st1)) + 1)"
  show ?thesis
  proof (cases "inspectText (inspection_of s env path n) (se_text_ctx env path) content")
    case (Inl err)
    with assms False first show ?thesis by (simp add: scan_content_def st1_def n_def inspection_of_def)
  next
    case (Inr found)
    then have taken: "take_findings (ss_limits s) path found st1 = (st', r)"
      using assms False by (simp add: scan_content_def st1_def n_def inspection_of_def)
    have "\<exists>path. shows_name_only (inspection_of s env path 0) f" if "f \<in> set found" for f
    proof -
      have "f \<in> set (file_findings s env path content)" using that inspectText_file [OF Inr] by (auto simp: sort_findings_def dest: in_set_takeD)
      then show ?thesis using file_findings_shown by blast
    qed
    then have "scan_keeps s env st1 st'"
      using take_findings_kept [OF taken] unfolding scan_keeps_def within_limits_def findings_shown_def by auto
    with first show ?thesis by (rule scan_keeps_trans)
  qed
qed

lemma read_bounded:
  assumes "readRegularFileBounded path info answer limit = (content, n, exceeded, err)" and "0 \<le> limit"
  shows "n \<le> limit \<and> 0 \<le> n"
  using assms read_loop_bound [of "[]" limit]
  by (fastforce simp: readRegularFileBounded_def split: sum.splits if_splits prod.splits read_end.splits)

lemma scan_file_kept:
  assumes "scan_file s env path info st = (st', r)"
  shows "scan_keeps s env st st'"
proof -
  define remaining where "remaining = sl_MaxTotalBytes (ss_limits s) - st_BytesRead (sc_stats st)"
  define bound where "bound = min (sl_MaxFileBytes (ss_limits s)) remaining"
  obtain content n exceeded err where read: "readRegularFileBounded path info (se_open env path) bound = (content, n, exceeded, err)"
    by (metis prod_cases4)
  define st1 where "st1 = with_stats (\<lambda>c. c\<lparr>st_BytesRead := st_BytesRead c + n\<rparr>) st"
  note def = assms [unfolded scan_file_def Let_def, folded remaining_def, folded bound_def, unfolded read prod.case, folded st1_def]
  show ?thesis
  proof (cases "\<not> mode_IsRegular (fi_Mode info) \<or> fi_Size info > sl_MaxFileBytes (ss_limits s) \<or> remaining \<le> 0 \<or> fi_Size info > remaining")
    case True
    with def show ?thesis by (auto simp: within_limits_def intro!: scan_keeps_quiet split: if_splits)
  next
    case False
    have "scan_keeps s env st st1"
    proof (rule scan_keeps_quiet)
      assume "valid_limits s" "within_limits s st"
      moreover have "n \<le> remaining" using read_bounded [OF read] False \<open>valid_limits s\<close> by (simp add: bound_def valid_limits_iff)
      ultimately show "st_BytesRead (sc_stats st1) \<le> sl_MaxTotalBytes (ss_limits s) \<and> st_FilesConsidered (sc_stats st1) \<le> sl_MaxFiles (ss_limits s)"
        by (simp add: st1_def within_limits_def remaining_def)
    qed (simp_all add: st1_def)
    moreover have "scan_keeps s env st1 st'"
      using def False scan_content_kept by (auto simp: within_limits_def intro!: scan_keeps_quiet split: if_splits)
    ultimately show ?thesis by (rule scan_keeps_trans)
  qed
qed

lemma scan_entry_kept:
  assumes "scan_entry s env start path type walkErr st = (st', r)"
  shows "scan_keeps s env st st'"
proof (cases "\<exists>info st1. scan_file s env path info st1 = (st', r) \<and> scan_keeps s env st st1")
  case True
  then show ?thesis using scan_file_kept scan_keeps_trans by blast
next
  case False
  have "scan_keeps s env st (with_stats (\<lambda>c. c\<lparr>st_FilesConsidered := st_FilesConsidered c + 1\<rparr>)
      (st\<lparr>sc_visits := sc_visits st + 1, sc_seenPaths := sc_seenPaths st @ [path]\<rparr>))"
    if "st_FilesConsidered (sc_stats st) < sl_MaxFiles (ss_limits s)"
    using that by (intro scan_keeps_quiet) (auto simp: within_limits_def)
  with assms False show ?thesis
    by (auto simp: scan_entry_def within_limits_def Let_def intro!: scan_keeps_quiet split: if_splits option.splits sum.splits)
qed

interpretation scan_walk: walk_keeps "scan_entry s env start" "scan_keeps s env"
  by unfold_locales (fact scan_keeps_refl, erule (1) scan_keeps_trans, erule scan_entry_kept)

lemma scan_roots_kept: "scan_roots s env starts st = (st', r) \<Longrightarrow> scan_keeps s env st st'"
proof (induction starts arbitrary: st)
  case (Cons start starts)
  obtain st1 e where walk: "WalkDir (scan_entry s env (path_Clean start)) (path_Clean start) (se_tree env (path_Clean start)) st = (st1, e)"
    by fastforce
  note first = scan_walk.WalkDir_kept [OF walk]
  show ?case
  proof (cases e)
    case None
    with Cons walk have "scan_keeps s env st1 st'" by (simp add: Let_def)
    with first show ?thesis by (rule scan_keeps_trans)
  qed (use Cons.prems walk first in \<open>simp add: Let_def\<close>)
qed (simp add: scan_keeps_refl)

end
