(* ===== verification/Scanner_Walk_Props.thy ===== *)
theory Scanner_Walk_Props
  imports Scanner_Walk_Facts
begin

section \<open>What a secret scan guarantees\<close>

text \<open>
  The result stays within the limits and shows no value; a scan that ends without an error and without a coverage
  finding has reported every finding of every regular text file below its roots.
\<close>

subsection \<open>Files that can be read\<close>

text \<open>A regular file with that content, which nobody changes or replaces and no read fails on.\<close>

definition file_holds :: "scan_env \<Rightarrow> string \<Rightarrow> string \<Rightarrow> bool" where
  "file_holds env path content \<longleftrightarrow>
     (case (se_info env path, se_open env path) of
        (Inr info, Inr file) \<Rightarrow>
          mode_IsRegular (fi_Mode info) \<and> op_stat file = Inr info \<and> map_sum id fi_Size (op_at_limit file) = Inr (int (length content))
          \<and> concat (map rd_bytes (op_reads file)) = content
          \<and> untroubled 32768 (op_reads file)
      | _ \<Rightarrow> False)"

lemma read_holds:
  assumes "file_holds env path content" and "se_info env path = Inr info" and "0 \<le> limit"
  shows "readRegularFileBounded path info (se_open env path) limit =
    (if int (length content) \<le> limit then (content, int (length content), False, None) else ([], limit, True, None))"
proof -
  obtain h where h: "se_open env path = Inr h" "mode_IsRegular (fi_Mode info)" "op_stat h = Inr info"
      "map_sum id fi_Size (op_at_limit h) = Inr (int (length content))" "concat (map rd_bytes (op_reads h)) = content"
      "untroubled 32768 (op_reads h)"
    using assms(1,2) by (auto simp: file_holds_def split: sum.splits)
  obtain current where "op_at_limit h = Inr current" "fi_Size current = int (length content)"
    using h(4) by (cases "op_at_limit h") auto
  with h assms(3) show ?thesis
    by (auto simp: readRegularFileBounded_def SameFile_def read_loop_whole Let_def)
qed

subsection \<open>Nothing is left out\<close>

definition reported :: "SecretScanner \<Rightarrow> scan_env \<Rightarrow> string \<Rightarrow> walk_state \<Rightarrow> bool" where
  "reported s env path st \<longleftrightarrow> path \<in> set (sc_seenPaths st)
     \<and> (\<forall>content. file_holds env path content \<and> \<not> isBinary content \<longrightarrow> set (file_findings s env path content) \<subseteq> set (sc_Findings st))"

definition all_reported :: "SecretScanner \<Rightarrow> scan_env \<Rightarrow> walk_state \<Rightarrow> bool" where
  "all_reported s env st \<longleftrightarrow> covered_all st \<longrightarrow> (\<forall>path \<in> set (sc_seenPaths st). reported s env path st)"

text \<open>What is scanned: no directory and no symbolic link.\<close>

definition scanned_type :: "FileMode \<Rightarrow> bool" where
  "scanned_type type \<longleftrightarrow> \<not> mode_IsDir type \<and> \<not> has_mode type ModeSymlink"

definition followed_type :: "FileMode \<Rightarrow> bool" where
  "followed_type type \<longleftrightarrow> \<not> has_mode type ModeSymlink"

lemma scan_content_complete:
  assumes "scan_content s env path content st = (st', None)" and "covered_all st'" and "\<not> isBinary content"
    and "within_limits s st" and "f \<in> set (file_findings s env path content)"
  shows "f \<in> set (sc_Findings st')"
proof -
  define st1 where "st1 = with_stats (\<lambda>c. c\<lparr>st_FilesScanned := st_FilesScanned c + 1\<rparr>) st"
  define n where "n = nat (sl_MaxFindings (ss_limits s) - int (length (sc_Findings st1)) + 1)"
  have "scan_content s env path content st =
      (case inspectText (inspection_of s env path n) (se_text_ctx env path) content of
         Inl err \<Rightarrow> (st1, Some err) | Inr found \<Rightarrow> take_findings (ss_limits s) path found st1)"
    using assms(3) by (simp add: scan_content_def st1_def n_def inspection_of_def Let_def split: sum.split)
  with assms(1) obtain found where found: "inspectText (inspection_of s env path n) (se_text_ctx env path) content = Inr found"
      "take_findings (ss_limits s) path found st1 = (st', None)"
    by (auto split: sum.splits)
  have taken: "sc_Findings st' = sc_Findings st1 @ found" using take_findings_kept [OF found(2)] assms(2) by blast
  have "int (length (sc_Findings st')) \<le> sl_MaxFindings (ss_limits s)"
    using take_findings_kept [OF found(2)] assms(4) by (simp add: st1_def within_limits_def)
  then have short: "length found < n" using taken by (simp add: n_def)
  moreover have "found = sort_findings (take n (file_findings s env path content))" by (rule inspectText_file [OF found(1)])
  ultimately have "set found = set (file_findings s env path content)" by (auto simp: sort_findings_def)
  with assms(5) taken show ?thesis by auto
qed

lemma scan_file_complete:
  assumes "scan_file s env path info st = (st', None)" and "covered_all st'" and "se_info env path = Inr info"
    and "file_holds env path content" and "\<not> isBinary content" and "within_limits s st" and "valid_limits s"
    and "f \<in> set (file_findings s env path content)"
  shows "f \<in> set (sc_Findings st')"
proof -
  define remaining where "remaining = sl_MaxTotalBytes (ss_limits s) - st_BytesRead (sc_stats st)"
  define bound where "bound = min (sl_MaxFileBytes (ss_limits s)) remaining"
  have regular: "mode_IsRegular (fi_Mode info)" using assms(3,4) by (auto simp: file_holds_def split: sum.splits)
  note def = assms(1) [unfolded scan_file_def Let_def, folded remaining_def, folded bound_def]
  with assms(2) regular have small: "fi_Size info \<le> sl_MaxFileBytes (ss_limits s)" "remaining > 0" "fi_Size info \<le> remaining"
    by (auto split: if_splits)
  then have "0 \<le> bound" using assms(7) by (simp add: bound_def valid_limits_iff)
  note read = read_holds [OF assms(4,3) this]
  define st1 where "st1 = with_stats (\<lambda>c. c\<lparr>st_BytesRead := st_BytesRead c + int (length content)\<rparr>) st"
  have "scan_content s env path content st1 = (st', None)"
    using def small regular assms(2) by (auto simp: read st1_def split: if_splits)
  moreover have "within_limits s st1"
  proof -
    have "int (length content) \<le> bound"
      using def small regular assms(2) by (auto simp: read split: if_splits)
    then show ?thesis using assms(6) by (simp add: within_limits_def st1_def bound_def remaining_def)
  qed
  ultimately show ?thesis using scan_content_complete assms(2,5,8) by blast
qed

subsection \<open>Errors that come from outside\<close>

text \<open>
  The scan uses \<open>errStopSecretScan\<close>, \<open>SkipDir\<close> and \<open>SkipAll\<close> as signals of its own: no context, no system
  call gives them.
\<close>

definition foreign :: "go_error \<Rightarrow> bool" where
  "foreign e \<longleftrightarrow> \<not> errors_Is e errStopSecretScan \<and> e \<noteq> SkipDir \<and> e \<noteq> SkipAll"

definition opened_errors :: "opened \<Rightarrow> go_error set" where
  "opened_errors h = {e. op_stat h = Inl e \<or> op_at_limit h = Inl e \<or> (\<exists>r \<in> set (op_reads h). rd_ctx r = Some e \<or> rd_error r = Some e)}"

definition foreign_errors :: "scan_env \<Rightarrow> bool" where
  "foreign_errors env \<longleftrightarrow>
     (\<forall>n e. se_ctx env n = Some e \<longrightarrow> foreign e) \<and> (\<forall>path. \<forall>e \<in> set (answer_errors (se_tree env path)). foreign e)
     \<and> (\<forall>path e. se_info env path = Inl e \<or> se_open env path = Inl e \<or> (\<exists>n. se_text_ctx env path n = Some e) \<longrightarrow> foreign e)
     \<and> (\<forall>path h. se_open env path = Inr h \<longrightarrow> (\<forall>e \<in> opened_errors h. foreign e))"

lemma foreign_wrap: "foreign e \<Longrightarrow> foreign (Wrapf m as e)"
  by (simp add: foreign_def errStopSecretScan_def SkipDir_def SkipAll_def)

lemma foreign_fresh: "m \<notin> set [''secret scan bound reached'', ''skip this directory'', ''skip everything and stop the walk''] \<Longrightarrow> foreign (Errorf m as)"
  by (simp add: foreign_def errStopSecretScan_def SkipDir_def SkipAll_def)

lemma inspect_lines_error:
  assumes "\<And>n. ctx n \<noteq> Some e"
  shows "inspect_lines i ctx index ls fs \<noteq> Inl e"
proof (induction "length ls" arbitrary: index ls fs rule: less_induct)
  case less
  show ?case
  proof (cases ls)
    case (Cons l ls')
    have later: "inspect_lines i ctx k ls'' fs' \<noteq> Inl e" if "length ls'' \<le> length ls'" for k ls'' fs'
      using less(1) [of ls''] that Cons by simp
    have block: "inspect_lines i ctx k rest fs' \<noteq> Inl e" if "take_block marker ls' = (block, rest)" for marker block rest k fs'
      using take_block_length [of marker ls'] that by (intro later) simp
    show ?thesis
      using assms [of index] later [of ls'] block by (auto simp: Cons inspect_lines.simps(2) Let_def split: option.split prod.split)
  qed simp
qed

lemma read_loop_error:
  assumes "read_loop wrap buffer limit rs acc = (c, ReadFailed e)" and "\<And>e. foreign e \<Longrightarrow> foreign (wrap e)"
    and "\<And>r e. r \<in> set rs \<Longrightarrow> rd_ctx r = Some e \<or> rd_error r = Some e \<Longrightarrow> foreign e"
  shows "foreign e"
  using assms
proof (induction rs arbitrary: acc)
  case (Cons r rs)
  show ?case
  proof (cases "rd_ctx r = None \<and> rd_error r = None")
    case True
    with Cons.prems(1) have "\<exists>acc. read_loop wrap buffer limit rs acc = (c, ReadFailed e)" by (auto simp: Let_def split: if_splits)
    with Cons.IH Cons.prems show ?thesis by fastforce
  next
    case False
    with Cons.prems(1) have "rd_ctx r = Some e \<or> (\<exists>e'. rd_error r = Some e' \<and> e = wrap e')"
      by (auto simp: Let_def split: option.splits if_splits)
    with Cons.prems(2,3) show ?thesis by auto
  qed
qed (auto split: if_splits)

lemma read_error:
  assumes "readRegularFileBounded path info (se_open env path) limit = (c, n, x, Some e)" and "foreign_errors env"
  shows "foreign e"
proof (cases "se_open env path")
  case (Inl err)
  with assms show ?thesis by (auto simp: readRegularFileBounded_def foreign_errors_def foreign_wrap)
next
  case (Inr h)
  with assms(2) have errs: "e \<in> opened_errors h \<Longrightarrow> foreign e" for e by (auto simp: foreign_errors_def)
  obtain c' t where loop: "read_loop (\<lambda>err. Wrapf ''read %q: %w'' [ArgS path] err) 32768 limit (op_reads h) [] = (c', t)" by fastforce
  have "foreign e" if "t = ReadFailed e" for e
    using loop unfolding that by (rule read_loop_error) (auto intro!: errs foreign_wrap simp: opened_errors_def)
  with assms(1) Inr loop errs show ?thesis
    by (auto simp: readRegularFileBounded_def opened_errors_def intro!: foreign_wrap split: sum.splits if_splits read_end.splits)
qed

text \<open>An error of a step is foreign, or the scan's own and a coverage finding says so.\<close>

definition proper_end :: "walk_state \<Rightarrow> go_error \<Rightarrow> bool" where
  "proper_end st e \<longleftrightarrow> foreign e \<or> e = errStopSecretScan \<and> \<not> covered_all st"

lemma proper_end_stop: "proper_end st e \<Longrightarrow> errors_Is e errStopSecretScan \<Longrightarrow> \<not> covered_all st"
  by (auto simp: proper_end_def foreign_def)

lemma proper_end_signal: "proper_end st e \<Longrightarrow> e \<noteq> SkipDir \<and> e \<noteq> SkipAll"
  by (auto simp: proper_end_def foreign_def errStopSecretScan_def SkipDir_def SkipAll_def)

lemma scan_content_error:
  assumes "scan_content s env path content st = (st', Some e)" and "foreign_errors env"
  shows "proper_end st' e"
proof -
  have "foreign e" if "inspectText i (se_text_ctx env path) content = Inl e" for i e
  proof -
    from that have "inspect_lines i (se_text_ctx env path) 0 (split_on (CHR 0x0A) content) [] = Inl e"
      unfolding inspectText_def by (cases "inspect_lines i (se_text_ctx env path) 0 (split_on (CHR 0x0A) content) []") auto
    then obtain n where "se_text_ctx env path n = Some e" using inspect_lines_error by blast
    with assms(2) show ?thesis unfolding foreign_errors_def by blast
  qed
  moreover have "proper_end st' e" if "take_findings l path fs st1 = (st', Some e)" for l fs st1
    using take_findings_kept [OF that] by (simp add: proper_end_def)
  ultimately show ?thesis
    using assms(1) by (auto simp: scan_content_def Let_def proper_end_def split: if_splits sum.splits)
qed

lemma scan_file_error:
  assumes "scan_file s env path info st = (st', Some e)" and "foreign_errors env"
  shows "proper_end st' e"
proof -
  define remaining where "remaining = sl_MaxTotalBytes (ss_limits s) - st_BytesRead (sc_stats st)"
  define bound where "bound = min (sl_MaxFileBytes (ss_limits s)) remaining"
  obtain content n exceeded err where read: "readRegularFileBounded path info (se_open env path) bound = (content, n, exceeded, err)"
    by (metis prod_cases4)
  note def = assms(1) [unfolded scan_file_def Let_def, folded remaining_def, folded bound_def, unfolded read prod.case]
  have "proper_end st' e" if "err = Some e" using read_error [OF read [unfolded that] assms(2)] by (simp add: proper_end_def)
  moreover have "proper_end st' e" if "scan_content s env path content st1 = (st', Some e)" for st1
    using scan_content_error [OF that assms(2)] .
  ultimately show ?thesis using def by (auto simp: proper_end_def split: if_splits)
qed

lemma scan_entry_error:
  assumes "scan_entry s env start path node walkErr st = (st', Some e)" and "foreign_errors env"
    and "\<And>x. walkErr = Some x \<Longrightarrow> foreign x"
  shows "proper_end st' e \<or> e = SkipDir \<and> walkErr = None \<and> (\<exists>m. node = Some m \<and> mode_IsDir m)"
proof -
  have ctx: "foreign x" if "se_ctx env n = Some x" for n x using that assms(2) by (simp add: foreign_errors_def)
  have info: "foreign (Wrapf f as x)" if "se_info env path = Inl x" for f as x
    using that assms(2) by (auto simp: foreign_errors_def intro: foreign_wrap)
  have depth: "foreign x" if "relativeDepth start path = Inl x" for x
  proof -
    from that obtain y where "filepath_Rel start path = Inl y" "x = Wrapf ''resolve scan depth for %q: %w'' [ArgS path] y"
      by (auto simp: relativeDepth_def split: sum.splits)
    then show ?thesis
      by (auto simp: filepath_Rel_def Let_def intro!: foreign_wrap foreign_fresh split: if_splits prod.splits)
  qed
  show ?thesis
  proof (cases "\<exists>info st1. scan_file s env path info st1 = (st', Some e)")
    case True
    then show ?thesis using scan_file_error assms(2) by blast
  next
    case False
    with assms(1,3) ctx info depth show ?thesis
      by (auto simp: scan_entry_def Let_def proper_end_def intro: foreign_wrap split: option.splits sum.splits if_splits)
  qed
qed

subsection \<open>The walk covers what it visits\<close>

definition scan_inv :: "SecretScanner \<Rightarrow> scan_env \<Rightarrow> walk_state \<Rightarrow> bool" where
  "scan_inv s env st \<longleftrightarrow> all_reported s env st \<and> within_limits s st"

definition scan_covers :: "SecretScanner \<Rightarrow> scan_env \<Rightarrow> string \<Rightarrow> FileMode \<Rightarrow> walk_state \<Rightarrow> bool" where
  "scan_covers s env path type st \<longleftrightarrow> covered_all st \<longrightarrow> scanned_type type \<longrightarrow> reported s env path st"

lemma reported_kept: "scan_keeps s env st st' \<Longrightarrow> reported s env path st \<Longrightarrow> reported s env path st'"
  unfolding scan_keeps_def reported_def by blast

lemma scan_covers_kept: "scan_keeps s env st st' \<Longrightarrow> scan_covers s env path type st \<Longrightarrow> scan_covers s env path type st'"
  using reported_kept unfolding scan_covers_def by (metis scan_keeps_def)

lemma scan_file_reports:
  assumes "scan_file s env path info st = (st', None)" and "se_info env path = Inr info" and "path \<in> set (sc_seenPaths st)"
    and "valid_limits s" and "within_limits s st" and "covered_all st'"
  shows "reported s env path st'"
  unfolding reported_def
proof (intro conjI allI impI subsetI)
  show "path \<in> set (sc_seenPaths st')" using scan_file_kept [OF assms(1)] assms(3) by (auto simp: scan_keeps_def)
next
  fix content f
  assume "file_holds env path content \<and> \<not> isBinary content" and "f \<in> set (file_findings s env path content)"
  then show "f \<in> set (sc_Findings st')" using scan_file_complete [OF assms(1,6,2)] assms(4,5) by blast
qed

lemma scan_file_seen: "scan_file s env path info st = (st', r) \<Longrightarrow> sc_seenPaths st' = sc_seenPaths st"
  by (auto simp: scan_file_def scan_content_def Let_def dest!: take_findings_kept split: if_splits sum.splits prod.splits)

text \<open>What a visit that does not fail has done.\<close>

definition considered :: "string \<Rightarrow> walk_state \<Rightarrow> walk_state" where
  "considered path st = with_stats (\<lambda>c. c\<lparr>st_FilesConsidered := st_FilesConsidered c + 1\<rparr>)
     (st\<lparr>sc_visits := sc_visits st + 1, sc_seenPaths := sc_seenPaths st @ [path]\<rparr>)"

lemma scan_entry_cases:
  assumes "scan_entry s env start path (Some type) None st = (st', r)" and "r = None \<or> r = Some SkipDir" and "foreign_errors env"
  obtains (other) "sc_seenPaths st' = sc_seenPaths st" "covered_all st' \<longrightarrow> scanned_type type \<longrightarrow> path \<in> set (sc_seenPaths st)"
      "r = Some SkipDir \<longrightarrow> mode_IsDir type \<and> (followed_type type \<longrightarrow> \<not> covered_all st')"
  | (scanned) info where "scan_file s env path info (considered path st) = (st', None)" "se_info env path = Inr info" "r = None"
      "st_FilesConsidered (sc_stats st) < sl_MaxFiles (ss_limits s)"
proof (cases "\<exists>info. scan_file s env path info (considered path st) = (st', r) \<and> se_info env path = Inr info
    \<and> st_FilesConsidered (sc_stats st) < sl_MaxFiles (ss_limits s)")
  case True
  then obtain info where info: "scan_file s env path info (considered path st) = (st', r)" "se_info env path = Inr info"
      "st_FilesConsidered (sc_stats st) < sl_MaxFiles (ss_limits s)" by blast
  with assms(2,3) have "r = None" using scan_file_error proper_end_signal by blast
  with info scanned show thesis by blast
next
  case False
  have signal: "se_ctx env n \<noteq> Some SkipDir" for n using assms(3) by (auto simp: foreign_errors_def foreign_def)
  have depth: "relativeDepth start path \<noteq> Inl SkipDir" by (auto simp: relativeDepth_def SkipDir_def split: sum.split)
  from assms(1,2) False signal depth show thesis
    by (intro other)
      (auto simp: scan_entry_def Let_def scanned_type_def followed_type_def considered_def SkipDir_def errStopSecretScan_def
        split: option.splits sum.splits if_splits)
qed

lemma scan_entry_reports:
  assumes "scan_entry s env start path (Some type) None st = (st', r)" and "r = None \<or> r = Some SkipDir"
    and "scan_inv s env st" and "valid_limits s" and "foreign_errors env"
  shows "scan_inv s env st' \<and> scan_covers s env path type st'
    \<and> (r = Some SkipDir \<longrightarrow> mode_IsDir type \<and> (followed_type type \<longrightarrow> \<not> covered_all st'))"
proof -
  note kept = scan_entry_kept [OF assms(1)]
  have within: "within_limits s st'" using kept assms(3,4) by (simp add: scan_keeps_def scan_inv_def)
  have old: "reported s env p st'" if "covered_all st'" "p \<in> set (sc_seenPaths st)" for p
  proof -
    have "covered_all st" using that(1) kept by (simp add: scan_keeps_def)
    with that(2) assms(3) have "reported s env p st" by (simp add: scan_inv_def all_reported_def)
    then show ?thesis by (rule reported_kept [OF kept])
  qed
  from assms(1,2,5) show ?thesis
  proof (cases rule: scan_entry_cases)
    case other
    with old within show ?thesis by (simp add: scan_inv_def all_reported_def scan_covers_def)
  next
    case (scanned info)
    have "within_limits s (considered path st)"
      using assms(3) scanned(4) by (simp add: considered_def scan_inv_def within_limits_def)
    with scanned(1,2) assms(4) have "reported s env path st'" if "covered_all st'"
      using that by (intro scan_file_reports) (simp_all add: considered_def)
    moreover have "sc_seenPaths st' = sc_seenPaths st @ [path]" using scan_file_seen [OF scanned(1)] by (simp add: considered_def)
    ultimately show ?thesis using old within scanned(3) by (simp add: scan_inv_def all_reported_def scan_covers_def)
  qed
qed

lemma scan_entry_told:
  assumes "scan_entry s env start path node (Some x) st = (st', r)" and "foreign_errors env"
  shows "r \<noteq> None \<and> r \<noteq> Some SkipDir"
proof (cases "se_ctx env (sc_visits st)")
  case None
  with assms(1) show ?thesis by (auto simp: scan_entry_def Let_def SkipDir_def)
next
  case (Some e)
  then have "e \<noteq> SkipDir" using assms(2) by (auto simp: foreign_errors_def foreign_def)
  moreover have "r = Some e" using Some assms(1) by (simp add: scan_entry_def Let_def)
  ultimately show ?thesis by simp
qed

lemma scan_entry_no_skip_all:
  assumes "foreign_errors env"
  shows "scan_entry s env start path node walkErr st \<noteq> (st', Some SkipAll)"
proof (cases walkErr)
  case None
  then show ?thesis using scan_entry_error [of s env start path node walkErr st st' SkipAll] assms proper_end_signal
    by (auto simp: SkipDir_def SkipAll_def)
next
  case (Some e)
  have "se_ctx env n \<noteq> Some SkipAll" for n using assms by (auto simp: foreign_errors_def foreign_def)
  with Some show ?thesis by (auto simp: scan_entry_def Let_def SkipAll_def split: option.split)
qed

text \<open>The scan's callback honours the contract of a walk that covers.\<close>

interpretation covering: walk_covers "scan_entry s env start" "scan_keeps s env"
  "\<lambda>st. scan_inv s env st \<and> valid_limits s \<and> foreign_errors env" "scan_covers s env" followed_type
proof unfold_locales
  show "scan_keeps s env st st' \<Longrightarrow> scan_covers s env path type st \<Longrightarrow> scan_covers s env path type st'" for st st' path type
    by (rule scan_covers_kept)
  show "(scan_inv s env st' \<and> valid_limits s \<and> foreign_errors env) \<and> scan_covers s env path type st'"
    if "scan_inv s env st \<and> valid_limits s \<and> foreign_errors env" "scan_entry s env start path (Some type) None st = (st', None)" for st st' path type
    using scan_entry_reports [OF that(2)] that(1) by blast
  show "mode_IsDir type \<and> (scan_inv s env st' \<and> valid_limits s \<and> foreign_errors env) \<and> scan_covers s env path type st'
      \<and> (followed_type type \<longrightarrow> (\<forall>p u. scan_covers s env p u st'))"
    if "scan_inv s env st \<and> valid_limits s \<and> foreign_errors env" "scan_entry s env start path (Some type) None st = (st', Some SkipDir)" for st st' path type
    using scan_entry_reports [OF that(2)] that(1) by (auto simp: scan_covers_def)
qed (use scan_entry_told scan_entry_no_skip_all in blast)+

subsection \<open>The scan of all roots\<close>

lemma walk_stopped:
  assumes "WalkDir (scan_entry s env start) path (se_tree env root_path) st = (st', Some e)" and "foreign_errors env"
    and "errors_Is e errStopSecretScan"
  shows "\<not> covered_all st'"
proof -
  obtain p node err st1 where call: "scan_entry s env start p node err st1 = (st', Some e)"
      "err = None \<or> err \<in> Some ` set (answer_errors (se_tree env root_path))"
    using WalkDir_error [OF assms(1)] unfolding from_callback_def by blast
  have "foreign x" if "err = Some x" for x using call(2) that assms(2) by (auto simp: foreign_errors_def)
  with scan_entry_error [OF call(1) assms(2)] have "proper_end st' e \<or> e = SkipDir" by blast
  with assms(3) proper_end_stop show ?thesis by (auto simp: SkipDir_def errStopSecretScan_def)
qed

lemma walk_answered:
  assumes "WalkDir (scan_entry s env start) path answer st = (st', None)" and "foreign_errors env"
  shows "\<exists>tree. answer = Inr tree"
proof (cases answer)
  case (Inl err)
  obtain st1 r where call: "scan_entry s env start path None (Some err) st = (st1, r)" by fastforce
  then have "r \<noteq> None \<and> r \<noteq> Some SkipDir \<and> r \<noteq> Some SkipAll"
    using scan_entry_told scan_entry_no_skip_all assms(2) by blast
  with call assms(1) Inl show ?thesis by (auto simp: WalkDir_def split: if_splits)
qed simp

lemma scan_roots_covered:
  assumes "scan_roots s env starts st = (st', None)" and "covered_all st'" and "scan_inv s env st" and "valid_limits s" and "foreign_errors env"
    and "start \<in> path_Clean ` set starts" and "se_tree env start = Inr tree" and "(path, type) \<in> set (entries_of followed_type start tree)"
    and "scanned_type type"
  shows "reported s env path st'"
  using assms
proof (induction starts arbitrary: st)
  case (Cons r rs)
  obtain st1 e where walk: "WalkDir (scan_entry s env (path_Clean r)) (path_Clean r) (se_tree env (path_Clean r)) st = (st1, e)"
    by fastforce
  show ?case
  proof (cases e)
    case (Some x)
    with Cons.prems(1) walk have "errors_Is x errStopSecretScan" "st' = st1" by (auto simp: Let_def split: if_splits)
    with walk Some Cons.prems(2,5) walk_stopped show ?thesis by blast
  next
    case None
    with Cons.prems(1) walk have later: "scan_roots s env rs st1 = (st', None)" by (simp add: Let_def)
    obtain t where t: "se_tree env (path_Clean r) = Inr t" using walk_answered walk None Cons.prems(5) by blast
    note kept = scan_roots_kept [OF later]
    have here: "scan_inv s env st1" "\<forall>(p, u) \<in> set (entries_of followed_type (path_Clean r) t). scan_covers s env p u st1"
      using covering.WalkDir_covered [of s env st "path_Clean r" "path_Clean r" t st1] walk None t Cons.prems(3,4,5) by auto
    show ?thesis
    proof (cases "start = path_Clean r")
      case True
      with here(2) t Cons.prems(7,8) have "scan_covers s env path type st1" by auto
      then have "scan_covers s env path type st'" by (rule scan_covers_kept [OF kept])
      with Cons.prems(2,9) show ?thesis by (simp add: scan_covers_def)
    next
      case False
      with Cons.IH [OF later Cons.prems(2) here(1) Cons.prems(4,5)] Cons.prems(6-9) show ?thesis by auto
    qed
  qed
qed simp

lemma initial_inv: "valid_limits s \<Longrightarrow> scan_inv s env initial_scan" "findings_shown s env initial_scan"
  by (auto simp: scan_inv_def all_reported_def within_limits_def findings_shown_def initial_scan_def zero_SecretStats_def valid_limits_iff)

lemma NewSecretScanner_valid: "NewSecretScanner opts = Inr s \<Longrightarrow> valid_limits s"
  by (auto simp: NewSecretScanner_def valid_limits_def Let_def split: if_splits option.splits)

lemma Scan_state:
  assumes "Scan s env roots = (r, err)"
  obtains st where "r = walk_result st" "scan_keeps s env initial_scan st"
    "err = None \<longrightarrow> scan_roots s env (normalizePaths roots) initial_scan = (st, None)"
proof (cases "se_ctx env 0")
  case (Some e)
  then have "r = walk_result initial_scan" "err = Some e" using assms by (simp_all add: Scan_def)
  with that [of initial_scan] scan_keeps_refl show thesis by simp
next
  case None
  obtain st e where st: "scan_roots s env (normalizePaths roots) initial_scan = (st, e)" by fastforce
  with None assms scan_roots_kept [OF st] that show thesis by (auto simp: Scan_def)
qed

lemma no_coverage: "sr_Coverage (walk_result st) = [] \<longleftrightarrow> covered_all st"
  unfolding walk_result_def coverage_findings_def covered_all_def by simp (metis length_0_conv length_sort)

lemma scan_complete:
  assumes "NewSecretScanner opts = Inr s" and "foreign_errors env" and "Scan s env roots = (r, None)" and "sr_Coverage r = []"
    and "start \<in> path_Clean ` set (normalizePaths roots)" and "se_tree env start = Inr tree"
    and "(path, type) \<in> set (entries_of followed_type start tree)" and "scanned_type type"
    and "file_holds env path content" and "\<not> isBinary content"
  shows "set (file_findings s env path content) \<subseteq> set (sr_Findings r)"
proof -
  obtain st where st: "r = walk_result st" "scan_roots s env (normalizePaths roots) initial_scan = (st, None)"
    using Scan_state [OF assms(3)] by auto
  note valid = NewSecretScanner_valid [OF assms(1)]
  have "reported s env path st"
    using scan_roots_covered [OF st(2) _ initial_inv(1) [OF valid] valid assms(2,5-8)] assms(4) st(1) no_coverage by simp
  with assms(9,10) st(1) show ?thesis by (auto simp: reported_def walk_result_def sort_findings_def)
qed

end
