(* ===== verification/GoEval.thy ===== *)
theory GoEval
  imports GoRegex GoJson
begin

section \<open>Evaluation of text functions\<close>

text \<open>
  Code equations for functions on runes that decide the ASCII case first, so that samples are evaluated without
  comparing small numbers with large ones.
\<close>

lemma sanitize_code [code]:
  "sanitize s = (if list_all (\<lambda>c. byte c < 128) s then s
     else concat (map (\<lambda>r. if fst r = 65533 then replacement_bytes else snd r) (runes s)))"
proof (cases "list_all (\<lambda>c. byte c < 128) s")
  case True
  then have "ascii s" by (simp add: ascii_def list_all_iff)
  with True show ?thesis by simp
qed (simp only: sanitize_def if_False)

lemma IsSpace_code [code]:
  "IsSpace r \<longleftrightarrow> (if r < 128 then (9 \<le> r \<and> r \<le> 13) \<or> r = 32
     else r = 133 \<or> r = 160 \<or> r = 5760 \<or> (8192 \<le> r \<and> r \<le> 8202) \<or> r = 8232 \<or> r = 8233 \<or> r = 8239 \<or> r = 8287 \<or> r = 12288)"
  by (auto simp: IsSpace_def)

lemma case_variants_code [code]:
  "case_variants r = (if r < 128 then r # (if upper_rune r then [r + 32] else if lower_rune_class r then [r - 32] else [])
     else r # (if r = 383 then [115] else if r = 8490 then [107] else []))"
  by (auto simp: case_variants_def upper_rune_def lower_rune_class_def)

lemma fold_rune_code [code]:
  "fold_rune r = (if r < 128 then (if 65 \<le> r \<and> r \<le> 90 then r + 32 else r) else if r = 383 then 115 else if r = 8490 then 107 else r)"
  by (simp add: fold_rune_def)

lemma escape_rune_code [code]:
  "escape_rune r =
     (let c = fst r in
      if c = 34 then [char_of (92::nat), CHR 0x22]
      else if c = 92 then [char_of (92::nat), char_of (92::nat)]
      else if c = 8 then [char_of (92::nat), CHR ''b'']
      else if c = 12 then [char_of (92::nat), CHR ''f'']
      else if c = 10 then [char_of (92::nat), CHR ''n'']
      else if c = 13 then [char_of (92::nat), CHR ''r'']
      else if c = 9 then [char_of (92::nat), CHR ''t'']
      else if c < 32 \<or> c = 60 \<or> c = 62 \<or> c = 38
      then char_of (92::nat) # ''u00'' @ [nibble (c div 16), nibble (c mod 16)]
      else if c < 128 then snd r
      else if c = 8232 \<or> c = 8233 then char_of (92::nat) # ''u202'' @ [nibble (c mod 16)]
      else snd r)"
  by (auto simp: escape_rune_def Let_def)

end
