(* ===== verification/Scanner_Props.thy ===== *)
theory Scanner_Props
  imports Scanner_Walk_Props GoEval
begin

section \<open>Properties of the secret scan\<close>

text \<open>The theorems about \<open>Scan\<close>, and a scan of a small directory that shows that they apply.\<close>

definition sample_content :: string where
  "sample_content = ''id AKIA2B4C6D8E0F1G3H5J'' @ [CHR 0x0A]"

definition sample_info :: FileInfo where
  "sample_info = \<lparr>fi_Mode = 0x1A4, fi_Size = 24, fi_file = 7, fi_owner = None\<rparr>"

definition sample_tree :: file_tree where
  "sample_tree = Entry ''r'' ModeDir [Entry ''k'' 0 [] None, Entry ''l'' ModeSymlink [] None] None"

definition sample_env :: scan_env where
  "sample_env = \<lparr>se_log2 = (\<lambda>p. - 4), se_hmac = (\<lambda>k v. replicate 32 0), se_ctx = (\<lambda>n. None), se_tree = (\<lambda>p. Inr sample_tree),
     se_info = (\<lambda>p. Inr sample_info),
     se_open = (\<lambda>p. Inr \<lparr>op_stat = Inr sample_info, op_reads = [\<lparr>rd_ctx = None, rd_bytes = sample_content, rd_error = None\<rparr>], op_at_limit = Inr sample_info, op_current = Inr sample_info\<rparr>),
     se_text_ctx = (\<lambda>p n. None)\<rparr>"

definition sample_limits :: SecretLimits where
  "sample_limits = \<lparr>sl_MaxFileBytes = 64, sl_MaxTotalBytes = 128, sl_MaxDepth = 2, sl_MaxFiles = 4, sl_MaxFindings = 3\<rparr>"

definition sample_options :: SecretOptions where
  "sample_options = \<lparr>so_Limits = sample_limits, so_FingerprintKey = replicate 32 1\<rparr>"

definition sample_scanner :: SecretScanner where
  "sample_scanner = \<lparr>ss_limits = sample_limits, ss_key = replicate 32 1\<rparr>"

definition sample_scan :: "SecretResult \<times> go_error option" where
  "sample_scan = Scan sample_scanner sample_env [''/r/'']"

lemma sample_new: "NewSecretScanner sample_options = Inr sample_scanner"
  by code_simp

lemma sample_clean: "snd sample_scan = None \<and> sr_Coverage (fst sample_scan) = []"
proof -
  have "(case sample_scan of (r, e) \<Rightarrow> (e, sr_Coverage r)) = (None, [])" by code_simp
  then show ?thesis by (simp add: case_prod_beta)
qed

lemma sample_scan_eq: "Scan sample_scanner sample_env [''/r/''] = (fst sample_scan, None)"
  using sample_clean by (simp add: sample_scan_def prod_eq_iff)

lemma sample_foreign: "foreign_errors sample_env"
  by (auto simp: foreign_errors_def sample_env_def answer_errors_def sample_tree_def opened_errors_def)

lemma sample_file: "file_holds sample_env ''/r/k'' sample_content"
  by (simp add: file_holds_def sample_env_def sample_content_def sample_info_def mode_IsRegular_def has_mode_def
      ModeDir_def ModeSymlink_def ModeNamedPipe_def ModeSocket_def ModeDevice_def ModeCharDevice_def ModeIrregular_def)

lemma sample_entry:
  "''/r'' \<in> path_Clean ` set (normalizePaths [''/r/'']) \<and> (''/r/k'', 0) \<in> set (entries_of followed_type ''/r'' sample_tree)
     \<and> scanned_type 0 \<and> \<not> isBinary sample_content"
  by code_simp

lemma sample_answer: "se_tree sample_env ''/r'' = Inr sample_tree"
  by (simp add: sample_env_def)

lemmas sample_scan_facts = sample_new sample_foreign sample_scan_eq sample_clean [THEN conjunct2]
  sample_entry [THEN conjunct1] sample_answer sample_entry [THEN conjunct2, THEN conjunct1]
  sample_entry [THEN conjunct2, THEN conjunct2, THEN conjunct1] sample_file sample_entry [THEN conjunct2, THEN conjunct2, THEN conjunct2]

text \<open>The token in the sample.\<close>

definition sample_token :: rx where
  "sample_token = snd (word_detectors ! 0)"

definition sample_word :: "rune list" where
  "sample_word = runes ''AKIA2B4C6D8E0F1G3H5J''"

lemma sample_lines:
  "map (trim_suffix [CHR 0x0D]) (split_on (CHR 0x0A) sample_content) = [''id AKIA2B4C6D8E0F1G3H5J'', []]"
  by code_simp

lemma sample_parts:
  "find_anchored privateKeyBegin ''id AKIA2B4C6D8E0F1G3H5J'' = None \<and> find_anchored privateKeyBegin [] = None
     \<and> \<not> is_comment ''id AKIA2B4C6D8E0F1G3H5J''"
  "runes ''id AKIA2B4C6D8E0F1G3H5J'' = runes ''id '' @ sample_word @ []" "concat (map snd sample_word) = ''AKIA2B4C6D8E0F1G3H5J''"
  "runes ''id '' \<noteq> [] \<and> \<not> word_rune (fst (last (runes ''id ''))) \<and> (\<forall>rn \<in> set sample_word. word_rune (fst rn))"
  "rx_first sample_token (Some (last (runes ''id '')), sample_word @ []) \<noteq> None"
  "validateFormattedToken (se_log2 sample_env) (concat (map snd sample_word))"
  "word_detectors \<noteq> [] \<and> fst (word_detectors ! 0) = ''token.aws-access-key-id''"
  by code_simp+

lemma sample_detector: "(''token.aws-access-key-id'', sample_token) \<in> set word_detectors"
  using sample_parts(7) by (metis sample_token_def prod.collapse nth_mem length_greater_0_conv)

text \<open>What a token's theorems ask of the sample, beyond \<open>sample_scan_facts\<close>.\<close>

lemma sample_token_facts:
  "[''id AKIA2B4C6D8E0F1G3H5J'', []] = map (trim_suffix [CHR 0x0D]) (split_on (CHR 0x0A) sample_content)"
  "0 < length [''id AKIA2B4C6D8E0F1G3H5J'', []]"
  "\<forall>l \<in> set [''id AKIA2B4C6D8E0F1G3H5J'', []]. find_anchored privateKeyBegin l = None"
  "\<not> is_comment ([''id AKIA2B4C6D8E0F1G3H5J'', []] ! 0)"
  "(''token.aws-access-key-id'', sample_token) \<in> set word_detectors"
  "runes ([''id AKIA2B4C6D8E0F1G3H5J'', []] ! 0) = runes ''id '' @ sample_word @ []"
  "\<forall>rn \<in> set sample_word. word_rune (fst rn)"
  "runes ''id '' \<noteq> [] \<longrightarrow> \<not> word_rune (fst (last (runes ''id '')))"
  "[] \<noteq> [] \<longrightarrow> \<not> word_rune (fst (hd ([] :: rune list)))"
  "rx_first sample_token (if runes ''id '' = [] then None else Some (last (runes ''id '')), sample_word @ []) \<noteq> None"
  "validateFormattedToken (se_log2 sample_env) (concat (map snd sample_word))"
  using sample_lines sample_parts sample_detector by simp_all

subsection \<open>Findings of a clean scan\<close>

lemma planted_finding:
  assumes "NewSecretScanner opts = Inr s" and "foreign_errors env" and "Scan s env roots = (r, None)" and "sr_Coverage r = []"
    and "start \<in> path_Clean ` set (normalizePaths roots)" and "se_tree env start = Inr tree"
    and "(path, type) \<in> set (entries_of followed_type start tree)" and "scanned_type type"
    and "file_holds env path content" and "\<not> isBinary content"
    and "ls = map (trim_suffix [CHR 0x0D]) (split_on (CHR 0x0A) content)" and "n < length ls"
    and "\<forall>l \<in> set ls. find_anchored privateKeyBegin l = None" and "\<not> is_comment (ls ! n)"
    and "(detectorID, pattern) \<in> set word_detectors" and "runes (ls ! n) = pre @ w @ post"
    and "\<forall>rn \<in> set w. word_rune (fst rn)" and "pre \<noteq> [] \<longrightarrow> \<not> word_rune (fst (last pre))" and "post \<noteq> [] \<longrightarrow> \<not> word_rune (fst (hd post))"
    and "rx_first pattern (if pre = [] then None else Some (last pre), w @ post) \<noteq> None"
    and "validateFormattedToken (se_log2 env) (concat (map snd w))"
  shows "finding_of (inspection_of s env path 0) n detectorID (concat (map snd w)) ''[REDACTED TOKEN]'' \<in> set (sr_Findings r)"
proof -
  let ?i = "inspection_of s env path 0" and ?ls = "split_on (CHR 0x0A) content"
  let ?f = "finding_of ?i n detectorID (concat (map snd w)) ''[REDACTED TOKEN]''"
  have "?f \<in> set (tokens_of ?i (0 + n) (ls ! n) tokenDetectors)"
    using token_in_line [OF assms(15-20), of ?i n] assms(21) by (simp add: inspection_of_def)
  then have "?f \<in> set (text_findings ?i 0 ?ls)"
    using assms(11-14) by (intro text_findings_lines [of ?ls n]) auto
  then show ?thesis using scan_complete [OF assms(1-10)] by (auto simp: file_findings_def)
qed

lemma sample_found:
  "finding_of (inspection_of sample_scanner sample_env ''/r/k'' 0) 0 ''token.aws-access-key-id'' ''AKIA2B4C6D8E0F1G3H5J'' ''[REDACTED TOKEN]''
     \<in> set (sr_Findings (fst sample_scan))"
  using planted_finding [OF sample_scan_facts sample_token_facts] by (simp only: sample_parts(3))

subsection \<open>The properties\<close>

text \<open>C7: A scan stays within its limits, whatever it meets and however it ends: no more findings than \<open>MaxFindings\<close>,
  no more bytes read than \<open>MaxTotalBytes\<close>, no more files considered than \<open>MaxFiles\<close>.\<close>

theorem scan_within_limits:
  assumes "NewSecretScanner opts = Inr s" and "Scan s env roots = (r, err)"
  shows "int (length (sr_Findings r)) \<le> sl_MaxFindings (ss_limits s)
    \<and> st_BytesRead (sr_Stats r) \<le> sl_MaxTotalBytes (ss_limits s)
    \<and> st_FilesConsidered (sr_Stats r) \<le> sl_MaxFiles (ss_limits s)"
proof -
  obtain st where st: "r = walk_result st" "scan_keeps s env initial_scan st" using Scan_state [OF assms(2)] by blast
  with initial_inv(1) NewSecretScanner_valid [OF assms(1)] have "within_limits s st" by (simp add: scan_keeps_def scan_inv_def)
  with st(1) show ?thesis by (simp add: within_limits_def walk_result_def sort_findings_def)
qed

theorem scan_within_limits_witness:
  "NewSecretScanner sample_options = Inr sample_scanner \<and> int (length (sr_Findings (fst sample_scan))) \<le> 3"
  using scan_within_limits [OF sample_new sample_scan_eq] sample_new by (simp add: sample_scanner_def sample_limits_def)

text \<open>C8: No finding shows a value: its excerpt is fixed text, or the name of an assigned key in lower case with the operator; the value enters
  the keyed fingerprint only.\<close>

theorem scan_shows_no_value:
  assumes "Scan s env roots = (r, err)" and "f \<in> set (sr_Findings r)"
  shows "(\<exists>value. sf_Fingerprint f = fingerprint (se_hmac env) (ss_key s) (sf_DetectorID f) value)
    \<and> (sf_RedactedExcerpt f \<in> set [''[REDACTED TOKEN]'', ''[REDACTED PRIVATE KEY BLOCK]'']
       \<or> (\<exists>key operator. sf_RedactedExcerpt f = ToLower (concat (map snd key)) @ '' '' @ concat (map snd operator) @ '' [REDACTED]''
            \<and> (\<forall>rn \<in> set key. name_rune (fst rn)) \<and> map fst operator \<in> set [map byte '':='', map byte ''='', map byte '':'']))"
proof -
  obtain st where st: "r = walk_result st" "scan_keeps s env initial_scan st" using Scan_state [OF assms(1)] by blast
  with initial_inv(2) have "findings_shown s env st" by (simp add: scan_keeps_def)
  with st(1) assms(2) obtain path where "shows_name_only (inspection_of s env path 0) f"
    by (auto simp: findings_shown_def walk_result_def sort_findings_def)
  then show ?thesis by (simp add: shows_name_only_def inspection_of_def)
qed

theorem scan_shows_no_value_witness:
  "\<exists>f \<in> set (sr_Findings (fst sample_scan)). sf_RedactedExcerpt f = ''[REDACTED TOKEN]''
     \<and> (\<exists>value. sf_Fingerprint f = fingerprint (se_hmac sample_env) (ss_key sample_scanner) (sf_DetectorID f) value)"
  using scan_shows_no_value [OF sample_scan_eq sample_found] by (intro bexI [OF _ sample_found]) (simp add: finding_of_shows)

text \<open>C5: A scan that ends without an error and without a coverage finding has reported everything: each finding that the
  unlimited inspection of a readable regular text file below a root gives is in the result.\<close>

theorem clean_scan_misses_nothing:
  assumes "NewSecretScanner opts = Inr s" and "foreign_errors env" and "Scan s env roots = (r, None)" and "sr_Coverage r = []"
    and "start \<in> path_Clean ` set (normalizePaths roots)" and "se_tree env start = Inr tree"
    and "(path, type) \<in> set (entries_of followed_type start tree)" and "scanned_type type"
    and "file_holds env path content" and "\<not> isBinary content"
  shows "set (file_findings s env path content) \<subseteq> set (sr_Findings r)"
  by (rule scan_complete [OF assms])

theorem clean_scan_misses_nothing_witness:
  "set (file_findings sample_scanner sample_env ''/r/k'' sample_content) \<subseteq> set (sr_Findings (fst sample_scan))"
  by (rule clean_scan_misses_nothing [OF sample_scan_facts])



end
