(* ===== verification/Scanner_Executable.thy ===== *)
theory Scanner_Executable
  imports Scanner_Walk
begin

section \<open>Changed executables (internal/scanner/executable.go, ownership_unix.go)\<close>

text \<open>
  The candidates of a file-change collector are inspected, hashed up to the limits and described by signals that are
  observations, not verdicts. A path is inspected once, so the environment's answers are functions of the path. SHA-256, the working
  and the temporary directory and the package lookup are arguments.
\<close>

record ExecutableLimits =
  el_MaxFileBytes :: int
  el_MaxTotalBytes :: int
  el_MaxFiles :: int

definition zero_ExecutableLimits :: ExecutableLimits where
  "zero_ExecutableLimits = \<lparr>el_MaxFileBytes = 0, el_MaxTotalBytes = 0, el_MaxFiles = 0\<rparr>"

definition DefaultExecutableLimits :: ExecutableLimits where
  "DefaultExecutableLimits = \<lparr>el_MaxFileBytes = 268435456, el_MaxTotalBytes = 1073741824, el_MaxFiles = 2000\<rparr>"

record ExecutableCandidate =
  ec_Path :: string
  ec_New :: bool

definition PackageOwnershipUnknown :: string where "PackageOwnershipUnknown = ''unknown''"
definition PackageOwnershipOwned :: string where "PackageOwnershipOwned = ''owned''"
definition PackageOwnershipUnowned :: string where "PackageOwnershipUnowned = ''unowned''"

record PackageOwnership =
  po_Status :: string
  po_Package :: string

definition AssessmentSuspicious :: string where "AssessmentSuspicious = ''suspicious''"
definition AssessmentUnknown :: string where "AssessmentUnknown = ''unknown''"

record TriageSignal =
  ts_ID :: string
  ts_Assessment :: string

record FileOwnership =
  fo_Known :: bool
  fo_UID :: "32 word"
  fo_GID :: "32 word"

record ExecutableRecord =
  er_Path :: string
  er_SHA256 :: string
  er_Mode :: string
  er_Size :: int
  er_Ownership :: FileOwnership
  er_PackageOwnership :: PackageOwnership
  er_Signals :: "TriageSignal list"

record ExecutableStats =
  es_FilesConsidered :: int
  es_FilesTriaged :: int
  es_BytesHashed :: int
  es_MissingSkipped :: int
  es_SymlinksSkipped :: int
  es_NonRegularSkipped :: int
  es_NonExecutableSkipped :: int
  es_OversizeSkipped :: int

record ExecutableResult =
  xr_Schema :: string
  xr_SchemaVersion :: int
  xr_ScannerID :: string
  xr_Executables :: "ExecutableRecord list"
  xr_Coverage :: "CoverageLimitFinding list"
  xr_Stats :: ExecutableStats

type_synonym package_lookup = "string \<Rightarrow> PackageOwnership result"

record ExecutableScanner =
  xs_limits :: ExecutableLimits
  xs_packageOwnership :: "package_lookup option"

definition NewExecutableScanner :: "ExecutableLimits \<Rightarrow> package_lookup option \<Rightarrow> ExecutableScanner result" where
  "NewExecutableScanner given lookup =
     (let limits = (if given = zero_ExecutableLimits then DefaultExecutableLimits else given)
      in case first_error
         [(el_MaxFileBytes limits \<le> 0, New ''max file bytes must be positive''),
          (el_MaxTotalBytes limits \<le> 0, New ''max total bytes must be positive''),
          (el_MaxFiles limits \<le> 0, New ''max files must be positive'')] of
           Some err \<Rightarrow> Inl err
         | None \<Rightarrow> Inr \<lparr>xs_limits = limits, xs_packageOwnership = lookup\<rparr>)"

text \<open>What the triage finds outside it; \<open>te_ctx\<close> is asked before a file, \<open>te_ctx_after\<close> after its package lookup.\<close>

record triage_env =
  te_sha256 :: "string \<Rightarrow> 8 word list"
  te_cwd :: "string result"
  te_TempDir :: string
  te_ctx_start :: "go_error option"
  te_ctx :: "string \<Rightarrow> go_error option"
  te_ctx_after :: "string \<Rightarrow> go_error option"
  te_lstat :: "string \<Rightarrow> FileInfo result"
  te_open :: "string \<Rightarrow> opened result"

definition os_ErrNotExist :: go_error where "os_ErrNotExist = New ''file does not exist''"

subsection \<open>Candidates\<close>

text \<open>Each path once, clean; it is new when one of its candidates is.\<close>

fun candidates_by_path :: "ExecutableCandidate list \<Rightarrow> ExecutableCandidate list \<Rightarrow> ExecutableCandidate list" where
  "candidates_by_path byPath [] = byPath"
| "candidates_by_path byPath (c # cs) =
     (if TrimSpace (ec_Path c) = [] then candidates_by_path byPath cs
      else let c = c\<lparr>ec_Path := path_Clean (ec_Path c)\<rparr>
        in candidates_by_path (tbl_upsert ec_Path c (\<lambda>existing. existing\<lparr>ec_New := ec_New existing \<or> ec_New c\<rparr>) byPath) cs)"

definition normalizeCandidates :: "ExecutableCandidate list \<Rightarrow> ExecutableCandidate list" where
  "normalizeCandidates cs = sort_key ec_Path (candidates_by_path [] cs)"

subsection \<open>Hashing\<close>

definition executable_mode :: "FileMode \<Rightarrow> bool" where
  "executable_mode m \<longleftrightarrow> has_mode m 0x49"

text \<open>The digest, the bytes hashed, whether a limit was exceeded, the file's last answer, and the error.\<close>

definition hashExecutableBounded ::
  "triage_env \<Rightarrow> string \<Rightarrow> FileInfo \<Rightarrow> int \<Rightarrow> string \<times> int \<times> bool \<times> FileInfo option \<times> go_error option" where
  "hashExecutableBounded env path before limit =
     (case te_open env path of
        Inl err \<Rightarrow> ([], 0, False, None, Some (Wrapf ''open %q: %w'' [ArgS path] err))
      | Inr opened_file \<Rightarrow>
          (case op_stat opened_file of
             Inl err \<Rightarrow> ([], 0, False, None, Some (Wrapf ''inspect opened file %q: %w'' [ArgS path] err))
           | Inr after \<Rightarrow>
               if \<not> mode_IsRegular (fi_Mode after) \<or> \<not> executable_mode (fi_Mode after) \<or> \<not> SameFile before after then ([], 0, False, None, None)
               else (case read_loop (\<lambda>err. Wrapf ''hash %q: %w'' [ArgS path] err) 65536 limit (op_reads opened_file) [] of
                   (content, ReadFailed err) \<Rightarrow> ([], int (length content), False, None, Some err)
                 | (content, ReadEOF) \<Rightarrow>
                     (case op_current opened_file of
                        Inl err \<Rightarrow> ([], int (length content), False, None, Some (Wrapf ''inspect hashed executable %q: %w'' [ArgS path] err))
                      | Inr finalInfo \<Rightarrow>
                          if fi_Size finalInfo \<noteq> int (length content) then ([], int (length content), True, Some finalInfo, None)
                          else (hex_encode (te_sha256 env content), int (length content), False, Some finalInfo, None))
                 | (content, ReadLimit) \<Rightarrow>
                     (case op_at_limit opened_file of
                        Inl err \<Rightarrow> ([], int (length content), False, None, Some (Wrapf ''inspect bounded executable %q: %w'' [ArgS path] err))
                      | Inr current \<Rightarrow>
                          if fi_Size current > int (length content) then ([], int (length content), True, Some current, None)
                          else (case op_current opened_file of
                              Inl err \<Rightarrow> ([], int (length content), False, None, Some (Wrapf ''inspect hashed executable %q: %w'' [ArgS path] err))
                            | Inr finalInfo \<Rightarrow>
                                if fi_Size finalInfo \<noteq> int (length content) then ([], int (length content), True, Some finalInfo, None)
                                else (hex_encode (te_sha256 env content), int (length content), False, Some finalInfo, None))))))"

subsection \<open>Signals\<close>

definition unknown_ownership :: "string \<Rightarrow> PackageOwnership \<times> TriageSignal" where
  "unknown_ownership reason =
     (\<lparr>po_Status = PackageOwnershipUnknown, po_Package = []\<rparr>, \<lparr>ts_ID = reason, ts_Assessment = AssessmentUnknown\<rparr>)"

definition no_signal :: TriageSignal where
  "no_signal = \<lparr>ts_ID = [], ts_Assessment = []\<rparr>"

definition lookupPackageOwnership :: "ExecutableScanner \<Rightarrow> string \<Rightarrow> PackageOwnership \<times> TriageSignal" where
  "lookupPackageOwnership s path =
     (case xs_packageOwnership s of
        None \<Rightarrow> unknown_ownership ''package-ownership-not-checked''
      | Some lookup \<Rightarrow>
          (case lookup path of
             Inl err \<Rightarrow> unknown_ownership ''package-ownership-lookup-failed''
           | Inr ownership \<Rightarrow>
               if po_Status ownership = PackageOwnershipOwned then
                 (if TrimSpace (po_Package ownership) = [] then unknown_ownership ''package-ownership-invalid-result'' else (ownership, no_signal))
               else if po_Status ownership = PackageOwnershipUnowned then
                 (ownership\<lparr>po_Package := []\<rparr>, \<lparr>ts_ID = ''package-ownership-unowned'', ts_Assessment = AssessmentUnknown\<rparr>)
               else if po_Status ownership = PackageOwnershipUnknown then
                 (ownership\<lparr>po_Package := []\<rparr>, \<lparr>ts_ID = ''package-ownership-unknown'', ts_Assessment = AssessmentUnknown\<rparr>)
               else unknown_ownership ''package-ownership-invalid-result''))"

definition withinPath :: "string result \<Rightarrow> string \<Rightarrow> string \<Rightarrow> bool" where
  "withinPath cwd outer path =
     (case (filepath_Abs cwd outer, filepath_Abs cwd path) of
        (Inr a, Inr b) \<Rightarrow>
          (case filepath_Rel a b of
             Inl err \<Rightarrow> False
           | Inr relative \<Rightarrow> relative = ''.'' \<or> relative \<noteq> ''..'' \<and> \<not> has_prefix relative ''../'')
      | _ \<Rightarrow> False)"

definition riskyExecutableLocation :: "triage_env \<Rightarrow> string \<Rightarrow> bool" where
  "riskyExecutableLocation env path =
     (let absolute = (case filepath_Abs (te_cwd env) path of Inl err \<Rightarrow> path_Clean path | Inr p \<Rightarrow> p)
      in list_ex (\<lambda>r. withinPath (te_cwd env) r absolute)
           [te_TempDir env, ''/tmp'', ''/var/tmp'', ''/private/tmp'', ''/private/var/tmp'', ''/private/var/folders'']
         \<or> list_ex (\<lambda>component. EqualFold component ''Downloads'') (split_on (CHR ''/'') (path_Clean path)))"

definition suspicious :: "bool \<Rightarrow> string \<Rightarrow> TriageSignal list" where
  "suspicious b reason = (if b then [\<lparr>ts_ID = reason, ts_Assessment = AssessmentSuspicious\<rparr>] else [])"

definition executableSignals :: "triage_env \<Rightarrow> ExecutableCandidate \<Rightarrow> FileMode \<Rightarrow> TriageSignal \<Rightarrow> TriageSignal list" where
  "executableSignals env candidate m packageSignal =
     (let base = filepath_Base (ec_Path candidate)
      in sort_key ts_ID
        (suspicious (ec_New candidate \<and> riskyExecutableLocation env (ec_Path candidate)) ''new-executable-in-temp-or-downloads''
         @ suspicious (has_mode m ModeSetuid) ''setuid-executable''
         @ suspicious (has_mode m ModeSetgid) ''setgid-executable''
         @ suspicious (has_prefix base ''.'' \<and> base \<noteq> ''.'' \<and> base \<noteq> ''..'') ''hidden-executable''
         @ (if ts_ID packageSignal \<noteq> [] then [packageSignal] else [])))"

text \<open>\<open>%04o\<close>.\<close>

fun octal_digits :: "int \<Rightarrow> string" where
  "octal_digits n = (if n < 8 then [char_of (48 + n)] else octal_digits (n div 8) @ [char_of (48 + n mod 8)])"

declare octal_digits.simps [simp del]

definition octal4 :: "int \<Rightarrow> string" where
  "octal4 n = replicate (4 - length (octal_digits n)) (CHR ''0'') @ octal_digits n"

definition normalizedMode :: "FileMode \<Rightarrow> string" where
  "normalizedMode m =
     (let v = mode_Perm m;
          v = (if has_mode m ModeSetuid then v OR 0x800 else v);
          v = (if has_mode m ModeSetgid then v OR 0x400 else v);
          v = (if has_mode m ModeSticky then v OR 0x200 else v)
      in if v > 0x1FF then CHR ''0'' # octal4 (uint v) else octal4 (uint v))"

definition ownershipFromFileInfo :: "FileInfo \<Rightarrow> FileOwnership" where
  "ownershipFromFileInfo info =
     (case fi_owner info of
        None \<Rightarrow> \<lparr>fo_Known = False, fo_UID = 0, fo_GID = 0\<rparr>
      | Some (uid, gid) \<Rightarrow> \<lparr>fo_Known = True, fo_UID = uid, fo_GID = gid\<rparr>)"

subsection \<open>The triage\<close>

record triage_state =
  tr_Executables :: "ExecutableRecord list"
  tr_coverage :: coverageAccumulator
  tr_stats :: ExecutableStats

definition tally :: "(ExecutableStats \<Rightarrow> ExecutableStats) \<Rightarrow> triage_state \<Rightarrow> triage_state" where
  "tally f st = st\<lparr>tr_stats := f (tr_stats st)\<rparr>"

definition limit_hit :: "string \<Rightarrow> string \<Rightarrow> int \<Rightarrow> int \<Rightarrow> triage_state \<Rightarrow> triage_state" where
  "limit_hit code path limit observed st = st\<lparr>tr_coverage := coverage_add code path limit observed (tr_coverage st)\<rparr>"

text \<open>How an iteration of the loop ends: with the next candidate, by leaving the loop, or by returning the error.\<close>

datatype loop_end = Continue | Break | Fail go_error

definition triage_record :: "ExecutableScanner \<Rightarrow> triage_env \<Rightarrow> ExecutableCandidate \<Rightarrow> string \<Rightarrow> FileInfo \<Rightarrow> ExecutableRecord" where
  "triage_record s env candidate digest info =
     (case lookupPackageOwnership s (ec_Path candidate) of
        (ownership, packageSignal) \<Rightarrow>
          \<lparr>er_Path = ec_Path candidate, er_SHA256 = ''sha256:'' @ digest, er_Mode = normalizedMode (fi_Mode info), er_Size = fi_Size info,
           er_Ownership = ownershipFromFileInfo info, er_PackageOwnership = ownership,
           er_Signals = executableSignals env candidate (fi_Mode info) packageSignal\<rparr>)"

definition triage_hashed :: "ExecutableScanner \<Rightarrow> triage_env \<Rightarrow> ExecutableCandidate \<Rightarrow> FileInfo \<Rightarrow> triage_state \<Rightarrow> triage_state \<times> loop_end" where
  "triage_hashed s env candidate info st =
     (let l = xs_limits s; path = ec_Path candidate; remaining = el_MaxTotalBytes l - es_BytesHashed (tr_stats st)
      in case hashExecutableBounded env path info (min (el_MaxFileBytes l) remaining) of
           (digest, bytesHashed, exceeded, openedInfo, err) \<Rightarrow>
             let st = tally (\<lambda>c. c\<lparr>es_BytesHashed := es_BytesHashed c + bytesHashed\<rparr>) st
             in case err of
                  Some err \<Rightarrow> (st, Fail err)
                | None \<Rightarrow>
               (case openedInfo of
                  None \<Rightarrow> (tally (\<lambda>c. c\<lparr>es_NonRegularSkipped := es_NonRegularSkipped c + 1\<rparr>) st, Continue)
                | Some info \<Rightarrow>
                    if exceeded then
                      (if remaining < el_MaxFileBytes l
                       then (limit_hit CoverageMaxTotalBytes path (el_MaxTotalBytes l) (es_BytesHashed (tr_stats st) + 1) st, Break)
                       else (tally (\<lambda>c. c\<lparr>es_OversizeSkipped := es_OversizeSkipped c + 1\<rparr>)
                               (limit_hit CoverageMaxFileBytes path (el_MaxFileBytes l) (bytesHashed + 1) st), Continue))
                    else (case te_ctx_after env path of
                        Some err \<Rightarrow> (st, Fail err)
                      | None \<Rightarrow>
                          (tally (\<lambda>c. c\<lparr>es_FilesTriaged := es_FilesTriaged c + 1\<rparr>)
                             (st\<lparr>tr_Executables := tr_Executables st @ [triage_record s env candidate digest info]\<rparr>), Continue))))"

definition triage_one :: "ExecutableScanner \<Rightarrow> triage_env \<Rightarrow> ExecutableCandidate \<Rightarrow> triage_state \<Rightarrow> triage_state \<times> loop_end" where
  "triage_one s env candidate st =
     (let l = xs_limits s; path = ec_Path candidate
      in case te_ctx env path of
           Some err \<Rightarrow> (st, Fail err)
         | None \<Rightarrow>
        if es_FilesConsidered (tr_stats st) \<ge> el_MaxFiles l then
          (limit_hit CoverageMaxFiles path (el_MaxFiles l) (es_FilesConsidered (tr_stats st) + 1) st, Break)
        else let st = tally (\<lambda>c. c\<lparr>es_FilesConsidered := es_FilesConsidered c + 1\<rparr>) st
          in case te_lstat env path of
               Inl err \<Rightarrow>
                 if errors_Is err os_ErrNotExist then (tally (\<lambda>c. c\<lparr>es_MissingSkipped := es_MissingSkipped c + 1\<rparr>) st, Continue)
                 else (st, Fail (Wrapf ''inspect %q: %w'' [ArgS path] err))
             | Inr info \<Rightarrow>
                 if has_mode (fi_Mode info) ModeSymlink then (tally (\<lambda>c. c\<lparr>es_SymlinksSkipped := es_SymlinksSkipped c + 1\<rparr>) st, Continue)
                 else if \<not> mode_IsRegular (fi_Mode info) then
                   (tally (\<lambda>c. c\<lparr>es_NonRegularSkipped := es_NonRegularSkipped c + 1\<rparr>) st, Continue)
                 else if \<not> executable_mode (fi_Mode info) then
                   (tally (\<lambda>c. c\<lparr>es_NonExecutableSkipped := es_NonExecutableSkipped c + 1\<rparr>) st, Continue)
                 else if fi_Size info > el_MaxFileBytes l then
                   (limit_hit CoverageMaxFileBytes path (el_MaxFileBytes l) (fi_Size info)
                      (tally (\<lambda>c. c\<lparr>es_OversizeSkipped := es_OversizeSkipped c + 1\<rparr>) st), Continue)
                 else (let remaining = el_MaxTotalBytes l - es_BytesHashed (tr_stats st)
                   in if remaining \<le> 0 \<or> fi_Size info > remaining then
                        (limit_hit CoverageMaxTotalBytes path (el_MaxTotalBytes l) (es_BytesHashed (tr_stats st) + fi_Size info) st, Break)
                      else triage_hashed s env candidate info st))"

fun triage_loop :: "ExecutableScanner \<Rightarrow> triage_env \<Rightarrow> ExecutableCandidate list \<Rightarrow> triage_state \<Rightarrow> triage_state \<times> go_error option" where
  "triage_loop s env [] st = (st, None)"
| "triage_loop s env (c # cs) st =
     (case triage_one s env c st of
        (st, Continue) \<Rightarrow> triage_loop s env cs st
      | (st, Break) \<Rightarrow> (st, None)
      | (st, Fail err) \<Rightarrow> (st, Some err))"

definition initial_triage :: triage_state where
  "initial_triage = \<lparr>tr_Executables = [], tr_coverage = newCoverageAccumulator ExecutableScannerID,
     tr_stats = \<lparr>es_FilesConsidered = 0, es_FilesTriaged = 0, es_BytesHashed = 0, es_MissingSkipped = 0, es_SymlinksSkipped = 0,
       es_NonRegularSkipped = 0, es_NonExecutableSkipped = 0, es_OversizeSkipped = 0\<rparr>\<rparr>"

text \<open>The executables are sorted when the loop has ended without an error.\<close>

definition triage_result :: "triage_state \<times> go_error option \<Rightarrow> ExecutableResult \<times> go_error option" where
  "triage_result outcome =
     (case outcome of (st, err) \<Rightarrow>
        (\<lparr>xr_Schema = ExecutableResultSchema, xr_SchemaVersion = ExecutableResultSchemaVersion, xr_ScannerID = ExecutableScannerID,
          xr_Executables = (if err = None then sort_key er_Path (tr_Executables st) else tr_Executables st),
          xr_Coverage = coverage_findings (tr_coverage st), xr_Stats = tr_stats st\<rparr>, err))"

definition Triage :: "ExecutableScanner \<Rightarrow> triage_env \<Rightarrow> ExecutableCandidate list \<Rightarrow> ExecutableResult \<times> go_error option" where
  "Triage s env candidates = triage_result
     (case te_ctx_start env of
        Some err \<Rightarrow> (initial_triage, Some err)
      | None \<Rightarrow> triage_loop s env (normalizeCandidates candidates) initial_triage)"

end
