(* ===== verification/Scanner_Executable_Props.thy ===== *)
theory Scanner_Executable_Props
  imports Scanner_Executable GoFile_Walk GoEval
begin

section \<open>What a triage guarantees\<close>

text \<open>
  It stays within its limits, accounts for every candidate it considers, and each record tells the digest and the size of
  the content that was read from a regular executable file.
\<close>

lemma tally_simps [simp]:
  "tr_Executables (tally f st) = tr_Executables st" "tr_coverage (tally f st) = tr_coverage st" "tr_stats (tally f st) = f (tr_stats st)"
  by (simp_all add: tally_def)

lemma limit_hit_simps [simp]:
  "tr_Executables (limit_hit c p l x st) = tr_Executables st" "tr_stats (limit_hit c p l x st) = tr_stats st"
  "ca_byCode (tr_coverage (limit_hit c p l x st)) \<noteq> []"
  by (auto simp: limit_hit_def coverage_add_def tbl_upsert_def tbl_update_def)

text \<open>The files that are accounted for.\<close>

definition accounted :: "ExecutableStats \<Rightarrow> int" where
  "accounted c = es_FilesTriaged c + es_MissingSkipped c + es_SymlinksSkipped c + es_NonRegularSkipped c
     + es_NonExecutableSkipped c + es_OversizeSkipped c"

text \<open>A record that tells the truth about what was read.\<close>

definition faithful_record :: "ExecutableScanner \<Rightarrow> triage_env \<Rightarrow> ExecutableRecord \<Rightarrow> bool" where
  "faithful_record s env e \<longleftrightarrow>
     (\<exists>candidate found given final h content limit t.
        te_lstat env (er_Path e) = Inr found \<and> \<not> has_mode (fi_Mode found) ModeSymlink
        \<and> te_open env (er_Path e) = Inr h \<and> op_stat h = Inr given \<and> SameFile found given
        \<and> mode_IsRegular (fi_Mode given) \<and> executable_mode (fi_Mode given)
        \<and> read_loop (\<lambda>err. Wrapf ''hash %q: %w'' [ArgS (er_Path e)] err) 65536 limit (op_reads h) [] = (content, t) \<and> t \<in> {ReadEOF, ReadLimit}
        \<and> 0 \<le> limit \<and> limit \<le> el_MaxFileBytes (xs_limits s)
        \<and> op_current h = Inr final \<and> fi_Size final = int (length content)
        \<and> e = triage_record s env candidate (hex_encode (te_sha256 env content)) final)"

lemma triage_record_path [simp]: "er_Path (triage_record s env c d i) = ec_Path c"
  by (simp add: triage_record_def split: prod.split)

definition triage_ok :: "ExecutableScanner \<Rightarrow> triage_env \<Rightarrow> triage_state \<Rightarrow> bool" where
  "triage_ok s env st \<longleftrightarrow>
     es_BytesHashed (tr_stats st) \<le> el_MaxTotalBytes (xs_limits s) \<and> es_FilesConsidered (tr_stats st) \<le> el_MaxFiles (xs_limits s)
     \<and> es_FilesTriaged (tr_stats st) = int (length (tr_Executables st))
     \<and> (\<forall>e \<in> set (tr_Executables st). faithful_record s env e)"

lemma hash_bounded:
  assumes "hashExecutableBounded env path info limit = (d, n, x, i, err)" and "0 \<le> limit"
  shows "n \<le> limit"
  using assms read_loop_bound [of "[]" limit]
  by (fastforce simp: hashExecutableBounded_def split: sum.splits if_splits prod.splits read_end.splits)

text \<open>A digest that is given back.\<close>

lemma hash_digest:
  assumes "hashExecutableBounded env path found limit = (d, n, False, Some final, None)"
  obtains h given content t where "te_open env path = Inr h" "op_stat h = Inr given" "SameFile found given"
    "mode_IsRegular (fi_Mode given)" "executable_mode (fi_Mode given)"
    "read_loop (\<lambda>err. Wrapf ''hash %q: %w'' [ArgS path] err) 65536 limit (op_reads h) [] = (content, t)" "t \<in> {ReadEOF, ReadLimit}"
    "op_current h = Inr final" "fi_Size final = int (length content)" "d = hex_encode (te_sha256 env content)"
  using assms by (auto simp: hashExecutableBounded_def split: sum.splits if_splits prod.splits read_end.splits)

text \<open>One candidate: what holds after it, and how many of the files are accounted for.\<close>

lemma triage_hashed_ok:
  assumes "triage_hashed s env candidate info st = (st', r)" and "triage_ok s env st"
    and "te_lstat env (ec_Path candidate) = Inr info" and "\<not> has_mode (fi_Mode info) ModeSymlink"
    and "0 < el_MaxFileBytes (xs_limits s)" and "es_BytesHashed (tr_stats st) < el_MaxTotalBytes (xs_limits s)"
  shows "triage_ok s env st' \<and> es_FilesConsidered (tr_stats st') = es_FilesConsidered (tr_stats st)
    \<and> (r = Continue \<longrightarrow> accounted (tr_stats st') = accounted (tr_stats st) + 1)
    \<and> (r = Break \<longrightarrow> ca_byCode (tr_coverage st') \<noteq> [])
    \<and> (ca_byCode (tr_coverage st') = [] \<longrightarrow> ca_byCode (tr_coverage st) = [])
    \<and> (ca_byCode (tr_coverage st') = [] \<longrightarrow> es_OversizeSkipped (tr_stats st') = es_OversizeSkipped (tr_stats st))"
proof -
  define remaining where "remaining = el_MaxTotalBytes (xs_limits s) - es_BytesHashed (tr_stats st)"
  define bound where "bound = min (el_MaxFileBytes (xs_limits s)) remaining"
  obtain d n x i err where hash: "hashExecutableBounded env (ec_Path candidate) info bound = (d, n, x, i, err)"
    by (metis prod_cases5)
  have pos: "0 \<le> bound" using assms(5,6) by (simp add: bound_def remaining_def)
  have n: "n \<le> remaining" using hash_bounded [OF hash pos] by (simp add: bound_def)
  note def = assms(1) [unfolded triage_hashed_def Let_def, folded remaining_def, folded bound_def, unfolded hash prod.case]
  have faithful: "faithful_record s env (triage_record s env candidate d final)" if "err = None" "x = False" "i = Some final" for final
  proof -
    from hash that have "hashExecutableBounded env (ec_Path candidate) info bound = (d, n, False, Some final, None)" by simp
    from hash_digest [OF this] assms(3,4) pos show ?thesis unfolding faithful_record_def bound_def
      by (metis (no_types, lifting) triage_record_path min.cobounded1)
  qed
  show ?thesis
    using def assms(2) n faithful by (auto simp: triage_ok_def accounted_def remaining_def split: option.splits if_splits)
qed

definition valid_executable_limits :: "ExecutableScanner \<Rightarrow> bool" where
  "valid_executable_limits s \<longleftrightarrow>
     0 < el_MaxFileBytes (xs_limits s) \<and> 0 < el_MaxTotalBytes (xs_limits s) \<and> 0 < el_MaxFiles (xs_limits s)"

definition no_coverage_yet :: "triage_state \<Rightarrow> bool" where
  "no_coverage_yet st \<longleftrightarrow> ca_byCode (tr_coverage st) = []"

lemma triage_one_ok:
  assumes "triage_one s env candidate st = (st', r)" and "triage_ok s env st" and "valid_executable_limits s"
  shows "triage_ok s env st'
    \<and> (r = Continue \<longrightarrow> es_FilesConsidered (tr_stats st') = es_FilesConsidered (tr_stats st) + 1 \<and> accounted (tr_stats st') = accounted (tr_stats st) + 1)
    \<and> (r = Break \<longrightarrow> \<not> no_coverage_yet st')
    \<and> (no_coverage_yet st' \<longrightarrow> no_coverage_yet st \<and> es_OversizeSkipped (tr_stats st') = es_OversizeSkipped (tr_stats st))"
proof -
  define st1 where "st1 = tally (\<lambda>c. c\<lparr>es_FilesConsidered := es_FilesConsidered c + 1\<rparr>) st"
  show ?thesis
  proof (cases "\<exists>info. triage_hashed s env candidate info st1 = (st', r) \<and> te_lstat env (ec_Path candidate) = Inr info
      \<and> \<not> has_mode (fi_Mode info) ModeSymlink \<and> es_BytesHashed (tr_stats st1) < el_MaxTotalBytes (xs_limits s)
      \<and> es_FilesConsidered (tr_stats st) < el_MaxFiles (xs_limits s)")
    case True
    then obtain info where info: "triage_hashed s env candidate info st1 = (st', r)" "te_lstat env (ec_Path candidate) = Inr info"
      "\<not> has_mode (fi_Mode info) ModeSymlink" "es_BytesHashed (tr_stats st1) < el_MaxTotalBytes (xs_limits s)"
      "es_FilesConsidered (tr_stats st) < el_MaxFiles (xs_limits s)" by blast
    have "triage_ok s env st1" using assms(2) info(5) by (simp add: triage_ok_def st1_def)
    moreover have "accounted (tr_stats st1) = accounted (tr_stats st)" by (simp add: accounted_def st1_def)
    ultimately show ?thesis using triage_hashed_ok [OF info(1) _ info(2,3) _ info(4)] assms(3)
      by (simp add: valid_executable_limits_def no_coverage_yet_def) (simp add: st1_def)
  next
    case False
    with assms show ?thesis
      by (auto simp: triage_one_def triage_ok_def accounted_def no_coverage_yet_def st1_def Let_def split: option.splits sum.splits if_splits)
  qed
qed

lemma triage_loop_ok:
  assumes "triage_loop s env cs st = (st', err)" and "triage_ok s env st" and "valid_executable_limits s"
  shows "triage_ok s env st'
    \<and> (no_coverage_yet st' \<longrightarrow> no_coverage_yet st \<and> es_OversizeSkipped (tr_stats st') = es_OversizeSkipped (tr_stats st)
         \<and> (err = None \<longrightarrow> es_FilesConsidered (tr_stats st') = es_FilesConsidered (tr_stats st) + int (length cs)
              \<and> accounted (tr_stats st') = accounted (tr_stats st) + int (length cs)))"
  using assms(1,2)
proof (induction cs arbitrary: st)
  case (Cons c cs)
  obtain st1 r where one: "triage_one s env c st = (st1, r)" by fastforce
  note here = triage_one_ok [OF one Cons.prems(2) assms(3)]
  show ?case
  proof (cases r)
    case Continue
    with Cons.prems(1) one have later: "triage_loop s env cs st1 = (st', err)" by simp
    with Cons.IH [OF later] here Continue show ?thesis by auto
  qed (use Cons.prems(1) one here in auto)
qed simp

lemma initial_triage_ok: "valid_executable_limits s \<Longrightarrow> triage_ok s env initial_triage"
  by (simp add: triage_ok_def initial_triage_def valid_executable_limits_def)

lemma NewExecutableScanner_valid: "NewExecutableScanner given lookup = Inr s \<Longrightarrow> valid_executable_limits s"
  by (auto simp: NewExecutableScanner_def Let_def valid_executable_limits_def split: option.splits if_splits)

lemma Triage_state:
  assumes "Triage s env cs = (r, err)" and "valid_executable_limits s"
  obtains st where "r = fst (triage_result (st, err))" "triage_ok s env st"
    "no_coverage_yet st \<longrightarrow> es_OversizeSkipped (tr_stats st) = 0
       \<and> (err = None \<longrightarrow> es_FilesConsidered (tr_stats st) = int (length (normalizeCandidates cs)) \<and> accounted (tr_stats st) = int (length (normalizeCandidates cs)))"
proof (cases "te_ctx_start env")
  case (Some e)
  then have "r = fst (triage_result (initial_triage, err))" "err = Some e" using assms(1) by (auto simp: Triage_def triage_result_def)
  with that [of initial_triage] initial_triage_ok [OF assms(2)] show thesis by (simp add: initial_triage_def)
next
  case None
  obtain st e where st: "triage_loop s env (normalizeCandidates cs) initial_triage = (st, e)" by fastforce
  with None assms(1) have "r = fst (triage_result (st, err))" "err = e" by (auto simp: Triage_def triage_result_def)
  moreover have "es_FilesConsidered (tr_stats initial_triage) = 0" "es_OversizeSkipped (tr_stats initial_triage) = 0"
      "accounted (tr_stats initial_triage) = 0"
    by (simp_all add: initial_triage_def accounted_def)
  ultimately show thesis using triage_loop_ok [OF st initial_triage_ok [OF assms(2)] assms(2)] by (intro that [of st]) auto
qed

lemma triage_no_coverage: "xr_Coverage (fst (triage_result (st, err))) = [] \<longleftrightarrow> no_coverage_yet st"
  unfolding triage_result_def no_coverage_yet_def coverage_findings_def by simp (metis length_0_conv length_sort)

subsection \<open>A sample\<close>

definition triage_info :: FileInfo where
  "triage_info = \<lparr>fi_Mode = 0x008001ED, fi_Size = 3, fi_file = 9, fi_owner = Some (0, 0)\<rparr>"

definition triage_sample_env :: triage_env where
  "triage_sample_env = \<lparr>te_sha256 = (\<lambda>c. replicate 32 7), te_cwd = Inr ''/w'', te_TempDir = ''/tmp'', te_ctx_start = None, te_ctx = (\<lambda>p. None),
     te_ctx_after = (\<lambda>p. None), te_lstat = (\<lambda>p. if p = ''/b'' then Inl os_ErrNotExist else Inr triage_info),
     te_open = (\<lambda>p. Inr \<lparr>op_stat = Inr triage_info, op_reads = [\<lparr>rd_ctx = None, rd_bytes = ''ELF'', rd_error = None\<rparr>],
       op_at_limit = Inr triage_info, op_current = Inr triage_info\<rparr>)\<rparr>"

definition triage_sample_scanner :: ExecutableScanner where
  "triage_sample_scanner = \<lparr>xs_limits = \<lparr>el_MaxFileBytes = 16, el_MaxTotalBytes = 64, el_MaxFiles = 4\<rparr>, xs_packageOwnership = None\<rparr>"

definition triage_sample :: "ExecutableResult \<times> go_error option" where
  "triage_sample = Triage triage_sample_scanner triage_sample_env
     [\<lparr>ec_Path = ''/tmp/a'', ec_New = False\<rparr>, \<lparr>ec_Path = ''/tmp//a'', ec_New = True\<rparr>, \<lparr>ec_Path = ''/b'', ec_New = False\<rparr>]"

lemma triage_sample_new:
  "NewExecutableScanner \<lparr>el_MaxFileBytes = 16, el_MaxTotalBytes = 64, el_MaxFiles = 4\<rparr> None = Inr triage_sample_scanner"
  by (simp add: NewExecutableScanner_def zero_ExecutableLimits_def triage_sample_scanner_def)

lemma triage_sample_clean: "snd triage_sample = None \<and> xr_Coverage (fst triage_sample) = [] \<and> length (xr_Executables (fst triage_sample)) = 1
    \<and> map ts_ID (er_Signals (hd (xr_Executables (fst triage_sample)))) = [''new-executable-in-temp-or-downloads'', ''package-ownership-not-checked'', ''setuid-executable'']
    \<and> er_Mode (hd (xr_Executables (fst triage_sample))) = ''04755''"
proof -
  have "(case triage_sample of (r, e) \<Rightarrow> (e, xr_Coverage r, map (\<lambda>x. (er_Mode x, map ts_ID (er_Signals x))) (xr_Executables r))) =
      (None, [], [(''04755'', [''new-executable-in-temp-or-downloads'', ''package-ownership-not-checked'', ''setuid-executable''])])"
    by code_simp
  then show ?thesis by (auto simp: case_prod_beta)
qed

lemma triage_sample_eq:
  "Triage triage_sample_scanner triage_sample_env
     [\<lparr>ec_Path = ''/tmp/a'', ec_New = False\<rparr>, \<lparr>ec_Path = ''/tmp//a'', ec_New = True\<rparr>, \<lparr>ec_Path = ''/b'', ec_New = False\<rparr>] = (fst triage_sample, None)"
  using triage_sample_clean by (simp add: triage_sample_def prod_eq_iff)

subsection \<open>The properties\<close>

text \<open>C9: A triage hashes no more than \<open>MaxTotalBytes\<close> and considers no more than \<open>MaxFiles\<close> candidates; when it ends without an error
  and without a coverage finding, it has considered every candidate, and each is triaged or counted as skipped, once.\<close>

theorem triage_accounts_for_candidates:
  assumes "NewExecutableScanner given lookup = Inr s" and "Triage s env candidates = (r, err)"
  shows "es_BytesHashed (xr_Stats r) \<le> el_MaxTotalBytes (xs_limits s) \<and> es_FilesConsidered (xr_Stats r) \<le> el_MaxFiles (xs_limits s)
    \<and> es_FilesTriaged (xr_Stats r) = int (length (xr_Executables r))
    \<and> (err = None \<and> xr_Coverage r = [] \<longrightarrow>
         es_FilesConsidered (xr_Stats r) = int (length (normalizeCandidates candidates))
         \<and> es_FilesTriaged (xr_Stats r) + es_MissingSkipped (xr_Stats r) + es_SymlinksSkipped (xr_Stats r)
             + es_NonRegularSkipped (xr_Stats r) + es_NonExecutableSkipped (xr_Stats r) = es_FilesConsidered (xr_Stats r))"
proof -
  obtain st where st: "r = fst (triage_result (st, err))" "triage_ok s env st"
    "no_coverage_yet st \<longrightarrow> es_OversizeSkipped (tr_stats st) = 0
       \<and> (err = None \<longrightarrow> es_FilesConsidered (tr_stats st) = int (length (normalizeCandidates candidates))
            \<and> accounted (tr_stats st) = int (length (normalizeCandidates candidates)))"
    using Triage_state [OF assms(2) NewExecutableScanner_valid [OF assms(1)]] by blast
  have "xr_Stats r = tr_stats st" "length (xr_Executables r) = length (tr_Executables st)" using st(1) by (simp_all add: triage_result_def)
  moreover have "xr_Coverage r = [] \<longrightarrow> no_coverage_yet st" using st(1) triage_no_coverage by simp
  ultimately show ?thesis using st(2,3) by (auto simp: triage_ok_def accounted_def)
qed

theorem triage_accounts_for_candidates_witness:
  "es_FilesTriaged (xr_Stats (fst triage_sample)) = 1 \<and> es_FilesConsidered (xr_Stats (fst triage_sample)) = 2"
proof -
  have "int (length (normalizeCandidates
      [\<lparr>ec_Path = ''/tmp/a'', ec_New = False\<rparr>, \<lparr>ec_Path = ''/tmp//a'', ec_New = True\<rparr>, \<lparr>ec_Path = ''/b'', ec_New = False\<rparr>])) = 2"
    by code_simp
  then show ?thesis using triage_accounts_for_candidates [OF triage_sample_new triage_sample_eq] triage_sample_clean by simp
qed

text \<open>C10: Each record of a triage tells the truth: its path was no symbolic link, the file that was opened is the file that was inspected, regular
  and executable; its size is that of the file in the end, at most \<open>MaxFileBytes\<close>; its digest is the SHA-256 of as many bytes, the whole
  file when no read was disturbed; a set-user-ID bit is always signalled.\<close>

theorem triage_records_faithful:
  assumes "NewExecutableScanner given lookup = Inr s" and "Triage s env candidates = (r, err)" and "e \<in> set (xr_Executables r)"
  shows "\<exists>found handle opened_info final content.
    te_lstat env (er_Path e) = Inr found \<and> \<not> has_mode (fi_Mode found) ModeSymlink
    \<and> te_open env (er_Path e) = Inr handle \<and> op_stat handle = Inr opened_info \<and> SameFile found opened_info
    \<and> mode_IsRegular (fi_Mode opened_info) \<and> executable_mode (fi_Mode opened_info)
    \<and> op_current handle = Inr final \<and> er_Size e = fi_Size final \<and> er_Size e = int (length content) \<and> er_Size e \<le> el_MaxFileBytes (xs_limits s)
    \<and> er_SHA256 e = ''sha256:'' @ hex_encode (te_sha256 env content)
    \<and> (untroubled 65536 (op_reads handle) \<and> int (length (concat (map rd_bytes (op_reads handle)))) = fi_Size final
         \<longrightarrow> content = concat (map rd_bytes (op_reads handle)))
    \<and> (has_mode (fi_Mode final) ModeSetuid \<longrightarrow> ''setuid-executable'' \<in> ts_ID ` set (er_Signals e))"
proof -
  obtain st where st: "r = fst (triage_result (st, err))" "triage_ok s env st"
    using Triage_state [OF assms(2) NewExecutableScanner_valid [OF assms(1)]] by blast
  have "e \<in> set (tr_Executables st)" using assms(3) st(1) by (auto simp: triage_result_def split: if_splits)
  with st(2) have "faithful_record s env e" by (simp add: triage_ok_def)
  then obtain candidate found handle opened_info final content limit t where
    f: "te_lstat env (er_Path e) = Inr found" "\<not> has_mode (fi_Mode found) ModeSymlink" "te_open env (er_Path e) = Inr handle"
      "op_stat handle = Inr opened_info" "SameFile found opened_info" "mode_IsRegular (fi_Mode opened_info)" "executable_mode (fi_Mode opened_info)"
      "op_current handle = Inr final" and size: "fi_Size final = int (length content)" "0 \<le> limit" "limit \<le> el_MaxFileBytes (xs_limits s)"
    and loop: "read_loop (\<lambda>err. Wrapf ''hash %q: %w'' [ArgS (er_Path e)] err) 65536 limit (op_reads handle) [] = (content, t)"
    and e: "e = triage_record s env candidate (hex_encode (te_sha256 env content)) final"
    unfolding faithful_record_def by blast
  have "int (length content) \<le> limit" using read_loop_bound [OF _ loop] size(2) by simp
  moreover have "content = concat (map rd_bytes (op_reads handle))"
    if "untroubled 65536 (op_reads handle)" "int (length (concat (map rd_bytes (op_reads handle)))) = fi_Size final"
  proof -
    let ?whole = "concat (map rd_bytes (op_reads handle))"
    have "content = take (nat limit) ?whole" using read_loop_whole [OF that(1), of "[]" limit] loop size(2) by (simp add: Let_def)
    moreover have "length ?whole = length content" using that(2) size(1) by simp
    ultimately have "content = take (nat limit) ?whole" "length ?whole \<le> nat limit" by simp_all
    then show ?thesis by (simp only: take_all)
  qed
  moreover have "er_Size e = fi_Size final" "er_SHA256 e = ''sha256:'' @ hex_encode (te_sha256 env content)"
    using e by (simp_all add: triage_record_def split: prod.splits)
  moreover have "''setuid-executable'' \<in> ts_ID ` set (er_Signals e)" if "has_mode (fi_Mode final) ModeSetuid"
    using e that by (auto simp: triage_record_def executableSignals_def suspicious_def Let_def split: prod.splits)
  ultimately show ?thesis using f size by (intro exI [of _ found] exI [of _ handle] exI [of _ opened_info] exI [of _ final] exI [of _ content]) auto
qed

theorem triage_records_faithful_witness:
  "\<exists>e \<in> set (xr_Executables (fst triage_sample)). \<exists>content. er_SHA256 e = ''sha256:'' @ hex_encode (te_sha256 triage_sample_env content)"
proof -
  have "hd (xr_Executables (fst triage_sample)) \<in> set (xr_Executables (fst triage_sample))" using triage_sample_clean by (intro hd_in_set) auto
  with triage_records_faithful [OF triage_sample_new triage_sample_eq this] show ?thesis by blast
qed

end
