(* ===== verification/Spec2Isabelle.thy ===== *)
theory Spec2Isabelle
  imports Scheduler Profile Bridge_Outcome Controller_Access Controller_Policies Managed_Exchange Intel_Props
    Scanner_Props Scanner_Executable_Props
begin

text \<open>
  A verification development for oh-my-safety: an endpoint security agent that ingests the
  results of shell checks into a local journal of findings, and a self-hosted controller that
  enrolls agents, distributes signed policies to them and collects redacted reports.

  \<^bold>\<open>The program.\<close> A scan script prints its results as lines; \<open>internal/bridge\<close> parses and validates
  them (\<open>ParseScan\<close>), and \<open>IngestScan\<close> turns each row into events that \<open>internal/journal\<close> appends to an
  SQLite log, with the current findings as a projection of the log. \<open>internal/model\<close> holds the types of
  events and findings, \<open>internal/scheduler\<close> says when a task is due, \<open>internal/profile\<close> which
  capabilities a profile grants. \<open>internal/controller\<close> is the server: principals and roles, devices,
  enrollment tokens, versioned policies, reports and an audit log behind an HTTP interface.
  \<open>internal/managed\<close> is the agent's side of it: enrollment state, the cached policy with its ledger of
  revisions, the HTTP client, and the redaction of findings before they are reported. \<open>internal/intel\<close> signs,
  verifies and installs bundles of declarative records; \<open>internal/scanner\<close> looks for secrets in files and
  describes changed executables.

  \<^bold>\<open>Theories.\<close>
  \<^item> \<open>Prelude\<close>: errors as values, tables keyed by a primary key, sorting, the locales \<open>machine\<close> (an
    invariant kept by every command) and \<open>named_registry\<close>.
  \<^item> \<open>GoText\<close>, \<open>GoTime\<close>, \<open>GoJson\<close>, \<open>GoNet\<close>, \<open>GoAddr\<close>, \<open>GoBase64\<close>, \<open>GoURL\<close>: the parts of Go's standard library
    the sources use: UTF-8 and white space, instants and their RFC 3339 text, JSON values with the decoding rules
    of \<open>encoding/json\<close> and the text it writes, paths, IP addresses and ports, base64, URLs.
  \<^item> \<open>Model\<close> (\<open>model/contracts.go\<close>): events and findings, their validation and JSON documents.
  \<^item> \<open>Scheduler\<close>, \<open>Profile\<close> (\<open>scheduler.go\<close>, \<open>profile.go\<close>).
  \<^item> \<open>Journal\<close> (\<open>journal/journal.go\<close>, \<open>sqlite.go\<close>): the two tables, \<open>Append\<close> with its projection of findings, \<open>Read\<close>,
    \<open>RebuildFindings\<close>; \<open>Journal_Facts\<close>, \<open>Journal_Refinement\<close> (an abstract journal that the tables
    simulate) and \<open>Journal_Props\<close>.
  \<^item> \<open>Bridge_Scan\<close>, \<open>Bridge_Ingest\<close> (\<open>bridge/scan.go\<close>, \<open>ingest.go\<close>, \<open>query.go\<close>) with \<open>Bridge_Scan_Props\<close>,
    \<open>Bridge_Ingest_Props\<close> and \<open>Bridge_Outcome\<close>, where ingestion runs on the journal's own operations.
  \<^item> \<open>Controller_Types\<close>, \<open>Controller_Auth\<close>, \<open>Controller_Store\<close>, \<open>Controller_Server\<close> (\<open>controller/types.go\<close>; \<open>auth.go\<close>,
    \<open>signing.go\<close>, \<open>bootstrap.go\<close>; \<open>store.go\<close>; \<open>server.go\<close>); \<open>Controller_Facts\<close>, \<open>Controller_Inv\<close> (the invariant of
    the database and the relation \<open>effect\<close>, which lists every change a request can make and who may make it),
    \<open>Controller_Samples\<close>, \<open>Controller_Props\<close>, \<open>Controller_Access\<close>, \<open>Controller_Policies\<close>.
  \<^item> \<open>Managed_State\<close>, \<open>Managed_Policy\<close>, \<open>Managed_Client\<close>, \<open>Managed_Redact\<close> (\<open>managed/state.go\<close> and
    \<open>policy_lock_unix.go\<close>; \<open>policy.go\<close>; \<open>client.go\<close>; \<open>sync.go\<close>), with \<open>Managed_Policy_Props\<close>, \<open>Managed_Policy_Cache\<close>, and
    \<open>Managed_Exchange\<close>, where the agent's client talks to the controller's server.
  \<^item> \<open>GoJsonText\<close>, \<open>GoJsonText_Facts\<close>: the parser of JSON texts, which reads back what \<open>json_text\<close> writes.
  \<^item> \<open>Intel_Bundle\<close> (\<open>intel/contract.go\<close>, \<open>canonical.go\<close>, \<open>errors.go\<close>), \<open>Intel_Sign\<close> (\<open>sign.go\<close>, \<open>trust.go\<close>), \<open>Intel_Install\<close>
    (\<open>install.go\<close>): signed bundles of declarative records, their canonical text and their installation; \<open>Intel_Facts\<close>,
    \<open>Intel_Canonical\<close>, \<open>Intel_Install_Props\<close>, \<open>Intel_Sign_Props\<close>, \<open>Intel_Samples\<close>, \<open>Intel_Props\<close>.
  \<^item> \<open>GoRegex\<close> (regular expressions as data, their matcher and what a match is), \<open>GoFile\<close> (paths, file modes, \<open>WalkDir\<close>
    over what the file system answers, bounded reads), \<open>GoFile_Walk\<close> (the locales \<open>walk_keeps\<close> and \<open>walk_covers\<close>: what a walk
    does from what its callback does), \<open>GoEval\<close> (code equations for samples).
  \<^item> \<open>Scanner_Text\<close>, \<open>Scanner_Walk\<close> (\<open>scanner/secret.go\<close>, \<open>contract.go\<close>): the inspection of a text and the bounded scan
    around it; \<open>Scanner_Text_Props\<close>, \<open>Scanner_Walk_Facts\<close>, \<open>Scanner_Walk_Props\<close>, \<open>Scanner_Props\<close>. \<open>Scanner_Executable\<close>
    (\<open>executable.go\<close>, \<open>ownership_unix.go\<close>) and \<open>Scanner_Executable_Props\<close>.

  \<^bold>\<open>How the code is modelled.\<close> A struct is a record, its fields prefixed; a string enumeration stays a string
  with its \<open>Valid\<close> method as a predicate; \<open>uint32\<close> and \<open>uint64\<close> are words; an \<open>error\<close> is a
  \<open>go_error\<close> with the message of the source, and functions that return a value and an error give a sum. A
  database is a record of tables (lists of rows) and a transaction returns its result and the new
  database, the old one when it rolls back. JSON is at the level of values: a decoder takes a
  value to a struct, \<open>json_text\<close> gives the bytes that are hashed, signed or measured. What lies outside the sources
  is an argument: SHA-256, Ed25519, random bytes, the clock, the answers of the file system and the
  outcome of each system call that writes, the transport of HTTP requests, the environment. Loops are structural recursion; the
  two that are not have fuel that is shown to be enough (\<open>ingest_returns\<close>, the time parser) or give an option
  whose definedness is a theorem (\<open>Next_within_window\<close>).

  \<^bold>\<open>What the theorems show.\<close> For the journal, that the tables refine a list of records with a map of
  findings, that the log only grows, that findings move along their lifecycle only, and that a rebuild
  gives what incremental projection gave. For the bridge, that ingesting a scan has exactly the effect
  its rows say, once. For the controller, that in every reachable database the
  invariant holds, that every change is authorised and audited, that enrollment tokens work once, that a revoked device stays
  out, that policies are valid and their updates serialised. For the agent, that it never accepts or loads an older revision of a
  policy than it has accepted, whatever system call fails in between, that what it accepts it loads, that redaction
  is the announced aggregation, and that the document it installs is the one the controller has for its group. For intelligence bundles, that a signed bundle
  verifies, that the canonical form is independent of the order of records, that a successful installation can be read back and
  was signed by a trusted key, and that no sequence of interrupted installations loses or rolls back the installed bundle. For the
  scanner, that a scan stays within its limits, that what it leaves out it says (a scan without a coverage finding has reported
  every finding of an inspection without limits, standalone tokens among them), that no finding shows a value, and that the triage of
  executables counts every candidate and tells the digest of what it read.

  \<^bold>\<open>Not modelled.\<close> Failures of the database engine; the TLS and timeout settings of the HTTP server; the
  redirects of \<open>http.ServeMux\<close> for unclean paths; concurrent processes beyond the order of whole operations (the store serialises
  its transactions, the policy files are locked); the locking fallback of platforms other than Unix, which
  always fails; in the scanner, the wrap-around at a limit of the largest integer, and entropy in binary fractions (it is a sum of
  rationals with the logarithm as an argument). Not covered: \<open>internal/exposure\<close> and \<open>internal/notifier\<close>, which
  send requests to outside services, and the commands under \<open>cmd\<close>, which parse flags and call the packages above.
\<close>

end
